(* ===== verification/Prelude.thy ===== *)
theory Prelude
  imports Main "HOL-Library.AList" "HOL-Library.Word" "HOL-Library.Sublist"
begin

text \<open>
  Shared vocabulary of the development.

  \<^item> Effects: a Go function with an error result is a state transformer that returns either
    the text of its error (\<open>err.Error()\<close>; the code inspects errors only through
    \<open>strings.Contains\<close> on that text) or its value. \<open>ret\<close>, \<open>fail\<close>, \<open>andthen\<close> (go on when
    \<open>err == nil\<close>), \<open>catch\<close> (the \<open>if err != nil\<close> branch) and \<open>attempt\<close> (an error that is only
    logged) are the ways the code strings such calls together.
  \<^item> Strings: \<open>contains\<close> is \<open>strings.Contains\<close>; \<open>decimal\<close> and \<open>pad4\<close> are the verbs \<open>%d\<close> and
    \<open>%04d\<close> of \<open>fmt\<close>, with their injectivity.
  \<^item> Go maps: association lists with the library's \<open>AList.update\<close> and \<open>AList.delete\<close>.
  \<^item> Reasoning: \<open>pres R m\<close> (every run of \<open>m\<close> relates the state before to the state after by
    \<open>R\<close>, whether or not it failed) and \<open>post P m Q\<close> (a run that succeeds from \<open>P\<close> ends in
    \<open>Q\<close>). The locale \<open>step_relation\<close> holds the rules of \<open>pres\<close> for any reflexive and
    transitive \<open>R\<close>.
\<close>

section \<open>Computations that may fail\<close>

type_synonym error = string
type_synonym ('s, 'a) io = "'s \<Rightarrow> (error + 'a) \<times> 's"

definition ret :: "'a \<Rightarrow> ('s, 'a) io" where
  "ret v s = (Inr v, s)"

definition fail :: "error \<Rightarrow> ('s, 'a) io" where
  "fail e s = (Inl e, s)"

definition andthen :: "('s, 'a) io \<Rightarrow> ('a \<Rightarrow> ('s, 'b) io) \<Rightarrow> ('s, 'b) io" where
  "andthen m k s = (case m s of (Inl e, s') \<Rightarrow> (Inl e, s') | (Inr v, s') \<Rightarrow> k v s')"

definition catch :: "('s, 'a) io \<Rightarrow> (error \<Rightarrow> ('s, 'a) io) \<Rightarrow> ('s, 'a) io" where
  "catch m h s = (case m s of (Inl e, s') \<Rightarrow> h e s' | (Inr v, s') \<Rightarrow> (Inr v, s'))"

text \<open>\<open>attempt m\<close> never fails: the outcome of \<open>m\<close>, error or value, is its value.\<close>

definition attempt :: "('s, 'a) io \<Rightarrow> ('s, error + 'a) io" where
  "attempt m s = (case m s of (r, s') \<Rightarrow> (Inr r, s'))"

text \<open>\<open>fmt.Errorf("<text>: %w", err)\<close>.\<close>

definition wrap :: "string \<Rightarrow> ('s, 'a) io \<Rightarrow> ('s, 'a) io" where
  "wrap t m = catch m (\<lambda>e. fail (t @ '': '' @ e))"

definition gets :: "('s \<Rightarrow> 'a) \<Rightarrow> ('s, 'a) io" where
  "gets f s = (Inr (f s), s)"

definition modify :: "('s \<Rightarrow> 's) \<Rightarrow> ('s, unit) io" where
  "modify f s = (Inr (), f s)"

fun for_each :: "('a \<Rightarrow> ('s, unit) io) \<Rightarrow> 'a list \<Rightarrow> ('s, unit) io" where
  "for_each f [] = ret ()"
| "for_each f (x # xs) = andthen (f x) (\<lambda>_. for_each f xs)"

lemmas io_defs = ret_def fail_def andthen_def catch_def attempt_def wrap_def gets_def modify_def

lemma andthen_Inr: "(andthen m k s = (Inr v, s')) \<longleftrightarrow>
    (\<exists>u t. m s = (Inr u, t) \<and> k u t = (Inr v, s'))"
  by (auto simp: andthen_def split: prod.splits sum.splits)

lemma wrap_Inr [simp]: "(wrap t m s = (Inr v, s')) \<longleftrightarrow> m s = (Inr v, s')"
  by (auto simp: wrap_def catch_def fail_def split: prod.splits sum.splits)

lemma ret_Inr [simp]: "(ret u s = (Inr v, s')) \<longleftrightarrow> v = u \<and> s' = s"
  by (auto simp: ret_def)

lemma fail_Inr [simp]: "\<not> (fail e s = (Inr v, s'))"
  by (auto simp: fail_def)

lemma snd_wrap [simp]: "snd (wrap t m s) = snd (m s)"
  by (auto simp: wrap_def catch_def fail_def split: prod.splits sum.splits)

section \<open>Strings\<close>

fun contains :: "string \<Rightarrow> string \<Rightarrow> bool" where
  "contains s t = (prefix t s \<or> (case s of [] \<Rightarrow> False | _ # s' \<Rightarrow> contains s' t))"

declare contains.simps [simp del]

lemma contains_iff: "contains s t \<longleftrightarrow> (\<exists>a b. s = a @ t @ b)"
proof (induction s)
  case Nil
  then show ?case by (subst contains.simps) auto
next
  case (Cons c s)
  have "(\<exists>a b. c # s = a @ t @ b) \<longleftrightarrow> prefix t (c # s) \<or> (\<exists>a b. s = a @ t @ b)"
    by (auto simp: prefix_def Cons_eq_append_conv)
  with Cons.IH show ?case by (subst contains.simps) auto
qed

lemma contains_append [intro]: "contains s t \<Longrightarrow> contains (a @ s) t"
  unfolding contains_iff by (metis append.assoc)

lemma contains_self_append [simp]: "contains (t @ s) t"
  by (auto simp: contains_iff intro: exI [of _ "[]"])

text \<open>\<open>strings.HasPrefix(s, p)\<close>.\<close>

abbreviation has_prefix :: "string \<Rightarrow> string \<Rightarrow> bool" where
  "has_prefix s p \<equiv> prefix p s"

definition digit_char :: "nat \<Rightarrow> char" where
  "digit_char d = char_of (48 + d)"

fun decimal :: "nat \<Rightarrow> string" where
  "decimal n = (if n < 10 then [digit_char n] else decimal (n div 10) @ [digit_char (n mod 10)])"

declare decimal.simps [simp del]

definition decimal_int :: "int \<Rightarrow> string" where
  "decimal_int i = (if i < 0 then ''-'' @ decimal (nat (- i)) else decimal (nat i))"

text \<open>The verb \<open>%04d\<close>: at least four digits, padded with zeros on the left.\<close>

definition pad4 :: "nat \<Rightarrow> string" where
  "pad4 n = replicate (4 - length (decimal n)) (CHR ''0'') @ decimal n"

definition number_of :: "string \<Rightarrow> nat" where
  "number_of ds = foldl (\<lambda>v c. 10 * v + (of_char c - 48)) 0 ds"

lemma of_char_digit: "d < 10 \<Longrightarrow> (of_char (digit_char d) :: nat) - 48 = d"
  by (simp add: digit_char_def)

lemma number_of_snoc [simp]: "number_of (ds @ [c]) = 10 * number_of ds + (of_char c - 48)"
  by (simp add: number_of_def)

lemma number_of_decimal [simp]: "number_of (decimal n) = n"
proof (induction n rule: decimal.induct)
  case (1 n)
  show ?case
  proof (cases "n < 10")
    case True
    then show ?thesis
      by (subst decimal.simps) (simp add: number_of_def of_char_digit)
  next
    case False
    with "1.IH" show ?thesis
      by (subst decimal.simps) (simp add: of_char_digit)
  qed
qed

lemma number_of_zeros: "number_of (replicate k (CHR ''0'') @ ds) = number_of ds"
  by (induction k) (simp_all add: number_of_def)

lemma pad4_inj [simp]: "pad4 m = pad4 n \<longleftrightarrow> m = n"
proof
  assume "pad4 m = pad4 n"
  then have "number_of (pad4 m) = number_of (pad4 n)" by simp
  then show "m = n" by (simp add: pad4_def number_of_zeros)
qed simp

lemma decimal_inj [simp]: "decimal m = decimal n \<longleftrightarrow> m = n"
  by (metis number_of_decimal)

text \<open>\<open>fmt\<close>'s \<open>%v\<close> of a slice of errors: the texts between brackets, separated by spaces.\<close>

fun sep_by :: "string \<Rightarrow> string list \<Rightarrow> string" where
  "sep_by d [] = []"
| "sep_by d [x] = x"
| "sep_by d (x # y # ys) = x @ d @ sep_by d (y # ys)"

definition show_list :: "string list \<Rightarrow> string" where
  "show_list xs = ''['' @ sep_by '' '' xs @ '']''"

section \<open>Go maps\<close>

type_synonym 'v gomap = "(string \<times> 'v) list"

abbreviation keys :: "'v gomap \<Rightarrow> string set" where
  "keys m \<equiv> fst ` set m"

abbreviation has_key :: "'v gomap \<Rightarrow> string \<Rightarrow> bool" where
  "has_key m k \<equiv> map_of m k \<noteq> None"

lemma has_key_iff: "has_key m k \<longleftrightarrow> k \<in> keys m"
  by (induction m) auto

lemma keys_update [simp]: "keys (AList.update k v m) = insert k (keys m)"
  by (induction m) auto

lemma keys_delete [simp]: "keys (AList.delete k m) = keys m - {k}"
  by (auto simp: AList.delete_eq)

lemma map_of_None_keys: "map_of m k = None \<longleftrightarrow> k \<notin> keys m"
  by (simp add: map_of_eq_None_iff)

lemma map_of_Some_keys: "map_of m k = Some v \<Longrightarrow> k \<in> keys m"
  by (metis map_of_None_keys option.distinct(1))

lemma map_of_update [simp]: "map_of (AList.update k v m) = (map_of m)(k \<mapsto> v)"
  by (rule AList.update_conv')

lemma map_of_delete [simp]: "map_of (AList.delete k m) = (map_of m)(k := None)"
  by (rule AList.delete_conv')

lemma distinct_update: "distinct (map fst m) \<Longrightarrow> distinct (map fst (AList.update k v m))"
  by (rule AList.distinct_update)

lemma distinct_delete: "distinct (map fst m) \<Longrightarrow> distinct (map fst (AList.delete k m))"
  by (simp add: AList.distinct_delete)

section \<open>Invariance and results of computations\<close>

named_theorems pres_intros \<open>rules that show \<open>pres R m\<close>\<close>

definition pres :: "('s \<Rightarrow> 's \<Rightarrow> bool) \<Rightarrow> ('s, 'a) io \<Rightarrow> bool" where
  "pres R m \<longleftrightarrow> (\<forall>s. R s (snd (m s)))"

definition post :: "('s \<Rightarrow> bool) \<Rightarrow> ('s, 'a) io \<Rightarrow> ('a \<Rightarrow> 's \<Rightarrow> bool) \<Rightarrow> bool" where
  "post P m Q \<longleftrightarrow> (\<forall>s v s'. P s \<longrightarrow> m s = (Inr v, s') \<longrightarrow> Q v s')"

lemma presI: "(\<And>s. R s (snd (m s))) \<Longrightarrow> pres R m"
  by (simp add: pres_def)

lemma presD: "pres R m \<Longrightarrow> m s = (r, s') \<Longrightarrow> R s s'"
  by (metis pres_def snd_conv)

lemma pres_mono: "pres R m \<Longrightarrow> (\<And>s s'. R s s' \<Longrightarrow> R' s s') \<Longrightarrow> pres R' m"
  by (simp add: pres_def)

lemma postI: "(\<And>s v s'. P s \<Longrightarrow> m s = (Inr v, s') \<Longrightarrow> Q v s') \<Longrightarrow> post P m Q"
  by (simp add: post_def)

lemma postD: "post P m Q \<Longrightarrow> m s = (Inr v, s') \<Longrightarrow> P s \<Longrightarrow> Q v s'"
  by (simp add: post_def)

lemma post_weaken: "post P m Q \<Longrightarrow> (\<And>v s. Q v s \<Longrightarrow> Q' v s) \<Longrightarrow> post P m Q'"
  by (auto simp: post_def)

lemma post_strengthen: "post P m Q \<Longrightarrow> (\<And>s. P' s \<Longrightarrow> P s) \<Longrightarrow> post P' m Q"
  unfolding post_def by blast

lemma post_andthen: "post P m Q \<Longrightarrow> (\<And>v. post (Q v) (k v) S) \<Longrightarrow> post P (andthen m k) S"
  unfolding post_def andthen_Inr by blast

lemma post_wrap: "post P m Q \<Longrightarrow> post P (wrap t m) Q"
  by (simp add: post_def)

lemma post_fail: "post P (fail e) Q"
  by (simp add: post_def)

lemma post_ret: "(\<And>s. P s \<Longrightarrow> Q v s) \<Longrightarrow> post P (ret v) Q"
  by (simp add: post_def)

lemma post_if: "(b \<Longrightarrow> post P m Q) \<Longrightarrow> (\<not> b \<Longrightarrow> post P m' Q) \<Longrightarrow> post P (if b then m else m') Q"
  by simp

lemma post_attempt: "(\<And>s r s'. P s \<Longrightarrow> m s = (r, s') \<Longrightarrow> Q r s') \<Longrightarrow> post P (attempt m) Q"
  by (auto simp: post_def attempt_def split: prod.splits)

text \<open>Case distinctions in a program.\<close>

lemma pres_case_sum: "(\<And>e. r = Inl e \<Longrightarrow> pres R (f e)) \<Longrightarrow> (\<And>v. r = Inr v \<Longrightarrow> pres R (g v)) \<Longrightarrow>
    pres R (case r of Inl e \<Rightarrow> f e | Inr v \<Rightarrow> g v)"
  by (cases r) simp_all

lemma pres_case_list: "(xs = [] \<Longrightarrow> pres R m) \<Longrightarrow> (\<And>y ys. xs = y # ys \<Longrightarrow> pres R (f y ys)) \<Longrightarrow>
    pres R (case xs of [] \<Rightarrow> m | y # ys \<Rightarrow> f y ys)"
  by (cases xs) simp_all

lemma pres_case_option: "(x = None \<Longrightarrow> pres R m) \<Longrightarrow> (\<And>y. x = Some y \<Longrightarrow> pres R (f y)) \<Longrightarrow>
    pres R (case x of None \<Rightarrow> m | Some y \<Rightarrow> f y)"
  by (cases x) simp_all

lemma pres_case_prod: "(\<And>a b. x = (a, b) \<Longrightarrow> pres R (f a b)) \<Longrightarrow> pres R (case x of (a, b) \<Rightarrow> f a b)"
  by (cases x) simp

lemma pres_case_bool: "(b \<Longrightarrow> pres R m) \<Longrightarrow> (\<not> b \<Longrightarrow> pres R m') \<Longrightarrow> pres R (case b of True \<Rightarrow> m | False \<Rightarrow> m')"
  by (cases b) simp_all

lemmas pres_cases = pres_case_sum pres_case_list pres_case_option pres_case_prod pres_case_bool

text \<open>Lifting a one-step relation to everything a program does with the state.\<close>

locale step_relation =
  fixes R :: "'s \<Rightarrow> 's \<Rightarrow> bool"
  assumes R_refl: "R s s"
    and R_trans: "R s t \<Longrightarrow> R t u \<Longrightarrow> R s u"
begin

lemma pres_ret: "pres R (ret v)"
  by (simp add: pres_def ret_def R_refl)

lemma pres_fail: "pres R (fail e)"
  by (simp add: pres_def fail_def R_refl)

lemma pres_gets: "pres R (gets f)"
  by (simp add: pres_def gets_def R_refl)

lemma pres_andthen: "pres R m \<Longrightarrow> (\<And>v. pres R (k v)) \<Longrightarrow> pres R (andthen m k)"
  unfolding pres_def andthen_def
  by (auto split: prod.splits sum.splits) (metis R_trans snd_conv)+

lemma pres_andthen_result:
  "pres R m \<Longrightarrow> (\<And>s v s'. m s = (Inr v, s') \<Longrightarrow> pres R (k v)) \<Longrightarrow> pres R (andthen m k)"
  unfolding pres_def andthen_def
  by (auto split: prod.splits sum.splits) (metis R_trans snd_conv)+

lemma pres_catch: "pres R m \<Longrightarrow> (\<And>e. pres R (h e)) \<Longrightarrow> pres R (catch m h)"
  unfolding pres_def catch_def
  by (auto split: prod.splits sum.splits) (metis R_trans snd_conv)+

lemma pres_attempt: "pres R m \<Longrightarrow> pres R (attempt m)"
  by (auto simp: pres_def attempt_def split: prod.splits) (metis snd_conv)

lemma pres_wrap: "pres R m \<Longrightarrow> pres R (wrap t m)"
  by (simp add: pres_def)

lemma pres_if: "(b \<Longrightarrow> pres R m) \<Longrightarrow> (\<not> b \<Longrightarrow> pres R m') \<Longrightarrow> pres R (if b then m else m')"
  by simp

lemma pres_for_each: "(\<And>x. x \<in> set xs \<Longrightarrow> pres R (f x)) \<Longrightarrow> pres R (for_each f xs)"
  by (induction xs) (auto intro: pres_ret pres_andthen)

lemmas pres_rules = pres_ret pres_fail pres_gets pres_andthen pres_catch pres_attempt
  pres_wrap pres_if pres_for_each

end

text \<open>Equality of the states is such a relation: it is the one of read-only computations.\<close>

interpretation unchanged: step_relation "\<lambda>s t. t = s"
  by unfold_locales simp_all

text \<open>So is equality of one observation of the state, for a computation that leaves it alone.\<close>

definition keeps :: "('s \<Rightarrow> 'a) \<Rightarrow> 's \<Rightarrow> 's \<Rightarrow> bool" where
  "keeps f s t \<longleftrightarrow> f t = f s"

interpretation kept: step_relation "keeps f"
  by unfold_locales (simp_all add: keeps_def)

section \<open>Trimming text\<close>

text \<open>\<open>strings.TrimSpace\<close>: the white space of Unicode, in UTF-8.\<close>

definition byte :: "nat \<Rightarrow> char" where
  "byte n = char_of n"

definition white_space :: "string list" where
  "white_space = map (\<lambda>n. [byte n]) [9, 10, 11, 12, 13, 32]
     @ [[byte 194, byte 133], [byte 194, byte 160], [byte 225, byte 154, byte 128]]
     @ map (\<lambda>n. [byte 226, byte 128, byte n]) ([128..<139] @ [168, 169, 175])
     @ [[byte 226, byte 129, byte 159], [byte 227, byte 128, byte 128]]"

function trim_left :: "string list \<Rightarrow> string \<Rightarrow> string" where
  "trim_left ws s = (case find (\<lambda>w. w \<noteq> [] \<and> prefix w s) ws of
       Some w \<Rightarrow> trim_left ws (drop (length w) s)
     | None \<Rightarrow> s)"
  by pat_completeness auto
termination
  by (relation "measure (length \<circ> snd)") (auto simp: find_Some_iff prefix_def dest: nth_mem)

declare trim_left.simps [simp del]

definition TrimSpace :: "string \<Rightarrow> string" where
  "TrimSpace s = rev (trim_left (map rev white_space) (rev (trim_left white_space s)))"

end
