(* ===== verification/Api_Types.thy ===== *)
theory Api_Types
  imports Prelude
begin

text \<open>
  The data model of \<open>api/holodeck/v1alpha1/types.go\<close>: one record per struct, in the order in
  which the structs use each other. A pointer field is an \<open>option\<close>, an \<open>int32\<close> or an \<open>int\<close> a
  word of 32 or 64 bits (read with \<open>sint\<close>), a map of strings a \<open>gomap\<close>, and a
  \<open>metav1.Duration\<close> its count of nanoseconds. The string enumerations of the source are strings
  (Go accepts any text there); their constants are abbreviations. Field names carry a prefix
  per struct, because the structs reuse each other's field names. \<open>zero_T\<close> is the Go zero value
  of struct \<open>T\<close>.
\<close>

type_synonym int32 = "32 word"
type_synonym int64 = "64 word"

record Image =
  img_Architecture :: string
  img_CreationDate :: "string option"
  img_Description :: "string option"
  img_ImageId :: "string option"
  img_ImageLocation :: "string option"
  img_Name :: "string option"
  img_OwnerId :: "string option"

definition zero_Image :: Image where
  "zero_Image = \<lparr>img_Architecture = '''',
     img_CreationDate = None,
     img_Description = None,
     img_ImageId = None,
     img_ImageLocation = None,
     img_Name = None,
     img_OwnerId = None\<rparr>"

record Instance =
  in_Type :: string
  in_Region :: string
  in_OS :: string
  in_Image :: Image
  in_IngressIpRanges :: "string list"
  in_HostUrl :: string
  in_RootVolumeSizeGB :: "int32 option"

definition zero_Instance :: Instance where
  "zero_Instance = \<lparr>in_Type = '''',
     in_Region = '''',
     in_OS = '''',
     in_Image = zero_Image,
     in_IngressIpRanges = [],
     in_HostUrl = '''',
     in_RootVolumeSizeGB = None\<rparr>"

record ControlPlaneSpec =
  cp_Count :: int32
  cp_InstanceType :: string
  cp_OS :: string
  cp_Image :: "Image option"
  cp_Dedicated :: bool
  cp_RootVolumeSizeGB :: "int32 option"
  cp_Labels :: "string gomap"

definition zero_ControlPlaneSpec :: ControlPlaneSpec where
  "zero_ControlPlaneSpec = \<lparr>cp_Count = 0,
     cp_InstanceType = '''',
     cp_OS = '''',
     cp_Image = None,
     cp_Dedicated = False,
     cp_RootVolumeSizeGB = None,
     cp_Labels = []\<rparr>"

record WorkerPoolSpec =
  wp_Count :: int32
  wp_InstanceType :: string
  wp_OS :: string
  wp_Image :: "Image option"
  wp_RootVolumeSizeGB :: "int32 option"
  wp_Labels :: "string gomap"

definition zero_WorkerPoolSpec :: WorkerPoolSpec where
  "zero_WorkerPoolSpec = \<lparr>wp_Count = 0,
     wp_InstanceType = '''',
     wp_OS = '''',
     wp_Image = None,
     wp_RootVolumeSizeGB = None,
     wp_Labels = []\<rparr>"

record HAConfig =
  ha_Enabled :: bool
  ha_EtcdTopology :: string
  ha_LoadBalancerType :: string

definition zero_HAConfig :: HAConfig where
  "zero_HAConfig = \<lparr>ha_Enabled = False,
     ha_EtcdTopology = '''',
     ha_LoadBalancerType = ''''\<rparr>"

record ClusterSpec =
  cl_Region :: string
  cl_ControlPlane :: ControlPlaneSpec
  cl_Workers :: "WorkerPoolSpec option"
  cl_HighAvailability :: "HAConfig option"

definition zero_ClusterSpec :: ClusterSpec where
  "zero_ClusterSpec = \<lparr>cl_Region = '''',
     cl_ControlPlane = zero_ControlPlaneSpec,
     cl_Workers = None,
     cl_HighAvailability = None\<rparr>"

record NodeStatus =
  ns_Name :: string
  ns_Role :: string
  ns_InstanceID :: string
  ns_PublicIP :: string
  ns_PrivateIP :: string
  ns_SSHUsername :: string
  ns_Phase :: string
  ns_Message :: string

definition zero_NodeStatus :: NodeStatus where
  "zero_NodeStatus = \<lparr>ns_Name = '''',
     ns_Role = '''',
     ns_InstanceID = '''',
     ns_PublicIP = '''',
     ns_PrivateIP = '''',
     ns_SSHUsername = '''',
     ns_Phase = '''',
     ns_Message = ''''\<rparr>"

record ClusterStatus =
  cs_Nodes :: "NodeStatus list"
  cs_ControlPlaneEndpoint :: string
  cs_LoadBalancerDNS :: string
  cs_TotalNodes :: int32
  cs_ReadyNodes :: int32
  cs_Phase :: string

definition zero_ClusterStatus :: ClusterStatus where
  "zero_ClusterStatus = \<lparr>cs_Nodes = [],
     cs_ControlPlaneEndpoint = '''',
     cs_LoadBalancerDNS = '''',
     cs_TotalNodes = 0,
     cs_ReadyNodes = 0,
     cs_Phase = ''''\<rparr>"

record ComponentProvenance =
  pv_Source :: string
  pv_Version :: string
  pv_Branch :: string
  pv_Repo :: string
  pv_Ref :: string
  pv_Commit :: string

definition zero_ComponentProvenance :: ComponentProvenance where
  "zero_ComponentProvenance = \<lparr>pv_Source = '''',
     pv_Version = '''',
     pv_Branch = '''',
     pv_Repo = '''',
     pv_Ref = '''',
     pv_Commit = ''''\<rparr>"

record ComponentsStatus =
  co_Driver :: "ComponentProvenance option"
  co_Runtime :: "ComponentProvenance option"
  co_Toolkit :: "ComponentProvenance option"
  co_Kubernetes :: "ComponentProvenance option"

definition zero_ComponentsStatus :: ComponentsStatus where
  "zero_ComponentsStatus = \<lparr>co_Driver = None,
     co_Runtime = None,
     co_Toolkit = None,
     co_Kubernetes = None\<rparr>"

record Properties =
  pr_Name :: string
  pr_Value :: string

definition zero_Properties :: Properties where
  "zero_Properties = \<lparr>pr_Name = '''',
     pr_Value = ''''\<rparr>"

text \<open>\<open>metav1.Condition\<close> of k8s.io/apimachinery, with the fields the code sets; \<open>Status\<close> is the text
  \<open>"True"\<close> or \<open>"False"\<close>.\<close>

record Condition =
  cd_Type :: string
  cd_Status :: string
  cd_Reason :: string
  cd_Message :: string
  cd_LastTransitionTime :: nat

definition zero_Condition :: Condition where
  "zero_Condition = \<lparr>cd_Type = '''',
     cd_Status = '''',
     cd_Reason = '''',
     cd_Message = '''',
     cd_LastTransitionTime = 0\<rparr>"

record EnvironmentStatus =
  st_Properties :: "Properties list"
  st_Conditions :: "Condition list"
  st_Cluster :: "ClusterStatus option"
  st_Components :: "ComponentsStatus option"

definition zero_EnvironmentStatus :: EnvironmentStatus where
  "zero_EnvironmentStatus = \<lparr>st_Properties = [],
     st_Conditions = [],
     st_Cluster = None,
     st_Components = None\<rparr>"

record BastionConfig =
  bc_Host :: string
  bc_Username :: string
  bc_PrivateKey :: string

definition zero_BastionConfig :: BastionConfig where
  "zero_BastionConfig = \<lparr>bc_Host = '''',
     bc_Username = '''',
     bc_PrivateKey = ''''\<rparr>"

record SSHConfig =
  sc_Bastion :: "BastionConfig option"
  sc_UseAgent :: bool
  sc_AgentSocket :: string
  sc_KnownHostsPolicy :: string
  sc_ConnectTimeout :: int64
  sc_HandshakeTimeout :: int64
  sc_KeepaliveInterval :: int64
  sc_MaxRetries :: int64

definition zero_SSHConfig :: SSHConfig where
  "zero_SSHConfig = \<lparr>sc_Bastion = None,
     sc_UseAgent = False,
     sc_AgentSocket = '''',
     sc_KnownHostsPolicy = '''',
     sc_ConnectTimeout = 0,
     sc_HandshakeTimeout = 0,
     sc_KeepaliveInterval = 0,
     sc_MaxRetries = 0\<rparr>"

record Auth =
  au_KeyName :: string
  au_Username :: string
  au_PublicKey :: string
  au_PrivateKey :: string
  au_SSHConfig :: "SSHConfig option"

definition zero_Auth :: Auth where
  "zero_Auth = \<lparr>au_KeyName = '''',
     au_Username = '''',
     au_PublicKey = '''',
     au_PrivateKey = '''',
     au_SSHConfig = None\<rparr>"

record DriverPackageSpec =
  dp_Branch :: string
  dp_Version :: string

definition zero_DriverPackageSpec :: DriverPackageSpec where
  "zero_DriverPackageSpec = \<lparr>dp_Branch = '''',
     dp_Version = ''''\<rparr>"

record DriverRunfileSpec =
  dr_URL :: string
  dr_Checksum :: string

definition zero_DriverRunfileSpec :: DriverRunfileSpec where
  "zero_DriverRunfileSpec = \<lparr>dr_URL = '''',
     dr_Checksum = ''''\<rparr>"

record DriverGitSpec =
  dg_Repo :: string
  dg_Ref :: string

definition zero_DriverGitSpec :: DriverGitSpec where
  "zero_DriverGitSpec = \<lparr>dg_Repo = '''',
     dg_Ref = ''''\<rparr>"

record NVIDIADriver =
  nd_Install :: bool
  nd_Source :: string
  nd_Package :: "DriverPackageSpec option"
  nd_Runfile :: "DriverRunfileSpec option"
  nd_Git :: "DriverGitSpec option"
  nd_Branch :: string
  nd_Version :: string

definition zero_NVIDIADriver :: NVIDIADriver where
  "zero_NVIDIADriver = \<lparr>nd_Install = False,
     nd_Source = '''',
     nd_Package = None,
     nd_Runfile = None,
     nd_Git = None,
     nd_Branch = '''',
     nd_Version = ''''\<rparr>"

record RuntimePackageSpec =
  rp_Version :: string

definition zero_RuntimePackageSpec :: RuntimePackageSpec where
  "zero_RuntimePackageSpec = \<lparr>rp_Version = ''''\<rparr>"

record RuntimeGitSpec =
  rg_Repo :: string
  rg_Ref :: string

definition zero_RuntimeGitSpec :: RuntimeGitSpec where
  "zero_RuntimeGitSpec = \<lparr>rg_Repo = '''',
     rg_Ref = ''''\<rparr>"

record RuntimeLatestSpec =
  rl_Track :: string
  rl_Repo :: string

definition zero_RuntimeLatestSpec :: RuntimeLatestSpec where
  "zero_RuntimeLatestSpec = \<lparr>rl_Track = '''',
     rl_Repo = ''''\<rparr>"

record ContainerRuntime =
  cr_Install :: bool
  cr_Name :: string
  cr_Source :: string
  cr_Package :: "RuntimePackageSpec option"
  cr_Git :: "RuntimeGitSpec option"
  cr_Latest :: "RuntimeLatestSpec option"
  cr_Version :: string

definition zero_ContainerRuntime :: ContainerRuntime where
  "zero_ContainerRuntime = \<lparr>cr_Install = False,
     cr_Name = '''',
     cr_Source = '''',
     cr_Package = None,
     cr_Git = None,
     cr_Latest = None,
     cr_Version = ''''\<rparr>"

record K8sReleaseSpec =
  kr_Version :: string

definition zero_K8sReleaseSpec :: K8sReleaseSpec where
  "zero_K8sReleaseSpec = \<lparr>kr_Version = ''''\<rparr>"

record K8sGitSpec =
  kg_Repo :: string
  kg_Ref :: string

definition zero_K8sGitSpec :: K8sGitSpec where
  "zero_K8sGitSpec = \<lparr>kg_Repo = '''',
     kg_Ref = ''''\<rparr>"

record K8sLatestSpec =
  kl_Track :: string
  kl_Repo :: string

definition zero_K8sLatestSpec :: K8sLatestSpec where
  "zero_K8sLatestSpec = \<lparr>kl_Track = '''',
     kl_Repo = ''''\<rparr>"

record Kubernetes =
  k_Install :: bool
  k_Source :: string
  k_Release :: "K8sReleaseSpec option"
  k_Git :: "K8sGitSpec option"
  k_Latest :: "K8sLatestSpec option"
  k_KubernetesInstaller :: string
  k_RemoteAccess :: bool
  k_KubeConfig :: string
  k_KubernetesVersion :: string
  k_KubernetesFeatures :: "string list"
  k_KubeletReleaseVersion :: string
  k_Arch :: string
  k_CniPluginsVersion :: string
  k_CalicoVersion :: string
  k_CrictlVersion :: string
  k_K8sEndpointHost :: string
  k_K8sFeatureGates :: "string list"
  k_KubeAdmConfig :: string
  k_KindConfig :: string

definition zero_Kubernetes :: Kubernetes where
  "zero_Kubernetes = \<lparr>k_Install = False,
     k_Source = '''',
     k_Release = None,
     k_Git = None,
     k_Latest = None,
     k_KubernetesInstaller = '''',
     k_RemoteAccess = False,
     k_KubeConfig = '''',
     k_KubernetesVersion = '''',
     k_KubernetesFeatures = [],
     k_KubeletReleaseVersion = '''',
     k_Arch = '''',
     k_CniPluginsVersion = '''',
     k_CalicoVersion = '''',
     k_CrictlVersion = '''',
     k_K8sEndpointHost = '''',
     k_K8sFeatureGates = [],
     k_KubeAdmConfig = '''',
     k_KindConfig = ''''\<rparr>"

record CTKPackageSpec =
  tp_Channel :: string
  tp_Version :: string

definition zero_CTKPackageSpec :: CTKPackageSpec where
  "zero_CTKPackageSpec = \<lparr>tp_Channel = '''',
     tp_Version = ''''\<rparr>"

record CTKGitSpec =
  tg_Repo :: string
  tg_Ref :: string

definition zero_CTKGitSpec :: CTKGitSpec where
  "zero_CTKGitSpec = \<lparr>tg_Repo = '''',
     tg_Ref = ''''\<rparr>"

record CTKLatestSpec =
  tl_Track :: string
  tl_Repo :: string

definition zero_CTKLatestSpec :: CTKLatestSpec where
  "zero_CTKLatestSpec = \<lparr>tl_Track = '''',
     tl_Repo = ''''\<rparr>"

record NVIDIAContainerToolkit =
  ct_Install :: bool
  ct_Source :: string
  ct_Package :: "CTKPackageSpec option"
  ct_Git :: "CTKGitSpec option"
  ct_Latest :: "CTKLatestSpec option"
  ct_EnableCDI :: bool
  ct_Version :: string

definition zero_NVIDIAContainerToolkit :: NVIDIAContainerToolkit where
  "zero_NVIDIAContainerToolkit = \<lparr>ct_Install = False,
     ct_Source = '''',
     ct_Package = None,
     ct_Git = None,
     ct_Latest = None,
     ct_EnableCDI = False,
     ct_Version = ''''\<rparr>"

record LoadBalancerSpec =
  lb_Enabled :: bool
  lb_Type :: string
  lb_HealthCheckPath :: string

definition zero_LoadBalancerSpec :: LoadBalancerSpec where
  "zero_LoadBalancerSpec = \<lparr>lb_Enabled = False,
     lb_Type = '''',
     lb_HealthCheckPath = ''''\<rparr>"

record Kernel =
  kn_Version :: string

definition zero_Kernel :: Kernel where
  "zero_Kernel = \<lparr>kn_Version = ''''\<rparr>"

record CustomTemplate =
  cu_Name :: string
  cu_Phase :: string
  cu_Inline :: string
  cu_File :: string
  cu_URL :: string
  cu_Checksum :: string
  cu_Timeout :: int64
  cu_ContinueOnError :: bool
  cu_Env :: "string gomap"

definition zero_CustomTemplate :: CustomTemplate where
  "zero_CustomTemplate = \<lparr>cu_Name = '''',
     cu_Phase = '''',
     cu_Inline = '''',
     cu_File = '''',
     cu_URL = '''',
     cu_Checksum = '''',
     cu_Timeout = 0,
     cu_ContinueOnError = False,
     cu_Env = []\<rparr>"

record EnvironmentSpec =
  sp_Provider :: string
  sp_Auth :: Auth
  sp_Instance :: Instance
  sp_Cluster :: "ClusterSpec option"
  sp_Kernel :: Kernel
  sp_NVIDIADriver :: NVIDIADriver
  sp_ContainerRuntime :: ContainerRuntime
  sp_NVIDIAContainerToolkit :: NVIDIAContainerToolkit
  sp_Kubernetes :: Kubernetes
  sp_LoadBalancer :: "LoadBalancerSpec option"
  sp_CustomTemplates :: "CustomTemplate list"

definition zero_EnvironmentSpec :: EnvironmentSpec where
  "zero_EnvironmentSpec = \<lparr>sp_Provider = '''',
     sp_Auth = zero_Auth,
     sp_Instance = zero_Instance,
     sp_Cluster = None,
     sp_Kernel = zero_Kernel,
     sp_NVIDIADriver = zero_NVIDIADriver,
     sp_ContainerRuntime = zero_ContainerRuntime,
     sp_NVIDIAContainerToolkit = zero_NVIDIAContainerToolkit,
     sp_Kubernetes = zero_Kubernetes,
     sp_LoadBalancer = None,
     sp_CustomTemplates = []\<rparr>"

text \<open>The type and object metadata of Kubernetes are reduced to the two fields the code uses, the name
  and the labels.\<close>

record Environment =
  env_Name :: string
  env_Labels :: "string gomap"
  env_Spec :: EnvironmentSpec
  env_Status :: EnvironmentStatus

definition zero_Environment :: Environment where
  "zero_Environment = \<lparr>env_Name = '''',
     env_Labels = [],
     env_Spec = zero_EnvironmentSpec,
     env_Status = zero_EnvironmentStatus\<rparr>"

section \<open>Named constants of the string enumerations\<close>

abbreviation "ProviderAWS \<equiv> ''aws''"
abbreviation "ProviderSSH \<equiv> ''ssh''"
abbreviation "ConditionProgressing \<equiv> ''Progressing''"
abbreviation "ConditionDegraded \<equiv> ''Degraded''"
abbreviation "ConditionAvailable \<equiv> ''Available''"
abbreviation "ConditionTerminated \<equiv> ''Terminated''"
abbreviation "EtcdTopologyStacked \<equiv> ''stacked''"
abbreviation "EtcdTopologyExternal \<equiv> ''external''"
abbreviation "DriverSourcePackage \<equiv> ''package''"
abbreviation "DriverSourceRunfile \<equiv> ''runfile''"
abbreviation "DriverSourceGit \<equiv> ''git''"
abbreviation "RuntimeSourcePackage \<equiv> ''package''"
abbreviation "RuntimeSourceGit \<equiv> ''git''"
abbreviation "RuntimeSourceLatest \<equiv> ''latest''"
abbreviation "ContainerRuntimeDocker \<equiv> ''docker''"
abbreviation "ContainerRuntimeContainerd \<equiv> ''containerd''"
abbreviation "ContainerRuntimeCrio \<equiv> ''crio''"
abbreviation "K8sSourceRelease \<equiv> ''release''"
abbreviation "K8sSourceGit \<equiv> ''git''"
abbreviation "K8sSourceLatest \<equiv> ''latest''"
abbreviation "CTKSourcePackage \<equiv> ''package''"
abbreviation "CTKSourceGit \<equiv> ''git''"
abbreviation "CTKSourceLatest \<equiv> ''latest''"
abbreviation "TemplatePhasePreInstall \<equiv> ''pre-install''"
abbreviation "TemplatePhasePostRuntime \<equiv> ''post-runtime''"
abbreviation "TemplatePhasePostToolkit \<equiv> ''post-toolkit''"
abbreviation "TemplatePhasePostKubernetes \<equiv> ''post-kubernetes''"
abbreviation "TemplatePhasePostInstall \<equiv> ''post-install''"

end
