(* ===== verification/Api_Validation.thy ===== *)
theory Api_Validation
  imports Api_Types
begin

text \<open>
  \<open>api/holodeck/v1alpha1/validation.go\<close> and \<open>SSHConfig.Validate\<close> of \<open>types.go\<close>. A validator
  returns \<open>None\<close> for Go's nil error and \<open>Some\<close> of a reason otherwise; nothing inspects the text
  of these errors, so the reasons are a datatype with one constructor per message, in the
  order the code tests them. A Go map is ranged over in an unspecified order: \<open>validateLabels\<close>
  gets the pairs in the order of the run. Each validator is proved equivalent to a declarative
  predicate.
\<close>

section \<open>Reasons\<close>

datatype label_error = BadLabelKey string | BadLabelValue string string

datatype node_error =
    CPCountTooSmall int | CPCountTooLarge int | CPCountEven int | CPVolumeTooSmall int
  | WorkerCountNegative int | WorkerVolumeTooSmall int

datatype ha_error = BadEtcdTopology string | ExternalEtcdUnsupported | BadLoadBalancerType string

datatype cluster_error =
    RegionRequired | ControlPlaneInvalid node_error | WorkersInvalid node_error
  | ControlPlaneLabels label_error | WorkerLabels label_error
  | HAInvalid ha_error | HANeedsThree int

datatype source_error =
    RunfileMissing | RunfileURLMissing | GitMissing | GitRefMissing | UnknownSource string
  | BadChannel string | GitOnMicrok8s | LatestOnMicrok8s

datatype ssh_error = BadKnownHostsPolicy string | NegativeRetries int | BastionHostMissing
  | SSHConfigInClusterMode

section \<open>Labels\<close>

definition alnum :: "char \<Rightarrow> bool" where
  "alnum c \<longleftrightarrow> c \<in> set ''abcdefghijklmnopqrstuvwxyzABCDEFGHIJKLMNOPQRSTUVWXYZ0123456789''"

definition label_char :: "char \<Rightarrow> bool" where
  "label_char c \<longleftrightarrow> alnum c \<or> c \<in> set ''._-/''"

text \<open>
  The regular expression \<open>^[a-zA-Z0-9]([a-zA-Z0-9._\-/]*[a-zA-Z0-9])?$\<close>: an alphanumeric
  character, then nothing or a run of label characters that ends in an alphanumeric one.
\<close>

definition k8sLabelPattern :: "string \<Rightarrow> bool" where
  "k8sLabelPattern s = (case s of [] \<Rightarrow> False
     | c # t \<Rightarrow> alnum c \<and> (t = [] \<or> (list_all label_char (butlast t) \<and> alnum (last t))))"

fun validateLabels :: "string gomap \<Rightarrow> label_error option" where
  "validateLabels [] = None"
| "validateLabels ((k, v) # ls) =
     (if \<not> k8sLabelPattern k then Some (BadLabelKey k)
      else if v \<noteq> '''' \<and> \<not> k8sLabelPattern v then Some (BadLabelValue v k)
      else validateLabels ls)"

lemma k8sLabelPattern_chars: "k8sLabelPattern s \<Longrightarrow> c \<in> set s \<Longrightarrow> label_char c"
proof -
  assume p: "k8sLabelPattern s" and c: "c \<in> set s"
  from p obtain d t where s: "s = d # t" and d: "alnum d"
      and t: "t = [] \<or> (list_all label_char (butlast t) \<and> alnum (last t))"
    by (auto simp: k8sLabelPattern_def split: list.splits)
  show "label_char c"
  proof (cases "t = []")
    case True
    with s c d show ?thesis by (simp add: label_char_def)
  next
    case False
    then have "t = butlast t @ [last t]" by simp
    then have "set t = set (butlast t) \<union> {last t}" by (metis set_append list.set(1,2))
    with False s c d t show ?thesis by (auto simp: label_char_def list_all_iff)
  qed
qed

lemma validateLabels_None:
  "validateLabels ls = None \<longleftrightarrow>
     (\<forall>(k, v) \<in> set ls. k8sLabelPattern k \<and> (v = '''' \<or> k8sLabelPattern v))"
  by (induction ls rule: validateLabels.induct) auto

section \<open>Node pools and clusters\<close>

definition ControlPlaneSpec_Validate :: "ControlPlaneSpec \<Rightarrow> node_error option" where
  "ControlPlaneSpec_Validate cp = (let n = sint (cp_Count cp) in
     if n < 1 then Some (CPCountTooSmall n)
     else if n > 7 then Some (CPCountTooLarge n)
     else if n > 1 \<and> n mod 2 = 0 then Some (CPCountEven n)
     else (case cp_RootVolumeSizeGB cp of
       Some v \<Rightarrow> if sint v < 20 then Some (CPVolumeTooSmall (sint v)) else None
     | None \<Rightarrow> None))"

definition WorkerPoolSpec_Validate :: "WorkerPoolSpec \<Rightarrow> node_error option" where
  "WorkerPoolSpec_Validate wp = (let n = sint (wp_Count wp) in
     if n < 0 then Some (WorkerCountNegative n)
     else (case wp_RootVolumeSizeGB wp of
       Some v \<Rightarrow> if sint v < 20 then Some (WorkerVolumeTooSmall (sint v)) else None
     | None \<Rightarrow> None))"

text \<open>The parameter \<open>controlPlaneCount\<close> of the source is not read by the function.\<close>

definition HAConfig_Validate :: "HAConfig \<Rightarrow> int32 \<Rightarrow> ha_error option" where
  "HAConfig_Validate ha controlPlaneCount =
     (if \<not> ha_Enabled ha then None
      else if ha_EtcdTopology ha \<noteq> '''' \<and> ha_EtcdTopology ha \<noteq> EtcdTopologyStacked
           \<and> ha_EtcdTopology ha \<noteq> EtcdTopologyExternal
        then Some (BadEtcdTopology (ha_EtcdTopology ha))
      else if ha_EtcdTopology ha = EtcdTopologyExternal then Some ExternalEtcdUnsupported
      else if ha_LoadBalancerType ha \<noteq> '''' \<and> ha_LoadBalancerType ha \<noteq> ''nlb''
           \<and> ha_LoadBalancerType ha \<noteq> ''alb''
        then Some (BadLoadBalancerType (ha_LoadBalancerType ha))
      else None)"

text \<open>
  \<open>ClusterSpec.Validate\<close>: a chain of checks, the first failing one is the result. A nil
  receiver is valid.
\<close>

fun first_error :: "'e option list \<Rightarrow> 'e option" where
  "first_error [] = None"
| "first_error (Some e # es) = Some e"
| "first_error (None # es) = first_error es"

lemma first_error_None [simp]: "first_error es = None \<longleftrightarrow> (\<forall>e \<in> set es. e = None)"
  by (induction es rule: first_error.induct) auto

definition ClusterSpec_Validate :: "ClusterSpec option \<Rightarrow> cluster_error option" where
  "ClusterSpec_Validate spec = (case spec of None \<Rightarrow> None | Some c \<Rightarrow> first_error
    [if cl_Region c = '''' then Some RegionRequired else None,
     map_option ControlPlaneInvalid (ControlPlaneSpec_Validate (cl_ControlPlane c)),
     (case cl_Workers c of None \<Rightarrow> None
      | Some w \<Rightarrow> map_option WorkersInvalid (WorkerPoolSpec_Validate w)),
     map_option ControlPlaneLabels (validateLabels (cp_Labels (cl_ControlPlane c))),
     (case cl_Workers c of None \<Rightarrow> None
      | Some w \<Rightarrow> map_option WorkerLabels (validateLabels (wp_Labels w))),
     (case cl_HighAvailability c of None \<Rightarrow> None
      | Some ha \<Rightarrow> map_option HAInvalid (HAConfig_Validate ha (cp_Count (cl_ControlPlane c)))),
     (case cl_HighAvailability c of None \<Rightarrow> None
      | Some ha \<Rightarrow> if ha_Enabled ha \<and> sint (cp_Count (cl_ControlPlane c)) < 3
                  then Some (HANeedsThree (sint (cp_Count (cl_ControlPlane c)))) else None)])"

text \<open>What a valid cluster is, said without reference to the order of the checks.\<close>

definition volume_ok :: "int32 option \<Rightarrow> bool" where
  "volume_ok v \<longleftrightarrow> (case v of None \<Rightarrow> True | Some g \<Rightarrow> sint g \<ge> 20)"

definition labels_ok :: "string gomap \<Rightarrow> bool" where
  "labels_ok ls \<longleftrightarrow> (\<forall>(k, v) \<in> set ls. k8sLabelPattern k \<and> (v = '''' \<or> k8sLabelPattern v))"

definition ha_ok :: "HAConfig \<Rightarrow> bool" where
  "ha_ok ha \<longleftrightarrow> (ha_Enabled ha \<longrightarrow>
     ha_EtcdTopology ha \<in> {'''', ''stacked''} \<and> ha_LoadBalancerType ha \<in> {'''', ''nlb'', ''alb''})"

definition cluster_ok :: "ClusterSpec \<Rightarrow> bool" where
  "cluster_ok c \<longleftrightarrow> cl_Region c \<noteq> ''''
     \<and> sint (cp_Count (cl_ControlPlane c)) \<in> {1, 3, 5, 7}
     \<and> volume_ok (cp_RootVolumeSizeGB (cl_ControlPlane c))
     \<and> labels_ok (cp_Labels (cl_ControlPlane c))
     \<and> (\<forall>w. cl_Workers c = Some w \<longrightarrow>
          sint (wp_Count w) \<ge> 0 \<and> volume_ok (wp_RootVolumeSizeGB w) \<and> labels_ok (wp_Labels w))
     \<and> (\<forall>ha. cl_HighAvailability c = Some ha \<longrightarrow>
          ha_ok ha \<and> (ha_Enabled ha \<longrightarrow> sint (cp_Count (cl_ControlPlane c)) \<noteq> 1))"

lemma odd_count: "\<not> (n < 1) \<and> \<not> (n > 7) \<and> \<not> (n > 1 \<and> n mod 2 = 0) \<longleftrightarrow> n \<in> {1, 3, 5, 7}" for n :: int
  by (simp; presburger)

lemma ControlPlaneSpec_Validate_None:
  "ControlPlaneSpec_Validate cp = None \<longleftrightarrow>
     sint (cp_Count cp) \<in> {1, 3, 5, 7} \<and> volume_ok (cp_RootVolumeSizeGB cp)"
proof -
  let ?n = "sint (cp_Count cp)"
  have "ControlPlaneSpec_Validate cp = None \<longleftrightarrow>
      (\<not> (?n < 1) \<and> \<not> (?n > 7) \<and> \<not> (?n > 1 \<and> ?n mod 2 = 0)) \<and> volume_ok (cp_RootVolumeSizeGB cp)"
    by (simp add: ControlPlaneSpec_Validate_def volume_ok_def Let_def not_less split: option.split)
  then show ?thesis by (simp only: odd_count)
qed

lemma WorkerPoolSpec_Validate_None:
  "WorkerPoolSpec_Validate wp = None \<longleftrightarrow> sint (wp_Count wp) \<ge> 0 \<and> volume_ok (wp_RootVolumeSizeGB wp)"
  by (auto simp: WorkerPoolSpec_Validate_def volume_ok_def Let_def split: option.split)

lemma HAConfig_Validate_None: "HAConfig_Validate ha n = None \<longleftrightarrow> ha_ok ha"
  by (auto simp: HAConfig_Validate_def ha_ok_def)

lemmas validators_None = ControlPlaneSpec_Validate_None WorkerPoolSpec_Validate_None
  HAConfig_Validate_None validateLabels_None

section \<open>Component sources\<close>

text \<open>An empty source selects the default of the component.\<close>

definition source_or :: "string \<Rightarrow> string \<Rightarrow> string" where
  "source_or d s = (if s = '''' then d else s)"

definition NVIDIADriver_Validate :: "NVIDIADriver \<Rightarrow> source_error option" where
  "NVIDIADriver_Validate d = (if \<not> nd_Install d then None else
     (let source = source_or DriverSourcePackage (nd_Source d) in
      if source = DriverSourcePackage then None
      else if source = DriverSourceRunfile then
        (case nd_Runfile d of None \<Rightarrow> Some RunfileMissing
         | Some r \<Rightarrow> if dr_URL r = '''' then Some RunfileURLMissing else None)
      else if source = DriverSourceGit then
        (case nd_Git d of None \<Rightarrow> Some GitMissing
         | Some g \<Rightarrow> if dg_Ref g = '''' then Some GitRefMissing else None)
      else Some (UnknownSource source)))"

definition ContainerRuntime_Validate :: "ContainerRuntime \<Rightarrow> source_error option" where
  "ContainerRuntime_Validate cr = (if \<not> cr_Install cr then None else
     (let source = source_or RuntimeSourcePackage (cr_Source cr) in
      if source = RuntimeSourcePackage then None
      else if source = RuntimeSourceGit then
        (case cr_Git cr of None \<Rightarrow> Some GitMissing
         | Some g \<Rightarrow> if rg_Ref g = '''' then Some GitRefMissing else None)
      else if source = RuntimeSourceLatest then None
      else Some (UnknownSource source)))"

definition NVIDIAContainerToolkit_Validate :: "NVIDIAContainerToolkit \<Rightarrow> source_error option" where
  "NVIDIAContainerToolkit_Validate nct = (if \<not> ct_Install nct then None else
     (let source = source_or CTKSourcePackage (ct_Source nct) in
      if source = CTKSourcePackage then
        (case ct_Package nct of None \<Rightarrow> None
         | Some p \<Rightarrow> if tp_Channel p \<noteq> '''' \<and> tp_Channel p \<noteq> ''stable'' \<and> tp_Channel p \<noteq> ''experimental''
                    then Some (BadChannel (tp_Channel p)) else None)
      else if source = CTKSourceGit then
        (case ct_Git nct of None \<Rightarrow> Some GitMissing
         | Some g \<Rightarrow> if tg_Ref g = '''' then Some GitRefMissing else None)
      else if source = CTKSourceLatest then None
      else Some (UnknownSource source)))"

definition Kubernetes_Validate :: "Kubernetes \<Rightarrow> source_error option" where
  "Kubernetes_Validate k = (if \<not> k_Install k then None else
     (let source = source_or K8sSourceRelease (k_Source k);
          installer = source_or ''kubeadm'' (k_KubernetesInstaller k) in
      if source = K8sSourceRelease then None
      else if source = K8sSourceGit then
        (if installer = ''microk8s'' then Some GitOnMicrok8s
         else (case k_Git k of None \<Rightarrow> Some GitMissing
               | Some g \<Rightarrow> if kg_Ref g = '''' then Some GitRefMissing else None))
      else if source = K8sSourceLatest then
        (if installer = ''microk8s'' then Some LatestOnMicrok8s else None)
      else Some (UnknownSource source)))"

section \<open>SSH settings\<close>

definition SSHConfig_Validate :: "SSHConfig option \<Rightarrow> ssh_error option" where
  "SSHConfig_Validate c = (case c of None \<Rightarrow> None | Some c \<Rightarrow>
     if sc_KnownHostsPolicy c \<notin> {'''', ''accept-new'', ''strict'', ''off''}
       then Some (BadKnownHostsPolicy (sc_KnownHostsPolicy c))
     else if sint (sc_MaxRetries c) < 0 then Some (NegativeRetries (sint (sc_MaxRetries c)))
     else (case sc_Bastion c of
       Some b \<Rightarrow> if bc_Host b = '''' then Some BastionHostMissing else None
     | None \<Rightarrow> None))"

definition ValidateSSHConfigMode :: "EnvironmentSpec \<Rightarrow> ssh_error option" where
  "ValidateSSHConfigMode s =
     (if sp_Cluster s \<noteq> None \<and> au_SSHConfig (sp_Auth s) \<noteq> None then Some SSHConfigInClusterMode
      else None)"

section \<open>Properties\<close>

text \<open>
  C13: \<open>ClusterSpec.Validate\<close> accepts a cluster exactly when it has a region, 1, 3, 5 or 7
  control-plane nodes (an odd number for etcd quorum), no root volume below 20 GB, no
  negative worker count, only well-formed labels, and, with high availability on, stacked etcd,
  a known load balancer type and more than one control-plane node.
\<close>

theorem ClusterSpec_Validate_iff: "ClusterSpec_Validate (Some c) = None \<longleftrightarrow> cluster_ok c"
proof -
  have split: "(\<forall>e \<in> set [a1, a2, a3, a4, a5, a6, a7]. e = None) \<longleftrightarrow>
      a1 = None \<and> a2 = None \<and> a3 = None \<and> a4 = None \<and> a5 = None \<and> a6 = None \<and> a7 = None"
    for a1 a2 a3 a4 a5 a6 a7 :: "cluster_error option"
    by simp
  show ?thesis
    unfolding ClusterSpec_Validate_def option.case first_error_None split
    by (cases "cl_Workers c"; cases "cl_HighAvailability c")
      (auto simp: validators_None cluster_ok_def labels_ok_def)
qed

text \<open>Characters a shell treats specially.\<close>

definition shell_special :: "char set" where
  "shell_special = set (''$`;&|()<>{}[]*?!#~=%^ '' @ [CHR 0x22, CHR 0x27, CHR 0x5C, CHR 0x09, CHR 0x0A, CHR 0x0D])"

lemma label_char_safe: "label_char c \<Longrightarrow> c \<notin> shell_special"
  by (auto simp: label_char_def alnum_def shell_special_def)

text \<open>
  C15: a cluster that passes \<open>ClusterSpec.Validate\<close> has no label key or value with a character
  that a shell treats specially (quotes, dollar, backquote, semicolon, ampersand, pipe,
  brackets, redirections, backslash, blanks, newline): the check does what its comment claims.
\<close>

theorem valid_labels_are_shell_safe:
  assumes "ClusterSpec_Validate (Some c) = None"
    and "(k, v) \<in> set (cp_Labels (cl_ControlPlane c))
         \<or> (\<exists>w. cl_Workers c = Some w \<and> (k, v) \<in> set (wp_Labels w))"
  shows "set (k @ v) \<inter> shell_special = {}"
proof -
  from assms have "k8sLabelPattern k \<and> (v = '''' \<or> k8sLabelPattern v)"
    unfolding ClusterSpec_Validate_def option.case first_error_None
    by (auto simp: validators_None split: option.splits)
  then have "\<forall>c \<in> set (k @ v). label_char c"
    by (auto dest: k8sLabelPattern_chars)
  then show ?thesis by (auto dest: label_char_safe)
qed

definition sample_control_plane :: ControlPlaneSpec where
  "sample_control_plane = zero_ControlPlaneSpec\<lparr>cp_Count := 3,
     cp_Labels := [(''nvidia.com/gpu'', ''true'')]\<rparr>"

definition sample_cluster :: ClusterSpec where
  "sample_cluster = zero_ClusterSpec\<lparr>cl_Region := ''us-west-1'', cl_ControlPlane := sample_control_plane\<rparr>"

lemma sample_cluster_valid: "ClusterSpec_Validate (Some sample_cluster) = None"
  by code_simp

theorem valid_labels_are_shell_safe_witness:
  "set (''nvidia.com/gpu'' @ ''true'') \<inter> shell_special = {}"
  by (rule valid_labels_are_shell_safe [OF sample_cluster_valid])
    (simp add: sample_cluster_def sample_control_plane_def)

text \<open>
  the component validators treat an empty source as the documented default: leaving the
  source out is accepted or rejected like naming \<open>package\<close> (\<open>release\<close> for Kubernetes).
\<close>

theorem empty_source_is_default:
  "NVIDIADriver_Validate (d\<lparr>nd_Source := ''''\<rparr>) = NVIDIADriver_Validate (d\<lparr>nd_Source := ''package''\<rparr>)
   \<and> ContainerRuntime_Validate (cr\<lparr>cr_Source := ''''\<rparr>) = ContainerRuntime_Validate (cr\<lparr>cr_Source := ''package''\<rparr>)
   \<and> NVIDIAContainerToolkit_Validate (t\<lparr>ct_Source := ''''\<rparr>) = NVIDIAContainerToolkit_Validate (t\<lparr>ct_Source := ''package''\<rparr>)
   \<and> Kubernetes_Validate (k\<lparr>k_Source := ''''\<rparr>) = Kubernetes_Validate (k\<lparr>k_Source := ''release''\<rparr>)"
  by (simp add: NVIDIADriver_Validate_def ContainerRuntime_Validate_def
      NVIDIAContainerToolkit_Validate_def Kubernetes_Validate_def source_or_def cong: if_cong)

text \<open>
  an installed component whose source is \<open>git\<close> passes validation exactly when it names a git
  reference, and for Kubernetes only if the installer is not microk8s.
\<close>

theorem git_source_has_ref:
  "(NVIDIADriver_Validate (d\<lparr>nd_Install := True, nd_Source := ''git''\<rparr>) = None
      \<longleftrightarrow> (\<exists>g. nd_Git d = Some g \<and> dg_Ref g \<noteq> ''''))
   \<and> (ContainerRuntime_Validate (cr\<lparr>cr_Install := True, cr_Source := ''git''\<rparr>) = None
      \<longleftrightarrow> (\<exists>g. cr_Git cr = Some g \<and> rg_Ref g \<noteq> ''''))
   \<and> (NVIDIAContainerToolkit_Validate (t\<lparr>ct_Install := True, ct_Source := ''git''\<rparr>) = None
      \<longleftrightarrow> (\<exists>g. ct_Git t = Some g \<and> tg_Ref g \<noteq> ''''))
   \<and> (Kubernetes_Validate (k\<lparr>k_Install := True, k_Source := ''git''\<rparr>) = None
      \<longleftrightarrow> k_KubernetesInstaller k \<noteq> ''microk8s'' \<and> (\<exists>g. k_Git k = Some g \<and> kg_Ref g \<noteq> ''''))"
  by (auto simp: NVIDIADriver_Validate_def ContainerRuntime_Validate_def
      NVIDIAContainerToolkit_Validate_def Kubernetes_Validate_def source_or_def
      split: option.splits)

end
