(* ===== verification/Dependency.thy ===== *)
theory Dependency
  imports Api_Types "HOL-Library.Multiset"
begin

text \<open>
  \<open>pkg/provisioner/dependency.go\<close> and \<open>pkg/provisioner/provenance.go\<close>: which provisioning
  steps run for an environment, and in which order.

  A \<open>ProvisionFunc\<close> of the source is a function value out of the table \<open>functions\<close>, or a
  closure that runs one custom template; here it is a datatype that names which one it is. The
  resolver is a record, and each of its methods a function on it. The theory shows the closed
  form of \<open>Resolve\<close>, that its result is ordered by installation phase, and which custom
  templates it keeps.
\<close>

section \<open>The resolver\<close>

datatype ProvisionFunc =
    F_kubeadm | F_kind | F_microk8s | F_containerd | F_criO | F_docker
  | F_nvdriver | F_containerToolkit | F_kernel | F_custom CustomTemplate

text \<open>The table \<open>functions\<close>, by installer name.\<close>

definition functions_table :: "(string \<times> ProvisionFunc) list" where
  "functions_table =
     [(''kubeadm'', F_kubeadm), (''kind'', F_kind), (''microk8s'', F_microk8s),
      (''containerd'', F_containerd), (''crio'', F_criO), (''docker'', F_docker),
      (''nvdriver'', F_nvdriver), (''containerToolkit'', F_containerToolkit), (''kernel'', F_kernel)]"

definition function_of :: "string \<Rightarrow> ProvisionFunc" where
  "function_of n = the (map_of functions_table n)"

record DependencyResolver =
  dr_Dependencies :: "ProvisionFunc list"
  dr_env :: Environment
  dr_baseDir :: string

definition NewDependencies :: "Environment \<Rightarrow> DependencyResolver" where
  "NewDependencies env = \<lparr>dr_Dependencies = [], dr_env = env, dr_baseDir = ''''\<rparr>"

definition SetBaseDir :: "string \<Rightarrow> DependencyResolver \<Rightarrow> DependencyResolver" where
  "SetBaseDir dir d = d\<lparr>dr_baseDir := dir\<rparr>"

definition append_dep :: "ProvisionFunc \<Rightarrow> DependencyResolver \<Rightarrow> DependencyResolver" where
  "append_dep f d = d\<lparr>dr_Dependencies := dr_Dependencies d @ [f]\<rparr>"

abbreviation dr_spec :: "DependencyResolver \<Rightarrow> EnvironmentSpec" where
  "dr_spec d \<equiv> env_Spec (dr_env d)"

definition withKubernetes :: "DependencyResolver \<Rightarrow> DependencyResolver" where
  "withKubernetes d = (let i = k_KubernetesInstaller (sp_Kubernetes (dr_spec d)) in
     if i = ''kubeadm'' then append_dep (function_of ''kubeadm'') d
     else if i = ''kind'' then append_dep (function_of ''kind'') d
     else if i = ''microk8s'' then
       append_dep (function_of ''microk8s'') (d\<lparr>dr_Dependencies := []\<rparr>)
     else append_dep (function_of ''kubeadm'') d)"

definition withContainerRuntime :: "DependencyResolver \<Rightarrow> DependencyResolver" where
  "withContainerRuntime d = (let n = cr_Name (sp_ContainerRuntime (dr_spec d)) in
     if n = ''containerd'' then append_dep (function_of ''containerd'') d
     else if n = ''crio'' then append_dep (function_of ''crio'') d
     else if n = ''docker'' then append_dep (function_of ''docker'') d
     else append_dep (function_of ''containerd'') d)"

definition withContainerToolkit :: "DependencyResolver \<Rightarrow> DependencyResolver" where
  "withContainerToolkit d = append_dep (function_of ''containerToolkit'') d"

definition withNVDriver :: "DependencyResolver \<Rightarrow> DependencyResolver" where
  "withNVDriver d = append_dep (function_of ''nvdriver'') d"

definition withKernel :: "DependencyResolver \<Rightarrow> DependencyResolver" where
  "withKernel d = append_dep (function_of ''kernel'') d"

text \<open>The loop over the custom templates, with the default phase of the source.\<close>

definition template_phase :: "CustomTemplate \<Rightarrow> string" where
  "template_phase ct = (if cu_Phase ct = '''' then TemplatePhasePostInstall else cu_Phase ct)"

fun add_templates :: "string \<Rightarrow> CustomTemplate list \<Rightarrow> DependencyResolver \<Rightarrow> DependencyResolver" where
  "add_templates phase [] d = d"
| "add_templates phase (ct # cts) d =
     (if template_phase ct \<noteq> phase then add_templates phase cts d
      else add_templates phase cts (append_dep (F_custom ct) d))"

definition addCustomTemplates :: "string \<Rightarrow> DependencyResolver \<Rightarrow> DependencyResolver" where
  "addCustomTemplates phase d = add_templates phase (sp_CustomTemplates (dr_spec d)) d"

definition kind_docker_version :: string where
  "kind_docker_version = ''5:24.0.0-1~ubuntu.22.04~jammy''"

definition ensureKindCompatibleDocker :: "DependencyResolver \<Rightarrow> DependencyResolver" where
  "ensureKindCompatibleDocker d =
     (let s = dr_spec d; k = sp_Kubernetes s; r = sp_ContainerRuntime s in
      if k_Install k \<and> k_KubernetesInstaller k = ''kind''
         \<and> (k_Source k = ''git'' \<or> k_Source k = ''latest'')
      then if cr_Install r \<and> cr_Name r = ''docker'' \<and> cr_Version r = ''''
           then d\<lparr>dr_env := (dr_env d)\<lparr>env_Spec := s\<lparr>sp_ContainerRuntime :=
                    r\<lparr>cr_Version := kind_docker_version\<rparr>\<rparr>\<rparr>\<rparr>
           else d
      else d)"

text \<open>\<open>Resolve\<close>, statement by statement; the result is the dependency list of the last state.\<close>

definition Resolve :: "DependencyResolver \<Rightarrow> ProvisionFunc list \<times> DependencyResolver" where
  "Resolve d0 =
     (let d1 = addCustomTemplates TemplatePhasePreInstall d0;
          d2 = (if kn_Version (sp_Kernel (dr_spec d1)) \<noteq> '''' then withKernel d1 else d1);
          d3 = (if nd_Install (sp_NVIDIADriver (dr_spec d2)) then withNVDriver d2 else d2);
          d4 = ensureKindCompatibleDocker d3;
          d5 = (if cr_Install (sp_ContainerRuntime (dr_spec d4)) then withContainerRuntime d4 else d4);
          d6 = addCustomTemplates TemplatePhasePostRuntime d5;
          d7 = (if ct_Install (sp_NVIDIAContainerToolkit (dr_spec d6)) then withContainerToolkit d6 else d6);
          d8 = addCustomTemplates TemplatePhasePostToolkit d7;
          d9 = (if k_Install (sp_Kubernetes (dr_spec d8)) then withKubernetes d8 else d8);
          d10 = addCustomTemplates TemplatePhasePostKubernetes d9;
          d11 = addCustomTemplates TemplatePhasePostInstall d10
      in (dr_Dependencies d11, d11))"

section \<open>Lemmas\<close>

lemma functions_eval [simp]:
  "function_of ''kubeadm'' = F_kubeadm" "function_of ''kind'' = F_kind"
  "function_of ''microk8s'' = F_microk8s" "function_of ''containerd'' = F_containerd"
  "function_of ''crio'' = F_criO" "function_of ''docker'' = F_docker"
  "function_of ''nvdriver'' = F_nvdriver" "function_of ''containerToolkit'' = F_containerToolkit"
  "function_of ''kernel'' = F_kernel"
  by (simp_all add: function_of_def functions_table_def)

abbreviation templates_of :: "Environment \<Rightarrow> string \<Rightarrow> ProvisionFunc list" where
  "templates_of env phase \<equiv>
     map F_custom (filter (\<lambda>ct. template_phase ct = phase) (sp_CustomTemplates (env_Spec env)))"

lemma append_dep_simps [simp]:
  "dr_Dependencies (append_dep f d) = dr_Dependencies d @ [f]"
  "dr_env (append_dep f d) = dr_env d"
  "dr_baseDir (append_dep f d) = dr_baseDir d"
  by (simp_all add: append_dep_def)

lemma add_templates_eq:
  "dr_Dependencies (add_templates phase cts d) =
     dr_Dependencies d @ map F_custom (filter (\<lambda>ct. template_phase ct = phase) cts)
   \<and> dr_env (add_templates phase cts d) = dr_env d"
  by (induction phase cts d rule: add_templates.induct) simp_all

lemma addCustomTemplates_simps [simp]:
  "dr_Dependencies (addCustomTemplates phase d) = dr_Dependencies d @ templates_of (dr_env d) phase"
  "dr_env (addCustomTemplates phase d) = dr_env d"
  by (simp_all add: addCustomTemplates_def add_templates_eq)

text \<open>Which step installs the container runtime and Kubernetes.\<close>

definition runtime_step :: "EnvironmentSpec \<Rightarrow> ProvisionFunc" where
  "runtime_step s = (let n = cr_Name (sp_ContainerRuntime s) in
     if n = ''crio'' then F_criO else if n = ''docker'' then F_docker else F_containerd)"

definition kubernetes_step :: "EnvironmentSpec \<Rightarrow> ProvisionFunc" where
  "kubernetes_step s = (let i = k_KubernetesInstaller (sp_Kubernetes s) in
     if i = ''kind'' then F_kind else if i = ''microk8s'' then F_microk8s else F_kubeadm)"

definition uses_microk8s :: "EnvironmentSpec \<Rightarrow> bool" where
  "uses_microk8s s \<longleftrightarrow> k_Install (sp_Kubernetes s) \<and> k_KubernetesInstaller (sp_Kubernetes s) = ''microk8s''"

lemma withContainerRuntime_simps [simp]:
  "dr_Dependencies (withContainerRuntime d) = dr_Dependencies d @ [runtime_step (dr_spec d)]"
  "dr_env (withContainerRuntime d) = dr_env d"
  by (auto simp: withContainerRuntime_def runtime_step_def Let_def)

lemma withKubernetes_simps [simp]:
  "dr_Dependencies (withKubernetes d) =
     (if k_KubernetesInstaller (sp_Kubernetes (dr_spec d)) = ''microk8s'' then []
      else dr_Dependencies d) @ [kubernetes_step (dr_spec d)]"
  "dr_env (withKubernetes d) = dr_env d"
  by (auto simp: withKubernetes_def kubernetes_step_def Let_def)

lemma with_simps [simp]:
  "dr_Dependencies (withKernel d) = dr_Dependencies d @ [F_kernel]" "dr_env (withKernel d) = dr_env d"
  "dr_Dependencies (withNVDriver d) = dr_Dependencies d @ [F_nvdriver]" "dr_env (withNVDriver d) = dr_env d"
  "dr_Dependencies (withContainerToolkit d) = dr_Dependencies d @ [F_containerToolkit]"
  "dr_env (withContainerToolkit d) = dr_env d"
  by (simp_all add: withKernel_def withNVDriver_def withContainerToolkit_def)

text \<open>\<open>ensureKindCompatibleDocker\<close> changes nothing the rest of \<open>Resolve\<close> looks at.\<close>

lemma ensureKind_simps [simp]:
  "dr_Dependencies (ensureKindCompatibleDocker d) = dr_Dependencies d"
  "cr_Install (sp_ContainerRuntime (dr_spec (ensureKindCompatibleDocker d))) = cr_Install (sp_ContainerRuntime (dr_spec d))"
  "runtime_step (dr_spec (ensureKindCompatibleDocker d)) = runtime_step (dr_spec d)"
  "sp_NVIDIAContainerToolkit (dr_spec (ensureKindCompatibleDocker d)) = sp_NVIDIAContainerToolkit (dr_spec d)"
  "sp_Kubernetes (dr_spec (ensureKindCompatibleDocker d)) = sp_Kubernetes (dr_spec d)"
  "kubernetes_step (dr_spec (ensureKindCompatibleDocker d)) = kubernetes_step (dr_spec d)"
  "sp_CustomTemplates (dr_spec (ensureKindCompatibleDocker d)) = sp_CustomTemplates (dr_spec d)"
  by (auto simp: ensureKindCompatibleDocker_def Let_def runtime_step_def kubernetes_step_def)

lemma cond_append [simp]:
  "dr_Dependencies (if b then f d else d) = (if b then dr_Dependencies (f d) else dr_Dependencies d)"
  "dr_env (if b then f d else d) = (if b then dr_env (f d) else dr_env d)"
  by simp_all

text \<open>The part of the list that a microk8s installation throws away.\<close>

definition before_kubernetes :: "Environment \<Rightarrow> ProvisionFunc list" where
  "before_kubernetes env = (let s = env_Spec env in
     templates_of env TemplatePhasePreInstall
     @ (if kn_Version (sp_Kernel s) \<noteq> '''' then [F_kernel] else [])
     @ (if nd_Install (sp_NVIDIADriver s) then [F_nvdriver] else [])
     @ (if cr_Install (sp_ContainerRuntime s) then [runtime_step s] else [])
     @ templates_of env TemplatePhasePostRuntime
     @ (if ct_Install (sp_NVIDIAContainerToolkit s) then [F_containerToolkit] else [])
     @ templates_of env TemplatePhasePostToolkit)"

definition from_kubernetes :: "Environment \<Rightarrow> ProvisionFunc list" where
  "from_kubernetes env = (let s = env_Spec env in
     (if k_Install (sp_Kubernetes s) then [kubernetes_step s] else [])
     @ templates_of env TemplatePhasePostKubernetes
     @ templates_of env TemplatePhasePostInstall)"

lemma Resolve_eq:
  "fst (Resolve (NewDependencies env)) =
     (if uses_microk8s (env_Spec env) then [] else before_kubernetes env) @ from_kubernetes env"
  by (simp add: Resolve_def NewDependencies_def before_kubernetes_def from_kubernetes_def
      uses_microk8s_def Let_def cong: if_cong)

text \<open>The installation phase of a step, as a number.\<close>

fun phase_rank :: "ProvisionFunc \<Rightarrow> nat" where
  "phase_rank F_kernel = 1"
| "phase_rank F_nvdriver = 2"
| "phase_rank F_containerd = 3"
| "phase_rank F_criO = 3"
| "phase_rank F_docker = 3"
| "phase_rank F_containerToolkit = 5"
| "phase_rank F_kubeadm = 7"
| "phase_rank F_kind = 7"
| "phase_rank F_microk8s = 7"
| "phase_rank (F_custom ct) =
     (let p = template_phase ct in
      if p = TemplatePhasePreInstall then 0
      else if p = TemplatePhasePostRuntime then 4
      else if p = TemplatePhasePostToolkit then 6
      else if p = TemplatePhasePostKubernetes then 8 else 9)"

lemma rank_templates: "x \<in> set (templates_of env p) \<Longrightarrow> phase_rank x =
    (if p = TemplatePhasePreInstall then 0 else if p = TemplatePhasePostRuntime then 4
     else if p = TemplatePhasePostToolkit then 6 else if p = TemplatePhasePostKubernetes then 8 else 9)"
  by (auto simp: Let_def)

lemma sorted_same: "(\<And>x. x \<in> set xs \<Longrightarrow> f x = c) \<Longrightarrow> sorted (map f xs)" for c :: nat
  by (induction xs) auto

lemma sorted_map_append: "sorted (map f (xs @ ys)) \<longleftrightarrow>
    sorted (map f xs) \<and> sorted (map f ys) \<and> (\<forall>x \<in> set xs. \<forall>y \<in> set ys. f x \<le> f y)" for f :: "_ \<Rightarrow> nat"
  by (auto simp: sorted_append)

lemma rank_steps [simp]: "phase_rank (runtime_step s) = 3" "phase_rank (kubernetes_step s) = 7"
  by (simp_all add: runtime_step_def kubernetes_step_def Let_def)

lemma rank_before: "x \<in> set (before_kubernetes env) \<Longrightarrow> phase_rank x \<le> 6"
  by (auto simp: before_kubernetes_def Let_def split: if_splits)

lemma rank_from: "x \<in> set (from_kubernetes env) \<Longrightarrow> 7 \<le> phase_rank x"
  by (auto simp: from_kubernetes_def Let_def split: if_splits)

lemmas templates_sorted = sorted_same [of "templates_of env p" phase_rank, OF rank_templates] for env p

lemma sorted_before: "sorted (map phase_rank (before_kubernetes env))"
  unfolding before_kubernetes_def Let_def sorted_map_append
  by (intro conjI templates_sorted) (auto split: if_splits simp: Let_def)

lemma sorted_from: "sorted (map phase_rank (from_kubernetes env))"
  unfolding from_kubernetes_def Let_def sorted_map_append
  by (intro conjI templates_sorted) (auto split: if_splits simp: Let_def)

section \<open>Properties\<close>

text \<open>
  C12: \<open>Resolve\<close> lists the provisioning steps in phase order, whatever is installed: pre-install
  templates, kernel, driver, container runtime, post-runtime templates, container toolkit,
  post-toolkit templates, Kubernetes, post-kubernetes and post-install templates.
\<close>

theorem Resolve_in_phase_order:
  "sorted (map phase_rank (fst (Resolve (NewDependencies env))))"
proof -
  have "phase_rank x \<le> phase_rank y"
    if "x \<in> set (before_kubernetes env)" "y \<in> set (from_kubernetes env)" for x y
    using rank_before [OF that(1)] rank_from [OF that(2)] by linarith
  then show ?thesis
    by (simp add: Resolve_eq sorted_map_append sorted_before sorted_from del: map_append)
qed

definition is_custom :: "ProvisionFunc \<Rightarrow> bool" where
  "is_custom f = (case f of F_custom _ \<Rightarrow> True | _ \<Rightarrow> False)"

definition known_phases :: "string list" where
  "known_phases = [TemplatePhasePreInstall, TemplatePhasePostRuntime, TemplatePhasePostToolkit,
     TemplatePhasePostKubernetes, TemplatePhasePostInstall]"

lemma is_custom_simps [simp]:
  "is_custom (F_custom ct)" "\<not> is_custom F_kernel" "\<not> is_custom F_nvdriver"
  "\<not> is_custom F_containerToolkit" "\<not> is_custom (runtime_step s)" "\<not> is_custom (kubernetes_step s)"
  by (simp_all add: is_custom_def runtime_step_def kubernetes_step_def Let_def)

lemma filter_custom_map [simp]: "filter is_custom (map F_custom cts) = map F_custom cts"
  by (induction cts) auto

lemma filter_custom_if [simp]:
  "filter is_custom (if b then [f] else []) = (if b \<and> is_custom f then [f] else [])"
  by (cases b) simp_all

lemma filter_custom_parts:
  "filter is_custom (before_kubernetes env) = templates_of env TemplatePhasePreInstall
     @ templates_of env TemplatePhasePostRuntime @ templates_of env TemplatePhasePostToolkit"
  "filter is_custom (from_kubernetes env) =
     templates_of env TemplatePhasePostKubernetes @ templates_of env TemplatePhasePostInstall"
  by (simp_all add: before_kubernetes_def from_kubernetes_def Let_def split del: if_split)

lemma filter_phases_mset:
  "distinct ps \<Longrightarrow>
   (\<Sum>p \<leftarrow> ps. mset (filter (\<lambda>x. f x = p) xs)) = mset (filter (\<lambda>x. f x \<in> set ps) xs)"
  for f :: "'x \<Rightarrow> 'p"
proof (induction ps)
  case (Cons p ps)
  have "mset (filter (\<lambda>x. f x \<in> set (p # ps)) xs) =
      mset (filter (\<lambda>x. f x = p) xs) + mset (filter (\<lambda>x. f x \<in> set ps) xs)"
    using Cons.prems by (induction xs) auto
  with Cons show ?case by simp
qed simp

lemma distinct_phases: "distinct known_phases"
  by (simp add: known_phases_def)

text \<open>
  Unless microk8s is installed, \<open>Resolve\<close> keeps every custom template of a known phase
  exactly once, and adds no other.
\<close>

theorem Resolve_keeps_templates:
  assumes "\<not> uses_microk8s (env_Spec env)"
  shows "mset (filter is_custom (fst (Resolve (NewDependencies env)))) =
    image_mset F_custom (mset (filter (\<lambda>ct. template_phase ct \<in> set known_phases)
      (sp_CustomTemplates (env_Spec env))))"
proof -
  let ?of = "\<lambda>p. mset (filter (\<lambda>ct. template_phase ct = p) (sp_CustomTemplates (env_Spec env)))"
  have "filter is_custom (fst (Resolve (NewDependencies env))) =
      concat (map (templates_of env) known_phases)"
    using assms by (simp add: Resolve_eq filter_custom_parts known_phases_def)
  then have "mset (filter is_custom (fst (Resolve (NewDependencies env)))) =
      image_mset F_custom (\<Sum>p \<leftarrow> known_phases. ?of p)"
    by (simp add: known_phases_def del: filter.simps)
  then show ?thesis by (simp only: filter_phases_mset [OF distinct_phases])
qed

definition sample_template :: CustomTemplate where
  "sample_template = zero_CustomTemplate\<lparr>cu_Name := ''warmup'', cu_Phase := ''pre-install'', cu_Inline := ''true''\<rparr>"

definition sample_env :: "string \<Rightarrow> Environment" where
  "sample_env installer = zero_Environment\<lparr>env_Spec := zero_EnvironmentSpec\<lparr>
     sp_Kernel := \<lparr>kn_Version = ''6.8.0''\<rparr>,
     sp_NVIDIADriver := zero_NVIDIADriver\<lparr>nd_Install := True\<rparr>,
     sp_Kubernetes := zero_Kubernetes\<lparr>k_Install := True, k_KubernetesInstaller := installer\<rparr>,
     sp_CustomTemplates := [sample_template]\<rparr>\<rparr>"

theorem Resolve_keeps_templates_witness:
  "mset (filter is_custom (fst (Resolve (NewDependencies (sample_env ''kubeadm''))))) =
     {#F_custom sample_template#}"
proof -
  have "\<not> uses_microk8s (env_Spec (sample_env ''kubeadm''))"
    by (simp add: uses_microk8s_def sample_env_def)
  from Resolve_keeps_templates [OF this] show ?thesis
    by (simp add: sample_env_def sample_template_def template_phase_def known_phases_def)
qed

text \<open>
  with the microk8s installer \<open>Resolve\<close> forgets every step before Kubernetes: the requested
  kernel, driver, runtime and toolkit steps and the pre-install, post-runtime and post-toolkit
  custom templates do not run.
\<close>

theorem microk8s_discards_earlier_steps:
  assumes "uses_microk8s (env_Spec env)"
  shows "fst (Resolve (NewDependencies env)) =
    F_microk8s # templates_of env TemplatePhasePostKubernetes
      @ templates_of env TemplatePhasePostInstall"
  using assms
  by (simp add: Resolve_eq from_kubernetes_def uses_microk8s_def kubernetes_step_def Let_def)

theorem microk8s_discards_earlier_steps_witness:
  "fst (Resolve (NewDependencies (sample_env ''microk8s''))) = [F_microk8s]"
proof -
  have "uses_microk8s (env_Spec (sample_env ''microk8s''))"
    by (simp add: uses_microk8s_def sample_env_def)
  from microk8s_discards_earlier_steps [OF this] show ?thesis
    by (simp add: sample_env_def sample_template_def template_phase_def)
qed

lemma ensureKind_cong:
  "dr_env d = dr_env d' \<Longrightarrow>
   dr_env (ensureKindCompatibleDocker d) = dr_env (ensureKindCompatibleDocker d')"
  by (auto simp add: ensureKindCompatibleDocker_def Let_def)

lemma if_with_env [simp]:
  "dr_env (if b then withKernel d else d) = dr_env d"
  "dr_env (if b then withNVDriver d else d) = dr_env d"
  "dr_env (if b then withContainerRuntime d else d) = dr_env d"
  "dr_env (if b then withContainerToolkit d else d) = dr_env d"
  "dr_env (if b then withKubernetes d else d) = dr_env d"
  by simp_all

lemma Resolve_env_ensure:
  "dr_env (snd (Resolve (NewDependencies env))) =
   dr_env (ensureKindCompatibleDocker (NewDependencies env))"
  by (simp add: Resolve_def Let_def del: cond_append split del: if_split)
    (rule ensureKind_cong, simp del: cond_append split del: if_split)

text \<open>
  \<open>Resolve\<close> changes the environment only for a kind cluster built from source on docker
  without a chosen version, and there only the docker version.
\<close>

theorem Resolve_environment:
  "dr_env (snd (Resolve (NewDependencies env))) =
    (let s = env_Spec env; k = sp_Kubernetes s; r = sp_ContainerRuntime s in
     if k_Install k \<and> k_KubernetesInstaller k = ''kind'' \<and> k_Source k \<in> {''git'', ''latest''}
        \<and> cr_Install r \<and> cr_Name r = ''docker'' \<and> cr_Version r = ''''
     then env\<lparr>env_Spec := s\<lparr>sp_ContainerRuntime := r\<lparr>cr_Version := kind_docker_version\<rparr>\<rparr>\<rparr>
     else env)"
  unfolding Resolve_env_ensure
  by (auto simp: ensureKindCompatibleDocker_def NewDependencies_def Let_def)

end
