(* ===== verification/Provenance.thy ===== *)
theory Provenance
  imports Api_Types
begin

text \<open>
  \<open>pkg/provisioner/provenance.go\<close>: the provenance of the installed components that the command
  line shows, computed from the specification.
\<close>

definition driver_provenance :: "NVIDIADriver \<Rightarrow> ComponentProvenance" where
  "driver_provenance d = zero_ComponentProvenance\<lparr>pv_Source := ''package'',
     pv_Version := nd_Version d, pv_Branch := nd_Branch d\<rparr>"

definition runtime_provenance :: "ContainerRuntime \<Rightarrow> ComponentProvenance" where
  "runtime_provenance cr = zero_ComponentProvenance\<lparr>pv_Source := ''package'', pv_Version := cr_Version cr\<rparr>"

definition toolkit_provenance :: "NVIDIAContainerToolkit \<Rightarrow> ComponentProvenance" where
  "toolkit_provenance nct =
     (let prov = zero_ComponentProvenance\<lparr>pv_Source := (if ct_Source nct \<noteq> '''' then ct_Source nct else ''package'')\<rparr> in
      if pv_Source prov = ''package'' then
        (case ct_Package nct of Some p \<Rightarrow> prov\<lparr>pv_Version := tp_Version p\<rparr>
         | None \<Rightarrow> if ct_Version nct \<noteq> '''' then prov\<lparr>pv_Version := ct_Version nct\<rparr> else prov)
      else if pv_Source prov = ''git'' then
        (case ct_Git nct of Some g \<Rightarrow> prov\<lparr>pv_Repo := tg_Repo g, pv_Ref := tg_Ref g\<rparr> | None \<Rightarrow> prov)
      else if pv_Source prov = ''latest'' then
        (case ct_Latest nct of Some l \<Rightarrow> prov\<lparr>pv_Branch := tl_Track l, pv_Repo := tl_Repo l\<rparr> | None \<Rightarrow> prov)
      else prov)"

definition kubernetes_provenance :: "Kubernetes \<Rightarrow> ComponentProvenance" where
  "kubernetes_provenance k =
     (let prov = zero_ComponentProvenance\<lparr>pv_Source := (if k_Source k \<noteq> '''' then k_Source k else ''release'')\<rparr> in
      if pv_Source prov = ''release'' then
        (case k_Release k of Some r \<Rightarrow> prov\<lparr>pv_Version := kr_Version r\<rparr>
         | None \<Rightarrow> if k_KubernetesVersion k \<noteq> '''' then prov\<lparr>pv_Version := k_KubernetesVersion k\<rparr> else prov)
      else if pv_Source prov = ''git'' then
        (case k_Git k of Some g \<Rightarrow> prov\<lparr>pv_Repo := kg_Repo g, pv_Ref := kg_Ref g\<rparr> | None \<Rightarrow> prov)
      else if pv_Source prov = ''latest'' then
        (case k_Latest k of Some l \<Rightarrow> prov\<lparr>pv_Branch := kl_Track l, pv_Repo := kl_Repo l\<rparr> | None \<Rightarrow> prov)
      else prov)"

text \<open>\<open>when_installed i p\<close> fills a component's slot if the component is installed.\<close>

definition when_installed :: "bool \<Rightarrow> ComponentProvenance \<Rightarrow> ComponentProvenance option" where
  "when_installed i p = (if i then Some p else None)"

definition BuildComponentsStatus :: "Environment \<Rightarrow> ComponentsStatus option" where
  "BuildComponentsStatus env = (let s = env_Spec env;
       hasComponents = (nd_Install (sp_NVIDIADriver s) \<or> cr_Install (sp_ContainerRuntime s)
         \<or> ct_Install (sp_NVIDIAContainerToolkit s) \<or> k_Install (sp_Kubernetes s)) in
     if \<not> hasComponents then None else Some
       \<lparr>co_Driver = when_installed (nd_Install (sp_NVIDIADriver s)) (driver_provenance (sp_NVIDIADriver s)),
        co_Runtime = when_installed (cr_Install (sp_ContainerRuntime s)) (runtime_provenance (sp_ContainerRuntime s)),
        co_Toolkit = when_installed (ct_Install (sp_NVIDIAContainerToolkit s))
          (toolkit_provenance (sp_NVIDIAContainerToolkit s)),
        co_Kubernetes = when_installed (k_Install (sp_Kubernetes s)) (kubernetes_provenance (sp_Kubernetes s))\<rparr>)"

text \<open>
  \<open>BuildComponentsStatus\<close> returns no status exactly when nothing is installed, and otherwise
  fills exactly the slots of the installed components; for the toolkit and Kubernetes the slot
  names the requested source and, for a git source, the requested repository and reference. The
  driver and the runtime are reported as \<open>package\<close> whatever their \<open>Source\<close> field says.
\<close>

theorem BuildComponentsStatus_slots:
  "(case BuildComponentsStatus env of
      None \<Rightarrow> \<not> nd_Install (sp_NVIDIADriver (env_Spec env)) \<and> \<not> cr_Install (sp_ContainerRuntime (env_Spec env))
        \<and> \<not> ct_Install (sp_NVIDIAContainerToolkit (env_Spec env)) \<and> \<not> k_Install (sp_Kubernetes (env_Spec env))
    | Some cs \<Rightarrow>
        map_option pv_Source (co_Driver cs) = (if nd_Install (sp_NVIDIADriver (env_Spec env)) then Some ''package'' else None)
      \<and> map_option pv_Source (co_Runtime cs) = (if cr_Install (sp_ContainerRuntime (env_Spec env)) then Some ''package'' else None)
      \<and> (let t = sp_NVIDIAContainerToolkit (env_Spec env) in
          map_option (\<lambda>p. (pv_Source p, pv_Repo p, pv_Ref p)) (co_Toolkit cs) =
          (if \<not> ct_Install t then None else Some (
             if ct_Source t = '''' then (''package'', '''', '''')
             else (case (ct_Source t = ''git'', ct_Git t) of
                 (True, Some g) \<Rightarrow> (ct_Source t, tg_Repo g, tg_Ref g)
               | _ \<Rightarrow> (ct_Source t,
                   (case (ct_Source t = ''latest'', ct_Latest t) of (True, Some l) \<Rightarrow> tl_Repo l | _ \<Rightarrow> ''''), '''')))))
      \<and> (co_Kubernetes cs = None \<longleftrightarrow> \<not> k_Install (sp_Kubernetes (env_Spec env))))"
  by (auto simp: BuildComponentsStatus_def when_installed_def driver_provenance_def
      runtime_provenance_def toolkit_provenance_def zero_ComponentProvenance_def Let_def
      split: option.splits bool.splits)

end
