(* ===== verification/Aws_Sdk.thy ===== *)
theory Aws_Sdk
  imports Prelude
begin

text \<open>
  The AWS SDK as the code sees it: the fields of the SDK's resources that the code reads or
  writes, and the interfaces \<open>EC2Client\<close>, \<open>ELBv2Client\<close> and \<open>SSMClient\<close> of
  \<open>internal/aws/\<close> as records of operations over an account state of type \<open>'s\<close>.

  The SDK itself is not part of the repository, so an account is a parameter of everything that
  follows: a value of these records. A pointer to a string that the code only reads through
  \<open>aws.ToString\<close>, or dereferences at once, is a plain string; a pointer that the code compares
  with \<open>nil\<close> is an option.
\<close>

section \<open>Resources\<close>

type_synonym tag = "string \<times> string"
type_synonym tag_spec = "string \<times> tag list"
type_synonym api_filter = "string \<times> string list"

record Vpc =
  vpc_VpcId :: string
  vpc_CidrBlock :: string
  vpc_State :: string
  vpc_Tags :: "tag list"

record Subnet =
  sn_SubnetId :: string
  sn_VpcId :: string
  sn_CidrBlock :: string
  sn_State :: string
  sn_Tags :: "tag list"

record InternetGatewayAttachment =
  ia_State :: string
  ia_VpcId :: string

record InternetGateway =
  igw_InternetGatewayId :: string
  igw_Attachments :: "InternetGatewayAttachment list"
  igw_Tags :: "tag list"

record RouteTableAssociation =
  ra_RouteTableAssociationId :: "string option"
  ra_RouteTableId :: string
  ra_SubnetId :: string
  ra_Main :: "bool option"

record RouteTable =
  rt_RouteTableId :: string
  rt_VpcId :: string
  rt_Associations :: "RouteTableAssociation list"
  rt_Tags :: "tag list"

text \<open>\<open>UserIdGroupPairs\<close> and \<open>IpRanges\<close> are lists of group ids and of CIDR blocks: the other
  fields of their elements are never set.\<close>

record IpPermission =
  ip_FromPort :: "32 word"
  ip_ToPort :: "32 word"
  ip_IpProtocol :: string
  ip_IpRanges :: "string list"
  ip_UserIdGroupPairs :: "string list"

record SecurityGroup =
  sg_GroupId :: string
  sg_GroupName :: "string option"
  sg_Description :: string
  sg_VpcId :: string
  sg_IpPermissions :: "IpPermission list"
  sg_IpPermissionsEgress :: "IpPermission list"
  sg_Tags :: "tag list"

record InstanceNetworkInterface =
  nif_NetworkInterfaceId :: string
  nif_SubnetId :: string

record InstanceState =
  is_Name :: string
  is_Code :: "32 word"

record Ec2Instance =
  ei_InstanceId :: string
  ei_ImageId :: string
  ei_InstanceType :: string
  ei_State :: "InstanceState option"
  ei_PublicDnsName :: string
  ei_PublicIpAddress :: string
  ei_PrivateIpAddress :: string
  ei_SubnetId :: string
  ei_VpcId :: string
  ei_NetworkInterfaces :: "InstanceNetworkInterface list"
  ei_Tags :: "tag list"

record NatGateway =
  ng_NatGatewayId :: string
  ng_SubnetId :: string
  ng_State :: string
  ng_Tags :: "tag list"

record Address =
  ad_AllocationId :: string
  ad_PublicIp :: string
  ad_Domain :: string

record NetworkInterface =
  ni_NetworkInterfaceId :: string
  ni_VpcId :: string
  ni_SubnetId :: string
  ni_Status :: string
  ni_TagSet :: "tag list"

record TagDescription =
  tdn_ResourceId :: string
  tdn_Key :: string
  tdn_Value :: string

record InstanceTypeInfo =
  iti_InstanceType :: string
  iti_SupportedArchitectures :: "string list option"

record Ec2Image =
  im_ImageId :: string
  im_Name :: string
  im_CreationDate :: string
  im_Architecture :: string
  im_RootDeviceName :: string
  im_State :: string
  im_OwnerId :: string

record LoadBalancer =
  lb_LoadBalancerArn :: string
  lb_LoadBalancerName :: string
  lb_DNSName :: string
  lb_Type :: string
  lb_Scheme :: string
  lb_State :: string
  lb_VpcId :: "string option"

record TargetGroup =
  tg_TargetGroupArn :: string
  tg_TargetGroupName :: string
  tg_VpcId :: string
  tg_Port :: "32 word"
  tg_Protocol :: string
  tg_LoadBalancerArns :: "string list"

record Listener =
  ls_ListenerArn :: string
  ls_LoadBalancerArn :: string
  ls_Port :: "32 word"
  ls_Protocol :: string

record TargetDescription =
  td_Id :: string
  td_Port :: "32 word"

text \<open>An element of \<open>TargetHealthDescriptions\<close>: its \<open>Target\<close> pointer and its health state.\<close>

type_synonym TargetHealthDescription = "TargetDescription option \<times> string"

section \<open>Inputs with more than two fields\<close>

record CreateVpcInput =
  cvi_CidrBlock :: string
  cvi_AmazonProvidedIpv6CidrBlock :: bool
  cvi_InstanceTenancy :: string
  cvi_TagSpecifications :: "tag_spec list"

record CreateSubnetInput =
  csi_VpcId :: string
  csi_CidrBlock :: string
  csi_TagSpecifications :: "tag_spec list"

text \<open>A route goes to an internet gateway or to a NAT gateway.\<close>

record CreateRouteInput =
  cri_RouteTableId :: string
  cri_DestinationCidrBlock :: string
  cri_GatewayId :: "string option"
  cri_NatGatewayId :: "string option"

record CreateSecurityGroupInput =
  cgi_GroupName :: string
  cgi_Description :: string
  cgi_VpcId :: string
  cgi_TagSpecifications :: "tag_spec list"

record BlockDeviceMapping =
  bdm_DeviceName :: string
  bdm_VolumeSize :: "32 word"
  bdm_VolumeType :: string

record InstanceNetworkInterfaceSpecification =
  nis_AssociatePublicIpAddress :: bool
  nis_DeleteOnTermination :: bool
  nis_DeviceIndex :: "32 word"
  nis_Groups :: "string list"
  nis_SubnetId :: string

record RunInstancesInput =
  rii_ImageId :: string
  rii_InstanceType :: string
  rii_MaxCount :: "32 word option"
  rii_MinCount :: "32 word option"
  rii_InstanceInitiatedShutdownBehavior :: string
  rii_BlockDeviceMappings :: "BlockDeviceMapping list"
  rii_NetworkInterfaces :: "InstanceNetworkInterfaceSpecification list"
  rii_SubnetId :: "string option"
  rii_KeyName :: string
  rii_TagSpecifications :: "tag_spec list"

record DescribeImagesInput =
  dii_ImageIds :: "string list"
  dii_Filters :: "api_filter list"
  dii_Owners :: "string list"
  dii_NextToken :: "string option"

record ModifyNetworkInterfaceAttributeInput =
  mni_NetworkInterfaceId :: string
  mni_Groups :: "string list"
  mni_SourceDestCheck :: "bool option"

record CreateNatGatewayInput =
  cni_SubnetId :: string
  cni_AllocationId :: string
  cni_TagSpecifications :: "tag_spec list"

record CreateLoadBalancerInput =
  cli_Name :: string
  cli_Type :: string
  cli_Subnets :: "string list"
  cli_Scheme :: string
  cli_IpAddressType :: string
  cli_Tags :: "tag list"

record CreateTargetGroupInput =
  cti_Name :: string
  cti_Protocol :: string
  cti_Port :: "32 word"
  cti_VpcId :: string
  cti_TargetType :: string
  cti_HealthCheckProtocol :: string
  cti_HealthCheckPort :: string
  cti_HealthCheckIntervalSeconds :: "32 word"
  cti_HealthCheckTimeoutSeconds :: "32 word"
  cti_HealthyThresholdCount :: "32 word"
  cti_UnhealthyThresholdCount :: "32 word"
  cti_Tags :: "tag list"

text \<open>A listener action: a target group of its own, and the groups of its forward
  configuration when it has one.\<close>

record ListenerAction =
  la_Type :: string
  la_TargetGroupArn :: "string option"
  la_ForwardConfig :: "string list option"

record CreateListenerInput =
  cls_LoadBalancerArn :: string
  cls_Protocol :: string
  cls_Port :: "32 word"
  cls_DefaultActions :: "ListenerAction list"
  cls_Tags :: "tag list"

record DescribeLoadBalancersInput =
  dli_LoadBalancerArns :: "string list"
  dli_Names :: "string list"

record DescribeTargetGroupsInput =
  dti_TargetGroupArns :: "string list"
  dti_LoadBalancerArn :: "string option"

section \<open>The interfaces\<close>

text \<open>
  \<open>EC2Client\<close>. An operation with one or two input fields takes them as arguments; an output of
  which the code reads one field is that field. \<open>CreateInternetGateway\<close> returns a pointer that
  the caller reads again after a later call, so its output is a function of the account state.
\<close>

record 's ec2_client =
  ec2_CreateVpc :: "CreateVpcInput \<Rightarrow> ('s, Vpc) io"
  ec2_ModifyVpcAttribute :: "string \<Rightarrow> bool \<Rightarrow> ('s, unit) io"
  ec2_DeleteVpc :: "string \<Rightarrow> ('s, unit) io"
  ec2_DescribeVpcs :: "string list \<Rightarrow> ('s, Vpc list) io"
  ec2_CreateSubnet :: "CreateSubnetInput \<Rightarrow> ('s, Subnet) io"
  ec2_DeleteSubnet :: "string \<Rightarrow> ('s, unit) io"
  ec2_DescribeSubnets :: "string list \<Rightarrow> api_filter list \<Rightarrow> ('s, Subnet list) io"
  ec2_CreateInternetGateway :: "tag_spec list \<Rightarrow> ('s, 's \<Rightarrow> InternetGateway) io"
  ec2_AttachInternetGateway :: "string \<Rightarrow> string \<Rightarrow> ('s, unit) io"
  ec2_DetachInternetGateway :: "string \<Rightarrow> string \<Rightarrow> ('s, unit) io"
  ec2_DeleteInternetGateway :: "string \<Rightarrow> ('s, unit) io"
  ec2_DescribeInternetGateways :: "string list \<Rightarrow> api_filter list \<Rightarrow> ('s, InternetGateway list) io"
  ec2_CreateRouteTable :: "string \<Rightarrow> tag_spec list \<Rightarrow> ('s, RouteTable) io"
  ec2_AssociateRouteTable :: "string \<Rightarrow> string \<Rightarrow> ('s, string) io"
  ec2_CreateRoute :: "CreateRouteInput \<Rightarrow> ('s, bool) io"
  ec2_DeleteRouteTable :: "string \<Rightarrow> ('s, unit) io"
  ec2_DescribeRouteTables :: "string list \<Rightarrow> api_filter list \<Rightarrow> ('s, RouteTable list) io"
  ec2_ReplaceRouteTableAssociation :: "string \<Rightarrow> string \<Rightarrow> ('s, string) io"
  ec2_CreateSecurityGroup :: "CreateSecurityGroupInput \<Rightarrow> ('s, string) io"
  ec2_AuthorizeSecurityGroupIngress :: "string \<Rightarrow> IpPermission list \<Rightarrow> ('s, bool) io"
  ec2_DeleteSecurityGroup :: "string \<Rightarrow> ('s, unit) io"
  ec2_DescribeSecurityGroups :: "string list \<Rightarrow> api_filter list \<Rightarrow> ('s, SecurityGroup list) io"
  ec2_RevokeSecurityGroupIngress :: "string \<Rightarrow> IpPermission list \<Rightarrow> ('s, bool) io"
  ec2_RevokeSecurityGroupEgress :: "string \<Rightarrow> IpPermission list \<Rightarrow> ('s, bool) io"
  ec2_RunInstances :: "RunInstancesInput \<Rightarrow> ('s, Ec2Instance list) io"
  ec2_TerminateInstances :: "string list \<Rightarrow> ('s, unit) io"
  ec2_DescribeInstances :: "string list \<Rightarrow> api_filter list \<Rightarrow> ('s, Ec2Instance list list) io"
  ec2_DescribeInstanceTypes :: "string list \<Rightarrow> string option \<Rightarrow> ('s, InstanceTypeInfo list \<times> string option) io"
  ec2_DescribeImages :: "DescribeImagesInput \<Rightarrow> ('s, Ec2Image list \<times> string option) io"
  ec2_DescribeNetworkInterfaces :: "string list \<Rightarrow> api_filter list \<Rightarrow> ('s, NetworkInterface list) io"
  ec2_ModifyNetworkInterfaceAttribute :: "ModifyNetworkInterfaceAttributeInput \<Rightarrow> ('s, unit) io"
  ec2_CreateTags :: "string list \<Rightarrow> tag list \<Rightarrow> ('s, unit) io"
  ec2_DescribeTags :: "api_filter list \<Rightarrow> ('s, TagDescription list) io"
  ec2_AllocateAddress :: "string \<Rightarrow> tag_spec list \<Rightarrow> ('s, string \<times> string) io"
  ec2_ReleaseAddress :: "string \<Rightarrow> ('s, unit) io"
  ec2_CreateNatGateway :: "CreateNatGatewayInput \<Rightarrow> ('s, NatGateway) io"
  ec2_DeleteNatGateway :: "string \<Rightarrow> ('s, string) io"
  ec2_DescribeNatGateways :: "string list \<Rightarrow> ('s, NatGateway list) io"
  ec2_ModifySubnetAttribute :: "string \<Rightarrow> ('s, unit) io"

text \<open>\<open>ELBv2Client\<close> and \<open>SSMClient\<close>.\<close>

record 's elbv2_client =
  elb_CreateLoadBalancer :: "CreateLoadBalancerInput \<Rightarrow> ('s, LoadBalancer list) io"
  elb_DescribeLoadBalancers :: "DescribeLoadBalancersInput \<Rightarrow> ('s, LoadBalancer list) io"
  elb_DeleteLoadBalancer :: "string \<Rightarrow> ('s, unit) io"
  elb_CreateTargetGroup :: "CreateTargetGroupInput \<Rightarrow> ('s, TargetGroup list) io"
  elb_DescribeTargetGroups :: "DescribeTargetGroupsInput \<Rightarrow> ('s, TargetGroup list) io"
  elb_DescribeTargetHealth :: "string \<Rightarrow> ('s, TargetHealthDescription list) io"
  elb_DeleteTargetGroup :: "string \<Rightarrow> ('s, unit) io"
  elb_RegisterTargets :: "string \<Rightarrow> TargetDescription list \<Rightarrow> ('s, unit) io"
  elb_DeregisterTargets :: "string \<Rightarrow> TargetDescription list \<Rightarrow> ('s, unit) io"
  elb_CreateListener :: "CreateListenerInput \<Rightarrow> ('s, Listener list) io"
  elb_DescribeListeners :: "string \<Rightarrow> ('s, Listener list) io"
  elb_DeleteListener :: "string \<Rightarrow> ('s, unit) io"
  elb_AddTags :: "string list \<Rightarrow> tag list \<Rightarrow> ('s, unit) io"

record 's ssm_client =
  ssm_GetParameter :: "string \<Rightarrow> ('s, string \<times> string option) io"

section \<open>Calls\<close>

text \<open>A call with its input, as the recorder of the fake account keeps it.\<close>

datatype (plugins only: size) api_input =
    I_CreateVpc CreateVpcInput | I_ModifyVpcAttribute string bool | I_DeleteVpc string
  | I_DescribeVpcs "string list" | I_CreateSubnet CreateSubnetInput | I_DeleteSubnet string
  | I_DescribeSubnets "string list" "api_filter list" | I_CreateInternetGateway "tag_spec list"
  | I_AttachInternetGateway string string | I_DetachInternetGateway string string
  | I_DeleteInternetGateway string | I_DescribeInternetGateways "string list" "api_filter list"
  | I_CreateRouteTable string "tag_spec list" | I_AssociateRouteTable string string
  | I_CreateRoute CreateRouteInput | I_DeleteRouteTable string
  | I_DescribeRouteTables "string list" "api_filter list" | I_ReplaceRouteTableAssociation string string
  | I_CreateSecurityGroup CreateSecurityGroupInput
  | I_AuthorizeSecurityGroupIngress string "IpPermission list" | I_DeleteSecurityGroup string
  | I_DescribeSecurityGroups "string list" "api_filter list"
  | I_RevokeSecurityGroupIngress string "IpPermission list"
  | I_RevokeSecurityGroupEgress string "IpPermission list"
  | I_RunInstances RunInstancesInput | I_TerminateInstances "string list"
  | I_DescribeInstances "string list" "api_filter list"
  | I_DescribeInstanceTypes "string list" "string option"
  | I_DescribeImages DescribeImagesInput
  | I_DescribeNetworkInterfaces "string list" "api_filter list"
  | I_ModifyNetworkInterfaceAttribute ModifyNetworkInterfaceAttributeInput
  | I_CreateTags "string list" "tag list" | I_DescribeTags "api_filter list"
  | I_AllocateAddress string "tag_spec list" | I_ReleaseAddress string
  | I_CreateNatGateway CreateNatGatewayInput | I_DeleteNatGateway string
  | I_DescribeNatGateways "string list" | I_ModifySubnetAttribute string
  | I_CreateLoadBalancer CreateLoadBalancerInput | I_DescribeLoadBalancers DescribeLoadBalancersInput
  | I_DeleteLoadBalancer string | I_CreateTargetGroup CreateTargetGroupInput
  | I_DescribeTargetGroups DescribeTargetGroupsInput | I_DescribeTargetHealth string
  | I_DeleteTargetGroup string | I_RegisterTargets string "TargetDescription list"
  | I_DeregisterTargets string "TargetDescription list" | I_CreateListener CreateListenerInput
  | I_DescribeListeners string | I_DeleteListener string | I_AddTags "string list" "tag list"
  | I_GetParameter string

end
