(* ===== verification/Ami.thy ===== *)
theory Ami
  imports Aws_Sdk "HOL-Library.Char_ord" "HOL-Library.List_Lexorder"
begin

text \<open>
  \<open>internal/ami/\<close>: the registry of operating systems and the resolver that turns an operating
  system and an architecture into a machine image. Go compares strings byte by byte, which is the
  lexicographic order of \<open>List_Lexorder\<close> over the character codes of \<open>Char_ord\<close>.
\<close>

section \<open>Strings\<close>

text \<open>\<open>strings.ToLower\<close> on ASCII text.\<close>

definition lower_char :: "char \<Rightarrow> char" where
  "lower_char c = (let n = of_char c :: nat in if 65 \<le> n \<and> n \<le> 90 then char_of (n + 32) else c)"

definition ToLower :: "string \<Rightarrow> string" where
  "ToLower s = map lower_char s"

text \<open>\<open>fmt.Sprintf(pattern, a)\<close> for a pattern with one verb \<open>%s\<close> and no other.\<close>

fun sprintf1 :: "string \<Rightarrow> string \<Rightarrow> string" where
  "sprintf1 (c # d # r) a = (if c = CHR ''%'' \<and> d = CHR ''s'' then a @ r else c # sprintf1 (d # r) a)"
| "sprintf1 r a = r"

text \<open>\<open>sort.Slice\<close> by date, newest first. The source leaves the order of equal dates open; here
  they keep their order, as the insertion sort does that Go uses for short slices.\<close>

definition newest_first :: "('v \<Rightarrow> string) \<Rightarrow> 'v list \<Rightarrow> 'v list" where
  "newest_first date xs = rev (sort_key date (rev xs))"

section \<open>The registry\<close>

record OSImage =
  os_ID :: string
  os_Name :: string
  os_Family :: string
  os_SSHUsername :: string
  os_PackageManager :: string
  os_MinRootVolumeGB :: "32 word"
  os_OwnerID :: string
  os_NamePattern :: string
  os_SSMPath :: string
  os_NameArchMap :: "string gomap"
  os_Architectures :: "string list"

definition ubuntu :: "string \<Rightarrow> string \<Rightarrow> string \<Rightarrow> string \<Rightarrow> OSImage" where
  "ubuntu i name pattern path = \<lparr>os_ID = i, os_Name = name, os_Family = ''debian'',
     os_SSHUsername = ''ubuntu'', os_PackageManager = ''apt'', os_MinRootVolumeGB = 20,
     os_OwnerID = ''099720109477'', os_NamePattern = pattern, os_SSMPath = path,
     os_NameArchMap = [(''x86_64'', ''amd64'')], os_Architectures = [''x86_64'', ''arm64'']\<rparr>"

definition registry :: "OSImage gomap" where
  "registry =
     [(''ubuntu-26.04'', ubuntu ''ubuntu-26.04'' ''Ubuntu 26.04 LTS (Resolute Raccoon)''
         ''ubuntu/images/hvm-ssd-gp3/ubuntu-resolute-26.04-%s-server-*''
         ''/aws/service/canonical/ubuntu/server/26.04/stable/current/%s/hvm/ebs-gp3/ami-id''),
      (''ubuntu-24.04'', ubuntu ''ubuntu-24.04'' ''Ubuntu 24.04 LTS (Noble Numbat)''
         ''ubuntu/images/hvm-ssd-gp3/ubuntu-noble-24.04-%s-server-*''
         ''/aws/service/canonical/ubuntu/server/24.04/stable/current/%s/hvm/ebs-gp3/ami-id''),
      (''ubuntu-22.04'', ubuntu ''ubuntu-22.04'' ''Ubuntu 22.04 LTS (Jammy Jellyfish)''
         ''ubuntu/images/hvm-ssd/ubuntu-jammy-22.04-%s-server-*''
         ''/aws/service/canonical/ubuntu/server/22.04/stable/current/%s/hvm/ebs-gp3/ami-id''),
      (''amazon-linux-2023'', \<lparr>os_ID = ''amazon-linux-2023'', os_Name = ''Amazon Linux 2023'',
         os_Family = ''amazon'', os_SSHUsername = ''ec2-user'', os_PackageManager = ''dnf'',
         os_MinRootVolumeGB = 20, os_OwnerID = ''amazon'',
         os_NamePattern = ''al2023-ami-*-kernel-*-%s'',
         os_SSMPath = ''/aws/service/ami-amazon-linux-latest/al2023-ami-kernel-default-%s'',
         os_NameArchMap = [], os_Architectures = [''x86_64'', ''arm64'']\<rparr>),
      (''rocky-9'', \<lparr>os_ID = ''rocky-9'', os_Name = ''Rocky Linux 9'', os_Family = ''rhel'',
         os_SSHUsername = ''rocky'', os_PackageManager = ''dnf'', os_MinRootVolumeGB = 20,
         os_OwnerID = ''792107900819'', os_NamePattern = ''Rocky-9-EC2-Base-*.%s'', os_SSMPath = '''',
         os_NameArchMap = [], os_Architectures = [''x86_64'', ''arm64'']\<rparr>),
      (''fedora-42'', \<lparr>os_ID = ''fedora-42'', os_Name = ''Fedora 42 Cloud'', os_Family = ''rhel'',
         os_SSHUsername = ''fedora'', os_PackageManager = ''dnf'', os_MinRootVolumeGB = 15,
         os_OwnerID = ''125523088429'', os_NamePattern = ''Fedora-Cloud-Base-AmazonEC2.%s-42-*'',
         os_SSMPath = '''', os_NameArchMap = [(''arm64'', ''aarch64'')],
         os_Architectures = [''x86_64'', ''arm64'']\<rparr>),
      (''ubuntu-20.04'', ubuntu ''ubuntu-20.04'' ''Ubuntu 20.04 LTS (Focal Fossa)''
         ''ubuntu/images/hvm-ssd/ubuntu-focal-20.04-%s-server-*''
         ''/aws/service/canonical/ubuntu/server/20.04/stable/current/%s/hvm/ebs-gp2/ami-id'')]"

definition registry_Get :: "string \<Rightarrow> OSImage option" where
  "registry_Get i = map_of registry i"

definition registry_List :: "string list" where
  "registry_List = sort (map fst registry)"

definition registry_All :: "OSImage list" where
  "registry_All = map (\<lambda>i. the (map_of registry i)) registry_List"

definition registry_Exists :: "string \<Rightarrow> bool" where
  "registry_Exists i = has_key registry i"

section \<open>The resolver\<close>

record ResolvedAMI =
  rs_ImageID :: string
  rs_SSHUsername :: string
  rs_OSFamily :: string
  rs_PackageManager :: string

record 's Resolver =
  rv_ec2Client :: "'s ec2_client"
  rv_ssmClient :: "'s ssm_client option"
  rv_region :: string

definition NewResolver :: "'s ec2_client \<Rightarrow> 's ssm_client option \<Rightarrow> string \<Rightarrow> 's Resolver" where
  "NewResolver ec2Client ssmClient region =
     \<lparr>rv_ec2Client = ec2Client, rv_ssmClient = ssmClient, rv_region = region\<rparr>"

definition NormalizeArch :: "string \<Rightarrow> string" where
  "NormalizeArch arch = (let a = ToLower arch in
     if a = ''amd64'' \<or> a = ''x86_64'' then ''x86_64''
     else if a = ''arm64'' \<or> a = ''aarch64'' then ''arm64'' else arch)"

definition archToSSMArch :: "string \<Rightarrow> string" where
  "archToSSMArch arch = (if arch = ''x86_64'' then ''amd64'' else arch)"

definition resolveViaSSM :: "'s ssm_client \<Rightarrow> OSImage \<Rightarrow> string \<Rightarrow> ('s, string) io" where
  "resolveViaSSM ssm osImage arch =
     (let paramName = sprintf1 (os_SSMPath osImage) (archToSSMArch arch) in
      andthen (wrap ''SSM lookup failed'' (ssm_GetParameter ssm paramName)) (\<lambda>(_, value).
      (case value of None \<Rightarrow> fail (''SSM parameter '' @ paramName @ '' has no value'')
       | Some v \<Rightarrow> ret v)))"

definition image_filters :: "OSImage \<Rightarrow> string \<Rightarrow> api_filter list" where
  "image_filters osImage arch =
     (let nameArch = (case map_of (os_NameArchMap osImage) arch of Some m \<Rightarrow> m | None \<Rightarrow> arch) in
      [(''name'', [sprintf1 (os_NamePattern osImage) nameArch]), (''architecture'', [arch]),
       (''state'', [''available''])]
      @ (if os_OwnerID osImage \<noteq> ''amazon'' then [(''owner-id'', [os_OwnerID osImage])] else []))"

definition resolveViaDescribeImages :: "'s Resolver \<Rightarrow> OSImage \<Rightarrow> string \<Rightarrow> ('s, string) io" where
  "resolveViaDescribeImages r osImage arch =
     andthen (wrap ''DescribeImages failed'' (ec2_DescribeImages (rv_ec2Client r)
        \<lparr>dii_ImageIds = [], dii_Filters = image_filters osImage arch,
         dii_Owners = (if os_OwnerID osImage = ''amazon'' then [''amazon''] else []),
         dii_NextToken = None\<rparr>)) (\<lambda>(images, _).
     (case newest_first im_CreationDate images of
        [] \<Rightarrow> fail (''no images found for '' @ os_ID osImage @ '' in region '' @ rv_region r)
      | im # _ \<Rightarrow>
          if im_ImageId im = '''' then fail (''AMI has empty ImageId for '' @ os_ID osImage)
          else ret (im_ImageId im)))"

definition resolved_as :: "OSImage \<Rightarrow> string \<Rightarrow> ResolvedAMI" where
  "resolved_as osImage amiID = \<lparr>rs_ImageID = amiID, rs_SSHUsername = os_SSHUsername osImage,
     rs_OSFamily = os_Family osImage, rs_PackageManager = os_PackageManager osImage\<rparr>"

text \<open>\<open>Resolver.Resolve\<close>: the parameter store if the system has a path there, and the image
  catalog if it has none or the lookup fails.\<close>

definition via_images :: "'s Resolver \<Rightarrow> string \<Rightarrow> OSImage \<Rightarrow> string \<Rightarrow> ('s, ResolvedAMI) io" where
  "via_images r osID osImage arch =
     andthen (wrap (''failed to resolve AMI for '' @ osID) (resolveViaDescribeImages r osImage arch))
       (\<lambda>amiID. ret (resolved_as osImage amiID))"

definition Resolver_Resolve :: "'s Resolver \<Rightarrow> string \<Rightarrow> string \<Rightarrow> ('s, ResolvedAMI) io" where
  "Resolver_Resolve r osID arch0 =
     (let arch = NormalizeArch arch0 in
      case registry_Get osID of
        None \<Rightarrow> fail (''unknown OS: '' @ osID @ '' (run 'holodeck os list' for available options)'')
      | Some osImage \<Rightarrow>
          if arch \<notin> set (os_Architectures osImage)
          then fail (''OS '' @ osID @ '' does not support architecture '' @ arch
                     @ '' (supported: '' @ sep_by '', '' (os_Architectures osImage) @ '')'')
          else (case rv_ssmClient r of
              Some ssm \<Rightarrow>
                if os_SSMPath osImage \<noteq> ''''
                then catch (andthen (resolveViaSSM ssm osImage arch) (\<lambda>amiID. ret (resolved_as osImage amiID)))
                       (\<lambda>_. via_images r osID osImage arch)
                else via_images r osID osImage arch
            | None \<Rightarrow> via_images r osID osImage arch))"

end
