(* ===== verification/Provider_State.thy ===== *)
theory Provider_State
  imports Api_Types Ami
begin

text \<open>
  \<open>pkg/provider/aws/aws.go\<close> and \<open>status.go\<close>: the provider, the ids of its resources (\<open>AWS\<close>), and
  the status it keeps in the cache file.

  What lies outside the repository is a parameter: the account behind the SDK clients, the
  SDK's waiters, the file system, the YAML codec, the clock and the HTTP client (\<open>platform\<close>). All
  of it acts on one world of type \<open>'s\<close>; the content of a file is of type \<open>'f\<close>. A provider method runs
  on a \<open>pstate\<close>, which adds to the world the environment the provider points to.
\<close>

section \<open>The provider\<close>

record AWS =
  aw_Vpcid :: string
  aw_Subnetid :: string
  aw_InternetGwid :: string
  aw_InternetGatewayAttachment :: string
  aw_RouteTable :: string
  aw_SecurityGroupid :: string
  aw_Instanceid :: string
  aw_PublicDnsName :: string
  aw_PublicSubnetid :: string
  aw_NatGatewayid :: string
  aw_PublicRouteTable :: string
  aw_CPSecurityGroupid :: string
  aw_WorkerSecurityGroupid :: string
  aw_EIPAllocationid :: string
  aw_IAMInstanceProfileArn :: string

definition zero_AWS :: AWS where
  "zero_AWS = \<lparr>aw_Vpcid = '''', aw_Subnetid = '''', aw_InternetGwid = '''',
     aw_InternetGatewayAttachment = '''', aw_RouteTable = '''', aw_SecurityGroupid = '''',
     aw_Instanceid = '''', aw_PublicDnsName = '''', aw_PublicSubnetid = '''', aw_NatGatewayid = '''',
     aw_PublicRouteTable = '''', aw_CPSecurityGroupid = '''', aw_WorkerSecurityGroupid = '''',
     aw_EIPAllocationid = '''', aw_IAMInstanceProfileArn = ''''\<rparr>"

text \<open>
  The operating system and the libraries: reading and writing files with their permission bits,
  the YAML codec, the time in seconds, an HTTP GET (address and timeout to status and body), the
  order in which the scheduler runs \<open>n\<close> goroutines that are started together (each runs to its end
  before the next, an order of \<open>0, ..., n - 1\<close>), and the environment variables. The two waiters are
  the SDK's. \<open>pl_Pages\<close> bounds the pages that the model reads of a listing (the code reads on until
  there are none); a longer listing is the error \<open>out_of_pages\<close>, which no code produces.
\<close>

record ('s, 'f) platform =
  pl_ReadFile :: "string \<Rightarrow> ('s, 'f) io"
  pl_MkdirAll :: "string \<Rightarrow> nat \<Rightarrow> ('s, unit) io"
  pl_WriteFile :: "string \<Rightarrow> 'f \<Rightarrow> nat \<Rightarrow> ('s, unit) io"
  pl_Chmod :: "string \<Rightarrow> nat \<Rightarrow> ('s, unit) io"
  pl_Marshal :: "Environment \<Rightarrow> error + 'f"
  pl_Unmarshal :: "'f \<Rightarrow> error + Environment"
  pl_Now :: "'s \<Rightarrow> nat"
  pl_HttpGet :: "string \<Rightarrow> nat \<Rightarrow> ('s, nat \<times> string) io"
  pl_Schedule :: "nat \<Rightarrow> nat list"
  pl_Getenv :: "string \<Rightarrow> string"
  pl_WaitRunning :: "string list \<Rightarrow> nat \<Rightarrow> ('s, unit) io"
  pl_WaitTerminated :: "string list \<Rightarrow> nat \<Rightarrow> ('s, unit) io"
  pl_Pages :: nat

abbreviation out_of_pages :: error where
  "out_of_pages \<equiv> ''out of pages''"

record ('s, 'f) Provider =
  p_Tags :: "tag list"
  p_ec2 :: "'s ec2_client"
  p_ssm :: "'s ssm_client"
  p_elbv2 :: "'s elbv2_client"
  p_amiResolver :: "'s Resolver"
  p_cacheFile :: string
  p_sleep :: "nat \<Rightarrow> 's \<Rightarrow> 's"
  p_platform :: "('s, 'f) platform"

text \<open>The cache of a cluster extends it (\<open>cluster.go\<close>).\<close>

record InstanceInfo =
  ii_InstanceID :: string
  ii_PublicIP :: string
  ii_PrivateIP :: string
  ii_PublicDNS :: string
  ii_NetworkInterface :: string
  ii_Role :: string
  ii_Name :: string
  ii_SSHUsername :: string

record ClusterCache =
  cc_AWS :: AWS
  cc_ControlPlaneInstances :: "InstanceInfo list"
  cc_WorkerInstances :: "InstanceInfo list"
  cc_LoadBalancerArn :: string
  cc_LoadBalancerDNS :: string
  cc_TargetGroupArn :: string

definition zero_ClusterCache :: "AWS \<Rightarrow> ClusterCache" where
  "zero_ClusterCache a = \<lparr>cc_AWS = a, cc_ControlPlaneInstances = [], cc_WorkerInstances = [],
     cc_LoadBalancerArn = '''', cc_LoadBalancerDNS = '''', cc_TargetGroupArn = ''''\<rparr>"

text \<open>A creation fills its cache step by step, so that cache is part of the state; a deletion gets
  its cache as an argument. A single-node creation uses the \<open>AWS\<close> part only.\<close>

record 's pstate =
  ps_Environment :: Environment
  ps_cache :: ClusterCache
  ps_world :: 's

abbreviation ps_aws :: "'s pstate \<Rightarrow> AWS" where
  "ps_aws ps \<equiv> cc_AWS (ps_cache ps)"

definition set_aws :: "(AWS \<Rightarrow> AWS) \<Rightarrow> ('s pstate, unit) io" where
  "set_aws f = modify (\<lambda>ps. ps\<lparr>ps_cache := (ps_cache ps)\<lparr>cc_AWS := f (ps_aws ps)\<rparr>\<rparr>)"

definition set_cache :: "(ClusterCache \<Rightarrow> ClusterCache) \<Rightarrow> ('s pstate, unit) io" where
  "set_cache f = modify (\<lambda>ps. ps\<lparr>ps_cache := f (ps_cache ps)\<rparr>)"

text \<open>A call that acts on the world only.\<close>

definition on_world :: "('s, 'a) io \<Rightarrow> ('s pstate, 'a) io" where
  "on_world m ps = (case m (ps_world ps) of (r, w) \<Rightarrow> (r, ps\<lparr>ps_world := w\<rparr>))"

definition sleep :: "('s, 'f) Provider \<Rightarrow> nat \<Rightarrow> ('s pstate, unit) io" where
  "sleep p n = on_world (\<lambda>w. (Inr (), p_sleep p n w))"

definition environment :: "('s pstate, Environment) io" where
  "environment = gets ps_Environment"

text \<open>The tags of every resource, out of the environment's name and GitHub's variables.\<close>

definition provider_tags :: "(string \<Rightarrow> string) \<Rightarrow> Environment \<Rightarrow> tag list" where
  "provider_tags getenv env =
     [(''Product'', ''Cloud Native''), (''Name'', env_Name env), (''Project'', ''holodeck''),
      (''Environment'', ''cicd''), (''CommitSHA'', take 8 (getenv ''GITHUB_SHA'')),
      (''Actor'', getenv ''GITHUB_ACTOR''), (''Branch'', getenv ''GITHUB_REF_NAME''),
      (''GitHubRepository'', getenv ''GITHUB_REPOSITORY''), (''GitHubRunId'', getenv ''GITHUB_RUN_ID''),
      (''GitHubRunNumber'', getenv ''GITHUB_RUN_NUMBER''), (''GitHubJob'', getenv ''GITHUB_JOB''),
      (''GitHubRunAttempt'', getenv ''GITHUB_RUN_ATTEMPT'')]"

definition provider_region :: "(string \<Rightarrow> string) \<Rightarrow> Environment \<Rightarrow> string" where
  "provider_region getenv env =
     (let region = (case sp_Cluster (env_Spec env) of
            Some c \<Rightarrow> if cl_Region c \<noteq> '''' then cl_Region c else in_Region (sp_Instance (env_Spec env))
          | None \<Rightarrow> in_Region (sp_Instance (env_Spec env)))
      in if getenv ''AWS_REGION'' \<noteq> '''' then getenv ''AWS_REGION'' else region)"

text \<open>\<open>New\<close> with the clients given as options; without them the SDK makes them for the region.\<close>

definition New :: "('s, 'f) platform \<Rightarrow> (nat \<Rightarrow> 's \<Rightarrow> 's) \<Rightarrow> 's ec2_client \<Rightarrow> 's ssm_client \<Rightarrow> 's elbv2_client
    \<Rightarrow> Environment \<Rightarrow> string \<Rightarrow> ('s, 'f) Provider" where
  "New pl slp ec2 ssm elbv2 env cacheFile =
     \<lparr>p_Tags = provider_tags (pl_Getenv pl) env, p_ec2 = ec2, p_ssm = ssm, p_elbv2 = elbv2,
      p_amiResolver = NewResolver ec2 (Some ssm) (provider_region (pl_Getenv pl) env),
      p_cacheFile = cacheFile, p_sleep = slp, p_platform = pl\<rparr>"

definition IsMultinode :: "Environment \<Rightarrow> bool" where
  "IsMultinode env \<longleftrightarrow> sp_Cluster (env_Spec env) \<noteq> None"

section \<open>The cache file\<close>

text \<open>\<open>jyaml.UnmarshalFromFile\<close> on a path.\<close>

definition lift_result :: "error + 'a \<Rightarrow> ('s, 'a) io" where
  "lift_result r s = (r, s)"

definition UnmarshalFromFile :: "('s, 'f) platform \<Rightarrow> string \<Rightarrow> ('s, Environment) io" where
  "UnmarshalFromFile pl path =
     andthen (pl_ReadFile pl path) (\<lambda>data. lift_result (pl_Unmarshal pl data))"

text \<open>One round of the loop over the properties in \<open>unmarsalCache\<close>.\<close>

definition read_property :: "AWS \<Rightarrow> Properties \<Rightarrow> AWS" where
  "read_property a p = (let n = pr_Name p; v = pr_Value p in
     if n = ''vpc-id'' then a\<lparr>aw_Vpcid := v\<rparr>
     else if n = ''subnet-id'' then a\<lparr>aw_Subnetid := v\<rparr>
     else if n = ''internet-gateway-id'' then a\<lparr>aw_InternetGwid := v\<rparr>
     else if n = ''internet-gateway-attachment-vpc-id'' then a\<lparr>aw_InternetGatewayAttachment := v\<rparr>
     else if n = ''route-table-id'' then a\<lparr>aw_RouteTable := v\<rparr>
     else if n = ''security-group-id'' then a\<lparr>aw_SecurityGroupid := v\<rparr>
     else if n = ''instance-id'' then a\<lparr>aw_Instanceid := v\<rparr>
     else if n = ''public-dns-name'' then a\<lparr>aw_PublicDnsName := v\<rparr>
     else if n = ''public-subnet-id'' then a\<lparr>aw_PublicSubnetid := v\<rparr>
     else if n = ''nat-gateway-id'' then a\<lparr>aw_NatGatewayid := v\<rparr>
     else if n = ''private-route-table-id'' then a\<lparr>aw_RouteTable := v\<rparr>
     else if n = ''public-route-table-id'' then a\<lparr>aw_PublicRouteTable := v\<rparr>
     else if n = ''cp-security-group-id'' then a\<lparr>aw_CPSecurityGroupid := v\<rparr>
     else if n = ''worker-security-group-id'' then a\<lparr>aw_WorkerSecurityGroupid := v\<rparr>
     else if n = ''eip-allocation-id'' then a\<lparr>aw_EIPAllocationid := v\<rparr>
     else if n = ''iam-instance-profile-arn'' then a\<lparr>aw_IAMInstanceProfileArn := v\<rparr>
     else a)"

definition unmarsalCache :: "('s, 'f) Provider \<Rightarrow> ('s pstate, AWS) io" where
  "unmarsalCache p = andthen (on_world (UnmarshalFromFile (p_platform p) (p_cacheFile p)))
     (\<lambda>env. ret (foldl read_property zero_AWS (st_Properties (env_Status env))))"

text \<open>The properties that a fresh status gets.\<close>

definition cache_properties :: "AWS \<Rightarrow> Properties list" where
  "cache_properties a =
     [\<lparr>pr_Name = ''vpc-id'', pr_Value = aw_Vpcid a\<rparr>,
      \<lparr>pr_Name = ''subnet-id'', pr_Value = aw_Subnetid a\<rparr>,
      \<lparr>pr_Name = ''internet-gateway-id'', pr_Value = aw_InternetGwid a\<rparr>,
      \<lparr>pr_Name = ''internet-gateway-attachment-vpc-id'', pr_Value = aw_InternetGatewayAttachment a\<rparr>,
      \<lparr>pr_Name = ''route-table-id'', pr_Value = aw_RouteTable a\<rparr>,
      \<lparr>pr_Name = ''security-group-id'', pr_Value = aw_SecurityGroupid a\<rparr>,
      \<lparr>pr_Name = ''instance-id'', pr_Value = aw_Instanceid a\<rparr>,
      \<lparr>pr_Name = ''public-dns-name'', pr_Value = aw_PublicDnsName a\<rparr>,
      \<lparr>pr_Name = ''public-subnet-id'', pr_Value = aw_PublicSubnetid a\<rparr>,
      \<lparr>pr_Name = ''nat-gateway-id'', pr_Value = aw_NatGatewayid a\<rparr>,
      \<lparr>pr_Name = ''public-route-table-id'', pr_Value = aw_PublicRouteTable a\<rparr>,
      \<lparr>pr_Name = ''cp-security-group-id'', pr_Value = aw_CPSecurityGroupid a\<rparr>,
      \<lparr>pr_Name = ''worker-security-group-id'', pr_Value = aw_WorkerSecurityGroupid a\<rparr>,
      \<lparr>pr_Name = ''eip-allocation-id'', pr_Value = aw_EIPAllocationid a\<rparr>,
      \<lparr>pr_Name = ''iam-instance-profile-arn'', pr_Value = aw_IAMInstanceProfileArn a\<rparr>]"

section \<open>Conditions\<close>

definition condition_types :: "string list" where
  "condition_types = [ConditionAvailable, ConditionProgressing, ConditionDegraded, ConditionTerminated]"

definition build_condition :: "nat \<Rightarrow> string \<Rightarrow> string \<Rightarrow> string \<Rightarrow> string \<Rightarrow> Condition" where
  "build_condition now trueType reason message t =
     (let c = \<lparr>cd_Type = t, cd_Status = ''False'', cd_Reason = '''', cd_Message = '''',
               cd_LastTransitionTime = now\<rparr>;
          c = (if t = trueType then c\<lparr>cd_Status := ''True''\<rparr> else c)
      in if t = trueType \<or> (t = ConditionTerminated \<and> reason \<noteq> '''')
         then c\<lparr>cd_Reason := reason, cd_Message := message\<rparr> else c)"

definition buildConditions :: "nat \<Rightarrow> string \<Rightarrow> string \<Rightarrow> string \<Rightarrow> Condition list" where
  "buildConditions now trueType reason message =
     map (build_condition now trueType reason message) condition_types"

definition getAvailableConditions :: "nat \<Rightarrow> Condition list" where
  "getAvailableConditions now = buildConditions now ConditionAvailable '''' ''''"

definition getDegradedConditions :: "nat \<Rightarrow> string \<Rightarrow> string \<Rightarrow> Condition list" where
  "getDegradedConditions now reason message = buildConditions now ConditionDegraded reason message"

definition getProgressingConditions :: "nat \<Rightarrow> string \<Rightarrow> string \<Rightarrow> Condition list" where
  "getProgressingConditions now reason message = buildConditions now ConditionProgressing reason message"

definition getTerminatedConditions :: "nat \<Rightarrow> string \<Rightarrow> string \<Rightarrow> Condition list" where
  "getTerminatedConditions now reason message = buildConditions now ConditionTerminated reason message"

text \<open>\<open>meta.FindStatusCondition\<close> of k8s.io/apimachinery: the first condition of a type.\<close>

definition FindStatusCondition :: "Condition list \<Rightarrow> string \<Rightarrow> Condition option" where
  "FindStatusCondition cs t = find (\<lambda>c. cd_Type c = t) cs"

definition condition_changed :: "Condition list \<Rightarrow> Condition \<Rightarrow> bool" where
  "condition_changed old new = (case FindStatusCondition old (cd_Type new) of
       None \<Rightarrow> True
     | Some c \<Rightarrow> cd_Status c \<noteq> cd_Status new \<or> cd_Reason c \<noteq> cd_Reason new
         \<or> cd_Message c \<noteq> cd_Message new)"

section \<open>Updating the status\<close>

text \<open>Whether a property differs from the cache. The source's loop variable is a copy, so the
  assignments to \<open>properties.Value\<close> in that loop have no effect beyond setting \<open>modified\<close>.\<close>

definition property_changed :: "AWS \<Rightarrow> Properties \<Rightarrow> bool" where
  "property_changed a p =
     (case map_of (map (\<lambda>q. (pr_Name q, pr_Value q)) (cache_properties a)) (pr_Name p) of
        None \<Rightarrow> False
      | Some v \<Rightarrow> pr_Value p \<noteq> v)"

definition status_properties :: "AWS \<Rightarrow> Properties list \<Rightarrow> Properties list" where
  "status_properties a ps = (if ps = [] then cache_properties a else ps)"

text \<open>The environment that \<open>updateStatus\<close> writes, and whether it writes it at all.\<close>

definition new_status :: "Environment \<Rightarrow> AWS \<Rightarrow> Condition list option \<Rightarrow> bool \<times> Environment" where
  "new_status env a conditions =
     (let old = env_Status env;
          conds = (case conditions of Some cs \<Rightarrow> cs | None \<Rightarrow> st_Conditions old);
          modified = (\<exists>c \<in> set conds. condition_changed (st_Conditions old) c);
          modified = (if st_Properties old = [] then True
                      else modified \<or> (\<exists>p \<in> set (st_Properties old). property_changed a p))
      in (modified, env\<lparr>env_Status := old\<lparr>st_Conditions := conds,
                          st_Properties := status_properties a (st_Properties old)\<rparr>\<rparr>))"

text \<open>\<open>filepath.Dir\<close> is given by the slash-separated segments: the path up to the last slash,
  cleaned of empty, \<open>.\<close> and \<open>..\<close> segments.\<close>

fun segments :: "string \<Rightarrow> string list" where
  "segments [] = [[]]"
| "segments (c # s) = (if c = CHR ''/'' then [] # segments s
     else (case segments s of t # ts \<Rightarrow> (c # t) # ts | [] \<Rightarrow> [[c]]))"

fun clean_segments :: "bool \<Rightarrow> string list \<Rightarrow> string list \<Rightarrow> string list" where
  "clean_segments rooted acc [] = rev acc"
| "clean_segments rooted acc (t # ts) =
     (if t = '''' \<or> t = ''.'' then clean_segments rooted acc ts
      else if t = ''..'' then
        (case acc of
           [] \<Rightarrow> clean_segments rooted (if rooted then [] else [''..'']) ts
         | u # us \<Rightarrow> if u = ''..'' then clean_segments rooted (''..'' # acc) ts
                    else clean_segments rooted us ts)
      else clean_segments rooted (t # acc) ts)"

definition filepath_Dir :: "string \<Rightarrow> string" where
  "filepath_Dir path =
     (let rooted = has_prefix path ''/'';
          ts = clean_segments rooted [] (butlast (segments path))
      in if rooted then ''/'' @ sep_by ''/'' ts else if ts = [] then ''.'' else sep_by ''/'' ts)"

text \<open>Permission bits, written in octal in the source.\<close>

abbreviation "mode_0750 \<equiv> 7 * 8 * 8 + 5 * (8::nat)"
abbreviation "mode_0600 \<equiv> 6 * 8 * (8::nat)"

definition update :: "('s, 'f) platform \<Rightarrow> Environment \<Rightarrow> string \<Rightarrow> ('s, unit) io" where
  "update pl env cachePath =
     andthen (lift_result (pl_Marshal pl env)) (\<lambda>data.
     andthen (pl_MkdirAll pl (filepath_Dir cachePath) mode_0750) (\<lambda>_.
     andthen (pl_WriteFile pl cachePath data mode_0600) (\<lambda>_.
     pl_Chmod pl cachePath mode_0600)))"

definition updateStatus :: "('s, 'f) Provider \<Rightarrow> Environment \<Rightarrow> AWS \<Rightarrow> Condition list option \<Rightarrow> ('s pstate, unit) io" where
  "updateStatus p env a conditions =
     (case new_status env a conditions of (modified, envCopy) \<Rightarrow>
        if \<not> modified then ret () else on_world (update (p_platform p) envCopy (p_cacheFile p)))"

definition updateCondition :: "('s, 'f) Provider \<Rightarrow> Environment \<Rightarrow> AWS \<Rightarrow> Condition list \<Rightarrow> ('s pstate, unit) io" where
  "updateCondition p env a conditions = updateStatus p env a (Some conditions)"

definition now :: "('s, 'f) Provider \<Rightarrow> ('s pstate, nat) io" where
  "now p = gets (\<lambda>ps. pl_Now (p_platform p) (ps_world ps))"

text \<open>The callers pass the provider's own environment, so it is read here.\<close>

definition updateAvailableCondition :: "('s, 'f) Provider \<Rightarrow> AWS \<Rightarrow> ('s pstate, unit) io" where
  "updateAvailableCondition p a = andthen environment (\<lambda>env. andthen (now p) (\<lambda>t.
     updateCondition p env a (getAvailableConditions t)))"

definition updateTerminatedCondition :: "('s, 'f) Provider \<Rightarrow> AWS \<Rightarrow> ('s pstate, unit) io" where
  "updateTerminatedCondition p a = andthen environment (\<lambda>env. andthen (now p) (\<lambda>t.
     updateCondition p env a
       (getTerminatedConditions t ''v1alpha1.Terminated'' ''AWS resources have been terminated'')))"

definition updateProgressingCondition :: "('s, 'f) Provider \<Rightarrow> AWS \<Rightarrow> string \<Rightarrow> string \<Rightarrow> ('s pstate, unit) io" where
  "updateProgressingCondition p a reason message = andthen environment (\<lambda>env. andthen (now p) (\<lambda>t.
     updateCondition p env a (getProgressingConditions t reason message)))"

definition updateDegradedCondition :: "('s, 'f) Provider \<Rightarrow> AWS \<Rightarrow> string \<Rightarrow> string \<Rightarrow> ('s pstate, unit) io" where
  "updateDegradedCondition p a reason message = andthen environment (\<lambda>env. andthen (now p) (\<lambda>t.
     updateCondition p env a (getDegradedConditions t reason message)))"

definition Status :: "('s, 'f) Provider \<Rightarrow> ('s pstate, Condition list) io" where
  "Status p = andthen (on_world (pl_ReadFile (p_platform p) (p_cacheFile p))) (\<lambda>data.
     andthen (lift_result (pl_Unmarshal (p_platform p) data)) (\<lambda>env.
     ret (st_Conditions (env_Status env))))"

section \<open>The status\<close>

lemma condition_types_distinct [simp]: "distinct condition_types"
  by (simp add: condition_types_def)

lemma build_condition_simps [simp]:
  "cd_Type (build_condition t ty r m ct) = ct"
  "cd_Status (build_condition t ty r m ct) = (if ct = ty then ''True'' else ''False'')"
  "cd_Reason (build_condition t ty r m ct) = (if ct = ty \<or> ct = ConditionTerminated then r else '''')"
  "cd_Message (build_condition t ty r m ct) =
     (if ct = ty \<or> (ct = ConditionTerminated \<and> r \<noteq> '''') then m else '''')"
  by (simp_all add: build_condition_def Let_def)

lemma find_build: "ct \<in> set cts \<Longrightarrow>
    find (\<lambda>c. cd_Type c = ct) (map (build_condition t ty r m) cts) = Some (build_condition t ty r m ct)"
  by (induction cts) auto

lemma condition_settled:
  "ct \<in> set condition_types \<Longrightarrow>
   \<not> condition_changed (buildConditions t ty r m) (build_condition t' ty r m ct)"
  by (simp add: condition_changed_def FindStatusCondition_def buildConditions_def find_build)

lemma cache_properties_nonempty [simp]: "cache_properties a \<noteq> []"
  by (simp add: cache_properties_def)

lemma status_properties_nonempty [simp]: "status_properties a ps \<noteq> []"
  by (simp add: status_properties_def)

lemma map_of_image: "distinct (map n xs) \<Longrightarrow> x \<in> set xs \<Longrightarrow> map_of (map (\<lambda>q. (n q, v q)) xs) (n x) = Some (v x)"
  by (rule map_of_is_SomeI) (auto simp: o_def)

lemma cache_properties_distinct: "distinct (map pr_Name (cache_properties a))"
  by (simp add: cache_properties_def)

lemma cache_properties_settled: "p \<in> set (cache_properties a) \<Longrightarrow> \<not> property_changed a p"
  by (simp add: property_changed_def map_of_image [OF cache_properties_distinct])

lemma read_cache_properties: "foldl read_property zero_AWS (cache_properties a) = a"
  by (simp add: cache_properties_def read_property_def zero_AWS_def Let_def)

lemma new_status_simps:
  "st_Properties (env_Status (snd (new_status env a cs))) =
     status_properties a (st_Properties (env_Status env))"
  "st_Conditions (env_Status (snd (new_status env a (Some conds)))) = conds"
  "env_Spec (snd (new_status env a cs)) = env_Spec env"
  by (simp_all add: new_status_def Let_def)

end
