(* ===== verification/Nlb.thy ===== *)
theory Nlb
  imports Provider_State
begin

text \<open>
  \<open>pkg/provider/aws/nlb.go\<close>: the network load balancer in front of the control plane of a highly
  available cluster, with its target group and listener: creation, target registration, deletion.
  Log lines are left out. \<open>attempt\<close> is a call whose error is only logged.
\<close>

section \<open>Errors and names\<close>

definition isNLBNotFoundError :: "error \<Rightarrow> bool" where
  "isNLBNotFoundError e \<longleftrightarrow> contains e ''LoadBalancerNotFound''"

definition isTargetGroupNotFoundError :: "error \<Rightarrow> bool" where
  "isTargetGroupNotFoundError e \<longleftrightarrow> contains e ''TargetGroupNotFound''"

definition isListenerNotFoundError :: "error \<Rightarrow> bool" where
  "isListenerNotFoundError e \<longleftrightarrow> contains e ''ListenerNotFound''"

abbreviation k8sAPIPort :: "32 word" where
  "k8sAPIPort \<equiv> 6443"

text \<open>The names that \<open>createNLB\<close> and \<open>createTargetGroup\<close> give: at most 32 characters.\<close>

definition nlb_name :: "string \<Rightarrow> string" where
  "nlb_name name = (let maxLen = 32 - length ''-nlb'' in
     (if length name > maxLen then take maxLen name else name) @ ''-nlb'')"

definition tg_name :: "string \<Rightarrow> string" where
  "tg_name name = (let maxLen = 32 - length ''-k8s-tg'' in
     (if length name > maxLen then take maxLen name else name) @ ''-k8s-tg'')"

definition convertTagsToELBv2Tags :: "('s, 'f) Provider \<Rightarrow> tag list" where
  "convertTagsToELBv2Tags p = map (\<lambda>(k, v). (k, v)) (p_Tags p)"

section \<open>Creation\<close>

definition createNLB :: "('s, 'f) Provider \<Rightarrow> ('s pstate, unit) io" where
  "createNLB p = andthen (gets id) (\<lambda>ps.
     andthen (wrap ''error creating load balancer'' (on_world (elb_CreateLoadBalancer (p_elbv2 p)
       \<lparr>cli_Name = nlb_name (env_Name (ps_Environment ps)), cli_Type = ''network'',
        cli_Subnets = [aw_PublicSubnetid (ps_aws ps)], cli_Scheme = ''internal'',
        cli_IpAddressType = ''ipv4'', cli_Tags = convertTagsToELBv2Tags p\<rparr>))) (\<lambda>lbs.
     (case lbs of
        [] \<Rightarrow> fail ''load balancer creation returned no load balancers''
      | lb # _ \<Rightarrow> set_cache (\<lambda>c. c\<lparr>cc_LoadBalancerArn := lb_LoadBalancerArn lb,
                                     cc_LoadBalancerDNS := lb_DNSName lb\<rparr>))))"

definition createListener :: "('s, 'f) Provider \<Rightarrow> ('s pstate, unit) io" where
  "createListener p = andthen (gets ps_cache) (\<lambda>c.
     if cc_LoadBalancerArn c = '''' \<or> cc_TargetGroupArn c = ''''
     then fail ''load balancer ARN and target group ARN are required''
     else andthen (wrap ''error creating listener'' (on_world (elb_CreateListener (p_elbv2 p)
       \<lparr>cls_LoadBalancerArn = cc_LoadBalancerArn c, cls_Protocol = ''TCP'', cls_Port = k8sAPIPort,
        cls_DefaultActions = [\<lparr>la_Type = ''forward'', la_TargetGroupArn = None,
                               la_ForwardConfig = Some [cc_TargetGroupArn c]\<rparr>],
        cls_Tags = convertTagsToELBv2Tags p\<rparr>))) (\<lambda>_. ret ()))"

definition createTargetGroup :: "('s, 'f) Provider \<Rightarrow> ('s pstate, unit) io" where
  "createTargetGroup p = andthen (gets id) (\<lambda>ps.
     if cc_LoadBalancerArn (ps_cache ps) = ''''
     then fail ''load balancer ARN is required to create target group''
     else
     andthen (wrap ''error creating target group'' (on_world (elb_CreateTargetGroup (p_elbv2 p)
       \<lparr>cti_Name = tg_name (env_Name (ps_Environment ps)), cti_Protocol = ''TCP'',
        cti_Port = k8sAPIPort, cti_VpcId = aw_Vpcid (ps_aws ps), cti_TargetType = ''instance'',
        cti_HealthCheckProtocol = ''TCP'', cti_HealthCheckPort = ''6443'',
        cti_HealthCheckIntervalSeconds = 10, cti_HealthCheckTimeoutSeconds = 5,
        cti_HealthyThresholdCount = 2, cti_UnhealthyThresholdCount = 2,
        cti_Tags = convertTagsToELBv2Tags p\<rparr>))) (\<lambda>tgs.
     (case tgs of
        [] \<Rightarrow> fail ''target group creation returned no target groups''
      | tg # _ \<Rightarrow>
          andthen (set_cache (\<lambda>c. c\<lparr>cc_TargetGroupArn := tg_TargetGroupArn tg\<rparr>)) (\<lambda>_.
          wrap ''error creating listener'' (createListener p)))))"

definition node_targets :: "InstanceInfo list \<Rightarrow> TargetDescription list" where
  "node_targets insts = map (\<lambda>i. \<lparr>td_Id = ii_InstanceID i, td_Port = k8sAPIPort\<rparr>)
     (filter (\<lambda>i. ii_InstanceID i \<noteq> '''') insts)"

definition registerTargets :: "('s, 'f) Provider \<Rightarrow> ('s pstate, unit) io" where
  "registerTargets p = andthen (gets ps_cache) (\<lambda>c.
     if cc_TargetGroupArn c = '''' then fail ''target group ARN is required''
     else if cc_ControlPlaneInstances c = [] then fail ''no control-plane instances to register''
     else let targets = node_targets (cc_ControlPlaneInstances c) in
       if targets = [] then fail ''no valid control-plane instances to register''
       else wrap ''error registering targets''
              (on_world (elb_RegisterTargets (p_elbv2 p) (cc_TargetGroupArn c) targets)))"

section \<open>Deletion\<close>

definition delete_one_listener :: "('s, 'f) Provider \<Rightarrow> Listener \<Rightarrow> ('s pstate, unit) io" where
  "delete_one_listener p l =
     catch (on_world (elb_DeleteListener (p_elbv2 p) (ls_ListenerArn l)))
       (\<lambda>e. if isListenerNotFoundError e then ret ()
            else fail (''error deleting listener '' @ ls_ListenerArn l @ '': '' @ e))"

definition deleteListener :: "('s, 'f) Provider \<Rightarrow> ClusterCache \<Rightarrow> ('s pstate, unit) io" where
  "deleteListener p c =
     (if cc_LoadBalancerArn c = '''' then ret ()
      else andthen (attempt (on_world (elb_DescribeListeners (p_elbv2 p) (cc_LoadBalancerArn c)))) (\<lambda>r.
        case r of
          Inl e \<Rightarrow> if isListenerNotFoundError e \<or> isNLBNotFoundError e then ret ()
                   else fail (''error describing listeners: '' @ e)
        | Inr ls \<Rightarrow> for_each (delete_one_listener p) ls))"

definition deregister_all :: "('s, 'f) Provider \<Rightarrow> string \<Rightarrow> TargetHealthDescription list \<Rightarrow> ('s pstate, unit) io" where
  "deregister_all p arn descs = (let targets = List.map_filter fst descs in
     if targets = [] then ret ()
     else andthen (attempt (on_world (elb_DeregisterTargets (p_elbv2 p) arn targets))) (\<lambda>_. ret ()))"

definition remove_target_group :: "('s, 'f) Provider \<Rightarrow> string \<Rightarrow> ('s pstate, unit) io" where
  "remove_target_group p arn =
     catch (on_world (elb_DeleteTargetGroup (p_elbv2 p) arn))
       (\<lambda>e. if isTargetGroupNotFoundError e then ret () else fail (''error deleting target group: '' @ e))"

definition deleteTargetGroup :: "('s, 'f) Provider \<Rightarrow> ClusterCache \<Rightarrow> ('s pstate, unit) io" where
  "deleteTargetGroup p c = (let arn = cc_TargetGroupArn c in
     if arn = '''' then ret ()
     else andthen (attempt (on_world (elb_DescribeTargetHealth (p_elbv2 p) arn))) (\<lambda>r.
       case r of
         Inl e \<Rightarrow> if isTargetGroupNotFoundError e then ret () else remove_target_group p arn
       | Inr descs \<Rightarrow> andthen (deregister_all p arn descs) (\<lambda>_. remove_target_group p arn)))"

definition deleteNLB :: "('s, 'f) Provider \<Rightarrow> ClusterCache \<Rightarrow> ('s pstate, unit) io" where
  "deleteNLB p c =
     (if cc_LoadBalancerArn c = '''' then ret ()
      else
      andthen (if cc_TargetGroupArn c \<noteq> '''' then attempt (deleteListener p c) else ret (Inr ())) (\<lambda>_.
      andthen (if cc_TargetGroupArn c \<noteq> '''' then attempt (deleteTargetGroup p c) else ret (Inr ())) (\<lambda>_.
      catch (on_world (elb_DeleteLoadBalancer (p_elbv2 p) (cc_LoadBalancerArn c)))
        (\<lambda>e. if isNLBNotFoundError e then ret () else fail (''error deleting load balancer: '' @ e)))))"

end
