(* ===== verification/Teardown.thy ===== *)
theory Teardown
  imports Nlb
begin

text \<open>
  \<open>pkg/provider/aws/delete.go\<close>: the deletion of everything an environment owns, in the order that
  AWS's dependencies force, with retries. Log lines are left out; durations are in seconds.

  Bounds: \<open>retryWithBackoff\<close> makes 10 attempts, the NAT gateway is polled 36 times, and the wait
  for network interfaces ends by the clock. That last loop gets 32 rounds of fuel here, one more
  than fit into its five minutes at ten seconds a round; that they are enough whenever sleeping
  lets the clock advance is a theorem of \<open>Teardown_Props\<close>.
\<close>

section \<open>Retries\<close>

abbreviation "maxRetries \<equiv> 10 :: nat"
abbreviation "retryDelay \<equiv> 10 :: nat"
abbreviation "maxRetryDelay \<equiv> 30 :: nat"
abbreviation "verificationDelay \<equiv> 2 :: nat"
abbreviation "deletionTimeout \<equiv> 900 :: nat"

text \<open>The loop with \<open>n\<close> attempts left and the next delay.\<close>

fun retry_loop :: "('s, 'f) Provider \<Rightarrow> nat \<Rightarrow> nat \<Rightarrow> ('s pstate, unit) io \<Rightarrow> ('s pstate, unit) io" where
  "retry_loop p 0 delay operation = fail (''operation failed after '' @ decimal maxRetries @ '' retries'')"
| "retry_loop p (Suc n) delay operation =
     catch operation (\<lambda>e.
       if n = 0 then fail e
       else andthen (sleep p delay) (\<lambda>_.
         retry_loop p n (let d = delay * 2 in if d > maxRetryDelay then maxRetryDelay else d) operation))"

definition retryWithBackoff :: "('s, 'f) Provider \<Rightarrow> ('s pstate, unit) io \<Rightarrow> ('s pstate, unit) io" where
  "retryWithBackoff p operation = retry_loop p maxRetries retryDelay operation"

text \<open>A deletion for which one error text counts as success: the resource is already gone.\<close>

definition unless_gone :: "string \<Rightarrow> ('s, unit) io \<Rightarrow> ('s, unit) io" where
  "unless_gone code m = catch m (\<lambda>e. if contains e code then ret () else fail e)"

text \<open>A call whose error is only logged.\<close>

definition log_error :: "('s, 'a) io \<Rightarrow> ('s, unit) io" where
  "log_error m = andthen (attempt m) (\<lambda>_. ret ())"

abbreviation reason_destroying :: string where
  "reason_destroying \<equiv> ''v1alpha1.Destroying''"

section \<open>What exists\<close>

definition isInstanceTerminated :: "('s, 'f) Provider \<Rightarrow> string \<Rightarrow> ('s pstate, bool) io" where
  "isInstanceTerminated p instanceID =
     andthen (attempt (on_world (ec2_DescribeInstances (p_ec2 p) [instanceID] []))) (\<lambda>r. ret (case r of
       Inl e \<Rightarrow> contains e ''InvalidInstanceID.NotFound''
     | Inr ((inst # _) # _) \<Rightarrow> (case ei_State inst of Some st \<Rightarrow> is_Name st = ''terminated'' | None \<Rightarrow> False)
     | Inr _ \<Rightarrow> True))"

text \<open>\<open>err == nil\<close> of a describe call.\<close>

definition succeeds :: "('s, 'a) io \<Rightarrow> ('s, bool) io" where
  "succeeds m = andthen (attempt m) (\<lambda>r. ret (case r of Inl _ \<Rightarrow> False | Inr _ \<Rightarrow> True))"

definition securityGroupExists :: "('s, 'f) Provider \<Rightarrow> string \<Rightarrow> ('s pstate, bool) io" where
  "securityGroupExists p sgID = succeeds (on_world (ec2_DescribeSecurityGroups (p_ec2 p) [sgID] []))"

definition subnetExists :: "('s, 'f) Provider \<Rightarrow> string \<Rightarrow> ('s pstate, bool) io" where
  "subnetExists p subnetID = succeeds (on_world (ec2_DescribeSubnets (p_ec2 p) [subnetID] []))"

definition vpcExists :: "('s, 'f) Provider \<Rightarrow> string \<Rightarrow> ('s pstate, bool) io" where
  "vpcExists p vpcID = succeeds (on_world (ec2_DescribeVpcs (p_ec2 p) [vpcID]))"

definition has_main :: "RouteTable \<Rightarrow> bool" where
  "has_main rt \<longleftrightarrow> (\<exists>assoc \<in> set (rt_Associations rt). ra_Main assoc = Some True)"

definition isMainRouteTable :: "('s, 'f) Provider \<Rightarrow> string \<Rightarrow> ('s pstate, bool) io" where
  "isMainRouteTable p rtID =
     andthen (on_world (ec2_DescribeRouteTables (p_ec2 p) [rtID] [])) (\<lambda>rts.
     ret (case rts of rt # _ \<Rightarrow> has_main rt | [] \<Rightarrow> False))"

text \<open>\<open>listVPCDependencies\<close> describes what is left in a VPC, for the log.\<close>

definition listVPCDependencies :: "('s, 'f) Provider \<Rightarrow> string \<Rightarrow> ('s pstate, unit) io" where
  "listVPCDependencies p vpcID =
     andthen (log_error (on_world (ec2_DescribeNetworkInterfaces (p_ec2 p) [] [(''vpc-id'', [vpcID])]))) (\<lambda>_.
     andthen (log_error (on_world (ec2_DescribeSecurityGroups (p_ec2 p) [] [(''vpc-id'', [vpcID])]))) (\<lambda>_.
     log_error (on_world (ec2_DescribeSubnets (p_ec2 p) [] [(''vpc-id'', [vpcID])]))))"

section \<open>Load balancer\<close>

definition deleteNLBForCluster :: "('s, 'f) Provider \<Rightarrow> ClusterCache \<Rightarrow> ('s pstate, unit) io" where
  "deleteNLBForCluster p c =
     (if cc_LoadBalancerDNS c = '''' then ret ()
      else andthen environment (\<lambda>env.
        andthen (attempt (on_world (elb_DescribeLoadBalancers (p_elbv2 p)
          \<lparr>dli_LoadBalancerArns = [], dli_Names = [env_Name env @ ''-nlb'']\<rparr>))) (\<lambda>r.
        case r of
          Inl e \<Rightarrow> if isNLBNotFoundError e then ret ()
                   else fail (''error describing load balancers: '' @ e)
        | Inr lbs \<Rightarrow>
            (case find (\<lambda>lb. lb_DNSName lb = cc_LoadBalancerDNS c) lbs of
               None \<Rightarrow> ret ()
             | Some lb \<Rightarrow>
                 andthen (attempt (on_world (elb_DescribeTargetGroups (p_elbv2 p)
                   \<lparr>dti_TargetGroupArns = [], dti_LoadBalancerArn = Some (lb_LoadBalancerArn lb)\<rparr>))) (\<lambda>t.
                 deleteNLB p (c\<lparr>cc_LoadBalancerArn := lb_LoadBalancerArn lb,
                   cc_TargetGroupArn := (case t of
                       Inr (tg # _) \<Rightarrow> tg_TargetGroupArn tg
                     | _ \<Rightarrow> cc_TargetGroupArn c)\<rparr>))))))"

section \<open>Instances\<close>

definition cluster_ids :: "Environment \<Rightarrow> string list" where
  "cluster_ids env = (case st_Cluster (env_Status env) of
       None \<Rightarrow> []
     | Some c \<Rightarrow> filter (\<lambda>i. i \<noteq> '''') (map ns_InstanceID (cs_Nodes c)))"

definition instances_to_delete :: "Environment \<Rightarrow> AWS \<Rightarrow> string list" where
  "instances_to_delete env a = (let ids = cluster_ids env in
     if aw_Instanceid a \<noteq> '''' \<and> aw_Instanceid a \<notin> set ids then ids @ [aw_Instanceid a] else ids)"

text \<open>The body of one goroutine: what it sends to the error channel, if anything.\<close>

definition wait_for_termination :: "('s, 'f) Provider \<Rightarrow> string \<Rightarrow> ('s pstate, error option) io" where
  "wait_for_termination p i =
     andthen (attempt (on_world (pl_WaitTerminated (p_platform p) [i] deletionTimeout))) (\<lambda>waited.
     andthen (isInstanceTerminated p i) (\<lambda>gone.
     ret (case waited of
         Inl e \<Rightarrow> if gone then None
                  else Some (''error waiting for instance '' @ i @ '' termination: '' @ e)
       | Inr _ \<Rightarrow> if gone then None
                  else Some (''instance '' @ i @ '' not terminated after waiting''))))"

fun collect :: "('x \<Rightarrow> ('s, 'e option) io) \<Rightarrow> 'x list \<Rightarrow> ('s, 'e list) io" where
  "collect f [] = ret []"
| "collect f (x # xs) = andthen (f x) (\<lambda>r. andthen (collect f xs) (\<lambda>rs.
     ret (case r of None \<Rightarrow> rs | Some e \<Rightarrow> e # rs)))"

definition terminate_request :: "('s, 'f) Provider \<Rightarrow> string list \<Rightarrow> ('s pstate, unit) io" where
  "terminate_request p ids = retryWithBackoff p
     (unless_gone ''InvalidInstanceID.NotFound'' (on_world (ec2_TerminateInstances (p_ec2 p) ids)))"

definition deleteEC2Instances :: "('s, 'f) Provider \<Rightarrow> AWS \<Rightarrow> ('s pstate, unit) io" where
  "deleteEC2Instances p a = andthen environment (\<lambda>env.
     let ids = instances_to_delete env a in
     if ids = [] then ret ()
     else
     andthen (log_error (updateProgressingCondition p a reason_destroying ''Terminating EC2 instances'')) (\<lambda>_.
     andthen (catch (terminate_request p ids) (\<lambda>e.
        andthen (log_error (updateDegradedCondition p a reason_destroying ''Error terminating EC2 instances'')) (\<lambda>_.
        fail (''error terminating instances: '' @ e)))) (\<lambda>_.
     andthen (collect (\<lambda>n. wait_for_termination p (ids ! n)) (pl_Schedule (p_platform p) (length ids))) (\<lambda>errs.
     if errs \<noteq> []
     then fail (''failed to terminate '' @ decimal (length errs) @ '' instance(s): '' @ show_list errs)
     else ret ()))))"

section \<open>Network interfaces\<close>

abbreviation "eniPollInterval \<equiv> 10 :: nat"
abbreviation "eniPollTimeout \<equiv> 300 :: nat"

definition enis_blocking :: "NetworkInterface list \<Rightarrow> nat" where
  "enis_blocking enis = length (filter (\<lambda>eni. ni_Status eni \<noteq> ''available'') enis)"

text \<open>What a round of the loop has seen: all drained, or time to look at the clock.\<close>

definition enis_drained :: "('s, 'f) Provider \<Rightarrow> string \<Rightarrow> ('s pstate, bool) io" where
  "enis_drained p vpcID =
     andthen (attempt (on_world (ec2_DescribeNetworkInterfaces (p_ec2 p) [] [(''vpc-id'', [vpcID])])))
       (\<lambda>r. ret (case r of Inl _ \<Rightarrow> False | Inr enis \<Rightarrow> enis_blocking enis = 0))"

fun eni_loop :: "nat \<Rightarrow> ('s, 'f) Provider \<Rightarrow> string \<Rightarrow> nat \<Rightarrow> ('s pstate, unit) io" where
  "eni_loop 0 p vpcID deadline = fail ''out of fuel''"
| "eni_loop (Suc fuel) p vpcID deadline =
     andthen (enis_drained p vpcID) (\<lambda>drained.
     if drained then ret ()
     else andthen (now p) (\<lambda>t.
       if t > deadline then fail (''timed out waiting for ENIs to drain in VPC '' @ vpcID)
       else andthen (sleep p eniPollInterval) (\<lambda>_. eni_loop fuel p vpcID deadline)))"

definition eni_fuel :: nat where
  "eni_fuel = 32"

definition waitForENIsDrained :: "('s, 'f) Provider \<Rightarrow> string \<Rightarrow> ('s pstate, unit) io" where
  "waitForENIsDrained p vpcID =
     (if vpcID = '''' then ret ()
      else andthen (now p) (\<lambda>t. eni_loop eni_fuel p vpcID (t + eniPollTimeout)))"

section \<open>Security groups\<close>

definition revokeSecurityGroupRules :: "('s, 'f) Provider \<Rightarrow> string \<Rightarrow> ('s pstate, unit) io" where
  "revokeSecurityGroupRules p sgID =
     (if sgID = '''' then ret ()
      else andthen (attempt (on_world (ec2_DescribeSecurityGroups (p_ec2 p) [sgID] []))) (\<lambda>r.
        case r of
          Inl e \<Rightarrow> if contains e ''InvalidGroup.NotFound'' then ret ()
                   else fail (''error describing security group '' @ sgID @ '': '' @ e)
        | Inr [] \<Rightarrow> ret ()
        | Inr (sg # _) \<Rightarrow>
            if sg_IpPermissions sg = [] then ret ()
            else catch (andthen (on_world (ec2_RevokeSecurityGroupIngress (p_ec2 p) sgID (sg_IpPermissions sg)))
                          (\<lambda>_. ret ()))
              (\<lambda>e. if contains e ''InvalidGroup.NotFound'' then ret ()
                   else fail (''error revoking ingress rules for '' @ sgID @ '': '' @ e))))"

definition deleteSecurityGroup :: "('s, 'f) Provider \<Rightarrow> string \<Rightarrow> string \<Rightarrow> ('s pstate, unit) io" where
  "deleteSecurityGroup p sgID label =
     (if sgID = '''' then ret ()
      else
      andthen (retryWithBackoff p
        (unless_gone ''InvalidGroup.NotFound'' (on_world (ec2_DeleteSecurityGroup (p_ec2 p) sgID)))) (\<lambda>_.
      andthen (sleep p verificationDelay) (\<lambda>_.
      andthen (securityGroupExists p sgID) (\<lambda>still.
      if still then fail (''security group '' @ sgID @ '' ('' @ label @ '') still exists after deletion'')
      else ret ()))))"

text \<open>One of the three deletions, with its degraded condition on failure.\<close>

definition delete_group_of :: "('s, 'f) Provider \<Rightarrow> AWS \<Rightarrow> string \<Rightarrow> string \<Rightarrow> string \<Rightarrow> ('s pstate, unit) io" where
  "delete_group_of p a sgID label kind =
     catch (deleteSecurityGroup p sgID label) (\<lambda>e.
       andthen (log_error (updateDegradedCondition p a reason_destroying (''Error deleting '' @ kind @ ''security group''))) (\<lambda>_.
       fail (''error deleting '' @ kind @ ''security group '' @ sgID @ '': '' @ e)))"

text \<open>The result is the cache: it loses a shared group that is also the control-plane group.\<close>

definition deleteSecurityGroups :: "('s, 'f) Provider \<Rightarrow> AWS \<Rightarrow> ('s pstate, AWS) io" where
  "deleteSecurityGroups p a =
     andthen (log_error (updateProgressingCondition p a reason_destroying ''Deleting security groups'')) (\<lambda>_.
     andthen (if aw_WorkerSecurityGroupid a \<noteq> '''' \<and> aw_CPSecurityGroupid a \<noteq> ''''
        then andthen (log_error (revokeSecurityGroupRules p (aw_CPSecurityGroupid a))) (\<lambda>_.
             log_error (revokeSecurityGroupRules p (aw_WorkerSecurityGroupid a)))
        else ret ()) (\<lambda>_.
     andthen (delete_group_of p a (aw_WorkerSecurityGroupid a) ''worker'' ''worker '') (\<lambda>_.
     andthen (delete_group_of p a (aw_CPSecurityGroupid a) ''control-plane'' ''control-plane '') (\<lambda>_.
     let a' = (if aw_SecurityGroupid a = aw_CPSecurityGroupid a then a\<lparr>aw_SecurityGroupid := ''''\<rparr> else a) in
     andthen (delete_group_of p a' (aw_SecurityGroupid a') ''shared'' '''') (\<lambda>_.
     ret a')))))"

section \<open>The VPC and what is in it\<close>

text \<open>The NAT gateway disappears asynchronously; the loop polls at most \<open>n\<close> times.\<close>

fun nat_poll :: "nat \<Rightarrow> ('s, 'f) Provider \<Rightarrow> string \<Rightarrow> ('s pstate, unit) io" where
  "nat_poll 0 p i = ret ()"
| "nat_poll (Suc n) p i =
     andthen (sleep p 5) (\<lambda>_.
     andthen (attempt (on_world (ec2_DescribeNatGateways (p_ec2 p) [i]))) (\<lambda>r.
     case r of
       Inl e \<Rightarrow> if contains e ''NatGatewayNotFound'' then ret () else nat_poll n p i
     | Inr [] \<Rightarrow> ret ()
     | Inr (ngw # _) \<Rightarrow> if ng_State ngw = ''deleted'' then ret () else nat_poll n p i))"

definition deleteNATGateway :: "('s, 'f) Provider \<Rightarrow> AWS \<Rightarrow> ('s pstate, unit) io" where
  "deleteNATGateway p a = (let i = aw_NatGatewayid a in
     if i = '''' then ret ()
     else andthen (attempt (on_world (ec2_DeleteNatGateway (p_ec2 p) i))) (\<lambda>r.
       case r of
         Inl e \<Rightarrow> if contains e ''NatGatewayNotFound'' then ret ()
                  else fail (''error deleting NAT Gateway '' @ i @ '': '' @ e)
       | Inr _ \<Rightarrow> nat_poll 36 p i))"

definition releaseElasticIP :: "('s, 'f) Provider \<Rightarrow> AWS \<Rightarrow> ('s pstate, unit) io" where
  "releaseElasticIP p a = (let i = aw_EIPAllocationid a in
     if i = '''' then ret ()
     else catch (on_world (ec2_ReleaseAddress (p_ec2 p) i)) (\<lambda>e.
       if contains e ''InvalidAllocationID.NotFound'' then ret ()
       else fail (''error releasing Elastic IP '' @ i @ '': '' @ e)))"

definition deletePublicRouteTable :: "('s, 'f) Provider \<Rightarrow> AWS \<Rightarrow> ('s pstate, unit) io" where
  "deletePublicRouteTable p a = (let i = aw_PublicRouteTable a in
     if i = '''' then ret ()
     else wrap (''error deleting public route table '' @ i) (retryWithBackoff p
       (unless_gone ''InvalidRouteTableID.NotFound'' (on_world (ec2_DeleteRouteTable (p_ec2 p) i)))))"

definition deletePublicSubnet :: "('s, 'f) Provider \<Rightarrow> AWS \<Rightarrow> ('s pstate, unit) io" where
  "deletePublicSubnet p a = (let i = aw_PublicSubnetid a in
     if i = '''' then ret ()
     else wrap (''error deleting public subnet '' @ i) (retryWithBackoff p
       (unless_gone ''InvalidSubnetID.NotFound'' (on_world (ec2_DeleteSubnet (p_ec2 p) i)))))"

definition deleteSubnet :: "('s, 'f) Provider \<Rightarrow> AWS \<Rightarrow> ('s pstate, unit) io" where
  "deleteSubnet p a = (let i = aw_Subnetid a in
     if i = '''' then ret ()
     else
     andthen (wrap (''error deleting subnet '' @ i) (retryWithBackoff p
       (unless_gone ''InvalidSubnetID.NotFound'' (on_world (ec2_DeleteSubnet (p_ec2 p) i))))) (\<lambda>_.
     andthen (sleep p verificationDelay) (\<lambda>_.
     andthen (subnetExists p i) (\<lambda>still.
     if still then fail (''subnet '' @ i @ '' still exists after deletion'') else ret ()))))"

definition deleteRouteTable :: "('s, 'f) Provider \<Rightarrow> AWS \<Rightarrow> ('s pstate, unit) io" where
  "deleteRouteTable p a = (let i = aw_RouteTable a in
     if i = '''' then ret ()
     else
     andthen (attempt (isMainRouteTable p i)) (\<lambda>r.
     if r = Inr True then ret ()
     else wrap (''error deleting route table '' @ i) (retryWithBackoff p
       (unless_gone ''InvalidRouteTableID.NotFound'' (on_world (ec2_DeleteRouteTable (p_ec2 p) i))))))"

definition isAlreadyDetachedError :: "error \<Rightarrow> bool" where
  "isAlreadyDetachedError e \<longleftrightarrow>
     contains e ''Gateway.NotAttached'' \<or> contains e ''InvalidInternetGatewayID.NotFound''"

definition detach_gateway :: "('s, 'f) Provider \<Rightarrow> string \<Rightarrow> string \<Rightarrow> ('s pstate, unit) io" where
  "detach_gateway p i vpc = retryWithBackoff p
     (catch (on_world (ec2_DetachInternetGateway (p_ec2 p) i vpc))
        (\<lambda>e. if isAlreadyDetachedError e then ret () else fail e))"

definition deleteInternetGateway :: "('s, 'f) Provider \<Rightarrow> AWS \<Rightarrow> ('s pstate, unit) io" where
  "deleteInternetGateway p a = (let i = aw_InternetGwid a; vpc = aw_Vpcid a in
     if i = '''' then ret ()
     else
     andthen (if vpc \<noteq> ''''
        then andthen (wrap (''error detaching Internet Gateway '' @ i) (detach_gateway p i vpc))
               (\<lambda>_. sleep p verificationDelay)
        else ret ()) (\<lambda>_.
     wrap (''error deleting Internet Gateway '' @ i) (retryWithBackoff p
       (unless_gone ''InvalidInternetGatewayID.NotFound''
          (on_world (ec2_DeleteInternetGateway (p_ec2 p) i))))))"

definition delete_vpc_once :: "('s, 'f) Provider \<Rightarrow> string \<Rightarrow> ('s pstate, unit) io" where
  "delete_vpc_once p i = catch (on_world (ec2_DeleteVpc (p_ec2 p) i)) (\<lambda>e.
     if contains e ''InvalidVpcID.NotFound'' then ret ()
     else if contains e ''DependencyViolation'' then andthen (listVPCDependencies p i) (\<lambda>_. fail e)
     else fail e)"

definition deleteVPC :: "('s, 'f) Provider \<Rightarrow> AWS \<Rightarrow> ('s pstate, unit) io" where
  "deleteVPC p a = (let i = aw_Vpcid a in
     if i = '''' then ret ()
     else
     andthen (sleep p (verificationDelay * 2)) (\<lambda>_.
     andthen (wrap (''error deleting VPC '' @ i) (retryWithBackoff p (delete_vpc_once p i))) (\<lambda>_.
     andthen (sleep p verificationDelay) (\<lambda>_.
     andthen (vpcExists p i) (\<lambda>still.
     if still then fail (''VPC '' @ i @ '' still exists after deletion'') else ret ())))))"

definition deleteVPCResources :: "('s, 'f) Provider \<Rightarrow> AWS \<Rightarrow> ('s pstate, unit) io" where
  "deleteVPCResources p a =
     andthen (log_error (updateProgressingCondition p a reason_destroying ''Deleting VPC resources'')) (\<lambda>_.
     andthen (deleteNATGateway p a) (\<lambda>_.
     andthen (releaseElasticIP p a) (\<lambda>_.
     andthen (deletePublicSubnet p a) (\<lambda>_.
     andthen (deletePublicRouteTable p a) (\<lambda>_.
     andthen (deleteSubnet p a) (\<lambda>_.
     andthen (deleteRouteTable p a) (\<lambda>_.
     andthen (deleteInternetGateway p a) (\<lambda>_.
     andthen (deleteVPC p a) (\<lambda>_.
     updateTerminatedCondition p a)))))))))"

section \<open>The whole deletion\<close>

definition delete_load_balancer :: "('s, 'f) Provider \<Rightarrow> AWS \<Rightarrow> ('s pstate, unit) io" where
  "delete_load_balancer p a = andthen environment (\<lambda>env.
     case (IsMultinode env, st_Cluster (env_Status env)) of
       (True, Some c) \<Rightarrow>
         if cs_LoadBalancerDNS c \<noteq> ''''
         then wrap ''failed to delete load balancer (resources may be leaked)''
                (deleteNLBForCluster p ((zero_ClusterCache a)\<lparr>cc_LoadBalancerDNS := cs_LoadBalancerDNS c\<rparr>))
         else ret ()
     | _ \<Rightarrow> ret ())"

definition delete :: "('s, 'f) Provider \<Rightarrow> AWS \<Rightarrow> ('s pstate, unit) io" where
  "delete p a =
     andthen (delete_load_balancer p a) (\<lambda>_.
     andthen (wrap ''failed to delete EC2 instances'' (deleteEC2Instances p a)) (\<lambda>_.
     andthen (if aw_Vpcid a \<noteq> '''' then log_error (waitForENIsDrained p (aw_Vpcid a)) else ret ()) (\<lambda>_.
     andthen (wrap ''failed to delete security groups'' (deleteSecurityGroups p a)) (\<lambda>a'.
     wrap ''failed to delete VPC resources'' (deleteVPCResources p a')))))"

definition Delete :: "('s, 'f) Provider \<Rightarrow> ('s pstate, unit) io" where
  "Delete p =
     andthen (wrap ''error retrieving cache'' (unmarsalCache p)) (\<lambda>a.
     wrap ''error destroying AWS resources'' (delete p a))"

end
