(* ===== verification/Contract.thy ===== *)
theory Contract
  imports Teardown
begin

text \<open>
  What the provider relies on of an AWS account, as a locale, and what follows for the deletion in
  every account that keeps it. The account is seen through an invariant \<open>ok\<close> of its state and the
  set \<open>live\<close> of the resources in it that API calls have created. \<open>Fake_Contract\<close> shows that the
  repository's fake account keeps the contract.

  The laws are AWS's documented behaviour: an operation creates and removes nothing but what it
  is asked for, except that network interfaces go away by themselves; a deletion that succeeds,
  or fails with its resource's \<open>NotFound\<close> code, leaves that resource gone.
\<close>

section \<open>Resources and their removal\<close>

datatype kind = K_vpc | K_subnet | K_igw | K_rtb | K_sg | K_instance | K_nat | K_eip | K_eni
  | K_lb | K_tg | K_listener

type_synonym resource = "kind \<times> string"

abbreviation enis :: "resource set" where
  "enis \<equiv> {K_eni} \<times> UNIV"

text \<open>A step that keeps the invariant, creates nothing and removes at most \<open>R\<close>.\<close>

definition sheds :: "('s \<Rightarrow> bool) \<Rightarrow> ('s \<Rightarrow> resource set) \<Rightarrow> resource set \<Rightarrow> 's \<Rightarrow> 's \<Rightarrow> bool" where
  "sheds ok live R s s' \<longleftrightarrow> (ok s \<longrightarrow> ok s' \<and> live s - R \<subseteq> live s' \<and> live s' \<subseteq> live s)"

definition removes :: "('s \<Rightarrow> bool) \<Rightarrow> ('s \<Rightarrow> resource set) \<Rightarrow> resource \<Rightarrow> string \<Rightarrow> ('s, 'a) io \<Rightarrow> bool" where
  "removes ok live r code m \<longleftrightarrow> pres (sheds ok live (insert r enis)) m
     \<and> (\<forall>s res s'. ok s \<longrightarrow> m s = (res, s') \<longrightarrow> (case res of Inr _ \<Rightarrow> True | Inl e \<Rightarrow> contains e code)
          \<longrightarrow> r \<notin> live s')"

lemma sheds_mono: "sheds ok live R s s' \<Longrightarrow> R \<subseteq> R' \<Longrightarrow> sheds ok live R' s s'"
  by (auto simp: sheds_def)

lemma sheds_step: "step_relation (sheds ok live R)"
  by unfold_locales (auto simp: sheds_def)

interpretation shed: step_relation "sheds ok live R" for ok live R
  by (rule sheds_step)

text \<open>The same on provider states whose environment is \<open>E\<close>, and stays so; the cache stays too.\<close>

definition psheds :: "Environment \<Rightarrow> ('s \<Rightarrow> bool) \<Rightarrow> ('s \<Rightarrow> resource set) \<Rightarrow> resource set \<Rightarrow> 's pstate \<Rightarrow> 's pstate \<Rightarrow> bool" where
  "psheds E ok live R ps ps' \<longleftrightarrow> (ps_Environment ps = E \<longrightarrow>
     sheds ok live R (ps_world ps) (ps_world ps') \<and> ps_Environment ps' = E \<and> ps_cache ps' = ps_cache ps)"

lemma pres_on_world: "pres (sheds ok live R) m \<Longrightarrow> R \<subseteq> R' \<Longrightarrow> pres (psheds E ok live R') (on_world m)"
  by (auto simp: pres_def psheds_def on_world_def split: prod.splits) (metis sheds_mono snd_conv)

text \<open>A program that removes at most \<open>R\<close> and network interfaces.\<close>

abbreviation sheds_in :: "Environment \<Rightarrow> ('s \<Rightarrow> bool) \<Rightarrow> ('s \<Rightarrow> resource set) \<Rightarrow> resource set \<Rightarrow> ('s pstate, 'a) io \<Rightarrow> bool" where
  "sheds_in E ok live R m \<equiv> pres (psheds E ok live (R \<union> enis)) m"

section \<open>The contract\<close>

locale aws_contract =
  fixes p :: "('s, 'f) Provider"
    and ok :: "'s \<Rightarrow> bool"
    and live :: "'s \<Rightarrow> resource set"
  assumes DescribeVpcs: "pres (sheds ok live enis) (ec2_DescribeVpcs (p_ec2 p) ids)"
    and DescribeSubnets: "pres (sheds ok live enis) (ec2_DescribeSubnets (p_ec2 p) ids filters)"
    and DescribeSecurityGroups: "pres (sheds ok live enis) (ec2_DescribeSecurityGroups (p_ec2 p) ids filters)"
    and DescribeRouteTables: "pres (sheds ok live enis) (ec2_DescribeRouteTables (p_ec2 p) ids filters)"
    and DescribeInstances: "pres (sheds ok live enis) (ec2_DescribeInstances (p_ec2 p) ids filters)"
    and DescribeNetworkInterfaces:
      "pres (sheds ok live enis) (ec2_DescribeNetworkInterfaces (p_ec2 p) ids filters)"
    and RevokeSecurityGroupIngress:
      "pres (sheds ok live enis) (ec2_RevokeSecurityGroupIngress (p_ec2 p) i perms)"
    and DetachInternetGateway: "pres (sheds ok live enis) (ec2_DetachInternetGateway (p_ec2 p) i v)"
    and DescribeNatGateways:
      "pres (sheds ok live (insert (K_nat, i) enis)) (ec2_DescribeNatGateways (p_ec2 p) [i])"
    and TerminateInstances:
      "pres (sheds ok live ({K_instance} \<times> set ids \<union> enis)) (ec2_TerminateInstances (p_ec2 p) ids)"
    and DeleteNatGateway: "pres (sheds ok live (insert (K_nat, i) enis)) (ec2_DeleteNatGateway (p_ec2 p) i)"
    and DeleteVpc: "removes ok live (K_vpc, i) ''InvalidVpcID.NotFound'' (ec2_DeleteVpc (p_ec2 p) i)"
    and DeleteSubnet: "removes ok live (K_subnet, i) ''InvalidSubnetID.NotFound'' (ec2_DeleteSubnet (p_ec2 p) i)"
    and DeleteSecurityGroup:
      "removes ok live (K_sg, i) ''InvalidGroup.NotFound'' (ec2_DeleteSecurityGroup (p_ec2 p) i)"
    and DeleteRouteTable:
      "removes ok live (K_rtb, i) ''InvalidRouteTableID.NotFound'' (ec2_DeleteRouteTable (p_ec2 p) i)"
    and DeleteInternetGateway: "removes ok live (K_igw, i) ''InvalidInternetGatewayID.NotFound''
        (ec2_DeleteInternetGateway (p_ec2 p) i)"
    and ReleaseAddress:
      "removes ok live (K_eip, i) ''InvalidAllocationID.NotFound'' (ec2_ReleaseAddress (p_ec2 p) i)"
    and instance_gone: "ok s \<Longrightarrow> ec2_DescribeInstances (p_ec2 p) [i] [] s = (r, s') \<Longrightarrow>
        (case r of Inl e \<Rightarrow> contains e ''InvalidInstanceID.NotFound''
         | Inr ((inst # _) # _) \<Rightarrow> (\<exists>st. ei_State inst = Some st \<and> is_Name st = ''terminated'')
         | Inr _ \<Rightarrow> True) \<Longrightarrow> (K_instance, i) \<notin> live s'"
    and main_route_table: "ok s \<Longrightarrow> ec2_DescribeRouteTables (p_ec2 p) [i] [] s = (Inr (rt # rts), s') \<Longrightarrow>
        has_main rt \<Longrightarrow> (K_rtb, i) \<notin> live s'"
    and DescribeLoadBalancers: "pres (sheds ok live enis) (elb_DescribeLoadBalancers (p_elbv2 p) q)"
    and DescribeTargetGroups: "pres (sheds ok live enis) (elb_DescribeTargetGroups (p_elbv2 p) tq)"
    and DescribeTargetHealth: "pres (sheds ok live enis) (elb_DescribeTargetHealth (p_elbv2 p) i)"
    and DescribeListeners: "pres (sheds ok live enis) (elb_DescribeListeners (p_elbv2 p) i)"
    and DeregisterTargets: "pres (sheds ok live enis) (elb_DeregisterTargets (p_elbv2 p) i ts)"
    and DeleteListener: "removes ok live (K_listener, i) ''ListenerNotFound'' (elb_DeleteListener (p_elbv2 p) i)"
    and DeleteTargetGroup:
      "removes ok live (K_tg, i) ''TargetGroupNotFound'' (elb_DeleteTargetGroup (p_elbv2 p) i)"
    and DeleteLoadBalancer:
      "removes ok live (K_lb, i) ''LoadBalancerNotFound'' (elb_DeleteLoadBalancer (p_elbv2 p) i)"
    and sleep_quiet: "sheds ok live enis s (p_sleep p n s)"
    and WaitTerminated: "pres (sheds ok live enis) (pl_WaitTerminated (p_platform p) ids n)"
    and MkdirAll: "pres (sheds ok live enis) (pl_MkdirAll (p_platform p) path n)"
    and WriteFile: "pres (sheds ok live enis) (pl_WriteFile (p_platform p) path data n)"
    and Chmod: "pres (sheds ok live enis) (pl_Chmod (p_platform p) path n)"
    and ReadFile: "pres (sheds ok live enis) (pl_ReadFile (p_platform p) path)"
    and schedule: "distinct (pl_Schedule (p_platform p) n) \<and> set (pl_Schedule (p_platform p) n) = {..<n}"

context aws_contract
begin

subsection \<open>What a program may remove\<close>

sublocale rel: step_relation "psheds E ok live (R \<union> enis)" for E R
  by unfold_locales (auto simp: psheds_def sheds_def)

lemma quiet: "pres (sheds ok live enis) m \<Longrightarrow> sheds_in E ok live R (on_world m)"
  by (rule pres_on_world) auto

lemma removal: "removes ok live r code m \<Longrightarrow> r \<in> R \<Longrightarrow> sheds_in E ok live R (on_world m)"
  unfolding removes_def by (blast intro: pres_on_world)

lemma sheds_sleep: "sheds_in E ok live R (sleep p n)"
  unfolding sleep_def by (rule quiet, rule presI) (simp add: sleep_quiet)

lemma sheds_environment: "sheds_in E ok live R environment"
  unfolding environment_def by (rule rel.pres_gets)

lemma sheds_environment_bind:
  "sheds_in E ok live R (k E) \<Longrightarrow> sheds_in E ok live R (andthen environment k)"
  by (auto simp: pres_def psheds_def environment_def andthen_def gets_def)

lemma sheds_now: "sheds_in E ok live R (now p)"
  unfolding now_def by (rule rel.pres_gets)

lemma sheds_log_error: "sheds_in E ok live R m \<Longrightarrow> sheds_in E ok live R (log_error m)"
  unfolding log_error_def by (intro rel.pres_andthen rel.pres_attempt rel.pres_ret)

lemma sheds_unless_gone: "sheds_in E ok live R m \<Longrightarrow> sheds_in E ok live R (unless_gone code m)"
  unfolding unless_gone_def by (intro rel.pres_catch rel.pres_if rel.pres_ret rel.pres_fail)

lemma sheds_succeeds: "sheds_in E ok live R m \<Longrightarrow> sheds_in E ok live R (succeeds m)"
  unfolding succeeds_def by (intro rel.pres_andthen rel.pres_attempt rel.pres_ret)

lemma sheds_lift_result: "pres (sheds ok live enis) (lift_result r)"
  by (rule presI) (simp add: lift_result_def sheds_def)

lemma sheds_update: "pres (sheds ok live enis) (update (p_platform p) env path)"
  unfolding update_def by (intro shed.pres_andthen sheds_lift_result MkdirAll WriteFile Chmod)

lemmas shed_basics = rel.pres_rules pres_cases sheds_sleep sheds_environment sheds_now sheds_log_error
  sheds_unless_gone sheds_succeeds

lemma sheds_updateStatus: "sheds_in E ok live R (updateStatus p env a cs)"
  unfolding updateStatus_def by (intro shed_basics quiet sheds_update)

lemma sheds_conditions:
  "sheds_in E ok live R (updateProgressingCondition p a r t)"
  "sheds_in E ok live R (updateDegradedCondition p a r t)"
  "sheds_in E ok live R (updateTerminatedCondition p a)"
  "sheds_in E ok live R (updateAvailableCondition p a)"
  unfolding updateProgressingCondition_def updateDegradedCondition_def updateTerminatedCondition_def
    updateAvailableCondition_def updateCondition_def
  by (intro shed_basics sheds_updateStatus)+

lemma sheds_retry_loop: "sheds_in E ok live R m \<Longrightarrow> sheds_in E ok live R (retry_loop p n d m)"
  by (induction n arbitrary: d) (auto intro!: shed_basics)

lemma sheds_retry: "sheds_in E ok live R m \<Longrightarrow> sheds_in E ok live R (retryWithBackoff p m)"
  unfolding retryWithBackoff_def by (rule sheds_retry_loop)

subsection \<open>The deletion removes only what it owns\<close>

lemmas quiet_calls = quiet [OF DescribeVpcs] quiet [OF DescribeSubnets] quiet [OF DescribeSecurityGroups]
  quiet [OF DescribeRouteTables] quiet [OF DescribeInstances] quiet [OF DescribeNetworkInterfaces]
  quiet [OF RevokeSecurityGroupIngress] quiet [OF DetachInternetGateway] quiet [OF WaitTerminated]
  quiet [OF DescribeLoadBalancers] quiet [OF DescribeTargetGroups] quiet [OF DescribeTargetHealth]
  quiet [OF DescribeListeners] quiet [OF DeregisterTargets]

lemmas removals = removal [OF DeleteVpc] removal [OF DeleteSubnet] removal [OF DeleteSecurityGroup]
  removal [OF DeleteRouteTable] removal [OF DeleteInternetGateway] removal [OF ReleaseAddress]
  removal [OF DeleteListener] removal [OF DeleteTargetGroup] removal [OF DeleteLoadBalancer]

lemmas shed_rules = shed_basics sheds_conditions sheds_retry quiet_calls removals

lemma sheds_nat: "(K_nat, i) \<in> R \<Longrightarrow> sheds_in E ok live R (on_world (ec2_DeleteNatGateway (p_ec2 p) i))"
  "(K_nat, i) \<in> R \<Longrightarrow> sheds_in E ok live R (on_world (ec2_DescribeNatGateways (p_ec2 p) [i]))"
  by (rule pres_on_world [OF DeleteNatGateway] pres_on_world [OF DescribeNatGateways]; auto)+

lemma sheds_terminate: "{K_instance} \<times> set ids \<subseteq> R \<Longrightarrow>
    sheds_in E ok live R (on_world (ec2_TerminateInstances (p_ec2 p) ids))"
  by (rule pres_on_world [OF TerminateInstances]) auto

lemma sheds_checks:
  "sheds_in E ok live R (isInstanceTerminated p i)" "sheds_in E ok live R (securityGroupExists p i)"
  "sheds_in E ok live R (subnetExists p i)" "sheds_in E ok live R (vpcExists p i)"
  "sheds_in E ok live R (isMainRouteTable p i)" "sheds_in E ok live R (listVPCDependencies p i)"
  unfolding isInstanceTerminated_def securityGroupExists_def subnetExists_def vpcExists_def
    isMainRouteTable_def listVPCDependencies_def
  by (intro shed_rules)+

lemma sheds_collect: "(\<And>x. sheds_in E ok live R (f x)) \<Longrightarrow> sheds_in E ok live R (collect f xs)"
  by (induction xs) (auto intro!: shed_basics)

lemma sheds_deleteEC2Instances:
  "{K_instance} \<times> set (instances_to_delete E a) \<subseteq> R \<Longrightarrow> sheds_in E ok live R (deleteEC2Instances p a)"
  unfolding deleteEC2Instances_def terminate_request_def wait_for_termination_def Let_def
  by (rule sheds_environment_bind) (intro shed_rules sheds_collect sheds_checks sheds_terminate)

lemma sheds_eni_loop: "sheds_in E ok live R (eni_loop n p vpc d)"
  by (induction n) (auto simp: enis_drained_def intro!: shed_rules)

lemma sheds_waitForENIsDrained: "sheds_in E ok live R (waitForENIsDrained p vpc)"
  unfolding waitForENIsDrained_def by (intro shed_rules sheds_eni_loop)

lemma sheds_deleteSecurityGroup:
  "sgID \<noteq> '''' \<longrightarrow> (K_sg, sgID) \<in> R \<Longrightarrow> sheds_in E ok live R (deleteSecurityGroup p sgID label)"
  unfolding deleteSecurityGroup_def by (intro shed_rules sheds_checks) auto

lemma sheds_revoke: "sheds_in E ok live R (revokeSecurityGroupRules p sgID)"
  unfolding revokeSecurityGroupRules_def by (intro shed_rules)

lemma sheds_delete_group_of:
  "sgID \<noteq> '''' \<longrightarrow> (K_sg, sgID) \<in> R \<Longrightarrow> sheds_in E ok live R (delete_group_of p a sgID label kd)"
  unfolding delete_group_of_def by (intro shed_rules sheds_deleteSecurityGroup)

text \<open>The resources that a cache names; an empty id names none.\<close>

end

definition named :: "kind \<Rightarrow> string \<Rightarrow> resource set" where
  "named k i = (if i = '''' then {} else {(k, i)})"

definition owned_groups :: "AWS \<Rightarrow> resource set" where
  "owned_groups a = named K_sg (aw_WorkerSecurityGroupid a) \<union> named K_sg (aw_CPSecurityGroupid a)
     \<union> named K_sg (aw_SecurityGroupid a)"

definition owned_network :: "AWS \<Rightarrow> resource set" where
  "owned_network a = named K_eip (aw_EIPAllocationid a) \<union> named K_subnet (aw_PublicSubnetid a)
     \<union> named K_rtb (aw_PublicRouteTable a) \<union> named K_subnet (aw_Subnetid a)
     \<union> named K_rtb (aw_RouteTable a) \<union> named K_igw (aw_InternetGwid a) \<union> named K_vpc (aw_Vpcid a)"

definition owned_instances :: "Environment \<Rightarrow> AWS \<Rightarrow> resource set" where
  "owned_instances env a = {K_instance} \<times> set (instances_to_delete env a)"

text \<open>Load balancer parts are found by name, so they are not in the cache.\<close>

definition lb_parts :: "Environment \<Rightarrow> resource set" where
  "lb_parts env = (if IsMultinode env then {K_lb, K_tg, K_listener} \<times> UNIV else {})"

definition owned :: "Environment \<Rightarrow> AWS \<Rightarrow> resource set" where
  "owned env a = owned_instances env a \<union> owned_groups a \<union> owned_network a"

lemma named_iff [simp]: "(k, i) \<in> named k' j \<longleftrightarrow> k' = k \<and> j = i \<and> i \<noteq> ''''"
  by (auto simp: named_def)

context aws_contract
begin

lemma sheds_deleteSecurityGroups:
  "owned_groups a \<subseteq> R \<Longrightarrow> sheds_in E ok live R (deleteSecurityGroups p a)"
  unfolding deleteSecurityGroups_def Let_def
  by (intro shed_rules sheds_revoke sheds_delete_group_of) (auto simp: owned_groups_def)

lemma sheds_nat_poll: "(K_nat, i) \<in> R \<Longrightarrow> sheds_in E ok live R (nat_poll n p i)"
  by (induction n) (auto intro!: shed_rules sheds_nat)

lemma sheds_deleteNATGateway:
  "named K_nat (aw_NatGatewayid a) \<subseteq> R \<Longrightarrow> sheds_in E ok live R (deleteNATGateway p a)"
  unfolding deleteNATGateway_def Let_def
  by (intro shed_rules sheds_nat sheds_nat_poll) (auto simp: named_def split: if_splits)

lemma sheds_network_steps:
  assumes "owned_network a \<subseteq> R"
  shows "sheds_in E ok live R (releaseElasticIP p a)"
    and "sheds_in E ok live R (deletePublicSubnet p a)"
    and "sheds_in E ok live R (deletePublicRouteTable p a)"
    and "sheds_in E ok live R (deleteSubnet p a)"
    and "sheds_in E ok live R (deleteRouteTable p a)"
    and "sheds_in E ok live R (deleteInternetGateway p a)"
    and "sheds_in E ok live R (deleteVPC p a)"
  using assms
  unfolding releaseElasticIP_def deletePublicSubnet_def deletePublicRouteTable_def deleteSubnet_def
    deleteRouteTable_def deleteInternetGateway_def deleteVPC_def delete_vpc_once_def detach_gateway_def Let_def
  by (intro shed_rules sheds_checks; force simp: owned_network_def)+

lemma sheds_deleteVPCResources:
  "owned_network a \<union> named K_nat (aw_NatGatewayid a) \<subseteq> R \<Longrightarrow>
   sheds_in E ok live R (deleteVPCResources p a)"
  unfolding deleteVPCResources_def
  by (intro shed_rules sheds_network_steps sheds_deleteNATGateway) auto

lemma sheds_deleteNLB:
  assumes "{K_lb, K_tg, K_listener} \<times> UNIV \<subseteq> R"
  shows "sheds_in E ok live R (deleteNLB p c)"
  using assms
  unfolding deleteNLB_def deleteListener_def deleteTargetGroup_def delete_one_listener_def
    deregister_all_def remove_target_group_def Let_def
  by (intro shed_rules; blast)

lemma sheds_delete_load_balancer:
  "lb_parts E \<subseteq> R \<Longrightarrow> sheds_in E ok live R (delete_load_balancer p a)"
  unfolding delete_load_balancer_def deleteNLBForCluster_def
  by (rule sheds_environment_bind) (intro shed_rules sheds_deleteNLB; simp add: lb_parts_def)

lemma deleteSecurityGroups_result:
  "deleteSecurityGroups p a s = (Inr a', s') \<Longrightarrow> a' = a \<or> a' = a\<lparr>aw_SecurityGroupid := ''''\<rparr>"
  unfolding deleteSecurityGroups_def Let_def andthen_Inr by auto

lemma sheds_groups_then_network:
  assumes "owned E a \<union> named K_nat (aw_NatGatewayid a) \<subseteq> R"
  shows "sheds_in E ok live R (andthen (wrap t (deleteSecurityGroups p a)) (\<lambda>a'. wrap t' (deleteVPCResources p a')))"
proof (rule rel.pres_andthen_result)
  show "sheds_in E ok live R (wrap t (deleteSecurityGroups p a))"
    using assms by (intro rel.pres_wrap sheds_deleteSecurityGroups) (auto simp: owned_def)
next
  fix s a' s'
  assume "wrap t (deleteSecurityGroups p a) s = (Inr a', s')"
  then have "a' = a \<or> a' = a\<lparr>aw_SecurityGroupid := ''''\<rparr>"
    by (simp add: deleteSecurityGroups_result)
  with assms show "sheds_in E ok live R (wrap t' (deleteVPCResources p a'))"
    by (intro rel.pres_wrap sheds_deleteVPCResources) (auto simp: owned_def owned_network_def)
qed

lemma sheds_delete:
  assumes "owned E a \<union> named K_nat (aw_NatGatewayid a) \<union> lb_parts E \<subseteq> R"
  shows "sheds_in E ok live R (delete p a)"
  unfolding delete_def
proof (rule rel.pres_andthen)
  show "sheds_in E ok live R (delete_load_balancer p a)"
    using assms by (intro sheds_delete_load_balancer) auto
  have "sheds_in E ok live R (wrap t (deleteEC2Instances p a))" for t
    using assms by (intro rel.pres_wrap sheds_deleteEC2Instances) (auto simp: owned_def owned_instances_def)
  moreover have "sheds_in E ok live R (if aw_Vpcid a \<noteq> '''' then log_error (waitForENIsDrained p (aw_Vpcid a)) else ret ())"
    by (intro shed_basics sheds_waitForENIsDrained)
  ultimately show "sheds_in E ok live R (andthen (wrap ''failed to delete EC2 instances'' (deleteEC2Instances p a))
      (\<lambda>_. andthen (if aw_Vpcid a \<noteq> '''' then log_error (waitForENIsDrained p (aw_Vpcid a)) else ret ())
      (\<lambda>_. andthen (wrap ''failed to delete security groups'' (deleteSecurityGroups p a))
      (\<lambda>a'. wrap ''failed to delete VPC resources'' (deleteVPCResources p a')))))"
    using assms by (intro rel.pres_andthen sheds_groups_then_network) auto
qed

end

end
