(* ===== verification/Contract_Delete.thy ===== *)
theory Contract_Delete
  imports Contract
begin

text \<open>
  The other half of what the contract gives for the deletion: when it succeeds, every resource
  that the environment owned is gone. \<open>clears r m\<close> says that a run of \<open>m\<close> that succeeds leaves
  \<open>r\<close> gone; since nothing in a deletion creates resources, \<open>r\<close> then stays gone.
\<close>

definition clears :: "Environment \<Rightarrow> ('s \<Rightarrow> bool) \<Rightarrow> ('s \<Rightarrow> resource set) \<Rightarrow> resource \<Rightarrow> ('s pstate, 'a) io \<Rightarrow> bool" where
  "clears E ok live r m \<longleftrightarrow>
     post (\<lambda>ps. ps_Environment ps = E \<and> ok (ps_world ps)) m (\<lambda>_ ps. r \<notin> live (ps_world ps))"

context aws_contract
begin

subsection \<open>Rules\<close>

lemma tameD:
  "sheds_in E ok live R m \<Longrightarrow> m ps = (v, ps') \<Longrightarrow> ps_Environment ps = E \<Longrightarrow> ok (ps_world ps) \<Longrightarrow>
   ps_Environment ps' = E \<and> ok (ps_world ps') \<and> live (ps_world ps') \<subseteq> live (ps_world ps)"
  using presD [of _ m ps v ps'] unfolding psheds_def sheds_def by blast

lemma clears_first: "clears E ok live r m \<Longrightarrow> sheds_in E ok live UNIV m \<Longrightarrow>
    (\<And>v. sheds_in E ok live UNIV (k v)) \<Longrightarrow> clears E ok live r (andthen m k)"
  unfolding clears_def post_def andthen_Inr by (blast dest: tameD)

lemma clears_then: "sheds_in E ok live UNIV m \<Longrightarrow> (\<And>v. clears E ok live r (k v)) \<Longrightarrow>
    clears E ok live r (andthen m k)"
  unfolding clears_def post_def andthen_Inr by (blast dest: tameD)

lemma clears_environment: "clears E ok live r (k E) \<Longrightarrow> clears E ok live r (andthen environment k)"
  by (auto simp: clears_def post_def environment_def andthen_def gets_def)

lemma clears_wrap: "clears E ok live r m \<Longrightarrow> clears E ok live r (wrap t m)"
  by (simp add: clears_def post_def)

lemma clears_fail: "clears E ok live r (fail e)"
  by (simp add: clears_def post_def)

lemma clears_if: "(b \<Longrightarrow> clears E ok live r m) \<Longrightarrow> (\<not> b \<Longrightarrow> clears E ok live r m') \<Longrightarrow>
    clears E ok live r (if b then m else m')"
  by simp

lemma clears_catch:
  assumes "clears E ok live r m" "sheds_in E ok live UNIV m" "\<And>e. clears E ok live r (h e)"
  shows "clears E ok live r (catch m h)"
  unfolding clears_def
proof (rule postI)
  fix ps v ps'
  assume pre: "ps_Environment ps = E \<and> ok (ps_world ps)" and run: "catch m h ps = (Inr v, ps')"
  obtain res ps1 where m: "m ps = (res, ps1)" by (cases "m ps") auto
  show "r \<notin> live (ps_world ps')"
  proof (cases res)
    case (Inl e)
    then have "h e ps1 = (Inr v, ps')" using run m by (simp add: catch_def)
    moreover have "ps_Environment ps1 = E \<and> ok (ps_world ps1)"
      using tameD [OF assms(2) m] pre by blast
    ultimately show ?thesis using assms(3) [of e] unfolding clears_def post_def by blast
  next
    case (Inr u)
    then show ?thesis using run m assms(1) pre by (auto simp: catch_def clears_def post_def)
  qed
qed

lemma clears_removal:
  assumes "removes ok live r code m" and "\<And>e. contains e code \<Longrightarrow> sheds_in E ok live UNIV (h e)"
    and "\<And>e. \<not> contains e code \<Longrightarrow> clears E ok live r (h e)"
  shows "clears E ok live r (catch (on_world m) h)"
  unfolding clears_def
proof (rule postI)
  fix ps v ps'
  assume pre: "ps_Environment ps = E \<and> ok (ps_world ps)" and run: "catch (on_world m) h ps = (Inr v, ps')"
  obtain res ps1 where m: "on_world m ps = (res, ps1)" by (cases "on_world m ps") auto
  have tame: "sheds_in E ok live UNIV (on_world m)" using assms(1) by (rule removal) simp
  have gone: "r \<notin> live (ps_world ps1)" if "case res of Inr _ \<Rightarrow> True | Inl e \<Rightarrow> contains e code"
    using assms(1) m pre that unfolding removes_def on_world_def by (auto split: prod.splits)
  show "r \<notin> live (ps_world ps')"
  proof (cases res)
    case (Inr u)
    then show ?thesis using run m gone by (simp add: catch_def)
  next
    case (Inl e)
    then have h: "h e ps1 = (Inr v, ps')" using run m by (simp add: catch_def)
    have pre1: "ps_Environment ps1 = E" "ok (ps_world ps1)"
      using tameD [OF tame m] pre by auto
    show ?thesis
    proof (cases "contains e code")
      case True
      then show ?thesis using tameD [OF assms(2) [OF True] h] pre1 gone Inl by auto
    next
      case False
      then show ?thesis using assms(3) [OF False] h pre1 unfolding clears_def post_def by blast
    qed
  qed
qed

lemma clears_unless_gone: "removes ok live r code m \<Longrightarrow> clears E ok live r (unless_gone code (on_world m))"
  unfolding unless_gone_def
  by (rule clears_removal, assumption) (simp_all only: if_True if_False, rule rel.pres_ret, rule clears_fail)

lemma clears_retry_loop: "clears E ok live r m \<Longrightarrow> sheds_in E ok live UNIV m \<Longrightarrow>
    clears E ok live r (retry_loop p n d m)"
  by (induction n arbitrary: d)
    (auto intro!: clears_catch clears_if clears_fail clears_then sheds_sleep)

lemma clears_retry: "clears E ok live r m \<Longrightarrow> sheds_in E ok live UNIV m \<Longrightarrow>
    clears E ok live r (retryWithBackoff p m)"
  unfolding retryWithBackoff_def by (rule clears_retry_loop)

lemma clears_retry_removal: "removes ok live r code m \<Longrightarrow>
    clears E ok live r (retryWithBackoff p (unless_gone code (on_world m)))"
  by (intro clears_retry clears_unless_gone sheds_unless_gone, assumption, erule removal, rule UNIV_I)

lemmas tame_rules = shed_rules sheds_checks sheds_nat sheds_nat_poll sheds_terminate sheds_collect
  sheds_eni_loop sheds_waitForENIsDrained sheds_revoke

text \<open>With everything allowed, each step is tame.\<close>

lemma tame_steps:
  "sheds_in E ok live UNIV (deleteSecurityGroup p i l)" "sheds_in E ok live UNIV (delete_group_of p a i l kd)"
  "sheds_in E ok live UNIV (deleteSecurityGroups p a)" "sheds_in E ok live UNIV (deleteNATGateway p a)"
  "sheds_in E ok live UNIV (releaseElasticIP p a)" "sheds_in E ok live UNIV (deletePublicSubnet p a)"
  "sheds_in E ok live UNIV (deletePublicRouteTable p a)" "sheds_in E ok live UNIV (deleteSubnet p a)"
  "sheds_in E ok live UNIV (deleteRouteTable p a)" "sheds_in E ok live UNIV (deleteInternetGateway p a)"
  "sheds_in E ok live UNIV (deleteVPC p a)" "sheds_in E ok live UNIV (deleteVPCResources p a)"
  "sheds_in E ok live UNIV (deleteEC2Instances p a)" "sheds_in E ok live UNIV (delete_load_balancer p a)"
  by (intro sheds_deleteSecurityGroup sheds_delete_group_of sheds_deleteSecurityGroups
      sheds_deleteNATGateway sheds_network_steps sheds_deleteVPCResources sheds_deleteEC2Instances
      sheds_delete_load_balancer; simp)+

subsection \<open>Each step\<close>

lemma clears_deleteSecurityGroup: "i \<noteq> '''' \<Longrightarrow> clears E ok live (K_sg, i) (deleteSecurityGroup p i l)"
  unfolding deleteSecurityGroup_def
  by (rule clears_if, simp) (intro clears_first clears_retry_removal DeleteSecurityGroup tame_rules UNIV_I)

lemma clears_delete_group_of: "i \<noteq> '''' \<Longrightarrow> clears E ok live (K_sg, i) (delete_group_of p a i l kd)"
  unfolding delete_group_of_def
  by (intro clears_catch clears_deleteSecurityGroup tame_steps clears_then clears_fail tame_rules)

lemma clears_deleteSecurityGroups:
  assumes "r \<in> owned_groups a"
  shows "clears E ok live r (deleteSecurityGroups p a)"
proof -
  let ?tail = "\<lambda>a'. andthen (delete_group_of p a' (aw_SecurityGroupid a') ''shared'' '''') (\<lambda>_. ret a')"
  have tame_tail: "sheds_in E ok live UNIV (?tail a')" for a'
    by (intro rel.pres_andthen tame_steps rel.pres_ret)
  have shared: "clears E ok live (K_sg, aw_SecurityGroupid a') (?tail a')" if "aw_SecurityGroupid a' \<noteq> ''''" for a'
    by (intro clears_first clears_delete_group_of that tame_steps rel.pres_ret)
  note head = sheds_conditions sheds_log_error rel.pres_if rel.pres_andthen sheds_revoke rel.pres_ret
  consider "r = (K_sg, aw_WorkerSecurityGroupid a)" "aw_WorkerSecurityGroupid a \<noteq> ''''"
    | "r = (K_sg, aw_CPSecurityGroupid a)" "aw_CPSecurityGroupid a \<noteq> ''''"
    | "r = (K_sg, aw_SecurityGroupid a)" "aw_SecurityGroupid a \<noteq> ''''" "aw_SecurityGroupid a \<noteq> aw_CPSecurityGroupid a"
    using assms by (cases "aw_SecurityGroupid a = aw_CPSecurityGroupid a"; cases r) (auto simp: owned_groups_def)
  then show ?thesis
  proof cases
    case 1
    then show ?thesis
      unfolding deleteSecurityGroups_def Let_def
      apply (simp only:)
      apply (rule clears_then, intro head)
      apply (rule clears_then, intro head)
      apply (rule clears_first, erule clears_delete_group_of, rule tame_steps)
      by (intro rel.pres_andthen tame_steps rel.pres_ret)
  next
    case 2
    then show ?thesis
      unfolding deleteSecurityGroups_def Let_def
      apply (simp only:)
      apply (rule clears_then, intro head)
      apply (rule clears_then, intro head)
      apply (rule clears_then, rule tame_steps)
      apply (rule clears_first, erule clears_delete_group_of, rule tame_steps)
      by (intro rel.pres_andthen tame_steps rel.pres_ret)
  next
    case 3
    then show ?thesis
      unfolding deleteSecurityGroups_def Let_def
      apply (simp only: if_False)
      apply (rule clears_then, intro head)
      apply (rule clears_then, intro head)
      apply (rule clears_then, rule tame_steps)
      apply (rule clears_then, rule tame_steps)
      by (rule shared)
  qed
qed

lemma main_is_gone:
  assumes "isMainRouteTable p i ps = (Inr True, ps')" "ok (ps_world ps)"
  shows "(K_rtb, i) \<notin> live (ps_world ps')"
  using assms main_route_table
  by (fastforce simp: isMainRouteTable_def andthen_def on_world_def ret_def
      split: prod.splits sum.splits list.splits)

lemma clears_deleteRouteTable:
  assumes "aw_RouteTable a \<noteq> ''''"
  shows "clears E ok live (K_rtb, aw_RouteTable a) (deleteRouteTable p a)"
  unfolding clears_def
proof (rule postI)
  fix ps v ps'
  assume pre: "ps_Environment ps = E \<and> ok (ps_world ps)" and run: "deleteRouteTable p a ps = (Inr v, ps')"
  let ?i = "aw_RouteTable a"
  let ?del = "wrap (''error deleting route table '' @ ?i) (retryWithBackoff p
      (unless_gone ''InvalidRouteTableID.NotFound'' (on_world (ec2_DeleteRouteTable (p_ec2 p) ?i))))"
  obtain r ps1 where m: "isMainRouteTable p ?i ps = (r, ps1)" by (cases "isMainRouteTable p ?i ps") auto
  from tameD [OF sheds_checks(5) [of _ UNIV] m] pre
  have pre1: "ps_Environment ps1 = E \<and> ok (ps_world ps1)" by blast
  have rest: "(if r = Inr True then ret () else ?del) ps1 = (Inr v, ps')"
    using run m assms by (simp add: deleteRouteTable_def Let_def andthen_def attempt_def)
  have "clears E ok live (K_rtb, ?i) ?del"
    by (intro clears_wrap clears_retry_removal DeleteRouteTable)
  with rest pre1 have "r \<noteq> Inr True \<Longrightarrow> (K_rtb, ?i) \<notin> live (ps_world ps')"
    by (auto simp: clears_def post_def)
  moreover have "r = Inr True \<Longrightarrow> (K_rtb, ?i) \<notin> live (ps_world ps')"
    using main_is_gone m pre rest by auto
  ultimately show "(K_rtb, ?i) \<notin> live (ps_world ps')" by blast
qed

lemma clears_vpc_once: "clears E ok live (K_vpc, i) (delete_vpc_once p i)"
  unfolding delete_vpc_once_def
  by (rule clears_removal [OF DeleteVpc])
    (simp_all only: if_True if_False, rule rel.pres_ret,
     intro clears_if clears_then sheds_checks clears_fail)

lemma clears_network_steps:
  "aw_EIPAllocationid a \<noteq> '''' \<Longrightarrow> clears E ok live (K_eip, aw_EIPAllocationid a) (releaseElasticIP p a)"
  "aw_PublicSubnetid a \<noteq> '''' \<Longrightarrow> clears E ok live (K_subnet, aw_PublicSubnetid a) (deletePublicSubnet p a)"
  "aw_PublicRouteTable a \<noteq> '''' \<Longrightarrow> clears E ok live (K_rtb, aw_PublicRouteTable a) (deletePublicRouteTable p a)"
  "aw_Subnetid a \<noteq> '''' \<Longrightarrow> clears E ok live (K_subnet, aw_Subnetid a) (deleteSubnet p a)"
  "aw_InternetGwid a \<noteq> '''' \<Longrightarrow> clears E ok live (K_igw, aw_InternetGwid a) (deleteInternetGateway p a)"
  "aw_Vpcid a \<noteq> '''' \<Longrightarrow> clears E ok live (K_vpc, aw_Vpcid a) (deleteVPC p a)"
proof -
  assume "aw_EIPAllocationid a \<noteq> ''''"
  then show "clears E ok live (K_eip, aw_EIPAllocationid a) (releaseElasticIP p a)"
    unfolding releaseElasticIP_def Let_def
    by (simp only: if_False, intro clears_removal [OF ReleaseAddress])
      (simp_all only: if_True if_False, rule rel.pres_ret, rule clears_fail)
next
  assume "aw_PublicSubnetid a \<noteq> ''''"
  then show "clears E ok live (K_subnet, aw_PublicSubnetid a) (deletePublicSubnet p a)"
    unfolding deletePublicSubnet_def Let_def
    by (simp only: if_False, intro clears_wrap clears_retry_removal DeleteSubnet)
next
  assume "aw_PublicRouteTable a \<noteq> ''''"
  then show "clears E ok live (K_rtb, aw_PublicRouteTable a) (deletePublicRouteTable p a)"
    unfolding deletePublicRouteTable_def Let_def
    by (simp only: if_False, intro clears_wrap clears_retry_removal DeleteRouteTable)
next
  assume "aw_Subnetid a \<noteq> ''''"
  then show "clears E ok live (K_subnet, aw_Subnetid a) (deleteSubnet p a)"
    unfolding deleteSubnet_def Let_def
    by (simp only: if_False, intro clears_first clears_wrap clears_retry_removal DeleteSubnet
        tame_rules UNIV_I)
next
  assume "aw_InternetGwid a \<noteq> ''''"
  then show "clears E ok live (K_igw, aw_InternetGwid a) (deleteInternetGateway p a)"
    unfolding deleteInternetGateway_def detach_gateway_def Let_def
    by (simp only: if_False, intro clears_then clears_wrap clears_retry_removal
        DeleteInternetGateway tame_rules UNIV_I)
next
  assume "aw_Vpcid a \<noteq> ''''"
  then show "clears E ok live (K_vpc, aw_Vpcid a) (deleteVPC p a)"
    unfolding deleteVPC_def Let_def
    apply (simp only: if_False)
    apply (rule clears_then, rule sheds_sleep)
    apply (rule clears_first, intro clears_wrap clears_retry clears_vpc_once)
    unfolding delete_vpc_once_def
    by (intro tame_rules UNIV_I)+
qed

lemma clears_chain:
  "m \<in> set ms \<Longrightarrow> clears E ok live r m \<Longrightarrow> (\<And>m. m \<in> set ms \<Longrightarrow> sheds_in E ok live UNIV m) \<Longrightarrow>
   sheds_in E ok live UNIV fin \<Longrightarrow> clears E ok live r (foldr (\<lambda>m k. andthen m (\<lambda>_. k)) ms fin)"
proof (induction ms)
  case (Cons n ms)
  have tame: "sheds_in E ok live UNIV (foldr (\<lambda>m k. andthen m (\<lambda>_. k)) ms fin)"
    if "\<And>m. m \<in> set ms \<Longrightarrow> sheds_in E ok live UNIV m" for ms
    using that Cons.prems(4) by (induction ms) (simp_all only: foldr.simps o_apply id_apply list.set rel.pres_andthen insert_iff simp_thms)
  show ?case
  proof (cases "m = n")
    case True
    then show ?thesis
      using Cons.prems tame [of ms] by (simp only: foldr.simps o_apply) (intro clears_first; simp)
  next
    case False
    then show ?thesis
      using Cons.prems Cons.IH by (simp only: foldr.simps o_apply) (intro clears_then; simp)
  qed
qed simp

lemma deleteVPCResources_chain:
  "deleteVPCResources p a = andthen
     (log_error (updateProgressingCondition p a reason_destroying ''Deleting VPC resources''))
     (\<lambda>_. foldr (\<lambda>m k. andthen m (\<lambda>_. k))
       [deleteNATGateway p a, releaseElasticIP p a, deletePublicSubnet p a, deletePublicRouteTable p a,
        deleteSubnet p a, deleteRouteTable p a, deleteInternetGateway p a, deleteVPC p a]
       (updateTerminatedCondition p a))"
  by (simp add: deleteVPCResources_def)

lemma owned_network_step:
  assumes "r \<in> owned_network a"
  shows "\<exists>m \<in> {releaseElasticIP p a, deletePublicSubnet p a, deletePublicRouteTable p a,
      deleteSubnet p a, deleteRouteTable p a, deleteInternetGateway p a, deleteVPC p a}. clears E ok live r m"
proof -
  have "r = (K_eip, aw_EIPAllocationid a) \<and> aw_EIPAllocationid a \<noteq> '''' \<or>
      r = (K_subnet, aw_PublicSubnetid a) \<and> aw_PublicSubnetid a \<noteq> '''' \<or>
      r = (K_rtb, aw_PublicRouteTable a) \<and> aw_PublicRouteTable a \<noteq> '''' \<or>
      r = (K_subnet, aw_Subnetid a) \<and> aw_Subnetid a \<noteq> '''' \<or>
      r = (K_rtb, aw_RouteTable a) \<and> aw_RouteTable a \<noteq> '''' \<or>
      r = (K_igw, aw_InternetGwid a) \<and> aw_InternetGwid a \<noteq> '''' \<or>
      r = (K_vpc, aw_Vpcid a) \<and> aw_Vpcid a \<noteq> ''''"
    using assms by (cases r) (auto simp: owned_network_def)
  then show ?thesis
    using clears_network_steps [of a E] clears_deleteRouteTable [of a E] by blast
qed

lemma clears_deleteVPCResources:
  assumes "r \<in> owned_network a"
  shows "clears E ok live r (deleteVPCResources p a)"
proof -
  obtain m where m: "m \<in> {releaseElasticIP p a, deletePublicSubnet p a, deletePublicRouteTable p a,
      deleteSubnet p a, deleteRouteTable p a, deleteInternetGateway p a, deleteVPC p a}"
    and clr: "clears E ok live r m"
    using owned_network_step [OF assms] by blast
  have mem: "m \<in> set [deleteNATGateway p a, releaseElasticIP p a, deletePublicSubnet p a,
      deletePublicRouteTable p a, deleteSubnet p a, deleteRouteTable p a, deleteInternetGateway p a, deleteVPC p a]"
    using m by (simp only: list.set insert_iff empty_iff) blast
  show ?thesis
    unfolding deleteVPCResources_chain
  proof (rule clears_then, intro shed_rules, rule clears_chain [OF mem clr])
    fix n
    assume "n \<in> set [deleteNATGateway p a, releaseElasticIP p a, deletePublicSubnet p a,
      deletePublicRouteTable p a, deleteSubnet p a, deleteRouteTable p a, deleteInternetGateway p a, deleteVPC p a]"
    then show "sheds_in E ok live UNIV n"
      by (simp only: list.set insert_iff empty_iff) (elim disjE; simp only: tame_steps)
  qed (intro shed_rules)
qed

lemma terminated_is_gone:
  assumes "isInstanceTerminated p i ps = (Inr True, ps')" "ok (ps_world ps)"
  shows "(K_instance, i) \<notin> live (ps_world ps')"
proof -
  obtain r w where d: "ec2_DescribeInstances (p_ec2 p) [i] [] (ps_world ps) = (r, w)"
    by (cases "ec2_DescribeInstances (p_ec2 p) [i] [] (ps_world ps)") auto
  then have "ps_world ps' = w" and "case r of Inl e \<Rightarrow> contains e ''InvalidInstanceID.NotFound''
      | Inr ((inst # _) # _) \<Rightarrow> (\<exists>st. ei_State inst = Some st \<and> is_Name st = ''terminated'')
      | Inr _ \<Rightarrow> True"
    using assms(1)
    by (auto simp: isInstanceTerminated_def andthen_def attempt_def on_world_def ret_def
        split: sum.splits list.splits option.splits)
  with instance_gone [OF assms(2) d] show ?thesis by simp
qed

lemma sheds_wait: "sheds_in E ok live R (wait_for_termination p i)"
  unfolding wait_for_termination_def by (intro shed_rules sheds_checks)

lemma waited_is_gone:
  assumes "wait_for_termination p i ps = (Inr None, ps')" "ps_Environment ps = E" "ok (ps_world ps)"
  shows "(K_instance, i) \<notin> live (ps_world ps')"
proof -
  let ?w = "attempt (on_world (pl_WaitTerminated (p_platform p) [i] deletionTimeout))"
  from assms(1) obtain r1 ps1 gone where 1: "?w ps = (Inr r1, ps1)"
    and 2: "isInstanceTerminated p i ps1 = (Inr gone, ps')"
    and "None = (case r1 of Inl e \<Rightarrow> if gone then None
           else Some (''error waiting for instance '' @ i @ '' termination: '' @ e)
         | Inr _ \<Rightarrow> if gone then None else Some (''instance '' @ i @ '' not terminated after waiting''))"
    unfolding wait_for_termination_def andthen_Inr ret_Inr by blast
  then have "gone" by (cases r1) (auto split: if_splits)
  have "sheds_in E ok live UNIV ?w" by (intro shed_rules)
  from tameD [OF this 1 assms(2,3)] terminated_is_gone 2 \<open>gone\<close> show ?thesis by simp
qed

lemma collect_all:
  assumes "collect f xs ps = (Inr [], ps')" "x \<in> set xs"
    and "\<And>y. sheds_in E ok live UNIV (f y)"
    and "\<And>ps ps'. f x ps = (Inr None, ps') \<Longrightarrow> ps_Environment ps = E \<Longrightarrow> ok (ps_world ps) \<Longrightarrow>
      r \<notin> live (ps_world ps')"
    and "ps_Environment ps = E" "ok (ps_world ps)"
  shows "r \<notin> live (ps_world ps')"
  using assms(1,2,5,6)
proof (induction xs arbitrary: ps)
  case (Cons y xs)
  from Cons.prems(1) obtain ps1 where 1: "f y ps = (Inr None, ps1)" and 2: "collect f xs ps1 = (Inr [], ps')"
    by (auto simp: andthen_Inr split: option.splits)
  from tameD [OF assms(3) 1] Cons.prems have ps1: "ps_Environment ps1 = E" "ok (ps_world ps1)" by auto
  have "sheds_in E ok live UNIV (collect f xs)" using assms(3) by (rule sheds_collect)
  from tameD [OF this 2 ps1] have sub: "live (ps_world ps') \<subseteq> live (ps_world ps1)" by simp
  show ?case
  proof (cases "x = y")
    case True
    then show ?thesis using assms(4) [OF _ Cons.prems(3,4)] 1 sub by blast
  next
    case False
    then show ?thesis using Cons.IH [OF 2 _ ps1] Cons.prems(2) by simp
  qed
qed simp

lemma clears_wait:
  assumes "i \<in> set ids"
  shows "clears E ok live (K_instance, i)
    (andthen (collect (\<lambda>n. wait_for_termination p (ids ! n)) (pl_Schedule (p_platform p) (length ids)))
      (\<lambda>errs. if errs \<noteq> [] then fail (t errs) else ret ()))"
  unfolding clears_def
proof (rule postI)
  fix ps v ps'
  let ?c = "collect (\<lambda>n. wait_for_termination p (ids ! n)) (pl_Schedule (p_platform p) (length ids))"
  assume pre: "ps_Environment ps = E \<and> ok (ps_world ps)"
    and "andthen ?c (\<lambda>errs. if errs \<noteq> [] then fail (t errs) else ret ()) ps = (Inr v, ps')"
  then have run: "?c ps = (Inr [], ps')" by (auto simp: andthen_Inr split: if_splits)
  obtain n where n: "n < length ids" "ids ! n = i" using assms by (auto simp: in_set_conv_nth)
  have mem: "n \<in> set (pl_Schedule (p_platform p) (length ids))" using n schedule by simp
  have gone: "(K_instance, i) \<notin> live (ps_world t')"
    if "wait_for_termination p (ids ! n) t = (Inr None, t')" "ps_Environment t = E" "ok (ps_world t)" for t t'
    using waited_is_gone that n by simp
  show "(K_instance, i) \<notin> live (ps_world ps')"
    by (rule collect_all [OF run mem sheds_wait gone]) (use pre in auto)
qed

lemma clears_deleteEC2Instances:
  assumes "i \<in> set (instances_to_delete E a)"
  shows "clears E ok live (K_instance, i) (deleteEC2Instances p a)"
  unfolding deleteEC2Instances_def Let_def terminate_request_def
proof (rule clears_environment, rule clears_if)
  show "instances_to_delete E a = [] \<Longrightarrow> clears E ok live (K_instance, i) (ret ())" using assms by simp
next
  show "clears E ok live (K_instance, i)
     (andthen (log_error (updateProgressingCondition p a reason_destroying ''Terminating EC2 instances'')) (\<lambda>_.
      andthen (catch (retryWithBackoff p (unless_gone ''InvalidInstanceID.NotFound''
          (on_world (ec2_TerminateInstances (p_ec2 p) (instances_to_delete E a))))) (\<lambda>e.
        andthen (log_error (updateDegradedCondition p a reason_destroying ''Error terminating EC2 instances'')) (\<lambda>_.
        fail (''error terminating instances: '' @ e)))) (\<lambda>_.
      andthen (collect (\<lambda>n. wait_for_termination p (instances_to_delete E a ! n))
          (pl_Schedule (p_platform p) (length (instances_to_delete E a)))) (\<lambda>errs.
      if errs \<noteq> []
      then fail (''failed to terminate '' @ decimal (length errs) @ '' instance(s): '' @ show_list errs)
      else ret ()))))"
    by (rule clears_then, intro shed_rules, rule clears_then, intro shed_rules sheds_terminate, simp,
        rule clears_wait [OF assms])
qed

lemma deleteSecurityGroups_network: "deleteSecurityGroups p a s = (Inr a', s') \<Longrightarrow> owned_network a' = owned_network a"
  by (drule deleteSecurityGroups_result) (auto simp: owned_network_def)

lemma clears_groups_then_network:
  assumes "r \<in> owned_groups a \<union> owned_network a"
  shows "clears E ok live r
    (andthen (wrap t (deleteSecurityGroups p a)) (\<lambda>a'. wrap t' (deleteVPCResources p a')))"
proof (cases "r \<in> owned_groups a")
  case True
  then show ?thesis
    by (intro clears_first clears_wrap clears_deleteSecurityGroups rel.pres_wrap tame_steps)
next
  case False
  with assms have net: "r \<in> owned_network a" by simp
  show ?thesis
    unfolding clears_def
  proof (rule postI)
    fix ps v ps'
    assume pre: "ps_Environment ps = E \<and> ok (ps_world ps)"
      and "andthen (wrap t (deleteSecurityGroups p a)) (\<lambda>a'. wrap t' (deleteVPCResources p a')) ps = (Inr v, ps')"
    then obtain a' ps1 where 1: "deleteSecurityGroups p a ps = (Inr a', ps1)"
      and 2: "deleteVPCResources p a' ps1 = (Inr v, ps')"
      by (auto simp: andthen_Inr)
    from tameD [OF tame_steps(3) 1] pre have "ps_Environment ps1 = E \<and> ok (ps_world ps1)" by blast
    then show "r \<notin> live (ps_world ps')"
      using clears_deleteVPCResources [of r a' E] deleteSecurityGroups_network [OF 1] net 2
      by (auto simp: clears_def post_def)
  qed
qed

lemma tame_tail: "sheds_in E ok live UNIV
    (andthen (wrap t (deleteSecurityGroups p a)) (\<lambda>a'. wrap t' (deleteVPCResources p a')))"
  by (intro rel.pres_andthen rel.pres_wrap tame_steps)

lemma clears_delete:
  assumes "r \<in> owned E a"
  shows "clears E ok live r (delete p a)"
proof -
  note enis = sheds_log_error sheds_waitForENIsDrained rel.pres_if rel.pres_ret
  have lb: "sheds_in E ok live UNIV (delete_load_balancer p a)" by (rule tame_steps)
  show ?thesis
  proof (cases "r \<in> owned_instances E a")
    case True
    then obtain i where r: "r = (K_instance, i)" "i \<in> set (instances_to_delete E a)"
      by (auto simp: owned_instances_def)
    show ?thesis
      unfolding delete_def r(1)
      by (rule clears_then, rule lb, rule clears_first, rule clears_wrap,
          rule clears_deleteEC2Instances [OF r(2)], rule rel.pres_wrap, rule tame_steps,
          rule rel.pres_andthen, intro enis, rule tame_tail)
  next
    case False
    with assms have r: "r \<in> owned_groups a \<union> owned_network a" by (simp add: owned_def)
    show ?thesis
      unfolding delete_def
      by (rule clears_then, rule lb, rule clears_then, rule rel.pres_wrap, rule tame_steps,
          rule clears_then, intro enis, rule clears_groups_then_network [OF r])
  qed
qed

text \<open>The two results in terms of runs.\<close>

lemma delete_frame:
  assumes "delete p a ps = (r, ps')" "ok (ps_world ps)"
  shows "ok (ps_world ps') \<and> live (ps_world ps') \<subseteq> live (ps_world ps)
    \<and> live (ps_world ps) - live (ps_world ps') \<subseteq> owned (ps_Environment ps) a
        \<union> named K_nat (aw_NatGatewayid a) \<union> lb_parts (ps_Environment ps) \<union> enis"
  using presD [OF sheds_delete [OF order_refl] assms(1)] assms(2)
  unfolding psheds_def sheds_def by (fastforce simp: Un_assoc)

lemma delete_complete:
  assumes "delete p a ps = (Inr (), ps')" "ok (ps_world ps)"
  shows "owned (ps_Environment ps) a \<inter> live (ps_world ps') = {}"
  using clears_delete [of _ "ps_Environment ps" a] assms unfolding clears_def post_def by blast

end

end
