(* ===== verification/Fake_Store.thy ===== *)
theory Fake_Store
  imports Aws_Sdk
begin

text \<open>
  \<open>internal/aws/awsfake/store.go\<close>: the in-memory account behind the fake clients. A Go map is an
  association list, so the order in which the code ranges over one is the order of the list.

  The record of the store is extensible, so that a test environment (a clock, the cache file) can
  be put around it without lifting the operations. Every client method holds the store's mutex
  from its first to its last statement, so it is one atomic step here; \<open>api\<close> is the prologue they
  share: record the call, then fail with the next injected error if there is one.
\<close>

section \<open>The store\<close>

record Store =
  fs_Vpcs :: "Vpc gomap"
  fs_Subnets :: "Subnet gomap"
  fs_InternetGateways :: "InternetGateway gomap"
  fs_RouteTables :: "RouteTable gomap"
  fs_SecurityGroups :: "SecurityGroup gomap"
  fs_Instances :: "Ec2Instance gomap"
  fs_NatGateways :: "NatGateway gomap"
  fs_Addresses :: "Address gomap"
  fs_NetworkInterfaces :: "NetworkInterface gomap"
  fs_LoadBalancers :: "LoadBalancer gomap"
  fs_TargetGroups :: "TargetGroup gomap"
  fs_Listeners :: "Listener gomap"
  fs_RegisteredTargets :: "TargetDescription list gomap"
  fs_Parameters :: "string gomap"
  fs_Images :: "Ec2Image list"
  fs_InstanceTypes :: "string list gomap"
  fs_instanceTypeArchs :: "string list gomap"
  fs_absentInstanceTypes :: "bool gomap"
  fs_calls :: "nat gomap"
  fs_inputs :: "api_input list gomap"
  fs_failures :: "error list gomap"
  fs_counter :: nat
  fs_natScript :: "(int \<times> string) option"
  fs_natPending :: "int gomap"
  fs_natFinal :: "string gomap"
  fs_natDeleteScript :: "int option"
  fs_natDeleting :: "int gomap"
  fs_eniDraining :: "int gomap"

text \<open>Reading a key that a Go map lacks gives the zero value.\<close>

definition lookup_or :: "'v \<Rightarrow> 'v gomap \<Rightarrow> string \<Rightarrow> 'v" where
  "lookup_or z m k = (case map_of m k of None \<Rightarrow> z | Some v \<Rightarrow> v)"

abbreviation get_list :: "'v list gomap \<Rightarrow> string \<Rightarrow> 'v list" where
  "get_list \<equiv> lookup_or []"

definition arm64_prefixes :: "string list" where
  "arm64_prefixes = [''g5g'', ''c6g'', ''m6g'', ''t4g'', ''c7g'', ''m7g'', ''r6g'', ''r7g'']"

definition archsFor :: "string \<Rightarrow> string list" where
  "archsFor t = (if \<exists>p \<in> set arm64_prefixes. has_prefix t p then [''arm64''] else [''x86_64''])"

definition tagsFromSpecs :: "tag_spec list \<Rightarrow> tag list" where
  "tagsFromSpecs specs = concat (map snd specs)"

definition notFound :: "string \<Rightarrow> string \<Rightarrow> error" where
  "notFound code i = code @ '': resource '' @ i @ '' not found''"

definition defaultAMI :: string where
  "defaultAMI = ''ami-fake0000''"

definition seed_images :: "Ec2Image list" where
  "seed_images =
     [\<lparr>im_ImageId = defaultAMI, im_Name = ''holodeck-fake-default'',
       im_CreationDate = ''2022-01-01T00:00:00.000Z'', im_Architecture = ''x86_64'',
       im_RootDeviceName = ''/dev/xvda'', im_State = ''available'', im_OwnerId = ''099720109477''\<rparr>,
      \<lparr>im_ImageId = ''ami-fake0001'',
       im_Name = ''ubuntu/images/hvm-ssd/ubuntu-jammy-22.04-amd64-server-20230101'',
       im_CreationDate = ''2023-01-01T00:00:00.000Z'', im_Architecture = ''x86_64'',
       im_RootDeviceName = ''/dev/sda1'', im_State = ''available'', im_OwnerId = ''099720109477''\<rparr>,
      \<lparr>im_ImageId = ''ami-fake0002'',
       im_Name = ''ubuntu/images/hvm-ssd/ubuntu-jammy-22.04-amd64-server-20240601'',
       im_CreationDate = ''2024-06-01T00:00:00.000Z'', im_Architecture = ''x86_64'',
       im_RootDeviceName = ''/dev/sda1'', im_State = ''available'', im_OwnerId = ''099720109477''\<rparr>]"

definition seed_types :: "string list" where
  "seed_types = [''t3.medium'', ''t3.large'', ''t3.xlarge'', ''m4.xlarge'', ''m5.xlarge'',
     ''c5.xlarge'', ''g4dn.xlarge'', ''g5.xlarge'', ''g5g.xlarge'']"

text \<open>A catalog of instance types; a later duplicate overwrites the earlier entry.\<close>

definition catalog :: "string list \<Rightarrow> string list gomap" where
  "catalog names = foldl (\<lambda>m n. AList.update n (archsFor n) m) [] names"

definition newStore :: Store where
  "newStore = \<lparr>fs_Vpcs = [], fs_Subnets = [], fs_InternetGateways = [], fs_RouteTables = [],
     fs_SecurityGroups = [], fs_Instances = [], fs_NatGateways = [], fs_Addresses = [],
     fs_NetworkInterfaces = [], fs_LoadBalancers = [], fs_TargetGroups = [], fs_Listeners = [],
     fs_RegisteredTargets = [], fs_Parameters = [], fs_Images = seed_images,
     fs_InstanceTypes = catalog seed_types, fs_instanceTypeArchs = [], fs_absentInstanceTypes = [],
     fs_calls = [], fs_inputs = [], fs_failures = [], fs_counter = 0, fs_natScript = None,
     fs_natPending = [], fs_natFinal = [], fs_natDeleteScript = None, fs_natDeleting = [],
     fs_eniDraining = []\<rparr>"

section \<open>Operations\<close>

definition fake_id :: "string \<Rightarrow> nat \<Rightarrow> string" where
  "fake_id pfx n = pfx @ ''-fake'' @ pad4 n"

definition nextID :: "string \<Rightarrow> 'z Store_scheme \<Rightarrow> string \<times> 'z Store_scheme" where
  "nextID pfx s = (let s' = s\<lparr>fs_counter := fs_counter s + 1\<rparr> in (fake_id pfx (fs_counter s'), s'))"

definition record_call :: "string \<Rightarrow> api_input \<Rightarrow> 'z Store_scheme \<Rightarrow> 'z Store_scheme" where
  "record_call method i s = s\<lparr>
     fs_calls := AList.update method (lookup_or 0 (fs_calls s) method + 1) (fs_calls s),
     fs_inputs := AList.update method (get_list (fs_inputs s) method @ [i]) (fs_inputs s)\<rparr>"

definition failure :: "string \<Rightarrow> 'z Store_scheme \<Rightarrow> error option \<times> 'z Store_scheme" where
  "failure method s = (case get_list (fs_failures s) method of
       [] \<Rightarrow> (None, s)
     | e # q \<Rightarrow> (Some e, s\<lparr>fs_failures := AList.update method q (fs_failures s)\<rparr>))"

definition api :: "string \<Rightarrow> api_input \<Rightarrow> ('z Store_scheme, 'a) io \<Rightarrow> ('z Store_scheme, 'a) io" where
  "api method i body s = (case failure method (record_call method i s) of
       (Some e, s') \<Rightarrow> (Inl e, s')
     | (None, s') \<Rightarrow> body s')"

definition FailNext :: "string \<Rightarrow> error \<Rightarrow> 'z Store_scheme \<Rightarrow> 'z Store_scheme" where
  "FailNext method e s =
     s\<lparr>fs_failures := AList.update method (get_list (fs_failures s) method @ [e]) (fs_failures s)\<rparr>"

definition Inputs :: "string \<Rightarrow> 'z Store_scheme \<Rightarrow> api_input list" where
  "Inputs method s = get_list (fs_inputs s) method"

definition CallsTo :: "string \<Rightarrow> 'z Store_scheme \<Rightarrow> nat" where
  "CallsTo method s = lookup_or 0 (fs_calls s) method"

definition SeedNextNatGatewayState :: "int \<Rightarrow> string \<Rightarrow> 'z Store_scheme \<Rightarrow> 'z Store_scheme" where
  "SeedNextNatGatewayState pendingPolls final s = s\<lparr>fs_natScript := Some (pendingPolls, final)\<rparr>"

definition SeedNextNatGatewayDeleteState :: "int \<Rightarrow> 'z Store_scheme \<Rightarrow> 'z Store_scheme" where
  "SeedNextNatGatewayDeleteState deletingPolls s = s\<lparr>fs_natDeleteScript := Some deletingPolls\<rparr>"

definition SeedDrainingENI :: "string \<Rightarrow> int \<Rightarrow> 'z Store_scheme \<Rightarrow> string \<times> 'z Store_scheme" where
  "SeedDrainingENI vpcID blockingPolls s = (let (i, s1) = nextID ''eni'' s in
     (i, s1\<lparr>fs_NetworkInterfaces := AList.update i
              \<lparr>ni_NetworkInterfaceId = i, ni_VpcId = vpcID, ni_SubnetId = '''',
               ni_Status = ''in-use'', ni_TagSet = []\<rparr> (fs_NetworkInterfaces s1),
            fs_eniDraining := AList.update i blockingPolls (fs_eniDraining s1)\<rparr>))"

definition SeedImage :: "Ec2Image \<Rightarrow> 'z Store_scheme \<Rightarrow> 'z Store_scheme" where
  "SeedImage img s = s\<lparr>fs_Images := fs_Images s @ [img]\<rparr>"

definition SeedParameter :: "string \<Rightarrow> string \<Rightarrow> 'z Store_scheme \<Rightarrow> 'z Store_scheme" where
  "SeedParameter name v s = s\<lparr>fs_Parameters := AList.update name v (fs_Parameters s)\<rparr>"

definition SeedInstanceType :: "string \<Rightarrow> 'z Store_scheme \<Rightarrow> 'z Store_scheme" where
  "SeedInstanceType name s = s\<lparr>fs_InstanceTypes := AList.update name (archsFor name) (fs_InstanceTypes s)\<rparr>"

definition SeedInstanceTypeArchs :: "string \<Rightarrow> string list \<Rightarrow> 'z Store_scheme \<Rightarrow> 'z Store_scheme" where
  "SeedInstanceTypeArchs name archs s =
     s\<lparr>fs_instanceTypeArchs := AList.update name archs (fs_instanceTypeArchs s)\<rparr>"

definition SeedInstanceTypeAbsent :: "string \<Rightarrow> 'z Store_scheme \<Rightarrow> 'z Store_scheme" where
  "SeedInstanceTypeAbsent name s =
     s\<lparr>fs_absentInstanceTypes := AList.update name True (fs_absentInstanceTypes s)\<rparr>"

definition SetImages :: "Ec2Image list \<Rightarrow> 'z Store_scheme \<Rightarrow> 'z Store_scheme" where
  "SetImages imgs s = s\<lparr>fs_Images := imgs\<rparr>"

definition SetInstanceTypeCatalog :: "string list \<Rightarrow> 'z Store_scheme \<Rightarrow> 'z Store_scheme" where
  "SetInstanceTypeCatalog names s = s\<lparr>fs_InstanceTypes := catalog names\<rparr>"

definition is_live :: "Ec2Instance \<Rightarrow> bool" where
  "is_live inst = (case ei_State inst of None \<Rightarrow> True | Some st \<Rightarrow> is_Name st \<noteq> ''terminated'')"

definition countsLocked :: "'z Store_scheme \<Rightarrow> nat gomap" where
  "countsLocked s =
     [(''vpcs'', length (fs_Vpcs s)), (''subnets'', length (fs_Subnets s)),
      (''internetgateways'', length (fs_InternetGateways s)),
      (''routetables'', length (fs_RouteTables s)),
      (''securitygroups'', length (fs_SecurityGroups s)),
      (''instances'', length (filter (is_live \<circ> snd) (fs_Instances s))),
      (''natgateways'', length (fs_NatGateways s)), (''addresses'', length (fs_Addresses s)),
      (''networkinterfaces'', length (fs_NetworkInterfaces s)),
      (''loadbalancers'', length (fs_LoadBalancers s)),
      (''targetgroups'', length (fs_TargetGroups s)), (''listeners'', length (fs_Listeners s))]"

definition ResourceCounts :: "'z Store_scheme \<Rightarrow> nat gomap" where
  "ResourceCounts = countsLocked"

definition Empty :: "'z Store_scheme \<Rightarrow> bool" where
  "Empty s = list_all (\<lambda>(_, v). \<not> v > 0) (countsLocked s)"

end
