(* ===== verification/Fake_EC2.thy ===== *)
theory Fake_EC2
  imports Fake_Store
begin

text \<open>
  \<open>internal/aws/awsfake/ec2.go\<close>: the fake EC2 client, one definition per method, and the record
  of operations that it is as an \<open>EC2Client\<close>.
\<close>

section \<open>Helpers\<close>

text \<open>The values of a Go map, in the order in which it is ranged over.\<close>

abbreviation vals :: "'v gomap \<Rightarrow> 'v list" where
  "vals m \<equiv> map snd m"

text \<open>\<open>filterValue\<close>: the first value of the named filter that has one.\<close>

fun filterValue :: "api_filter list \<Rightarrow> string \<Rightarrow> string" where
  "filterValue [] name = ''''"
| "filterValue ((n, vs) # fs) name = (if n = name \<and> vs \<noteq> [] then hd vs else filterValue fs name)"

text \<open>The loop of a describe call over explicit ids: it stops at the first id that is unknown.\<close>

fun pick :: "string \<Rightarrow> 'v gomap \<Rightarrow> string list \<Rightarrow> error + 'v list" where
  "pick code m [] = Inr []"
| "pick code m (i # ids) = (case map_of m i of
      None \<Rightarrow> Inl (notFound code i)
    | Some v \<Rightarrow> (case pick code m ids of Inl e \<Rightarrow> Inl e | Inr vs \<Rightarrow> Inr (v # vs)))"

text \<open>The values whose \<open>VpcId\<close> matches the \<open>vpc-id\<close> filter; no such filter selects all.\<close>

definition in_vpc :: "('v \<Rightarrow> string) \<Rightarrow> api_filter list \<Rightarrow> 'v \<Rightarrow> bool" where
  "in_vpc vpc_of filters v = (let vpcID = filterValue filters ''vpc-id'' in vpcID = '''' \<or> vpc_of v = vpcID)"

definition okay :: "'a \<Rightarrow> 's \<Rightarrow> (error + 'a) \<times> 's" where
  "okay v s = (Inr v, s)"

section \<open>VPCs and subnets\<close>

definition fCreateVpc :: "CreateVpcInput \<Rightarrow> ('z Store_scheme, Vpc) io" where
  "fCreateVpc params = api ''CreateVpc'' (I_CreateVpc params) (\<lambda>s.
     let (i, s) = nextID ''vpc'' s;
         v = \<lparr>vpc_VpcId = i, vpc_CidrBlock = cvi_CidrBlock params, vpc_State = ''available'',
              vpc_Tags = tagsFromSpecs (cvi_TagSpecifications params)\<rparr>
     in okay v (s\<lparr>fs_Vpcs := AList.update i v (fs_Vpcs s)\<rparr>))"

definition fModifyVpcAttribute :: "string \<Rightarrow> bool \<Rightarrow> ('z Store_scheme, unit) io" where
  "fModifyVpcAttribute vpc dns = api ''ModifyVpcAttribute'' (I_ModifyVpcAttribute vpc dns) (okay ())"

definition fDeleteVpc :: "string \<Rightarrow> ('z Store_scheme, unit) io" where
  "fDeleteVpc i = api ''DeleteVpc'' (I_DeleteVpc i) (\<lambda>s.
     if \<not> has_key (fs_Vpcs s) i then (Inl (notFound ''InvalidVpcID.NotFound'' i), s)
     else okay () (s\<lparr>fs_Vpcs := AList.delete i (fs_Vpcs s)\<rparr>))"

definition fDescribeVpcs :: "string list \<Rightarrow> ('z Store_scheme, Vpc list) io" where
  "fDescribeVpcs ids = api ''DescribeVpcs'' (I_DescribeVpcs ids) (\<lambda>s.
     if ids \<noteq> [] then (pick ''InvalidVpcID.NotFound'' (fs_Vpcs s) ids, s)
     else okay (vals (fs_Vpcs s)) s)"

definition fCreateSubnet :: "CreateSubnetInput \<Rightarrow> ('z Store_scheme, Subnet) io" where
  "fCreateSubnet params = api ''CreateSubnet'' (I_CreateSubnet params) (\<lambda>s.
     let (i, s) = nextID ''subnet'' s;
         sn = \<lparr>sn_SubnetId = i, sn_VpcId = csi_VpcId params, sn_CidrBlock = csi_CidrBlock params,
               sn_State = ''available'', sn_Tags = tagsFromSpecs (csi_TagSpecifications params)\<rparr>
     in okay sn (s\<lparr>fs_Subnets := AList.update i sn (fs_Subnets s)\<rparr>))"

definition fDeleteSubnet :: "string \<Rightarrow> ('z Store_scheme, unit) io" where
  "fDeleteSubnet i = api ''DeleteSubnet'' (I_DeleteSubnet i) (\<lambda>s.
     if \<not> has_key (fs_Subnets s) i then (Inl (notFound ''InvalidSubnetID.NotFound'' i), s)
     else okay () (s\<lparr>fs_Subnets := AList.delete i (fs_Subnets s)\<rparr>))"

definition fDescribeSubnets :: "string list \<Rightarrow> api_filter list \<Rightarrow> ('z Store_scheme, Subnet list) io" where
  "fDescribeSubnets ids filters = api ''DescribeSubnets'' (I_DescribeSubnets ids filters) (\<lambda>s.
     if ids \<noteq> [] then (pick ''InvalidSubnetID.NotFound'' (fs_Subnets s) ids, s)
     else if filters \<noteq> [] then okay (filter (in_vpc sn_VpcId filters) (vals (fs_Subnets s))) s
     else okay (vals (fs_Subnets s)) s)"

section \<open>Internet gateways\<close>

text \<open>The output points into the store, as the code's does.\<close>

definition fCreateInternetGateway :: "tag_spec list \<Rightarrow> ('z Store_scheme, 'z Store_scheme \<Rightarrow> InternetGateway) io" where
  "fCreateInternetGateway specs = api ''CreateInternetGateway'' (I_CreateInternetGateway specs) (\<lambda>s.
     let (i, s) = nextID ''igw'' s;
         igw = \<lparr>igw_InternetGatewayId = i, igw_Attachments = [], igw_Tags = tagsFromSpecs specs\<rparr>
     in okay (\<lambda>t. lookup_or igw (fs_InternetGateways t) i)
          (s\<lparr>fs_InternetGateways := AList.update i igw (fs_InternetGateways s)\<rparr>))"

definition fAttachInternetGateway :: "string \<Rightarrow> string \<Rightarrow> ('z Store_scheme, unit) io" where
  "fAttachInternetGateway i vpc = api ''AttachInternetGateway'' (I_AttachInternetGateway i vpc) (\<lambda>s.
     okay () (case map_of (fs_InternetGateways s) i of
         None \<Rightarrow> s
       | Some igw \<Rightarrow> s\<lparr>fs_InternetGateways := AList.update i
           (igw\<lparr>igw_Attachments := igw_Attachments igw @ [\<lparr>ia_State = ''attached'', ia_VpcId = vpc\<rparr>]\<rparr>)
           (fs_InternetGateways s)\<rparr>))"

definition fDetachInternetGateway :: "string \<Rightarrow> string \<Rightarrow> ('z Store_scheme, unit) io" where
  "fDetachInternetGateway i vpc = api ''DetachInternetGateway'' (I_DetachInternetGateway i vpc) (\<lambda>s.
     case map_of (fs_InternetGateways s) i of
       None \<Rightarrow> (Inl (notFound ''InvalidInternetGatewayID.NotFound'' i), s)
     | Some igw \<Rightarrow>
         if igw_Attachments igw = [] then (Inl (notFound ''Gateway.NotAttached'' i), s)
         else okay () (s\<lparr>fs_InternetGateways :=
                AList.update i (igw\<lparr>igw_Attachments := []\<rparr>) (fs_InternetGateways s)\<rparr>))"

definition fDeleteInternetGateway :: "string \<Rightarrow> ('z Store_scheme, unit) io" where
  "fDeleteInternetGateway i = api ''DeleteInternetGateway'' (I_DeleteInternetGateway i) (\<lambda>s.
     if \<not> has_key (fs_InternetGateways s) i
     then (Inl (notFound ''InvalidInternetGatewayID.NotFound'' i), s)
     else okay () (s\<lparr>fs_InternetGateways := AList.delete i (fs_InternetGateways s)\<rparr>))"

definition fDescribeInternetGateways :: "string list \<Rightarrow> api_filter list \<Rightarrow> ('z Store_scheme, InternetGateway list) io" where
  "fDescribeInternetGateways ids filters = api ''DescribeInternetGateways'' (I_DescribeInternetGateways ids filters) (\<lambda>s.
     if ids \<noteq> [] then (pick ''InvalidInternetGatewayID.NotFound'' (fs_InternetGateways s) ids, s)
     else okay (vals (fs_InternetGateways s)) s)"

section \<open>Route tables\<close>

definition fCreateRouteTable :: "string \<Rightarrow> tag_spec list \<Rightarrow> ('z Store_scheme, RouteTable) io" where
  "fCreateRouteTable vpc specs = api ''CreateRouteTable'' (I_CreateRouteTable vpc specs) (\<lambda>s.
     let (i, s) = nextID ''rtb'' s;
         rt = \<lparr>rt_RouteTableId = i, rt_VpcId = vpc, rt_Associations = [], rt_Tags = tagsFromSpecs specs\<rparr>
     in okay rt (s\<lparr>fs_RouteTables := AList.update i rt (fs_RouteTables s)\<rparr>))"

definition fAssociateRouteTable :: "string \<Rightarrow> string \<Rightarrow> ('z Store_scheme, string) io" where
  "fAssociateRouteTable rtb subnet = api ''AssociateRouteTable'' (I_AssociateRouteTable rtb subnet) (\<lambda>s.
     let (assocID, s) = nextID ''rtbassoc'' s
     in okay assocID (case map_of (fs_RouteTables s) rtb of
         None \<Rightarrow> s
       | Some rt \<Rightarrow> s\<lparr>fs_RouteTables := AList.update rtb
           (rt\<lparr>rt_Associations := rt_Associations rt @
              [\<lparr>ra_RouteTableAssociationId = Some assocID, ra_RouteTableId = rtb,
                ra_SubnetId = subnet, ra_Main = Some False\<rparr>]\<rparr>)
           (fs_RouteTables s)\<rparr>))"

definition fCreateRoute :: "CreateRouteInput \<Rightarrow> ('z Store_scheme, bool) io" where
  "fCreateRoute params = api ''CreateRoute'' (I_CreateRoute params) (okay True)"

definition fDeleteRouteTable :: "string \<Rightarrow> ('z Store_scheme, unit) io" where
  "fDeleteRouteTable i = api ''DeleteRouteTable'' (I_DeleteRouteTable i) (\<lambda>s.
     if \<not> has_key (fs_RouteTables s) i then (Inl (notFound ''InvalidRouteTableID.NotFound'' i), s)
     else okay () (s\<lparr>fs_RouteTables := AList.delete i (fs_RouteTables s)\<rparr>))"

definition fDescribeRouteTables :: "string list \<Rightarrow> api_filter list \<Rightarrow> ('z Store_scheme, RouteTable list) io" where
  "fDescribeRouteTables ids filters = api ''DescribeRouteTables'' (I_DescribeRouteTables ids filters) (\<lambda>s.
     if ids \<noteq> [] then (pick ''InvalidRouteTableID.NotFound'' (fs_RouteTables s) ids, s)
     else okay (vals (fs_RouteTables s)) s)"

definition fReplaceRouteTableAssociation :: "string \<Rightarrow> string \<Rightarrow> ('z Store_scheme, string) io" where
  "fReplaceRouteTableAssociation assoc rtb =
     api ''ReplaceRouteTableAssociation'' (I_ReplaceRouteTableAssociation assoc rtb) (\<lambda>s.
       let (i, s) = nextID ''rtbassoc'' s in okay i s)"

section \<open>Security groups\<close>

definition fCreateSecurityGroup :: "CreateSecurityGroupInput \<Rightarrow> ('z Store_scheme, string) io" where
  "fCreateSecurityGroup params = api ''CreateSecurityGroup'' (I_CreateSecurityGroup params) (\<lambda>s.
     let (i, s) = nextID ''sg'' s;
         sg = \<lparr>sg_GroupId = i, sg_GroupName = Some (cgi_GroupName params),
               sg_Description = cgi_Description params, sg_VpcId = cgi_VpcId params,
               sg_IpPermissions = [], sg_IpPermissionsEgress = [],
               sg_Tags = tagsFromSpecs (cgi_TagSpecifications params)\<rparr>
     in okay i (s\<lparr>fs_SecurityGroups := AList.update i sg (fs_SecurityGroups s)\<rparr>))"

definition set_ingress :: "string \<Rightarrow> (IpPermission list \<Rightarrow> IpPermission list) \<Rightarrow> 'z Store_scheme \<Rightarrow> 'z Store_scheme" where
  "set_ingress i f s = (case map_of (fs_SecurityGroups s) i of
       None \<Rightarrow> s
     | Some sg \<Rightarrow> s\<lparr>fs_SecurityGroups := AList.update i
         (sg\<lparr>sg_IpPermissions := f (sg_IpPermissions sg)\<rparr>) (fs_SecurityGroups s)\<rparr>)"

definition fAuthorizeSecurityGroupIngress :: "string \<Rightarrow> IpPermission list \<Rightarrow> ('z Store_scheme, bool) io" where
  "fAuthorizeSecurityGroupIngress i perms =
     api ''AuthorizeSecurityGroupIngress'' (I_AuthorizeSecurityGroupIngress i perms) (\<lambda>s.
       okay True (set_ingress i (\<lambda>old. old @ perms) s))"

definition fDeleteSecurityGroup :: "string \<Rightarrow> ('z Store_scheme, unit) io" where
  "fDeleteSecurityGroup i = api ''DeleteSecurityGroup'' (I_DeleteSecurityGroup i) (\<lambda>s.
     if \<not> has_key (fs_SecurityGroups s) i then (Inl (notFound ''InvalidGroup.NotFound'' i), s)
     else okay () (s\<lparr>fs_SecurityGroups := AList.delete i (fs_SecurityGroups s)\<rparr>))"

definition fDescribeSecurityGroups :: "string list \<Rightarrow> api_filter list \<Rightarrow> ('z Store_scheme, SecurityGroup list) io" where
  "fDescribeSecurityGroups ids filters = api ''DescribeSecurityGroups'' (I_DescribeSecurityGroups ids filters) (\<lambda>s.
     if ids \<noteq> [] then (pick ''InvalidGroup.NotFound'' (fs_SecurityGroups s) ids, s)
     else if filters \<noteq> [] then okay (filter (in_vpc sg_VpcId filters) (vals (fs_SecurityGroups s))) s
     else okay (vals (fs_SecurityGroups s)) s)"

definition fRevokeSecurityGroupIngress :: "string \<Rightarrow> IpPermission list \<Rightarrow> ('z Store_scheme, bool) io" where
  "fRevokeSecurityGroupIngress i perms =
     api ''RevokeSecurityGroupIngress'' (I_RevokeSecurityGroupIngress i perms) (\<lambda>s.
       okay True (set_ingress i (\<lambda>_. []) s))"

definition fRevokeSecurityGroupEgress :: "string \<Rightarrow> IpPermission list \<Rightarrow> ('z Store_scheme, bool) io" where
  "fRevokeSecurityGroupEgress i perms =
     api ''RevokeSecurityGroupEgress'' (I_RevokeSecurityGroupEgress i perms) (okay True)"

section \<open>Instances\<close>

text \<open>One round of the loop of \<open>RunInstances\<close>: the instance and its network interface.\<close>

definition run_one :: "RunInstancesInput \<Rightarrow> string \<Rightarrow> string \<Rightarrow> 'z Store_scheme \<Rightarrow> Ec2Instance \<times> 'z Store_scheme" where
  "run_one params subnetID vpcID s =
     (let (instID, s) = nextID ''i'' s;
          (eniID, s) = nextID ''eni'' s;
          s = s\<lparr>fs_NetworkInterfaces := AList.update eniID
                 \<lparr>ni_NetworkInterfaceId = eniID, ni_VpcId = vpcID, ni_SubnetId = subnetID,
                  ni_Status = ''in-use'', ni_TagSet = []\<rparr> (fs_NetworkInterfaces s)\<rparr>;
          octet = decimal (fs_counter s mod 254 + 1);
          inst = \<lparr>ei_InstanceId = instID, ei_ImageId = rii_ImageId params,
                  ei_InstanceType = rii_InstanceType params,
                  ei_State = Some \<lparr>is_Name = ''running'', is_Code = 16\<rparr>,
                  ei_PublicDnsName = ''ec2-'' @ instID @ ''.compute.amazonaws.com'',
                  ei_PublicIpAddress = ''203.0.113.'' @ octet,
                  ei_PrivateIpAddress = ''10.0.0.'' @ octet,
                  ei_SubnetId = subnetID, ei_VpcId = vpcID,
                  ei_NetworkInterfaces = [\<lparr>nif_NetworkInterfaceId = eniID, nif_SubnetId = subnetID\<rparr>],
                  ei_Tags = tagsFromSpecs (rii_TagSpecifications params)\<rparr>
      in (inst, s\<lparr>fs_Instances := AList.update instID inst (fs_Instances s)\<rparr>))"

fun run_many :: "nat \<Rightarrow> RunInstancesInput \<Rightarrow> string \<Rightarrow> string \<Rightarrow> 'z Store_scheme \<Rightarrow> Ec2Instance list \<times> 'z Store_scheme" where
  "run_many 0 params sn vpc s = ([], s)"
| "run_many (Suc n) params sn vpc s =
     (let (inst, s) = run_one params sn vpc s; (insts, s) = run_many n params sn vpc s
      in (inst # insts, s))"

definition run_count :: "RunInstancesInput \<Rightarrow> nat" where
  "run_count params = (case rii_MinCount params of
     Some n \<Rightarrow> if sint n > 0 then unat n else 1 | None \<Rightarrow> 1)"

definition run_subnet :: "RunInstancesInput \<Rightarrow> string" where
  "run_subnet params = (case rii_NetworkInterfaces params of
     ni # _ \<Rightarrow> nis_SubnetId ni
   | [] \<Rightarrow> (case rii_SubnetId params of Some i \<Rightarrow> i | None \<Rightarrow> ''''))"

definition fRunInstances :: "RunInstancesInput \<Rightarrow> ('z Store_scheme, Ec2Instance list) io" where
  "fRunInstances params = api ''RunInstances'' (I_RunInstances params) (\<lambda>s.
     let subnetID = run_subnet params;
         vpcID = (case map_of (fs_Subnets s) subnetID of Some sn \<Rightarrow> sn_VpcId sn | None \<Rightarrow> '''');
         (insts, s) = run_many (run_count params) params subnetID vpcID s
     in okay insts s)"

text \<open>The interfaces of a terminated instance go; the instance stays, in state \<open>terminated\<close>.\<close>

definition terminate_one :: "string \<Rightarrow> Ec2Instance \<Rightarrow> 'z Store_scheme \<Rightarrow> 'z Store_scheme" where
  "terminate_one i inst s = s\<lparr>
     fs_NetworkInterfaces := foldl (\<lambda>m ni. AList.delete (nif_NetworkInterfaceId ni) m)
       (fs_NetworkInterfaces s) (ei_NetworkInterfaces inst),
     fs_Instances := AList.update i
       (inst\<lparr>ei_State := Some \<lparr>is_Name = ''terminated'', is_Code = 48\<rparr>\<rparr>) (fs_Instances s)\<rparr>"

fun terminate_many :: "string list \<Rightarrow> ('z Store_scheme, unit) io" where
  "terminate_many [] s = okay () s"
| "terminate_many (i # ids) s = (case map_of (fs_Instances s) i of
      None \<Rightarrow> (Inl (notFound ''InvalidInstanceID.NotFound'' i), s)
    | Some inst \<Rightarrow> terminate_many ids (terminate_one i inst s))"

definition fTerminateInstances :: "string list \<Rightarrow> ('z Store_scheme, unit) io" where
  "fTerminateInstances ids = api ''TerminateInstances'' (I_TerminateInstances ids) (terminate_many ids)"

definition fDescribeInstances :: "string list \<Rightarrow> api_filter list \<Rightarrow> ('z Store_scheme, Ec2Instance list list) io" where
  "fDescribeInstances ids filters = api ''DescribeInstances'' (I_DescribeInstances ids filters) (\<lambda>s.
     if ids \<noteq> [] then (case pick ''InvalidInstanceID.NotFound'' (fs_Instances s) ids of
         Inl e \<Rightarrow> (Inl e, s) | Inr insts \<Rightarrow> okay [insts] s)
     else okay [vals (fs_Instances s)] s)"

definition instanceTypeInfo :: "string \<Rightarrow> InstanceTypeInfo" where
  "instanceTypeInfo name = \<lparr>iti_InstanceType = name, iti_SupportedArchitectures = Some (archsFor name)\<rparr>"

fun echo_types :: "string list \<Rightarrow> 'z Store_scheme \<Rightarrow> InstanceTypeInfo list" where
  "echo_types [] s = []"
| "echo_types (n # ns) s =
     (if lookup_or False (fs_absentInstanceTypes s) n then echo_types ns s
      else (case map_of (fs_instanceTypeArchs s) n of
          Some archs \<Rightarrow> \<lparr>iti_InstanceType = n, iti_SupportedArchitectures = Some archs\<rparr> # echo_types ns s
        | None \<Rightarrow> instanceTypeInfo n # echo_types ns s))"

definition fDescribeInstanceTypes :: "string list \<Rightarrow> string option \<Rightarrow> ('z Store_scheme, InstanceTypeInfo list \<times> string option) io" where
  "fDescribeInstanceTypes types next = api ''DescribeInstanceTypes'' (I_DescribeInstanceTypes types next) (\<lambda>s.
     okay (if types \<noteq> [] then echo_types types s
           else map (\<lambda>(name, _). instanceTypeInfo name) (fs_InstanceTypes s), None) s)"

definition fDescribeImages :: "DescribeImagesInput \<Rightarrow> ('z Store_scheme, Ec2Image list \<times> string option) io" where
  "fDescribeImages params = api ''DescribeImages'' (I_DescribeImages params) (\<lambda>s.
     okay (if dii_ImageIds params \<noteq> []
           then filter (\<lambda>img. im_ImageId img \<in> set (dii_ImageIds params)) (fs_Images s)
           else fs_Images s, None) s)"

section \<open>Network interfaces\<close>

definition advanceENIDrain :: "string \<Rightarrow> 'z Store_scheme \<Rightarrow> 'z Store_scheme" where
  "advanceENIDrain i s = (case map_of (fs_eniDraining s) i of
       None \<Rightarrow> s
     | Some rem \<Rightarrow>
         if rem - 1 \<le> 0
         then s\<lparr>fs_NetworkInterfaces := AList.delete i (fs_NetworkInterfaces s),
                fs_eniDraining := AList.delete i (fs_eniDraining s)\<rparr>
         else s\<lparr>fs_eniDraining := AList.update i (rem - 1) (fs_eniDraining s)\<rparr>)"

text \<open>The loop over the interfaces of a VPC, which removes interfaces as it observes them: it
  ranges over the entries that were there when it began.\<close>

fun observe_enis :: "api_filter list \<Rightarrow> NetworkInterface gomap \<Rightarrow> 'z Store_scheme \<Rightarrow> NetworkInterface list \<times> 'z Store_scheme" where
  "observe_enis filters [] s = ([], s)"
| "observe_enis filters ((i, ni) # m) s =
     (if in_vpc ni_VpcId filters ni
      then (let (out, s) = observe_enis filters m (advanceENIDrain i s) in (ni # out, s))
      else observe_enis filters m s)"

definition fDescribeNetworkInterfaces :: "string list \<Rightarrow> api_filter list \<Rightarrow> ('z Store_scheme, NetworkInterface list) io" where
  "fDescribeNetworkInterfaces ids filters =
     api ''DescribeNetworkInterfaces'' (I_DescribeNetworkInterfaces ids filters) (\<lambda>s.
       if ids \<noteq> [] then okay (List.map_filter (map_of (fs_NetworkInterfaces s)) ids) s
       else if filters \<noteq> []
       then (let (out, s) = observe_enis filters (fs_NetworkInterfaces s) s in okay out s)
       else okay (vals (fs_NetworkInterfaces s)) s)"

definition fModifyNetworkInterfaceAttribute :: "ModifyNetworkInterfaceAttributeInput \<Rightarrow> ('z Store_scheme, unit) io" where
  "fModifyNetworkInterfaceAttribute params =
     api ''ModifyNetworkInterfaceAttribute'' (I_ModifyNetworkInterfaceAttribute params) (okay ())"

section \<open>Tags\<close>

definition tag_one :: "tag list \<Rightarrow> 'z Store_scheme \<Rightarrow> string \<Rightarrow> 'z Store_scheme" where
  "tag_one tags s i = (case map_of (fs_Instances s) i of
       Some inst \<Rightarrow> s\<lparr>fs_Instances := AList.update i
         (inst\<lparr>ei_Tags := ei_Tags inst @ tags\<rparr>) (fs_Instances s)\<rparr>
     | None \<Rightarrow> (case map_of (fs_NetworkInterfaces s) i of
           Some ni \<Rightarrow> s\<lparr>fs_NetworkInterfaces := AList.update i
             (ni\<lparr>ni_TagSet := ni_TagSet ni @ tags\<rparr>) (fs_NetworkInterfaces s)\<rparr>
         | None \<Rightarrow> s))"

definition fCreateTags :: "string list \<Rightarrow> tag list \<Rightarrow> ('z Store_scheme, unit) io" where
  "fCreateTags resources tags = api ''CreateTags'' (I_CreateTags resources tags) (\<lambda>s.
     okay () (foldl (tag_one tags) s resources))"

definition fDescribeTags :: "api_filter list \<Rightarrow> ('z Store_scheme, TagDescription list) io" where
  "fDescribeTags filters = api ''DescribeTags'' (I_DescribeTags filters) (\<lambda>s.
     okay (concat (map (\<lambda>(i, inst). map (\<lambda>(k, v). \<lparr>tdn_ResourceId = i, tdn_Key = k, tdn_Value = v\<rparr>) (ei_Tags inst))
       (fs_Instances s))) s)"

section \<open>Elastic addresses\<close>

definition fAllocateAddress :: "string \<Rightarrow> tag_spec list \<Rightarrow> ('z Store_scheme, string \<times> string) io" where
  "fAllocateAddress domain specs = api ''AllocateAddress'' (I_AllocateAddress domain specs) (\<lambda>s.
     let (i, s) = nextID ''eipalloc'' s;
         ip = ''203.0.113.'' @ decimal (fs_counter s mod 254 + 1)
     in okay (i, ip) (s\<lparr>fs_Addresses := AList.update i
          \<lparr>ad_AllocationId = i, ad_PublicIp = ip, ad_Domain = ''vpc''\<rparr> (fs_Addresses s)\<rparr>))"

definition fReleaseAddress :: "string \<Rightarrow> ('z Store_scheme, unit) io" where
  "fReleaseAddress i = api ''ReleaseAddress'' (I_ReleaseAddress i) (\<lambda>s.
     if \<not> has_key (fs_Addresses s) i then (Inl (notFound ''InvalidAllocationID.NotFound'' i), s)
     else okay () (s\<lparr>fs_Addresses := AList.delete i (fs_Addresses s)\<rparr>))"

section \<open>NAT gateways\<close>

definition fCreateNatGateway :: "CreateNatGatewayInput \<Rightarrow> ('z Store_scheme, NatGateway) io" where
  "fCreateNatGateway params = api ''CreateNatGateway'' (I_CreateNatGateway params) (\<lambda>s.
     let (i, s) = nextID ''nat'' s;
         (state, s) = (case fs_natScript s of
             None \<Rightarrow> (''available'', s)
           | Some (pendingPolls, final) \<Rightarrow>
               if pendingPolls > 0
               then (''pending'', s\<lparr>fs_natPending := AList.update i pendingPolls (fs_natPending s),
                       fs_natFinal := AList.update i final (fs_natFinal s), fs_natScript := None\<rparr>)
               else (final, s\<lparr>fs_natScript := None\<rparr>));
         ngw = \<lparr>ng_NatGatewayId = i, ng_SubnetId = cni_SubnetId params, ng_State = state,
                ng_Tags = tagsFromSpecs (cni_TagSpecifications params)\<rparr>
     in okay ngw (s\<lparr>fs_NatGateways := AList.update i ngw (fs_NatGateways s)\<rparr>))"

definition fDeleteNatGateway :: "string \<Rightarrow> ('z Store_scheme, string) io" where
  "fDeleteNatGateway i = api ''DeleteNatGateway'' (I_DeleteNatGateway i) (\<lambda>s.
     case map_of (fs_NatGateways s) i of
       None \<Rightarrow> (Inl (notFound ''NatGatewayNotFound'' i), s)
     | Some ngw \<Rightarrow> (case fs_natDeleteScript s of
           Some polls \<Rightarrow> okay i (s\<lparr>
             fs_NatGateways := AList.update i (ngw\<lparr>ng_State := ''deleting''\<rparr>) (fs_NatGateways s),
             fs_natDeleting := AList.update i polls (fs_natDeleting s), fs_natDeleteScript := None\<rparr>)
         | None \<Rightarrow> okay i (s\<lparr>fs_NatGateways := AList.delete i (fs_NatGateways s)\<rparr>)))"

definition advanceNatState :: "string \<Rightarrow> NatGateway \<Rightarrow> 'z Store_scheme \<Rightarrow> NatGateway \<times> 'z Store_scheme" where
  "advanceNatState i ngw s = (case map_of (fs_natDeleting s) i of
       Some rem \<Rightarrow> (ngw\<lparr>ng_State := ''deleting''\<rparr>,
         if rem - 1 \<le> 0
         then s\<lparr>fs_NatGateways := AList.delete i (fs_NatGateways s),
                fs_natDeleting := AList.delete i (fs_natDeleting s)\<rparr>
         else s\<lparr>fs_natDeleting := AList.update i (rem - 1) (fs_natDeleting s)\<rparr>)
     | None \<Rightarrow> (case map_of (fs_natPending s) i of
           None \<Rightarrow> (ngw, s)
         | Some rem \<Rightarrow>
             if rem = 0 then (ngw, s)
             else (ngw\<lparr>ng_State := ''pending''\<rparr>,
               (let s = s\<lparr>fs_natPending := AList.update i (rem - 1) (fs_natPending s)\<rparr> in
                if rem - 1 = 0
                then s\<lparr>fs_NatGateways := AList.update i
                         (ngw\<lparr>ng_State := lookup_or '''' (fs_natFinal s) i\<rparr>) (fs_NatGateways s)\<rparr>
                else s))))"

text \<open>The loop over explicit ids skips unknown ones; the loop over the map sees the entries that
  were there when it began.\<close>

fun observe_nats :: "string list \<Rightarrow> 'z Store_scheme \<Rightarrow> NatGateway list \<times> 'z Store_scheme" where
  "observe_nats [] s = ([], s)"
| "observe_nats (i # ids) s = (case map_of (fs_NatGateways s) i of
      None \<Rightarrow> observe_nats ids s
    | Some ngw \<Rightarrow> (let (seen, s) = advanceNatState i ngw s; (out, s) = observe_nats ids s
        in (seen # out, s)))"

definition fDescribeNatGateways :: "string list \<Rightarrow> ('z Store_scheme, NatGateway list) io" where
  "fDescribeNatGateways ids = api ''DescribeNatGateways'' (I_DescribeNatGateways ids) (\<lambda>s.
     let (out, s) = observe_nats (if ids \<noteq> [] then ids else map fst (fs_NatGateways s)) s
     in okay out s)"

definition fModifySubnetAttribute :: "string \<Rightarrow> ('z Store_scheme, unit) io" where
  "fModifySubnetAttribute i = api ''ModifySubnetAttribute'' (I_ModifySubnetAttribute i) (okay ())"

section \<open>The client\<close>

definition FakeEC2 :: "'z Store_scheme ec2_client" where
  "FakeEC2 = \<lparr>ec2_CreateVpc = fCreateVpc, ec2_ModifyVpcAttribute = fModifyVpcAttribute,
     ec2_DeleteVpc = fDeleteVpc, ec2_DescribeVpcs = fDescribeVpcs, ec2_CreateSubnet = fCreateSubnet,
     ec2_DeleteSubnet = fDeleteSubnet, ec2_DescribeSubnets = fDescribeSubnets,
     ec2_CreateInternetGateway = fCreateInternetGateway,
     ec2_AttachInternetGateway = fAttachInternetGateway,
     ec2_DetachInternetGateway = fDetachInternetGateway,
     ec2_DeleteInternetGateway = fDeleteInternetGateway,
     ec2_DescribeInternetGateways = fDescribeInternetGateways,
     ec2_CreateRouteTable = fCreateRouteTable, ec2_AssociateRouteTable = fAssociateRouteTable,
     ec2_CreateRoute = fCreateRoute, ec2_DeleteRouteTable = fDeleteRouteTable,
     ec2_DescribeRouteTables = fDescribeRouteTables,
     ec2_ReplaceRouteTableAssociation = fReplaceRouteTableAssociation,
     ec2_CreateSecurityGroup = fCreateSecurityGroup,
     ec2_AuthorizeSecurityGroupIngress = fAuthorizeSecurityGroupIngress,
     ec2_DeleteSecurityGroup = fDeleteSecurityGroup,
     ec2_DescribeSecurityGroups = fDescribeSecurityGroups,
     ec2_RevokeSecurityGroupIngress = fRevokeSecurityGroupIngress,
     ec2_RevokeSecurityGroupEgress = fRevokeSecurityGroupEgress,
     ec2_RunInstances = fRunInstances, ec2_TerminateInstances = fTerminateInstances,
     ec2_DescribeInstances = fDescribeInstances, ec2_DescribeInstanceTypes = fDescribeInstanceTypes,
     ec2_DescribeImages = fDescribeImages,
     ec2_DescribeNetworkInterfaces = fDescribeNetworkInterfaces,
     ec2_ModifyNetworkInterfaceAttribute = fModifyNetworkInterfaceAttribute,
     ec2_CreateTags = fCreateTags, ec2_DescribeTags = fDescribeTags,
     ec2_AllocateAddress = fAllocateAddress, ec2_ReleaseAddress = fReleaseAddress,
     ec2_CreateNatGateway = fCreateNatGateway, ec2_DeleteNatGateway = fDeleteNatGateway,
     ec2_DescribeNatGateways = fDescribeNatGateways,
     ec2_ModifySubnetAttribute = fModifySubnetAttribute\<rparr>"

end
