(* ===== verification/Fake_ELB.thy ===== *)
theory Fake_ELB
  imports Fake_EC2
begin

text \<open>
  \<open>internal/aws/awsfake/elbv2.go\<close> and \<open>ssm.go\<close>: the fake load balancer and parameter clients
  over the same store. Load balancers, target groups and listeners are keyed by their ARN.
\<close>

definition elbv2ARNPrefix :: string where
  "elbv2ARNPrefix = ''arn:aws:elasticloadbalancing:us-east-1:123456789012''"

section \<open>Load balancers\<close>

definition lb_arn :: "string \<Rightarrow> string \<Rightarrow> string" where
  "lb_arn name i = elbv2ARNPrefix @ '':loadbalancer/net/'' @ name @ ''/'' @ i"

definition fCreateLoadBalancer :: "CreateLoadBalancerInput \<Rightarrow> ('z Store_scheme, LoadBalancer list) io" where
  "fCreateLoadBalancer params = api ''CreateLoadBalancer'' (I_CreateLoadBalancer params) (\<lambda>s.
     let name = cli_Name params;
         (i, s) = nextID ''lb'' s;
         arn = lb_arn name i;
         lb = \<lparr>lb_LoadBalancerArn = arn, lb_LoadBalancerName = name,
               lb_DNSName = name @ ''-'' @ i @ ''.elb.amazonaws.com'', lb_Type = cli_Type params,
               lb_Scheme = cli_Scheme params, lb_State = ''active'', lb_VpcId = None\<rparr>
     in okay [lb] (s\<lparr>fs_LoadBalancers := AList.update arn lb (fs_LoadBalancers s)\<rparr>))"

fun pick_arns :: "string \<Rightarrow> 'v gomap \<Rightarrow> string list \<Rightarrow> error + 'v list" where
  "pick_arns code m [] = Inr []"
| "pick_arns code m (arn # arns) = (case map_of m arn of
      None \<Rightarrow> Inl (code @ '': '' @ arn)
    | Some v \<Rightarrow> (case pick_arns code m arns of Inl e \<Rightarrow> Inl e | Inr vs \<Rightarrow> Inr (v # vs)))"

fun pick_names :: "LoadBalancer list \<Rightarrow> string list \<Rightarrow> error + LoadBalancer list" where
  "pick_names lbs [] = Inr []"
| "pick_names lbs (name # names) =
     (let found = filter (\<lambda>lb. lb_LoadBalancerName lb = name) lbs in
      if found = [] then Inl (''LoadBalancerNotFound: '' @ name)
      else (case pick_names lbs names of Inl e \<Rightarrow> Inl e | Inr out \<Rightarrow> Inr (found @ out)))"

definition fDescribeLoadBalancers :: "DescribeLoadBalancersInput \<Rightarrow> ('z Store_scheme, LoadBalancer list) io" where
  "fDescribeLoadBalancers params = api ''DescribeLoadBalancers'' (I_DescribeLoadBalancers params) (\<lambda>s.
     if dli_LoadBalancerArns params \<noteq> []
     then (pick_arns ''LoadBalancerNotFound'' (fs_LoadBalancers s) (dli_LoadBalancerArns params), s)
     else if dli_Names params \<noteq> []
     then (pick_names (vals (fs_LoadBalancers s)) (dli_Names params), s)
     else okay (vals (fs_LoadBalancers s)) s)"

definition fDeleteLoadBalancer :: "string \<Rightarrow> ('z Store_scheme, unit) io" where
  "fDeleteLoadBalancer arn = api ''DeleteLoadBalancer'' (I_DeleteLoadBalancer arn) (\<lambda>s.
     if \<not> has_key (fs_LoadBalancers s) arn then (Inl (''LoadBalancerNotFound: '' @ arn), s)
     else okay () (s\<lparr>fs_LoadBalancers := AList.delete arn (fs_LoadBalancers s)\<rparr>))"

section \<open>Target groups\<close>

definition tg_arn :: "string \<Rightarrow> string \<Rightarrow> string" where
  "tg_arn name i = elbv2ARNPrefix @ '':targetgroup/'' @ name @ ''/'' @ i"

definition fCreateTargetGroup :: "CreateTargetGroupInput \<Rightarrow> ('z Store_scheme, TargetGroup list) io" where
  "fCreateTargetGroup params = api ''CreateTargetGroup'' (I_CreateTargetGroup params) (\<lambda>s.
     let name = cti_Name params;
         (i, s) = nextID ''tg'' s;
         arn = tg_arn name i;
         tg = \<lparr>tg_TargetGroupArn = arn, tg_TargetGroupName = name, tg_VpcId = cti_VpcId params,
               tg_Port = cti_Port params, tg_Protocol = cti_Protocol params, tg_LoadBalancerArns = []\<rparr>
     in okay [tg] (s\<lparr>fs_TargetGroups := AList.update arn tg (fs_TargetGroups s)\<rparr>))"

definition fDescribeTargetGroups :: "DescribeTargetGroupsInput \<Rightarrow> ('z Store_scheme, TargetGroup list) io" where
  "fDescribeTargetGroups params = api ''DescribeTargetGroups'' (I_DescribeTargetGroups params) (\<lambda>s.
     if dti_TargetGroupArns params \<noteq> []
     then (pick_arns ''TargetGroupNotFound'' (fs_TargetGroups s) (dti_TargetGroupArns params), s)
     else (case dti_LoadBalancerArn params of
         Some lbArn \<Rightarrow> okay (filter (\<lambda>tg. lbArn \<in> set (tg_LoadBalancerArns tg)) (vals (fs_TargetGroups s))) s
       | None \<Rightarrow> okay (vals (fs_TargetGroups s)) s))"

definition fDescribeTargetHealth :: "string \<Rightarrow> ('z Store_scheme, TargetHealthDescription list) io" where
  "fDescribeTargetHealth arn = api ''DescribeTargetHealth'' (I_DescribeTargetHealth arn) (\<lambda>s.
     if \<not> has_key (fs_TargetGroups s) arn then (Inl (''TargetGroupNotFound: '' @ arn), s)
     else okay (map (\<lambda>t. (Some t, ''healthy'')) (get_list (fs_RegisteredTargets s) arn)) s)"

definition fDeleteTargetGroup :: "string \<Rightarrow> ('z Store_scheme, unit) io" where
  "fDeleteTargetGroup arn = api ''DeleteTargetGroup'' (I_DeleteTargetGroup arn) (\<lambda>s.
     if \<not> has_key (fs_TargetGroups s) arn then (Inl (''TargetGroupNotFound: '' @ arn), s)
     else okay () (s\<lparr>fs_TargetGroups := AList.delete arn (fs_TargetGroups s),
                     fs_RegisteredTargets := AList.delete arn (fs_RegisteredTargets s)\<rparr>))"

definition fRegisterTargets :: "string \<Rightarrow> TargetDescription list \<Rightarrow> ('z Store_scheme, unit) io" where
  "fRegisterTargets arn targets = api ''RegisterTargets'' (I_RegisterTargets arn targets) (\<lambda>s.
     okay () (s\<lparr>fs_RegisteredTargets := AList.update arn
       (get_list (fs_RegisteredTargets s) arn @ targets) (fs_RegisteredTargets s)\<rparr>))"

definition fDeregisterTargets :: "string \<Rightarrow> TargetDescription list \<Rightarrow> ('z Store_scheme, unit) io" where
  "fDeregisterTargets arn targets = api ''DeregisterTargets'' (I_DeregisterTargets arn targets) (\<lambda>s.
     let kept = filter (\<lambda>t. td_Id t \<notin> td_Id ` set targets) (get_list (fs_RegisteredTargets s) arn)
     in okay () (s\<lparr>fs_RegisteredTargets := AList.update arn kept (fs_RegisteredTargets s)\<rparr>))"

section \<open>Listeners\<close>

definition listener_arn :: "string \<Rightarrow> string" where
  "listener_arn i = elbv2ARNPrefix @ '':listener/net/'' @ i"

text \<open>The target groups of one action, its own first.\<close>

definition action_groups :: "ListenerAction \<Rightarrow> string list" where
  "action_groups a = (case la_TargetGroupArn a of Some t \<Rightarrow> [t] | None \<Rightarrow> [])
     @ (case la_ForwardConfig a of Some ts \<Rightarrow> ts | None \<Rightarrow> [])"

definition attach_group :: "string \<Rightarrow> TargetGroup gomap \<Rightarrow> string \<Rightarrow> TargetGroup gomap" where
  "attach_group lbArn m tgArn = (case map_of m tgArn of
       None \<Rightarrow> m
     | Some tg \<Rightarrow> if lbArn \<in> set (tg_LoadBalancerArns tg) then m
         else AList.update tgArn (tg\<lparr>tg_LoadBalancerArns := tg_LoadBalancerArns tg @ [lbArn]\<rparr>) m)"

definition fCreateListener :: "CreateListenerInput \<Rightarrow> ('z Store_scheme, Listener list) io" where
  "fCreateListener params = api ''CreateListener'' (I_CreateListener params) (\<lambda>s.
     let (i, s) = nextID ''listener'' s;
         arn = listener_arn i;
         l = \<lparr>ls_ListenerArn = arn, ls_LoadBalancerArn = cls_LoadBalancerArn params,
              ls_Port = cls_Port params, ls_Protocol = cls_Protocol params\<rparr>
     in okay [l] (s\<lparr>fs_Listeners := AList.update arn l (fs_Listeners s),
          fs_TargetGroups := foldl (attach_group (cls_LoadBalancerArn params)) (fs_TargetGroups s)
            (concat (map action_groups (cls_DefaultActions params)))\<rparr>))"

definition fDescribeListeners :: "string \<Rightarrow> ('z Store_scheme, Listener list) io" where
  "fDescribeListeners lbArn = api ''DescribeListeners'' (I_DescribeListeners lbArn) (\<lambda>s.
     okay (filter (\<lambda>l. lbArn = '''' \<or> ls_LoadBalancerArn l = lbArn) (vals (fs_Listeners s))) s)"

definition fDeleteListener :: "string \<Rightarrow> ('z Store_scheme, unit) io" where
  "fDeleteListener arn = api ''DeleteListener'' (I_DeleteListener arn) (\<lambda>s.
     if \<not> has_key (fs_Listeners s) arn then (Inl (''ListenerNotFound: '' @ arn), s)
     else okay () (s\<lparr>fs_Listeners := AList.delete arn (fs_Listeners s)\<rparr>))"

definition fAddTags :: "string list \<Rightarrow> tag list \<Rightarrow> ('z Store_scheme, unit) io" where
  "fAddTags arns tags = api ''AddTags'' (I_AddTags arns tags) (okay ())"

definition FakeELBv2 :: "'z Store_scheme elbv2_client" where
  "FakeELBv2 = \<lparr>elb_CreateLoadBalancer = fCreateLoadBalancer,
     elb_DescribeLoadBalancers = fDescribeLoadBalancers,
     elb_DeleteLoadBalancer = fDeleteLoadBalancer, elb_CreateTargetGroup = fCreateTargetGroup,
     elb_DescribeTargetGroups = fDescribeTargetGroups,
     elb_DescribeTargetHealth = fDescribeTargetHealth, elb_DeleteTargetGroup = fDeleteTargetGroup,
     elb_RegisterTargets = fRegisterTargets, elb_DeregisterTargets = fDeregisterTargets,
     elb_CreateListener = fCreateListener, elb_DescribeListeners = fDescribeListeners,
     elb_DeleteListener = fDeleteListener, elb_AddTags = fAddTags\<rparr>"

section \<open>Parameters\<close>

definition fGetParameter :: "string \<Rightarrow> ('z Store_scheme, string \<times> string option) io" where
  "fGetParameter name = api ''GetParameter'' (I_GetParameter name) (\<lambda>s.
     okay (name, Some (lookup_or defaultAMI (fs_Parameters s) name)) s)"

definition FakeSSM :: "'z Store_scheme ssm_client" where
  "FakeSSM = \<lparr>ssm_GetParameter = fGetParameter\<rparr>"

end
