(* ===== verification/Fake_World.thy ===== *)
theory Fake_World
  imports Provider_State Fake_ELB
begin

text \<open>
  The world in which the provider runs against the fake account: the store with a clock and a
  file system around it. It gives the parameters of the model concrete values, for the
  interpretations and witnesses of the development. The two waiters look at the fake's instances
  once: an instance of the fake is running from its creation and terminated at once.
\<close>

record fake_world = Store +
  fw_clock :: nat
  fw_files :: "Environment gomap"

definition fake_sleep :: "nat \<Rightarrow> fake_world \<Rightarrow> fake_world" where
  "fake_sleep n w = w\<lparr>fw_clock := fw_clock w + n\<rparr>"

definition instances_in :: "string \<Rightarrow> string list \<Rightarrow> nat \<Rightarrow> (fake_world, unit) io" where
  "instances_in state ids timeout =
     andthen (fDescribeInstances ids []) (\<lambda>rs.
     if \<forall>inst \<in> set (concat rs). map_option is_Name (ei_State inst) = Some state then ret ()
     else fail ''exceeded max wait time'')"

definition fake_platform :: "(fake_world, Environment) platform" where
  "fake_platform = \<lparr>
     pl_ReadFile = (\<lambda>path w. (case map_of (fw_files w) path of
        Some e \<Rightarrow> Inr e | None \<Rightarrow> Inl (''open '' @ path @ '': no such file or directory''), w)),
     pl_MkdirAll = (\<lambda>path mode. ret ()),
     pl_WriteFile = (\<lambda>path data mode w. (Inr (), w\<lparr>fw_files := AList.update path data (fw_files w)\<rparr>)),
     pl_Chmod = (\<lambda>path mode. ret ()),
     pl_Marshal = Inr, pl_Unmarshal = Inr, pl_Now = fw_clock,
     pl_HttpGet = (\<lambda>url timeout. ret (200, ''198.51.100.7'')),
     pl_Schedule = (\<lambda>n. [0..<n]),
     pl_Getenv = (\<lambda>name. ''''),
     pl_WaitRunning = instances_in ''running'', pl_WaitTerminated = instances_in ''terminated'', pl_Pages = 8\<rparr>"

definition fake_provider :: "Environment \<Rightarrow> (fake_world, Environment) Provider" where
  "fake_provider env = New fake_platform fake_sleep FakeEC2 FakeSSM FakeELBv2 env ''cache.yaml''"

definition fake_start :: fake_world where
  "fake_start = Store.extend newStore (fake_world.fields 0 [])"

lemma fake_provider_simps [simp]:
  "p_ec2 (fake_provider env) = FakeEC2" "p_ssm (fake_provider env) = FakeSSM"
  "p_elbv2 (fake_provider env) = FakeELBv2" "p_cacheFile (fake_provider env) = ''cache.yaml''"
  "p_sleep (fake_provider env) = fake_sleep" "p_platform (fake_provider env) = fake_platform"
  by (simp_all add: fake_provider_def New_def)

end
