(* ===== verification/Fake_Contract.thy ===== *)
theory Fake_Contract
  imports Contract_Delete Fake_World
begin

text \<open>
  The repository's fake account keeps the contract, as long as no injected error carries one of
  the codes by which the provider recognises a missing resource.
\<close>

section \<open>The resources of the store\<close>

fun ids_of :: "kind \<Rightarrow> 'z Store_scheme \<Rightarrow> string set" where
  "ids_of K_vpc s = keys (fs_Vpcs s)"
| "ids_of K_subnet s = keys (fs_Subnets s)"
| "ids_of K_igw s = keys (fs_InternetGateways s)"
| "ids_of K_rtb s = keys (fs_RouteTables s)"
| "ids_of K_sg s = keys (fs_SecurityGroups s)"
| "ids_of K_instance s = {i. \<exists>inst. map_of (fs_Instances s) i = Some inst \<and> is_live inst}"
| "ids_of K_nat s = keys (fs_NatGateways s)"
| "ids_of K_eip s = keys (fs_Addresses s)"
| "ids_of K_eni s = keys (fs_NetworkInterfaces s)"
| "ids_of K_lb s = keys (fs_LoadBalancers s)"
| "ids_of K_tg s = keys (fs_TargetGroups s)"
| "ids_of K_listener s = keys (fs_Listeners s)"

definition fake_live :: "'z Store_scheme \<Rightarrow> resource set" where
  "fake_live s = {(k, i). i \<in> ids_of k s}"

lemma fake_live_iff: "(k, i) \<in> fake_live s \<longleftrightarrow> i \<in> ids_of k s"
  by (simp add: fake_live_def)

lemma fake_live_same: "(\<And>k. ids_of k s' = ids_of k s) \<Longrightarrow> fake_live s' = fake_live s"
  by (simp add: fake_live_def)

lemma fake_live_less: "(\<And>k. ids_of k s' = (if k = k0 then ids_of k s - {i} else ids_of k s)) \<Longrightarrow>
    fake_live s' = fake_live s - {(k0, i)}"
  by (auto simp: fake_live_def split: if_splits)

definition honest :: "error \<Rightarrow> bool" where
  "honest e \<longleftrightarrow> \<not> contains e ''NotFound'' \<and> \<not> contains e ''NotAttached''"

definition fake_ok :: "'z Store_scheme \<Rightarrow> bool" where
  "fake_ok s \<longleftrightarrow> (\<forall>m. \<forall>e \<in> set (get_list (fs_failures s) m). honest e)
     \<and> (\<forall>rt \<in> snd ` set (fs_RouteTables s). \<not> has_main rt)"

section \<open>The prologue of an operation\<close>

lemma contains_trans: "contains s t \<Longrightarrow> contains t u \<Longrightarrow> contains s u"
  unfolding contains_iff by (metis append.assoc)

lemma not_found_codes:
  "contains ''InvalidVpcID.NotFound'' ''NotFound''" "contains ''InvalidSubnetID.NotFound'' ''NotFound''"
  "contains ''InvalidGroup.NotFound'' ''NotFound''" "contains ''InvalidRouteTableID.NotFound'' ''NotFound''"
  "contains ''InvalidInternetGatewayID.NotFound'' ''NotFound''" "contains ''InvalidAllocationID.NotFound'' ''NotFound''"
  "contains ''InvalidInstanceID.NotFound'' ''NotFound''" "contains ''NatGatewayNotFound'' ''NotFound''"
  "contains ''ListenerNotFound'' ''NotFound''" "contains ''TargetGroupNotFound'' ''NotFound''"
  "contains ''LoadBalancerNotFound'' ''NotFound''"
  by code_simp+

lemma honest_code: "honest e \<Longrightarrow> contains code ''NotFound'' \<Longrightarrow> \<not> contains e code"
  unfolding honest_def using contains_trans by blast

lemma get_list_update: "get_list (AList.update k v m) k' = (if k' = k then v else get_list m k')"
  by (simp add: lookup_or_def)

lemma record_call_quiet [simp]:
  "fake_live (record_call m i s) = fake_live s" "fake_ok (record_call m i s) = fake_ok s"
  by (rule fake_live_same, case_tac k; simp add: record_call_def)
    (simp add: record_call_def fake_ok_def)

lemma failure_quiet:
  assumes "failure m s = (r, s')" "fake_ok s"
  shows "fake_live s' = fake_live s \<and> fake_ok s' \<and> (\<forall>e. r = Some e \<longrightarrow> honest e)"
proof (cases "get_list (fs_failures s) m")
  case Nil
  then show ?thesis using assms by (simp add: failure_def)
next
  case (Cons e q)
  then have s': "s' = s\<lparr>fs_failures := AList.update m q (fs_failures s)\<rparr>" and r: "r = Some e"
    using assms by (auto simp: failure_def)
  have "honest e" and q: "\<forall>e \<in> set q. honest e"
    using assms(2) Cons unfolding fake_ok_def by (metis list.set_intros)+
  moreover have "fake_ok s'"
    using assms(2) q unfolding s' fake_ok_def by (simp add: get_list_update)
  moreover have "fake_live s' = fake_live s"
    unfolding s' by (rule fake_live_same, case_tac k; simp)
  ultimately show ?thesis by (simp add: r)
qed

lemma api_cases:
  assumes "api m i body s = (res, s')" "fake_ok s"
  obtains (injected) e where "res = Inl e" "honest e" "fake_live s' = fake_live s" "fake_ok s'"
    | (body) s1 where "body s1 = (res, s')" "fake_live s1 = fake_live s" "fake_ok s1"
proof -
  obtain f s1 where f: "failure m (record_call m i s) = (f, s1)" by (cases "failure m (record_call m i s)") auto
  from failure_quiet [OF this] assms(2)
  have s1: "fake_live s1 = fake_live s" "fake_ok s1" "\<And>e. f = Some e \<Longrightarrow> honest e" by simp_all
  show ?thesis
  proof (cases f)
    case None
    then show ?thesis using assms(1) f s1 body by (simp add: api_def)
  next
    case (Some e)
    then show ?thesis using assms(1) f s1 injected by (auto simp: api_def)
  qed
qed

lemma api_sheds:
  assumes "\<And>s. fake_ok s \<Longrightarrow> sheds fake_ok fake_live R s (snd (body s))"
  shows "pres (sheds fake_ok fake_live R) (api m i body)"
proof (rule presI)
  fix s
  obtain res s' where run: "api m i body s = (res, s')" by (cases "api m i body s") auto
  show "sheds fake_ok fake_live R s (snd (api m i body s))"
  proof (cases "fake_ok s")
    case False
    then show ?thesis by (simp add: sheds_def)
  next
    case True
    with run show ?thesis
    proof (cases rule: api_cases)
      case (injected e)
      then show ?thesis using run by (simp add: sheds_def)
    next
      case (body s1)
      with assms [of s1] show ?thesis using run by (simp add: sheds_def)
    qed
  qed
qed

lemma api_quiet: "(\<And>s. snd (body s) = s) \<Longrightarrow> pres (sheds fake_ok fake_live R) (api m i body)"
  by (rule api_sheds) (simp add: sheds_def)

lemma api_removes:
  assumes "\<And>s res s'. fake_ok s \<Longrightarrow> body s = (res, s') \<Longrightarrow>
      sheds fake_ok fake_live {r} s s' \<and> r \<notin> fake_live s'"
    and "contains code ''NotFound''"
  shows "removes fake_ok fake_live r code (api m i body)"
  unfolding removes_def
proof (intro conjI allI impI)
  show "pres (sheds fake_ok fake_live (insert r enis)) (api m i body)"
  proof (rule api_sheds)
    fix s :: "'a Store_scheme"
    assume "fake_ok s"
    with assms(1) [of s "fst (body s)" "snd (body s)"]
    show "sheds fake_ok fake_live (insert r enis) s (snd (body s))"
      by (auto intro: sheds_mono)
  qed
next
  fix s :: "'a Store_scheme" and res s'
  assume ok: "fake_ok s" and run: "api m i body s = (res, s')"
    and "case res of Inl e \<Rightarrow> contains e code | Inr _ \<Rightarrow> True"
  from run ok show "r \<notin> fake_live s'"
  proof (cases rule: api_cases)
    case (injected e)
    then show ?thesis
      using honest_code [OF _ assms(2)] \<open>case res of Inl e \<Rightarrow> contains e code | Inr _ \<Rightarrow> True\<close> by auto
  next
    case (body s1)
    then show ?thesis using assms(1) by blast
  qed
qed

section \<open>Operations that only read\<close>

lemma quiet_ops:
  "pres (sheds fake_ok fake_live R) (fDescribeVpcs ids)"
  "pres (sheds fake_ok fake_live R) (fDescribeSubnets ids filters)"
  "pres (sheds fake_ok fake_live R) (fDescribeSecurityGroups ids filters)"
  "pres (sheds fake_ok fake_live R) (fDescribeRouteTables ids filters)"
  "pres (sheds fake_ok fake_live R) (fDescribeInstances ids filters)"
  "pres (sheds fake_ok fake_live R) (fDescribeLoadBalancers q)"
  "pres (sheds fake_ok fake_live R) (fDescribeTargetGroups tq)"
  "pres (sheds fake_ok fake_live R) (fDescribeTargetHealth i)"
  "pres (sheds fake_ok fake_live R) (fDescribeListeners i)"
  unfolding fDescribeVpcs_def fDescribeSubnets_def fDescribeSecurityGroups_def fDescribeRouteTables_def
    fDescribeInstances_def fDescribeLoadBalancers_def fDescribeTargetGroups_def fDescribeTargetHealth_def
    fDescribeListeners_def
  by (rule api_quiet; simp add: okay_def split: sum.split option.split)+

section \<open>Updates\<close>

lemma set_delete: "set (AList.delete k m) \<subseteq> set m"
  by (auto simp: AList.delete_eq)

lemma vals_update: "snd ` set (AList.update k v m) \<subseteq> insert v (snd ` set m)"
  by (induction m) auto

lemma live_diff:
  "fake_live (s\<lparr>fs_Vpcs := AList.delete i (fs_Vpcs s)\<rparr>) = fake_live s - {(K_vpc, i)}"
  "fake_live (s\<lparr>fs_Subnets := AList.delete i (fs_Subnets s)\<rparr>) = fake_live s - {(K_subnet, i)}"
  "fake_live (s\<lparr>fs_InternetGateways := AList.delete i (fs_InternetGateways s)\<rparr>) = fake_live s - {(K_igw, i)}"
  "fake_live (s\<lparr>fs_RouteTables := AList.delete i (fs_RouteTables s)\<rparr>) = fake_live s - {(K_rtb, i)}"
  "fake_live (s\<lparr>fs_SecurityGroups := AList.delete i (fs_SecurityGroups s)\<rparr>) = fake_live s - {(K_sg, i)}"
  "fake_live (s\<lparr>fs_Addresses := AList.delete i (fs_Addresses s)\<rparr>) = fake_live s - {(K_eip, i)}"
  "fake_live (s\<lparr>fs_NatGateways := AList.delete i (fs_NatGateways s)\<rparr>) = fake_live s - {(K_nat, i)}"
  "fake_live (s\<lparr>fs_NetworkInterfaces := AList.delete i (fs_NetworkInterfaces s)\<rparr>) = fake_live s - {(K_eni, i)}"
  "fake_live (s\<lparr>fs_LoadBalancers := AList.delete i (fs_LoadBalancers s)\<rparr>) = fake_live s - {(K_lb, i)}"
  "fake_live (s\<lparr>fs_Listeners := AList.delete i (fs_Listeners s)\<rparr>) = fake_live s - {(K_listener, i)}"
  "fake_live (s\<lparr>fs_TargetGroups := AList.delete i (fs_TargetGroups s), fs_RegisteredTargets := m\<rparr>) =
     fake_live s - {(K_tg, i)}"
  by (rule fake_live_less, case_tac k; simp)+

lemma absent_live:
  "\<not> has_key (fs_Vpcs s) i \<Longrightarrow> (K_vpc, i) \<notin> fake_live s"
  "\<not> has_key (fs_Subnets s) i \<Longrightarrow> (K_subnet, i) \<notin> fake_live s"
  "\<not> has_key (fs_InternetGateways s) i \<Longrightarrow> (K_igw, i) \<notin> fake_live s"
  "\<not> has_key (fs_RouteTables s) i \<Longrightarrow> (K_rtb, i) \<notin> fake_live s"
  "\<not> has_key (fs_SecurityGroups s) i \<Longrightarrow> (K_sg, i) \<notin> fake_live s"
  "\<not> has_key (fs_Addresses s) i \<Longrightarrow> (K_eip, i) \<notin> fake_live s"
  "\<not> has_key (fs_LoadBalancers s) i \<Longrightarrow> (K_lb, i) \<notin> fake_live s"
  "\<not> has_key (fs_TargetGroups s) i \<Longrightarrow> (K_tg, i) \<notin> fake_live s"
  "\<not> has_key (fs_Listeners s) i \<Longrightarrow> (K_listener, i) \<notin> fake_live s"
  unfolding has_key_iff fake_live_iff by simp_all

lemma ok_fields:
  "fake_ok (s\<lparr>fs_Vpcs := a1\<rparr>) = fake_ok s" "fake_ok (s\<lparr>fs_Subnets := a2\<rparr>) = fake_ok s"
  "fake_ok (s\<lparr>fs_InternetGateways := a3\<rparr>) = fake_ok s" "fake_ok (s\<lparr>fs_SecurityGroups := a4\<rparr>) = fake_ok s"
  "fake_ok (s\<lparr>fs_Addresses := a5\<rparr>) = fake_ok s" "fake_ok (s\<lparr>fs_NatGateways := a6\<rparr>) = fake_ok s"
  "fake_ok (s\<lparr>fs_NetworkInterfaces := a7\<rparr>) = fake_ok s" "fake_ok (s\<lparr>fs_LoadBalancers := a8\<rparr>) = fake_ok s"
  "fake_ok (s\<lparr>fs_TargetGroups := a9\<rparr>) = fake_ok s" "fake_ok (s\<lparr>fs_Listeners := a10\<rparr>) = fake_ok s"
  "fake_ok (s\<lparr>fs_RegisteredTargets := a11\<rparr>) = fake_ok s" "fake_ok (s\<lparr>fs_Instances := a12\<rparr>) = fake_ok s"
  "fake_ok (s\<lparr>fs_natDeleting := a13\<rparr>) = fake_ok s" "fake_ok (s\<lparr>fs_natPending := a14\<rparr>) = fake_ok s"
  "fake_ok (s\<lparr>fs_eniDraining := a15\<rparr>) = fake_ok s" "fake_ok (s\<lparr>fs_natDeleteScript := a16\<rparr>) = fake_ok s"
  unfolding fake_ok_def by simp_all

lemma ok_delete_rtb: "fake_ok s \<Longrightarrow> fake_ok (s\<lparr>fs_RouteTables := AList.delete i (fs_RouteTables s)\<rparr>)"
  unfolding fake_ok_def using set_delete [of i "fs_RouteTables s"] by auto

lemma delete_ops:
  "removes fake_ok fake_live (K_vpc, i) ''InvalidVpcID.NotFound'' (fDeleteVpc i)"
  "removes fake_ok fake_live (K_subnet, i) ''InvalidSubnetID.NotFound'' (fDeleteSubnet i)"
  "removes fake_ok fake_live (K_sg, i) ''InvalidGroup.NotFound'' (fDeleteSecurityGroup i)"
  "removes fake_ok fake_live (K_rtb, i) ''InvalidRouteTableID.NotFound'' (fDeleteRouteTable i)"
  "removes fake_ok fake_live (K_igw, i) ''InvalidInternetGatewayID.NotFound'' (fDeleteInternetGateway i)"
  "removes fake_ok fake_live (K_eip, i) ''InvalidAllocationID.NotFound'' (fReleaseAddress i)"
  "removes fake_ok fake_live (K_listener, i) ''ListenerNotFound'' (fDeleteListener i)"
  "removes fake_ok fake_live (K_tg, i) ''TargetGroupNotFound'' (fDeleteTargetGroup i)"
  "removes fake_ok fake_live (K_lb, i) ''LoadBalancerNotFound'' (fDeleteLoadBalancer i)"
  unfolding fDeleteVpc_def fDeleteSubnet_def fDeleteSecurityGroup_def fDeleteRouteTable_def
    fDeleteInternetGateway_def fReleaseAddress_def fDeleteListener_def fDeleteTargetGroup_def
    fDeleteLoadBalancer_def
  by (rule api_removes;
      auto simp: okay_def sheds_def live_diff absent_live ok_fields ok_delete_rtb not_found_codes
        split: if_splits)+

section \<open>Operations that take their time\<close>

lemmas sheds_refl = shed.R_refl and sheds_trans = shed.R_trans

lemma sheds_less: "fake_live s' = fake_live s - {r} \<Longrightarrow> fake_ok s' = fake_ok s \<Longrightarrow> r \<in> R \<Longrightarrow>
    sheds fake_ok fake_live R s s'"
  by (auto simp: sheds_def)

lemma sheds_same: "fake_live s' = fake_live s \<Longrightarrow> fake_ok s' = fake_ok s \<Longrightarrow> sheds fake_ok fake_live R s s'"
  by (auto simp: sheds_def)

lemma live_same:
  "fake_live (s\<lparr>fs_eniDraining := m1\<rparr>) = fake_live s" "fake_live (s\<lparr>fs_natDeleting := m2\<rparr>) = fake_live s"
  "fake_live (s\<lparr>fs_natPending := m3\<rparr>) = fake_live s" "fake_live (s\<lparr>fs_natDeleteScript := m4\<rparr>) = fake_live s"
  by (rule fake_live_same, case_tac k; simp)+

lemma live_update:
  "map_of (fs_NatGateways s) i = Some v \<Longrightarrow> fake_live (s\<lparr>fs_NatGateways := AList.update i w1 (fs_NatGateways s)\<rparr>) = fake_live s"
  "map_of (fs_InternetGateways s) i = Some u \<Longrightarrow>
     fake_live (s\<lparr>fs_InternetGateways := AList.update i w2 (fs_InternetGateways s)\<rparr>) = fake_live s"
  "map_of (fs_SecurityGroups s) i = Some g \<Longrightarrow>
     fake_live (s\<lparr>fs_SecurityGroups := AList.update i w3 (fs_SecurityGroups s)\<rparr>) = fake_live s"
  by (rule fake_live_same, case_tac k; auto dest: map_of_Some_keys)+

lemma advance_eni: "sheds fake_ok fake_live enis s (advanceENIDrain i s)"
proof (cases "map_of (fs_eniDraining s) i")
  case None
  then show ?thesis by (simp add: advanceENIDrain_def sheds_refl)
next
  case (Some rem)
  let ?s1 = "s\<lparr>fs_NetworkInterfaces := AList.delete i (fs_NetworkInterfaces s)\<rparr>"
  have "sheds fake_ok fake_live enis s (?s1\<lparr>fs_eniDraining := m\<rparr>)" for m
    by (rule sheds_less [of _ _ "(K_eni, i)"]) (simp_all only: live_same live_diff ok_fields, simp)
  moreover have "sheds fake_ok fake_live enis s (s\<lparr>fs_eniDraining := m\<rparr>)" for m
    by (rule sheds_same) (simp_all only: live_same ok_fields)
  ultimately show ?thesis by (simp add: advanceENIDrain_def Some)
qed

lemma observe_enis_sheds: "sheds fake_ok fake_live enis s (snd (observe_enis filters m s))"
proof (induction filters m s rule: observe_enis.induct)
  case (2 filters i ni m s)
  then show ?case
    using sheds_trans [OF advance_eni] by (auto simp: case_prod_beta Let_def)
qed (simp add: sheds_refl)

lemma advance_nat:
  assumes "map_of (fs_NatGateways s) i = Some ngw"
  shows "sheds fake_ok fake_live {(K_nat, i)} s (snd (advanceNatState i ngw s))"
proof -
  let ?s1 = "s\<lparr>fs_NatGateways := AList.delete i (fs_NatGateways s)\<rparr>"
  have "sheds fake_ok fake_live {(K_nat, i)} s (?s1\<lparr>fs_natDeleting := m\<rparr>)" for m
    by (rule sheds_less [of _ _ "(K_nat, i)"]) (simp_all only: live_same live_diff ok_fields, simp)
  moreover have "sheds fake_ok fake_live {(K_nat, i)} s (s\<lparr>fs_natDeleting := m\<rparr>)" for m
    by (rule sheds_same) (simp_all only: live_same ok_fields)
  moreover have "sheds fake_ok fake_live {(K_nat, i)} s (s\<lparr>fs_natPending := m\<rparr>)" for m
    by (rule sheds_same) (simp_all only: live_same ok_fields)
  moreover have "sheds fake_ok fake_live {(K_nat, i)} s
      (s\<lparr>fs_natPending := m, fs_NatGateways := AList.update i v (fs_NatGateways s)\<rparr>)" for m v
  proof (rule sheds_same)
    show "fake_live (s\<lparr>fs_natPending := m, fs_NatGateways := AList.update i v (fs_NatGateways s)\<rparr>) = fake_live s"
      using live_update(1) [of "s\<lparr>fs_natPending := m\<rparr>" i ngw v] assms by (simp add: live_same)
  qed (simp only: ok_fields)
  ultimately show ?thesis
    by (simp add: advanceNatState_def sheds_refl Let_def split: option.split)
qed

lemma observe_nats_sheds: "sheds fake_ok fake_live ({K_nat} \<times> set ids) s (snd (observe_nats ids s))"
proof (induction ids s rule: observe_nats.induct)
  case (2 i ids s)
  show ?case
  proof (cases "map_of (fs_NatGateways s) i")
    case None
    with 2(1) show ?thesis by (auto intro: sheds_mono)
  next
    case (Some ngw)
    have "sheds fake_ok fake_live ({K_nat} \<times> set (i # ids)) s (snd (advanceNatState i ngw s))"
      by (rule sheds_mono [OF advance_nat [OF Some]]) simp
    moreover have "sheds fake_ok fake_live ({K_nat} \<times> set (i # ids)) (snd (advanceNatState i ngw s))
        (snd (observe_nats ids (snd (advanceNatState i ngw s))))"
      using 2(2) [OF Some, of "advanceNatState i ngw s"] by (auto intro: sheds_mono simp: prod_eq_iff)
    ultimately show ?thesis
      using sheds_trans Some by (fastforce simp: case_prod_beta Let_def)
  qed
qed (simp add: sheds_refl)

lemma keys_foldl_delete: "keys (foldl (\<lambda>m x. AList.delete (f x) m) m xs) = keys m - f ` set xs"
  by (induction xs arbitrary: m) (simp, simp only: foldl.simps keys_delete list.set image_insert, blast)

lemma terminate_one_sheds:
  assumes "map_of (fs_Instances s) i = Some inst"
  shows "sheds fake_ok fake_live (insert (K_instance, i) enis) s (terminate_one i inst s)"
proof -
  let ?m = "foldl (\<lambda>m ni. AList.delete (nif_NetworkInterfaceId ni) m) (fs_NetworkInterfaces s) (ei_NetworkInterfaces inst)"
  have enis: "keys ?m \<subseteq> keys (fs_NetworkInterfaces s)" unfolding keys_foldl_delete by blast
  have "ids_of k (terminate_one i inst s) \<subseteq> ids_of k s" for k
    using enis assms by (cases k) (auto simp: terminate_one_def is_live_def)
  moreover have "j \<in> ids_of k (terminate_one i inst s)"
    if "j \<in> ids_of k s" "(k, j) \<notin> insert (K_instance, i) enis" for k j
    using that by (cases k) (auto simp: terminate_one_def)
  moreover have "fake_ok (terminate_one i inst s) = fake_ok s"
    unfolding terminate_one_def ok_fields by (rule refl)
  ultimately show ?thesis by (auto simp: sheds_def fake_live_def)
qed

lemma terminate_many_sheds:
  "sheds fake_ok fake_live ({K_instance} \<times> set ids \<union> enis) s (snd (terminate_many ids s))"
proof (induction ids s rule: terminate_many.induct)
  case (2 i ids s)
  show ?case
  proof (cases "map_of (fs_Instances s) i")
    case (Some inst)
    have "sheds fake_ok fake_live ({K_instance} \<times> set (i # ids) \<union> enis) s (terminate_one i inst s)"
      by (rule sheds_mono [OF terminate_one_sheds [OF Some]]) auto
    moreover have "sheds fake_ok fake_live ({K_instance} \<times> set (i # ids) \<union> enis) (terminate_one i inst s)
        (snd (terminate_many ids (terminate_one i inst s)))"
      by (rule sheds_mono [OF 2 [OF Some]]) auto
    ultimately show ?thesis using sheds_trans by (fastforce simp: Some)
  qed (simp add: sheds_refl)
qed (simp add: sheds_refl okay_def)

lemma async_ops:
  "pres (sheds fake_ok fake_live enis) (fDescribeNetworkInterfaces ids filters)"
  "pres (sheds fake_ok fake_live (insert (K_nat, i) enis)) (fDescribeNatGateways [i])"
  "pres (sheds fake_ok fake_live ({K_instance} \<times> set ids \<union> enis)) (fTerminateInstances ids)"
proof -
  show "pres (sheds fake_ok fake_live enis) (fDescribeNetworkInterfaces ids filters)"
    unfolding fDescribeNetworkInterfaces_def
    by (rule api_sheds) (simp add: okay_def sheds_refl case_prod_beta Let_def observe_enis_sheds)
  show "pres (sheds fake_ok fake_live (insert (K_nat, i) enis)) (fDescribeNatGateways [i])"
    unfolding fDescribeNatGateways_def
    by (rule api_sheds, simp only: okay_def case_prod_beta Let_def snd_conv,
        rule sheds_mono [OF observe_nats_sheds]) auto
  show "pres (sheds fake_ok fake_live ({K_instance} \<times> set ids \<union> enis)) (fTerminateInstances ids)"
    unfolding fTerminateInstances_def by (rule api_sheds) (rule terminate_many_sheds)
qed

lemma revoke_op: "pres (sheds fake_ok fake_live R) (fRevokeSecurityGroupIngress i perms)"
  unfolding fRevokeSecurityGroupIngress_def
  by (rule api_sheds)
    (simp add: okay_def set_ingress_def sheds_refl sheds_same live_update ok_fields split: option.split)

lemma detach_op: "pres (sheds fake_ok fake_live R) (fDetachInternetGateway i v)"
  unfolding fDetachInternetGateway_def
  by (rule api_sheds) (simp add: okay_def sheds_refl sheds_same live_update ok_fields split: option.split)

lemma deregister_op: "pres (sheds fake_ok fake_live R) (fDeregisterTargets i ts :: ('z Store_scheme, unit) io)"
  unfolding fDeregisterTargets_def
proof (rule api_sheds)
  fix s :: "'z Store_scheme"
  have "fake_live (s\<lparr>fs_RegisteredTargets := m\<rparr>) = fake_live s" for m
    by (rule fake_live_same, case_tac k; simp)
  then show "sheds fake_ok fake_live R s (snd (let kept = filter (\<lambda>t. td_Id t \<notin> td_Id ` set ts)
      (get_list (fs_RegisteredTargets s) i) in okay ()
      (s\<lparr>fs_RegisteredTargets := AList.update i kept (fs_RegisteredTargets s)\<rparr>)))"
    by (simp add: okay_def sheds_same ok_fields Let_def)
qed

lemma delete_nat_op:
  "pres (sheds fake_ok fake_live (insert (K_nat, i) enis)) (fDeleteNatGateway i :: ('z Store_scheme, string) io)"
  unfolding fDeleteNatGateway_def
proof (rule api_sheds)
  fix s :: "'z Store_scheme"
  have del: "sheds fake_ok fake_live (insert (K_nat, i) enis) s
      (s\<lparr>fs_NatGateways := AList.delete i (fs_NatGateways s)\<rparr>)"
    by (rule sheds_less [of _ _ "(K_nat, i)"]) (simp_all only: live_diff ok_fields, simp)
  have mark: "sheds fake_ok fake_live (insert (K_nat, i) enis) s (s\<lparr>fs_NatGateways :=
      AList.update i w (fs_NatGateways s), fs_natDeleting := m, fs_natDeleteScript := None\<rparr>)"
    if "map_of (fs_NatGateways s) i = Some v" for v w m
    by (rule sheds_same) (simp_all only: live_same live_update(1) [OF that] ok_fields)
  show "sheds fake_ok fake_live (insert (K_nat, i) enis) s (snd (case map_of (fs_NatGateways s) i of
      None \<Rightarrow> (Inl (notFound ''NatGatewayNotFound'' i), s)
    | Some ngw \<Rightarrow> (case fs_natDeleteScript s of
          Some polls \<Rightarrow> okay i (s\<lparr>
            fs_NatGateways := AList.update i (ngw\<lparr>ng_State := ''deleting''\<rparr>) (fs_NatGateways s),
            fs_natDeleting := AList.update i polls (fs_natDeleting s), fs_natDeleteScript := None\<rparr>)
        | None \<Rightarrow> okay i (s\<lparr>fs_NatGateways := AList.delete i (fs_NatGateways s)\<rparr>))))"
    using del mark by (simp add: okay_def sheds_refl split: option.split)
qed

section \<open>What describe calls say\<close>

lemma pick_one: "pick code m [i] = (case map_of m i of None \<Rightarrow> Inl (notFound code i) | Some v \<Rightarrow> Inr [v])"
  by (simp split: option.split)

lemma described_instance:
  assumes "fDescribeInstances [i] [] s = (r, s')" "fake_ok s"
    and seen: "case r of Inl e \<Rightarrow> contains e ''InvalidInstanceID.NotFound''
      | Inr ((inst # _) # _) \<Rightarrow> (\<exists>st. ei_State inst = Some st \<and> is_Name st = ''terminated'')
      | Inr _ \<Rightarrow> True"
  shows "(K_instance, i) \<notin> fake_live s'"
  using assms(1,2) unfolding fDescribeInstances_def
proof (cases rule: api_cases)
  case (injected e)
  then show ?thesis using seen honest_code not_found_codes(7) by auto
next
  case (body s1)
  then show ?thesis
    using seen by (auto simp: fake_live_iff pick_one is_live_def okay_def split: option.splits)
qed

lemma described_main:
  assumes "fDescribeRouteTables [i] [] s = (Inr (rt # rts), s')" "fake_ok s"
  shows "\<not> has_main rt"
  using assms unfolding fDescribeRouteTables_def
proof (cases rule: api_cases)
  case (body s1)
  then have "map_of (fs_RouteTables s1) i = Some rt"
    by (auto simp: pick_one split: option.splits)
  then have "rt \<in> snd ` set (fs_RouteTables s1)" by (force dest: map_of_SomeD)
  with body show ?thesis by (auto simp: fake_ok_def)
qed simp

section \<open>The platform\<close>

lemma world_quiet:
  "fake_live (w\<lparr>fw_clock := c\<rparr>) = fake_live w" "fake_live (w\<lparr>fw_files := fs\<rparr>) = fake_live w"
  "fake_ok (w\<lparr>fw_clock := c\<rparr>) = fake_ok w" "fake_ok (w\<lparr>fw_files := fs\<rparr>) = fake_ok w"
  by (rule fake_live_same, case_tac k; simp)+ (simp_all add: fake_ok_def)

lemma platform_quiet:
  "sheds fake_ok fake_live enis w (fake_sleep n w)"
  "pres (sheds fake_ok fake_live enis) (pl_WaitTerminated fake_platform ids n)"
  "pres (sheds fake_ok fake_live enis) (pl_MkdirAll fake_platform path n)"
  "pres (sheds fake_ok fake_live enis) (pl_WriteFile fake_platform path data n)"
  "pres (sheds fake_ok fake_live enis) (pl_Chmod fake_platform path n)"
  "pres (sheds fake_ok fake_live enis) (pl_ReadFile fake_platform path)"
  by (simp_all add: fake_sleep_def sheds_same world_quiet fake_platform_def instances_in_def
      shed.pres_rules quiet_ops presI sheds_refl split: option.split)

lemma fake_schedule: "distinct (pl_Schedule fake_platform n) \<and> set (pl_Schedule fake_platform n) = {..<n}"
  by (auto simp: fake_platform_def)

lemma fake_clients:
  "ec2_DescribeVpcs FakeEC2 = fDescribeVpcs" "ec2_DescribeSubnets FakeEC2 = fDescribeSubnets"
  "ec2_DescribeSecurityGroups FakeEC2 = fDescribeSecurityGroups"
  "ec2_DescribeRouteTables FakeEC2 = fDescribeRouteTables" "ec2_DescribeInstances FakeEC2 = fDescribeInstances"
  "ec2_DescribeNetworkInterfaces FakeEC2 = fDescribeNetworkInterfaces"
  "ec2_RevokeSecurityGroupIngress FakeEC2 = fRevokeSecurityGroupIngress"
  "ec2_DetachInternetGateway FakeEC2 = fDetachInternetGateway"
  "ec2_DescribeNatGateways FakeEC2 = fDescribeNatGateways" "ec2_TerminateInstances FakeEC2 = fTerminateInstances"
  "ec2_DeleteNatGateway FakeEC2 = fDeleteNatGateway" "ec2_DeleteVpc FakeEC2 = fDeleteVpc"
  "ec2_DeleteSubnet FakeEC2 = fDeleteSubnet" "ec2_DeleteSecurityGroup FakeEC2 = fDeleteSecurityGroup"
  "ec2_DeleteRouteTable FakeEC2 = fDeleteRouteTable" "ec2_DeleteInternetGateway FakeEC2 = fDeleteInternetGateway"
  "ec2_ReleaseAddress FakeEC2 = fReleaseAddress" "elb_DescribeLoadBalancers FakeELBv2 = fDescribeLoadBalancers"
  "elb_DescribeTargetGroups FakeELBv2 = fDescribeTargetGroups" "elb_DescribeTargetHealth FakeELBv2 = fDescribeTargetHealth"
  "elb_DescribeListeners FakeELBv2 = fDescribeListeners" "elb_DeregisterTargets FakeELBv2 = fDeregisterTargets"
  "elb_DeleteListener FakeELBv2 = fDeleteListener" "elb_DeleteTargetGroup FakeELBv2 = fDeleteTargetGroup"
  "elb_DeleteLoadBalancer FakeELBv2 = fDeleteLoadBalancer"
  by (simp_all add: FakeEC2_def FakeELBv2_def)

interpretation fake_account: aws_contract "fake_provider env" fake_ok fake_live for env
proof
  fix s s' i r rt rts
  show "fake_ok s \<Longrightarrow> ec2_DescribeInstances (p_ec2 (fake_provider env)) [i] [] s = (r, s') \<Longrightarrow>
      (case r of Inl e \<Rightarrow> contains e ''InvalidInstanceID.NotFound''
       | Inr ((inst # _) # _) \<Rightarrow> (\<exists>st. ei_State inst = Some st \<and> is_Name st = ''terminated'')
       | Inr _ \<Rightarrow> True) \<Longrightarrow> (K_instance, i) \<notin> fake_live s'"
    unfolding fake_provider_simps fake_clients by (rule described_instance)
  show "fake_ok s \<Longrightarrow> ec2_DescribeRouteTables (p_ec2 (fake_provider env)) [i] [] s = (Inr (rt # rts), s') \<Longrightarrow>
      has_main rt \<Longrightarrow> (K_rtb, i) \<notin> fake_live s'"
    unfolding fake_provider_simps fake_clients using described_main by blast
qed (unfold fake_provider_simps fake_clients, (rule quiet_ops async_ops revoke_op detach_op
  deregister_op delete_nat_op delete_ops platform_quiet fake_schedule)+)

end
