(* ===== verification/Status_Props.thy ===== *)
theory Status_Props
  imports Fake_World
begin

text \<open>
  Properties of \<open>pkg/provider/aws/status.go\<close> and of the cache file: what a status says, when it is
  written, and that the resource ids survive the round trip through the file.
\<close>

text \<open>
  the conditions of a status are the four known types in a fixed order, exactly the requested
  one is true, and that one and the terminated one carry the reason and message.
\<close>

theorem buildConditions_one_true:
  "map cd_Type (buildConditions t ty r m) = condition_types
   \<and> (\<forall>c \<in> set (buildConditions t ty r m). (cd_Status c = ''True'') = (cd_Type c = ty)
        \<and> (cd_Status c = ''True'' \<longrightarrow> cd_Reason c = r \<and> cd_Message c = m)
        \<and> (cd_Type c \<noteq> ty \<and> cd_Type c \<noteq> ConditionTerminated \<longrightarrow> cd_Reason c = '''' \<and> cd_Message c = ''''))"
  by (auto simp: buildConditions_def o_def)

theorem buildConditions_one_true_witness:
  "\<exists>c \<in> set (buildConditions 5 ConditionDegraded ''r'' ''m''). cd_Status c = ''True'' \<and> cd_Reason c = ''r''"
proof -
  have "cd_Status (build_condition 5 ConditionDegraded ''r'' ''m'' ConditionDegraded) = ''True''" by simp
  moreover have "build_condition 5 ConditionDegraded ''r'' ''m'' ConditionDegraded
      \<in> set (buildConditions 5 ConditionDegraded ''r'' ''m'')"
    by (simp add: buildConditions_def condition_types_def)
  ultimately show ?thesis
    using buildConditions_one_true [of 5 ConditionDegraded "''r''" "''m''"] by blast
qed

text \<open>
  an update with the conditions and ids that a fresh status was saved with changes nothing,
  whatever the time stamps are, so it does not write the cache file again.
\<close>

theorem status_update_settles:
  assumes "st_Properties (env_Status env) = []"
  shows "updateStatus p (snd (new_status env a (Some (buildConditions t ty r m)))) a
           (Some (buildConditions t' ty r m)) = ret ()"
proof -
  let ?env' = "snd (new_status env a (Some (buildConditions t ty r m)))"
  have "\<not> fst (new_status ?env' a (Some (buildConditions t' ty r m)))"
    using assms cache_properties_settled
    by (auto simp: new_status_def status_properties_def buildConditions_def
        condition_settled [unfolded buildConditions_def])
  then show ?thesis by (simp add: updateStatus_def case_prod_beta)
qed


text \<open>A file system that returns what was written, and a codec that inverts itself.\<close>

definition cache_laws :: "('s, 'f) platform \<Rightarrow> string \<Rightarrow> bool" where
  "cache_laws pl path \<longleftrightarrow>
     (\<forall>env data. pl_Marshal pl env = Inr data \<longrightarrow> pl_Unmarshal pl data = Inr env)
   \<and> (\<forall>data w w' w''. pl_WriteFile pl path data mode_0600 w = (Inr (), w')
        \<longrightarrow> pl_Chmod pl path mode_0600 w' = (Inr (), w'') \<longrightarrow> fst (pl_ReadFile pl path w'') = Inr data)"

lemma saved_cache_is_read:
  assumes "cache_laws (p_platform p) (p_cacheFile p)"
    and "st_Properties (env_Status env) = []"
    and "updateStatus p env a (Some conds) ps = (Inr (), ps')"
  shows "fst (unmarsalCache p ps') = Inr a"
proof -
  let ?env' = "snd (new_status env a (Some conds))"
  have "fst (new_status env a (Some conds))"
    using assms(2) by (simp add: new_status_def Let_def)
  with assms(3) have "on_world (update (p_platform p) ?env' (p_cacheFile p)) ps = (Inr (), ps')"
    by (simp add: updateStatus_def case_prod_beta)
  with assms(1) have "fst (UnmarshalFromFile (p_platform p) (p_cacheFile p) (ps_world ps')) = Inr ?env'"
    by (fastforce simp: on_world_def update_def andthen_def lift_result_def UnmarshalFromFile_def
        cache_laws_def split: prod.splits sum.splits)
  moreover have "st_Properties (env_Status ?env') = cache_properties a"
    using assms(2) by (simp add: new_status_simps status_properties_def)
  ultimately show ?thesis
    by (auto simp: unmarsalCache_def andthen_def on_world_def ret_def read_cache_properties
        split: prod.splits sum.splits)
qed

text \<open>
  C11: what a successful first status update saves, \<open>unmarsalCache\<close> reads back: every resource id
  of the cache survives the round trip through the cache file.
\<close>

theorem cache_file_roundtrip:
  assumes "cache_laws (p_platform p) (p_cacheFile p)"
    and "st_Properties (env_Status env) = []"
    and "updateStatus p env a (Some conds) ps = (Inr (), ps')"
  shows "fst (unmarsalCache p ps') = Inr a"
  using assms by (rule saved_cache_is_read)

section \<open>Instances of the properties\<close>

definition sample_aws :: AWS where
  "sample_aws = zero_AWS\<lparr>aw_Vpcid := ''vpc-1'', aw_Instanceid := ''i-1''\<rparr>"

definition stale_env :: Environment where
  "stale_env = zero_Environment\<lparr>env_Status := zero_EnvironmentStatus\<lparr>
     st_Properties := [\<lparr>pr_Name = ''vpc-id'', pr_Value = ''vpc-0''\<rparr>]\<rparr>\<rparr>"

lemma zero_env_properties: "st_Properties (env_Status zero_Environment) = []"
  by (simp add: zero_Environment_def zero_EnvironmentStatus_def)

theorem status_update_settles_witness:
  "updateStatus (fake_provider zero_Environment)
     (snd (new_status zero_Environment sample_aws (Some (buildConditions 1 ConditionDegraded ''r'' ''m''))))
     sample_aws (Some (buildConditions 2 ConditionDegraded ''r'' ''m'')) = ret ()"
  by (rule status_update_settles [OF zero_env_properties])


lemma fake_cache_laws: "cache_laws fake_platform path"
  by (auto simp: cache_laws_def fake_platform_def ret_def)

theorem cache_file_roundtrip_witness:
  "fst (unmarsalCache (fake_provider zero_Environment)
     (snd (updateStatus (fake_provider zero_Environment) zero_Environment sample_aws
        (Some (getAvailableConditions 3)) \<lparr>ps_Environment = zero_Environment,
          ps_cache = zero_ClusterCache zero_AWS, ps_world = fake_start\<rparr>))) = Inr sample_aws"
proof -
  let ?ps = "\<lparr>ps_Environment = zero_Environment, ps_cache = zero_ClusterCache zero_AWS, ps_world = fake_start\<rparr>"
  let ?r = "updateStatus (fake_provider zero_Environment) zero_Environment sample_aws
      (Some (getAvailableConditions 3)) ?ps"
  have "fst ?r = Inr ()"
    by (simp add: updateStatus_def case_prod_beta on_world_def update_def andthen_def ret_def
        lift_result_def fake_platform_def)
  then have "?r = (Inr (), snd ?r)" by (metis prod.collapse)
  with cache_file_roundtrip [OF _ zero_env_properties this] fake_cache_laws show ?thesis by simp
qed

end
