(* ===== verification/Teardown_Waits.thy ===== *)
theory Teardown_Waits
  imports Teardown_Props
begin

text \<open>
  The two waits of \<open>delete.go\<close> on the fake account: the interface wait ends because the fake's clock
  moves with every sleep, and the wait for a NAT gateway gives up after 36 polls without an error.
\<close>

section \<open>The clock of the fake world\<close>

lemma observe_enis_clock: "fw_clock (snd (observe_enis fs m w)) = fw_clock w"
  by (induction fs m w rule: observe_enis.induct)
    (auto simp: case_prod_beta Let_def advanceENIDrain_def split: option.split)

lemma describe_enis_clock: "fw_clock (snd (fDescribeNetworkInterfaces ids fs w)) = fw_clock w"
  by (auto simp: fDescribeNetworkInterfaces_def api_def failure_def record_call_def okay_def Let_def
      case_prod_beta observe_enis_clock split: list.split)

lemma fake_clock: "clock_laws (fake_provider env)"
  by (simp add: clock_laws_def fake_clients fake_sleep_def fake_platform_def describe_enis_clock)

theorem waitForENIsDrained_ends_witness:
  "fst (waitForENIsDrained (fake_provider zero_Environment) ''vpc-1'' sample_state) \<noteq> Inl ''out of fuel''"
  using waitForENIsDrained_ends [OF fake_clock, of "''vpc-1''"] by simp

section \<open>Waiting for the NAT gateway\<close>

text \<open>A gateway that is being deleted, with \<open>n\<close> observations to go.\<close>

definition nat_leaving :: "string \<Rightarrow> int \<Rightarrow> 'z Store_scheme \<Rightarrow> bool" where
  "nat_leaving i n s \<longleftrightarrow> has_key (fs_NatGateways s) i \<and> map_of (fs_natDeleting s) i = Some n
     \<and> get_list (fs_failures s) ''DescribeNatGateways'' = []"

lemma api_no_failure:
  "get_list (fs_failures s) op = [] \<Longrightarrow> api op input f s = f (record_call op input s)"
  by (simp add: api_def failure_def Let_def record_call_def)

lemma describe_one_nat:
  assumes "get_list (fs_failures s) ''DescribeNatGateways'' = []"
  shows "fDescribeNatGateways [i] s = (let s = record_call ''DescribeNatGateways'' (I_DescribeNatGateways [i]) s in
    case map_of (fs_NatGateways s) i of None \<Rightarrow> (Inr [], s)
    | Some ngw \<Rightarrow> (let (seen, s) = advanceNatState i ngw s in (Inr [seen], s)))"
  using assms
  by (simp add: fDescribeNatGateways_def api_no_failure okay_def Let_def case_prod_beta split: option.split)

lemma record_call_fields:
  "fs_NatGateways (record_call op input s) = fs_NatGateways s"
  "fs_natDeleting (record_call op input s) = fs_natDeleting s"
  "fs_failures (record_call op input s) = fs_failures s"
  by (simp_all add: record_call_def)

lemma describe_leaving:
  assumes "nat_leaving i n s"
  obtains ngw s' where "fDescribeNatGateways [i] s = (Inr [ngw], s')" "ng_State ngw = ''deleting''"
    "get_list (fs_failures s') ''DescribeNatGateways'' = []"
    "if n \<le> 1 then \<not> has_key (fs_NatGateways s') i else nat_leaving i (n - 1) s'"
proof -
  define s1 where "s1 = record_call ''DescribeNatGateways'' (I_DescribeNatGateways [i]) s"
  have 1: "get_list (fs_failures s) ''DescribeNatGateways'' = []" "get_list (fs_failures s1) ''DescribeNatGateways'' = []"
    "map_of (fs_natDeleting s1) i = Some n" "has_key (fs_NatGateways s1) i"
    using assms by (simp_all add: nat_leaving_def s1_def record_call_fields)
  then obtain ngw where 2: "map_of (fs_NatGateways s1) i = Some ngw" by (auto simp: has_key_iff)
  have "fDescribeNatGateways [i] s = (Inr [fst (advanceNatState i ngw s1)], snd (advanceNatState i ngw s1))"
    using describe_one_nat [OF 1(1)] 2 by (simp add: s1_def Let_def case_prod_beta)
  then show ?thesis
  proof (rule that)
    show "ng_State (fst (advanceNatState i ngw s1)) = ''deleting''"
      and "get_list (fs_failures (snd (advanceNatState i ngw s1))) ''DescribeNatGateways'' = []"
      using 1 by (simp_all add: advanceNatState_def)
    show "if n \<le> 1 then \<not> has_key (fs_NatGateways (snd (advanceNatState i ngw s1))) i
        else nat_leaving i (n - 1) (snd (advanceNatState i ngw s1))"
      using 1 by (cases "n \<le> 1") (simp_all add: advanceNatState_def nat_leaving_def has_key_iff)
  qed
qed

lemma describe_gone:
  assumes "\<not> has_key (fs_NatGateways s) i" "get_list (fs_failures s) ''DescribeNatGateways'' = []"
  obtains s' where "fDescribeNatGateways [i] s = (Inr [], s')" "\<not> has_key (fs_NatGateways s') i"
proof (rule that)
  show "fDescribeNatGateways [i] s = (Inr [], record_call ''DescribeNatGateways'' (I_DescribeNatGateways [i]) s)"
    using describe_one_nat [OF assms(2), of i] assms(1)
    by (simp add: Let_def record_call_fields has_key_iff split: option.splits)
qed (use assms in \<open>simp add: record_call_fields\<close>)

lemma fake_sleep_step:
  "sleep (fake_provider env) n ps = (Inr (), ps\<lparr>ps_world := fake_sleep n (ps_world ps)\<rparr>)"
  by (simp add: sleep_def on_world_def)

lemma fake_sleep_fields:
  "fs_NatGateways (fake_sleep n w) = fs_NatGateways w" "fs_failures (fake_sleep n w) = fs_failures w"
  "nat_leaving i k (fake_sleep n w) = nat_leaving i k w"
  by (simp_all add: fake_sleep_def nat_leaving_def)

lemma nat_poll_gone:
  assumes "\<not> has_key (fs_NatGateways (ps_world ps)) i"
    "get_list (fs_failures (ps_world ps)) ''DescribeNatGateways'' = []"
  shows "\<exists>ps'. nat_poll m (fake_provider env) i ps = (Inr (), ps') \<and> \<not> has_key (fs_NatGateways (ps_world ps')) i"
proof (cases m)
  case (Suc m')
  obtain w where "fDescribeNatGateways [i] (fake_sleep 5 (ps_world ps)) = (Inr [], w)"
    "\<not> has_key (fs_NatGateways w) i"
    using describe_gone [of "fake_sleep 5 (ps_world ps)" i] assms unfolding fake_sleep_fields by blast
  then show ?thesis
    by (simp add: Suc andthen_def attempt_def on_world_def fake_sleep_step fake_clients ret_def)
qed (use assms in \<open>simp add: ret_def\<close>)

lemma nat_poll_leaving:
  "nat_leaving i n (ps_world ps) \<Longrightarrow> 1 \<le> n \<Longrightarrow>
   \<exists>ps'. nat_poll m (fake_provider env) i ps = (Inr (), ps') \<and>
     (has_key (fs_NatGateways (ps_world ps')) i \<longleftrightarrow> n > int m)"
proof (induction m arbitrary: n ps)
  case 0
  then show ?case by (simp add: ret_def nat_leaving_def)
next
  case (Suc m)
  have "nat_leaving i n (fake_sleep 5 (ps_world ps))" using Suc.prems by (simp add: fake_sleep_fields)
  then obtain ngw w where
    d: "fDescribeNatGateways [i] (fake_sleep 5 (ps_world ps)) = (Inr [ngw], w)" "ng_State ngw = ''deleting''"
    and f: "get_list (fs_failures w) ''DescribeNatGateways'' = []"
    and w: "if n \<le> 1 then \<not> has_key (fs_NatGateways w) i else nat_leaving i (n - 1) w"
    by (rule describe_leaving)
  have step: "nat_poll (Suc m) (fake_provider env) i ps = nat_poll m (fake_provider env) i (ps\<lparr>ps_world := w\<rparr>)"
    by (simp add: andthen_def attempt_def on_world_def fake_sleep_step fake_clients d)
  show ?case
  proof (cases "n \<le> 1")
    case True
    then show ?thesis using nat_poll_gone [of "ps\<lparr>ps_world := w\<rparr>" i m env] w f Suc.prems(2) step by auto
  next
    case False
    then have l: "nat_leaving i (n - 1) (ps_world (ps\<lparr>ps_world := w\<rparr>))" using w by simp
    obtain ps' where "nat_poll m (fake_provider env) i (ps\<lparr>ps_world := w\<rparr>) = (Inr (), ps')"
      "has_key (fs_NatGateways (ps_world ps')) i \<longleftrightarrow> n - 1 > int m"
      using Suc.IH [OF l] False by auto
    then show ?thesis unfolding step by auto
  qed
qed

lemma delete_nat_scripted:
  assumes "has_key (fs_NatGateways s) i" "fs_natDeleteScript s = Some n" "fs_failures s = []"
  obtains s' where "fDeleteNatGateway i s = (Inr i, s')" "nat_leaving i n s'"
proof -
  have f: "get_list (fs_failures s) op = []" for op using assms(3) by (simp add: lookup_or_def)
  obtain ngw where "map_of (fs_NatGateways s) i = Some ngw" using assms(1) by (auto simp: has_key_iff)
  then show ?thesis
    using assms(2,3) that
    by (simp add: fDeleteNatGateway_def api_no_failure [OF f] okay_def record_call_def nat_leaving_def lookup_or_def has_key_iff)
qed

text \<open>
  The wait for a NAT gateway gives up silently: \<open>deleteNATGateway\<close> returns without error however
  long the deletion takes, and the gateway is gone then exactly if it needed at most 36
  observations.
\<close>

theorem deleteNATGateway_gives_up:
  assumes "has_key (fs_NatGateways (ps_world ps)) i" and "fs_natDeleteScript (ps_world ps) = Some n"
    and "1 \<le> n" and "i \<noteq> ''''" and "fs_failures (ps_world ps) = []"
  shows "\<exists>ps'. deleteNATGateway (fake_provider env) (a\<lparr>aw_NatGatewayid := i\<rparr>) ps = (Inr (), ps')
    \<and> ((K_nat, i) \<in> fake_live (ps_world ps') \<longleftrightarrow> n > 36)"
proof -
  obtain w where del: "fDeleteNatGateway i (ps_world ps) = (Inr i, w)" and l: "nat_leaving i n w"
    using delete_nat_scripted [OF assms(1,2,5)] by blast
  obtain ps' where ps': "nat_poll 36 (fake_provider env) i (ps\<lparr>ps_world := w\<rparr>) = (Inr (), ps')"
    "has_key (fs_NatGateways (ps_world ps')) i \<longleftrightarrow> n > int 36"
    using nat_poll_leaving [of i n "ps\<lparr>ps_world := w\<rparr>" 36 env] l assms(3) by auto
  have "deleteNATGateway (fake_provider env) (a\<lparr>aw_NatGatewayid := i\<rparr>) ps =
      nat_poll 36 (fake_provider env) i (ps\<lparr>ps_world := w\<rparr>)"
    using assms(4)
    by (simp add: deleteNATGateway_def andthen_def attempt_def on_world_def fake_clients del
        del: nat_poll.simps)
  moreover have "i \<in> keys kv \<longleftrightarrow> has_key kv i" for kv :: "(string \<times> NatGateway) list"
    by (simp add: has_key_iff dom_map_of_conv_image_fst [symmetric] domIff)
  ultimately show ?thesis using ps' by (simp add: fake_live_iff)
qed

definition slow_nat :: "fake_world pstate" where
  "slow_nat = sample_state\<lparr>ps_world := sample_world\<lparr>fs_natDeleteScript := Some 40,
     fs_NatGateways := [(''nat-1'', \<lparr>ng_NatGatewayId = ''nat-1'', ng_SubnetId = '''', ng_State = ''available'', ng_Tags = []\<rparr>)]\<rparr>\<rparr>"

theorem deleteNATGateway_gives_up_witness:
  "\<exists>ps'. deleteNATGateway (fake_provider zero_Environment) (zero_AWS\<lparr>aw_NatGatewayid := ''nat-1''\<rparr>) slow_nat = (Inr (), ps')
    \<and> (K_nat, ''nat-1'') \<in> fake_live (ps_world ps')"
proof -
  have "has_key (fs_NatGateways (ps_world slow_nat)) ''nat-1''" "fs_natDeleteScript (ps_world slow_nat) = Some 40"
    "fs_failures (ps_world slow_nat) = []"
    by (simp_all add: slow_nat_def sample_world_def fake_start_def newStore_def Store.extend_def fake_world.fields_def)
  from deleteNATGateway_gives_up [OF this(1,2) _ _ this(3)] show ?thesis by simp
qed

end
