(* ===== verification/Net_IP.thy ===== *)
theory Net_IP
  imports Provider_State
begin

text \<open>
  \<open>pkg/utils/ip.go\<close>: the public address of the caller, asked from a list of web services, for the
  security group's ingress rules. \<open>net.ParseIP\<close> and the predicates on addresses are those of Go's
  package \<open>net\<close>: an address is a list of 16 bytes, an IPv4 one mapped into IPv6.
\<close>

section \<open>Parsing addresses\<close>

fun split_on :: "char \<Rightarrow> string \<Rightarrow> string list" where
  "split_on d [] = [[]]"
| "split_on d (c # s) = (if c = d then [] # split_on d s
     else (case split_on d s of t # ts \<Rightarrow> (c # t) # ts | [] \<Rightarrow> [[c]]))"

definition is_digit :: "char \<Rightarrow> bool" where
  "is_digit c \<longleftrightarrow> 48 \<le> (of_char c :: nat) \<and> (of_char c :: nat) \<le> 57"

text \<open>A decimal octet: at most 255 and without leading zeros.\<close>

definition octet :: "string \<Rightarrow> nat option" where
  "octet s = (if s \<noteq> [] \<and> list_all is_digit s \<and> (hd s = CHR ''0'' \<longrightarrow> length s = 1) \<and> number_of s \<le> 255
     then Some (number_of s) else None)"

definition parseIPv4 :: "string \<Rightarrow> nat list option" where
  "parseIPv4 s = (case map octet (split_on (CHR ''.'') s) of
       [Some a, Some b, Some c, Some d] \<Rightarrow> Some [a, b, c, d]
     | _ \<Rightarrow> None)"

definition hex_digit :: "char \<Rightarrow> nat option" where
  "hex_digit c = (let n = of_char c in
     if 48 \<le> n \<and> n \<le> 57 then Some (n - 48)
     else if 97 \<le> n \<and> n \<le> 102 then Some (n - 87)
     else if 65 \<le> n \<and> n \<le> 70 then Some (n - 55) else None)"

text \<open>One group of an IPv6 address: one to four hexadecimal digits, two bytes.\<close>

definition hex_group :: "string \<Rightarrow> nat list option" where
  "hex_group s = (if s \<noteq> [] \<and> length s \<le> 4 \<and> list_all (\<lambda>c. hex_digit c \<noteq> None) s
     then let v = foldl (\<lambda>v c. 16 * v + the (hex_digit c)) 0 s in Some [v div 256, v mod 256]
     else None)"

text \<open>The bytes of colon-separated groups; the last group of an address may be an IPv4 address.\<close>

fun hex_groups :: "bool \<Rightarrow> string list \<Rightarrow> nat list option" where
  "hex_groups v4 [] = Some []"
| "hex_groups v4 (g # gs) =
     (case (if v4 \<and> gs = [] \<and> CHR ''.'' \<in> set g then parseIPv4 g else hex_group g) of
        None \<Rightarrow> None
      | Some bs \<Rightarrow> (case hex_groups v4 gs of None \<Rightarrow> None | Some cs \<Rightarrow> Some (bs @ cs)))"

text \<open>The parts before and after the first \<open>::\<close>.\<close>

fun split_ellipsis :: "string \<Rightarrow> (string \<times> string) option" where
  "split_ellipsis (c # d # s) =
     (if c = CHR '':'' \<and> d = CHR '':'' then Some ([], s)
      else map_option (\<lambda>(l, r). (c # l, r)) (split_ellipsis (d # s)))"
| "split_ellipsis s = None"

definition parseIPv6 :: "string \<Rightarrow> nat list option" where
  "parseIPv6 s = (case split_ellipsis s of
       None \<Rightarrow> (case hex_groups True (split_on (CHR '':'') s) of
           Some bs \<Rightarrow> if length bs = 16 then Some bs else None
         | None \<Rightarrow> None)
     | Some (l, r) \<Rightarrow>
         (case (if l = [] then Some [] else hex_groups False (split_on (CHR '':'') l),
                if r = [] then Some [] else hex_groups True (split_on (CHR '':'') r)) of
            (Some ls, Some rs) \<Rightarrow>
              if length ls + length rs \<le> 14
              then Some (ls @ replicate (16 - length ls - length rs) 0 @ rs) else None
          | _ \<Rightarrow> None))"

definition v4_prefix :: "nat list" where
  "v4_prefix = replicate 10 0 @ [255, 255]"

text \<open>\<open>net.ParseIP\<close>: the first dot or colon decides between the two kinds.\<close>

definition ParseIP :: "string \<Rightarrow> nat list option" where
  "ParseIP s = (case find (\<lambda>c. c = CHR ''.'' \<or> c = CHR '':'' \<or> c = CHR ''%'') s of
       Some c \<Rightarrow> if c = CHR ''.'' then map_option (\<lambda>bs. v4_prefix @ bs) (parseIPv4 s)
                 else if c = CHR '':'' then parseIPv6 s else None
     | None \<Rightarrow> None)"

definition To4 :: "nat list \<Rightarrow> nat list option" where
  "To4 ip = (if length ip = 4 then Some ip
     else if length ip = 16 \<and> take 12 ip = v4_prefix then Some (drop 12 ip) else None)"

text \<open>The predicates on an IPv4 address, the only ones the code asks.\<close>

definition IsPrivate :: "nat list \<Rightarrow> bool" where
  "IsPrivate ip4 \<longleftrightarrow> ip4 ! 0 = 10 \<or> (ip4 ! 0 = 172 \<and> 16 \<le> ip4 ! 1 \<and> ip4 ! 1 < 32)
     \<or> (ip4 ! 0 = 192 \<and> ip4 ! 1 = 168)"

definition IsLoopback :: "nat list \<Rightarrow> bool" where
  "IsLoopback ip4 \<longleftrightarrow> ip4 ! 0 = 127"

definition IsLinkLocalUnicast :: "nat list \<Rightarrow> bool" where
  "IsLinkLocalUnicast ip4 \<longleftrightarrow> ip4 ! 0 = 169 \<and> ip4 ! 1 = 254"

definition isValidPublicIP :: "string \<Rightarrow> bool" where
  "isValidPublicIP ipStr = (case ParseIP ipStr of
       None \<Rightarrow> False
     | Some ip \<Rightarrow> (case To4 ip of
           None \<Rightarrow> False
         | Some ip4 \<Rightarrow> \<not> IsPrivate ip4 \<and> \<not> IsLoopback ip4 \<and> \<not> IsLinkLocalUnicast ip4))"

section \<open>Asking the services\<close>

definition DefaultIPServices :: "(string \<times> nat) list" where
  "DefaultIPServices = [(''https://api.ipify.org?format=text'', 5), (''https://ifconfig.me/ip'', 5),
     (''https://icanhazip.com'', 5), (''https://ident.me'', 5)]"

definition getIPFromHTTPService :: "('s, 'f) Provider \<Rightarrow> string \<Rightarrow> nat \<Rightarrow> ('s pstate, string) io" where
  "getIPFromHTTPService p url timeout =
     andthen (wrap (''error fetching IP from '' @ url) (on_world (pl_HttpGet (p_platform p) url timeout)))
       (\<lambda>(status, body).
     if status \<noteq> 200 then fail (''unexpected status from '' @ url @ '': '' @ decimal status)
     else let ip = TrimSpace body in
       if ip = '''' then fail (''empty response from '' @ url) else ret ip)"

text \<open>The loop over the services; no request is made once the deadline of the whole call is over,
  and none may last longer.\<close>

fun try_services :: "('s, 'f) Provider \<Rightarrow> nat \<Rightarrow> (string \<times> nat) list \<Rightarrow> ('s pstate, string) io" where
  "try_services p deadline [] = fail ''failed to get IP address from all services''"
| "try_services p deadline ((url, timeout) # services) =
     andthen (now p) (\<lambda>t.
     andthen (if deadline \<le> t then ret (Inl ''context deadline exceeded'')
              else attempt (getIPFromHTTPService p url (min timeout (deadline - t)))) (\<lambda>r.
     case r of
       Inr ip \<Rightarrow> if isValidPublicIP ip then ret (ip @ ''/32'') else try_services p deadline services
     | Inl _ \<Rightarrow> try_services p deadline services))"

definition GetIPAddressWithServices :: "('s, 'f) Provider \<Rightarrow> (string \<times> nat) list \<Rightarrow> ('s pstate, string) io" where
  "GetIPAddressWithServices p services =
     (if services = [] then fail ''no IP services provided''
      else andthen (now p) (\<lambda>t. try_services p (t + 15) services))"

definition GetIPAddress :: "('s, 'f) Provider \<Rightarrow> ('s pstate, string) io" where
  "GetIPAddress p = GetIPAddressWithServices p DefaultIPServices"

section \<open>Dotted addresses\<close>

definition dotted :: "nat \<Rightarrow> nat \<Rightarrow> nat \<Rightarrow> nat \<Rightarrow> string" where
  "dotted a b c d = decimal a @ ''.'' @ decimal b @ ''.'' @ decimal c @ ''.'' @ decimal d"

lemma of_char_digit_char: "d < 10 \<Longrightarrow> (of_char (digit_char d) :: nat) = 48 + d"
  by (simp add: digit_char_def)

lemma is_digit_digit_char: "d < 10 \<Longrightarrow> is_digit (digit_char d)"
  by (simp add: is_digit_def of_char_digit_char)

lemma decimal_digits: "list_all is_digit (decimal n)"
proof (induction n rule: decimal.induct)
  case (1 n)
  then show ?case
    by (subst decimal.simps) (auto simp: is_digit_digit_char)
qed

lemma decimal_nonempty [simp]: "decimal n \<noteq> []"
  by (subst decimal.simps) simp

lemma digit_char_0: "d < 10 \<Longrightarrow> digit_char d = CHR ''0'' \<Longrightarrow> d = 0"
  using of_char_digit_char [of d] by simp

lemma decimal_no_zero: "hd (decimal n) = CHR ''0'' \<Longrightarrow> n = 0"
proof (induction n rule: decimal.induct)
  case (1 n)
  show ?case
  proof (cases "n < 10")
    case True
    then show ?thesis using "1.prems" by (subst (asm) decimal.simps) (simp add: digit_char_0 split: if_splits)
  next
    case False
    then have "hd (decimal (n div 10)) = CHR ''0''"
      using "1.prems" by (subst (asm) decimal.simps) simp
    with "1.IH" False have "n div 10 = 0" by simp
    then show ?thesis using False by simp
  qed
qed

lemma octet_decimal: "octet (decimal n) = (if n \<le> 255 then Some n else None)"
proof -
  have "hd (decimal n) = CHR ''0'' \<longrightarrow> length (decimal n) = 1"
    using decimal_no_zero [of n] by (auto simp: decimal.simps [of 0])
  then show ?thesis by (simp add: octet_def decimal_digits)
qed

lemma split_on_none: "d \<notin> set s \<Longrightarrow> split_on d s = [s]"
  by (induction s) auto

lemma split_on_append: "d \<notin> set s \<Longrightarrow> split_on d (s @ d # t) = s # split_on d t"
  by (induction s) auto

lemma digits_no: "\<not> is_digit c \<Longrightarrow> c \<notin> set (decimal n)"
  using decimal_digits [of n] by (auto simp: list_all_iff)

lemma is_digit_punctuation [simp]:
  "\<not> is_digit (CHR ''.'')" "\<not> is_digit (CHR '':'')" "\<not> is_digit (CHR ''%'')"
  by (simp_all add: is_digit_def)

lemma parseIPv4_dotted: "parseIPv4 (dotted a b c d) =
    (if a \<le> 255 \<and> b \<le> 255 \<and> c \<le> 255 \<and> d \<le> 255 then Some [a, b, c, d] else None)"
proof -
  have "split_on (CHR ''.'') (dotted a b c d) = [decimal a, decimal b, decimal c, decimal d]"
    by (simp add: dotted_def split_on_append split_on_none digits_no)
  then show ?thesis by (simp add: parseIPv4_def octet_decimal)
qed

lemma find_append_none: "find P xs = None \<Longrightarrow> find P (xs @ ys) = find P ys"
  by (induction xs) auto

lemma find_dotted: "find (\<lambda>c. c = CHR ''.'' \<or> c = CHR '':'' \<or> c = CHR ''%'') (dotted a b c d) = Some (CHR ''.'')"
proof -
  have "find (\<lambda>c. c = CHR ''.'' \<or> c = CHR '':'' \<or> c = CHR ''%'') (decimal a) = None"
    using digits_no [of "CHR ''.''" a] digits_no [of "CHR '':''" a] digits_no [of "CHR ''%''" a]
    by (auto simp: find_None_iff)
  then show ?thesis by (simp add: dotted_def find_append_none)
qed

lemma ParseIP_dotted: "ParseIP (dotted a b c d) =
    (if a \<le> 255 \<and> b \<le> 255 \<and> c \<le> 255 \<and> d \<le> 255 then Some (v4_prefix @ [a, b, c, d]) else None)"
  by (simp add: ParseIP_def find_dotted parseIPv4_dotted)

lemma valid_dotted:
  "isValidPublicIP (dotted a b c d) \<longleftrightarrow>
     a < 256 \<and> b < 256 \<and> c < 256 \<and> d < 256 \<and> a \<notin> {10, 127} \<and> (a, b) \<notin> {172} \<times> {16..31}
     \<and> (a, b) \<notin> {(192, 168), (169, 254)}"
  by (auto simp: isValidPublicIP_def ParseIP_dotted To4_def IsPrivate_def IsLoopback_def
      IsLinkLocalUnicast_def v4_prefix_def)

text \<open>
  a dotted address is accepted exactly when its numbers are octets and it is in none of the
  private ranges \<open>10/8\<close>, \<open>172.16/12\<close>, \<open>192.168/16\<close>, not loopback (\<open>127/8\<close>) and not link-local
  (\<open>169.254/16\<close>).
\<close>

theorem isValidPublicIP_dotted:
  "isValidPublicIP (dotted a b c d) \<longleftrightarrow>
     a < 256 \<and> b < 256 \<and> c < 256 \<and> d < 256 \<and> a \<notin> {10, 127} \<and> (a, b) \<notin> {172} \<times> {16..31}
     \<and> (a, b) \<notin> {(192, 168), (169, 254)}"
  by (rule valid_dotted)

lemma try_services_valid:
  "try_services p t ss ps = (Inr cidr, ps') \<Longrightarrow> \<exists>ip. cidr = ip @ ''/32'' \<and> isValidPublicIP ip"
  by (induction p t ss arbitrary: ps rule: try_services.induct)
    (auto simp: andthen_def ret_def fail_def split: prod.splits sum.splits if_splits)

end
