(* ===== verification/Image_Lookup.thy ===== *)
theory Image_Lookup
  imports Provider_State
begin

text \<open>
  \<open>pkg/provider/aws/image.go\<close>, \<open>dryrun.go\<close> and \<open>update.go\<close>: which machine image and architecture an
  instance gets, and the checks that the instance types and the image exist. Setting the image
  changes the provider's environment, which is part of the state.

  A listing that comes in pages is read by recursion on the number of pages, at most \<open>pl_Pages\<close>.
\<close>

section \<open>Listings\<close>

record ImageInfo =
  ii_ImageID :: string
  ii_CreationDate :: string

fun describe_pages :: "nat \<Rightarrow> ('s, 'f) Provider \<Rightarrow> api_filter list \<Rightarrow> string option \<Rightarrow> ImageInfo list
    \<Rightarrow> ('s pstate, ImageInfo list) io" where
  "describe_pages 0 p filters token images = fail out_of_pages"
| "describe_pages (Suc n) p filters token images =
     andthen (wrap ''failed to describe images'' (on_world (ec2_DescribeImages (p_ec2 p)
       \<lparr>dii_ImageIds = [], dii_Filters = filters, dii_Owners = [], dii_NextToken = token\<rparr>))) (\<lambda>(page, next).
     if page = [] then fail ''no images found''
     else let images = images @ map (\<lambda>im. \<lparr>ii_ImageID = im_ImageId im, ii_CreationDate = im_CreationDate im\<rparr>) page in
       (case next of Some t \<Rightarrow> describe_pages n p filters (Some t) images | None \<Rightarrow> ret images))"

definition describeImages :: "('s, 'f) Provider \<Rightarrow> api_filter list \<Rightarrow> ('s pstate, ImageInfo list) io" where
  "describeImages p filters = describe_pages (pl_Pages (p_platform p)) p filters None []"

text \<open>The instance types that an environment needs, each once.\<close>

definition needed_types :: "Environment \<Rightarrow> string list" where
  "needed_types env = (case sp_Cluster (env_Spec env) of
       Some c \<Rightarrow> remdups (filter (\<lambda>t. t \<noteq> '''') (cp_InstanceType (cl_ControlPlane c)
         # (case cl_Workers c of Some w \<Rightarrow> [wp_InstanceType w] | None \<Rightarrow> [])))
     | None \<Rightarrow> (if in_Type (sp_Instance (env_Spec env)) \<noteq> '''' then [in_Type (sp_Instance (env_Spec env))] else []))"

definition types_region :: "Environment \<Rightarrow> string" where
  "types_region env = (case sp_Cluster (env_Spec env) of
       Some c \<Rightarrow> cl_Region c | None \<Rightarrow> in_Region (sp_Instance (env_Spec env)))"

text \<open>The loop over the pages, with the types not found so far. Of several missing types the source
  reports any one; here it is the first.\<close>

fun type_pages :: "nat \<Rightarrow> ('s, 'f) Provider \<Rightarrow> Environment \<Rightarrow> string list \<Rightarrow> string option \<Rightarrow> ('s pstate, unit) io" where
  "type_pages 0 p env missing token = fail out_of_pages"
| "type_pages (Suc n) p env missing token =
     andthen (on_world (ec2_DescribeInstanceTypes (p_ec2 p) [] token)) (\<lambda>(page, next).
     let missing = filter (\<lambda>t. t \<notin> iti_InstanceType ` set page) missing in
     (case missing of
        [] \<Rightarrow> ret ()
      | t # _ \<Rightarrow> (case next of
            Some tok \<Rightarrow> type_pages n p env missing (Some tok)
          | None \<Rightarrow> fail (''instance type '' @ t @ '' is not supported in the current region '' @ types_region env))))"

definition checkInstanceTypes :: "('s, 'f) Provider \<Rightarrow> ('s pstate, unit) io" where
  "checkInstanceTypes p = andthen environment (\<lambda>env.
     if needed_types env = [] then fail ''no instance type specified''
     else type_pages (pl_Pages (p_platform p)) p env (needed_types env) None)"

section \<open>Architectures\<close>

definition normalizeArchToEC2 :: "string \<Rightarrow> string" where
  "normalizeArchToEC2 arch = (let a = ToLower arch in
     if a = ''amd64'' \<or> a = ''x86_64'' then ''x86_64''
     else if a = ''arm64'' \<or> a = ''aarch64'' then ''arm64'' else arch)"

definition getInstanceTypeArch :: "('s, 'f) Provider \<Rightarrow> string \<Rightarrow> ('s pstate, string list) io" where
  "getInstanceTypeArch p instanceType =
     andthen (wrap (''failed to describe instance type '' @ instanceType)
       (on_world (ec2_DescribeInstanceTypes (p_ec2 p) [instanceType] None))) (\<lambda>(infos, _).
     case infos of
       [] \<Rightarrow> fail (''instance type '' @ instanceType @ '' not found'')
     | info # _ \<Rightarrow> (case iti_SupportedArchitectures info of
           None \<Rightarrow> fail (''no processor info for instance type '' @ instanceType)
         | Some archs \<Rightarrow> ret archs))"

definition inferArchFromInstanceType :: "('s, 'f) Provider \<Rightarrow> string \<Rightarrow> ('s pstate, string) io" where
  "inferArchFromInstanceType p instanceType =
     andthen (getInstanceTypeArch p instanceType) (\<lambda>archs.
     let hasX86 = (\<exists>a \<in> set archs. has_prefix a ''x86_64'');
         hasArm = (\<exists>a \<in> set archs. \<not> has_prefix a ''x86_64'' \<and> has_prefix a ''arm64'')
     in ret (if hasArm \<and> \<not> hasX86 then ''arm64'' else ''x86_64''))"

definition one_image :: "('s, 'f) Provider \<Rightarrow> string \<Rightarrow> ('s pstate, Ec2Image) io" where
  "one_image p imageID =
     andthen (wrap (''failed to describe image '' @ imageID) (on_world (ec2_DescribeImages (p_ec2 p)
       \<lparr>dii_ImageIds = [imageID], dii_Filters = [], dii_Owners = [], dii_NextToken = None\<rparr>))) (\<lambda>(images, _).
     case images of [] \<Rightarrow> fail (''image '' @ imageID @ '' not found'') | im # _ \<Rightarrow> ret im)"

definition describeImageArch :: "('s, 'f) Provider \<Rightarrow> string \<Rightarrow> ('s pstate, string) io" where
  "describeImageArch p imageID = andthen (one_image p imageID) (\<lambda>im. ret (im_Architecture im))"

definition describeImageRootDevice :: "('s, 'f) Provider \<Rightarrow> string \<Rightarrow> ('s pstate, string) io" where
  "describeImageRootDevice p imageID = andthen (one_image p imageID) (\<lambda>im.
     ret (if im_RootDeviceName im = '''' then ''/dev/sda1'' else im_RootDeviceName im))"

section \<open>Choosing the image\<close>

text \<open>The architecture that \<open>findLegacyAMI\<close> looks for, if it is a known one.\<close>

definition legacy_arch :: "string \<Rightarrow> string option" where
  "legacy_arch arch = (let a = ToLower arch in
     if a = ''x86_64'' \<or> a = ''amd64'' then Some ''x86_64''
     else if a = ''arm64'' \<or> a = ''aarch64'' then Some ''arm64''
     else if a = '''' then Some ''x86_64'' else None)"

definition legacy_filters :: "Environment \<Rightarrow> string \<Rightarrow> api_filter list" where
  "legacy_filters env arch =
     [(''name'', [''ubuntu/images/hvm-ssd/ubuntu-jammy-22.04-'' @ (if arch = ''x86_64'' then ''amd64'' else arch)
        @ ''-server-20*'']),
      (''architecture'', [arch]),
      (''owner-id'', (case img_OwnerId (in_Image (sp_Instance (env_Spec env))) of
          Some owner \<Rightarrow> [owner] | None \<Rightarrow> [''099720109477'', ''679593333241'']))]"

definition findLegacyAMI :: "('s, 'f) Provider \<Rightarrow> string \<Rightarrow> ('s pstate, string) io" where
  "findLegacyAMI p arch0 = andthen environment (\<lambda>env.
     let arch0 = (if arch0 = '''' then img_Architecture (in_Image (sp_Instance (env_Spec env))) else arch0) in
     case legacy_arch arch0 of
       None \<Rightarrow> fail (''invalid architecture '' @ arch0)
     | Some arch \<Rightarrow>
         andthen (wrap ''failed to describe images'' (describeImages p (legacy_filters env arch))) (\<lambda>images.
         case newest_first ii_CreationDate images of
           [] \<Rightarrow> fail (''no images found for Ubuntu 22.04 ('' @ arch @ '')'')
         | im # _ \<Rightarrow> ret (ii_ImageID im)))"

record ResolvedImage =
  ri_ImageID :: string
  ri_SSHUsername :: string
  ri_Architecture :: string

definition resolve_os :: "('s, 'f) Provider \<Rightarrow> string \<Rightarrow> string \<Rightarrow> ('s pstate, ResolvedImage) io" where
  "resolve_os p os arch =
     andthen (wrap (''failed to resolve AMI for OS '' @ os) (on_world (Resolver_Resolve (p_amiResolver p) os arch)))
       (\<lambda>r. ret \<lparr>ri_ImageID = rs_ImageID r, ri_SSHUsername = rs_SSHUsername r, ri_Architecture = arch\<rparr>)"

definition node_arch :: "Image option \<Rightarrow> string \<Rightarrow> string" where
  "node_arch img arch = normalizeArchToEC2
     (if arch \<noteq> '''' then arch
      else (case img of
          Some im \<Rightarrow> if img_Architecture im \<noteq> '''' then img_Architecture im else ''x86_64''
        | None \<Rightarrow> ''x86_64''))"

text \<open>The explicit image id of a node pool, if it has one.\<close>

definition explicit_image :: "Image option \<Rightarrow> string option" where
  "explicit_image img = (case img of
       Some im \<Rightarrow> (case img_ImageId im of Some i \<Rightarrow> if i \<noteq> '''' then Some i else None | None \<Rightarrow> None)
     | None \<Rightarrow> None)"

definition resolveImageForNode :: "('s, 'f) Provider \<Rightarrow> string \<Rightarrow> Image option \<Rightarrow> string \<Rightarrow> ('s pstate, ResolvedImage) io" where
  "resolveImageForNode p os img arch0 =
     (case explicit_image img of
        Some i \<Rightarrow>
          andthen (wrap (''failed to determine architecture for image '' @ i) (describeImageArch p i)) (\<lambda>arch.
          ret \<lparr>ri_ImageID = i, ri_SSHUsername = '''', ri_Architecture = arch\<rparr>)
      | None \<Rightarrow>
          let arch = node_arch img arch0 in
          if os \<noteq> '''' then resolve_os p os arch
          else andthen environment (\<lambda>env.
            let os = in_OS (sp_Instance (env_Spec env)) in
            if os \<noteq> '''' then resolve_os p os arch
            else andthen (findLegacyAMI p arch) (\<lambda>i.
              ret \<lparr>ri_ImageID = i, ri_SSHUsername = ''ubuntu'', ri_Architecture = arch\<rparr>)))"

section \<open>Setting the image of the environment\<close>

definition env_image :: "Environment \<Rightarrow> Image" where
  "env_image env = in_Image (sp_Instance (env_Spec env))"

text \<open>What \<open>resolveOSToAMI\<close> and \<open>setLegacyAMI\<close> write into the specification.\<close>

definition with_image :: "string \<Rightarrow> string \<Rightarrow> string \<Rightarrow> Environment \<Rightarrow> Environment" where
  "with_image imageID arch username env =
     (let sp = env_Spec env; i = sp_Instance sp; au = sp_Auth sp in
      env\<lparr>env_Spec := sp\<lparr>
        sp_Instance := i\<lparr>in_Image := (in_Image i)\<lparr>img_ImageId := Some imageID, img_Architecture := normalizeArchToEC2 arch\<rparr>\<rparr>,
        sp_Auth := (if au_Username au = '''' then au\<lparr>au_Username := username\<rparr> else au)\<rparr>\<rparr>)"

definition set_env :: "(Environment \<Rightarrow> Environment) \<Rightarrow> ('s pstate, unit) io" where
  "set_env f = modify (\<lambda>ps. ps\<lparr>ps_Environment := f (ps_Environment ps)\<rparr>)"

definition instance_arch :: "('s, 'f) Provider \<Rightarrow> Environment \<Rightarrow> ('s pstate, string) io" where
  "instance_arch p env = (let t = in_Type (sp_Instance (env_Spec env)) in
     if img_Architecture (env_image env) = ''''
     then catch (inferArchFromInstanceType p t) (\<lambda>e. fail
       (''failed to infer architecture from instance type '' @ t @ '': '' @ e
        @ ''; set spec.image.architecture explicitly to override''))
     else ret (img_Architecture (env_image env)))"

definition resolveOSToAMI :: "('s, 'f) Provider \<Rightarrow> ('s pstate, unit) io" where
  "resolveOSToAMI p = andthen environment (\<lambda>env. andthen (instance_arch p env) (\<lambda>arch.
     let os = in_OS (sp_Instance (env_Spec env)) in
     andthen (wrap (''failed to resolve AMI for OS '' @ os) (on_world (Resolver_Resolve (p_amiResolver p) os arch)))
       (\<lambda>r. set_env (with_image (rs_ImageID r) arch (rs_SSHUsername r)))))"

definition setLegacyAMI :: "('s, 'f) Provider \<Rightarrow> ('s pstate, unit) io" where
  "setLegacyAMI p = andthen environment (\<lambda>env. andthen (instance_arch p env) (\<lambda>arch.
     andthen (findLegacyAMI p arch) (\<lambda>i. set_env (with_image i arch ''ubuntu''))))"

definition setAMI :: "('s, 'f) Provider \<Rightarrow> ('s pstate, unit) io" where
  "setAMI p = andthen environment (\<lambda>env.
     if img_ImageId (env_image env) \<noteq> None then ret ()
     else if in_OS (sp_Instance (env_Spec env)) \<noteq> '''' then resolveOSToAMI p
     else setLegacyAMI p)"

definition assertImageIdSupported :: "('s, 'f) Provider \<Rightarrow> string \<Rightarrow> string \<Rightarrow> ('s pstate, unit) io" where
  "assertImageIdSupported p i region =
     andthen (attempt (describeImages p [])) (\<lambda>r.
     let unsupported = ''image '' @ i @ '' is not supported in the current region '' @ region in
     case r of
       Inr images \<Rightarrow> if i \<in> ii_ImageID ` set images then ret () else fail unsupported
     | Inl e \<Rightarrow> fail (e @ [CHR 0x0A] @ unsupported))"

definition checkImages :: "('s, 'f) Provider \<Rightarrow> ('s pstate, unit) io" where
  "checkImages p = andthen environment (\<lambda>env.
     case img_ImageId (env_image env) of
       Some i \<Rightarrow> assertImageIdSupported p i (in_Region (sp_Instance (env_Spec env)))
     | None \<Rightarrow> setAMI p)"

section \<open>Dry run and tags\<close>

definition DryRun :: "('s, 'f) Provider \<Rightarrow> ('s pstate, unit) io" where
  "DryRun p =
     andthen (checkInstanceTypes p) (\<lambda>_.
     andthen (wrap ''failed to get images'' (checkImages p)) (\<lambda>_.
     andthen environment (\<lambda>env.
     let arch = img_Architecture (env_image env); t = in_Type (sp_Instance (env_Spec env)) in
     if arch = '''' then ret ()
     else andthen (wrap ''failed to check instance type architecture'' (getInstanceTypeArch p t)) (\<lambda>archs.
       if arch \<in> set archs then ret ()
       else fail (''architecture mismatch: AMI architecture is '' @ arch @ '' but instance type '' @ t
                  @ '' supports '' @ show_list archs)))))"

definition UpdateResourcesTags :: "('s, 'f) Provider \<Rightarrow> string gomap \<Rightarrow> string list \<Rightarrow> ('s pstate, unit) io" where
  "UpdateResourcesTags p tags resources = on_world (ec2_CreateTags (p_ec2 p) resources tags)"

end
