(* ===== verification/Create_Steps.thy ===== *)
theory Create_Steps
  imports Net_IP Image_Lookup Teardown
begin

text \<open>
  \<open>pkg/provider/aws/create.go\<close>, the creation of single resources. Each function creates its
  resource, notes its id in the cache at once, and then configures it, so a failure after the first
  call leaves a resource whose id is in the cache.

  An output that the code indexes without a check (\<open>Instances[0]\<close>) is matched; where it would
  panic, the model fails with the text of the panic.
\<close>

abbreviation reason_creating :: string where
  "reason_creating \<equiv> ''v1alpha1.Creating''"

abbreviation index_panic :: error where
  "index_panic \<equiv> ''panic: index out of range''"

section \<open>Network\<close>

definition createVPC :: "('s, 'f) Provider \<Rightarrow> ('s pstate, unit) io" where
  "createVPC p =
     andthen (wrap ''error creating VPC'' (on_world (ec2_CreateVpc (p_ec2 p)
       \<lparr>cvi_CidrBlock = ''10.0.0.0/16'', cvi_AmazonProvidedIpv6CidrBlock = False,
        cvi_InstanceTenancy = ''default'', cvi_TagSpecifications = [(''vpc'', p_Tags p)]\<rparr>))) (\<lambda>vpc.
     andthen (set_aws (\<lambda>a. a\<lparr>aw_Vpcid := vpc_VpcId vpc\<rparr>)) (\<lambda>_.
     wrap ''error modifying VPC attributes''
       (on_world (ec2_ModifyVpcAttribute (p_ec2 p) (vpc_VpcId vpc) True))))"

definition createSubnet :: "('s, 'f) Provider \<Rightarrow> ('s pstate, unit) io" where
  "createSubnet p = andthen (gets ps_aws) (\<lambda>a.
     andthen (wrap ''error creating subnet'' (on_world (ec2_CreateSubnet (p_ec2 p)
       \<lparr>csi_VpcId = aw_Vpcid a, csi_CidrBlock = ''10.0.0.0/24'',
        csi_TagSpecifications = [(''subnet'', p_Tags p)]\<rparr>))) (\<lambda>sn.
     set_aws (\<lambda>a. a\<lparr>aw_Subnetid := sn_SubnetId sn\<rparr>)))"

text \<open>The gateway's attachments are read through the pointer of the first output, after the
  attachment.\<close>

definition createInternetGateway :: "('s, 'f) Provider \<Rightarrow> ('s pstate, unit) io" where
  "createInternetGateway p = andthen (gets ps_aws) (\<lambda>a.
     andthen (wrap ''error creating Internet Gateway'' (on_world (ec2_CreateInternetGateway (p_ec2 p)
       [(''internet-gateway'', p_Tags p)]))) (\<lambda>gw.
     andthen (gets (\<lambda>ps. igw_InternetGatewayId (gw (ps_world ps)))) (\<lambda>i.
     andthen (set_aws (\<lambda>a. a\<lparr>aw_InternetGwid := i\<rparr>)) (\<lambda>_.
     andthen (wrap ''error attaching Internet Gateway''
       (on_world (ec2_AttachInternetGateway (p_ec2 p) i (aw_Vpcid a)))) (\<lambda>_.
     andthen (gets (\<lambda>ps. igw_Attachments (gw (ps_world ps)))) (\<lambda>atts.
     case atts of
       att # _ \<Rightarrow> set_aws (\<lambda>a. a\<lparr>aw_InternetGatewayAttachment := ia_VpcId att\<rparr>)
     | [] \<Rightarrow> ret ()))))))"

text \<open>The three functions that create a route table differ in the subnet, the target of the
  default route, the field of the cache and their error texts.\<close>

definition default_route :: "string \<Rightarrow> string option \<Rightarrow> string option \<Rightarrow> CreateRouteInput" where
  "default_route rt gateway natgw = \<lparr>cri_RouteTableId = rt, cri_DestinationCidrBlock = ''0.0.0.0/0'',
     cri_GatewayId = gateway, cri_NatGatewayId = natgw\<rparr>"

definition make_route_table :: "('s, 'f) Provider \<Rightarrow> string \<Rightarrow> string \<Rightarrow> (string \<Rightarrow> CreateRouteInput)
    \<Rightarrow> (string \<Rightarrow> AWS \<Rightarrow> AWS) \<Rightarrow> ('s pstate, unit) io" where
  "make_route_table p kind subnet route note = andthen (gets ps_aws) (\<lambda>a.
     andthen (wrap (''error creating '' @ kind @ ''route table'')
       (on_world (ec2_CreateRouteTable (p_ec2 p) (aw_Vpcid a) [(''route-table'', p_Tags p)]))) (\<lambda>rt.
     let i = rt_RouteTableId rt in
     andthen (set_aws (note i)) (\<lambda>_.
     andthen (wrap (''error associating '' @ kind @ ''route table'')
       (on_world (ec2_AssociateRouteTable (p_ec2 p) i subnet))) (\<lambda>_.
     andthen (wrap (''error creating '' @ kind @ ''route'')
       (on_world (ec2_CreateRoute (p_ec2 p) (route i)))) (\<lambda>_. ret ())))))"

definition createRouteTable :: "('s, 'f) Provider \<Rightarrow> ('s pstate, unit) io" where
  "createRouteTable p = andthen (gets ps_aws) (\<lambda>a.
     make_route_table p '''' (aw_Subnetid a) (\<lambda>i. default_route i (Some (aw_InternetGwid a)) None)
       (\<lambda>i a. a\<lparr>aw_RouteTable := i\<rparr>))"

definition createPublicRouteTable :: "('s, 'f) Provider \<Rightarrow> ('s pstate, unit) io" where
  "createPublicRouteTable p = andthen (gets ps_aws) (\<lambda>a.
     make_route_table p ''public '' (aw_PublicSubnetid a)
       (\<lambda>i. default_route i (Some (aw_InternetGwid a)) None) (\<lambda>i a. a\<lparr>aw_PublicRouteTable := i\<rparr>))"

definition createPrivateRouteTable :: "('s, 'f) Provider \<Rightarrow> ('s pstate, unit) io" where
  "createPrivateRouteTable p = andthen (gets ps_aws) (\<lambda>a.
     make_route_table p ''private '' (aw_Subnetid a)
       (\<lambda>i. default_route i None (Some (aw_NatGatewayid a))) (\<lambda>i a. a\<lparr>aw_RouteTable := i\<rparr>))"

text \<open>The tags of the public subnet.\<close>

definition public_tags :: "tag list \<Rightarrow> tag list" where
  "public_tags = map (\<lambda>(k, v). if k = ''Name'' then (k, v @ ''-public'') else (k, v))"

definition createPublicSubnet :: "('s, 'f) Provider \<Rightarrow> ('s pstate, unit) io" where
  "createPublicSubnet p = andthen (gets ps_aws) (\<lambda>a.
     andthen (wrap ''error creating public subnet'' (on_world (ec2_CreateSubnet (p_ec2 p)
       \<lparr>csi_VpcId = aw_Vpcid a, csi_CidrBlock = ''10.0.1.0/24'',
        csi_TagSpecifications = [(''subnet'', public_tags (p_Tags p))]\<rparr>))) (\<lambda>sn.
     set_aws (\<lambda>a. a\<lparr>aw_PublicSubnetid := sn_SubnetId sn\<rparr>)))"

definition releaseEIP :: "('s, 'f) Provider \<Rightarrow> string \<Rightarrow> ('s pstate, unit) io" where
  "releaseEIP p allocationID = on_world (ec2_ReleaseAddress (p_ec2 p) allocationID)"

text \<open>The wait for the gateway, with \<open>n\<close> polls left.\<close>

fun nat_wait :: "nat \<Rightarrow> ('s, 'f) Provider \<Rightarrow> string \<Rightarrow> ('s pstate, unit) io" where
  "nat_wait 0 p i = fail (''NAT Gateway '' @ i @ '' did not become available within timeout'')"
| "nat_wait (Suc n) p i =
     andthen (sleep p 5) (\<lambda>_.
     andthen (attempt (on_world (ec2_DescribeNatGateways (p_ec2 p) [i]))) (\<lambda>r.
     case r of
       Inr (ngw # _) \<Rightarrow>
         if ng_State ngw = ''available'' then ret ()
         else if ng_State ngw = ''failed'' then fail (''NAT Gateway '' @ i @ '' reached failed state'')
         else nat_wait n p i
     | _ \<Rightarrow> nat_wait n p i))"

definition createNATGateway :: "('s, 'f) Provider \<Rightarrow> ('s pstate, unit) io" where
  "createNATGateway p =
     andthen (wrap ''error allocating EIP for NAT gateway''
       (on_world (ec2_AllocateAddress (p_ec2 p) ''vpc'' [(''elastic-ip'', p_Tags p)]))) (\<lambda>(eip, _).
     andthen (set_aws (\<lambda>a. a\<lparr>aw_EIPAllocationid := eip\<rparr>)) (\<lambda>_.
     andthen (gets ps_aws) (\<lambda>a.
     andthen (catch (on_world (ec2_CreateNatGateway (p_ec2 p)
         \<lparr>cni_SubnetId = aw_PublicSubnetid a, cni_AllocationId = eip,
          cni_TagSpecifications = [(''natgateway'', p_Tags p)]\<rparr>)) (\<lambda>e.
       andthen (log_error (releaseEIP p eip)) (\<lambda>_.
       andthen (set_aws (\<lambda>a. a\<lparr>aw_EIPAllocationid := ''''\<rparr>)) (\<lambda>_.
       fail (''error creating NAT gateway: '' @ e))))) (\<lambda>ngw.
     andthen (set_aws (\<lambda>a. a\<lparr>aw_NatGatewayid := ng_NatGatewayId ngw\<rparr>)) (\<lambda>_.
     nat_wait 60 p (ng_NatGatewayId ngw))))))"

section \<open>Security group\<close>

definition tcp_from :: "32 word \<Rightarrow> 32 word \<Rightarrow> string list \<Rightarrow> IpPermission" where
  "tcp_from lo hi ranges = \<lparr>ip_FromPort = lo, ip_ToPort = hi, ip_IpProtocol = ''tcp'',
     ip_IpRanges = ranges, ip_UserIdGroupPairs = []\<rparr>"

definition from_groups :: "string \<Rightarrow> 32 word \<Rightarrow> 32 word \<Rightarrow> string list \<Rightarrow> IpPermission" where
  "from_groups protocol lo hi groups = \<lparr>ip_FromPort = lo, ip_ToPort = hi, ip_IpProtocol = protocol,
     ip_IpRanges = [], ip_UserIdGroupPairs = groups\<rparr>"

text \<open>The ranges of the specification that are new, in order.\<close>

fun new_ranges :: "string list \<Rightarrow> string list \<Rightarrow> string list" where
  "new_ranges seen [] = []"
| "new_ranges seen (ip # ips) =
     (if ip \<in> set seen then new_ranges seen ips else ip # new_ranges (ip # seen) ips)"

definition ingress_rules :: "string \<Rightarrow> string list \<Rightarrow> IpPermission list" where
  "ingress_rules sg ranges =
     [tcp_from 22 22 ranges, tcp_from 443 443 ranges, tcp_from 6443 6443 ranges,
      from_groups ''tcp'' 0 65535 [sg], from_groups ''udp'' 0 65535 [sg], from_groups ''icmp'' (-1) (-1) [sg]]"

definition createSecurityGroup :: "('s, 'f) Provider \<Rightarrow> ('s pstate, unit) io" where
  "createSecurityGroup p = andthen environment (\<lambda>env. andthen (gets ps_aws) (\<lambda>a.
     andthen (wrap ''error creating security group'' (on_world (ec2_CreateSecurityGroup (p_ec2 p)
       \<lparr>cgi_GroupName = env_Name env, cgi_Description = ''Holodeck managed AWS Cloud Provider'',
        cgi_VpcId = aw_Vpcid a, cgi_TagSpecifications = [(''security-group'', p_Tags p)]\<rparr>))) (\<lambda>sg.
     andthen (set_aws (\<lambda>a. a\<lparr>aw_SecurityGroupid := sg\<rparr>)) (\<lambda>_.
     andthen (wrap ''could not detect public IP for security group (set ingressCidr explicitly)''
       (GetIPAddress p)) (\<lambda>cidr.
     andthen (wrap ''error authorizing security group ingress''
       (on_world (ec2_AuthorizeSecurityGroupIngress (p_ec2 p) sg
         (ingress_rules sg (cidr # new_ranges [cidr] (in_IngressIpRanges (sp_Instance (env_Spec env)))))))) (\<lambda>_.
     ret ()))))))"

section \<open>Instance\<close>

abbreviation storageSizeGB :: "32 word" where
  "storageSizeGB \<equiv> 64"

definition instance_input :: "('s, 'f) Provider \<Rightarrow> Environment \<Rightarrow> AWS \<Rightarrow> string \<Rightarrow> string \<Rightarrow> RunInstancesInput" where
  "instance_input p env a imageID rootDevice =
     \<lparr>rii_ImageId = imageID, rii_InstanceType = in_Type (sp_Instance (env_Spec env)),
      rii_MaxCount = Some 1, rii_MinCount = Some 1, rii_InstanceInitiatedShutdownBehavior = ''terminate'',
      rii_BlockDeviceMappings = [\<lparr>bdm_DeviceName = rootDevice,
        bdm_VolumeSize = (case in_RootVolumeSizeGB (sp_Instance (env_Spec env)) of Some n \<Rightarrow> n | None \<Rightarrow> storageSizeGB),
        bdm_VolumeType = ''gp2''\<rparr>],
      rii_NetworkInterfaces = [\<lparr>nis_AssociatePublicIpAddress = True, nis_DeleteOnTermination = True,
        nis_DeviceIndex = 0, nis_Groups = [aw_SecurityGroupid a], nis_SubnetId = aw_Subnetid a\<rparr>],
      rii_SubnetId = None, rii_KeyName = au_KeyName (sp_Auth (env_Spec env)),
      rii_TagSpecifications = [(''instance'', p_Tags p)]\<rparr>"

text \<open>What follows the start of the instance: wait, note its name, tag and configure its network
  interface (the one of the first output).\<close>

definition first_instance :: "Ec2Instance list list \<Rightarrow> Ec2Instance option" where
  "first_instance rs = (case rs of (inst # _) # _ \<Rightarrow> Some inst | _ \<Rightarrow> None)"

definition no_source_dest_check :: "string \<Rightarrow> ModifyNetworkInterfaceAttributeInput" where
  "no_source_dest_check i = \<lparr>mni_NetworkInterfaceId = i, mni_Groups = [], mni_SourceDestCheck = Some False\<rparr>"

definition configure_instance :: "('s, 'f) Provider \<Rightarrow> Ec2Instance \<Rightarrow> ('s pstate, unit) io" where
  "configure_instance p inst = (let i = ei_InstanceId inst in
     andthen (wrap ''error waiting for instance to be in running state''
       (on_world (pl_WaitRunning (p_platform p) [i] 300))) (\<lambda>_.
     andthen (wrap ''error describing instances'' (on_world (ec2_DescribeInstances (p_ec2 p) [i] []))) (\<lambda>rs.
     case first_instance rs of
       None \<Rightarrow> fail index_panic
     | Some running \<Rightarrow>
         andthen (set_aws (\<lambda>a. a\<lparr>aw_PublicDnsName := ei_PublicDnsName running\<rparr>)) (\<lambda>_.
         case ei_NetworkInterfaces inst of
           [] \<Rightarrow> fail index_panic
         | ni # _ \<Rightarrow>
             andthen (wrap ''fail to tag network to instance''
               (on_world (ec2_CreateTags (p_ec2 p) [nif_NetworkInterfaceId ni] (p_Tags p)))) (\<lambda>_.
             wrap ''error disabling source/dest check''
               (on_world (ec2_ModifyNetworkInterfaceAttribute (p_ec2 p)
                 (no_source_dest_check (nif_NetworkInterfaceId ni)))))))))"

definition createEC2Instance :: "('s, 'f) Provider \<Rightarrow> ('s pstate, unit) io" where
  "createEC2Instance p =
     andthen (wrap ''error getting AMI'' (setAMI p)) (\<lambda>_.
     andthen environment (\<lambda>env. andthen (gets ps_aws) (\<lambda>a.
     case img_ImageId (env_image env) of
       None \<Rightarrow> fail ''panic: nil pointer dereference''
     | Some imageID \<Rightarrow>
         andthen (wrap ''error getting root device name'' (describeImageRootDevice p imageID)) (\<lambda>rootDevice.
         andthen (wrap ''error creating instance'' (on_world (ec2_RunInstances (p_ec2 p)
           (instance_input p env a imageID rootDevice)))) (\<lambda>insts.
         case insts of
           [] \<Rightarrow> fail index_panic
         | inst # _ \<Rightarrow>
             andthen (set_aws (\<lambda>a. a\<lparr>aw_Instanceid := ei_InstanceId inst\<rparr>)) (\<lambda>_.
             configure_instance p inst))))))"

end
