(* ===== verification/Cluster.thy ===== *)
theory Cluster
  imports Create_Steps
begin

text \<open>
  \<open>pkg/provider/aws/cluster.go\<close>: the creation of a multinode cluster. The ids are noted in the
  \<open>ClusterCache\<close> of the state. Instances are created by goroutines, here one after the other in the
  order of the scheduler; their results arrive in that order.
\<close>

section \<open>Security groups\<close>

text \<open>The port constants.\<close>

abbreviation "portSSH \<equiv> 22 :: 32 word"
abbreviation "portK8sAPI \<equiv> 6443 :: 32 word"
abbreviation "portKubelet \<equiv> 10250 :: 32 word"
abbreviation "portKubeScheduler \<equiv> 10259 :: 32 word"
abbreviation "portKubeController \<equiv> 10257 :: 32 word"
abbreviation "portEtcdClient \<equiv> 2379 :: 32 word"
abbreviation "portEtcdPeer \<equiv> 2380 :: 32 word"
abbreviation "portCalicoVXLAN \<equiv> 4789 :: 32 word"
abbreviation "portCalicoBGP \<equiv> 179 :: 32 word"
abbreviation "portCalicoTypha \<equiv> 5473 :: 32 word"
abbreviation "portNodePortStart \<equiv> 30000 :: 32 word"
abbreviation "portNodePortEnd \<equiv> 32767 :: 32 word"

definition range_rule :: "string \<Rightarrow> 32 word \<Rightarrow> 32 word \<Rightarrow> string list \<Rightarrow> IpPermission" where
  "range_rule protocol lo hi ranges = \<lparr>ip_FromPort = lo, ip_ToPort = hi, ip_IpProtocol = protocol,
     ip_IpRanges = ranges, ip_UserIdGroupPairs = []\<rparr>"

abbreviation group_port :: "string \<Rightarrow> 32 word \<Rightarrow> string list \<Rightarrow> IpPermission" where
  "group_port protocol port groups \<equiv> from_groups protocol port port groups"

definition cp_permissions :: "string \<Rightarrow> string list \<Rightarrow> IpPermission list" where
  "cp_permissions cp caller =
     [range_rule ''tcp'' portSSH portSSH caller,
      range_rule ''tcp'' portK8sAPI portK8sAPI (caller @ [''10.0.1.0/24'']),
      from_groups ''tcp'' portEtcdClient portEtcdPeer [cp],
      group_port ''tcp'' portKubelet [cp],
      group_port ''tcp'' portKubeController [cp],
      group_port ''tcp'' portKubeScheduler [cp],
      group_port ''udp'' portCalicoVXLAN [cp],
      group_port ''tcp'' portCalicoBGP [cp],
      group_port ''tcp'' portCalicoTypha [cp],
      range_rule ''icmp'' (-1) (-1) [''10.0.0.0/16'']]"

definition worker_permissions :: "string \<Rightarrow> string \<Rightarrow> string list \<Rightarrow> IpPermission list" where
  "worker_permissions cp worker caller =
     [range_rule ''tcp'' portSSH portSSH caller,
      group_port ''tcp'' portKubelet [cp],
      range_rule ''tcp'' portNodePortStart portNodePortEnd [''0.0.0.0/0''],
      range_rule ''udp'' portNodePortStart portNodePortEnd [''0.0.0.0/0''],
      group_port ''udp'' portCalicoVXLAN [cp, worker],
      group_port ''tcp'' portCalicoBGP [cp, worker],
      group_port ''tcp'' portCalicoTypha [cp, worker],
      range_rule ''icmp'' (-1) (-1) [''10.0.0.0/16'']]"

definition cp_cross_refs :: "string \<Rightarrow> IpPermission list" where
  "cp_cross_refs worker =
     [group_port ''tcp'' portK8sAPI [worker], group_port ''tcp'' portKubelet [worker],
      group_port ''udp'' portCalicoVXLAN [worker], group_port ''tcp'' portCalicoBGP [worker],
      group_port ''tcp'' portCalicoTypha [worker]]"

definition getCallerIPRanges :: "('s, 'f) Provider \<Rightarrow> ('s pstate, string list) io" where
  "getCallerIPRanges p = andthen (wrap ''error getting IP address'' (GetIPAddress p)) (\<lambda>ip. ret [ip])"

definition authorize :: "('s, 'f) Provider \<Rightarrow> string \<Rightarrow> string \<Rightarrow> IpPermission list \<Rightarrow> ('s pstate, unit) io" where
  "authorize p text sg permissions =
     andthen (wrap text (on_world (ec2_AuthorizeSecurityGroupIngress (p_ec2 p) sg permissions))) (\<lambda>_. ret ())"

definition createControlPlaneSecurityGroup :: "('s, 'f) Provider \<Rightarrow> ('s pstate, unit) io" where
  "createControlPlaneSecurityGroup p = andthen environment (\<lambda>env. andthen (gets ps_aws) (\<lambda>a.
     andthen (wrap ''error creating control-plane security group'' (on_world (ec2_CreateSecurityGroup (p_ec2 p)
       \<lparr>cgi_GroupName = env_Name env @ ''-cp'', cgi_Description = ''Holodeck managed control-plane security group'',
        cgi_VpcId = aw_Vpcid a, cgi_TagSpecifications = [(''security-group'', p_Tags p)]\<rparr>))) (\<lambda>sg.
     andthen (set_aws (\<lambda>a. a\<lparr>aw_CPSecurityGroupid := sg, aw_SecurityGroupid := sg\<rparr>)) (\<lambda>_.
     andthen (getCallerIPRanges p) (\<lambda>caller.
     authorize p ''error authorizing control-plane security group ingress'' sg (cp_permissions sg caller))))))"

definition createWorkerSecurityGroup :: "('s, 'f) Provider \<Rightarrow> ('s pstate, unit) io" where
  "createWorkerSecurityGroup p = andthen environment (\<lambda>env. andthen (gets ps_aws) (\<lambda>a.
     let cp = aw_CPSecurityGroupid a in
     if cp = '''' then fail ''control-plane security group must be created before worker security group''
     else
     andthen (wrap ''error creating worker security group'' (on_world (ec2_CreateSecurityGroup (p_ec2 p)
       \<lparr>cgi_GroupName = env_Name env @ ''-worker'', cgi_Description = ''Holodeck managed worker security group'',
        cgi_VpcId = aw_Vpcid a, cgi_TagSpecifications = [(''security-group'', p_Tags p)]\<rparr>))) (\<lambda>sg.
     andthen (set_aws (\<lambda>a. a\<lparr>aw_WorkerSecurityGroupid := sg\<rparr>)) (\<lambda>_.
     andthen (getCallerIPRanges p) (\<lambda>caller.
     andthen (authorize p ''error authorizing worker security group ingress'' sg (worker_permissions cp sg caller)) (\<lambda>_.
     authorize p ''error adding worker cross-references to control-plane security group'' cp (cp_cross_refs sg)))))))"

section \<open>Instances\<close>

abbreviation "NodeRoleControlPlane \<equiv> ''control-plane''"
abbreviation "NodeRoleWorker \<equiv> ''worker''"

text \<open>What the goroutines of one node pool share.\<close>

record node_pool =
  np_role :: string
  np_instanceType :: string
  np_imageID :: string
  np_rootDevice :: string
  np_volumeSize :: "32 word"
  np_username :: string

definition instance_name :: "Environment \<Rightarrow> string \<Rightarrow> nat \<Rightarrow> string" where
  "instance_name env role i = env_Name env @ ''-'' @ role @ ''-'' @ decimal i"

definition node_tags :: "tag list \<Rightarrow> Environment \<Rightarrow> string \<Rightarrow> nat \<Rightarrow> tag list" where
  "node_tags tags env role i = filter (\<lambda>(k, v). k \<noteq> ''Name'') tags
     @ [(''Role'', role), (''NodeIndex'', decimal i), (''Name'', instance_name env role i)]"

definition node_group :: "AWS \<Rightarrow> string \<Rightarrow> string" where
  "node_group a role =
     (if role = NodeRoleControlPlane \<and> aw_CPSecurityGroupid a \<noteq> '''' then aw_CPSecurityGroupid a
      else if role = NodeRoleWorker \<and> aw_WorkerSecurityGroupid a \<noteq> '''' then aw_WorkerSecurityGroupid a
      else aw_SecurityGroupid a)"

definition node_input :: "('s, 'f) Provider \<Rightarrow> Environment \<Rightarrow> AWS \<Rightarrow> node_pool \<Rightarrow> nat \<Rightarrow> RunInstancesInput" where
  "node_input p env a pool i =
     \<lparr>rii_ImageId = np_imageID pool, rii_InstanceType = np_instanceType pool,
      rii_MaxCount = Some 1, rii_MinCount = Some 1, rii_InstanceInitiatedShutdownBehavior = ''terminate'',
      rii_BlockDeviceMappings = [\<lparr>bdm_DeviceName = np_rootDevice pool,
        bdm_VolumeSize = np_volumeSize pool, bdm_VolumeType = ''gp2''\<rparr>],
      rii_NetworkInterfaces = [\<lparr>nis_AssociatePublicIpAddress = True, nis_DeleteOnTermination = True,
        nis_DeviceIndex = 0, nis_Groups = [node_group a (np_role pool)], nis_SubnetId = aw_PublicSubnetid a\<rparr>],
      rii_SubnetId = None, rii_KeyName = au_KeyName (sp_Auth (env_Spec env)),
      rii_TagSpecifications = [(''instance'', node_tags (p_Tags p) env (np_role pool) i)]\<rparr>"

definition instance_info :: "node_pool \<Rightarrow> string \<Rightarrow> string \<Rightarrow> Ec2Instance \<Rightarrow> InstanceInfo" where
  "instance_info pool name i inst =
     \<lparr>ii_InstanceID = i, ii_PublicIP = ei_PublicIpAddress inst, ii_PrivateIP = ei_PrivateIpAddress inst,
      ii_PublicDNS = ei_PublicDnsName inst,
      ii_NetworkInterface = (case ei_NetworkInterfaces inst of ni # _ \<Rightarrow> nif_NetworkInterfaceId ni | [] \<Rightarrow> ''''),
      ii_Role = np_role pool, ii_Name = name, ii_SSHUsername = np_username pool\<rparr>"

text \<open>The body of one goroutine: its value goes to the channel of instances, its error to the other.\<close>

definition create_node :: "('s, 'f) Provider \<Rightarrow> node_pool \<Rightarrow> nat \<Rightarrow> ('s pstate, InstanceInfo) io" where
  "create_node p pool i = andthen environment (\<lambda>env. andthen (gets ps_aws) (\<lambda>a.
     let name = instance_name env (np_role pool) i in
     andthen (wrap (''error creating instance '' @ name)
       (on_world (ec2_RunInstances (p_ec2 p) (node_input p env a pool i)))) (\<lambda>insts.
     case insts of
       [] \<Rightarrow> fail index_panic
     | inst # _ \<Rightarrow> let iid = ei_InstanceId inst in
         andthen (wrap (''error waiting for instance '' @ name)
           (on_world (pl_WaitRunning (p_platform p) [iid] 300))) (\<lambda>_.
         andthen (wrap (''error describing instance '' @ name)
           (on_world (ec2_DescribeInstances (p_ec2 p) [iid] []))) (\<lambda>rs.
         case first_instance rs of
           None \<Rightarrow> fail index_panic
         | Some running \<Rightarrow>
             let info = instance_info pool name iid running in
             andthen (if ii_NetworkInterface info \<noteq> ''''
                then log_error (on_world (ec2_CreateTags (p_ec2 p) [ii_NetworkInterface info]
                       (node_tags (p_Tags p) env (np_role pool) i)))
                else ret ()) (\<lambda>_. ret info))))))"

text \<open>The two channels, filled in the order of the goroutines.\<close>

fun gather :: "('x \<Rightarrow> ('s, 'v) io) \<Rightarrow> 'x list \<Rightarrow> ('s, error list \<times> 'v list) io" where
  "gather f [] = ret ([], [])"
| "gather f (x # xs) = andthen (attempt (f x)) (\<lambda>r. andthen (gather f xs) (\<lambda>(errs, vs).
     ret (case r of Inl e \<Rightarrow> (e # errs, vs) | Inr v \<Rightarrow> (errs, v # vs))))"

text \<open>The username is kept if it is set, and taken from the image otherwise.\<close>

definition set_username :: "string \<Rightarrow> ('s pstate, unit) io" where
  "set_username u = set_env (\<lambda>env. let sp = env_Spec env; au = sp_Auth sp in
     if au_Username au = '''' \<and> u \<noteq> ''''
     then env\<lparr>env_Spec := sp\<lparr>sp_Auth := au\<lparr>au_Username := u\<rparr>\<rparr>\<rparr> else env)"

definition pool_arch :: "('s, 'f) Provider \<Rightarrow> string \<Rightarrow> Image option \<Rightarrow> ('s pstate, string) io" where
  "pool_arch p instanceType img =
     (let arch = (case img of Some im \<Rightarrow> img_Architecture im | None \<Rightarrow> '''') in
      if arch \<noteq> '''' then ret arch
      else catch (inferArchFromInstanceType p instanceType) (\<lambda>e. fail
        (''failed to infer architecture from instance type '' @ instanceType @ '': '' @ e
         @ ''; set spec.image.architecture explicitly to override'')))"

definition create_pool :: "('s, 'f) Provider \<Rightarrow> nat \<Rightarrow> node_pool \<Rightarrow> ('s pstate, InstanceInfo list) io" where
  "create_pool p count pool =
     andthen (gather (create_node p pool) (pl_Schedule (p_platform p) count)) (\<lambda>(errs, infos).
     if errs \<noteq> [] then fail (''errors creating instances: '' @ sep_by [CHR 0x0A] errs) else ret infos)"

definition createInstances :: "('s, 'f) Provider \<Rightarrow> int \<Rightarrow> string \<Rightarrow> string \<Rightarrow> int32 option \<Rightarrow> string
    \<Rightarrow> Image option \<Rightarrow> ('s pstate, InstanceInfo list) io" where
  "createInstances p count role instanceType rootVolumeSizeGB os img =
     andthen (pool_arch p instanceType img) (\<lambda>arch.
     andthen (wrap ''error resolving AMI'' (resolveImageForNode p os img arch)) (\<lambda>resolved.
     andthen (set_username (ri_SSHUsername resolved)) (\<lambda>_.
     andthen (wrap ''error getting root device name'' (describeImageRootDevice p (ri_ImageID resolved))) (\<lambda>rootDevice.
     if count < 0 then fail ''panic: makechan: size out of range''
     else create_pool p (nat count)
       \<lparr>np_role = role, np_instanceType = instanceType, np_imageID = ri_ImageID resolved,
        np_rootDevice = rootDevice,
        np_volumeSize = (case rootVolumeSizeGB of Some n \<Rightarrow> n | None \<Rightarrow> storageSizeGB),
        np_username = ri_SSHUsername resolved\<rparr>))))"

definition createControlPlaneInstances :: "('s, 'f) Provider \<Rightarrow> ClusterSpec \<Rightarrow> ('s pstate, unit) io" where
  "createControlPlaneInstances p c = (let cp = cl_ControlPlane c in
     andthen (createInstances p (sint (cp_Count cp)) NodeRoleControlPlane (cp_InstanceType cp)
       (cp_RootVolumeSizeGB cp) (cp_OS cp) (cp_Image cp)) (\<lambda>instances.
     andthen (set_cache (\<lambda>cache. cache\<lparr>cc_ControlPlaneInstances := instances\<rparr>)) (\<lambda>_.
     case instances of
       inst # _ \<Rightarrow> set_aws (\<lambda>a. a\<lparr>aw_Instanceid := ii_InstanceID inst, aw_PublicDnsName := ii_PublicDNS inst\<rparr>)
     | [] \<Rightarrow> ret ())))"

definition createWorkerInstances :: "('s, 'f) Provider \<Rightarrow> ClusterSpec \<Rightarrow> ('s pstate, unit) io" where
  "createWorkerInstances p c = (case cl_Workers c of
       None \<Rightarrow> ret ()
     | Some w \<Rightarrow>
         if wp_Count w = 0 then ret ()
         else andthen (createInstances p (sint (wp_Count w)) NodeRoleWorker (wp_InstanceType w)
            (wp_RootVolumeSizeGB w) (wp_OS w) (wp_Image w)) (\<lambda>instances.
           set_cache (\<lambda>cache. cache\<lparr>cc_WorkerInstances := instances\<rparr>)))"

text \<open>The goroutines of an error group: all run, and the first error is returned.\<close>

definition disable_check :: "('s, 'f) Provider \<Rightarrow> InstanceInfo \<Rightarrow> ('s pstate, unit) io" where
  "disable_check p inst = wrap (''error disabling source/dest check on '' @ ii_Name inst)
     (on_world (ec2_ModifyNetworkInterfaceAttribute (p_ec2 p) (no_source_dest_check (ii_NetworkInterface inst))))"

definition disableSourceDestCheck :: "('s, 'f) Provider \<Rightarrow> ('s pstate, unit) io" where
  "disableSourceDestCheck p = andthen (gets ps_cache) (\<lambda>cache.
     let insts = filter (\<lambda>inst. ii_NetworkInterface inst \<noteq> '''')
           (cc_ControlPlaneInstances cache @ cc_WorkerInstances cache) in
     andthen (gather (\<lambda>k. disable_check p (insts ! k)) (pl_Schedule (p_platform p) (length insts))) (\<lambda>(errs, _).
     case errs of e # _ \<Rightarrow> fail e | [] \<Rightarrow> ret ()))"

section \<open>Status\<close>

definition ready_node :: "InstanceInfo \<Rightarrow> NodeStatus" where
  "ready_node inst = \<lparr>ns_Name = ii_Name inst, ns_Role = ii_Role inst, ns_InstanceID = ii_InstanceID inst,
     ns_PublicIP = ii_PublicIP inst, ns_PrivateIP = ii_PrivateIP inst,
     ns_SSHUsername = ii_SSHUsername inst, ns_Phase = ''Ready'', ns_Message = ''''\<rparr>"

definition cluster_status :: "ClusterCache \<Rightarrow> ClusterStatus" where
  "cluster_status cache =
     (let nodes = map ready_node (cc_ControlPlaneInstances cache @ cc_WorkerInstances cache);
          n = word_of_nat (length nodes); dns = cc_LoadBalancerDNS cache
      in \<lparr>cs_Nodes = nodes,
          cs_ControlPlaneEndpoint = (if dns \<noteq> '''' then dns else aw_PublicDnsName (cc_AWS cache)),
          cs_LoadBalancerDNS = dns, cs_TotalNodes = n, cs_ReadyNodes = n, cs_Phase = ''Ready''\<rparr>)"

definition updateClusterStatus :: "('s, 'f) Provider \<Rightarrow> ('s pstate, unit) io" where
  "updateClusterStatus p = andthen (gets ps_cache) (\<lambda>cache.
     andthen (set_env (\<lambda>env. env\<lparr>env_Status := (env_Status env)\<lparr>st_Cluster := Some (cluster_status cache)\<rparr>\<rparr>)) (\<lambda>_.
     updateAvailableCondition p (cc_AWS cache)))"

section \<open>The creation of a cluster\<close>

definition isHAEnabled :: "Environment \<Rightarrow> bool" where
  "isHAEnabled env = (case sp_Cluster (env_Spec env) of
       Some c \<Rightarrow> (case cl_HighAvailability c of Some ha \<Rightarrow> ha_Enabled ha | None \<Rightarrow> False)
     | None \<Rightarrow> False)"

definition createLoadBalancer :: "('s, 'f) Provider \<Rightarrow> ('s pstate, unit) io" where
  "createLoadBalancer p = andthen (wrap ''error creating NLB'' (createNLB p)) (\<lambda>_.
     wrap ''error creating target group'' (createTargetGroup p))"

text \<open>One phase: on failure the status becomes degraded; a status that cannot be written is ignored.\<close>

definition progressed :: "('s, 'f) Provider \<Rightarrow> string \<Rightarrow> ('s pstate, unit) io" where
  "progressed p message = andthen (gets ps_aws) (\<lambda>a.
     log_error (updateProgressingCondition p a reason_creating message))"

definition degraded :: "('s, 'f) Provider \<Rightarrow> string \<Rightarrow> ('s pstate, unit) io" where
  "degraded p message = andthen (gets ps_aws) (\<lambda>a.
     log_error (updateDegradedCondition p a reason_creating message))"

definition phase :: "('s, 'f) Provider \<Rightarrow> string \<Rightarrow> string \<Rightarrow> ('s pstate, unit) io \<Rightarrow> ('s pstate, unit) io" where
  "phase p message text m = catch m (\<lambda>e. andthen (degraded p message) (\<lambda>_. fail (text @ '': '' @ e)))"

definition made :: "('s, 'f) Provider \<Rightarrow> string \<Rightarrow> string \<Rightarrow> ('s pstate, unit) io \<Rightarrow> ('s pstate, unit) io" where
  "made p what message m = andthen (phase p (''Error creating '' @ what) (''error creating '' @ what) m)
     (\<lambda>_. progressed p message)"

definition create_cluster :: "('s, 'f) Provider \<Rightarrow> ClusterSpec \<Rightarrow> bool \<Rightarrow> ('s pstate, unit) io" where
  "create_cluster p c ha =
     andthen (made p ''VPC'' ''VPC created'' (createVPC p)) (\<lambda>_.
     andthen (made p ''subnet'' ''Subnet created'' (createSubnet p)) (\<lambda>_.
     andthen (made p ''Internet Gateway'' ''Internet Gateway created'' (createInternetGateway p)) (\<lambda>_.
     andthen (made p ''public subnet'' ''Public subnet created'' (createPublicSubnet p)) (\<lambda>_.
     andthen (made p ''public route table'' ''Public route table created'' (createPublicRouteTable p)) (\<lambda>_.
     andthen (made p ''control-plane security group'' ''Control-plane Security Group created''
       (createControlPlaneSecurityGroup p)) (\<lambda>_.
     andthen (made p ''worker security group'' ''Worker Security Group created'' (createWorkerSecurityGroup p)) (\<lambda>_.
     andthen (if ha then made p ''load balancer'' ''Load Balancer created'' (createLoadBalancer p) else ret ()) (\<lambda>_.
     andthen (made p ''control-plane instances'' ''Control-plane instances created''
       (createControlPlaneInstances p c)) (\<lambda>_.
     andthen (if ha then phase p ''Error registering targets'' ''error registering load balancer targets'' (registerTargets p)
       else ret ()) (\<lambda>_.
     andthen (case cl_Workers c of
         Some w \<Rightarrow> if sint (wp_Count w) > 0
           then made p ''worker instances'' ''Worker instances created'' (createWorkerInstances p c) else ret ()
       | None \<Rightarrow> ret ()) (\<lambda>_.
     andthen (phase p ''Error disabling source/dest check'' ''error disabling source/destination check''
       (disableSourceDestCheck p)) (\<lambda>_.
     andthen (progressed p ''Source/Destination Check disabled'') (\<lambda>_.
     wrap ''error updating cluster status'' (updateClusterStatus p))))))))))))))"

definition CreateCluster :: "('s, 'f) Provider \<Rightarrow> ('s pstate, unit) io" where
  "CreateCluster p = andthen environment (\<lambda>env.
     case sp_Cluster (env_Spec env) of
       None \<Rightarrow> fail ''cluster spec not defined, use Create() for single-node''
     | Some c \<Rightarrow>
         andthen (wrap ''pre-flight check failed'' (checkInstanceTypes p)) (\<lambda>_.
         andthen (set_cache (\<lambda>_. zero_ClusterCache zero_AWS)) (\<lambda>_.
         andthen (progressed p ''Creating multinode cluster resources'') (\<lambda>_.
         create_cluster p c (isHAEnabled env)))))"

end
