(* ===== verification/Create.thy ===== *)
theory Create
  imports Cluster
begin

text \<open>
  \<open>Create\<close> of \<open>pkg/provider/aws/create.go\<close>: the creation of a single-node environment with its stack
  of cleanups, which a failure runs in reverse order, and the dispatch to \<open>CreateCluster\<close>.

  A cleanup reads the cache when it runs. Its deletion gets a fresh cache with the ids it needs, and
  that is also the cache that the status updates inside the deletion save.
\<close>

section \<open>Steps with their cleanups\<close>

type_synonym 's cleanup = "('s pstate, unit) io"

definition cleanup_VPC :: "('s, 'f) Provider \<Rightarrow> 's cleanup" where
  "cleanup_VPC p = andthen (gets ps_aws) (\<lambda>a. deleteVPC p (zero_AWS\<lparr>aw_Vpcid := aw_Vpcid a\<rparr>))"

definition cleanup_subnet :: "('s, 'f) Provider \<Rightarrow> 's cleanup" where
  "cleanup_subnet p = andthen (gets ps_aws) (\<lambda>a. deleteSubnet p (zero_AWS\<lparr>aw_Subnetid := aw_Subnetid a\<rparr>))"

definition cleanup_gateway :: "('s, 'f) Provider \<Rightarrow> 's cleanup" where
  "cleanup_gateway p = andthen (gets ps_aws) (\<lambda>a.
     deleteInternetGateway p (zero_AWS\<lparr>aw_InternetGwid := aw_InternetGwid a, aw_Vpcid := aw_Vpcid a\<rparr>))"

definition cleanup_route_table :: "('s, 'f) Provider \<Rightarrow> 's cleanup" where
  "cleanup_route_table p = andthen (gets ps_aws) (\<lambda>a.
     deleteRouteTable p (zero_AWS\<lparr>aw_RouteTable := aw_RouteTable a, aw_Vpcid := aw_Vpcid a\<rparr>))"

definition cleanup_group :: "('s, 'f) Provider \<Rightarrow> 's cleanup" where
  "cleanup_group p = andthen (gets ps_aws) (\<lambda>a.
     andthen (deleteSecurityGroups p (zero_AWS\<lparr>aw_SecurityGroupid := aw_SecurityGroupid a\<rparr>)) (\<lambda>_. ret ()))"

text \<open>A step: what it creates, the creation, the message of the status after it, and its cleanup.\<close>

record 's creation =
  cr_what :: string
  cr_create :: "('s pstate, unit) io"
  cr_message :: string
  cr_cleanup :: "'s cleanup"

definition creations :: "('s, 'f) Provider \<Rightarrow> 's creation list" where
  "creations p =
     [\<lparr>cr_what = ''VPC'', cr_create = createVPC p, cr_message = ''VPC created'', cr_cleanup = cleanup_VPC p\<rparr>,
      \<lparr>cr_what = ''subnet'', cr_create = createSubnet p, cr_message = ''Subnet created'',
       cr_cleanup = cleanup_subnet p\<rparr>,
      \<lparr>cr_what = ''Internet Gateway'', cr_create = createInternetGateway p,
       cr_message = ''Internet Gateway created'', cr_cleanup = cleanup_gateway p\<rparr>,
      \<lparr>cr_what = ''route table'', cr_create = createRouteTable p, cr_message = ''Route Table created'',
       cr_cleanup = cleanup_route_table p\<rparr>,
      \<lparr>cr_what = ''security group'', cr_create = createSecurityGroup p, cr_message = ''Security Group created'',
       cr_cleanup = cleanup_group p\<rparr>]"

text \<open>The steps in order, up to the first that fails, with the stack of cleanups (the last one
  first) and the error.\<close>

fun build :: "('s, 'f) Provider \<Rightarrow> 's creation list \<Rightarrow> 's cleanup list
    \<Rightarrow> ('s pstate, error option \<times> 's cleanup list) io" where
  "build p [] stack = ret (None, stack)"
| "build p (c # cs) stack = andthen (attempt (cr_create c)) (\<lambda>r.
     case r of
       Inl e \<Rightarrow> andthen (degraded p (''Error creating '' @ cr_what c)) (\<lambda>_.
         ret (Some (''error creating '' @ cr_what c @ '': '' @ e), stack))
     | Inr _ \<Rightarrow> andthen (progressed p (cr_message c)) (\<lambda>_. build p cs (cr_cleanup c # stack)))"

definition rollback :: "'s cleanup list \<Rightarrow> ('s pstate, unit) io" where
  "rollback stack = for_each log_error stack"

definition rolled_back :: "'s cleanup list \<Rightarrow> error \<Rightarrow> ('s pstate, unit) io" where
  "rolled_back stack e = andthen (rollback stack) (\<lambda>_. fail e)"

section \<open>Create\<close>

text \<open>The instance has no cleanup of its own.\<close>

definition start_instance :: "('s, 'f) Provider \<Rightarrow> 's cleanup list \<Rightarrow> ('s pstate, unit) io" where
  "start_instance p stack =
     andthen (catch (createEC2Instance p) (\<lambda>e. andthen (degraded p ''Error creating EC2 instance'') (\<lambda>_.
       rolled_back stack (''error creating EC2 instance: '' @ e)))) (\<lambda>_.
     andthen (gets ps_aws) (\<lambda>a.
     catch (updateAvailableCondition p a) (\<lambda>e. rolled_back stack (''error creating cache file: '' @ e))))"

definition create_single_node :: "('s, 'f) Provider \<Rightarrow> ('s pstate, unit) io" where
  "create_single_node p =
     andthen (wrap ''pre-flight check failed'' (checkInstanceTypes p)) (\<lambda>_.
     andthen (set_cache (\<lambda>_. zero_ClusterCache zero_AWS)) (\<lambda>_.
     andthen (progressed p ''Creating AWS resources'') (\<lambda>_.
     andthen (build p (creations p) []) (\<lambda>(failed, stack).
     case failed of
       Some e \<Rightarrow> rolled_back stack e
     | None \<Rightarrow> start_instance p stack))))"

definition Create :: "('s, 'f) Provider \<Rightarrow> ('s pstate, unit) io" where
  "Create p = andthen environment (\<lambda>env. if IsMultinode env then CreateCluster p else create_single_node p)"

end
