(* ===== verification/Build_Contract.thy ===== *)
theory Build_Contract
  imports Contract_Delete Create Status_Props
begin

text \<open>
  The contract of an account that the provider also creates resources in, and what follows for
  \<open>Create\<close>: whatever fails on the way, every resource that it has created and not removed is named
  in its cache.

  The laws of the creating operations say that at most the resource of the output is new, and
  nothing if the operation fails. \<open>tracked\<close> is the invariant of a creation, \<open>tracks\<close> its
  preservation by a program that fills in some of the fields that were still empty.
\<close>

section \<open>The contract\<close>

definition adds :: "('s \<Rightarrow> bool) \<Rightarrow> ('s \<Rightarrow> resource set) \<Rightarrow> ('a \<Rightarrow> 's \<Rightarrow> resource set) \<Rightarrow> ('s, 'a) io \<Rightarrow> bool" where
  "adds ok live A m \<longleftrightarrow> (\<forall>s res s'. ok s \<longrightarrow> m s = (res, s') \<longrightarrow>
     ok s' \<and> live s' \<subseteq> live s \<union> enis \<union> (case res of Inl _ \<Rightarrow> {} | Inr v \<Rightarrow> A v s'))"

definition first_named :: "Ec2Instance list \<Rightarrow> resource set" where
  "first_named insts = (case insts of inst # _ \<Rightarrow> named K_instance (ei_InstanceId inst) | [] \<Rightarrow> {})"

locale aws_builder = aws_contract p ok live
  for p :: "('s, 'f) Provider" and ok :: "'s \<Rightarrow> bool" and live :: "'s \<Rightarrow> resource set" +
  assumes CreateVpc: "adds ok live (\<lambda>v _. named K_vpc (vpc_VpcId v)) (ec2_CreateVpc (p_ec2 p) vi)"
    and CreateSubnet: "adds ok live (\<lambda>v _. named K_subnet (sn_SubnetId v)) (ec2_CreateSubnet (p_ec2 p) si)"
    and CreateInternetGateway: "adds ok live (\<lambda>gw s. named K_igw (igw_InternetGatewayId (gw s)))
        (ec2_CreateInternetGateway (p_ec2 p) tags)"
    and CreateRouteTable:
      "adds ok live (\<lambda>v _. named K_rtb (rt_RouteTableId v)) (ec2_CreateRouteTable (p_ec2 p) i tags)"
    and CreateSecurityGroup: "adds ok live (\<lambda>v _. named K_sg v) (ec2_CreateSecurityGroup (p_ec2 p) gi)"
    and RunInstances: "rii_MinCount ri = Some 1 \<Longrightarrow> rii_MaxCount ri = Some 1 \<Longrightarrow>
        adds ok live (\<lambda>insts _. first_named insts) (ec2_RunInstances (p_ec2 p) ri)"
    and ModifyVpcAttribute: "pres (sheds ok live enis) (ec2_ModifyVpcAttribute (p_ec2 p) i b)"
    and AttachInternetGateway: "pres (sheds ok live enis) (ec2_AttachInternetGateway (p_ec2 p) i v)"
    and AssociateRouteTable: "pres (sheds ok live enis) (ec2_AssociateRouteTable (p_ec2 p) i v)"
    and CreateRoute: "pres (sheds ok live enis) (ec2_CreateRoute (p_ec2 p) rin)"
    and AuthorizeSecurityGroupIngress:
      "pres (sheds ok live enis) (ec2_AuthorizeSecurityGroupIngress (p_ec2 p) i perms)"
    and CreateTags: "pres (sheds ok live enis) (ec2_CreateTags (p_ec2 p) ids tg)"
    and ModifyNetworkInterfaceAttribute:
      "pres (sheds ok live enis) (ec2_ModifyNetworkInterfaceAttribute (p_ec2 p) ni)"
    and DescribeImages: "pres (sheds ok live enis) (ec2_DescribeImages (p_ec2 p) ii)"
    and DescribeInstanceTypes: "pres (sheds ok live enis) (ec2_DescribeInstanceTypes (p_ec2 p) ids tok)"
    and GetParameter: "pres (sheds ok live enis) (ssm_GetParameter (p_ssm p) i)"
    and HttpGet: "pres (sheds ok live enis) (pl_HttpGet (p_platform p) url n)"
    and WaitRunning: "pres (sheds ok live enis) (pl_WaitRunning (p_platform p) ids n)"
    and resolver: "rv_ec2Client (p_amiResolver p) = p_ec2 p"
      "rv_ssmClient (p_amiResolver p) = None \<or> rv_ssmClient (p_amiResolver p) = Some (p_ssm p)"

section \<open>The invariant\<close>

text \<open>The resources that a cache names.\<close>

definition mine :: "AWS \<Rightarrow> resource set" where
  "mine a = owned_groups a \<union> owned_network a \<union> named K_instance (aw_Instanceid a)"

lemma mine_zero [simp]: "mine zero_AWS = {}"
  by (simp add: mine_def owned_groups_def owned_network_def zero_AWS_def named_def)

lemma mine_owned: "mine a \<subseteq> owned env a"
  by (auto simp: mine_def owned_def owned_instances_def instances_to_delete_def Let_def named_def)

definition tracked :: "('s \<Rightarrow> bool) \<Rightarrow> ('s \<Rightarrow> resource set) \<Rightarrow> resource set \<Rightarrow> EnvironmentStatus
    \<Rightarrow> (AWS \<Rightarrow> string) set \<Rightarrow> 's pstate \<Rightarrow> bool" where
  "tracked ok live L st F ps \<longleftrightarrow> ok (ps_world ps) \<and> live (ps_world ps) \<subseteq> L \<union> mine (ps_aws ps) \<union> enis
     \<and> env_Status (ps_Environment ps) = st \<and> (\<forall>f \<in> F. f (ps_aws ps) = '''')"

definition tracks :: "('s \<Rightarrow> bool) \<Rightarrow> ('s \<Rightarrow> resource set) \<Rightarrow> resource set \<Rightarrow> EnvironmentStatus
    \<Rightarrow> (AWS \<Rightarrow> string) set \<Rightarrow> (AWS \<Rightarrow> string) set \<Rightarrow> ('s pstate, 'a) io \<Rightarrow> bool" where
  "tracks ok live L st F F' m \<longleftrightarrow>
     (\<forall>s r s'. tracked ok live L st F s \<longrightarrow> m s = (r, s') \<longrightarrow> tracked ok live L st F' s')"

lemma tracked_mono: "tracked ok live L st F s \<Longrightarrow> F' \<subseteq> F \<Longrightarrow> tracked ok live L st F' s"
  by (auto simp: tracked_def)

lemma tracksI: "(\<And>s r s'. tracked ok live L st F s \<Longrightarrow> m s = (r, s') \<Longrightarrow> tracked ok live L st F' s') \<Longrightarrow>
    tracks ok live L st F F' m"
  by (simp add: tracks_def)

lemma tracksD: "tracks ok live L st F F' m \<Longrightarrow> m s = (r, s') \<Longrightarrow> tracked ok live L st F s \<Longrightarrow>
    tracked ok live L st F' s'"
  by (auto simp: tracks_def)

lemma tracks_mono: "tracks ok live L st F F' m \<Longrightarrow> F'' \<subseteq> F' \<Longrightarrow> tracks ok live L st F F'' m"
  by (meson tracksI tracksD tracked_mono)

lemma tracks_same:
  "tracks ok live L st F F (ret v)" "tracks ok live L st F F (fail e)" "tracks ok live L st F F (gets h)"
  "tracks ok live L st F F environment"
  by (auto simp: tracks_def ret_def fail_def gets_def environment_def)

lemma tracks_andthen:
  assumes "tracks ok live L st F F' m" "\<And>v. tracks ok live L st F' F'' (k v)" "F'' \<subseteq> F'"
  shows "tracks ok live L st F F'' (andthen m k)"
proof (rule tracksI)
  fix s r s'
  assume s: "tracked ok live L st F s" and run: "andthen m k s = (r, s')"
  obtain r1 s1 where m: "m s = (r1, s1)" by (cases "m s") auto
  from tracksD [OF assms(1) m s] have s1: "tracked ok live L st F' s1" .
  show "tracked ok live L st F'' s'"
  proof (cases r1)
    case (Inl e)
    then show ?thesis using run m s1 assms(3) by (auto simp: andthen_def intro: tracked_mono)
  next
    case (Inr v)
    then show ?thesis using run m tracksD [OF assms(2) _ s1] by (auto simp: andthen_def)
  qed
qed

lemma tracks_catch:
  assumes "tracks ok live L st F F' m" "\<And>e. tracks ok live L st F' F'' (h e)" "F'' \<subseteq> F'"
  shows "tracks ok live L st F F'' (catch m h)"
proof (rule tracksI)
  fix s r s'
  assume s: "tracked ok live L st F s" and run: "catch m h s = (r, s')"
  obtain r1 s1 where m: "m s = (r1, s1)" by (cases "m s") auto
  from tracksD [OF assms(1) m s] have s1: "tracked ok live L st F' s1" .
  show "tracked ok live L st F'' s'"
  proof (cases r1)
    case (Inr v)
    then show ?thesis using run m s1 assms(3) by (auto simp: catch_def intro: tracked_mono)
  next
    case (Inl e)
    then show ?thesis using run m tracksD [OF assms(2) _ s1] by (auto simp: catch_def)
  qed
qed

lemma tracks_wrap: "tracks ok live L st F F' m \<Longrightarrow> tracks ok live L st F F' (wrap t m)"
  unfolding wrap_def by (rule tracks_catch) (auto intro: tracks_same)

lemma tracks_attempt: "tracks ok live L st F F' m \<Longrightarrow> tracks ok live L st F F' (attempt m)"
  by (auto simp: tracks_def attempt_def split: prod.splits)

lemma tracks_log_error: "tracks ok live L st F F' m \<Longrightarrow> tracks ok live L st F F' (log_error m)"
  unfolding log_error_def by (rule tracks_andthen [OF tracks_attempt]) (auto intro: tracks_same)

lemma tracks_if: "(b \<Longrightarrow> tracks ok live L st F F' m) \<Longrightarrow> (\<not> b \<Longrightarrow> tracks ok live L st F F' m') \<Longrightarrow>
    tracks ok live L st F F' (if b then m else m')"
  by simp

lemma tracks_case_option:
  "(x = None \<Longrightarrow> tracks ok live L st F F' m) \<Longrightarrow> (\<And>y. x = Some y \<Longrightarrow> tracks ok live L st F F' (f y)) \<Longrightarrow>
   tracks ok live L st F F' (case x of None \<Rightarrow> m | Some y \<Rightarrow> f y)"
  by (cases x) simp_all

lemma tracks_case_list:
  "(xs = [] \<Longrightarrow> tracks ok live L st F F' m) \<Longrightarrow> (\<And>y ys. xs = y # ys \<Longrightarrow> tracks ok live L st F F' (f y ys)) \<Longrightarrow>
   tracks ok live L st F F' (case xs of [] \<Rightarrow> m | y # ys \<Rightarrow> f y ys)"
  by (cases xs) simp_all

lemma tracks_for_each: "(\<And>x. x \<in> set xs \<Longrightarrow> tracks ok live L st F F (f x)) \<Longrightarrow>
    tracks ok live L st F F (for_each f xs)"
  by (induction xs) (auto intro: tracks_same tracks_andthen)

lemma tracks_set_env: "(\<And>env. env_Status (f env) = env_Status env) \<Longrightarrow> tracks ok live L st F F (set_env f)"
  by (auto simp: tracks_def tracked_def set_env_def modify_def)

lemma tracks_set_aws:
  assumes "\<And>a. mine (h a) = mine a" "\<And>a g. g \<in> F \<Longrightarrow> g (h a) = g a"
  shows "tracks ok live L st F F (set_aws h)"
proof (rule tracksI)
  fix s r s'
  assume s: "tracked ok live L st F s" and "set_aws h s = (r, s')"
  then have s': "s' = s\<lparr>ps_cache := (ps_cache s)\<lparr>cc_AWS := h (ps_aws s)\<rparr>\<rparr>"
    by (simp add: set_aws_def modify_def)
  have "g (h (ps_aws s)) = ''''" if "g \<in> F" for g
    using assms(2) [OF that, of "ps_aws s"] s that by (simp add: tracked_def)
  then show "tracked ok live L st F s'"
    using s assms(1) by (simp add: tracked_def s')
qed

text \<open>A resource is created and its id noted in an empty field; \<open>F'\<close> are the fields empty afterwards.\<close>

lemma tracks_create:
  assumes adds: "adds ok live A m" and "F' \<subseteq> F"
    and noted: "\<And>v w a. (\<forall>f \<in> F. f a = '''') \<Longrightarrow> A v w \<union> mine a \<subseteq> mine (g v a)"
    and kept: "\<And>f v a. f \<in> F' \<Longrightarrow> f (g v a) = f a"
    and rest: "\<And>v. tracks ok live L st F' F' (k v)"
  shows "tracks ok live L st F F' (andthen (wrap t (on_world m)) (\<lambda>v. andthen (set_aws (g v)) (\<lambda>_. k v)))"
proof (rule tracksI)
  fix s r s'
  assume s: "tracked ok live L st F s"
    and run: "andthen (wrap t (on_world m)) (\<lambda>v. andthen (set_aws (g v)) (\<lambda>_. k v)) s = (r, s')"
  obtain r1 w where m: "m (ps_world s) = (r1, w)" by (cases "m (ps_world s)") auto
  with adds s have w: "ok w" "live w \<subseteq> live (ps_world s) \<union> enis \<union> (case r1 of Inl _ \<Rightarrow> {} | Inr v \<Rightarrow> A v w)"
    by (auto simp: adds_def tracked_def)
  show "tracked ok live L st F' s'"
  proof (cases r1)
    case (Inl e)
    then have "s' = s\<lparr>ps_world := w\<rparr>"
      using run m by (simp add: andthen_def wrap_def catch_def fail_def on_world_def)
    then show ?thesis using s w Inl \<open>F' \<subseteq> F\<close> by (auto simp: tracked_def)
  next
    case (Inr v)
    let ?s1 = "s\<lparr>ps_world := w, ps_cache := (ps_cache s)\<lparr>cc_AWS := g v (ps_aws s)\<rparr>\<rparr>"
    have "tracked ok live L st F' ?s1"
      using s w Inr noted [of "ps_aws s" v w] kept \<open>F' \<subseteq> F\<close> by (fastforce simp: tracked_def)
    moreover have "k v ?s1 = (r, s')"
      using run m Inr by (simp add: andthen_def wrap_def catch_def on_world_def set_aws_def modify_def)
    ultimately show ?thesis using rest by (auto intro: tracksD)
  qed
qed

lemma andthen_ret: "andthen m ret = m"
  by (rule ext) (auto simp: andthen_def ret_def split: prod.splits sum.splits)

lemma catch_Inr: "(catch m h s = (Inr v, s')) \<longleftrightarrow>
    m s = (Inr v, s') \<or> (\<exists>e t. m s = (Inl e, t) \<and> h e t = (Inr v, s'))"
  by (auto simp: catch_def split: prod.splits sum.splits)

lemma tracks_create_last:
  assumes "adds ok live A m" "F' \<subseteq> F"
    and "\<And>v w a. (\<forall>f \<in> F. f a = '''') \<Longrightarrow> A v w \<union> mine a \<subseteq> mine (g v a)"
    and "\<And>f v a. f \<in> F' \<Longrightarrow> f (g v a) = f a"
  shows "tracks ok live L st F F' (andthen (wrap t (on_world m)) (\<lambda>v. set_aws (g v)))"
  using tracks_create [OF assms, where k = "\<lambda>_. ret ()"] by (simp add: andthen_ret tracks_same(1))

text \<open>The same when the id is read from the account through the output.\<close>

lemma tracks_create_read:
  assumes adds: "adds ok live (\<lambda>v w. A (h v w)) m" and "F' \<subseteq> F"
    and noted: "\<And>i a. (\<forall>f \<in> F. f a = '''') \<Longrightarrow> A i \<union> mine a \<subseteq> mine (g i a)"
    and kept: "\<And>f i a. f \<in> F' \<Longrightarrow> f (g i a) = f a"
    and rest: "\<And>v i. tracks ok live L st F' F' (k v i)"
  shows "tracks ok live L st F F' (andthen (wrap t (on_world m)) (\<lambda>v.
     andthen (gets (\<lambda>ps. h v (ps_world ps))) (\<lambda>i. andthen (set_aws (g i)) (\<lambda>_. k v i))))"
proof (rule tracksI)
  fix s r s'
  assume s: "tracked ok live L st F s"
    and run: "andthen (wrap t (on_world m)) (\<lambda>v. andthen (gets (\<lambda>ps. h v (ps_world ps)))
      (\<lambda>i. andthen (set_aws (g i)) (\<lambda>_. k v i))) s = (r, s')"
  obtain r1 w where m: "m (ps_world s) = (r1, w)" by (cases "m (ps_world s)") auto
  with adds s have w: "ok w" "live w \<subseteq> live (ps_world s) \<union> enis \<union> (case r1 of Inl _ \<Rightarrow> {} | Inr v \<Rightarrow> A (h v w))"
    by (auto simp: adds_def tracked_def)
  show "tracked ok live L st F' s'"
  proof (cases r1)
    case (Inl e)
    then have "s' = s\<lparr>ps_world := w\<rparr>"
      using run m by (simp add: andthen_def wrap_def catch_def fail_def on_world_def)
    then show ?thesis using s w Inl \<open>F' \<subseteq> F\<close> by (auto simp: tracked_def)
  next
    case (Inr v)
    let ?s1 = "s\<lparr>ps_world := w, ps_cache := (ps_cache s)\<lparr>cc_AWS := g (h v w) (ps_aws s)\<rparr>\<rparr>"
    have "tracked ok live L st F' ?s1"
      using s w Inr noted [of "ps_aws s" "h v w"] kept \<open>F' \<subseteq> F\<close> by (fastforce simp: tracked_def)
    moreover have "k v (h v w) ?s1 = (r, s')"
      using run m Inr by (simp add: andthen_def wrap_def catch_def on_world_def set_aws_def modify_def gets_def)
    ultimately show ?thesis using rest by (auto intro: tracksD)
  qed
qed

section \<open>Programs that create nothing\<close>

context aws_builder
begin

abbreviation tracks_in :: "resource set \<Rightarrow> EnvironmentStatus \<Rightarrow> (AWS \<Rightarrow> string) set \<Rightarrow> (AWS \<Rightarrow> string) set
    \<Rightarrow> ('s pstate, 'a) io \<Rightarrow> bool" where
  "tracks_in L st F F' m \<equiv> tracks ok live L st F F' m"

lemma tracks_sheds:
  assumes "\<And>E. sheds_in E ok live UNIV m"
  shows "tracks_in L st F F m"
proof (rule tracksI)
  fix s r s'
  assume "tracked ok live L st F s" and "m s = (r, s')"
  then show "tracked ok live L st F s'"
    using presD [OF assms [of "ps_Environment s"], of s r s']
    by (fastforce simp: tracked_def psheds_def sheds_def)
qed

lemma tracks_quiet: "pres (sheds ok live enis) m \<Longrightarrow> tracks_in L st F F (on_world m)"
  by (rule tracks_sheds) (rule quiet)

lemma resolver_calls:
  "pres (sheds ok live enis) (ec2_DescribeImages (rv_ec2Client (p_amiResolver p)) ii)"
  "rv_ssmClient (p_amiResolver p) = Some ssm \<Longrightarrow> pres (sheds ok live enis) (ssm_GetParameter ssm i)"
  using resolver DescribeImages GetParameter by auto

lemma sheds_on_resolver:
  "pres (sheds ok live enis) (Resolver_Resolve (p_amiResolver p) os arch)"
  unfolding Resolver_Resolve_def via_images_def resolveViaSSM_def resolveViaDescribeImages_def Let_def
  by (intro shed.pres_rules pres_cases resolver_calls)

lemmas more_quiet_calls = quiet [OF DescribeImages] quiet [OF DescribeInstanceTypes] quiet [OF HttpGet]
  quiet [OF WaitRunning] quiet [OF sheds_on_resolver] quiet [OF CreateTags]
  quiet [OF ModifyNetworkInterfaceAttribute]

lemma sheds_describe_pages: "sheds_in E ok live R (describe_pages n p fs tok images)"
  by (induction n arbitrary: tok images) (auto simp: Let_def intro!: shed_rules more_quiet_calls)

lemma sheds_type_pages: "sheds_in E ok live R (type_pages n p env missing tok)"
  by (induction n arbitrary: tok missing) (auto simp: Let_def intro!: shed_rules more_quiet_calls)

lemma sheds_checkInstanceTypes: "sheds_in E ok live R (checkInstanceTypes p)"
  unfolding checkInstanceTypes_def by (intro shed_rules sheds_type_pages)

lemma sheds_image_lookups:
  "sheds_in E ok live R (inferArchFromInstanceType p t)" "sheds_in E ok live R (describeImageRootDevice p i)"
  "sheds_in E ok live R (describeImageArch p i)" "sheds_in E ok live R (findLegacyAMI p arch)"
  unfolding inferArchFromInstanceType_def getInstanceTypeArch_def describeImageRootDevice_def
    describeImageArch_def one_image_def findLegacyAMI_def describeImages_def Let_def
  by (intro shed_rules more_quiet_calls sheds_describe_pages)+

lemma sheds_try_services: "sheds_in E ok live R (try_services p t ss)"
  by (induction ss) (auto simp: getIPFromHTTPService_def Let_def intro!: shed_rules more_quiet_calls)

lemma sheds_GetIPAddress: "sheds_in E ok live R (GetIPAddress p)"
  unfolding GetIPAddress_def GetIPAddressWithServices_def by (intro shed_rules sheds_try_services)

lemma sheds_messages: "sheds_in E ok live R (progressed p m)" "sheds_in E ok live R (degraded p m)"
  unfolding progressed_def degraded_def by (intro shed_rules)+

lemmas tracks_basics = tracks_same tracks_wrap tracks_attempt tracks_log_error tracks_if tracks_case_option
  tracks_case_list

end

section \<open>The creation steps\<close>

text \<open>Fields that an update leaves alone.\<close>

definition spares :: "(AWS \<Rightarrow> string) set \<Rightarrow> (string \<Rightarrow> AWS \<Rightarrow> AWS) \<Rightarrow> bool" where
  "spares F g \<longleftrightarrow> (\<forall>f \<in> F. \<forall>v a. f (g v a) = f a)"

lemma sparesD: "spares F g \<Longrightarrow> f \<in> F \<Longrightarrow> f (g v a) = f a"
  by (simp add: spares_def)

lemmas mine_defs = mine_def owned_groups_def owned_network_def

context aws_builder
begin

lemmas tracks_calls = tracks_quiet [OF ModifyVpcAttribute] tracks_quiet [OF AttachInternetGateway]
  tracks_quiet [OF AssociateRouteTable] tracks_quiet [OF CreateRoute] tracks_quiet [OF AuthorizeSecurityGroupIngress]
  tracks_quiet [OF CreateTags] tracks_quiet [OF ModifyNetworkInterfaceAttribute] tracks_quiet [OF WaitRunning]
  tracks_quiet [OF DescribeInstances] tracks_quiet [OF sheds_on_resolver]
  tracks_sheds [OF sheds_checkInstanceTypes] tracks_sheds [OF sheds_GetIPAddress]
  tracks_sheds [OF sheds_image_lookups(1)] tracks_sheds [OF sheds_image_lookups(2)]
  tracks_sheds [OF sheds_image_lookups(3)] tracks_sheds [OF sheds_image_lookups(4)]
  tracks_sheds [OF sheds_messages(1)] tracks_sheds [OF sheds_messages(2)]

lemmas tracks_rules = tracks_basics tracks_calls tracks_andthen [OF _ _ subset_refl]
  tracks_catch [OF _ _ subset_refl]

lemma tracks_createVPC:
  assumes "aw_Vpcid \<in> F" "F' \<subseteq> F" "spares F' (\<lambda>v. aw_Vpcid_update (\<lambda>_. v))"
  shows "tracks_in L st F F' (createVPC p)"
  unfolding createVPC_def
  by (rule tracks_create [OF CreateVpc], rule assms(2))
    (use assms(1) in \<open>auto simp: mine_defs intro: sparesD [OF assms(3)] tracks_rules\<close>)

lemma tracks_createSubnet:
  assumes "aw_Subnetid \<in> F" "F' \<subseteq> F" "spares F' (\<lambda>v. aw_Subnetid_update (\<lambda>_. v))"
  shows "tracks_in L st F F' (createSubnet p)"
  unfolding createSubnet_def
  by (rule tracks_andthen [OF tracks_same(3) tracks_create_last [OF CreateSubnet] assms(2)], rule assms(2))
    (use assms(1) in \<open>auto simp: mine_defs intro: sparesD [OF assms(3)]\<close>)

lemma tracks_createPublicSubnet:
  assumes "aw_PublicSubnetid \<in> F" "F' \<subseteq> F" "spares F' (\<lambda>v. aw_PublicSubnetid_update (\<lambda>_. v))"
  shows "tracks_in L st F F' (createPublicSubnet p)"
  unfolding createPublicSubnet_def
  by (rule tracks_andthen [OF tracks_same(3) tracks_create_last [OF CreateSubnet] assms(2)], rule assms(2))
    (use assms(1) in \<open>auto simp: mine_defs intro: sparesD [OF assms(3)]\<close>)

lemma tracks_createInternetGateway:
  assumes "aw_InternetGwid \<in> F" "F' \<subseteq> F" "spares F' (\<lambda>v. aw_InternetGwid_update (\<lambda>_. v))"
    "spares F' (\<lambda>v. aw_InternetGatewayAttachment_update (\<lambda>_. v))"
  shows "tracks_in L st F F' (createInternetGateway p)"
proof -
  have rest: "tracks_in L st F' F' (andthen (wrap t (on_world (ec2_AttachInternetGateway (p_ec2 p) i v)))
      (\<lambda>_. andthen (gets h) (\<lambda>atts. case atts of
          att # _ \<Rightarrow> set_aws (\<lambda>a. a\<lparr>aw_InternetGatewayAttachment := ia_VpcId att\<rparr>) | [] \<Rightarrow> ret ())))" for t i v h
    by (intro tracks_rules tracks_set_aws) (auto simp: mine_defs intro: sparesD [OF assms(4)])
  show ?thesis
    unfolding createInternetGateway_def
    by (rule tracks_andthen [OF tracks_same(3) tracks_create_read [where A = "named K_igw" and
          h = "\<lambda>gw s. igw_InternetGatewayId (gw s)", OF CreateInternetGateway _ _ _ rest] assms(2)],
        rule assms(2)) (use assms(1) in \<open>auto simp: mine_defs intro: sparesD [OF assms(3)]\<close>)
qed

lemma tracks_route_table:
  assumes "field \<in> F" "F' \<subseteq> F" "spares F' note"
    and "\<And>i a. field a = '''' \<Longrightarrow> named K_rtb i \<union> mine a \<subseteq> mine (note i a)"
  shows "tracks_in L st F F' (make_route_table p kind subnet route note)"
  unfolding make_route_table_def Let_def
  by (rule tracks_andthen [OF tracks_same(3) tracks_create [OF CreateRouteTable] assms(2)], rule assms(2))
    (use assms(1,4) in \<open>auto intro: sparesD [OF assms(3)] tracks_rules\<close>)

lemma tracks_createRouteTable:
  assumes "aw_RouteTable \<in> F" "F' \<subseteq> F" "spares F' (\<lambda>v. aw_RouteTable_update (\<lambda>_. v))"
  shows "tracks_in L st F F' (createRouteTable p)"
  unfolding createRouteTable_def
  by (rule tracks_andthen [OF tracks_same(3) tracks_route_table [OF assms] assms(2)]) (auto simp: mine_defs)

lemma tracks_createPublicRouteTable:
  assumes "aw_PublicRouteTable \<in> F" "F' \<subseteq> F" "spares F' (\<lambda>v. aw_PublicRouteTable_update (\<lambda>_. v))"
  shows "tracks_in L st F F' (createPublicRouteTable p)"
  unfolding createPublicRouteTable_def
  by (rule tracks_andthen [OF tracks_same(3) tracks_route_table [OF assms] assms(2)]) (auto simp: mine_defs)

lemma tracks_createSecurityGroup:
  assumes "aw_SecurityGroupid \<in> F" "F' \<subseteq> F" "spares F' (\<lambda>v. aw_SecurityGroupid_update (\<lambda>_. v))"
  shows "tracks_in L st F F' (createSecurityGroup p)"
  unfolding createSecurityGroup_def
  by (rule tracks_andthen [OF tracks_same(4) _ assms(2)],
      rule tracks_andthen [OF tracks_same(3) tracks_create [OF CreateSecurityGroup] assms(2)], rule assms(2))
    (use assms(1) in \<open>auto simp: mine_defs intro: sparesD [OF assms(3)] tracks_rules\<close>)

lemma tracks_setAMI: "tracks_in L st F F (setAMI p)"
  unfolding setAMI_def resolveOSToAMI_def setLegacyAMI_def instance_arch_def Let_def
  by (intro tracks_rules tracks_set_env) (simp_all add: with_image_def Let_def)

lemma tracks_createEC2Instance:
  assumes "aw_Instanceid \<in> F" "F' \<subseteq> F" "spares F' (\<lambda>v. aw_Instanceid_update (\<lambda>_. v))"
    "spares F' (\<lambda>v. aw_PublicDnsName_update (\<lambda>_. v))"
  shows "tracks_in L st F F' (createEC2Instance p)"
proof -
  have rest: "tracks_in L st F' F' (configure_instance p inst)" for inst
    unfolding configure_instance_def Let_def
    by (intro tracks_rules tracks_set_aws) (auto simp: mine_defs intro: sparesD [OF assms(4)])
  have run: "tracks_in L st F F' (andthen (wrap t (on_world (ec2_RunInstances (p_ec2 p) (instance_input p env a i d))))
      (\<lambda>insts. case insts of [] \<Rightarrow> fail index_panic
        | inst # _ \<Rightarrow> andthen (set_aws (\<lambda>a. a\<lparr>aw_Instanceid := ei_InstanceId inst\<rparr>)) (\<lambda>_. configure_instance p inst)))"
    (is "tracks_in L st F F' (andthen ?m ?k)") for t env a i d
  proof -
    have "tracks_in L st F F' (andthen ?m (\<lambda>insts. andthen (set_aws (\<lambda>a. case insts of [] \<Rightarrow> a
          | inst # _ \<Rightarrow> a\<lparr>aw_Instanceid := ei_InstanceId inst\<rparr>))
        (\<lambda>_. case insts of [] \<Rightarrow> fail index_panic | inst # _ \<Rightarrow> configure_instance p inst)))"
      by (rule tracks_create [OF RunInstances], simp add: instance_input_def, simp add: instance_input_def, rule assms(2))
        (use assms(1) in \<open>auto simp: mine_defs first_named_def intro: sparesD [OF assms(3)] tracks_rules rest
          split: list.splits\<close>)
    moreover have "?k = (\<lambda>insts. andthen (set_aws (\<lambda>a. case insts of [] \<Rightarrow> a
          | inst # _ \<Rightarrow> a\<lparr>aw_Instanceid := ei_InstanceId inst\<rparr>))
        (\<lambda>_. case insts of [] \<Rightarrow> fail index_panic | inst # _ \<Rightarrow> configure_instance p inst))"
      by (intro ext) (simp add: andthen_def set_aws_def modify_def split: list.split)
    ultimately show ?thesis by simp
  qed
  show ?thesis
    unfolding createEC2Instance_def
    by (rule tracks_andthen [OF tracks_wrap [OF tracks_setAMI] _ assms(2)],
        rule tracks_andthen [OF tracks_same(4) _ assms(2)], rule tracks_andthen [OF tracks_same(3) _ assms(2)],
        rule tracks_case_option, rule tracks_mono [OF tracks_same(2) assms(2)],
        rule tracks_andthen [OF tracks_wrap [OF tracks_sheds [OF sheds_image_lookups(2)]] run assms(2)])
qed

end

section \<open>Create\<close>

text \<open>The fields of the cache that the steps fill in, in order, and those of a cluster.\<close>

abbreviation single_fields :: "(AWS \<Rightarrow> string) list" where
  "single_fields \<equiv> [aw_Vpcid, aw_Subnetid, aw_InternetGwid, aw_RouteTable, aw_SecurityGroupid, aw_Instanceid,
     aw_WorkerSecurityGroupid, aw_CPSecurityGroupid, aw_EIPAllocationid, aw_PublicSubnetid, aw_PublicRouteTable]"

context aws_builder
begin

lemma tracks_cleanups:
  "tracks_in L st F F (cleanup_VPC p)" "tracks_in L st F F (cleanup_subnet p)"
  "tracks_in L st F F (cleanup_gateway p)" "tracks_in L st F F (cleanup_route_table p)"
  "tracks_in L st F F (cleanup_group p)"
  unfolding cleanup_VPC_def cleanup_subnet_def cleanup_gateway_def cleanup_route_table_def cleanup_group_def
  by (intro tracks_rules tracks_sheds sheds_network_steps sheds_deleteSecurityGroups subset_UNIV)+

lemma tracks_rollback: "\<forall>c \<in> set stack. tracks_in L st F F c \<Longrightarrow> tracks_in L st F F (rolled_back stack e)"
  unfolding rolled_back_def rollback_def by (intro tracks_rules tracks_for_each) auto

text \<open>The steps in order: before a step the fields from its own on are empty.\<close>

lemma tracks_creations:
  "k < 5 \<Longrightarrow> tracks_in L st (set (drop k single_fields)) (set (drop (Suc k) single_fields)) (cr_create (creations p ! k))"
  "k < 5 \<Longrightarrow> tracks_in L st F F (cr_cleanup (creations p ! k))"
proof -
  note steps = tracks_createVPC tracks_createSubnet tracks_createInternetGateway tracks_createRouteTable
    tracks_createSecurityGroup
  assume "k < 5"
  then consider "k = 0" | "k = 1" | "k = 2" | "k = 3" | "k = 4" by linarith
  note cases = this
  from cases show "tracks_in L st (set (drop k single_fields)) (set (drop (Suc k) single_fields)) (cr_create (creations p ! k))"
    by cases (simp_all add: creations_def eval_nat_numeral steps spares_def)
  from cases show "tracks_in L st F F (cr_cleanup (creations p ! k))"
    by cases (simp_all add: creations_def eval_nat_numeral tracks_cleanups)
qed

lemma messages_Inr: "fst (progressed p m s) = Inr ()" "fst (degraded p m s) = Inr ()"
  by (auto simp: progressed_def degraded_def gets_def andthen_def log_error_def attempt_def ret_def
      split: prod.splits)

text \<open>The stack after the first \<open>k\<close> steps.\<close>

abbreviation cleanups :: "nat \<Rightarrow> 's cleanup list" where
  "cleanups k \<equiv> rev (map cr_cleanup (take k (creations p)))"

lemma creations_length [simp]: "length (creations p) = 5"
  by (simp add: creations_def)

lemma cleanups_tracked: "c \<in> set (cleanups k) \<Longrightarrow> tracks_in L st F F c"
proof -
  assume "c \<in> set (cleanups k)"
  then obtain i where "i < 5" "c = cr_cleanup (creations p ! i)"
    by (auto simp: in_set_conv_nth)
  then show ?thesis using tracks_creations(2) by blast
qed

lemma build_progress:
  assumes "build p (drop k (creations p)) (cleanups k) s = (r, s')" "k \<le> 5"
    and "tracked ok live L st (set (drop k single_fields)) s"
  shows "\<exists>failed j. j \<le> 5 \<and> r = Inr (failed, cleanups j) \<and> (failed = None \<longleftrightarrow> j = 5)
    \<and> tracked ok live L st (set (drop (if j = 5 then 5 else Suc j) single_fields)) s'"
  using assms
proof (induction "5 - k" arbitrary: k s)
  case 0
  then have "k = 5" by simp
  with 0 show ?case by (auto simp: ret_def)
next
  case (Suc n)
  then have k: "k < 5" by simp
  then have drop: "drop k (creations p) = creations p ! k # drop (Suc k) (creations p)"
    by (intro Cons_nth_drop_Suc [symmetric]) simp
  obtain r1 s1 where run: "cr_create (creations p ! k) s = (r1, s1)" by (cases "cr_create (creations p ! k) s") auto
  have s1: "tracked ok live L st (set (drop (Suc k) single_fields)) s1"
    using tracksD [OF tracks_creations(1) [OF k] run Suc.prems(3)] .
  show ?case
  proof (cases r1)
    case (Inl e)
    obtain s2 where deg: "degraded p (''Error creating '' @ cr_what (creations p ! k)) s1 = (Inr (), s2)"
      by (metis messages_Inr(2) prod.collapse)
    then have r: "r = Inr (Some (''error creating '' @ cr_what (creations p ! k) @ '': '' @ e), cleanups k)" "s' = s2"
      using Suc.prems(1) run Inl by (simp_all add: drop andthen_def attempt_def ret_def)
    have "tracked ok live L st (set (drop (Suc k) single_fields)) s'"
      using tracksD [OF tracks_sheds [OF sheds_messages(2)] deg s1] r by blast
    then have "tracked ok live L st (set (drop (if k = 5 then 5 else Suc k) single_fields)) s'"
      using k by simp
    with r k show ?thesis
      by (intro exI [of _ "Some (''error creating '' @ cr_what (creations p ! k) @ '': '' @ e)"] exI [of _ k] conjI)
        simp_all
  next
    case (Inr u)
    obtain s2 where prog: "progressed p (cr_message (creations p ! k)) s1 = (Inr (), s2)"
      by (metis messages_Inr(1) prod.collapse)
    with tracksD [OF tracks_sheds [OF sheds_messages(1)] _ s1]
    have s2: "tracked ok live L st (set (drop (Suc k) single_fields)) s2" by blast
    have step: "build p (drop (Suc k) (creations p)) (cleanups (Suc k)) s2 = (r, s')"
      using Suc.prems(1) run Inr prog k by (simp add: drop andthen_def attempt_def take_Suc_conv_app_nth)
    have "n = 5 - Suc k" "Suc k \<le> 5" using Suc.hyps(2) k by simp_all
    from Suc.hyps(1) [OF this(1) step this(2) s2] show ?thesis .
  qed
qed

lemma build_tracked:
  assumes "build p (creations p) [] s = (r, s')" "tracked ok live L st (set single_fields) s"
  shows "\<exists>failed stack'. r = Inr (failed, stack') \<and> (\<forall>c \<in> set stack'. \<forall>F. tracks_in L st F F c)
    \<and> tracked ok live L st {aw_Instanceid} s'"
proof -
  obtain failed j where j: "j \<le> 5" "r = Inr (failed, cleanups j)"
    and tr: "tracked ok live L st (set (drop (if j = 5 then 5 else Suc j) single_fields)) s'"
    using build_progress [of 0 s r s' L st] assms by auto
  have "{aw_Instanceid} \<subseteq> set (drop (if j = 5 then 5 else Suc j) single_fields)"
    using j(1) by (auto simp: in_set_conv_nth intro!: exI [of _ "if j = 5 then 0 else 4 - j"])
  then have "tracked ok live L st {aw_Instanceid} s'" by (rule tracked_mono [OF tr])
  moreover have "\<forall>c \<in> set (cleanups j). \<forall>F. tracks_in L st F F c" using cleanups_tracked by blast
  ultimately show ?thesis using j(2) by blast
qed

end

context aws_builder
begin

lemma tracks_start_instance:
  assumes "\<forall>c \<in> set stack. \<forall>F. tracks_in L st F F c"
  shows "tracks_in L st {aw_Instanceid} {} (start_instance p stack)"
proof -
  have rb: "tracks_in L st F F (rolled_back stack e)" for F e
    using assms by (intro tracks_rollback) blast
  have "tracks_in L st {aw_Instanceid} {} (createEC2Instance p)"
    by (rule tracks_createEC2Instance) (simp_all add: spares_def)
  moreover have "tracks_in L st {} {} (updateAvailableCondition p a)" for a
    by (rule tracks_sheds) (rule sheds_conditions)
  ultimately show ?thesis
    unfolding start_instance_def
    by (intro tracks_andthen [OF tracks_catch [OF _ _ subset_refl]] tracks_rules rb subset_refl) auto
qed

lemma build_start:
  assumes "create_single_node p s = (r, s')" "ok (ps_world s)"
  shows "tracked ok live (live (ps_world s)) (env_Status (ps_Environment s)) {} s'
    \<and> (r = Inr () \<longrightarrow> (\<exists>stack s1. start_instance p stack s1 = (Inr (), s')
         \<and> (\<forall>c \<in> set stack. \<forall>F. tracks_in (live (ps_world s)) (env_Status (ps_Environment s)) F F c)
         \<and> tracked ok live (live (ps_world s)) (env_Status (ps_Environment s)) {aw_Instanceid} s1))"
proof -
  let ?L = "live (ps_world s)" and ?st = "env_Status (ps_Environment s)"
  obtain r1 s1 where chk: "checkInstanceTypes p s = (r1, s1)" by (cases "checkInstanceTypes p s") auto
  have s1: "ok (ps_world s1)" "live (ps_world s1) \<subseteq> ?L" "env_Status (ps_Environment s1) = ?st"
    using presD [OF sheds_checkInstanceTypes [of "ps_Environment s" UNIV] chk] assms(2)
    by (auto simp: psheds_def sheds_def)
  show ?thesis
  proof (cases r1)
    case (Inl e)
    then have "s' = s1" and "r \<noteq> Inr ()"
      using assms(1) chk by (auto simp: create_single_node_def andthen_def wrap_def catch_def fail_def)
    with s1 show ?thesis by (auto simp: tracked_def)
  next
    case (Inr u)
    let ?s2 = "s1\<lparr>ps_cache := zero_ClusterCache zero_AWS\<rparr>"
    have s2: "tracked ok live ?L ?st (set single_fields) ?s2"
      using s1 by (auto simp: tracked_def zero_ClusterCache_def zero_AWS_def)
    obtain s3 where prog: "progressed p ''Creating AWS resources'' ?s2 = (Inr (), s3)"
      by (metis messages_Inr(1) prod.collapse)
    with s2 have s3: "tracked ok live ?L ?st (set single_fields) s3"
      by (blast intro: tracksD [OF tracks_sheds [OF sheds_messages(1)]])
    obtain rb s4 where b: "build p (creations p) [] s3 = (rb, s4)" by (cases "build p (creations p) [] s3") auto
    then obtain failed stack where rb: "rb = Inr (failed, stack)"
      and stack: "\<forall>c \<in> set stack. \<forall>F. tracks_in ?L ?st F F c"
      and s4: "tracked ok live ?L ?st {aw_Instanceid} s4"
      using build_tracked [OF b s3] by auto
    have run: "(case failed of Some e \<Rightarrow> rolled_back stack e | None \<Rightarrow> start_instance p stack) s4 = (r, s')"
      using assms(1) chk Inr prog b rb
      by (simp add: create_single_node_def andthen_def wrap_def catch_def set_cache_def modify_def)
    show ?thesis
    proof (cases failed)
      case None
      then show ?thesis
        using run stack s4 tracksD [OF tracks_start_instance [OF stack]] by auto
    next
      case (Some e)
      then have "tracked ok live ?L ?st {aw_Instanceid} s'"
        using run stack s4 by (auto intro: tracksD [OF tracks_rollback])
      moreover have "r \<noteq> Inr ()"
        using run Some by (auto simp: rolled_back_def andthen_def fail_def split: prod.splits sum.splits)
      ultimately show ?thesis by (auto intro: tracked_mono)
    qed
  qed
qed

text \<open>A successful creation ends by saving the cache, which names all that it has created.\<close>

lemma create_saves:
  assumes "create_single_node p s = (Inr (), s')" "ok (ps_world s)"
  obtains s1 where "updateAvailableCondition p (ps_aws s1) s1 = (Inr (), s')"
    and "tracked ok live (live (ps_world s)) (env_Status (ps_Environment s)) {} s1"
proof -
  let ?L = "live (ps_world s)" and ?st = "env_Status (ps_Environment s)"
  obtain stack s0 where st: "start_instance p stack s0 = (Inr (), s')"
    and stack: "\<forall>c \<in> set stack. \<forall>F. tracks_in ?L ?st F F c"
    and s0: "tracked ok live ?L ?st {aw_Instanceid} s0"
    using build_start [OF assms] by blast
  have no: "rolled_back stack e t \<noteq> (Inr (), t')" for e t t'
    by (auto simp: rolled_back_def andthen_def fail_def split: prod.splits sum.splits)
  obtain r1 s1 where c: "createEC2Instance p s0 = (r1, s1)" by (cases "createEC2Instance p s0") auto
  have "tracks_in ?L ?st {aw_Instanceid} {} (createEC2Instance p)"
    by (rule tracks_createEC2Instance) (simp_all add: spares_def)
  from tracksD [OF this c s0] have s1: "tracked ok live ?L ?st {} s1" .
  have "updateAvailableCondition p (ps_aws s1) s1 = (Inr (), s')"
    using st c no unfolding start_instance_def by (auto simp: andthen_Inr catch_Inr gets_def)
  then show ?thesis using s1 by (rule that)
qed

end

section \<open>Create, then delete\<close>

lemma unmarsalCache_world:
  "ps_world t = ps_world s \<Longrightarrow> fst (unmarsalCache p t) = fst (unmarsalCache p s)
    \<and> ps_world (snd (unmarsalCache p t)) = ps_world (snd (unmarsalCache p s))"
  by (auto simp: unmarsalCache_def andthen_def on_world_def ret_def split: prod.splits sum.splits)

context aws_builder
begin

lemma sheds_unmarsalCache: "sheds_in E ok live R (unmarsalCache p)"
proof -
  have "pres (sheds ok live enis) (UnmarshalFromFile (p_platform p) path)" for path
    unfolding UnmarshalFromFile_def by (intro shed.pres_andthen ReadFile sheds_lift_result)
  then show ?thesis unfolding unmarsalCache_def by (intro shed_basics quiet)
qed

text \<open>After a successful creation the cache file names everything that the creation made.\<close>

lemma create_readable:
  assumes laws: "cache_laws (p_platform p) (p_cacheFile p)" and ok: "ok (ps_world s)"
    and fresh: "st_Properties (env_Status (ps_Environment s)) = []"
    and create: "create_single_node p s = (Inr (), s')"
  obtains a where "fst (unmarsalCache p s') = Inr a" "ok (ps_world s')"
    "live (ps_world s') \<subseteq> live (ps_world s) \<union> mine a \<union> enis"
proof -
  obtain s1 where save: "updateAvailableCondition p (ps_aws s1) s1 = (Inr (), s')"
    and tr: "tracked ok live (live (ps_world s)) (env_Status (ps_Environment s)) {} s1"
    using create_saves [OF create ok] by blast
  have "ok (ps_world s')" and s': "live (ps_world s') \<subseteq> live (ps_world s) \<union> mine (ps_aws s1) \<union> enis"
    using presD [OF sheds_conditions(4) [of "ps_Environment s1" UNIV] save] tr
    by (auto simp: tracked_def psheds_def sheds_def)
  moreover have "fst (unmarsalCache p s') = Inr (ps_aws s1)"
  proof (rule saved_cache_is_read [OF laws])
    show "st_Properties (env_Status (ps_Environment s1)) = []" using tr fresh by (simp add: tracked_def)
    show "updateStatus p (ps_Environment s1) (ps_aws s1)
        (Some (getAvailableConditions (pl_Now (p_platform p) (ps_world s1)))) s1 = (Inr (), s')"
      using save
      by (simp add: updateAvailableCondition_def environment_def now_def updateCondition_def gets_def andthen_def)
  qed
  ultimately show ?thesis using that by blast
qed

lemma create_then_delete:
  assumes laws: "cache_laws (p_platform p) (p_cacheFile p)" and ok: "ok (ps_world s)"
    and fresh: "st_Properties (env_Status (ps_Environment s)) = []"
    and create: "create_single_node p s = (Inr (), s')"
    and same: "ps_world t = ps_world s'"
    and delete: "Delete p t = (Inr (), t')"
  shows "live (ps_world t') \<subseteq> live (ps_world s) \<union> enis"
proof -
  obtain a where saved: "fst (unmarsalCache p s') = Inr a" "ok (ps_world s')"
    and s': "live (ps_world s') \<subseteq> live (ps_world s) \<union> mine a \<union> enis"
    using create_readable [OF laws ok fresh create] by blast
  then obtain t1 where read: "unmarsalCache p t = (Inr a, t1)"
    using unmarsalCache_world [OF same] by (metis prod.collapse)
  then have del: "Teardown.delete p a t1 = (Inr (), t')"
    using delete by (auto simp: Delete_def andthen_Inr)
  have t1: "ok (ps_world t1)" "live (ps_world t1) \<subseteq> live (ps_world s')"
    using presD [OF sheds_unmarsalCache [of "ps_Environment t" UNIV] read] saved(2) same
    by (auto simp: psheds_def sheds_def)
  then show ?thesis
    using delete_frame [OF del] delete_complete [OF del] s' mine_owned [of a "ps_Environment t1"] by blast
qed

lemma create_tracks:
  assumes "create_single_node p s = (r, s')" "ok (ps_world s)"
  shows "live (ps_world s') \<subseteq> live (ps_world s) \<union> mine (ps_aws s') \<union> enis"
  using build_start [OF assms] by (simp add: tracked_def)

end

end
