(* ===== verification/Rollback.thy ===== *)
theory Rollback
  imports Build_Contract
begin

text \<open>
  The rollback of a creation that fails: the cleanups of the steps before the failing one undo
  those steps, and nothing undoes what the failing step itself has created.
\<close>

text \<open>The kinds of the resources that the steps create, the instance last.\<close>

definition step_kinds :: "kind list" where
  "step_kinds = [K_vpc, K_subnet, K_igw, K_rtb, K_sg, K_instance]"

definition step_resource :: "nat \<Rightarrow> AWS \<Rightarrow> resource set" where
  "step_resource k a = named (step_kinds ! k) ((single_fields ! k) a)"

lemma step_resource_simps:
  "step_resource 0 a = named K_vpc (aw_Vpcid a)" "step_resource 1 a = named K_subnet (aw_Subnetid a)"
  "step_resource 2 a = named K_igw (aw_InternetGwid a)" "step_resource 3 a = named K_rtb (aw_RouteTable a)"
  "step_resource 4 a = named K_sg (aw_SecurityGroupid a)" "step_resource 5 a = named K_instance (aw_Instanceid a)"
  by (simp_all add: step_resource_def step_kinds_def)

text \<open>A cache in which only the fields of the first steps are filled names only their resources.\<close>

lemma mine_steps:
  assumes "k < 5" "\<forall>f \<in> set (drop (Suc k) single_fields). f a = ''''" "r \<in> mine a"
  shows "\<exists>i \<le> k. r \<in> step_resource i a"
proof -
  note simps = mine_defs named_def step_resource_def step_kinds_def
  from assms(1) consider "k = 0" | "k = 1" | "k = 2" | "k = 3" | "k = 4" by linarith
  then show ?thesis
  proof cases
    case 1
    with assms(2,3) show ?thesis by (auto simp: simps split: if_splits)
  next
    case 2
    with assms(2,3) show ?thesis by (auto simp: simps le_Suc_eq ex_disj_distrib conj_disj_distribR split: if_splits)
  next
    case 3
    with assms(2,3) show ?thesis
      by (auto simp: simps le_Suc_eq numeral_eq_Suc ex_disj_distrib conj_disj_distribR split: if_splits)
  next
    case 4
    with assms(2,3) show ?thesis
      by (auto simp: simps le_Suc_eq numeral_eq_Suc ex_disj_distrib conj_disj_distribR split: if_splits)
  next
    case 5
    with assms(2,3) show ?thesis
      by (auto simp: simps le_Suc_eq numeral_eq_Suc ex_disj_distrib conj_disj_distribR split: if_splits)
  qed
qed

lemma cleanup_runs:
  "cr_cleanup (creations p ! 0) s = deleteVPC p (zero_AWS\<lparr>aw_Vpcid := aw_Vpcid (ps_aws s)\<rparr>) s"
  "cr_cleanup (creations p ! 1) s = deleteSubnet p (zero_AWS\<lparr>aw_Subnetid := aw_Subnetid (ps_aws s)\<rparr>) s"
  "cr_cleanup (creations p ! 2) s = deleteInternetGateway p
     (zero_AWS\<lparr>aw_InternetGwid := aw_InternetGwid (ps_aws s), aw_Vpcid := aw_Vpcid (ps_aws s)\<rparr>) s"
  "cr_cleanup (creations p ! 3) s = deleteRouteTable p
     (zero_AWS\<lparr>aw_RouteTable := aw_RouteTable (ps_aws s), aw_Vpcid := aw_Vpcid (ps_aws s)\<rparr>) s"
  "cr_cleanup (creations p ! 4) s = andthen
     (deleteSecurityGroups p (zero_AWS\<lparr>aw_SecurityGroupid := aw_SecurityGroupid (ps_aws s)\<rparr>)) (\<lambda>_. ret ()) s"
  by (simp_all add: creations_def eval_nat_numeral cleanup_VPC_def cleanup_subnet_def cleanup_gateway_def
      cleanup_route_table_def cleanup_group_def andthen_def gets_def)

context aws_builder
begin

text \<open>A cleanup that succeeds has removed the resource of its step.\<close>

lemma cleanup_clears:
  assumes "k < 5" "r \<in> step_resource k (ps_aws s)" "cr_cleanup (creations p ! k) s = (Inr v, s')" "ok (ps_world s)"
  shows "r \<notin> live (ps_world s')"
proof -
  have clearsD: "r \<notin> live (ps_world s')"
    if "clears (ps_Environment s) ok live r m" "m s = (Inr w, s')" for m :: "('s pstate, 'b) io" and w
    using that assms(4) unfolding clears_def post_def by blast
  from assms(1) consider "k = 0" | "k = 1" | "k = 2" | "k = 3" | "k = 4" by linarith
  then show ?thesis
  proof cases
    case 1
    let ?a = "zero_AWS\<lparr>aw_Vpcid := aw_Vpcid (ps_aws s)\<rparr>"
    have "clears (ps_Environment s) ok live r (deleteVPC p ?a)"
      using assms(2) 1 clears_network_steps(6) [of ?a] by (auto simp: step_resource_simps named_def split: if_splits)
    then show ?thesis using assms(3) unfolding 1 cleanup_runs by (rule clearsD)
  next
    case 2
    let ?a = "zero_AWS\<lparr>aw_Subnetid := aw_Subnetid (ps_aws s)\<rparr>"
    have "clears (ps_Environment s) ok live r (deleteSubnet p ?a)"
      using assms(2) clears_network_steps(4) [of ?a] unfolding 2 step_resource_simps
      by (auto simp: named_def split: if_splits)
    then show ?thesis using assms(3) unfolding 2 cleanup_runs by (rule clearsD)
  next
    case 3
    let ?a = "zero_AWS\<lparr>aw_InternetGwid := aw_InternetGwid (ps_aws s), aw_Vpcid := aw_Vpcid (ps_aws s)\<rparr>"
    have "clears (ps_Environment s) ok live r (deleteInternetGateway p ?a)"
      using assms(2) clears_network_steps(5) [of ?a] unfolding 3 step_resource_simps
      by (auto simp: named_def split: if_splits)
    then show ?thesis using assms(3) unfolding 3 cleanup_runs by (rule clearsD)
  next
    case 4
    let ?a = "zero_AWS\<lparr>aw_RouteTable := aw_RouteTable (ps_aws s), aw_Vpcid := aw_Vpcid (ps_aws s)\<rparr>"
    have "clears (ps_Environment s) ok live r (deleteRouteTable p ?a)"
      using assms(2) clears_deleteRouteTable [of ?a] unfolding 4 step_resource_simps
      by (auto simp: named_def split: if_splits)
    then show ?thesis using assms(3) unfolding 4 cleanup_runs by (rule clearsD)
  next
    case 5
    let ?a = "zero_AWS\<lparr>aw_SecurityGroupid := aw_SecurityGroupid (ps_aws s)\<rparr>"
    have "clears (ps_Environment s) ok live r (deleteSecurityGroups p ?a)"
      using assms(2) unfolding 5 step_resource_simps by (intro clears_deleteSecurityGroups) (simp add: owned_groups_def)
    moreover obtain w where "deleteSecurityGroups p ?a s = (Inr w, s')"
      using assms(3) unfolding 5 cleanup_runs by (auto simp: andthen_Inr)
    ultimately show ?thesis by (rule clearsD)
  qed
qed

lemma cleanup_tame: "k < 5 \<Longrightarrow> sheds_in E ok live UNIV (cr_cleanup (creations p ! k))"
proof -
  have tame: "sheds_in E ok live UNIV (cleanup_VPC p)" "sheds_in E ok live UNIV (cleanup_subnet p)"
    "sheds_in E ok live UNIV (cleanup_gateway p)" "sheds_in E ok live UNIV (cleanup_route_table p)"
    "sheds_in E ok live UNIV (cleanup_group p)"
    unfolding cleanup_VPC_def cleanup_subnet_def cleanup_gateway_def cleanup_route_table_def cleanup_group_def
    by (intro shed_rules tame_steps)+
  assume "k < 5"
  then have "cr_cleanup (creations p ! k) \<in>
      {cleanup_VPC p, cleanup_subnet p, cleanup_gateway p, cleanup_route_table p, cleanup_group p}"
    by (auto simp: creations_def less_Suc_eq numeral_eq_Suc)
  then show ?thesis by (elim insertE emptyE) (simp_all only: tame)
qed

lemma cleanups_clear:
  assumes "for_each (\<lambda>c. c) cs s = (Inr (), s')" "ok (ps_world s)"
    and "\<And>c. c \<in> set cs \<Longrightarrow> \<exists>k < 5. c = cr_cleanup (creations p ! k)"
  shows "ps_cache s' = ps_cache s \<and> live (ps_world s') \<subseteq> live (ps_world s)
    \<and> (\<forall>k < 5. cr_cleanup (creations p ! k) \<in> set cs \<longrightarrow> step_resource k (ps_aws s) \<inter> live (ps_world s') = {})"
  using assms
proof (induction cs arbitrary: s)
  case (Cons c cs)
  obtain s1 where c: "c s = (Inr (), s1)" and rest: "for_each (\<lambda>c. c) cs s1 = (Inr (), s')"
    using Cons.prems(1) by (auto simp: andthen_Inr)
  obtain k where k: "k < 5" "c = cr_cleanup (creations p ! k)" using Cons.prems(3) [of c] by auto
  have s1: "ok (ps_world s1)" "ps_cache s1 = ps_cache s" "live (ps_world s1) \<subseteq> live (ps_world s)"
    using presD [OF cleanup_tame [OF k(1), of "ps_Environment s"]] c k Cons.prems(2)
    by (auto simp: psheds_def sheds_def)
  have "step_resource i (ps_aws s) \<inter> live (ps_world s1) = {}" if "cr_cleanup (creations p ! i) = c" "i < 5" for i
    using cleanup_clears [OF that(2)] c that Cons.prems(2) by blast
  moreover note Cons.IH [OF rest s1(1)] Cons.prems(3) s1
  ultimately show ?case by fastforce
qed (simp add: ret_def)

lemma rollback_same: "for_each (\<lambda>c. c) cs s = (Inr (), s') \<Longrightarrow> rollback cs s = (Inr (), s')"
  unfolding rollback_def
  by (induction cs arbitrary: s) (auto simp: andthen_Inr log_error_def attempt_def)

lemma build_failed:
  assumes "build p (creations p) [] s = (Inr (Some e, stack), s1)" "tracked ok live L st (set single_fields) s"
  obtains k where "k < 5" "stack = cleanups k" "tracked ok live L st (set (drop (Suc k) single_fields)) s1"
proof -
  have "\<exists>failed j. j \<le> 5 \<and> Inr (Some e, stack) = (Inr (failed, cleanups j) :: error + _) \<and> (failed = None \<longleftrightarrow> j = 5)
    \<and> tracked ok live L st (set (drop (if j = 5 then 5 else Suc j) single_fields)) s1"
    using build_progress [of 0 s _ s1 L st] assms by (simp only: drop_0 take_0 list.map rev.simps le0 simp_thms)
  then obtain failed j where j: "j \<le> 5" "failed = Some e" "stack = cleanups j" "failed = None \<longleftrightarrow> j = 5"
    and tr: "tracked ok live L st (set (drop (if j = 5 then 5 else Suc j) single_fields)) s1"
    by (elim exE conjE) (simp only: sum.inject prod.inject)
  have "j \<noteq> 5" using j(2,4) by blast
  then show ?thesis using that [of j] j(1,3) tr by (simp only: if_False)
qed

text \<open>After a step has failed and the earlier ones are undone, only its own resource can be left.\<close>

lemma failed_build:
  assumes "build p (creations p) [] s = (Inr (Some e, stack), s1)" "ok (ps_world s)" "ps_aws s = zero_AWS"
    and "for_each (\<lambda>c. c) stack s1 = (Inr (), s2)"
  shows "\<exists>k < 5. stack = cleanups k \<and> live (ps_world s2) \<subseteq> live (ps_world s) \<union> step_resource k (ps_aws s2) \<union> enis"
proof -
  let ?L = "live (ps_world s)" and ?st = "env_Status (ps_Environment s)"
  have "tracked ok live ?L ?st (set single_fields) s"
    using assms(2,3) by (auto simp: tracked_def zero_AWS_def)
  then obtain k where k: "k < 5" "stack = cleanups k"
    and s1: "tracked ok live ?L ?st (set (drop (Suc k) single_fields)) s1"
    using build_failed [OF assms(1)] by blast
  have stack: "\<exists>i < 5. c = cr_cleanup (creations p ! i)" if "c \<in> set stack" for c
  proof -
    from that k obtain i where "i < k" "c = cr_cleanup (creations p ! i)" by (auto simp: in_set_conv_nth)
    with k(1) show ?thesis by (metis less_trans)
  qed
  have "cr_cleanup (creations p ! i) \<in> set stack" if "i < k" for i
    using that k nth_mem [of i "take k (creations p)"] by simp
  with cleanups_clear [OF assms(4) _ stack] s1 k(1)
  have s2: "ps_cache s2 = ps_cache s1" "live (ps_world s2) \<subseteq> live (ps_world s1)"
    and gone: "\<And>i. i < k \<Longrightarrow> step_resource i (ps_aws s1) \<inter> live (ps_world s2) = {}"
    by (simp_all add: tracked_def)
  have "live (ps_world s2) \<subseteq> ?L \<union> step_resource k (ps_aws s1) \<union> enis"
  proof
    fix r assume r: "r \<in> live (ps_world s2)"
    with s2 s1 consider "r \<in> ?L \<union> enis" | "r \<in> mine (ps_aws s1)" by (auto simp: tracked_def)
    then show "r \<in> ?L \<union> step_resource k (ps_aws s1) \<union> enis"
    proof cases
      case 2
      have "\<forall>f \<in> set (drop (Suc k) single_fields). f (ps_aws s1) = ''''"
        using s1 unfolding tracked_def by (elim conjE)
      from mine_steps [OF k(1) this 2] obtain i where "i \<le> k" "r \<in> step_resource i (ps_aws s1)" by blast
      with gone [of i] r show ?thesis by (cases "i = k") auto
    qed blast
  qed
  with k s2 show ?thesis by auto
qed

end

end
