(* ===== verification/Fake_Build.thy ===== *)
theory Fake_Build
  imports Build_Contract Fake_Contract
begin

text \<open>
  The repository's fake account keeps the contract of the creations too.
\<close>

section \<open>Insertions\<close>

lemma fake_live_more: "(\<And>k. ids_of k s' = (if k = k0 then insert i (ids_of k s) else ids_of k s)) \<Longrightarrow>
    fake_live s' = insert (k0, i) (fake_live s)"
  by (auto simp: fake_live_def split: if_splits)

lemma live_insert:
  "m0 = fs_Vpcs s \<Longrightarrow> fake_live (s\<lparr>fs_Vpcs := AList.update i v0 m0\<rparr>) = insert (K_vpc, i) (fake_live s)"
  "m1 = fs_Subnets s \<Longrightarrow> fake_live (s\<lparr>fs_Subnets := AList.update i v1 m1\<rparr>) = insert (K_subnet, i) (fake_live s)"
  "m2 = fs_InternetGateways s \<Longrightarrow> fake_live (s\<lparr>fs_InternetGateways := AList.update i v2 m2\<rparr>) = insert (K_igw, i) (fake_live s)"
  "m3 = fs_RouteTables s \<Longrightarrow> fake_live (s\<lparr>fs_RouteTables := AList.update i v3 m3\<rparr>) = insert (K_rtb, i) (fake_live s)"
  "m4 = fs_SecurityGroups s \<Longrightarrow> fake_live (s\<lparr>fs_SecurityGroups := AList.update i v4 m4\<rparr>) = insert (K_sg, i) (fake_live s)"
  "m5 = fs_NetworkInterfaces s \<Longrightarrow> fake_live (s\<lparr>fs_NetworkInterfaces := AList.update i v5 m5\<rparr>) = insert (K_eni, i) (fake_live s)"
  by (rule fake_live_more, case_tac k; simp)+

lemma live_run: "m = fs_Instances s \<Longrightarrow> is_live v \<Longrightarrow>
    fake_live (s\<lparr>fs_Instances := AList.update i v m\<rparr>) = insert (K_instance, i) (fake_live s)"
  by (rule fake_live_more, case_tac k) auto

lemma live_counter [simp]: "fake_live (s\<lparr>fs_counter := n\<rparr>) = fake_live s" "fake_ok (s\<lparr>fs_counter := n\<rparr>) = fake_ok s"
  by (rule fake_live_same, case_tac k; simp) (simp add: fake_ok_def)

lemma ok_add_rtb: "m = fs_RouteTables s \<Longrightarrow> fake_ok s \<Longrightarrow> \<not> has_main rt \<Longrightarrow>
    fake_ok (s\<lparr>fs_RouteTables := AList.update i rt m\<rparr>)"
proof -
  assume m: "m = fs_RouteTables s" and ok: "fake_ok s" and rt: "\<not> has_main rt"
  then have "\<forall>r \<in> snd ` set (AList.update i rt m). \<not> has_main r"
    using vals_update [of i rt m] unfolding fake_ok_def by blast
  then show ?thesis using ok unfolding fake_ok_def by simp
qed

lemma nextID_simps [simp]:
  "nextID pfx s = (fake_id pfx (fs_counter s + 1), s\<lparr>fs_counter := fs_counter s + 1\<rparr>)"
  by (simp add: nextID_def Let_def)

lemma fake_id_named [simp]: "named k (fake_id pfx n) = {(k, fake_id pfx n)}"
  by (simp add: named_def fake_id_def)

lemma api_adds:
  assumes "\<And>s res s'. fake_ok s \<Longrightarrow> body s = (res, s') \<Longrightarrow>
      fake_ok s' \<and> fake_live s' \<subseteq> fake_live s \<union> enis \<union> (case res of Inl _ \<Rightarrow> {} | Inr v \<Rightarrow> A v s')"
  shows "adds fake_ok fake_live A (api m i body)"
  unfolding adds_def
proof (intro allI impI)
  fix s :: "'a Store_scheme" and res s'
  assume "api m i body s = (res, s')" and "fake_ok s"
  then show "fake_ok s' \<and> fake_live s' \<subseteq> fake_live s \<union> enis \<union> (case res of Inl _ \<Rightarrow> {} | Inr v \<Rightarrow> A v s')"
  proof (cases rule: api_cases)
    case (body s1)
    with assms [of s1 res s'] show ?thesis by simp
  qed auto
qed

lemma create_ops:
  "adds fake_ok fake_live (\<lambda>v _. named K_vpc (vpc_VpcId v)) (fCreateVpc vi)"
  "adds fake_ok fake_live (\<lambda>v _. named K_subnet (sn_SubnetId v)) (fCreateSubnet si)"
  "adds fake_ok fake_live (\<lambda>gw s. named K_igw (igw_InternetGatewayId (gw s))) (fCreateInternetGateway tags)"
  "adds fake_ok fake_live (\<lambda>v _. named K_rtb (rt_RouteTableId v)) (fCreateRouteTable i tags)"
  "adds fake_ok fake_live (\<lambda>v _. named K_sg v) (fCreateSecurityGroup gi)"
  unfolding fCreateVpc_def fCreateSubnet_def fCreateInternetGateway_def fCreateRouteTable_def
    fCreateSecurityGroup_def
  by (rule api_adds; auto simp: okay_def Let_def live_insert ok_fields lookup_or_def has_main_def intro: ok_add_rtb)+

lemma run_op:
  assumes "rii_MinCount ri = Some 1"
  shows "adds fake_ok fake_live (\<lambda>insts _. first_named insts) (fRunInstances ri)"
  unfolding fRunInstances_def
  by (rule api_adds, simp add: assms run_count_def run_one_def Let_def okay_def)
    (auto simp: first_named_def live_run live_insert ok_fields is_live_def)

lemma quiet_more:
  "pres (sheds fake_ok fake_live R) (fModifyVpcAttribute i b)"
  "pres (sheds fake_ok fake_live R) (fCreateRoute rin)"
  "pres (sheds fake_ok fake_live R) (fModifyNetworkInterfaceAttribute ni)"
  "pres (sheds fake_ok fake_live R) (fDescribeImages ii)"
  "pres (sheds fake_ok fake_live R) (fDescribeInstanceTypes ids tok)"
  "pres (sheds fake_ok fake_live R) (fGetParameter i)"
  unfolding fModifyVpcAttribute_def fCreateRoute_def fModifyNetworkInterfaceAttribute_def
    fDescribeImages_def fDescribeInstanceTypes_def fGetParameter_def
  by (rule api_quiet; simp add: okay_def)+

lemma live_keep:
  "m1 = fs_RouteTables s \<Longrightarrow> i \<in> keys m1 \<Longrightarrow> fake_live (s\<lparr>fs_RouteTables := AList.update i w m1\<rparr>) = fake_live s"
  "m2 = fs_NetworkInterfaces s \<Longrightarrow> i \<in> keys m2 \<Longrightarrow>
     fake_live (s\<lparr>fs_NetworkInterfaces := AList.update i ni' m2\<rparr>) = fake_live s"
  "m3 = fs_Instances s \<Longrightarrow> map_of m3 i = Some inst \<Longrightarrow> is_live inst' = is_live inst \<Longrightarrow>
     fake_live (s\<lparr>fs_Instances := AList.update i inst' m3\<rparr>) = fake_live s"
  by (rule fake_live_same, case_tac k; auto)+

lemma associate_op: "pres (sheds fake_ok fake_live R) (fAssociateRouteTable i v :: ('z Store_scheme, string) io)"
  unfolding fAssociateRouteTable_def
proof (rule api_sheds)
  fix s :: "'z Store_scheme"
  assume ok: "fake_ok s"
  let ?s = "s\<lparr>fs_counter := fs_counter s + 1\<rparr>"
  have "fake_ok (?s\<lparr>fs_RouteTables := AList.update i (rt\<lparr>rt_Associations := rt_Associations rt @
      [\<lparr>ra_RouteTableAssociationId = Some a, ra_RouteTableId = i, ra_SubnetId = v, ra_Main = Some False\<rparr>]\<rparr>)
      (fs_RouteTables ?s)\<rparr>)" if "map_of (fs_RouteTables s) i = Some rt" for rt a
  proof (rule ok_add_rtb [OF refl])
    have "\<not> has_main rt" using ok map_of_SomeD [OF that] by (force simp: fake_ok_def)
    then show "\<not> has_main (rt\<lparr>rt_Associations := rt_Associations rt @
      [\<lparr>ra_RouteTableAssociationId = Some a, ra_RouteTableId = i, ra_SubnetId = v, ra_Main = Some False\<rparr>]\<rparr>)"
      by (auto simp: has_main_def)
  qed (simp add: ok)
  then show "sheds fake_ok fake_live R s (snd (let (a, s) = nextID ''rtbassoc'' s
     in okay a (case map_of (fs_RouteTables s) i of
         None \<Rightarrow> s
       | Some rt \<Rightarrow> s\<lparr>fs_RouteTables := AList.update i
           (rt\<lparr>rt_Associations := rt_Associations rt @
              [\<lparr>ra_RouteTableAssociationId = Some a, ra_RouteTableId = i, ra_SubnetId = v, ra_Main = Some False\<rparr>]\<rparr>)
           (fs_RouteTables s)\<rparr>)))"
    using ok live_keep(1) [of _ ?s i] by (simp add: okay_def sheds_def map_of_Some_keys split: option.split)
qed

lemma update_ops:
  "pres (sheds fake_ok fake_live R) (fAttachInternetGateway i v)"
  "pres (sheds fake_ok fake_live R) (fAuthorizeSecurityGroupIngress i perms)"
  unfolding fAttachInternetGateway_def fAuthorizeSecurityGroupIngress_def
  by (rule api_sheds; simp add: okay_def set_ingress_def sheds_refl sheds_same live_update ok_fields split: option.split)+

lemma tag_one_quiet: "fake_live (tag_one tags s i) = fake_live s \<and> fake_ok (tag_one tags s i) = fake_ok s"
  by (simp add: tag_one_def ok_fields is_live_def live_keep map_of_Some_keys split: option.split)

lemma tags_op: "pres (sheds fake_ok fake_live R) (fCreateTags ids tags)"
  unfolding fCreateTags_def
proof (rule api_sheds)
  fix s :: "'a Store_scheme"
  have "fake_live (foldl (tag_one tags) s ids) = fake_live s \<and> fake_ok (foldl (tag_one tags) s ids) = fake_ok s"
    by (induction ids arbitrary: s) (simp_all add: tag_one_quiet)
  then show "sheds fake_ok fake_live R s (snd (okay () (foldl (tag_one tags) s ids)))"
    by (simp add: okay_def sheds_same)
qed

lemma platform_quiet_more:
  "pres (sheds fake_ok fake_live enis) (pl_WaitRunning fake_platform ids n)"
  "pres (sheds fake_ok fake_live enis) (pl_HttpGet fake_platform url n)"
  by (simp_all add: fake_platform_def instances_in_def shed.pres_rules quiet_ops)

lemma fake_more_clients:
  "ec2_CreateVpc FakeEC2 = fCreateVpc" "ec2_CreateSubnet FakeEC2 = fCreateSubnet"
  "ec2_CreateInternetGateway FakeEC2 = fCreateInternetGateway" "ec2_CreateRouteTable FakeEC2 = fCreateRouteTable"
  "ec2_CreateSecurityGroup FakeEC2 = fCreateSecurityGroup" "ec2_RunInstances FakeEC2 = fRunInstances"
  "ec2_ModifyVpcAttribute FakeEC2 = fModifyVpcAttribute" "ec2_CreateRoute FakeEC2 = fCreateRoute"
  "ec2_AttachInternetGateway FakeEC2 = fAttachInternetGateway"
  "ec2_AssociateRouteTable FakeEC2 = fAssociateRouteTable"
  "ec2_AuthorizeSecurityGroupIngress FakeEC2 = fAuthorizeSecurityGroupIngress"
  "ec2_CreateTags FakeEC2 = fCreateTags" "ec2_DescribeImages FakeEC2 = fDescribeImages"
  "ec2_ModifyNetworkInterfaceAttribute FakeEC2 = fModifyNetworkInterfaceAttribute"
  "ec2_DescribeInstanceTypes FakeEC2 = fDescribeInstanceTypes" "ssm_GetParameter FakeSSM = fGetParameter"
  by (simp_all add: FakeEC2_def FakeSSM_def)

interpretation fake_builder: aws_builder "fake_provider env" fake_ok fake_live for env
  by unfold_locales (unfold fake_provider_simps fake_more_clients,
    (rule create_ops quiet_more associate_op update_ops tags_op platform_quiet_more run_op |
     simp add: fake_provider_def New_def NewResolver_def)+)

end
