(* ===== verification/Success.thy ===== *)
theory Success
  imports Create
begin

text \<open>
  Total correctness of computations: \<open>runs P m Q\<close> says that from \<open>P\<close> the computation returns
  without error and ends in \<open>Q\<close>; \<open>stays P m\<close> is the case where \<open>P\<close> is kept. The rules follow the
  combinators of \<open>Prelude\<close>, and the retry and status functions of the provider.
\<close>

section \<open>Rules\<close>

definition runs :: "('s \<Rightarrow> bool) \<Rightarrow> ('s, 'a) io \<Rightarrow> ('a \<Rightarrow> 's \<Rightarrow> bool) \<Rightarrow> bool" where
  "runs P m Q \<longleftrightarrow> (\<forall>s. P s \<longrightarrow> (\<exists>v s'. m s = (Inr v, s') \<and> Q v s'))"

abbreviation stays :: "('s \<Rightarrow> bool) \<Rightarrow> ('s, 'a) io \<Rightarrow> bool" where
  "stays P m \<equiv> runs P m (\<lambda>_. P)"

lemma runsI: "(\<And>s. P s \<Longrightarrow> \<exists>v s'. m s = (Inr v, s') \<and> Q v s') \<Longrightarrow> runs P m Q"
  by (simp add: runs_def)

lemma runsD: "runs P m Q \<Longrightarrow> P s \<Longrightarrow> \<exists>v s'. m s = (Inr v, s') \<and> Q v s'"
  by (simp add: runs_def)

lemma runs_weaken: "runs P m Q \<Longrightarrow> (\<And>v s. Q v s \<Longrightarrow> Q' v s) \<Longrightarrow> runs P m Q'"
  unfolding runs_def by blast

lemma runs_strengthen: "runs P m Q \<Longrightarrow> (\<And>s. P' s \<Longrightarrow> P s) \<Longrightarrow> runs P' m Q"
  unfolding runs_def by blast

lemma runs_ret: "(\<And>s. P s \<Longrightarrow> Q v s) \<Longrightarrow> runs P (ret v) Q"
  by (simp add: runs_def ret_def)

lemma runs_gets: "(\<And>s. P s \<Longrightarrow> Q (f s) s) \<Longrightarrow> runs P (gets f) Q"
  by (simp add: runs_def gets_def)

lemma runs_andthen: "runs P m Q \<Longrightarrow> (\<And>v. runs (Q v) (k v) R) \<Longrightarrow> runs P (andthen m k) R"
  unfolding runs_def andthen_def by fastforce

lemma runs_catch: "runs P m Q \<Longrightarrow> runs P (catch m h) Q"
  unfolding runs_def catch_def by fastforce

lemma runs_wrap: "runs P m Q \<Longrightarrow> runs P (wrap t m) Q"
  unfolding wrap_def by (rule runs_catch)

lemma runs_attempt: "(\<And>s. P s \<Longrightarrow> Q (fst (m s)) (snd (m s))) \<Longrightarrow> runs P (attempt m) Q"
  by (simp add: runs_def attempt_def case_prod_beta)

text \<open>An error whose handler goes on.\<close>

lemma runs_catch_error:
  assumes "\<And>s r s'. P s \<Longrightarrow> m s = (r, s') \<Longrightarrow> (case r of Inr v \<Rightarrow> Q v s' | Inl e \<Rightarrow> E e s')"
    and "\<And>e. runs (E e) (h e) Q"
  shows "runs P (catch m h) Q"
proof (rule runsI)
  fix s assume s: "P s"
  obtain r s' where m: "m s = (r, s')" by (cases "m s") auto
  show "\<exists>v t. catch m h s = (Inr v, t) \<and> Q v t"
    using assms(1) [OF s m] m runsD [OF assms(2), of _ s'] by (cases r) (auto simp: catch_def)
qed

lemma stays_ret: "stays P (ret v)"
  by (rule runs_ret)

lemma stays_gets: "stays P (gets f)"
  by (rule runs_gets)

lemma stays_andthen: "stays P m \<Longrightarrow> (\<And>v. stays P (k v)) \<Longrightarrow> stays P (andthen m k)"
  by (rule runs_andthen)

lemma stays_if: "(b \<Longrightarrow> stays P m) \<Longrightarrow> (\<not> b \<Longrightarrow> stays P m') \<Longrightarrow> stays P (if b then m else m')"
  by simp

lemma stays_log_error:
  assumes "pres (\<lambda>s s'. P s \<longrightarrow> P s') m"
  shows "stays P (log_error m)"
  unfolding log_error_def
  by (rule runs_andthen, rule runs_attempt [where Q = "\<lambda>_. P"]) (use assms in \<open>auto simp: pres_def intro: runs_ret\<close>)

lemma stays_logged: "stays P m \<Longrightarrow> stays P (log_error m)"
  unfolding log_error_def
  by (rule runs_andthen, rule runs_attempt [where Q = "\<lambda>_. P"]) (fastforce simp: runs_def intro: runs_ret)+

lemma stays_environment:
  "(\<And>s. P s \<Longrightarrow> ps_Environment s = env) \<Longrightarrow> runs P (k env) Q \<Longrightarrow> runs P (andthen environment k) Q"
  by (simp add: runs_def environment_def andthen_def gets_def)

lemma runs_retry: "runs P m Q \<Longrightarrow> runs P (retryWithBackoff p m) Q"
  by (simp add: retryWithBackoff_def eval_nat_numeral runs_catch)

lemma runs_unless_gone:
  assumes "\<And>s r s'. P s \<Longrightarrow> m s = (r, s') \<Longrightarrow> Q s' \<and> (case r of Inr _ \<Rightarrow> True | Inl e \<Rightarrow> contains e code)"
  shows "runs P (unless_gone code m) (\<lambda>_. Q)"
  unfolding unless_gone_def
proof (rule runs_catch_error [where E = "\<lambda>e s. Q s \<and> contains e code"])
  show "P s \<Longrightarrow> m s = (r, s') \<Longrightarrow> (case r of Inr v \<Rightarrow> Q s' | Inl e \<Rightarrow> Q s' \<and> contains e code)" for s r s'
    using assms [of s r s'] by (auto split: sum.splits)
  show "runs (\<lambda>s. Q s \<and> contains e code) (if contains e code then ret () else fail e) (\<lambda>_. Q)" for e
    by (simp add: runs_def ret_def)
qed

text \<open>A predicate of the account in an environment that is \<open>E\<close>; the provider's cache is free.\<close>

definition at :: "Environment \<Rightarrow> ('s \<Rightarrow> bool) \<Rightarrow> 's pstate \<Rightarrow> bool" where
  "at E P s \<longleftrightarrow> P (ps_world s) \<and> ps_Environment s = E"

lemma runs_on_world: "runs P m Q \<Longrightarrow> runs (at E P) (on_world m) (\<lambda>v. at E (Q v))"
  by (fastforce simp: runs_def on_world_def at_def)

lemma at_environment: "runs (at E P) (k E) Q \<Longrightarrow> runs (at E P) (andthen environment k) Q"
  by (rule stays_environment) (simp_all add: at_def)

lemma at_set_aws: "stays (at E P) (set_aws f)"
  by (simp add: runs_def at_def set_aws_def modify_def)

lemma at_set_cache: "stays (at E P) (set_cache f)"
  by (simp add: runs_def at_def set_cache_def modify_def)

lemma at_sleep: "(\<And>w. P w \<Longrightarrow> P (p_sleep p n w)) \<Longrightarrow> stays (at E P) (sleep p n)"
  by (simp add: runs_def at_def sleep_def on_world_def)

lemma at_now: "stays (at E P) (now p)"
  unfolding now_def by (rule stays_gets)

lemma stays_env: "stays P environment"
  unfolding environment_def by (rule stays_gets)

lemmas at_basics = runs_wrap runs_retry stays_andthen stays_gets stays_ret stays_if stays_env
  at_set_aws at_set_cache at_sleep at_now stays_logged

end
