(* ===== verification/Fake_Create.thy ===== *)
theory Fake_Create
  imports Fake_Build Success
begin

text \<open>
  The creation of a single-node environment on the repository's fake account succeeds when no
  failure is injected and the account offers the image and the instance type.
\<close>

section \<open>An account that does not fail\<close>

definition calm :: "'z Store_scheme \<Rightarrow> bool" where
  "calm w \<longleftrightarrow> (\<forall>m. get_list (fs_failures w) m = [])"

lemma calm_api: "calm w \<Longrightarrow> api m i body w = body (record_call m i w)"
  by (simp add: calm_def api_def failure_def record_call_def)

lemma calm_record [simp]: "calm (record_call m i w) = calm w"
  by (simp add: calm_def record_call_def)

text \<open>With the images and instance types of a catalog.\<close>

definition ready :: "Ec2Image list \<Rightarrow> string list gomap \<Rightarrow> 'z Store_scheme \<Rightarrow> bool" where
  "ready imgs types w \<longleftrightarrow> calm w \<and> fs_Images w = imgs \<and> fs_InstanceTypes w = types"

lemma ready_calm: "ready imgs types w \<Longrightarrow> calm w"
  by (simp add: ready_def)

lemma ready_record [simp]: "ready imgs types (record_call m i w) = ready imgs types w"
  by (simp add: ready_def) (simp add: record_call_def)

lemma api_stays:
  assumes "\<And>w. ready imgs types w \<Longrightarrow> \<exists>v w'. body w = (Inr v, w') \<and> Q v w'"
  shows "runs (ready imgs types) (api m i body) Q"
  by (rule runsI) (simp add: calm_api [OF ready_calm] assms)

lemma ready_fields [simp]:
  "ready imgs types (w\<lparr>fs_Vpcs := a1\<rparr>) = ready imgs types w" "ready imgs types (w\<lparr>fs_Subnets := a2\<rparr>) = ready imgs types w"
  "ready imgs types (w\<lparr>fs_InternetGateways := a3\<rparr>) = ready imgs types w"
  "ready imgs types (w\<lparr>fs_RouteTables := a4\<rparr>) = ready imgs types w"
  "ready imgs types (w\<lparr>fs_SecurityGroups := a5\<rparr>) = ready imgs types w"
  "ready imgs types (w\<lparr>fs_Instances := a6\<rparr>) = ready imgs types w"
  "ready imgs types (w\<lparr>fs_NetworkInterfaces := a7\<rparr>) = ready imgs types w"
  "ready imgs types (w\<lparr>fs_counter := n\<rparr>) = ready imgs types w"
  by (simp_all add: ready_def calm_def)

lemma ready_world [simp]:
  "ready imgs types (w\<lparr>fw_files := fs\<rparr>) = ready imgs types w" "ready imgs types (w\<lparr>fw_clock := c\<rparr>) = ready imgs types w"
  by (simp_all add: ready_def calm_def)

lemma create_runs:
  "stays (ready imgs types) (fCreateVpc vi)" "stays (ready imgs types) (fModifyVpcAttribute i b)"
  "stays (ready imgs types) (fCreateSubnet si)" "stays (ready imgs types) (fCreateInternetGateway tags)"
  "stays (ready imgs types) (fAttachInternetGateway i v)" "stays (ready imgs types) (fCreateRouteTable i tags)"
  "stays (ready imgs types) (fAssociateRouteTable i v)" "stays (ready imgs types) (fCreateRoute rin)"
  "stays (ready imgs types) (fCreateSecurityGroup gi)" "stays (ready imgs types) (fAuthorizeSecurityGroupIngress i perms)"
  "stays (ready imgs types) (fModifyNetworkInterfaceAttribute ni)"
  unfolding fCreateVpc_def fModifyVpcAttribute_def fCreateSubnet_def fCreateInternetGateway_def
    fAttachInternetGateway_def fCreateRouteTable_def fAssociateRouteTable_def fCreateRoute_def
    fCreateSecurityGroup_def fAuthorizeSecurityGroupIngress_def fModifyNetworkInterfaceAttribute_def
  by (rule api_stays; auto simp: okay_def Let_def set_ingress_def split: option.split)+

lemma tag_one_ready: "ready imgs types (tag_one tags w i) = ready imgs types w"
  by (simp add: tag_one_def split: option.split)

lemma tags_run: "stays (ready imgs types) (fCreateTags ids tags :: ('z Store_scheme, unit) io)"
proof -
  have "ready imgs types (foldl (tag_one tags) w ids) = ready imgs types w" for w :: "'z Store_scheme"
    by (induction ids arbitrary: w) (simp_all add: tag_one_ready)
  then show ?thesis unfolding fCreateTags_def by (intro api_stays) (simp add: okay_def)
qed

lemma images_run: "ami \<in> im_ImageId ` set imgs \<Longrightarrow> dii_ImageIds ii = [ami] \<Longrightarrow>
    runs (ready imgs types) (fDescribeImages ii) (\<lambda>(page, _) w. page \<noteq> [] \<and> ready imgs types w)"
  unfolding fDescribeImages_def by (rule api_stays) (auto simp: okay_def ready_def filter_empty_conv)

lemma types_run: "runs (ready imgs types) (fDescribeInstanceTypes [] tok)
    (\<lambda>(page, _) w. iti_InstanceType ` set page = keys types \<and> ready imgs types w)"
  unfolding fDescribeInstanceTypes_def
  by (rule api_stays) (force simp: okay_def ready_def instanceTypeInfo_def)

section \<open>The instance\<close>

text \<open>A running instance of the account, with a network interface.\<close>

definition has_instance :: "Ec2Instance \<Rightarrow> 'z Store_scheme \<Rightarrow> bool" where
  "has_instance inst w \<longleftrightarrow> map_of (fs_Instances w) (ei_InstanceId inst) = Some inst
     \<and> map_option is_Name (ei_State inst) = Some ''running'' \<and> ei_NetworkInterfaces inst \<noteq> []"

lemma run_runs: "rii_MinCount ri = Some 1 \<Longrightarrow>
    runs (ready imgs types) (fRunInstances ri)
      (\<lambda>insts w. \<exists>inst. insts = [inst] \<and> has_instance inst w \<and> ready imgs types w)"
  unfolding fRunInstances_def
  by (rule api_stays) (simp add: run_count_def run_one_def Let_def okay_def has_instance_def)

lemma describe_runs: "runs (\<lambda>w. has_instance inst w \<and> ready imgs types w)
    (fDescribeInstances [ei_InstanceId inst] [] :: ('z Store_scheme, Ec2Instance list list) io)
    (\<lambda>rs w. rs = [[inst]] \<and> has_instance inst w \<and> ready imgs types w)"
proof (rule runsI)
  fix w :: "'z Store_scheme"
  assume w: "has_instance inst w \<and> ready imgs types w"
  then have "calm w" and "map_of (fs_Instances (record_call m i w)) (ei_InstanceId inst) = Some inst" for m i
    by (auto simp: has_instance_def record_call_def ready_def)
  then show "\<exists>rs w'. fDescribeInstances [ei_InstanceId inst] [] w = (Inr rs, w')
      \<and> rs = [[inst]] \<and> has_instance inst w' \<and> ready imgs types w'"
    using w by (simp add: fDescribeInstances_def calm_api okay_def has_instance_def)
qed

section \<open>The creation succeeds\<close>

lemma fake_platform_simps [simp]:
  "pl_Now fake_platform = fw_clock" "pl_Pages fake_platform = 8"
  "pl_HttpGet fake_platform url n = ret (200, ''198.51.100.7'')"
  "pl_Marshal fake_platform = Inr" "pl_Unmarshal fake_platform = Inr"
  "pl_MkdirAll fake_platform path mode = ret ()" "pl_Chmod fake_platform path mode = ret ()"
  "pl_WriteFile fake_platform path data mode w = (Inr (), w\<lparr>fw_files := AList.update path data (fw_files w)\<rparr>)"
  "pl_WaitRunning fake_platform = instances_in ''running''"
  "pl_WaitTerminated fake_platform = instances_in ''terminated''"
  by (simp_all add: fake_platform_def)

lemma updateStatus_runs: "(\<And>w fs. P (w\<lparr>fw_files := fs\<rparr>) = P w) \<Longrightarrow>
    stays (at E P) (updateStatus (fake_provider env) env' a conds)"
  by (simp add: runs_def at_def updateStatus_def on_world_def update_def andthen_def ret_def lift_result_def
      case_prod_beta)

lemma condition_runs:
  assumes "\<And>w fs. P (w\<lparr>fw_files := fs\<rparr>) = P w"
  shows "stays (at E P) (updateProgressingCondition (fake_provider env) a r t)"
    "stays (at E P) (updateDegradedCondition (fake_provider env) a r t)"
    "stays (at E P) (updateTerminatedCondition (fake_provider env) a)"
    "stays (at E P) (updateAvailableCondition (fake_provider env) a)"
  unfolding updateProgressingCondition_def updateDegradedCondition_def updateTerminatedCondition_def
    updateAvailableCondition_def updateCondition_def
  by (intro at_basics updateStatus_runs assms)+

lemma progressed_runs: "stays (at E (ready imgs types)) (progressed (fake_provider env) m)"
  unfolding progressed_def by (intro at_basics condition_runs) simp

lemma fake_address: "TrimSpace ''198.51.100.7'' = ''198.51.100.7''" "isValidPublicIP ''198.51.100.7''"
proof -
  show "TrimSpace ''198.51.100.7'' = ''198.51.100.7''" by code_simp
  have "dotted 198 51 100 7 = ''198.51.100.7''" by code_simp
  with valid_dotted [of 198 51 100 7] show "isValidPublicIP ''198.51.100.7''" by simp
qed

lemma address_runs: "stays (at E P) (GetIPAddress (fake_provider env))"
  by (simp add: runs_def GetIPAddress_def GetIPAddressWithServices_def DefaultIPServices_def now_def gets_def
      andthen_def attempt_def getIPFromHTTPService_def wrap_def catch_def on_world_def ret_def Let_def
      fake_address at_def)

lemmas on_fake = create_runs [THEN runs_on_world] tags_run [THEN runs_on_world]

lemma steps_run:
  "stays (at E (ready imgs types)) (createVPC (fake_provider env))"
  "stays (at E (ready imgs types)) (createSubnet (fake_provider env))"
  "stays (at E (ready imgs types)) (createInternetGateway (fake_provider env))"
  "stays (at E (ready imgs types)) (createRouteTable (fake_provider env))"
  "stays (at E (ready imgs types)) (createSecurityGroup (fake_provider env))"
  unfolding createVPC_def createSubnet_def createInternetGateway_def createRouteTable_def make_route_table_def
    createSecurityGroup_def Let_def fake_provider_simps fake_more_clients
  by (intro at_basics on_fake address_runs; (simp split: list.split, intro conjI allI impI at_basics)?)+

lemma has_instance_fields [simp]:
  "has_instance inst (w\<lparr>fs_NetworkInterfaces := a\<rparr>) = has_instance inst w"
  "has_instance inst (record_call m i w) = has_instance inst w"
  by (simp_all add: has_instance_def record_call_def)

text \<open>An explicit image of the account is used as it is.\<close>

definition uses_image :: "string \<Rightarrow> Environment \<Rightarrow> bool" where
  "uses_image ami env \<longleftrightarrow> img_ImageId (env_image env) = Some ami"

lemma setAMI_runs: "uses_image ami E \<Longrightarrow> stays (at E P) (setAMI p)"
  unfolding setAMI_def by (rule at_environment) (simp add: uses_image_def stays_ret)

lemma root_device_runs:
  assumes "ami \<in> im_ImageId ` set imgs"
  shows "stays (at E (ready imgs types)) (describeImageRootDevice (fake_provider env) ami)"
  unfolding describeImageRootDevice_def one_image_def fake_provider_simps fake_more_clients
proof (intro runs_andthen [OF runs_andthen] runs_wrap)
  show "runs (at E (ready imgs types)) (on_world (fDescribeImages
      \<lparr>dii_ImageIds = [ami], dii_Filters = [], dii_Owners = [], dii_NextToken = None\<rparr>))
      (\<lambda>(page, _). at E (\<lambda>w. page \<noteq> [] \<and> ready imgs types w))"
    by (rule runs_weaken [OF runs_on_world [OF images_run [OF assms]]]) (auto simp: at_def)
  show "runs ((\<lambda>(page, _). at E (\<lambda>w. page \<noteq> [] \<and> ready imgs types w)) v) (case v of (images, _) \<Rightarrow>
      case images of [] \<Rightarrow> fail (''image '' @ ami @ '' not found'') | im # _ \<Rightarrow> ret im) (\<lambda>_. at E (ready imgs types))" for v
    by (auto simp: runs_def ret_def at_def split: prod.split list.split)
qed (rule stays_ret)

abbreviation with_instance :: "Environment \<Rightarrow> Ec2Image list \<Rightarrow> string list gomap \<Rightarrow> Ec2Instance \<Rightarrow> fake_world pstate \<Rightarrow> bool" where
  "with_instance E imgs types inst \<equiv> at E (\<lambda>w. has_instance inst w \<and> ready imgs types w)"

lemma wait_running_runs:
  "stays (with_instance E imgs types inst) (on_world (instances_in ''running'' [ei_InstanceId inst] n))"
  unfolding instances_in_def
  by (rule runs_weaken [OF runs_on_world [OF runs_andthen [OF describe_runs]]])
    (auto simp: runs_def ret_def has_instance_def)

lemma configure_runs:
  "runs (with_instance E imgs types inst) (configure_instance (fake_provider env) inst) (\<lambda>_. at E (ready imgs types))"
proof -
  have weaker: "runs P m Q" if "runs (at E (ready imgs types)) m Q" "\<And>s. P s \<Longrightarrow> at E (ready imgs types) s"
    for P m and Q :: "unit \<Rightarrow> fake_world pstate \<Rightarrow> bool"
    by (rule runs_strengthen [OF that])
  let ?nis = "ei_NetworkInterfaces inst"
  have last: "stays (at E (ready imgs types)) (case ?nis of [] \<Rightarrow> fail index_panic
      | ni # _ \<Rightarrow> andthen (wrap t (on_world (fCreateTags [nif_NetworkInterfaceId ni] tags)))
          (\<lambda>_. wrap u (on_world (fModifyNetworkInterfaceAttribute (no_source_dest_check (nif_NetworkInterfaceId ni))))))"
    if "?nis \<noteq> []" for t u tags
    using that by (cases ?nis) (auto intro!: at_basics on_fake)
  show ?thesis
    unfolding configure_instance_def Let_def fake_provider_simps fake_more_clients fake_platform_simps fake_clients
  proof (intro runs_andthen runs_wrap)
    show "stays (with_instance E imgs types inst) (on_world (instances_in ''running'' [ei_InstanceId inst] 300))"
      by (rule wait_running_runs)
    show "runs (with_instance E imgs types inst) (on_world (fDescribeInstances [ei_InstanceId inst] []))
        (\<lambda>rs. at E (\<lambda>w. rs = [[inst]] \<and> has_instance inst w \<and> ready imgs types w))"
      by (rule runs_on_world [OF describe_runs])
    fix rs
    show "runs (at E (\<lambda>w. rs = [[inst]] \<and> has_instance inst w \<and> ready imgs types w))
        (case first_instance rs of None \<Rightarrow> fail index_panic
         | Some running \<Rightarrow> andthen (set_aws (\<lambda>a. a\<lparr>aw_PublicDnsName := ei_PublicDnsName running\<rparr>)) (\<lambda>_.
             case ?nis of [] \<Rightarrow> fail index_panic
             | ni # _ \<Rightarrow> andthen (wrap ''fail to tag network to instance''
                   (on_world (fCreateTags [nif_NetworkInterfaceId ni] (p_Tags (fake_provider env)))))
                 (\<lambda>_. wrap ''error disabling source/dest check''
                   (on_world (fModifyNetworkInterfaceAttribute (no_source_dest_check (nif_NetworkInterfaceId ni)))))))
        (\<lambda>_. at E (ready imgs types))"
    proof (cases "rs = [[inst]] \<and> ?nis \<noteq> []")
      case True
      then show ?thesis
        by (simp add: first_instance_def)
          (rule runs_strengthen [OF runs_andthen [OF at_set_aws last]]; auto simp: at_def)
    next
      case False
      then show ?thesis by (auto simp: runs_def at_def has_instance_def)
    qed
  qed
qed

lemma instance_runs:
  assumes "uses_image ami E" "ami \<in> im_ImageId ` set imgs"
  shows "stays (at E (ready imgs types)) (createEC2Instance (fake_provider env))"
  unfolding createEC2Instance_def
proof (rule runs_andthen [OF runs_wrap [OF setAMI_runs [OF assms(1)]]], rule at_environment,
    rule runs_andthen [OF stays_gets])
  fix a
  have run: "runs (at E (ready imgs types)) (on_world (fRunInstances (instance_input p E a ami d)))
      (\<lambda>insts. at E (\<lambda>w. \<exists>inst. insts = [inst] \<and> has_instance inst w \<and> ready imgs types w))" for p :: "(fake_world, Environment) Provider" and d
    by (rule runs_on_world, rule run_runs) (simp add: instance_input_def)
  have rest: "runs (at E (\<lambda>w. \<exists>inst. insts = [inst] \<and> has_instance inst w \<and> ready imgs types w))
      (case insts of [] \<Rightarrow> fail index_panic
       | inst # _ \<Rightarrow> andthen (set_aws (\<lambda>a. a\<lparr>aw_Instanceid := ei_InstanceId inst\<rparr>))
           (\<lambda>_. configure_instance (fake_provider env) inst)) (\<lambda>_. at E (ready imgs types))" for insts
  proof (cases insts)
    case (Cons inst tl)
    then show ?thesis
      by simp (rule runs_strengthen [OF runs_andthen [OF at_set_aws configure_runs]], auto simp: at_def)
  qed (simp add: runs_def at_def)
  show "stays (at E (ready imgs types)) (case img_ImageId (env_image E) of
        None \<Rightarrow> fail ''panic: nil pointer dereference''
      | Some imageID \<Rightarrow>
          andthen (wrap ''error getting root device name'' (describeImageRootDevice (fake_provider env) imageID)) (\<lambda>d.
          andthen (wrap ''error creating instance'' (on_world (ec2_RunInstances (p_ec2 (fake_provider env))
            (instance_input (fake_provider env) E a imageID d)))) (\<lambda>insts.
          case insts of [] \<Rightarrow> fail index_panic
          | inst # _ \<Rightarrow> andthen (set_aws (\<lambda>a. a\<lparr>aw_Instanceid := ei_InstanceId inst\<rparr>))
              (\<lambda>_. configure_instance (fake_provider env) inst))))"
    using assms(1) unfolding uses_image_def fake_provider_simps fake_more_clients
    by (simp, intro runs_andthen [OF runs_wrap [OF root_device_runs [OF assms(2)]]]
        runs_andthen [OF runs_wrap [OF run] rest])
qed

lemma check_runs:
  assumes "sp_Cluster (env_Spec E) = None" "in_Type (sp_Instance (env_Spec E)) \<noteq> ''''"
    "in_Type (sp_Instance (env_Spec E)) \<in> keys types"
  shows "stays (at E (ready imgs types)) (checkInstanceTypes (fake_provider env))"
proof -
  have needed: "needed_types E = [in_Type (sp_Instance (env_Spec E))]"
    using assms by (simp add: needed_types_def)
  have "stays (at E (ready imgs types)) (type_pages (Suc n) (fake_provider env) E (needed_types E) None)" for n
    unfolding type_pages.simps fake_provider_simps fake_more_clients
  proof (rule runs_andthen [OF runs_on_world [OF types_run]])
    fix v
    show "runs (at E ((\<lambda>(page, _) w. iti_InstanceType ` set page = keys types \<and> ready imgs types w) v))
        (case v of (page, next) \<Rightarrow> let missing = filter (\<lambda>t. t \<notin> iti_InstanceType ` set page) (needed_types E) in
          case missing of [] \<Rightarrow> ret ()
          | t # _ \<Rightarrow> (case next of Some tok \<Rightarrow> type_pages n (fake_provider env) E missing (Some tok)
             | None \<Rightarrow> fail (''instance type '' @ t @ '' is not supported in the current region '' @ types_region E)))
        (\<lambda>_. at E (ready imgs types))"
      using assms by (cases v) (auto simp: runs_def at_def needed ret_def)
  qed
  from this [of 7] show ?thesis
    unfolding checkInstanceTypes_def by (intro at_environment) (simp add: needed)
qed

lemma build_runs:
  assumes "\<And>c. c \<in> set cs \<Longrightarrow> stays (at E (ready imgs types)) (cr_create c)"
  shows "runs (at E (ready imgs types)) (build (fake_provider env) cs stack)
    (\<lambda>(failed, _) s. failed = None \<and> at E (ready imgs types) s)"
  using assms
proof (induction cs arbitrary: stack)
  case Nil
  then show ?case by (simp add: runs_def ret_def)
next
  case (Cons c cs)
  have attempt: "runs (at E (ready imgs types)) (attempt (cr_create c)) (\<lambda>r s. r = Inr () \<and> at E (ready imgs types) s)"
    using Cons.prems [of c] by (fastforce simp: runs_def attempt_def)
  have rest: "runs (at E (ready imgs types)) (andthen (progressed (fake_provider env) (cr_message c))
      (\<lambda>_. build (fake_provider env) cs (cr_cleanup c # stack)))
      (\<lambda>(failed, _) s. failed = None \<and> at E (ready imgs types) s)"
    by (rule runs_andthen [OF progressed_runs Cons.IH]) (use Cons.prems in auto)
  show ?case
    unfolding build.simps
  proof (rule runs_andthen [OF attempt])
    fix r
    show "runs (\<lambda>s. r = Inr () \<and> at E (ready imgs types) s) (case r of
         Inl e \<Rightarrow> andthen (degraded (fake_provider env) (''Error creating '' @ cr_what c)) (\<lambda>_.
           ret (Some (''error creating '' @ cr_what c @ '': '' @ e), stack))
       | Inr _ \<Rightarrow> andthen (progressed (fake_provider env) (cr_message c)) (\<lambda>_.
           build (fake_provider env) cs (cr_cleanup c # stack)))
      (\<lambda>(failed, _) s. failed = None \<and> at E (ready imgs types) s)"
    proof (cases "r = Inr ()")
      case True
      then show ?thesis using rest by simp
    next
      case False
      then show ?thesis by (simp add: runs_def)
    qed
  qed
qed

text \<open>What a single-node environment must ask for.\<close>

definition feasible :: "Ec2Image list \<Rightarrow> string list gomap \<Rightarrow> Environment \<Rightarrow> bool" where
  "feasible imgs types env \<longleftrightarrow> sp_Cluster (env_Spec env) = None
     \<and> in_Type (sp_Instance (env_Spec env)) \<noteq> '''' \<and> in_Type (sp_Instance (env_Spec env)) \<in> keys types
     \<and> (case img_ImageId (env_image env) of Some ami \<Rightarrow> ami \<in> im_ImageId ` set imgs | None \<Rightarrow> False)"

lemma create_runs_single:
  assumes "feasible imgs types E"
  shows "stays (at E (ready imgs types)) (create_single_node (fake_provider env))"
proof -
  obtain ami where ami: "uses_image ami E" "ami \<in> im_ImageId ` set imgs"
    using assms by (auto simp: feasible_def uses_image_def split: option.splits)
  have start: "stays (at E (ready imgs types)) (start_instance (fake_provider env) stack)" for stack
    unfolding start_instance_def
    by (intro stays_andthen runs_catch instance_runs [OF ami] stays_gets condition_runs) simp
  have steps: "stays (at E (ready imgs types)) (cr_create c)" if "c \<in> set (creations (fake_provider env))" for c
    using that steps_run by (auto simp: creations_def)
  have check: "stays (at E (ready imgs types)) (checkInstanceTypes (fake_provider env))"
    using assms by (intro check_runs) (simp_all add: feasible_def)
  have last: "runs ((\<lambda>(failed, _) s. failed = None \<and> at E (ready imgs types) s) v)
      (case v of (failed, stack) \<Rightarrow> case failed of
         Some e \<Rightarrow> rolled_back stack e | None \<Rightarrow> start_instance (fake_provider env) stack)
      (\<lambda>_. at E (ready imgs types))" for v
    using start by (cases v) (auto simp: runs_def)
  show ?thesis
    unfolding create_single_node_def
    by (rule runs_andthen [OF runs_wrap [OF check]], rule runs_andthen [OF at_set_cache],
        rule runs_andthen [OF progressed_runs], rule runs_andthen [OF build_runs [OF steps] last])
qed

end
