(* ===== verification/Fake_Delete.thy ===== *)
theory Fake_Delete
  imports Fake_Create
begin

text \<open>
  The deletion of a single-node environment on the repository's fake account succeeds when no
  failure is injected, whatever its cache says.
\<close>

section \<open>Calls that remove\<close>

text \<open>An account that stays calm while \<open>gone\<close> stays gone.\<close>

definition missing :: "(fake_world \<Rightarrow> bool) \<Rightarrow> fake_world \<Rightarrow> bool" where
  "missing gone w \<longleftrightarrow> calm w \<and> gone w"

lemma calm_fields [simp]:
  "calm (w\<lparr>fs_Vpcs := a1\<rparr>) = calm w" "calm (w\<lparr>fs_Subnets := a2\<rparr>) = calm w"
  "calm (w\<lparr>fs_InternetGateways := a3\<rparr>) = calm w" "calm (w\<lparr>fs_RouteTables := a4\<rparr>) = calm w"
  "calm (w\<lparr>fs_SecurityGroups := a5\<rparr>) = calm w" "calm (w\<lparr>fs_Instances := a6\<rparr>) = calm w"
  "calm (w\<lparr>fs_NetworkInterfaces := a7\<rparr>) = calm w" "calm (w\<lparr>fs_Addresses := a8\<rparr>) = calm w"
  "calm (w\<lparr>fs_NatGateways := a9\<rparr>) = calm w" "calm (w\<lparr>fs_natDeleting := a10\<rparr>) = calm w"
  "calm (w\<lparr>fs_natPending := a11\<rparr>) = calm w" "calm (w\<lparr>fs_natDeleteScript := a12\<rparr>) = calm w"
  "calm (w\<lparr>fs_eniDraining := a13\<rparr>) = calm w"
  by (simp_all add: calm_def)

lemma calm_world [simp]: "calm (w\<lparr>fw_files := fs\<rparr>) = calm w" "calm (w\<lparr>fw_clock := c\<rparr>) = calm w"
  by (simp_all add: calm_def)

lemma calm_sleep [simp]: "calm (fake_sleep n w) = calm w"
  by (simp add: fake_sleep_def)

text \<open>Deletion and the check after it: on a calm account the call succeeds or reports its code.\<close>

lemma calm_gone:
  assumes "\<And>w :: fake_world. calm w \<Longrightarrow> \<exists>r w'. body w = (r, w') \<and> calm w' \<and> gone w'
      \<and> (case r of Inr (_::unit) \<Rightarrow> True | Inl e \<Rightarrow> contains e code)"
  shows "runs (at E calm) (retryWithBackoff p (unless_gone code (on_world (api m i body)))) (\<lambda>_. at E (missing gone))"
proof (rule runs_retry, rule runs_unless_gone)
  fix s r s'
  assume s: "at E calm s" and run: "on_world (api m i body) s = (r, s')"
  then obtain r1 w where "body (record_call m i (ps_world s)) = (r1, w)" "calm w" "gone w"
    "case r1 of Inr (_::unit) \<Rightarrow> True | Inl e \<Rightarrow> contains e code"
    using assms [of "record_call m i (ps_world s)"] by (auto simp: at_def)
  with s run show "at E (missing gone) s' \<and> (case r of Inr _ \<Rightarrow> True | Inl e \<Rightarrow> contains e code)"
    by (auto simp: on_world_def calm_api at_def missing_def)
qed

lemma notFound_contains [simp]: "contains (notFound code i) code"
  by (simp add: notFound_def)

lemma gone_runs:
  "runs (at E calm) (retryWithBackoff p (unless_gone ''InvalidSubnetID.NotFound'' (on_world (fDeleteSubnet i))))
     (\<lambda>_. at E (missing (\<lambda>w. map_of (fs_Subnets w) i = None)))"
  "runs (at E calm) (retryWithBackoff p (unless_gone ''InvalidGroup.NotFound'' (on_world (fDeleteSecurityGroup i))))
     (\<lambda>_. at E (missing (\<lambda>w. map_of (fs_SecurityGroups w) i = None)))"
  "runs (at E calm) (retryWithBackoff p (unless_gone ''InvalidRouteTableID.NotFound'' (on_world (fDeleteRouteTable i))))
     (\<lambda>_. at E (missing (\<lambda>w. map_of (fs_RouteTables w) i = None)))"
  "runs (at E calm) (retryWithBackoff p (unless_gone ''InvalidInternetGatewayID.NotFound'' (on_world (fDeleteInternetGateway i))))
     (\<lambda>_. at E (missing (\<lambda>w. map_of (fs_InternetGateways w) i = None)))"
  unfolding fDeleteSubnet_def fDeleteSecurityGroup_def fDeleteRouteTable_def fDeleteInternetGateway_def
  by (rule calm_gone; simp add: okay_def)+

lemma missing_calm: "at E (missing gone) s \<Longrightarrow> at E calm s"
  by (simp add: at_def missing_def)

lemma missing_sleep: "(\<And>w c. gone (w\<lparr>fw_clock := c\<rparr>) = gone w) \<Longrightarrow>
    stays (at E (missing gone)) (sleep (fake_provider env) n)"
  by (rule at_sleep) (simp add: missing_def fake_sleep_def)

lemma calm_sleeps: "stays (at E calm) (sleep (fake_provider env) n)"
  by (rule at_sleep) simp

text \<open>A describe call over a missing id fails, so the check says that nothing is left.\<close>

lemma calm_absent:
  assumes "\<And>w m j. gone w \<Longrightarrow> gone (record_call m j w)"
    and "\<And>w. gone w \<Longrightarrow> body w = (Inl e, w)"
  shows "runs (at E (missing gone)) (succeeds (on_world (api m i body))) (\<lambda>still s. \<not> still \<and> at E calm s)"
  using assms
  by (auto simp: runs_def succeeds_def on_world_def attempt_def andthen_def ret_def at_def missing_def calm_api)

lemma record_fields [simp]:
  "fs_Vpcs (record_call m i w) = fs_Vpcs w" "fs_Subnets (record_call m i w) = fs_Subnets w"
  "fs_SecurityGroups (record_call m i w) = fs_SecurityGroups w" "fs_Instances (record_call m i w) = fs_Instances w"
  by (simp_all add: record_call_def)

lemma absent_runs:
  "runs (at E (missing (\<lambda>w. map_of (fs_Subnets w) i = None))) (subnetExists (fake_provider env) i) (\<lambda>still s. \<not> still \<and> at E calm s)"
  "runs (at E (missing (\<lambda>w. map_of (fs_SecurityGroups w) i = None))) (securityGroupExists (fake_provider env) i)
     (\<lambda>still s. \<not> still \<and> at E calm s)"
  "runs (at E (missing (\<lambda>w. map_of (fs_Vpcs w) i = None))) (vpcExists (fake_provider env) i) (\<lambda>still s. \<not> still \<and> at E calm s)"
  unfolding subnetExists_def securityGroupExists_def vpcExists_def fake_provider_simps fake_clients
    fDescribeSubnets_def fDescribeSecurityGroups_def fDescribeVpcs_def
  by (rule calm_absent; simp)+

lemma unless_still: "runs (\<lambda>s. \<not> still \<and> P s) (if still then fail e else ret ()) (\<lambda>_. P)"
  by (simp add: runs_def ret_def)

lemma forget: "runs P m (\<lambda>_. at E (missing gone)) \<Longrightarrow> runs P m (\<lambda>_. at E calm)"
  by (erule runs_weaken) (rule missing_calm)

lemma subnet_runs: "stays (at E calm) (deleteSubnet (fake_provider env) a)"
  unfolding deleteSubnet_def Let_def fake_provider_simps fake_clients
  by (rule stays_if, rule stays_ret)
    (intro runs_andthen [OF runs_wrap [OF gone_runs(1)]] runs_andthen [OF missing_sleep]
      runs_andthen [OF absent_runs(1) unless_still], simp)

lemma security_group_runs: "stays (at E calm) (deleteSecurityGroup (fake_provider env) i label)"
  unfolding deleteSecurityGroup_def fake_provider_simps fake_clients
  by (rule stays_if, rule stays_ret)
    (intro runs_andthen [OF gone_runs(2)] runs_andthen [OF missing_sleep]
      runs_andthen [OF absent_runs(2) unless_still], simp)

lemma vpc_runs: "stays (at E calm) (deleteVPC (fake_provider env) a)"
proof -
  have once: "runs (at E calm) (delete_vpc_once (fake_provider env) i)
      (\<lambda>_. at E (missing (\<lambda>w. map_of (fs_Vpcs w) i = None)))" for i
    unfolding delete_vpc_once_def fake_provider_simps fake_clients fDeleteVpc_def
    by (auto simp: runs_def catch_def on_world_def at_def calm_api missing_def okay_def ret_def
        split: prod.splits sum.splits if_splits)
  show ?thesis
    unfolding deleteVPC_def Let_def
    by (rule stays_if, rule stays_ret)
      (intro runs_andthen [OF calm_sleeps] runs_andthen [OF runs_wrap [OF runs_retry [OF once]]]
        runs_andthen [OF missing_sleep] runs_andthen [OF absent_runs(3) unless_still], simp)
qed

lemma table_runs:
  "stays (at E calm) (deletePublicRouteTable (fake_provider env) a)"
  "stays (at E calm) (deletePublicSubnet (fake_provider env) a)"
  unfolding deletePublicRouteTable_def deletePublicSubnet_def Let_def fake_provider_simps fake_clients
  by (intro stays_if stays_ret runs_wrap forget [OF gone_runs(3)] forget [OF gone_runs(1)])+

lemma route_table_runs: "stays (at E calm) (deleteRouteTable (fake_provider env) a)"
proof -
  have "stays (at E calm) (attempt (isMainRouteTable (fake_provider env) i))" for i
    by (rule runs_attempt)
      (simp add: isMainRouteTable_def fake_clients fDescribeRouteTables_def at_def andthen_def on_world_def
        calm_api ret_def split: option.split)
  then show ?thesis
    unfolding deleteRouteTable_def Let_def
    by (intro stays_if stays_ret runs_andthen, assumption)
      (simp add: fake_clients, intro conjI impI stays_ret runs_wrap forget [OF gone_runs(3)])
qed

section \<open>Gateways and addresses\<close>

lemma gateway_runs: "stays (at E calm) (deleteInternetGateway (fake_provider env) a)"
proof -
  have gateway_codes: "isAlreadyDetachedError (notFound ''Gateway.NotAttached'' i)"
    "isAlreadyDetachedError (notFound ''InvalidInternetGatewayID.NotFound'' i)" for i
    by (simp_all add: isAlreadyDetachedError_def)
  have detach: "stays (at E calm) (detach_gateway (fake_provider env) i v)" for i v
    unfolding detach_gateway_def fake_provider_simps fake_clients fDetachInternetGateway_def
    by (rule runs_retry) (auto simp: runs_def catch_def on_world_def at_def calm_api okay_def ret_def gateway_codes
        split: prod.splits sum.splits option.splits if_splits)
  show ?thesis
    unfolding deleteInternetGateway_def Let_def fake_provider_simps fake_clients
    by (intro stays_if stays_ret stays_andthen runs_wrap detach calm_sleeps forget [OF gone_runs(4)])
qed

lemma advance_calm [simp]: "calm (snd (advanceNatState i ngw w)) = calm w" "calm (advanceENIDrain i w) = calm w"
  by (simp_all add: advanceNatState_def advanceENIDrain_def Let_def split: option.split)

lemma observe_nats_calm [simp]: "calm (snd (observe_nats ids w)) = calm w"
  by (induction ids w rule: observe_nats.induct) (auto simp: case_prod_beta Let_def prod_eq_iff split: option.split)

lemma observe_enis_calm [simp]: "calm (snd (observe_enis fs m w)) = calm w"
  by (induction fs m w rule: observe_enis.induct) (auto simp: case_prod_beta Let_def)

lemma calm_attempt: "(\<And>w. calm w \<Longrightarrow> calm (snd (body w))) \<Longrightarrow>
    stays (at E calm) (attempt (on_world (api m i body)))"
  by (rule runs_attempt) (simp add: at_def on_world_def calm_api case_prod_beta)

lemma nat_runs: "stays (at E calm) (deleteNATGateway (fake_provider env) a)"
proof -
  have poll: "stays (at E calm) (nat_poll n (fake_provider env) i)" for n i
  proof (induction n)
    case (Suc n)
    have "stays (at E calm) (attempt (on_world (fDescribeNatGateways [i])))"
      unfolding fDescribeNatGateways_def by (rule calm_attempt) (simp add: case_prod_beta okay_def del: observe_nats.simps)
    with Suc show ?case
      unfolding nat_poll.simps fake_provider_simps fake_clients
      by (intro stays_andthen calm_sleeps) (auto intro: stays_ret split: sum.split list.split)
  qed (simp add: stays_ret)
  have "runs (at E calm) (attempt (on_world (fDeleteNatGateway i)))
      (\<lambda>r s. at E calm s \<and> (case r of Inr _ \<Rightarrow> True | Inl e \<Rightarrow> contains e ''NatGatewayNotFound''))" for i
    unfolding fDeleteNatGateway_def
    by (rule runs_attempt) (simp add: at_def on_world_def calm_api okay_def case_prod_beta split: option.split)
  note del = this
  have rest: "runs (\<lambda>s. at E calm s \<and> (case r of Inr _ \<Rightarrow> True | Inl e \<Rightarrow> contains e ''NatGatewayNotFound''))
      (case r of Inl e \<Rightarrow> if contains e ''NatGatewayNotFound'' then ret () else fail (f e)
       | Inr _ \<Rightarrow> nat_poll 36 (fake_provider env) i) (\<lambda>_. at E calm)" for r :: "error + string" and f i
    using poll by (cases r) (simp_all add: runs_def ret_def)
  show ?thesis
    unfolding deleteNATGateway_def Let_def fake_provider_simps fake_clients
    by (intro stays_if stays_ret runs_andthen [OF del rest])
qed

lemma address_release_runs: "stays (at E calm) (releaseElasticIP (fake_provider env) a)"
  unfolding releaseElasticIP_def Let_def fake_provider_simps fake_clients fReleaseAddress_def
  by (auto simp: runs_def ret_def catch_def on_world_def at_def calm_api okay_def
      split: prod.splits sum.splits if_splits)

lemma network_runs: "stays (at E calm) (deleteVPCResources (fake_provider env) a)"
  unfolding deleteVPCResources_def
  by (intro stays_andthen stays_logged condition_runs nat_runs address_release_runs table_runs subnet_runs
      route_table_runs gateway_runs vpc_runs calm_world)

section \<open>Instances and groups\<close>

text \<open>The instance is absent or terminated.\<close>

definition dead :: "string \<Rightarrow> fake_world \<Rightarrow> bool" where
  "dead i w \<longleftrightarrow> (case map_of (fs_Instances w) i of None \<Rightarrow> True
     | Some inst \<Rightarrow> map_option is_Name (ei_State inst) = Some ''terminated'')"

lemma dead_record [simp]: "dead i (record_call m j w) = dead i w"
  by (simp add: dead_def)

lemma terminate_runs: "runs (at E calm) (terminate_request (fake_provider env) [i]) (\<lambda>_. at E (missing (dead i)))"
  unfolding terminate_request_def fake_provider_simps fake_clients fTerminateInstances_def
  by (rule calm_gone) (simp add: okay_def dead_def terminate_one_def split: option.split)

lemma waited: "runs (at E (missing (dead i))) (wait_for_termination (fake_provider env) i)
    (\<lambda>r s. r = None \<and> at E (missing (dead i)) s)"
proof (rule runsI)
  fix s assume s: "at E (missing (dead i)) s"
  show "\<exists>r s'. wait_for_termination (fake_provider env) i s = (Inr r, s') \<and> r = None \<and> at E (missing (dead i)) s'"
  proof (cases "map_of (fs_Instances (ps_world s)) i")
    case None
    with s show ?thesis
      by (simp add: wait_for_termination_def isInstanceTerminated_def instances_in_def fake_clients fDescribeInstances_def
          attempt_def andthen_def on_world_def calm_api ret_def at_def missing_def)
  next
    case (Some inst)
    with s obtain st where "ei_State inst = Some st" "is_Name st = ''terminated''"
      by (auto simp: at_def missing_def dead_def)
    with s Some show ?thesis
      by (simp add: wait_for_termination_def isInstanceTerminated_def instances_in_def fake_clients fDescribeInstances_def
          attempt_def andthen_def on_world_def calm_api ret_def at_def missing_def okay_def)
  qed
qed

text \<open>An environment that is no cluster, neither in its specification nor in its status.\<close>

definition single :: "Environment \<Rightarrow> bool" where
  "single env \<longleftrightarrow> sp_Cluster (env_Spec env) = None \<and> st_Cluster (env_Status env) = None"

lemma single_instances: "single E \<Longrightarrow> instances_to_delete E a = [] \<or> (\<exists>i. instances_to_delete E a = [i])"
  by (simp add: single_def instances_to_delete_def cluster_ids_def)

lemma instances_run:
  assumes "single E"
  shows "stays (at E calm) (deleteEC2Instances (fake_provider env) a)"
proof -
  have wait: "runs (at E (missing (dead i))) (collect (\<lambda>n. wait_for_termination (fake_provider env) ([i] ! n)) [0])
      (\<lambda>errs s. errs = [] \<and> at E calm s)" for i
  proof (rule runsI)
    fix s assume "at E (missing (dead i)) s"
    then obtain s' where "wait_for_termination (fake_provider env) i s = (Inr None, s')" "at E (missing (dead i)) s'"
      using runsD [OF waited] by blast
    then show "\<exists>v t. collect (\<lambda>n. wait_for_termination (fake_provider env) ([i] ! n)) [0] s = (Inr v, t)
        \<and> v = [] \<and> at E calm t"
      by (simp add: andthen_def ret_def missing_calm)
  qed
  have one: "fake_sched = [0]" if "fake_sched = pl_Schedule fake_platform (length [i])" for fake_sched i
    using that by (simp add: fake_platform_def)
  have end_: "runs (\<lambda>s. errs = [] \<and> at E calm s) (if errs \<noteq> [] then fail (f errs) else ret ()) (\<lambda>_. at E calm)" for errs f
    by (auto simp: runs_def ret_def)
  have stop: "stays (at E calm) (andthen (log_error (updateProgressingCondition (fake_provider env) a reason_destroying t)) (\<lambda>_.
     andthen (catch (terminate_request (fake_provider env) [i]) h) (\<lambda>_.
     andthen (collect (\<lambda>n. wait_for_termination (fake_provider env) ([i] ! n)) (pl_Schedule fake_platform (length [i]))) (\<lambda>errs.
     if errs \<noteq> [] then fail (f errs) else ret ()))))" for i t h f
    unfolding one [OF refl]
    by (rule runs_andthen [OF stays_logged [OF condition_runs(1)]], simp)
      (rule runs_andthen [OF runs_catch [OF terminate_runs]], rule runs_andthen [OF wait end_])
  from single_instances [OF assms, of a] show ?thesis
    unfolding deleteEC2Instances_def Let_def fake_provider_simps
    by (intro at_environment) (elim disjE exE, use stop in \<open>auto intro: stays_ret\<close>)
qed

interpretation carry: step_relation "\<lambda>s s'. P s \<longrightarrow> P s'" for P :: "'s \<Rightarrow> bool"
  by unfold_locales auto

lemma eni_wait_runs: "stays (at E calm) (log_error (waitForENIsDrained (fake_provider env) vpc))"
proof (rule stays_log_error)
  have "pres (\<lambda>s s'. at E calm s \<longrightarrow> at E calm s') (on_world (fDescribeNetworkInterfaces ids fs))" for ids fs
    by (rule presI) (auto simp: on_world_def at_def fDescribeNetworkInterfaces_def calm_api okay_def case_prod_beta
        split: if_splits)
  moreover have "pres (\<lambda>s s'. at E calm s \<longrightarrow> at E calm s') (sleep (fake_provider env) n)" for n
    by (rule presI) (simp add: sleep_def on_world_def at_def)
  moreover have "pres (\<lambda>s s'. at E calm s \<longrightarrow> at E calm s') (now (fake_provider env))"
    unfolding now_def by (rule carry.pres_gets)
  ultimately have "pres (\<lambda>s s'. at E calm s \<longrightarrow> at E calm s') (eni_loop n (fake_provider env) vpc d)" for n d
    by (induction n) (auto simp: enis_drained_def fake_clients intro!: carry.pres_rules)
  then show "pres (\<lambda>s s'. at E calm s \<longrightarrow> at E calm s') (waitForENIsDrained (fake_provider env) vpc)"
    unfolding waitForENIsDrained_def now_def by (intro carry.pres_rules)
qed

lemma revoke_carries:
  "pres (\<lambda>s s'. at E calm s \<longrightarrow> at E calm s') (revokeSecurityGroupRules (fake_provider env) i)"
proof -
  have "pres (\<lambda>s s'. at E calm s \<longrightarrow> at E calm s') (on_world (fDescribeSecurityGroups ids fs))"
    "pres (\<lambda>s s'. at E calm s \<longrightarrow> at E calm s') (on_world (fRevokeSecurityGroupIngress j perms))" for ids fs j perms
    by (rule presI; auto simp: on_world_def at_def fDescribeSecurityGroups_def fRevokeSecurityGroupIngress_def
        calm_api okay_def set_ingress_def split: option.split if_splits)+
  then show ?thesis
    unfolding revokeSecurityGroupRules_def fake_provider_simps fake_clients
    by (intro carry.pres_rules pres_cases)
qed

lemma groups_run: "stays (at E calm) (deleteSecurityGroups (fake_provider env) a)"
proof -
  have "stays (at E calm) (delete_group_of (fake_provider env) b i l k)" for b i l k
    unfolding delete_group_of_def by (intro runs_catch security_group_runs)
  then show ?thesis
    unfolding deleteSecurityGroups_def Let_def
    by (intro stays_andthen stays_logged stays_if stays_ret condition_runs calm_world
        stays_log_error [OF revoke_carries])
qed

lemma delete_runs:
  assumes "single E"
  shows "stays (at E calm) (delete (fake_provider env) a)"
proof -
  have "stays (at E calm) (delete_load_balancer (fake_provider env) a)"
    unfolding delete_load_balancer_def
    by (rule at_environment) (use assms in \<open>simp add: single_def IsMultinode_def stays_ret\<close>)
  then show ?thesis
    unfolding delete_def
    by (intro stays_andthen runs_wrap instances_run [OF assms] stays_if stays_ret eni_wait_runs groups_run network_runs)
qed

text \<open>The cache file must exist.\<close>

lemma Delete_runs:
  assumes "single (ps_Environment s)" "calm (ps_world s)" "has_key (fw_files (ps_world s)) ''cache.yaml''"
  shows "\<exists>s'. Delete (fake_provider env) s = (Inr (), s')"
proof -
  obtain a where read: "unmarsalCache (fake_provider env) s = (Inr a, s)"
    using assms(3) by (auto simp: unmarsalCache_def UnmarshalFromFile_def on_world_def andthen_def ret_def lift_result_def
        fake_platform_def)
  have "\<exists>v s'. delete (fake_provider env) a s = (Inr v, s') \<and> at (ps_Environment s) calm s'"
    by (rule runsD [OF delete_runs [OF assms(1)]]) (simp add: at_def assms(2))
  then show ?thesis
    using read by (auto simp: Delete_def andthen_def wrap_def catch_def)
qed

end
