(* ===== verification/Lifecycle.thy ===== *)
theory Lifecycle
  imports Rollback Fake_Delete
begin

text \<open>
  The life of a single-node environment: what a creation leaves in the account, whether it
  succeeds or fails, and that a deletion undoes it.
\<close>

section \<open>In every account that keeps the contract\<close>

lemma Create_single: "\<not> IsMultinode (ps_Environment s) \<Longrightarrow> Create p s = create_single_node p s"
  by (simp add: Create_def environment_def andthen_def gets_def)



text \<open>
  C4: when a step of the creation fails and the cleanups of the steps before it succeed, then at most
  one resource is left behind: the one that the failing step itself has created. The code pushes
  a step's cleanup only after the whole step has succeeded.
\<close>

theorem failed_create_leaves_at_most_one:
  assumes "aws_builder p ok live" and "ok (ps_world s)" and "ps_aws s = zero_AWS"
    and "build p (creations p) [] s = (Inr (Some e, stack), s1)"
    and "for_each (\<lambda>cleanup. cleanup) stack s1 = (Inr (), s2)"
  shows "rolled_back stack e s1 = (Inl e, s2)
    \<and> (\<exists>k < 5. stack = rev (map cr_cleanup (take k (creations p)))
         \<and> live (ps_world s2) \<subseteq> live (ps_world s) \<union> step_resource k (ps_aws s2) \<union> enis)"
proof
  show "rolled_back stack e s1 = (Inl e, s2)"
    using aws_builder.rollback_same [OF assms(1,5)] by (simp add: rolled_back_def andthen_def fail_def)
qed (use aws_builder.failed_build [OF assms(1,4,2,3,5)] in simp)

section \<open>On the fake account\<close>


text \<open>The state of another process, which reads the cache.\<close>

definition later :: "Environment \<Rightarrow> fake_world pstate \<Rightarrow> fake_world pstate" where
  "later env s = \<lparr>ps_Environment = env, ps_cache = zero_ClusterCache zero_AWS, ps_world = ps_world s\<rparr>"

lemma single_no_cluster: "single env \<Longrightarrow> \<not> IsMultinode env"
  by (simp add: single_def IsMultinode_def)

lemma create_and_delete_run:
  assumes "calm (ps_world s)" and "fake_ok (ps_world s)" and "single (ps_Environment s)"
    and "feasible (fs_Images (ps_world s)) (fs_InstanceTypes (ps_world s)) (ps_Environment s)"
    and "st_Properties (env_Status (ps_Environment s)) = []" and "single env"
  obtains s' t' where "Create (fake_provider env) s = (Inr (), s')"
    and "Delete (fake_provider env) (later env s') = (Inr (), t')"
proof -
  let ?P = "ready (fs_Images (ps_world s)) (fs_InstanceTypes (ps_world s))"
  have "at (ps_Environment s) ?P s" using assms(1) by (simp add: at_def ready_def)
  from runsD [OF create_runs_single [OF assms(4)] this, of env]
  obtain s' where create: "create_single_node (fake_provider env) s = (Inr (), s')"
    and s': "at (ps_Environment s) ?P s'" by auto
  obtain a where "fst (unmarsalCache (fake_provider env) s') = Inr a"
    by (rule fake_builder.create_readable [OF _ assms(2,5) create]) (simp add: fake_cache_laws)
  then have "has_key (fw_files (ps_world s')) ''cache.yaml''"
    by (auto simp: unmarsalCache_def UnmarshalFromFile_def on_world_def andthen_def fake_platform_def
        split: option.splits prod.splits sum.splits)
  then obtain t' where "Delete (fake_provider env) (later env s') = (Inr (), t')"
    using Delete_runs [of "later env s'" env] assms(6) s' by (auto simp: later_def at_def ready_def)
  with create show ?thesis using that single_no_cluster [OF assms(3)] by (simp add: Create_single)
qed

text \<open>
  C2: on the fake account, without injected failures, a single-node environment whose instance type and
  image the account offers is created without error, and a deletion by a later process is without
  error and leaves nothing of it.
\<close>

theorem create_and_delete_succeed:
  assumes "calm (ps_world s)" and "fake_ok (ps_world s)" and "single (ps_Environment s)"
    and "feasible (fs_Images (ps_world s)) (fs_InstanceTypes (ps_world s)) (ps_Environment s)"
    and "st_Properties (env_Status (ps_Environment s)) = []" and "single env"
  shows "\<exists>s' t'. Create (fake_provider env) s = (Inr (), s') \<and> Delete (fake_provider env) (later env s') = (Inr (), t')
    \<and> fake_live (ps_world t') \<subseteq> fake_live (ps_world s) \<union> enis"
proof -
  obtain s' t' where run: "Create (fake_provider env) s = (Inr (), s')"
    and del: "Delete (fake_provider env) (later env s') = (Inr (), t')"
    by (rule create_and_delete_run [OF assms])
  have "create_single_node (fake_provider env) s = (Inr (), s')"
    using run single_no_cluster [OF assms(3)] by (simp add: Create_single)
  from fake_builder.create_then_delete [OF _ assms(2,5) this _ del] run del show ?thesis
    by (auto simp: later_def fake_cache_laws)
qed

section \<open>Instances of the properties\<close>

text \<open>A node on the account as it starts, and the same with one injected failure.\<close>

definition node_env :: Environment where
  "node_env = zero_Environment\<lparr>env_Name := ''demo'', env_Spec := zero_EnvironmentSpec\<lparr>
     sp_Instance := zero_Instance\<lparr>in_Type := ''g5.xlarge'', in_Image := zero_Image\<lparr>img_ImageId := Some ''ami-fake0001''\<rparr>\<rparr>\<rparr>\<rparr>"

definition node_state :: "fake_world \<Rightarrow> fake_world pstate" where
  "node_state w = \<lparr>ps_Environment = node_env, ps_cache = zero_ClusterCache zero_AWS, ps_world = w\<rparr>"

lemma start_calm: "calm fake_start"
  by (simp add: calm_def fake_start_def newStore_def Store.extend_def fake_world.fields_def lookup_or_def)

lemma start_ok: "fake_ok fake_start" "honest e \<Longrightarrow> fake_ok (FailNext m e fake_start)"
  by (simp_all add: fake_ok_def FailNext_def fake_start_def newStore_def Store.extend_def fake_world.fields_def lookup_or_def)

lemma node_feasible: "feasible (fs_Images fake_start) (fs_InstanceTypes fake_start) node_env"
  by (simp add: feasible_def node_env_def env_image_def zero_EnvironmentSpec_def fake_start_def newStore_def Store.extend_def
      fake_world.fields_def seed_images_def catalog_def seed_types_def)

lemma node_simps [simp]:
  "ps_Environment (node_state w) = node_env" "ps_world (node_state w) = w" "ps_aws (node_state w) = zero_AWS"
  "single node_env" "\<not> IsMultinode node_env" "st_Properties (env_Status node_env) = []"
  by (simp_all add: node_state_def node_env_def single_def IsMultinode_def zero_Environment_def
      zero_EnvironmentSpec_def zero_EnvironmentStatus_def zero_ClusterCache_def)

theorem create_and_delete_succeed_witness:
  "\<exists>s' t'. Create (fake_provider node_env) (node_state fake_start) = (Inr (), s')
    \<and> Delete (fake_provider node_env) (later node_env s') = (Inr (), t')
    \<and> fake_live (ps_world t') \<subseteq> fake_live fake_start \<union> enis"
  using create_and_delete_succeed [of "node_state fake_start" node_env] start_calm start_ok(1) node_feasible by simp

lemma start_empty: "ids_of k fake_start = {}"
  by (cases k) (simp_all add: fake_start_def newStore_def Store.extend_def fake_world.fields_def)

lemma ids_of_failures: "ids_of k (w\<lparr>fs_failures := fs\<rparr>) = ids_of k w"
  by (cases k) simp_all


lemma boom_honest: "honest ''boom''"
  unfolding honest_def by code_simp


text \<open>The attributes of the VPC cannot be set; the VPC is there already.\<close>

definition vpc_state :: "fake_world pstate" where
  "vpc_state = node_state (FailNext ''ModifyVpcAttribute'' ''boom'' fake_start)"

abbreviation vpc_error :: error where
  "vpc_error \<equiv> ''error creating VPC: error modifying VPC attributes: boom''"

abbreviation vpc_run :: "(error + error option \<times> fake_world cleanup list) \<times> fake_world pstate" where
  "vpc_run \<equiv> build (fake_provider node_env) (creations (fake_provider node_env)) [] vpc_state"

lemma vpc_build:
  "(case fst vpc_run of Inr (Some e, stack) \<Rightarrow> e = vpc_error \<and> length stack = 0 | _ \<Rightarrow> False)
   \<and> has_key (fs_Vpcs (ps_world (snd vpc_run))) ''vpc-fake0001''"
  by code_simp

lemma vpc_build_result: "vpc_run = (Inr (Some vpc_error, []), snd vpc_run)"
proof -
  have "fst vpc_run = Inr (Some vpc_error, [])"
    using conjunct1 [OF vpc_build] by (cases "fst vpc_run") (force split: option.splits)+
  then show ?thesis by (metis prod.collapse)
qed

theorem failed_create_leaves_at_most_one_witness:
  "rolled_back [] vpc_error (snd vpc_run) = (Inl vpc_error, snd vpc_run)
    \<and> (K_vpc, ''vpc-fake0001'') \<in> fake_live (ps_world (snd vpc_run))
    \<and> (\<exists>k < 5. fake_live (ps_world (snd vpc_run)) \<subseteq> step_resource k (ps_aws (snd vpc_run)) \<union> enis)"
proof -
  have "for_each (\<lambda>cleanup. cleanup) [] (snd vpc_run) = (Inr (), snd vpc_run)" by (simp add: ret_def)
  from failed_create_leaves_at_most_one [OF fake_builder.aws_builder_axioms _ _ vpc_build_result this]
  have "rolled_back [] vpc_error (snd vpc_run) = (Inl vpc_error, snd vpc_run)
    \<and> (\<exists>k < 5. fake_live (ps_world (snd vpc_run)) \<subseteq> fake_live (ps_world vpc_state) \<union> step_resource k (ps_aws (snd vpc_run)) \<union> enis)"
    unfolding vpc_state_def node_simps using start_ok(2) [OF boom_honest] by blast
  moreover have "fake_live (ps_world vpc_state) = {}"
    by (simp add: fake_live_def vpc_state_def FailNext_def start_empty ids_of_failures)
  moreover have "(K_vpc, ''vpc-fake0001'') \<in> fake_live (ps_world (snd vpc_run))"
    using conjunct2 [OF vpc_build] unfolding fake_live_iff has_key_iff ids_of.simps .
  ultimately show ?thesis by simp
qed


end
