(* ===== verification/Cleaner.thy ===== *)
theory Cleaner
  imports Teardown Net_IP Api_Validation
begin

text \<open>
  \<open>pkg/cleanup/cleanup.go\<close> and the loop of \<open>cmd/cli/cleanup\<close>: the deletion of VPCs whose GitHub jobs
  are over, with everything in them. Functions whose Go names the provider's deletion uses as well
  have the prefix \<open>Cleaner\<close> here.

  The context, the environment, the HTTP client and the SDK's waiter are parameters: \<open>cn_Err\<close> is what
  \<open>ctx.Err()\<close> says in a state, \<open>cn_pause\<close> the \<open>select\<close> between the end of the context and a timer.
  Log lines are left out.
\<close>

section \<open>The cleaner\<close>

record 's Cleaner =
  cn_ec2 :: "'s ec2_client"
  cn_elbv2 :: "'s elbv2_client"
  cn_Err :: "'s \<Rightarrow> error option"
  cn_pause :: "nat \<Rightarrow> ('s, unit) io"
  cn_Getenv :: "string \<Rightarrow> string"
  cn_Get :: "string \<Rightarrow> string \<Rightarrow> ('s, nat \<times> (error + string list)) io"
  cn_WaitTerminated :: "string list \<Rightarrow> nat \<Rightarrow> ('s, unit) io"

text \<open>A check for cancellation, and a failing call of which only a warning is left.\<close>

definition check_context :: "'s Cleaner \<Rightarrow> string \<Rightarrow> ('s, unit) io" where
  "check_context c text = andthen (gets (cn_Err c)) (\<lambda>e.
     case e of Some err \<Rightarrow> fail (text @ '': '' @ err) | None \<Rightarrow> ret ())"

section \<open>GitHub jobs\<close>

definition repo_char :: "char \<Rightarrow> bool" where
  "repo_char c \<longleftrightarrow> alnum c \<or> c \<in> set ''_.-''"

text \<open>The regular expressions \<open>^[a-zA-Z0-9_.-]+/[a-zA-Z0-9_.-]+$\<close> and \<open>^\d+$\<close>.\<close>

definition repoPattern :: "string \<Rightarrow> bool" where
  "repoPattern s = (case split_on (CHR ''/'') s of
       [owner, name] \<Rightarrow> owner \<noteq> [] \<and> name \<noteq> [] \<and> list_all repo_char owner \<and> list_all repo_char name
     | _ \<Rightarrow> False)"

definition runIDPattern :: "string \<Rightarrow> bool" where
  "runIDPattern s \<longleftrightarrow> s \<noteq> [] \<and> list_all is_digit s"

definition GetTagValue :: "'s Cleaner \<Rightarrow> string \<Rightarrow> string \<Rightarrow> ('s, string) io" where
  "GetTagValue c vpcID key =
     andthen (wrap ''failed to describe tags'' (ec2_DescribeTags (cn_ec2 c)
       [(''resource-id'', [vpcID]), (''key'', [key])])) (\<lambda>tags.
     ret (case tags of [] \<Rightarrow> '''' | t # _ \<Rightarrow> tdn_Value t))"

definition jobs_url :: "string \<Rightarrow> string \<Rightarrow> string" where
  "jobs_url repository runID =
     ''https://api.github.com/repos/'' @ repository @ ''/actions/runs/'' @ runID @ ''/jobs''"

definition CheckGitHubJobsCompleted :: "'s Cleaner \<Rightarrow> string \<Rightarrow> string \<Rightarrow> string \<Rightarrow> ('s, bool) io" where
  "CheckGitHubJobsCompleted c repository runID token =
     (if \<not> repoPattern repository then fail (''invalid repository format: '' @ repository)
      else if \<not> runIDPattern runID then fail (''invalid runID format: '' @ runID)
      else andthen (wrap ''failed to make request'' (cn_Get c (jobs_url repository runID) token)) (\<lambda>(status, body).
        if status = 404 then ret True
        else if status \<noteq> 200 then fail (''unexpected status code: '' @ decimal status)
        else (case body of
            Inl e \<Rightarrow> fail (''failed to decode response: '' @ e)
          | Inr jobs \<Rightarrow> ret (list_all (\<lambda>j. j = ''completed'') jobs))))"

section \<open>Load balancers\<close>

definition deleteLBListeners :: "'s Cleaner \<Rightarrow> string \<Rightarrow> ('s, unit) io" where
  "deleteLBListeners c arn =
     andthen (wrap ''failed to describe listeners'' (elb_DescribeListeners (cn_elbv2 c) arn)) (\<lambda>ls.
     for_each (\<lambda>l. log_error (elb_DeleteListener (cn_elbv2 c) (ls_ListenerArn l))) ls)"

definition deleteLBTargetGroups :: "'s Cleaner \<Rightarrow> string \<Rightarrow> ('s, unit) io" where
  "deleteLBTargetGroups c arn =
     andthen (wrap ''failed to describe target groups'' (elb_DescribeTargetGroups (cn_elbv2 c)
       \<lparr>dti_TargetGroupArns = [], dti_LoadBalancerArn = Some arn\<rparr>)) (\<lambda>tgs.
     for_each (\<lambda>tg. log_error (elb_DeleteTargetGroup (cn_elbv2 c) (tg_TargetGroupArn tg))) tgs)"

text \<open>One round of the loop: whether the load balancer was deleted.\<close>

definition clean_balancer :: "'s Cleaner \<Rightarrow> string \<Rightarrow> LoadBalancer \<Rightarrow> ('s, bool) io" where
  "clean_balancer c vpcID lb =
     (if lb_VpcId lb \<noteq> Some vpcID then ret False
      else
      andthen (log_error (deleteLBListeners c (lb_LoadBalancerArn lb))) (\<lambda>_.
      andthen (log_error (deleteLBTargetGroups c (lb_LoadBalancerArn lb))) (\<lambda>_.
      succeeds (elb_DeleteLoadBalancer (cn_elbv2 c) (lb_LoadBalancerArn lb)))))"

fun count_true :: "('x \<Rightarrow> ('s, bool) io) \<Rightarrow> 'x list \<Rightarrow> ('s, nat) io" where
  "count_true f [] = ret 0"
| "count_true f (x # xs) = andthen (f x) (\<lambda>b. andthen (count_true f xs) (\<lambda>n. ret (if b then n + 1 else n)))"

definition deleteLoadBalancers :: "'s Cleaner \<Rightarrow> string \<Rightarrow> ('s, unit) io" where
  "deleteLoadBalancers c vpcID =
     andthen (wrap ''failed to describe load balancers'' (elb_DescribeLoadBalancers (cn_elbv2 c)
       \<lparr>dli_LoadBalancerArns = [], dli_Names = []\<rparr>)) (\<lambda>lbs.
     andthen (count_true (clean_balancer c vpcID) lbs) (\<lambda>count.
     if count > 0 then wrap ''cancelled waiting for LB decommission'' (cn_pause c 30) else ret ()))"

section \<open>Instances and security groups\<close>

definition live_states :: "string list" where
  "live_states = [''running'', ''stopped'', ''stopping'', ''pending'', ''shutting-down'']"

definition deleteInstances :: "'s Cleaner \<Rightarrow> string \<Rightarrow> ('s, unit) io" where
  "deleteInstances c vpcID =
     andthen (wrap ''failed to describe instances'' (ec2_DescribeInstances (cn_ec2 c) []
       [(''vpc-id'', [vpcID]), (''instance-state-name'', live_states)])) (\<lambda>rs.
     let ids = map ei_InstanceId (concat rs) in
     if ids = [] then ret ()
     else
     andthen (wrap ''failed to terminate instances'' (ec2_TerminateInstances (cn_ec2 c) ids)) (\<lambda>_.
     wrap ''failed waiting for instances to terminate'' (cn_WaitTerminated c ids 600)))"

text \<open>The id of the default group, the last one if there were several.\<close>

definition is_default :: "SecurityGroup \<Rightarrow> bool" where
  "is_default sg \<longleftrightarrow> sg_GroupName sg = Some ''default''"

definition default_group :: "SecurityGroup list \<Rightarrow> string" where
  "default_group sgs = (case rev (filter is_default sgs) of [] \<Rightarrow> '''' | sg # _ \<Rightarrow> sg_GroupId sg)"

definition release_enis :: "'s Cleaner \<Rightarrow> string \<Rightarrow> SecurityGroup \<Rightarrow> ('s, unit) io" where
  "release_enis c dflt sg =
     andthen (check_context c ''context cancelled during security group cleanup'') (\<lambda>_.
     andthen (attempt (ec2_DescribeNetworkInterfaces (cn_ec2 c) [] [(''group-id'', [sg_GroupId sg])])) (\<lambda>r.
     case r of
       Inl _ \<Rightarrow> ret ()
     | Inr nis \<Rightarrow>
         for_each (\<lambda>ni. if dflt \<noteq> '''' then log_error (ec2_ModifyNetworkInterfaceAttribute (cn_ec2 c)
             \<lparr>mni_NetworkInterfaceId = ni_NetworkInterfaceId ni, mni_Groups = [dflt], mni_SourceDestCheck = None\<rparr>)
           else ret ()) nis))"

definition revoke_rules :: "'s Cleaner \<Rightarrow> SecurityGroup \<Rightarrow> ('s, unit) io" where
  "revoke_rules c sg =
     andthen (check_context c ''context cancelled during SG rule revocation'') (\<lambda>_.
     andthen (if sg_IpPermissions sg \<noteq> []
        then log_error (ec2_RevokeSecurityGroupIngress (cn_ec2 c) (sg_GroupId sg) (sg_IpPermissions sg))
        else ret ()) (\<lambda>_.
     if sg_IpPermissionsEgress sg \<noteq> []
     then log_error (ec2_RevokeSecurityGroupEgress (cn_ec2 c) (sg_GroupId sg) (sg_IpPermissionsEgress sg))
     else ret ()))"

definition Cleaner_deleteSecurityGroups :: "'s Cleaner \<Rightarrow> string \<Rightarrow> ('s, unit) io" where
  "Cleaner_deleteSecurityGroups c vpcID =
     andthen (wrap ''failed to describe security groups''
       (ec2_DescribeSecurityGroups (cn_ec2 c) [] [(''vpc-id'', [vpcID])])) (\<lambda>sgs.
     let others = filter (\<lambda>sg. \<not> is_default sg) sgs in
     andthen (for_each (release_enis c (default_group sgs)) others) (\<lambda>_.
     andthen (for_each (revoke_rules c) others) (\<lambda>_.
     for_each (\<lambda>sg. log_error (ec2_DeleteSecurityGroup (cn_ec2 c) (sg_GroupId sg))) others)))"

section \<open>Network\<close>

definition deleteSubnets :: "'s Cleaner \<Rightarrow> string \<Rightarrow> ('s, unit) io" where
  "deleteSubnets c vpcID =
     andthen (wrap ''failed to describe subnets''
       (ec2_DescribeSubnets (cn_ec2 c) [] [(''vpc-id'', [vpcID])])) (\<lambda>sns.
     for_each (\<lambda>sn. log_error (ec2_DeleteSubnet (cn_ec2 c) (sn_SubnetId sn))) sns)"

definition main_table :: "RouteTable list \<Rightarrow> string" where
  "main_table rts = (case rev (filter has_main rts) of [] \<Rightarrow> '''' | rt # _ \<Rightarrow> rt_RouteTableId rt)"

definition move_associations :: "'s Cleaner \<Rightarrow> string \<Rightarrow> RouteTable \<Rightarrow> ('s, unit) io" where
  "move_associations c main rt = for_each (\<lambda>assoc.
     case ra_RouteTableAssociationId assoc of
       Some i \<Rightarrow> log_error (ec2_ReplaceRouteTableAssociation (cn_ec2 c) i main)
     | None \<Rightarrow> ret ()) (rt_Associations rt)"

definition deleteRouteTables :: "'s Cleaner \<Rightarrow> string \<Rightarrow> ('s, unit) io" where
  "deleteRouteTables c vpcID =
     andthen (wrap ''failed to describe route tables''
       (ec2_DescribeRouteTables (cn_ec2 c) [] [(''vpc-id'', [vpcID])])) (\<lambda>rts.
     let others = filter (\<lambda>rt. \<not> has_main rt) rts in
     andthen (if main_table rts \<noteq> '''' then for_each (move_associations c (main_table rts)) others else ret ()) (\<lambda>_.
     for_each (\<lambda>rt. log_error (ec2_DeleteRouteTable (cn_ec2 c) (rt_RouteTableId rt))) others))"

definition deleteInternetGateways :: "'s Cleaner \<Rightarrow> string \<Rightarrow> ('s, unit) io" where
  "deleteInternetGateways c vpcID =
     andthen (wrap ''failed to describe internet gateways''
       (ec2_DescribeInternetGateways (cn_ec2 c) [] [(''attachment.vpc-id'', [vpcID])])) (\<lambda>igws.
     for_each (\<lambda>igw.
       andthen (log_error (ec2_DetachInternetGateway (cn_ec2 c) (igw_InternetGatewayId igw) vpcID)) (\<lambda>_.
       log_error (ec2_DeleteInternetGateway (cn_ec2 c) (igw_InternetGatewayId igw)))) igws)"

text \<open>The loop with \<open>n\<close> attempts left.\<close>

fun vpc_attempts :: "nat \<Rightarrow> 's Cleaner \<Rightarrow> string \<Rightarrow> ('s, unit) io" where
  "vpc_attempts 0 c vpcID = fail (''failed to delete VPC '' @ vpcID @ '' after 3 attempts'')"
| "vpc_attempts (Suc n) c vpcID =
     andthen (check_context c ''VPC deletion cancelled'') (\<lambda>_.
     andthen (attempt (ec2_DeleteVpc (cn_ec2 c) vpcID)) (\<lambda>r.
     case r of
       Inr _ \<Rightarrow> ret ()
     | Inl e \<Rightarrow>
         if contains e ''InvalidVpcID.NotFound'' then ret ()
         else if n = 0 then vpc_attempts n c vpcID
         else andthen (wrap ''VPC deletion cancelled during retry wait'' (cn_pause c 30)) (\<lambda>_. vpc_attempts n c vpcID)))"

definition Cleaner_deleteVPC :: "'s Cleaner \<Rightarrow> string \<Rightarrow> ('s, unit) io" where
  "Cleaner_deleteVPC c vpcID = vpc_attempts 3 c vpcID"

section \<open>The whole cleanup\<close>

definition DeleteVPCResources :: "'s Cleaner \<Rightarrow> string \<Rightarrow> ('s, unit) io" where
  "DeleteVPCResources c vpcID =
     andthen (check_context c ''cleanup cancelled'') (\<lambda>_.
     andthen (log_error (deleteLoadBalancers c vpcID)) (\<lambda>_.
     andthen (check_context c ''cleanup cancelled after load balancer deletion'') (\<lambda>_.
     andthen (wrap ''failed to delete instances'' (deleteInstances c vpcID)) (\<lambda>_.
     andthen (check_context c ''cleanup cancelled after instance deletion'') (\<lambda>_.
     andthen (wrap ''failed to delete security groups'' (Cleaner_deleteSecurityGroups c vpcID)) (\<lambda>_.
     andthen (check_context c ''cleanup cancelled after security group deletion'') (\<lambda>_.
     andthen (wrap ''failed to delete subnets'' (deleteSubnets c vpcID)) (\<lambda>_.
     andthen (check_context c ''cleanup cancelled after subnet deletion'') (\<lambda>_.
     andthen (wrap ''failed to delete route tables'' (deleteRouteTables c vpcID)) (\<lambda>_.
     andthen (check_context c ''cleanup cancelled after route table deletion'') (\<lambda>_.
     andthen (wrap ''failed to delete internet gateways'' (deleteInternetGateways c vpcID)) (\<lambda>_.
     andthen (check_context c ''cleanup cancelled after internet gateway deletion'') (\<lambda>_.
     wrap ''failed to delete VPC'' (Cleaner_deleteVPC c vpcID))))))))))))))"

text \<open>Whether the jobs of a VPC forbid its deletion: only a definite answer does.\<close>

definition jobs_running :: "'s Cleaner \<Rightarrow> string \<Rightarrow> string \<Rightarrow> ('s, bool) io" where
  "jobs_running c repository runID = (let token = cn_Getenv c ''GITHUB_TOKEN'' in
     if token = '''' then ret False
     else if repository \<noteq> '''' \<and> runID \<noteq> ''''
     then andthen (attempt (CheckGitHubJobsCompleted c repository runID token)) (\<lambda>r.
       ret (case r of Inl _ \<Rightarrow> False | Inr completed \<Rightarrow> \<not> completed))
     else ret False)"

definition CleanupVPC :: "'s Cleaner \<Rightarrow> string \<Rightarrow> ('s, unit) io" where
  "CleanupVPC c vpcID =
     andthen (wrap ''failed to get GitHubRepository tag'' (GetTagValue c vpcID ''GitHubRepository'')) (\<lambda>repository.
     andthen (wrap ''failed to get GitHubRunId tag'' (GetTagValue c vpcID ''GitHubRunId'')) (\<lambda>runID.
     andthen (jobs_running c repository runID) (\<lambda>running.
     if running then fail (''github jobs are still running for vpc '' @ vpcID)
     else DeleteVPCResources c vpcID)))"

section \<open>The command\<close>

text \<open>Each VPC has a context of its own, so the cleaner depends on it; the loop stops when the
  command itself is cancelled. The result counts successes and failures.\<close>

fun cleanup_loop :: "('s \<Rightarrow> error option) \<Rightarrow> (string \<Rightarrow> 's Cleaner) \<Rightarrow> bool \<Rightarrow> string list \<Rightarrow> nat \<times> nat
    \<Rightarrow> ('s, nat \<times> nat) io" where
  "cleanup_loop cancelled cleaner force [] n = ret n"
| "cleanup_loop cancelled cleaner force (v # vs) (good, bad) =
     andthen (gets cancelled) (\<lambda>e.
     if e \<noteq> None then ret (good, bad)
     else andthen (attempt (if force then DeleteVPCResources (cleaner v) v else CleanupVPC (cleaner v) v)) (\<lambda>r.
       cleanup_loop cancelled cleaner force vs (case r of Inl _ \<Rightarrow> (good, bad + 1) | Inr _ \<Rightarrow> (good + 1, bad))))"

definition cleanup_region :: "(string \<Rightarrow> string) \<Rightarrow> string \<Rightarrow> error + string" where
  "cleanup_region getenv flag =
     (if flag \<noteq> '''' then Inr flag
      else if getenv ''AWS_REGION'' \<noteq> '''' then Inr (getenv ''AWS_REGION'')
      else if getenv ''AWS_DEFAULT_REGION'' \<noteq> '''' then Inr (getenv ''AWS_DEFAULT_REGION'')
      else Inl ''AWS region must be specified via --region flag or AWS_REGION environment variable'')"

definition cleanup_run :: "(string \<Rightarrow> string) \<Rightarrow> string \<Rightarrow> bool \<Rightarrow> ('s \<Rightarrow> error option)
    \<Rightarrow> (string \<Rightarrow> string \<Rightarrow> 's Cleaner) \<Rightarrow> string list \<Rightarrow> ('s, unit) io" where
  "cleanup_run getenv flag force cancelled cleaner vpcs =
     (if vpcs = [] then fail ''at least one VPC ID is required''
      else case cleanup_region getenv flag of
        Inl e \<Rightarrow> fail e
      | Inr region \<Rightarrow>
          andthen (cleanup_loop cancelled (cleaner region) force vpcs (0, 0)) (\<lambda>(good, bad).
          if bad > 0 then fail (''cleanup completed with errors: '' @ decimal good @ '' succeeded, ''
                @ decimal bad @ '' failed'')
          else ret ()))"

end
