(* ===== verification/Cleaner_Contract.thy ===== *)
theory Cleaner_Contract
  imports Cleaner Fake_Contract
begin

text \<open>
  What the cleaner relies on of an account, as a locale, and what follows for a cleanup: it removes
  nothing outside the resources that the account reports for the VPC, and when it succeeds the VPC
  is gone. The fake account keeps this contract as well. Then the decision whether a VPC may be
  cleaned up, and the loop over several of them.
\<close>

section \<open>The contract\<close>

text \<open>\<open>R\<close> holds what the account reports of the VPC \<open>v\<close>: no default security group and no main
  route table need be in it.\<close>

locale cleaner_account =
  fixes c :: "'s Cleaner"
    and ok :: "'s \<Rightarrow> bool"
    and live :: "'s \<Rightarrow> resource set"
    and v :: string
    and R :: "resource set"
  assumes reads:
      "pres (sheds ok live enis) (ec2_DescribeInstances (cn_ec2 c) [] f)"
      "pres (sheds ok live enis) (ec2_DescribeSecurityGroups (cn_ec2 c) [] f)"
      "pres (sheds ok live enis) (ec2_DescribeSubnets (cn_ec2 c) [] f)"
      "pres (sheds ok live enis) (ec2_DescribeRouteTables (cn_ec2 c) [] f)"
      "pres (sheds ok live enis) (ec2_DescribeInternetGateways (cn_ec2 c) [] f)"
      "pres (sheds ok live enis) (ec2_DescribeNetworkInterfaces (cn_ec2 c) [] f)"
      "pres (sheds ok live enis) (ec2_DescribeTags (cn_ec2 c) f)"
      "pres (sheds ok live enis) (elb_DescribeLoadBalancers (cn_elbv2 c) q)"
      "pres (sheds ok live enis) (elb_DescribeListeners (cn_elbv2 c) i)"
      "pres (sheds ok live enis) (elb_DescribeTargetGroups (cn_elbv2 c) tq)"
    and detaches:
      "pres (sheds ok live enis) (ec2_ModifyNetworkInterfaceAttribute (cn_ec2 c) m)"
      "pres (sheds ok live enis) (ec2_RevokeSecurityGroupIngress (cn_ec2 c) i perms)"
      "pres (sheds ok live enis) (ec2_RevokeSecurityGroupEgress (cn_ec2 c) i perms)"
      "pres (sheds ok live enis) (ec2_ReplaceRouteTableAssociation (cn_ec2 c) i j)"
      "pres (sheds ok live enis) (ec2_DetachInternetGateway (cn_ec2 c) i j)"
    and waits:
      "pres (sheds ok live enis) (cn_pause c n)"
      "pres (sheds ok live enis) (cn_Get c url token)"
      "pres (sheds ok live enis) (cn_WaitTerminated c ids n)"
    and TerminateInstances:
      "pres (sheds ok live ({K_instance} \<times> set ids \<union> enis)) (ec2_TerminateInstances (cn_ec2 c) ids)"
    and DeleteSecurityGroup:
      "removes ok live (K_sg, i) ''InvalidGroup.NotFound'' (ec2_DeleteSecurityGroup (cn_ec2 c) i)"
    and DeleteSubnet: "removes ok live (K_subnet, i) ''InvalidSubnetID.NotFound'' (ec2_DeleteSubnet (cn_ec2 c) i)"
    and DeleteRouteTable:
      "removes ok live (K_rtb, i) ''InvalidRouteTableID.NotFound'' (ec2_DeleteRouteTable (cn_ec2 c) i)"
    and DeleteInternetGateway: "removes ok live (K_igw, i) ''InvalidInternetGatewayID.NotFound''
      (ec2_DeleteInternetGateway (cn_ec2 c) i)"
    and DeleteVpc: "removes ok live (K_vpc, i) ''InvalidVpcID.NotFound'' (ec2_DeleteVpc (cn_ec2 c) i)"
    and DeleteListener: "removes ok live (K_listener, i) ''ListenerNotFound'' (elb_DeleteListener (cn_elbv2 c) i)"
    and DeleteTargetGroup:
      "removes ok live (K_tg, i) ''TargetGroupNotFound'' (elb_DeleteTargetGroup (cn_elbv2 c) i)"
    and DeleteLoadBalancer:
      "removes ok live (K_lb, i) ''LoadBalancerNotFound'' (elb_DeleteLoadBalancer (cn_elbv2 c) i)"
    and instances_in: "post ok (ec2_DescribeInstances (cn_ec2 c) []
        [(''vpc-id'', [v]), (''instance-state-name'', live_states)])
      (\<lambda>rs s. ok s \<and> (\<forall>inst \<in> set (concat rs). (K_instance, ei_InstanceId inst) \<in> R))"
    and groups_in: "post ok (ec2_DescribeSecurityGroups (cn_ec2 c) [] [(''vpc-id'', [v])])
      (\<lambda>sgs s. ok s \<and> (\<forall>sg \<in> set sgs. \<not> is_default sg \<longrightarrow> (K_sg, sg_GroupId sg) \<in> R))"
    and subnets_in: "post ok (ec2_DescribeSubnets (cn_ec2 c) [] [(''vpc-id'', [v])])
      (\<lambda>sns s. ok s \<and> (\<forall>sn \<in> set sns. (K_subnet, sn_SubnetId sn) \<in> R))"
    and tables_in: "post ok (ec2_DescribeRouteTables (cn_ec2 c) [] [(''vpc-id'', [v])])
      (\<lambda>rts s. ok s \<and> (\<forall>rt \<in> set rts. \<not> has_main rt \<longrightarrow> (K_rtb, rt_RouteTableId rt) \<in> R))"
    and gateways_in: "post ok (ec2_DescribeInternetGateways (cn_ec2 c) [] [(''attachment.vpc-id'', [v])])
      (\<lambda>igws s. ok s \<and> (\<forall>igw \<in> set igws. (K_igw, igw_InternetGatewayId igw) \<in> R))"
    and balancers_in: "post ok (elb_DescribeLoadBalancers (cn_elbv2 c) \<lparr>dli_LoadBalancerArns = [], dli_Names = []\<rparr>)
      (\<lambda>lbs s. ok s \<and> (\<forall>lb \<in> set lbs. lb_VpcId lb = Some v \<longrightarrow> (K_lb, lb_LoadBalancerArn lb) \<in> R))"
    and listeners_in: "(K_lb, arn) \<in> R \<Longrightarrow> post ok (elb_DescribeListeners (cn_elbv2 c) arn)
      (\<lambda>ls s. ok s \<and> (\<forall>l \<in> set ls. (K_listener, ls_ListenerArn l) \<in> R))"
    and target_groups_in: "(K_lb, arn) \<in> R \<Longrightarrow> post ok (elb_DescribeTargetGroups (cn_elbv2 c)
        \<lparr>dti_TargetGroupArns = [], dti_LoadBalancerArn = Some arn\<rparr>)
      (\<lambda>tgs s. ok s \<and> (\<forall>tg \<in> set tgs. (K_tg, tg_TargetGroupArn tg) \<in> R))"

context cleaner_account
begin

abbreviation within :: "('s, 'a) io \<Rightarrow> bool" where
  "within m \<equiv> pres (sheds ok live (insert (K_vpc, v) (R \<union> enis))) m"

lemma widen: "pres (sheds ok live S) m \<Longrightarrow> S \<subseteq> insert (K_vpc, v) (R \<union> enis) \<Longrightarrow> within m"
  by (erule pres_mono) (erule sheds_mono)

lemma quiet: "pres (sheds ok live enis) m \<Longrightarrow> within m"
  by (erule widen) blast

lemma removal: "removes ok live r code m \<Longrightarrow> r \<in> insert (K_vpc, v) R \<Longrightarrow> within m"
  unfolding removes_def by (erule conjE, erule widen) blast

text \<open>What a program does after a report may use what was reported, in a state that is \<open>ok\<close>.\<close>

lemma within_report:
  assumes "pres (sheds ok live enis) m" and "post ok m (\<lambda>x s. ok s \<and> P x)" and "\<And>x. P x \<Longrightarrow> within (k x)"
  shows "within (andthen m k)"
  unfolding pres_def
proof
  fix s
  obtain r s1 where run: "m s = (r, s1)" by (cases "m s") auto
  have step: "sheds ok live (insert (K_vpc, v) (R \<union> enis)) s s1" by (rule presD [OF quiet [OF assms(1)] run])
  show "sheds ok live (insert (K_vpc, v) (R \<union> enis)) s (snd (andthen m k s))"
  proof (cases "ok s \<and> \<not> isl r")
    case True
    then obtain x where "r = Inr x" by (cases r) auto
    with run True postD [OF assms(2)] have "P x" by blast
    with assms(3) have "sheds ok live (insert (K_vpc, v) (R \<union> enis)) s1 (snd (k x s1))"
      by (simp add: pres_def)
    with step show ?thesis using run \<open>r = Inr x\<close> by (auto simp: andthen_def intro: shed.R_trans)
  next
    case False
    with step run show ?thesis by (cases r) (auto simp: andthen_def sheds_def)
  qed
qed

lemma within_wrapped_report:
  "pres (sheds ok live enis) m \<Longrightarrow> post ok m (\<lambda>x s. ok s \<and> P x) \<Longrightarrow> (\<And>x. P x \<Longrightarrow> within (k x)) \<Longrightarrow>
   within (andthen (wrap t m) k)"
  by (rule within_report [OF shed.pres_wrap post_wrap])

lemma within_check: "within (check_context c t)"
  unfolding check_context_def by (intro shed.pres_rules pres_cases)

lemma within_log_error: "within m \<Longrightarrow> within (log_error m)"
  unfolding log_error_def by (intro shed.pres_rules)

lemma within_succeeds: "within m \<Longrightarrow> within (succeeds m)"
  unfolding succeeds_def by (intro shed.pres_rules)

lemma within_count: "(\<And>x. x \<in> set xs \<Longrightarrow> within (f x)) \<Longrightarrow> within (count_true f xs)"
  by (induction xs) (auto intro!: shed.pres_rules)

lemmas within_basics = shed.pres_rules pres_cases within_check within_log_error within_succeeds
  detaches [THEN quiet] waits [THEN quiet] reads [THEN quiet]

subsection \<open>A cleanup stays within the VPC\<close>

lemma within_deleteLoadBalancers: "within (deleteLoadBalancers c v)"
proof -
  have parts: "within (deleteLBListeners c arn)" "within (deleteLBTargetGroups c arn)" if "(K_lb, arn) \<in> R" for arn
    unfolding deleteLBListeners_def deleteLBTargetGroups_def
    by (rule within_wrapped_report [OF reads(9) listeners_in [OF that]]
        within_wrapped_report [OF reads(10) target_groups_in [OF that]],
      intro within_basics removal [OF DeleteListener] removal [OF DeleteTargetGroup]; simp)+
  show ?thesis
    unfolding deleteLoadBalancers_def clean_balancer_def
  proof (rule within_wrapped_report [OF reads(8) balancers_in], rule shed.pres_andthen, rule within_count)
    fix lbs lb
    assume lbs: "\<forall>lb \<in> set lbs. lb_VpcId lb = Some v \<longrightarrow> (K_lb, lb_LoadBalancerArn lb) \<in> R" and lb: "lb \<in> set lbs"
    show "within (if lb_VpcId lb \<noteq> Some v then ret False
      else andthen (log_error (deleteLBListeners c (lb_LoadBalancerArn lb))) (\<lambda>_.
      andthen (log_error (deleteLBTargetGroups c (lb_LoadBalancerArn lb))) (\<lambda>_.
      succeeds (elb_DeleteLoadBalancer (cn_elbv2 c) (lb_LoadBalancerArn lb)))))"
      by (intro within_basics parts removal [OF DeleteLoadBalancer]; use lbs lb in blast)
  qed (intro within_basics)
qed

lemma within_deleteInstances: "within (deleteInstances c v)"
  unfolding deleteInstances_def Let_def
proof (rule within_wrapped_report [OF reads(1) instances_in])
  fix rs assume "\<forall>inst \<in> set (concat rs). (K_instance, ei_InstanceId inst) \<in> R"
  then have "within (ec2_TerminateInstances (cn_ec2 c) (map ei_InstanceId (concat rs)))"
    by (intro widen [OF TerminateInstances]) auto
  then show "within (if map ei_InstanceId (concat rs) = [] then ret ()
    else andthen (wrap ''failed to terminate instances'' (ec2_TerminateInstances (cn_ec2 c) (map ei_InstanceId (concat rs)))) (\<lambda>_.
    wrap ''failed waiting for instances to terminate'' (cn_WaitTerminated c (map ei_InstanceId (concat rs)) 600)))"
    by (intro within_basics)
qed

lemma within_network:
  "within (Cleaner_deleteSecurityGroups c v)" "within (deleteSubnets c v)"
  "within (deleteRouteTables c v)" "within (deleteInternetGateways c v)"
  unfolding Cleaner_deleteSecurityGroups_def release_enis_def revoke_rules_def deleteSubnets_def
    deleteRouteTables_def move_associations_def deleteInternetGateways_def Let_def
  by (rule within_wrapped_report [OF reads(2) groups_in] within_wrapped_report [OF reads(3) subnets_in]
      within_wrapped_report [OF reads(4) tables_in] within_wrapped_report [OF reads(5) gateways_in],
    intro within_basics removal [OF DeleteSecurityGroup] removal [OF DeleteSubnet]
      removal [OF DeleteRouteTable] removal [OF DeleteInternetGateway]; auto)+

lemma within_vpc_attempts: "within (vpc_attempts n c v)"
  by (induction n) (auto intro!: within_basics removal [OF DeleteVpc])

lemma within_DeleteVPCResources: "within (DeleteVPCResources c v)"
  unfolding DeleteVPCResources_def Cleaner_deleteVPC_def
  by (intro within_basics within_deleteLoadBalancers within_deleteInstances within_network within_vpc_attempts)

lemma within_CleanupVPC: "within (CleanupVPC c v)"
  unfolding CleanupVPC_def GetTagValue_def jobs_running_def CheckGitHubJobsCompleted_def Let_def
  by (intro within_basics within_DeleteVPCResources)

subsection \<open>A successful cleanup removes the VPC\<close>

lemma vpc_attempts_gone: "post ok (vpc_attempts n c v) (\<lambda>_ s. (K_vpc, v) \<notin> live s)"
proof (induction n)
  case 0
  then show ?case by (simp add: post_fail)
next
  case (Suc n)
  have keep: "post ok m (\<lambda>_. ok)" if "within m" for m :: "('s, 'x) io"
    using that by (auto simp: post_def sheds_def dest!: presD)
  have once: "post ok (attempt (ec2_DeleteVpc (cn_ec2 c) v)) (\<lambda>r s. ok s \<and>
      ((case r of Inr _ \<Rightarrow> True | Inl e \<Rightarrow> contains e ''InvalidVpcID.NotFound'') \<longrightarrow> (K_vpc, v) \<notin> live s))"
    using DeleteVpc [of v] by (intro post_attempt) (auto simp: removes_def sheds_def dest!: presD split: sum.splits)
  show ?case
    unfolding vpc_attempts.simps
  proof (rule post_andthen [OF keep [OF within_check]], rule post_andthen [OF once], goal_cases)
    case (1 u r)
    show ?case
    proof (cases r)
      case (Inl e)
      have "post ok (andthen (wrap t (cn_pause c 30)) (\<lambda>_. vpc_attempts n c v)) (\<lambda>_ s. (K_vpc, v) \<notin> live s)" for t
        by (rule post_andthen [OF keep Suc.IH], intro within_basics)
      with Inl Suc.IH show ?thesis
        by (auto intro!: post_if post_ret elim!: post_strengthen)
    qed (auto intro: post_ret)
  qed
qed

lemma DeleteVPCResources_gone: "post ok (DeleteVPCResources c v) (\<lambda>_ s. (K_vpc, v) \<notin> live s)"
proof -
  have keep: "post ok m (\<lambda>_. ok)" if "within m" for m :: "('s, 'x) io"
    using that by (auto simp: post_def sheds_def dest!: presD)
  show ?thesis
    unfolding DeleteVPCResources_def Cleaner_deleteVPC_def
    by (intro post_andthen [OF keep] post_wrap vpc_attempts_gone within_basics within_deleteLoadBalancers
        within_deleteInstances within_network)
qed

lemma cleanup_frame:
  assumes "CleanupVPC c v s = (r, s')" "ok s"
  shows "live s' \<subseteq> live s" "live s - live s' \<subseteq> insert (K_vpc, v) (R \<union> enis)"
  using presD [OF within_CleanupVPC assms(1)] assms(2) by (auto simp: sheds_def)

lemma cleanup_done:
  assumes "CleanupVPC c v s = (Inr (), s')" "ok s"
  shows "(K_vpc, v) \<notin> live s'"
proof -
  have tame: "post ok m (\<lambda>_. ok)" if "within m" for m :: "('s, 'x) io"
    using that by (auto simp: post_def sheds_def dest!: presD)
  have "post ok (CleanupVPC c v) (\<lambda>_ s. (K_vpc, v) \<notin> live s)"
    unfolding CleanupVPC_def GetTagValue_def jobs_running_def CheckGitHubJobsCompleted_def Let_def
    by (intro post_andthen [OF tame] post_if post_fail DeleteVPCResources_gone within_basics)
  with assms show ?thesis by (simp add: post_def)
qed

end

end
