(* ===== verification/Fake_Cleaner.thy ===== *)
theory Fake_Cleaner
  imports Cleaner_Contract
begin

text \<open>
  The cleaner on the repository's fake account: what the fake reports of a VPC (its describe calls
  for instances, route tables and gateways do not look at the filter), that no call of a cleanup
  adds to it, and the interpretation of the contract.
\<close>

section \<open>What the fake reports\<close>

abbreviation entries :: "'v gomap \<Rightarrow> 'v set" where
  "entries m \<equiv> snd ` set m"

fun told :: "string \<Rightarrow> 'z Store_scheme \<Rightarrow> kind \<Rightarrow> string set" where
  "told v s K_instance = ei_InstanceId ` entries (fs_Instances s)"
| "told v s K_sg = sg_GroupId ` {x \<in> entries (fs_SecurityGroups s). \<not> is_default x \<and> (v = '''' \<or> sg_VpcId x = v)}"
| "told v s K_subnet = sn_SubnetId ` {x \<in> entries (fs_Subnets s). v = '''' \<or> sn_VpcId x = v}"
| "told v s K_rtb = rt_RouteTableId ` entries (fs_RouteTables s)"
| "told v s K_igw = igw_InternetGatewayId ` entries (fs_InternetGateways s)"
| "told v s K_lb = lb_LoadBalancerArn ` {x \<in> entries (fs_LoadBalancers s). lb_VpcId x = Some v}"
| "told v s K_listener = ls_ListenerArn ` entries (fs_Listeners s)"
| "told v s K_tg = tg_TargetGroupArn ` entries (fs_TargetGroups s)"
| "told v s _ = {}"

definition reports :: "string \<Rightarrow> 'z Store_scheme \<Rightarrow> resource set" where
  "reports v s = {(k, i). i \<in> told v s k}"

definition shrinks :: "string \<Rightarrow> 'z Store_scheme \<Rightarrow> 'z Store_scheme \<Rightarrow> bool" where
  "shrinks v s t \<longleftrightarrow> reports v t \<subseteq> reports v s"

interpretation shrink: step_relation "shrinks v" for v
  by unfold_locales (auto simp: shrinks_def)

lemma shrinksI: "(\<And>k. told v t k \<subseteq> told v s k) \<Longrightarrow> shrinks v s t"
  by (auto simp: shrinks_def reports_def)

lemma entries_delete: "entries (AList.delete k m) \<subseteq> entries m"
  by (auto simp: AList.delete_eq)

lemma map_of_entry: "map_of m k = Some x \<Longrightarrow> x \<in> entries m"
  by (force dest: map_of_SomeD)

text \<open>An update that keeps an id and a condition, and a deletion, tell nothing new.\<close>

lemma image_delete: "f ` {x \<in> entries (AList.delete k m). Q x} \<subseteq> f ` {x \<in> entries m. Q x}"
  "f ` entries (AList.delete k m) \<subseteq> f ` entries m"
  using entries_delete [of k m] by blast+

lemma image_update: "map_of m k = Some x \<Longrightarrow> f y = f x \<Longrightarrow> (Q y \<Longrightarrow> Q x) \<Longrightarrow>
    f ` {x \<in> entries (AList.update k y m). Q x} \<subseteq> f ` {x \<in> entries m. Q x}"
proof
  fix i
  assume *: "map_of m k = Some x" "f y = f x" "Q y \<Longrightarrow> Q x" and "i \<in> f ` {x \<in> entries (AList.update k y m). Q x}"
  then obtain z where z: "z \<in> entries (AList.update k y m)" "Q z" "i = f z" by blast
  then have "z = y \<or> z \<in> entries m" using vals_update [of k y m] by blast
  then show "i \<in> f ` {x \<in> entries m. Q x}"
    using z(2,3) *(2,3) map_of_entry [OF *(1)] by blast
qed

lemmas image_update_all = image_update [where Q = "\<lambda>_. True", simplified]

lemma api_shrinks:
  assumes "\<And>s. shrinks v s (snd (body s))"
  shows "pres (shrinks v) (api m i body)"
proof (rule presI)
  fix s :: "'a Store_scheme"
  obtain f s1 where f: "failure m (record_call m i s) = (f, s1)" by (cases "failure m (record_call m i s)") auto
  then have "s1 = record_call m i s\<lparr>fs_failures := fs_failures s1\<rparr>"
    by (cases "get_list (fs_failures (record_call m i s)) m") (auto simp: failure_def)
  moreover have "shrinks v s (record_call m i s\<lparr>fs_failures := x\<rparr>)" for x
    by (rule shrinksI, case_tac k) (simp_all add: record_call_def)
  ultimately have "shrinks v s s1" by metis
  then show "shrinks v s (snd (api m i body s))"
    using f shrink.R_trans [OF _ assms] by (simp add: api_def split: option.split)
qed

lemma api_reads: "(\<And>s. snd (body s) = s) \<Longrightarrow> pres (shrinks v) (api m i body)"
  by (rule api_shrinks) (simp add: shrinks_def)

lemma reads_shrink:
  "pres (shrinks v) (fDescribeSubnets ids f)" "pres (shrinks v) (fDescribeSecurityGroups ids f)"
  "pres (shrinks v) (fDescribeRouteTables ids f)" "pres (shrinks v) (fDescribeInstances ids f)"
  "pres (shrinks v) (fDescribeInternetGateways ids f)" "pres (shrinks v) (fDescribeTags f)"
  "pres (shrinks v) (fDescribeLoadBalancers q)" "pres (shrinks v) (fDescribeTargetGroups tq)"
  "pres (shrinks v) (fDescribeListeners i)" "pres (shrinks v) (fModifyNetworkInterfaceAttribute a)"
  "pres (shrinks v) (fRevokeSecurityGroupEgress i perms)"
  unfolding fDescribeSubnets_def fDescribeSecurityGroups_def fDescribeRouteTables_def fDescribeInstances_def
    fDescribeInternetGateways_def fDescribeTags_def fDescribeLoadBalancers_def fDescribeTargetGroups_def
    fDescribeListeners_def fModifyNetworkInterfaceAttribute_def fRevokeSecurityGroupEgress_def
  by (rule api_reads; simp add: okay_def split: sum.split option.split)+

lemma tell_less:
  "shrinks v s (s\<lparr>fs_Vpcs := AList.delete i (fs_Vpcs s)\<rparr>)"
  "shrinks v s (s\<lparr>fs_Subnets := AList.delete i (fs_Subnets s)\<rparr>)"
  "shrinks v s (s\<lparr>fs_SecurityGroups := AList.delete i (fs_SecurityGroups s)\<rparr>)"
  "shrinks v s (s\<lparr>fs_RouteTables := AList.delete i (fs_RouteTables s)\<rparr>)"
  "shrinks v s (s\<lparr>fs_InternetGateways := AList.delete i (fs_InternetGateways s)\<rparr>)"
  "shrinks v s (s\<lparr>fs_Listeners := AList.delete i (fs_Listeners s)\<rparr>)"
  "shrinks v s (s\<lparr>fs_LoadBalancers := AList.delete i (fs_LoadBalancers s)\<rparr>)"
  "shrinks v s (s\<lparr>fs_TargetGroups := AList.delete i (fs_TargetGroups s), fs_RegisteredTargets := m\<rparr>)"
  "shrinks v s (s\<lparr>fs_NetworkInterfaces := n, fs_eniDraining := d\<rparr>)" "shrinks v s (s\<lparr>fs_eniDraining := d\<rparr>)"
  by (rule shrinksI, case_tac k; simp add: image_delete)+

lemma deletions_shrink:
  "pres (shrinks v) (fDeleteVpc i)" "pres (shrinks v) (fDeleteSubnet i)"
  "pres (shrinks v) (fDeleteSecurityGroup i)" "pres (shrinks v) (fDeleteRouteTable i)"
  "pres (shrinks v) (fDeleteInternetGateway i)" "pres (shrinks v) (fDeleteListener i)"
  "pres (shrinks v) (fDeleteTargetGroup i)" "pres (shrinks v) (fDeleteLoadBalancer i)"
  unfolding fDeleteVpc_def fDeleteSubnet_def fDeleteSecurityGroup_def fDeleteRouteTable_def
    fDeleteInternetGateway_def fDeleteListener_def fDeleteTargetGroup_def fDeleteLoadBalancer_def
  by (rule api_shrinks; simp add: okay_def shrink.R_refl tell_less)+

lemma observe_enis_shrinks: "shrinks v s (snd (observe_enis f m s))"
proof (induction f m s rule: observe_enis.induct)
  case (2 f i ni m s)
  have "shrinks v s (advanceENIDrain i s)"
    by (simp add: advanceENIDrain_def shrink.R_refl tell_less split: option.split)
  with 2 show ?case
    using shrink.R_trans by (fastforce simp: case_prod_beta Let_def)
qed (simp add: shrink.R_refl)

lemma terminate_one_shrinks:
  assumes "map_of (fs_Instances s) i = Some inst"
  shows "shrinks v s (terminate_one i inst s)"
  by (rule shrinksI, case_tac k)
    (simp_all add: terminate_one_def image_update_all [OF assms])

lemma terminate_many_shrinks: "shrinks v s (snd (terminate_many ids s))"
proof (induction ids s rule: terminate_many.induct)
  case (2 i ids s)
  then show ?case
    using shrink.R_trans [OF terminate_one_shrinks] by (cases "map_of (fs_Instances s) i") (auto simp: shrink.R_refl)
qed (simp add: okay_def shrink.R_refl)

lemma detach_shrinks: "map_of (fs_InternetGateways s) i = Some igw \<Longrightarrow> shrinks v s
    (s\<lparr>fs_InternetGateways := AList.update i (igw\<lparr>igw_Attachments := []\<rparr>) (fs_InternetGateways s)\<rparr>)"
  by (rule shrinksI, case_tac k) (simp_all add: image_update_all)

lemma ingress_shrinks: "shrinks v s (set_ingress i f s)"
proof (cases "map_of (fs_SecurityGroups s) i")
  case (Some sg)
  have "told v (set_ingress i f s) K_sg \<subseteq> told v s K_sg"
    using image_update [OF Some, of sg_GroupId "sg\<lparr>sg_IpPermissions := f (sg_IpPermissions sg)\<rparr>"
      "\<lambda>x. \<not> is_default x \<and> (v = '''' \<or> sg_VpcId x = v)"]
    by (simp add: set_ingress_def Some is_default_def)
  then show ?thesis
    by (intro shrinksI, case_tac k) (simp_all add: set_ingress_def Some)
qed (simp add: set_ingress_def shrink.R_refl)

lemma counter_shrinks: "shrinks v s (s\<lparr>fs_counter := n\<rparr>)"
  by (rule shrinksI, case_tac k) simp_all

lemma updates_shrink:
  "pres (shrinks v) (fDescribeNetworkInterfaces ids f)" "pres (shrinks v) (fTerminateInstances ids)"
  "pres (shrinks v) (fReplaceRouteTableAssociation i j)" "pres (shrinks v) (fDetachInternetGateway i j)"
  "pres (shrinks v) (fRevokeSecurityGroupIngress i perms)"
  unfolding fDescribeNetworkInterfaces_def fTerminateInstances_def fReplaceRouteTableAssociation_def
    fDetachInternetGateway_def fRevokeSecurityGroupIngress_def
  by (rule api_shrinks; simp add: okay_def shrink.R_refl case_prod_beta Let_def nextID_def
      observe_enis_shrinks terminate_many_shrinks counter_shrinks detach_shrinks ingress_shrinks
      split: option.split)+

section \<open>The cleaner of the fake account\<close>

text \<open>GitHub's answer is fixed: the status and the states of the jobs.\<close>

definition fake_cleaner :: "string \<Rightarrow> nat \<Rightarrow> string list \<Rightarrow> fake_world Cleaner" where
  "fake_cleaner token status jobs = \<lparr>cn_ec2 = FakeEC2, cn_elbv2 = FakeELBv2, cn_Err = (\<lambda>_. None),
     cn_pause = (\<lambda>n. modify (fake_sleep n)), cn_Getenv = (\<lambda>_. token),
     cn_Get = (\<lambda>url t. ret (status, Inr jobs)), cn_WaitTerminated = pl_WaitTerminated fake_platform\<rparr>"

definition cleaning :: "string \<Rightarrow> resource set \<Rightarrow> fake_world \<Rightarrow> bool" where
  "cleaning v R s \<longleftrightarrow> fake_ok s \<and> reports v s \<subseteq> R"

lemma cleaning_sheds: "pres (sheds fake_ok fake_live S) m \<Longrightarrow> pres (shrinks v) m \<Longrightarrow>
    pres (sheds (cleaning v R) fake_live S) m"
  unfolding pres_def sheds_def shrinks_def cleaning_def by blast

lemma cleaning_removes: "removes fake_ok fake_live r code m \<Longrightarrow> pres (shrinks v) m \<Longrightarrow>
    removes (cleaning v R) fake_live r code m"
  unfolding removes_def using cleaning_sheds by (auto simp: cleaning_def)

lemma cleaning_post:
  assumes "pres (sheds fake_ok fake_live S) m" "pres (shrinks v) m"
    and "\<And>s x s'. m s = (Inr x, s') \<Longrightarrow> reports v s' \<subseteq> R \<Longrightarrow> Q x"
  shows "post (cleaning v R) m (\<lambda>x s. cleaning v R s \<and> Q x)"
proof (rule postI)
  fix s x s'
  assume run: "m s = (Inr x, s')" and pre: "cleaning v R s"
  have "cleaning v R s'"
    using presD [OF assms(1) run] presD [OF assms(2) run] pre by (auto simp: cleaning_def sheds_def shrinks_def)
  with assms(3) [OF run] show "cleaning v R s' \<and> Q x" by (simp add: cleaning_def)
qed

lemma api_Inr: "api m i body s = (Inr x, s') \<Longrightarrow> \<exists>s1. body s1 = (Inr x, s')"
  by (auto simp: api_def split: prod.splits option.splits)

lemma told_answers:
  "fDescribeInstances [] f s = (Inr rs, s') \<Longrightarrow> \<forall>x \<in> set (concat rs). (K_instance, ei_InstanceId x) \<in> reports v s'"
  "fDescribeSecurityGroups [] [(''vpc-id'', [v])] s = (Inr sgs, s') \<Longrightarrow>
     \<forall>x \<in> set sgs. \<not> is_default x \<longrightarrow> (K_sg, sg_GroupId x) \<in> reports v s'"
  "fDescribeSubnets [] [(''vpc-id'', [v])] s = (Inr sns, s') \<Longrightarrow> \<forall>x \<in> set sns. (K_subnet, sn_SubnetId x) \<in> reports v s'"
  "fDescribeRouteTables [] f s = (Inr rts, s') \<Longrightarrow>
     \<forall>x \<in> set rts. \<not> has_main x \<longrightarrow> (K_rtb, rt_RouteTableId x) \<in> reports v s'"
  "fDescribeInternetGateways [] f s = (Inr igws, s') \<Longrightarrow> \<forall>x \<in> set igws. (K_igw, igw_InternetGatewayId x) \<in> reports v s'"
  "fDescribeLoadBalancers \<lparr>dli_LoadBalancerArns = [], dli_Names = []\<rparr> s = (Inr lbs, s') \<Longrightarrow>
     \<forall>x \<in> set lbs. lb_VpcId x = Some v \<longrightarrow> (K_lb, lb_LoadBalancerArn x) \<in> reports v s'"
  "fDescribeListeners arn s = (Inr ls, s') \<Longrightarrow> \<forall>x \<in> set ls. (K_listener, ls_ListenerArn x) \<in> reports v s'"
  "fDescribeTargetGroups \<lparr>dti_TargetGroupArns = [], dti_LoadBalancerArn = Some arn\<rparr> s = (Inr tgs, s') \<Longrightarrow>
     \<forall>x \<in> set tgs. (K_tg, tg_TargetGroupArn x) \<in> reports v s'"
  unfolding fDescribeInstances_def fDescribeSecurityGroups_def fDescribeSubnets_def fDescribeRouteTables_def
    fDescribeInternetGateways_def fDescribeLoadBalancers_def fDescribeListeners_def fDescribeTargetGroups_def
  by (drule api_Inr; auto simp: okay_def reports_def in_vpc_def)+

lemma quiet_cleaning:
  "pres (sheds fake_ok fake_live R) (fDescribeInternetGateways ids filters)"
  "pres (sheds fake_ok fake_live R) (fDescribeTags filters)"
  "pres (sheds fake_ok fake_live R) (fModifyNetworkInterfaceAttribute a)"
  "pres (sheds fake_ok fake_live R) (fRevokeSecurityGroupEgress i perms)"
  unfolding fDescribeInternetGateways_def fDescribeTags_def fModifyNetworkInterfaceAttribute_def
    fRevokeSecurityGroupEgress_def
  by (rule api_quiet; simp add: okay_def)+

lemma replace_quiet: "pres (sheds fake_ok fake_live R) (fReplaceRouteTableAssociation i j :: ('z Store_scheme, string) io)"
  unfolding fReplaceRouteTableAssociation_def
proof (rule api_sheds)
  fix s :: "'z Store_scheme"
  have "fake_live (s\<lparr>fs_counter := n\<rparr>) = fake_live s" for n
    by (rule fake_live_same, case_tac k; simp)
  then show "sheds fake_ok fake_live R s (snd (let (i, s) = nextID ''rtbassoc'' s in okay i s))"
    by (simp add: okay_def nextID_def Let_def sheds_def fake_ok_def)
qed

lemma clock_shrinks: "shrinks v w (w\<lparr>fw_clock := c\<rparr>)"
  by (rule shrinksI, case_tac k) simp_all

lemma cleaner_waits:
  "pres (sheds fake_ok fake_live enis) (modify (fake_sleep n))"
  "pres (shrinks v) (modify (fake_sleep n))"
  "pres (shrinks v) (pl_WaitTerminated fake_platform ids n)"
  by (simp_all add: pres_def modify_def platform_quiet(1))
    (simp_all add: fake_sleep_def clock_shrinks fake_platform_def instances_in_def
      pres_def [symmetric] shrink.pres_rules reads_shrink)

lemma fake_cleaner_simps [simp]:
  "cn_ec2 (fake_cleaner t st js) = FakeEC2" "cn_elbv2 (fake_cleaner t st js) = FakeELBv2"
  "cn_Err (fake_cleaner t st js) = (\<lambda>_. None)" "cn_pause (fake_cleaner t st js) = (\<lambda>n. modify (fake_sleep n))"
  "cn_Getenv (fake_cleaner t st js) = (\<lambda>_. t)" "cn_Get (fake_cleaner t st js) = (\<lambda>_ _. ret (st, Inr js))"
  "cn_WaitTerminated (fake_cleaner t st js) = pl_WaitTerminated fake_platform"
  by (simp_all add: fake_cleaner_def)

lemma cleaner_clients:
  "ec2_DescribeInternetGateways FakeEC2 = fDescribeInternetGateways" "ec2_DescribeTags FakeEC2 = fDescribeTags"
  "ec2_ModifyNetworkInterfaceAttribute FakeEC2 = fModifyNetworkInterfaceAttribute"
  "ec2_RevokeSecurityGroupEgress FakeEC2 = fRevokeSecurityGroupEgress"
  "ec2_ReplaceRouteTableAssociation FakeEC2 = fReplaceRouteTableAssociation"
  by (simp_all add: FakeEC2_def)

lemmas cleaning_quiet = quiet_ops quiet_cleaning replace_quiet revoke_op detach_op async_ops delete_ops
  cleaner_waits platform_quiet(2) reads_shrink updates_shrink deletions_shrink

lemma cleaning_answers:
  "post (cleaning v R) (fDescribeInstances [] f)
     (\<lambda>rs s. cleaning v R s \<and> (\<forall>x \<in> set (concat rs). (K_instance, ei_InstanceId x) \<in> R))"
  "post (cleaning v R) (fDescribeSecurityGroups [] [(''vpc-id'', [v])])
     (\<lambda>sgs s. cleaning v R s \<and> (\<forall>x \<in> set sgs. \<not> is_default x \<longrightarrow> (K_sg, sg_GroupId x) \<in> R))"
  "post (cleaning v R) (fDescribeSubnets [] [(''vpc-id'', [v])])
     (\<lambda>sns s. cleaning v R s \<and> (\<forall>x \<in> set sns. (K_subnet, sn_SubnetId x) \<in> R))"
  "post (cleaning v R) (fDescribeRouteTables [] f)
     (\<lambda>rts s. cleaning v R s \<and> (\<forall>x \<in> set rts. \<not> has_main x \<longrightarrow> (K_rtb, rt_RouteTableId x) \<in> R))"
  "post (cleaning v R) (fDescribeInternetGateways [] f)
     (\<lambda>igws s. cleaning v R s \<and> (\<forall>x \<in> set igws. (K_igw, igw_InternetGatewayId x) \<in> R))"
  "post (cleaning v R) (fDescribeLoadBalancers \<lparr>dli_LoadBalancerArns = [], dli_Names = []\<rparr>)
     (\<lambda>lbs s. cleaning v R s \<and> (\<forall>x \<in> set lbs. lb_VpcId x = Some v \<longrightarrow> (K_lb, lb_LoadBalancerArn x) \<in> R))"
  "post (cleaning v R) (fDescribeListeners arn)
     (\<lambda>ls s. cleaning v R s \<and> (\<forall>x \<in> set ls. (K_listener, ls_ListenerArn x) \<in> R))"
  "post (cleaning v R) (fDescribeTargetGroups \<lparr>dti_TargetGroupArns = [], dti_LoadBalancerArn = Some arn\<rparr>)
     (\<lambda>tgs s. cleaning v R s \<and> (\<forall>x \<in> set tgs. (K_tg, tg_TargetGroupArn x) \<in> R))"
  by (rule cleaning_post [where S = enis], rule cleaning_quiet, rule cleaning_quiet, drule told_answers, fast)+

interpretation fake_cleaner: cleaner_account "fake_cleaner token status jobs" "cleaning v R" fake_live v R
  for token status jobs v R
  by unfold_locales
    (unfold fake_cleaner_simps fake_clients cleaner_clients,
     (rule cleaning_answers cleaning_sheds cleaning_removes cleaning_quiet shed.pres_ret shrink.pres_ret)+)

end
