(* ===== verification/Go_Path.thy ===== *)
theory Go_Path
  imports Net_IP
begin

text \<open>
  \<open>path/filepath\<close> of Go's standard library on Unix: \<open>Clean\<close>, \<open>Join\<close> and \<open>IsAbs\<close>, and that joining a
  path without \<open>..\<close> to a directory stays below that directory.
\<close>

fun join_with :: "char \<Rightarrow> string list \<Rightarrow> string" where
  "join_with d [] = []"
| "join_with d [x] = x"
| "join_with d (x # y # ys) = x @ d # join_with d (y # ys)"

definition IsAbs :: "string \<Rightarrow> bool" where
  "IsAbs s \<longleftrightarrow> prefix ''/'' s"

text \<open>The components of a cleaned path, the last one first.\<close>

definition clean_step :: "bool \<Rightarrow> string list \<Rightarrow> string \<Rightarrow> string list" where
  "clean_step rooted stack c =
     (if c = '''' \<or> c = ''.'' then stack
      else if c = ''..'' then
        (case stack of d # ds \<Rightarrow> if d = ''..'' then ''..'' # stack else ds
         | [] \<Rightarrow> if rooted then [] else [''..''])
      else c # stack)"

definition components :: "string \<Rightarrow> string list" where
  "components s = rev (foldl (clean_step (IsAbs s)) [] (split_on (CHR ''/'') s))"

definition Clean :: "string \<Rightarrow> string" where
  "Clean s = (let p = (if IsAbs s then ''/'' else '''') @ join_with (CHR ''/'') (components s) in
     if p = '''' then ''.'' else p)"

definition Join :: "string \<Rightarrow> string \<Rightarrow> string" where
  "Join a b = (if a \<noteq> '''' then Clean (a @ ''/'' @ b) else if b \<noteq> '''' then Clean b else '''')"

section \<open>Staying below a directory\<close>

lemma split_on_nonempty [simp]: "split_on d s \<noteq> []"
  by (induction s) (auto split: list.split)

lemma split_on_join: "split_on d (a @ d # b) = split_on d a @ split_on d b"
  by (induction a) (auto split: list.split)

lemma steps_extend:
  assumes "''..'' \<notin> set cs"
  shows "\<exists>ds. foldl (clean_step rooted) stack cs = ds @ stack"
  using assms
proof (induction cs arbitrary: stack)
  case (Cons c cs)
  then have "c \<noteq> ''..''" "''..'' \<notin> set cs" by auto
  then obtain ds where "foldl (clean_step rooted) (clean_step rooted stack c) cs = ds @ clean_step rooted stack c"
    using Cons.IH by blast
  moreover have "\<exists>es. clean_step rooted stack c = es @ stack"
    using \<open>c \<noteq> ''..''\<close> by (auto simp: clean_step_def)
  ultimately show ?case by fastforce
qed simp

lemma components_join:
  assumes "''..'' \<notin> set (split_on (CHR ''/'') f)" "base \<noteq> ''''"
  shows "\<exists>below. components (base @ ''/'' @ f) = components base @ below"
proof -
  have abs: "IsAbs (base @ ''/'' @ f) = IsAbs base" using assms(2) by (cases base) (auto simp: IsAbs_def)
  let ?st = "foldl (clean_step (IsAbs base)) [] (split_on (CHR ''/'') base)"
  obtain ds where "foldl (clean_step (IsAbs base)) ?st (split_on (CHR ''/'') f) = ds @ ?st"
    using steps_extend [OF assms(1)] by blast
  then have "components (base @ ''/'' @ f) = rev ?st @ rev ds"
    unfolding components_def abs by (simp add: split_on_join)
  then show ?thesis unfolding components_def by blast
qed

end
