(* ===== verification/Cleaner_Props.thy ===== *)
theory Cleaner_Props
  imports Fake_Cleaner Teardown_Props Go_Path
begin

text \<open>
  What a cleanup does: which VPCs it touches, what it removes, what it sends to GitHub, how often
  it tries, and what the command reports.
\<close>

section \<open>A cleanup removes the VPC and nothing beside it\<close>

text \<open>
  C19: in every account that keeps the contract, a cleanup of a VPC creates nothing and removes
  nothing but the VPC, resources that the account has reported as the VPC's (no default security
  group and no main route table) and network interfaces, whether it succeeds or not; and if it
  succeeds the VPC is gone.
\<close>

theorem cleanup_stays_in_vpc:
  assumes "cleaner_account c ok live v R" and "ok s" and "CleanupVPC c v s = (r, s')"
  shows "live s' \<subseteq> live s \<and> live s - live s' \<subseteq> insert (K_vpc, v) (R \<union> enis)
    \<and> (r = Inr () \<longrightarrow> (K_vpc, v) \<notin> live s')"
  using cleaner_account.cleanup_frame [OF assms(1,3,2)] cleaner_account.cleanup_done [OF assms(1) _ assms(2)]
    assms(3) by blast

text \<open>Two VPCs with a subnet each.\<close>

definition vpc_subnet :: "string \<Rightarrow> string \<Rightarrow> Subnet" where
  "vpc_subnet i v = \<lparr>sn_SubnetId = i, sn_VpcId = v, sn_CidrBlock = ''10.0.1.0/24'',
     sn_State = ''available'', sn_Tags = []\<rparr>"

definition two_vpcs :: fake_world where
  "two_vpcs = fake_start\<lparr>fs_Vpcs := [(''vpc-1'', sample_vpc ''vpc-1''), (''vpc-2'', sample_vpc ''vpc-2'')],
     fs_Subnets := [(''subnet-1'', vpc_subnet ''subnet-1'' ''vpc-1''), (''subnet-2'', vpc_subnet ''subnet-2'' ''vpc-2'')]\<rparr>"

abbreviation sample_cleaner :: "fake_world Cleaner" where
  "sample_cleaner \<equiv> fake_cleaner '''' 200 []"

lemma two_vpcs_fields:
  "fs_Instances two_vpcs = []" "fs_SecurityGroups two_vpcs = []" "fs_RouteTables two_vpcs = []"
  "fs_InternetGateways two_vpcs = []" "fs_LoadBalancers two_vpcs = []" "fs_Listeners two_vpcs = []"
  "fs_TargetGroups two_vpcs = []" "fs_failures two_vpcs = []"
  "fs_Subnets two_vpcs = [(''subnet-1'', vpc_subnet ''subnet-1'' ''vpc-1''), (''subnet-2'', vpc_subnet ''subnet-2'' ''vpc-2'')]"
  by (simp_all add: two_vpcs_def fake_start_def newStore_def Store.extend_def fake_world.fields_def)

lemma two_vpcs_clean: "cleaning ''vpc-1'' {(K_subnet, ''subnet-1'')} two_vpcs"
proof -
  have subnet: "told ''vpc-1'' two_vpcs K_subnet \<subseteq> {''subnet-1''}"
    by (auto simp: two_vpcs_fields vpc_subnet_def)
  have other: "k \<noteq> K_subnet \<Longrightarrow> told ''vpc-1'' two_vpcs k = {}" for k
    by (cases k) (simp_all add: two_vpcs_fields)
  have "r = (K_subnet, ''subnet-1'')" if r: "r \<in> reports ''vpc-1'' two_vpcs" for r
  proof -
    obtain k i where ki: "r = (k, i)" "i \<in> told ''vpc-1'' two_vpcs k"
      using r unfolding reports_def by blast
    then have "k = K_subnet" using other [of k] by (cases "k = K_subnet") simp_all
    then show ?thesis using ki subnet by blast
  qed
  then show ?thesis
    by (auto simp: cleaning_def fake_ok_def lookup_or_def two_vpcs_fields)
qed

lemma two_vpcs_run: "fst (CleanupVPC sample_cleaner ''vpc-1'' two_vpcs) = Inr ()"
  by code_simp

theorem cleanup_stays_in_vpc_witness:
  "(K_vpc, ''vpc-1'') \<notin> fake_live (snd (CleanupVPC sample_cleaner ''vpc-1'' two_vpcs))
   \<and> (K_vpc, ''vpc-2'') \<in> fake_live (snd (CleanupVPC sample_cleaner ''vpc-1'' two_vpcs))
   \<and> (K_subnet, ''subnet-2'') \<in> fake_live (snd (CleanupVPC sample_cleaner ''vpc-1'' two_vpcs))"
proof -
  have run: "CleanupVPC sample_cleaner ''vpc-1'' two_vpcs = (Inr (), snd (CleanupVPC sample_cleaner ''vpc-1'' two_vpcs))"
    using two_vpcs_run by (metis prod.collapse)
  have "(K_vpc, ''vpc-2'') \<in> fake_live two_vpcs" "(K_subnet, ''subnet-2'') \<in> fake_live two_vpcs"
    by (simp_all add: two_vpcs_def fake_live_iff)
  then show ?thesis
    using cleanup_stays_in_vpc [OF fake_cleaner.cleaner_account_axioms two_vpcs_clean run] by auto
qed

section \<open>Which VPCs are cleaned up\<close>


text \<open>A VPC whose repository tag is not of GitHub's form is deleted although its job may run.\<close>

definition tagged_world :: fake_world where
  "tagged_world = fake_start\<lparr>fs_Instances := [(''i-1'', sample_instance\<lparr>ei_Tags := [(''GitHubRepository'', ''no-slash'')]\<rparr>)]\<rparr>"


lemma split_on_one: "split_on d s = [b] \<Longrightarrow> s = b \<and> d \<notin> set b"
proof (induction s arbitrary: b)
  case (Cons c s)
  then show ?case by (cases "split_on d s") (auto split: if_splits)
qed simp

lemma split_on_two: "split_on d s = [a, b] \<Longrightarrow> s = a @ d # b \<and> d \<notin> set a \<and> d \<notin> set b"
proof (induction s arbitrary: a)
  case (Cons c s)
  show ?case
  proof (cases "c = d")
    case True
    then have "a = []" "split_on d s = [b]" using Cons.prems by auto
    then show ?thesis using True split_on_one [of d s b] by simp
  next
    case False
    then obtain t ts where "split_on d s = t # ts" "a = c # t" "ts = [b]"
      using Cons.prems by (auto split: list.splits)
    then show ?thesis using Cons.IH [of t] False by simp
  qed
qed simp

text \<open>
  the address asked for the jobs consists of the fixed host and path with the two tags as
  segments, whatever they are: a tag that passes the check has no character that could end its
  segment, start a query or a fragment, or be an escape.
\<close>

theorem jobs_url_segments:
  assumes "repoPattern repository" and "runIDPattern runID"
  shows "\<exists>owner name. owner \<noteq> '''' \<and> name \<noteq> '''' \<and> repository = owner @ ''/'' @ name
    \<and> split_on (CHR ''/'') (jobs_url repository runID) =
       [''https:'', '''', ''api.github.com'', ''repos'', owner, name, ''actions'', ''runs'', runID, ''jobs'']
    \<and> set (jobs_url repository runID) \<inter> set ''?#%@ '' = {}"
proof -
  from assms(1) obtain owner name where repo: "split_on (CHR ''/'') repository = [owner, name]"
    and parts: "owner \<noteq> ''''" "name \<noteq> ''''" "list_all repo_char owner" "list_all repo_char name"
    by (auto simp: repoPattern_def split: list.splits)
  note pieces = split_on_two [OF repo]
  have digit: "is_digit c \<Longrightarrow> c \<notin> set ''/?#%@ ''" for c by (auto simp: is_digit_def)
  have char: "repo_char c \<Longrightarrow> c \<notin> set ''?#%@ ''" for c by (auto simp: repo_char_def alnum_def)
  have run: "CHR ''/'' \<notin> set runID" "set runID \<inter> set ''?#%@ '' = {}"
    using assms(2) digit by (auto simp: runIDPattern_def list_all_iff)
  have url: "jobs_url repository runID = ''https:'' @ CHR ''/'' # '''' @ CHR ''/'' # ''api.github.com'' @ CHR ''/''
      # ''repos'' @ CHR ''/'' # owner @ CHR ''/'' # name @ CHR ''/'' # ''actions'' @ CHR ''/'' # ''runs'' @ CHR ''/''
      # runID @ CHR ''/'' # ''jobs''"
    using pieces by (simp add: jobs_url_def)
  have "split_on (CHR ''/'') (jobs_url repository runID) =
       [''https:'', '''', ''api.github.com'', ''repos'', owner, name, ''actions'', ''runs'', runID, ''jobs'']"
    unfolding url using pieces run(1) by (simp add: split_on_append split_on_none)
  moreover
  have "set owner \<inter> set ''?#%@ '' = {}" "set name \<inter> set ''?#%@ '' = {}"
    using parts(3,4) char by (auto simp: list_all_iff)
  then have "set (jobs_url repository runID) \<inter> set ''?#%@ '' = {}"
    unfolding url using run(2) by (simp add: Int_Un_distrib2)
  ultimately show ?thesis using parts pieces by auto
qed

theorem jobs_url_segments_witness:
  "set (jobs_url ''NVIDIA/holodeck'' ''42'') \<inter> set ''?#%@ '' = {}"
proof -
  have "repoPattern ''NVIDIA/holodeck''" "runIDPattern ''42''" by code_simp+
  from jobs_url_segments [OF this] show ?thesis by blast
qed

section \<open>Retries\<close>

definition deletion_fails :: "'s Cleaner \<Rightarrow> string \<Rightarrow> 's \<Rightarrow> 's \<Rightarrow> bool" where
  "deletion_fails c v s s' \<longleftrightarrow> cn_Err c s = None
     \<and> (\<exists>e. ec2_DeleteVpc (cn_ec2 c) v s = (Inl e, s') \<and> \<not> contains e ''InvalidVpcID.NotFound'')"

text \<open>
  The deletion of the VPC itself is tried three times with 30 seconds between the attempts, and
  given up with an error after the third.
\<close>

theorem deleteVPC_gives_up:
  assumes "deletion_fails c v s0 s1" and "cn_pause c 30 s1 = (Inr (), s2)"
    and "deletion_fails c v s2 s3" and "cn_pause c 30 s3 = (Inr (), s4)"
    and "deletion_fails c v s4 s5"
  shows "Cleaner_deleteVPC c v s0 = (Inl (''failed to delete VPC '' @ v @ '' after 3 attempts''), s5)"
  using assms
  by (auto simp: deletion_fails_def Cleaner_deleteVPC_def eval_nat_numeral check_context_def io_defs)

text \<open>An account in which something still depends on the VPC.\<close>

lemma deletion_failsI: "cn_Err c s = None \<Longrightarrow> fst (ec2_DeleteVpc (cn_ec2 c) v s) = Inl e \<Longrightarrow>
    \<not> contains e ''InvalidVpcID.NotFound'' \<Longrightarrow> deletion_fails c v s (snd (ec2_DeleteVpc (cn_ec2 c) v s))"
  by (auto simp: deletion_fails_def prod_eq_iff)

definition blocked :: "nat \<Rightarrow> fake_world" where
  "blocked n = ((\<lambda>s. fake_sleep 30 (snd (fDeleteVpc ''vpc-1'' s))) ^^ n)
     ((FailNext ''DeleteVpc'' ''DependencyViolation'' ^^ 3) two_vpcs)"

lemma blocked_fails:
  "fst (fDeleteVpc ''vpc-1'' (blocked 0)) = Inl ''DependencyViolation''"
  "fst (fDeleteVpc ''vpc-1'' (blocked 1)) = Inl ''DependencyViolation''"
  "fst (fDeleteVpc ''vpc-1'' (blocked 2)) = Inl ''DependencyViolation''"
  by code_simp+

theorem deleteVPC_gives_up_witness:
  "fst (Cleaner_deleteVPC sample_cleaner ''vpc-1'' (blocked 0)) = Inl ''failed to delete VPC vpc-1 after 3 attempts''"
proof -
  have no: "\<not> contains ''DependencyViolation'' ''InvalidVpcID.NotFound''" by code_simp
  have pause: "cn_pause sample_cleaner 30 (snd (fDeleteVpc ''vpc-1'' (blocked 0))) = (Inr (), blocked 1)"
    "cn_pause sample_cleaner 30 (snd (fDeleteVpc ''vpc-1'' (blocked 1))) = (Inr (), blocked 2)"
    by (simp_all add: blocked_def modify_def eval_nat_numeral)
  note f = deletion_failsI [of sample_cleaner _ "''vpc-1''" "''DependencyViolation''", unfolded fake_cleaner_simps fake_clients,
      OF refl _ no]
  show ?thesis
    using deleteVPC_gives_up [OF f [OF blocked_fails(1)] pause(1) f [OF blocked_fails(2)] pause(2) f [OF blocked_fails(3)]]
    by simp
qed

section \<open>The command\<close>

lemma cleanup_loop_counts:
  assumes "cancelled = (\<lambda>_. None)"
  shows "\<exists>n s'. n \<le> length vpcs
    \<and> cleanup_loop cancelled cleaner force vpcs (good, bad) s = (Inr (good + (length vpcs - n), bad + n), s')"
proof (induction vpcs arbitrary: good bad s)
  case Nil
  then show ?case by (auto simp: ret_def)
next
  case (Cons v vs)
  obtain r s1 where run: "(if force then DeleteVPCResources (cleaner v) v else CleanupVPC (cleaner v) v) s = (r, s1)"
    by fastforce
  show ?case
  proof (cases r)
    case (Inl e)
    obtain n s' where "n \<le> length vs"
      "cleanup_loop cancelled cleaner force vs (good, bad + 1) s1 = (Inr (good + (length vs - n), bad + 1 + n), s')"
      using Cons.IH by blast
    then show ?thesis using run Inl assms
      by (intro exI [of _ "Suc n"] exI [of _ s']) (simp add: andthen_def gets_def attempt_def)
  next
    case (Inr u)
    obtain n s' where "n \<le> length vs"
      "cleanup_loop cancelled cleaner force vs (good + 1, bad) s1 = (Inr (good + 1 + (length vs - n), bad + n), s')"
      using Cons.IH by blast
    then show ?thesis using run Inr assms
      by (intro exI [of _ n] exI [of _ s']) (simp add: andthen_def gets_def attempt_def Suc_diff_le)
  qed
qed

text \<open>
  When the command is not interrupted, it works through all VPCs, and it succeeds exactly when
  none of the cleanups failed.
\<close>

theorem cleanup_run_outcome:
  assumes "vpcs \<noteq> []" and "cleanup_region getenv flag = Inr region" and "cancelled = (\<lambda>_. None)"
  shows "\<exists>n s'. n \<le> length vpcs
    \<and> cleanup_loop cancelled (cleaner region) force vpcs (0, 0) s = (Inr (length vpcs - n, n), s')
    \<and> cleanup_run getenv flag force cancelled cleaner vpcs s =
        (if n = 0 then Inr () else Inl (''cleanup completed with errors: '' @ decimal (length vpcs - n) @ '' succeeded, ''
           @ decimal n @ '' failed''), s')"
proof -
  obtain n s' where "n \<le> length vpcs"
    "cleanup_loop cancelled (cleaner region) force vpcs (0, 0) s = (Inr (length vpcs - n, n), s')"
    using cleanup_loop_counts [OF assms(3), of vpcs "cleaner region" force 0 0 s] by auto
  then show ?thesis
    using assms(1,2) by (intro exI [of _ n] exI [of _ s']) (simp add: cleanup_run_def io_defs)
qed

theorem cleanup_run_outcome_witness:
  "\<exists>n s'. n \<le> 2 \<and> cleanup_run (\<lambda>_. '''') ''us-west-2'' False (\<lambda>_. None) (\<lambda>_ _. sample_cleaner) [''vpc-1'', ''vpc-2''] two_vpcs
     = (if n = 0 then Inr () else Inl (''cleanup completed with errors: '' @ decimal (2 - n) @ '' succeeded, ''
           @ decimal n @ '' failed''), s')"
  using cleanup_run_outcome [of "[''vpc-1'', ''vpc-2'']" "\<lambda>_. ''''" "''us-west-2''" "''us-west-2''" "\<lambda>_. None"
      "\<lambda>_ _. sample_cleaner" False two_vpcs]
  by (auto simp: cleanup_region_def)

text \<open>
  an interrupt before the first VPC makes the command end without an error although it has
  cleaned up nothing.
\<close>

theorem interrupted_cleanup_succeeds:
  assumes "vpcs \<noteq> []" and "cleanup_region getenv flag = Inr region" and "cancelled s \<noteq> None"
  shows "cleanup_run getenv flag force cancelled cleaner vpcs s = (Inr (), s)"
  using assms by (cases vpcs) (simp_all add: cleanup_run_def io_defs)

theorem interrupted_cleanup_succeeds_witness:
  "cleanup_run (\<lambda>_. '''') ''us-west-2'' False (\<lambda>_. Some ''context canceled'') (\<lambda>_ _. sample_cleaner) [''vpc-1''] two_vpcs
     = (Inr (), two_vpcs)"
  by (rule interrupted_cleanup_succeeds) (simp_all add: cleanup_region_def)

end
