(* ===== verification/Template_Checks.thy ===== *)
theory Template_Checks
  imports Api_Validation Net_IP
begin

text \<open>
  \<open>pkg/provisioner/templates/validate.go\<close> and \<open>pkg/provisioner/dryrun.go\<close>: the checks of the
  fields that are put into shell scripts, and the dry run of the provisioning.

  A Go regular expression without flags is matched against the whole text here because each of
  them is anchored at both ends. The code collects several fields in a map and ranges over it;
  the model takes the fields in the order of the source, which only matters for which of several
  errors is reported.
\<close>

section \<open>Texts\<close>

text \<open>The verb \<open>%q\<close> of \<open>fmt\<close> on bytes; non-ASCII text, which it keeps when printable, is kept.\<close>

definition hex_char :: "nat \<Rightarrow> char" where
  "hex_char n = (if n < 10 then char_of (48 + n) else char_of (87 + n))"

definition quote_char :: "char \<Rightarrow> string" where
  "quote_char c = (let n = of_char c :: nat in
     if n = 34 then [CHR 0x5C, c] else if n = 92 then [c, c]
     else if n = 7 then [CHR 0x5C, CHR ''a''] else if n = 8 then [CHR 0x5C, CHR ''b'']
     else if n = 12 then [CHR 0x5C, CHR ''f''] else if n = 10 then [CHR 0x5C, CHR ''n'']
     else if n = 13 then [CHR 0x5C, CHR ''r''] else if n = 9 then [CHR 0x5C, CHR ''t'']
     else if n = 11 then [CHR 0x5C, CHR ''v'']
     else if n < 32 \<or> n = 127 then [CHR 0x5C, CHR ''x'', hex_char (n div 16), hex_char (n mod 16)]
     else [c])"

definition quoted :: "string \<Rightarrow> string" where
  "quoted s = ''\"'' @ concat (map quote_char s) @ ''\"''"

section \<open>Patterns\<close>

definition alpha :: "char \<Rightarrow> bool" where
  "alpha c \<longleftrightarrow> c \<in> set ''abcdefghijklmnopqrstuvwxyzABCDEFGHIJKLMNOPQRSTUVWXYZ''"

text \<open>An alphanumeric character followed by such characters and those of \<open>extra\<close>.\<close>

definition starts_alnum :: "string \<Rightarrow> string \<Rightarrow> bool" where
  "starts_alnum extra s = (case s of [] \<Rightarrow> False
     | c # t \<Rightarrow> alnum c \<and> list_all (\<lambda>d. alnum d \<or> d \<in> set extra) t)"

definition versionPattern :: "string \<Rightarrow> bool" where
  "versionPattern = starts_alnum ''.-+~''"

definition gitRefPattern :: "string \<Rightarrow> bool" where
  "gitRefPattern = starts_alnum ''.-+~/''"

definition hostnamePattern :: "string \<Rightarrow> bool" where
  "hostnamePattern = starts_alnum ''.-:''"

definition gitURLPattern :: "string \<Rightarrow> bool" where
  "gitURLPattern s \<longleftrightarrow>
     (prefix ''http://'' s \<and> starts_alnum ''.-/:@'' (drop 7 s))
   \<or> (prefix ''https://'' s \<and> starts_alnum ''.-/:@'' (drop 8 s))"

definition filePathPattern :: "string \<Rightarrow> bool" where
  "filePathPattern s \<longleftrightarrow> s \<noteq> [] \<and> list_all (\<lambda>c. alnum c \<or> c \<in> set ''/._-~'') s"

definition featureGatePattern :: "string \<Rightarrow> bool" where
  "featureGatePattern s = (case split_on (CHR ''='') s of
       [name, v] \<Rightarrow> (case name of [] \<Rightarrow> False | c # t \<Rightarrow> alpha c \<and> list_all alnum t) \<and> v \<in> {''true'', ''false''}
     | _ \<Rightarrow> False)"

definition checksumPattern :: "string \<Rightarrow> bool" where
  "checksumPattern s \<longleftrightarrow> prefix ''sha256:'' s \<and> length s = 71
     \<and> list_all (\<lambda>c. c \<in> set ''abcdefABCDEF0123456789'') (drop 7 s)"

definition envVarKeyPattern :: "string \<Rightarrow> bool" where
  "envVarKeyPattern s = (case s of [] \<Rightarrow> False
     | c # t \<Rightarrow> (alpha c \<or> c = CHR ''_'') \<and> list_all (\<lambda>d. alnum d \<or> d = CHR ''_'') t)"

section \<open>Custom templates\<close>

definition validPhases :: "string list" where
  "validPhases = [TemplatePhasePreInstall, TemplatePhasePostRuntime, TemplatePhasePostToolkit,
     TemplatePhasePostKubernetes, TemplatePhasePostInstall, '''']"

definition sourceCount :: "CustomTemplate \<Rightarrow> nat" where
  "sourceCount ct = (if cu_Inline ct \<noteq> '''' then 1 else 0) + (if cu_File ct \<noteq> '''' then 1 else 0)
     + (if cu_URL ct \<noteq> '''' then 1 else 0)"

text \<open>The checks of one template; \<open>i\<close> is its index and \<open>names\<close> the names seen before it.\<close>

definition validate_custom :: "nat \<Rightarrow> string list \<Rightarrow> CustomTemplate \<Rightarrow> error option" where
  "validate_custom i names ct = (let this = ''custom template '' @ quoted (cu_Name ct) @ '': '' in first_error
     [if cu_Name ct = '''' then Some (''custom template '' @ decimal i @ '': name is required'') else None,
      if cu_Name ct \<in> set names then Some (this @ ''duplicate name'') else None,
      if cu_Phase ct \<notin> set validPhases then Some (this @ ''invalid phase '' @ quoted (cu_Phase ct)) else None,
      if sourceCount ct \<noteq> 1
        then Some (this @ ''exactly one source (inline, file, or url) must be specified'') else None,
      if cu_URL ct \<noteq> '''' \<and> \<not> prefix ''https://'' (cu_URL ct)
        then Some (this @ ''url must use https:// scheme'') else None,
      if cu_URL ct \<noteq> '''' \<and> \<not> gitURLPattern (cu_URL ct)
        then Some (this @ ''url '' @ quoted (cu_URL ct) @ '' contains disallowed characters'') else None,
      if cu_File ct \<noteq> '''' \<and> \<not> filePathPattern (cu_File ct)
        then Some (this @ ''file path '' @ quoted (cu_File ct) @ '' contains disallowed characters'') else None,
      if cu_File ct \<noteq> '''' \<and> ''..'' \<in> set (split_on (CHR ''/'') (cu_File ct))
        then Some (this @ ''file path '' @ quoted (cu_File ct) @ '' contains path traversal'') else None,
      if cu_Checksum ct \<noteq> '''' \<and> \<not> checksumPattern (cu_Checksum ct)
        then Some (this @ ''checksum must be in format sha256:<64 hex chars>'') else None,
      (case filter (\<lambda>(k, _). \<not> envVarKeyPattern k) (cu_Env ct) of [] \<Rightarrow> None
       | (k, _) # _ \<Rightarrow> Some (this @ ''invalid env var name '' @ quoted k @ '' (must match [a-zA-Z_][a-zA-Z0-9_]*)''))])"

fun validate_customs :: "nat \<Rightarrow> string list \<Rightarrow> CustomTemplate list \<Rightarrow> error option" where
  "validate_customs i names [] = None"
| "validate_customs i names (ct # cts) = (case validate_custom i names ct of
      Some e \<Rightarrow> Some e | None \<Rightarrow> validate_customs (i + 1) (cu_Name ct # names) cts)"

definition validateCustomTemplates :: "CustomTemplate list \<Rightarrow> error option" where
  "validateCustomTemplates cts = validate_customs 0 [] cts"

section \<open>All inputs\<close>

text \<open>A named value that must match a pattern if there is one.\<close>

definition disallowed :: "(string \<Rightarrow> bool) \<Rightarrow> string \<times> string \<Rightarrow> error option" where
  "disallowed pattern nv = (if snd nv \<noteq> '''' \<and> \<not> pattern (snd nv)
     then Some (''invalid '' @ fst nv @ '': '' @ quoted (snd nv) @ '' contains disallowed characters'') else None)"

definition opt_field :: "('a \<Rightarrow> 'b list) \<Rightarrow> 'a option \<Rightarrow> 'b list" where
  "opt_field f x = (case x of None \<Rightarrow> [] | Some a \<Rightarrow> f a)"

definition version_inputs :: "EnvironmentSpec \<Rightarrow> (string \<times> string) list" where
  "version_inputs s = (let k = sp_Kubernetes s in
     [(''nvidia driver version'', nd_Version (sp_NVIDIADriver s)),
      (''nvidia driver branch'', nd_Branch (sp_NVIDIADriver s)),
      (''container runtime version'', cr_Version (sp_ContainerRuntime s)),
      (''nvidia container toolkit version'', ct_Version (sp_NVIDIAContainerToolkit s)),
      (''kubernetes version'', k_KubernetesVersion k), (''calico version'', k_CalicoVersion k),
      (''cni plugins version'', k_CniPluginsVersion k), (''crictl version'', k_CrictlVersion k),
      (''kubelet release version'', k_KubeletReleaseVersion k),
      (''kernel version'', kn_Version (sp_Kernel s))]
     @ opt_field (\<lambda>r. [(''kubernetes release version'', kr_Version r)]) (k_Release k)
     @ opt_field (\<lambda>p. [(''nvidia container toolkit package version'', tp_Version p)])
         (ct_Package (sp_NVIDIAContainerToolkit s)))"

definition url_inputs :: "EnvironmentSpec \<Rightarrow> (string \<times> string) list" where
  "url_inputs s = (let k = sp_Kubernetes s; c = sp_NVIDIAContainerToolkit s in
     opt_field (\<lambda>g. [(''kubernetes git repo'', kg_Repo g)]) (k_Git k)
     @ opt_field (\<lambda>l. [(''kubernetes latest repo'', kl_Repo l)]) (k_Latest k)
     @ opt_field (\<lambda>g. [(''nvidia container toolkit git repo'', tg_Repo g)]) (ct_Git c)
     @ opt_field (\<lambda>l. [(''nvidia container toolkit latest repo'', tl_Repo l)]) (ct_Latest c))"

definition ref_inputs :: "EnvironmentSpec \<Rightarrow> (string \<times> string) list" where
  "ref_inputs s = (let k = sp_Kubernetes s; c = sp_NVIDIAContainerToolkit s in
     opt_field (\<lambda>g. [(''kubernetes git ref'', kg_Ref g)]) (k_Git k)
     @ opt_field (\<lambda>g. [(''nvidia container toolkit git ref'', tg_Ref g)]) (ct_Git c)
     @ opt_field (\<lambda>l. [(''kubernetes latest track branch'', kl_Track l)]) (k_Latest k)
     @ opt_field (\<lambda>l. [(''nvidia container toolkit latest track branch'', tl_Track l)]) (ct_Latest c))"

definition path_inputs :: "EnvironmentSpec \<Rightarrow> (string \<times> string) list" where
  "path_inputs s = (let k = sp_Kubernetes s in
     [(''private key path'', au_PrivateKey (sp_Auth s)), (''public key path'', au_PublicKey (sp_Auth s)),
      (''kubeconfig path'', k_KubeConfig k), (''kind config path'', k_KindConfig k),
      (''kubeadm config'', k_KubeAdmConfig k)])"

definition ValidateTemplateInputs :: "Environment \<Rightarrow> error option" where
  "ValidateTemplateInputs env = (let s = env_Spec env in first_error
     (map (disallowed versionPattern) (version_inputs s)
      @ map (disallowed gitURLPattern) (url_inputs s)
      @ map (disallowed gitRefPattern) (ref_inputs s)
      @ map (\<lambda>gate. if featureGatePattern gate then None
             else Some (''invalid kubernetes feature gate: '' @ quoted gate @ '' must match FeatureName=true|false''))
          (k_K8sFeatureGates (sp_Kubernetes s))
      @ [disallowed hostnamePattern (''kubernetes endpoint host'', k_K8sEndpointHost (sp_Kubernetes s))]
      @ map (disallowed filePathPattern) (path_inputs s)
      @ [validateCustomTemplates (sp_CustomTemplates s)]))"

section \<open>The dry run\<close>

definition validateCTKConfig :: "NVIDIAContainerToolkit \<Rightarrow> error option" where
  "validateCTKConfig nct = (let source = (if ct_Source nct = '''' then CTKSourcePackage else ct_Source nct) in
     if source = CTKSourcePackage then None
     else if source = CTKSourceGit then (case ct_Git nct of
         None \<Rightarrow> Some ''CTK git source requires 'git' configuration''
       | Some g \<Rightarrow> if tg_Ref g = '''' then Some ''CTK git source requires 'ref' to be specified'' else None)
     else if source = CTKSourceLatest then None
     else Some (''unknown CTK source: '' @ source))"

definition Provisioner_Dryrun :: "Environment \<Rightarrow> error option" where
  "Provisioner_Dryrun env = (let s = env_Spec env; k = sp_Kubernetes s; r = sp_ContainerRuntime s in first_error
     [if k_Install k \<and> k_KubernetesInstaller k = ''kubeadm'' \<and> k_KubernetesVersion k \<noteq> ''''
         \<and> \<not> prefix ''v'' (k_KubernetesVersion k)
        then Some (''kubernetes version '' @ k_KubernetesVersion k @ '' is not in the format of vX.Y.Z'') else None,
      if cr_Install r \<and> cr_Name r \<noteq> '''' \<and> cr_Name r \<notin> {ContainerRuntimeContainerd, ContainerRuntimeCrio, ContainerRuntimeDocker}
        then Some (''container runtime '' @ cr_Name r @ '' not supported'') else None,
      if ct_Install (sp_NVIDIAContainerToolkit s) then validateCTKConfig (sp_NVIDIAContainerToolkit s) else None,
      if sp_CustomTemplates s \<noteq> [] then ValidateTemplateInputs env else None])"

section \<open>What the checks exclude\<close>

text \<open>The characters by which a text could end a quoted word of a shell script or start a command,
  a substitution or a redirection.\<close>

definition shell_meta :: string where
  "shell_meta = ''$`;&|<>()*?!#{}[]^=, '' @ [CHR 0x22, CHR 0x27, CHR 0x5C, CHR 0x09, CHR 0x0A, CHR 0x0D]"

text \<open>The characters that the checks let through.\<close>

definition plain :: "char \<Rightarrow> bool" where
  "plain c \<longleftrightarrow> alnum c \<or> c \<in> set ''.-+~/:@_''"

lemma plain_not_meta: "plain c \<Longrightarrow> c \<notin> set shell_meta"
proof -
  have "list_all (\<lambda>c. c \<notin> set shell_meta)
      (''abcdefghijklmnopqrstuvwxyzABCDEFGHIJKLMNOPQRSTUVWXYZ0123456789'' @ ''.-+~/:@_'')"
    by code_simp
  then show "plain c \<Longrightarrow> c \<notin> set shell_meta"
    unfolding plain_def alnum_def list_all_iff set_append by blast
qed

lemma starts_alnum_chars: "starts_alnum extra s \<Longrightarrow> c \<in> set s \<Longrightarrow> alnum c \<or> c \<in> set extra"
  by (auto simp: starts_alnum_def list_all_iff split: list.splits)

definition clean :: "string \<Rightarrow> bool" where
  "clean s \<longleftrightarrow> set s \<inter> set shell_meta = {}"

lemma cleanI: "(\<And>c. c \<in> set s \<Longrightarrow> plain c) \<Longrightarrow> clean s"
  unfolding clean_def using plain_not_meta by blast

lemma plain_alnum: "alnum c \<Longrightarrow> plain c"
  by (simp only: plain_def simp_thms)

lemma plain_texts:
  "list_all plain ''.-+~''" "list_all plain ''.-+~/''" "list_all plain ''.-:''" "list_all plain ''.-/:@''"
  "list_all plain ''/._-~''" "list_all plain ''http://''" "list_all plain ''https://''"
  by code_simp+

lemma starts_alnum_plain: "starts_alnum extra s \<Longrightarrow> list_all plain extra \<Longrightarrow> c \<in> set s \<Longrightarrow> plain c"
  using starts_alnum_chars [of extra s c] plain_alnum [of c] unfolding list_all_iff by blast

lemma patterns_clean:
  "versionPattern s \<Longrightarrow> clean s" "gitRefPattern s \<Longrightarrow> clean s" "hostnamePattern s \<Longrightarrow> clean s"
  "filePathPattern s \<Longrightarrow> clean s"
  unfolding versionPattern_def gitRefPattern_def hostnamePattern_def filePathPattern_def
  using plain_texts(5) plain_alnum unfolding list_all_iff
  by (auto intro!: cleanI intro: starts_alnum_plain plain_texts simp del: list.set)

lemma url_clean:
  assumes "gitURLPattern s"
  shows "clean s"
proof -
  have part: "clean (t @ u)" if "list_all plain t" "starts_alnum ''.-/:@'' u" for t u
    using that starts_alnum_plain [OF that(2) plain_texts(4)]
    by (intro cleanI) (auto simp only: set_append list_all_iff Un_iff)
  from assms show ?thesis
    unfolding gitURLPattern_def
  proof (elim disjE conjE prefixE)
    fix u assume "s = ''http://'' @ u" "starts_alnum ''.-/:@'' (drop 7 s)"
    then show ?thesis using part [OF plain_texts(6), of u] by simp
  next
    fix u assume "s = ''https://'' @ u" "starts_alnum ''.-/:@'' (drop 8 s)"
    then show ?thesis using part [OF plain_texts(7), of u] by simp
  qed
qed

lemma disallowed_None: "disallowed p nv = None \<longleftrightarrow> snd nv = '''' \<or> p (snd nv)"
  by (simp add: disallowed_def)

definition checked_inputs :: "EnvironmentSpec \<Rightarrow> string list" where
  "checked_inputs s = map snd (version_inputs s @ url_inputs s @ ref_inputs s @ path_inputs s)
     @ [k_K8sEndpointHost (sp_Kubernetes s)]"

lemma clean_empty [simp]: "clean ''''"
  by (simp add: clean_def)



end
