(* ===== verification/Custom_Templates.thy ===== *)
theory Custom_Templates
  imports Template_Checks Go_Path Dependency
begin

text \<open>
  \<open>pkg/provisioner/templates/custom.go\<close> and \<open>executeCustomTemplate\<close> of \<open>dependency.go\<close>: loading the
  script of a user's template, checking its digest, and wrapping it for the provisioning script.

  The file system, HTTP and SHA-256 are parameters. A byte is a character, so \<open>sanitizeName\<close> replaces
  a non-ASCII letter by one underscore per byte.
\<close>

section \<open>Names and values in scripts\<close>

abbreviation nl :: string where
  "nl \<equiv> [CHR 0x0A]"

abbreviation quote :: char where
  "quote \<equiv> CHR 0x27"

abbreviation backslash :: char where
  "backslash \<equiv> CHR 0x5C"

definition shellQuote :: "string \<Rightarrow> string" where
  "shellQuote s = quote # concat (map (\<lambda>c. if c = quote then [quote, backslash, quote, quote] else [c]) s) @ [quote]"

definition safe_name_char :: "char \<Rightarrow> bool" where
  "safe_name_char c \<longleftrightarrow> alnum c \<or> c \<in> set ''._-''"

definition sanitizeName :: "string \<Rightarrow> string" where
  "sanitizeName s = map (\<lambda>c. if safe_name_char c then c else CHR ''_'') s"

section \<open>Loading\<close>

record 's fetcher =
  ft_ReadFile :: "string \<Rightarrow> ('s, string) io"
  ft_Get :: "string \<Rightarrow> nat \<Rightarrow> ('s, nat \<times> (error + string)) io"
  ft_sha256Hex :: "string \<Rightarrow> string"

definition maxURLResponseBytes :: nat where
  "maxURLResponseBytes = 10 * 1024 * 1024"

definition custom_error :: "string \<Rightarrow> string \<Rightarrow> string" where
  "custom_error name text = ''custom template '' @ quoted name @ '': '' @ text"

text \<open>The reader stops one byte after the limit.\<close>

definition fetchURL :: "'s fetcher \<Rightarrow> string \<Rightarrow> string \<Rightarrow> ('s, string) io" where
  "fetchURL ft url name =
     andthen (wrap (custom_error name (''failed to fetch '' @ quoted url)) (ft_Get ft url 60)) (\<lambda>(status, body).
     if status \<noteq> 200
     then fail (custom_error name (''URL '' @ quoted url @ '' returned status '' @ decimal status))
     else case map_sum id (take (maxURLResponseBytes + 1)) body of
       Inl e \<Rightarrow> fail (custom_error name (''failed to read response: '' @ e))
     | Inr content \<Rightarrow>
         if length content > maxURLResponseBytes
         then fail (custom_error name ''URL response exceeds 10MB limit'')
         else ret content)"

definition template_path :: "CustomTemplate \<Rightarrow> string \<Rightarrow> string" where
  "template_path tpl baseDir = (if \<not> IsAbs (cu_File tpl) then Join baseDir (cu_File tpl) else cu_File tpl)"

definition load_content :: "'s fetcher \<Rightarrow> CustomTemplate \<Rightarrow> string \<Rightarrow> ('s, string) io" where
  "load_content ft tpl baseDir =
     (if cu_Inline tpl \<noteq> '''' then ret (cu_Inline tpl)
      else if cu_File tpl \<noteq> ''''
      then wrap (custom_error (cu_Name tpl) (''failed to read file '' @ quoted (template_path tpl baseDir)))
        (ft_ReadFile ft (Clean (template_path tpl baseDir)))
      else if cu_URL tpl \<noteq> '''' then fetchURL ft (cu_URL tpl) (cu_Name tpl)
      else fail (custom_error (cu_Name tpl) ''no source specified''))"

text \<open>\<open>strings.TrimPrefix\<close>.\<close>

definition TrimPrefix :: "string \<Rightarrow> string \<Rightarrow> string" where
  "TrimPrefix s p = (if prefix p s then drop (length p) s else s)"

definition LoadCustomTemplate :: "'s fetcher \<Rightarrow> CustomTemplate \<Rightarrow> string \<Rightarrow> ('s, string) io" where
  "LoadCustomTemplate ft tpl baseDir = andthen (load_content ft tpl baseDir) (\<lambda>content.
     if cu_Checksum tpl \<noteq> '''' then
       (let expected = TrimPrefix (cu_Checksum tpl) ''sha256:''; actual = ft_sha256Hex ft content in
        if actual \<noteq> expected
        then fail (custom_error (cu_Name tpl) (''checksum mismatch: expected '' @ expected @ '', got '' @ actual))
        else ret content)
     else ret content)"

section \<open>The executor\<close>

record CustomTemplateExecutor =
  ce_Name :: string
  ce_Phase :: string
  ce_Content :: string
  ce_Env :: "string gomap"
  ce_ContinueOnError :: bool
  ce_Timeout :: int

definition NewCustomTemplateExecutor :: "CustomTemplate \<Rightarrow> string \<Rightarrow> CustomTemplateExecutor" where
  "NewCustomTemplateExecutor tpl content =
     \<lparr>ce_Name = cu_Name tpl, ce_Phase = cu_Phase tpl, ce_Content = content, ce_Env = cu_Env tpl,
      ce_ContinueOnError = cu_ContinueOnError tpl,
      ce_Timeout = (if sint (cu_Timeout tpl) \<le> 0 then 600 else sint (cu_Timeout tpl))\<rparr>"

definition export_line :: "string \<times> string \<Rightarrow> string" where
  "export_line kv = ''export '' @ fst kv @ ''='' @ shellQuote (snd kv) @ nl"

definition custom_header :: "CustomTemplateExecutor \<Rightarrow> string" where
  "custom_header ct = (let name = sanitizeName (ce_Name ct); phase = sanitizeName (ce_Phase ct) in
     nl @ ''# === [CUSTOM] Template: '' @ name @ '' (phase: '' @ phase @ '') ==='' @ nl
     @ ''holodeck_log \"INFO\" \"custom\" \"[CUSTOM] Running template '' @ [quote] @ name @ [quote]
     @ '' (phase: '' @ phase @ '')\"'' @ nl)"

definition custom_body :: "CustomTemplateExecutor \<Rightarrow> string" where
  "custom_body ct =
     (if ce_ContinueOnError ct
      then ''# continueOnError=true: failures will be logged but not halt provisioning'' @ nl
        @ ''set +e'' @ nl @ ce_Content ct @ nl @ ''_custom_rc=$?'' @ nl @ ''set -e'' @ nl
        @ ''if [ $_custom_rc -ne 0 ]; then'' @ nl
        @ ''  holodeck_log \"WARN\" \"custom\" \"[CUSTOM] Template '' @ [quote] @ sanitizeName (ce_Name ct) @ [quote]
        @ '' failed (exit code: $_custom_rc)\" || true'' @ nl @ ''fi'' @ nl
      else ce_Content ct @ nl)"

definition Custom_Execute :: "CustomTemplateExecutor \<Rightarrow> error + string" where
  "Custom_Execute ct = (case filter (\<lambda>(k, _). \<not> envVarKeyPattern k) (ce_Env ct) of
       (k, _) # _ \<Rightarrow> Inl (custom_error (ce_Name ct) (''invalid environment variable name '' @ quoted k))
     | [] \<Rightarrow> Inr (custom_header ct @ concat (map export_line (ce_Env ct)) @ custom_body ct
         @ ''holodeck_log \"INFO\" \"custom\" \"[CUSTOM] Template '' @ [quote] @ sanitizeName (ce_Name ct) @ [quote]
         @ '' completed\"'' @ nl))"

definition lift_script :: "error + 'a \<Rightarrow> ('s, 'a) io" where
  "lift_script r = (case r of Inl e \<Rightarrow> fail e | Inr v \<Rightarrow> ret v)"

definition executeCustomTemplate :: "'s fetcher \<Rightarrow> DependencyResolver \<Rightarrow> CustomTemplate \<Rightarrow> ('s, string) io" where
  "executeCustomTemplate ft d tpl =
     andthen (LoadCustomTemplate ft tpl (dr_baseDir d)) (\<lambda>content.
     lift_script (Custom_Execute (NewCustomTemplateExecutor tpl content)))"

section \<open>Quoting\<close>

text \<open>How a POSIX shell reads a word: outside of quotes a backslash quotes the next character and a
  special character ends the word; between single quotes every character stands for itself.\<close>

fun sh_word :: "bool \<Rightarrow> string \<Rightarrow> string option" where
  "sh_word False [] = Some []"
| "sh_word True [] = None"
| "sh_word True (c # s) = (if c = quote then sh_word False s else map_option (Cons c) (sh_word True s))"
| "sh_word False (c # s) =
     (if c = quote then sh_word True s
      else if c = backslash then (case s of [] \<Rightarrow> None | d # t \<Rightarrow> map_option (Cons d) (sh_word False t))
      else if c \<in> set shell_meta then None
      else map_option (Cons c) (sh_word False s))"

lemma sh_word_quoted:
  "sh_word True (concat (map (\<lambda>c. if c = quote then [quote, backslash, quote, quote] else [c]) s) @ [quote]) = Some s"
  by (induction s) simp_all

text \<open>
  C24: a shell reads the quoted text as one word, which is the text itself, whatever characters it
  has: the values of a template's environment variables arrive unchanged and start nothing.
\<close>

theorem shellQuote_roundtrip: "sh_word False (shellQuote v) = Some v"
  by (simp add: shellQuote_def sh_word_quoted)

section \<open>Loading is guarded\<close>

text \<open>
  C25: a template that is loaded has the digest that its checksum names, if it names one, and comes
  from its one source; the answer of a web server is at most 10 MB and has the status 200.
\<close>

theorem loaded_template_is_checked:
  assumes "LoadCustomTemplate ft tpl baseDir s = (Inr content, s')"
  shows "(cu_Checksum tpl \<noteq> '''' \<longrightarrow> ft_sha256Hex ft content = TrimPrefix (cu_Checksum tpl) ''sha256:'')
    \<and> load_content ft tpl baseDir s = (Inr content, s')
    \<and> (cu_Inline tpl = '''' \<and> cu_File tpl = '''' \<longrightarrow> length content \<le> maxURLResponseBytes
        \<and> (\<exists>body. ft_Get ft (cu_URL tpl) 60 s = (Inr (200, Inr body), s') \<and> content = body))"
proof -
  from assms obtain s1 where l: "load_content ft tpl baseDir s = (Inr content, s1)" and "s1 = s'"
    and "cu_Checksum tpl \<noteq> '''' \<longrightarrow> ft_sha256Hex ft content = TrimPrefix (cu_Checksum tpl) ''sha256:''"
    by (auto simp: LoadCustomTemplate_def andthen_Inr Let_def split: if_splits)
  moreover have "length content \<le> maxURLResponseBytes
      \<and> (\<exists>body. ft_Get ft (cu_URL tpl) 60 s = (Inr (200, Inr body), s1) \<and> content = body)"
    if "cu_Inline tpl = ''''" "cu_File tpl = ''''"
    using l that
    by (auto simp: load_content_def fetchURL_def andthen_Inr split: if_splits sum.splits)
      (auto simp: map_sum_def split: sum.splits)
  ultimately show ?thesis by blast
qed

theorem loaded_template_is_checked_witness:
  "length ''exit 0'' \<le> maxURLResponseBytes"
proof -
  let ?ft = "\<lparr>ft_ReadFile = (\<lambda>_. fail ''no file''), ft_Get = (\<lambda>_ _. ret (200, Inr ''exit 0'')),
     ft_sha256Hex = (\<lambda>_. '''')\<rparr> :: unit fetcher"
  let ?tpl = "zero_CustomTemplate\<lparr>cu_Name := ''t'', cu_URL := ''https://example.com/t.sh''\<rparr>"
  have "LoadCustomTemplate ?ft ?tpl '''' () = (Inr ''exit 0'', ())"
    by (simp add: LoadCustomTemplate_def load_content_def fetchURL_def zero_CustomTemplate_def io_defs maxURLResponseBytes_def)
  from loaded_template_is_checked [OF this] show ?thesis
    by (simp add: zero_CustomTemplate_def)
qed

section \<open>Paths\<close>

lemma validate_customs_None: "validate_customs i names cts = None \<Longrightarrow> tpl \<in> set cts \<Longrightarrow>
    \<exists>j ns. validate_custom j ns tpl = None"
  by (induction i names cts rule: validate_customs.induct) (auto split: option.splits)

text \<open>
  C26: the file of an accepted template with a relative path lies below the base directory: the path
  has no \<open>..\<close>, so the cleaned path starts with all components of the directory.
\<close>

theorem custom_file_stays_below_base:
  assumes "validateCustomTemplates cts = None" and "tpl \<in> set cts" and "cu_File tpl \<noteq> ''''"
    and "\<not> IsAbs (cu_File tpl)" and "base \<noteq> ''''"
  shows "template_path tpl base = Clean (base @ ''/'' @ cu_File tpl)
    \<and> (\<exists>below. components (base @ ''/'' @ cu_File tpl) = components base @ below)"
proof -
  obtain j ns where "validate_custom j ns tpl = None"
    using validate_customs_None assms(1,2) unfolding validateCustomTemplates_def by blast
  then have "''..'' \<notin> set (split_on (CHR ''/'') (cu_File tpl))"
    using assms(3) unfolding validate_custom_def Let_def first_error_None by (simp split: if_splits)
  then show ?thesis
    using components_join assms(4,5) by (simp add: template_path_def Join_def)
qed

theorem custom_file_stays_below_base_witness:
  "\<exists>below. components (''/etc/holodeck'' @ ''/'' @ ''scripts/./a.sh'') = components ''/etc/holodeck'' @ below"
proof -
  let ?tpl = "zero_CustomTemplate\<lparr>cu_Name := ''t'', cu_File := ''scripts/./a.sh''\<rparr>"
  have "validateCustomTemplates [?tpl] = None" by code_simp
  from custom_file_stays_below_base [OF this, of ?tpl "''/etc/holodeck''"] show ?thesis
    by (simp add: zero_CustomTemplate_def IsAbs_def)
qed

end
