(* ===== verification/Templates.thy ===== *)
theory Templates
  imports Custom_Templates
begin

text \<open>
  \<open>pkg/provisioner/templates\<close>: what the constructors take from an environment, with their defaults,
  and which shell template each \<open>Execute\<close> picks.

  A script is a list of pieces: a template constant of the source (by the name of the constant)
  together with the data it is executed with, or literal text. What the shell text of the constants
  does on a node is modelled in \<open>Node_Library\<close> and the theories after it; text/template itself cannot
  fail on them, because they are parsed at start-up and only use fields that exist.
\<close>

section \<open>Drivers and runtimes\<close>

record NvDriver =
  nv_Source :: string
  nv_Branch :: string
  nv_Version :: string
  nv_RunfileURL :: string
  nv_RunfileChecksum :: string
  nv_GitRepo :: string
  nv_GitRef :: string
  nv_GitCommit :: string

record Docker =
  do_Source :: string
  do_Version :: string
  do_GitRepo :: string
  do_GitRef :: string
  do_GitCommit :: string

record Containerd =
  cd_Source :: string
  cd_Version :: string
  cd_GitRepo :: string
  cd_GitRef :: string
  cd_GitCommit :: string
  cd_TrackBranch :: string

record CriO =
  co_Source :: string
  co_Version :: string
  co_GitRepo :: string
  co_GitRef :: string
  co_GitCommit :: string

record ContainerToolkit =
  tk_ContainerRuntime :: string
  tk_EnableCDI :: bool
  tk_Source :: string
  tk_Version :: string
  tk_Channel :: string
  tk_GitRepo :: string
  tk_GitRef :: string
  tk_GitCommit :: string
  tk_TrackBranch :: string

record KubernetesTemplate =
  kt_Version :: string
  kt_Installer :: string
  kt_KubeletReleaseVersion :: string
  kt_Arch :: string
  kt_CniPluginsVersion :: string
  kt_CalicoVersion :: string
  kt_CrictlVersion :: string
  kt_K8sEndpointHost :: string
  kt_K8sFeatureGates :: string
  kt_UseLegacyInit :: bool
  kt_CriSocket :: string
  kt_Source :: string
  kt_GitRepo :: string
  kt_GitRef :: string
  kt_GitCommit :: string
  kt_TrackBranch :: string
  kt_KindConfig :: string

text \<open>The data of the two cluster templates that need more than the Kubernetes configuration.\<close>

record KubeadmInitData =
  ki_Kubernetes :: KubernetesTemplate
  ki_ControlPlaneEndpoint :: string
  ki_IsHA :: bool

record KubeadmJoinConfig =
  kj_ControlPlaneEndpoint :: string
  kj_Token :: string
  kj_CACertHash :: string
  kj_CertificateKey :: string
  kj_IsControlPlane :: bool

datatype piece =
    Shebang | CommonFunctions
  | T_nvdriver string NvDriver | T_docker string Docker | T_containerd string Containerd
  | T_crio string CriO | T_toolkit string ContainerToolkit | T_kubernetes string KubernetesTemplate
  | T_kernel EnvironmentSpec
  | T_kubeadmInit KubeadmInitData | T_kubeadmJoin KubeadmJoinConfig | T_kubeadmPrereq KubernetesTemplate
  | Text string

type_synonym script = "piece list"

definition or_default :: "string \<Rightarrow> string \<Rightarrow> string" where
  "or_default s d = (if s = '''' then d else s)"

definition defaultNVBranch :: string where
  "defaultNVBranch = ''580''"

definition NewNvDriver :: "Environment \<Rightarrow> error + NvDriver" where
  "NewNvDriver env = (let d = sp_NVIDIADriver (env_Spec env);
       nvd = \<lparr>nv_Source = or_default (nd_Source d) ''package'', nv_Branch = '''', nv_Version = '''',
              nv_RunfileURL = '''', nv_RunfileChecksum = '''', nv_GitRepo = '''', nv_GitRef = '''',
              nv_GitCommit = ''''\<rparr> in
     if nv_Source nvd = ''package'' then
       (let nvd = (case nd_Package d of
              Some p \<Rightarrow> nvd\<lparr>nv_Branch := dp_Branch p, nv_Version := dp_Version p\<rparr>
            | None \<Rightarrow> nvd\<lparr>nv_Branch := nd_Branch d, nv_Version := nd_Version d\<rparr>)
        in Inr (if nv_Version nvd = '''' \<and> nv_Branch nvd = '''' then nvd\<lparr>nv_Branch := defaultNVBranch\<rparr> else nvd))
     else if nv_Source nvd = ''runfile'' then (case nd_Runfile d of
         None \<Rightarrow> Inl ''runfile source requires 'runfile' configuration''
       | Some r \<Rightarrow> Inr (nvd\<lparr>nv_RunfileURL := dr_URL r, nv_RunfileChecksum := dr_Checksum r\<rparr>))
     else if nv_Source nvd = ''git'' then (case nd_Git d of
         None \<Rightarrow> Inl ''git source requires 'git' configuration''
       | Some g \<Rightarrow> Inr (nvd\<lparr>nv_GitRepo := or_default (dg_Repo g) ''https://github.com/NVIDIA/open-gpu-kernel-modules.git'',
           nv_GitRef := dg_Ref g\<rparr>))
     else Inr nvd)"

definition NvDriver_Execute :: "NvDriver \<Rightarrow> error + script" where
  "NvDriver_Execute t =
     (if nv_Source t = ''package'' \<or> nv_Source t = '''' then Inr [T_nvdriver ''nvDriverPackageTemplate'' t]
      else if nv_Source t = ''runfile'' then Inr [T_nvdriver ''nvDriverRunfileTemplate'' t]
      else if nv_Source t = ''git'' then Inr [T_nvdriver ''nvDriverGitTemplate'' t]
      else Inl (''unknown driver source: '' @ nv_Source t))"

text \<open>The version a runtime's package or its legacy field asks for.\<close>

definition package_version :: "ContainerRuntime \<Rightarrow> string \<Rightarrow> string" where
  "package_version cr d = (case cr_Package cr of
       Some p \<Rightarrow> if rp_Version p \<noteq> '''' then rp_Version p else or_default (cr_Version cr) d
     | None \<Rightarrow> or_default (cr_Version cr) d)"

definition NewDocker :: "Environment \<Rightarrow> error + Docker" where
  "NewDocker env = (let cr = sp_ContainerRuntime (env_Spec env);
       d = \<lparr>do_Source = or_default (cr_Source cr) ''package'', do_Version = '''', do_GitRepo = '''',
            do_GitRef = '''', do_GitCommit = ''''\<rparr> in
     if do_Source d = ''package'' then Inr (d\<lparr>do_Version := package_version cr ''latest''\<rparr>)
     else if do_Source d = ''git'' then (case cr_Git cr of
         None \<Rightarrow> Inl ''git source requires 'git' configuration''
       | Some g \<Rightarrow> Inr (d\<lparr>do_GitRepo := or_default (rg_Repo g) ''https://github.com/moby/moby.git'',
           do_GitRef := rg_Ref g\<rparr>))
     else Inr d)"

definition Docker_Execute :: "Docker \<Rightarrow> error + script" where
  "Docker_Execute t =
     (if do_Source t = ''package'' \<or> do_Source t = '''' then Inr [T_docker ''dockerPackageTemplate'' t]
      else if do_Source t = ''git'' then Inr [T_docker ''dockerGitTemplate'' t]
      else Inl (''unknown docker source: '' @ do_Source t))"

definition NewContainerd :: "Environment \<Rightarrow> error + Containerd" where
  "NewContainerd env = (let cr = sp_ContainerRuntime (env_Spec env);
       c = \<lparr>cd_Source = or_default (cr_Source cr) ''package'', cd_Version = '''', cd_GitRepo = '''',
            cd_GitRef = '''', cd_GitCommit = '''', cd_TrackBranch = ''''\<rparr> in
     if cd_Source c = ''package'' then
       (let version = TrimPrefix (package_version cr ''1.7.27'') ''v''
        in Inr (c\<lparr>cd_Version := (if version = ''2'' then ''2.0.0'' else version)\<rparr>))
     else if cd_Source c = ''git'' then (case cr_Git cr of
         None \<Rightarrow> Inl ''git source requires 'git' configuration''
       | Some g \<Rightarrow> Inr (c\<lparr>cd_GitRepo := or_default (rg_Repo g) ''https://github.com/containerd/containerd.git'',
           cd_GitRef := rg_Ref g\<rparr>))
     else if cd_Source c = ''latest'' then
       Inr (c\<lparr>cd_TrackBranch := (case cr_Latest cr of Some l \<Rightarrow> or_default (rl_Track l) ''main'' | None \<Rightarrow> ''main''),
              cd_GitRepo := (case cr_Latest cr of
                  Some l \<Rightarrow> or_default (rl_Repo l) ''https://github.com/containerd/containerd.git''
                | None \<Rightarrow> ''https://github.com/containerd/containerd.git'')\<rparr>)
     else Inr c)"

definition Containerd_Execute :: "Containerd \<Rightarrow> error + script" where
  "Containerd_Execute t =
     (if cd_Source t = ''package'' \<or> cd_Source t = '''' then Inr [T_containerd ''containerdV1Template'' t]
      else if cd_Source t = ''git'' then Inr [T_containerd ''containerdGitTemplate'' t]
      else if cd_Source t = ''latest'' then Inr [T_containerd ''containerdLatestTemplate'' t]
      else Inl (''unknown containerd source: '' @ cd_Source t))"

definition NewCriO :: "Environment \<Rightarrow> error + CriO" where
  "NewCriO env = (let cr = sp_ContainerRuntime (env_Spec env);
       c = \<lparr>co_Source = or_default (cr_Source cr) ''package'', co_Version = '''', co_GitRepo = '''',
            co_GitRef = '''', co_GitCommit = ''''\<rparr> in
     if co_Source c = ''package'' then Inr (c\<lparr>co_Version := package_version cr ''''\<rparr>)
     else if co_Source c = ''git'' then (case cr_Git cr of
         None \<Rightarrow> Inl ''git source requires 'git' configuration''
       | Some g \<Rightarrow> Inr (c\<lparr>co_GitRepo := or_default (rg_Repo g) ''https://github.com/cri-o/cri-o.git'',
           co_GitRef := rg_Ref g\<rparr>))
     else Inr c)"

definition CriO_Execute :: "CriO \<Rightarrow> error + script" where
  "CriO_Execute t =
     (if co_Source t = ''package'' \<or> co_Source t = '''' then Inr [T_crio ''crioPackageTemplate'' t]
      else if co_Source t = ''git'' then Inr [T_crio ''crioGitTemplate'' t]
      else Inl (''unknown crio source: '' @ co_Source t))"

definition NewContainerToolkit :: "Environment \<Rightarrow> error + ContainerToolkit" where
  "NewContainerToolkit env = (let nct = sp_NVIDIAContainerToolkit (env_Spec env);
       t = \<lparr>tk_ContainerRuntime = or_default (cr_Name (sp_ContainerRuntime (env_Spec env))) ''containerd'',
            tk_EnableCDI = ct_EnableCDI nct, tk_Source = or_default (ct_Source nct) ''package'',
            tk_Version = '''', tk_Channel = '''', tk_GitRepo = '''', tk_GitRef = '''', tk_GitCommit = '''',
            tk_TrackBranch = ''''\<rparr> in
     if tk_Source t = ''package'' then
       (let t = (case ct_Package nct of
              Some p \<Rightarrow> t\<lparr>tk_Version := tp_Version p, tk_Channel := tp_Channel p\<rparr>
            | None \<Rightarrow> t\<lparr>tk_Version := ct_Version nct\<rparr>)
        in Inr (t\<lparr>tk_Channel := or_default (tk_Channel t) ''stable''\<rparr>))
     else if tk_Source t = ''git'' then (case ct_Git nct of
         None \<Rightarrow> Inl ''git source requires 'git' configuration''
       | Some g \<Rightarrow> Inr (t\<lparr>tk_GitRepo := or_default (tg_Repo g) ''https://github.com/NVIDIA/nvidia-container-toolkit.git'',
           tk_GitRef := tg_Ref g\<rparr>))
     else if tk_Source t = ''latest'' then
       Inr (t\<lparr>tk_TrackBranch := (case ct_Latest nct of Some l \<Rightarrow> or_default (tl_Track l) ''main'' | None \<Rightarrow> ''main''),
              tk_GitRepo := (case ct_Latest nct of
                  Some l \<Rightarrow> or_default (tl_Repo l) ''https://github.com/NVIDIA/nvidia-container-toolkit.git''
                | None \<Rightarrow> ''https://github.com/NVIDIA/nvidia-container-toolkit.git'')\<rparr>)
     else Inr t)"

definition ContainerToolkit_Execute :: "ContainerToolkit \<Rightarrow> error + script" where
  "ContainerToolkit_Execute t =
     (if tk_Source t = ''package'' \<or> tk_Source t = '''' then Inr [T_toolkit ''containerToolkitPackageTemplate'' t]
      else if tk_Source t = ''git'' then Inr [T_toolkit ''containerToolkitGitTemplate'' t]
      else if tk_Source t = ''latest'' then Inr [T_toolkit ''containerToolkitLatestTemplate'' t]
      else Inl (''unknown CTK source: '' @ tk_Source t))"

text \<open>The kernel template is executed on the environment; it uses the specification only.\<close>

definition NewKernelTemplate :: "Environment \<Rightarrow> script" where
  "NewKernelTemplate env = [T_kernel (env_Spec env)]"

section \<open>Kubernetes\<close>

definition GetCRISocket :: "string \<Rightarrow> error + string" where
  "GetCRISocket runtime =
     (if runtime = ''docker'' then Inr ''unix:///run/cri-dockerd.sock''
      else if runtime = ''containerd'' then Inr ''unix:///run/containerd/containerd.sock''
      else if runtime = ''crio'' then Inr ''unix:///run/crio/crio.sock''
      else Inl (''unsupported container runtime: '' @ runtime))"

definition isUbuntuOS :: "string \<Rightarrow> bool" where
  "isUbuntuOS os \<longleftrightarrow> os = '''' \<or> prefix ''ubuntu'' os"

text \<open>\<open>strconv.Atoi\<close> with its error ignored: 0 for a text that is no number, the nearest 64-bit
  integer for one that is out of range.\<close>

definition atoi :: "string \<Rightarrow> int" where
  "atoi s = (let negative = prefix ''-'' s;
       ds = (if negative \<or> prefix ''+'' s then tl s else s) in
     if ds = [] \<or> \<not> list_all is_digit ds then 0
     else if negative then max (- (2 ^ 63)) (- int (number_of ds)) else min (2 ^ 63 - 1) (int (number_of ds)))"

definition isLegacyKubernetesVersion :: "string \<Rightarrow> bool" where
  "isLegacyKubernetesVersion version = (case split_on (CHR ''.'') (TrimPrefix version ''v'') of
       major # minor # _ \<Rightarrow> atoi major < 1 \<or> (atoi major = 1 \<and> atoi minor < 32)
     | _ \<Rightarrow> False)"

definition zero_KubernetesTemplate :: KubernetesTemplate where
  "zero_KubernetesTemplate = \<lparr>kt_Version = '''', kt_Installer = '''', kt_KubeletReleaseVersion = '''',
     kt_Arch = '''', kt_CniPluginsVersion = '''', kt_CalicoVersion = '''', kt_CrictlVersion = '''',
     kt_K8sEndpointHost = '''', kt_K8sFeatureGates = '''', kt_UseLegacyInit = False, kt_CriSocket = '''',
     kt_Source = '''', kt_GitRepo = '''', kt_GitRef = '''', kt_GitCommit = '''', kt_TrackBranch = '''',
     kt_KindConfig = ''''\<rparr>"

definition defaultKubernetesVersion :: string where
  "defaultKubernetesVersion = ''v1.35.3''"

definition release_version :: "Kubernetes \<Rightarrow> string" where
  "release_version k = (let version = (case k_Release k of
         Some r \<Rightarrow> if kr_Version r \<noteq> '''' then kr_Version r else k_KubernetesVersion k
       | None \<Rightarrow> k_KubernetesVersion k) in
     if version = '''' then defaultKubernetesVersion
     else if \<not> prefix ''v'' version then ''v'' @ version else version)"

definition kubernetes_source :: "Kubernetes \<Rightarrow> KubernetesTemplate" where
  "kubernetes_source k = (let t = zero_KubernetesTemplate\<lparr>kt_Source := or_default (k_Source k) ''release''\<rparr>;
       main = ''https://github.com/kubernetes/kubernetes.git'' in
     if kt_Source t = ''git'' then
       t\<lparr>kt_GitRepo := (case k_Git k of Some g \<Rightarrow> or_default (kg_Repo g) main | None \<Rightarrow> main),
         kt_GitRef := (case k_Git k of Some g \<Rightarrow> kg_Ref g | None \<Rightarrow> '''')\<rparr>
     else if kt_Source t = ''latest'' then
       t\<lparr>kt_TrackBranch := (case k_Latest k of Some l \<Rightarrow> or_default (kl_Track l) ''master'' | None \<Rightarrow> ''master''),
         kt_GitRepo := (case k_Latest k of Some l \<Rightarrow> or_default (kl_Repo l) main | None \<Rightarrow> main)\<rparr>
     else t\<lparr>kt_Version := release_version k,
            kt_UseLegacyInit := isLegacyKubernetesVersion (release_version k)\<rparr>)"

definition NewKubernetes :: "Environment \<Rightarrow> error + KubernetesTemplate" where
  "NewKubernetes env = (let k = sp_Kubernetes (env_Spec env);
       t = (kubernetes_source k)\<lparr>
         kt_KubeletReleaseVersion := or_default (k_KubeletReleaseVersion k) ''v0.18.0'',
         kt_Arch := k_Arch k,
         kt_CniPluginsVersion := or_default (k_CniPluginsVersion k) ''v1.9.1'',
         kt_CalicoVersion := or_default (k_CalicoVersion k) ''v3.31.5'',
         kt_CrictlVersion := or_default (k_CrictlVersion k) ''v1.35.0'',
         kt_K8sEndpointHost := k_K8sEndpointHost k,
         kt_K8sFeatureGates := join_with (CHR '','') (k_K8sFeatureGates k),
         kt_KindConfig := k_KindConfig k\<rparr> in
     case GetCRISocket (cr_Name (sp_ContainerRuntime (env_Spec env))) of
       Inl e \<Rightarrow> Inl (''failed to get CRI socket: '' @ e)
     | Inr socket \<Rightarrow> Inr (t\<lparr>kt_CriSocket := socket\<rparr>))"

definition by_source :: "KubernetesTemplate \<Rightarrow> string \<Rightarrow> string \<Rightarrow> string \<Rightarrow> string" where
  "by_source k git latest release =
     (if kt_Source k = ''git'' then git else if kt_Source k = ''latest'' then latest else release)"

definition Kubernetes_Execute :: "KubernetesTemplate \<Rightarrow> Environment \<Rightarrow> error + script" where
  "Kubernetes_Execute k env =
     (let installer = or_default (k_KubernetesInstaller (sp_Kubernetes (env_Spec env))) ''kubeadm'' in
      if installer = ''kubeadm'' then
        Inr [T_kubernetes (by_source k ''kubeadmGitTemplate'' ''kubeadmLatestTemplate'' ''KubeadmTemplate'') k]
      else if installer = ''kind'' then
        Inr [T_kubernetes (by_source k ''kindGitTemplate'' ''kindLatestTemplate'' ''KindTemplate'') k]
      else if installer = ''microk8s'' then Inr [T_kubernetes ''microk8sTemplate'' k]
      else Inl (''unknown kubernetes installer: '' @ installer))"

section \<open>Cluster templates\<close>

definition wrap_error :: "string \<Rightarrow> error + 'a \<Rightarrow> error + 'a" where
  "wrap_error t r = map_sum (\<lambda>e. t @ '': '' @ e) id r"

definition KubeadmInit_Execute :: "Environment \<Rightarrow> string \<Rightarrow> bool \<Rightarrow> error + script" where
  "KubeadmInit_Execute env endpoint isHA = (case wrap_error ''failed to create kubernetes config'' (NewKubernetes env) of
       Inl e \<Rightarrow> Inl e
     | Inr k \<Rightarrow> Inr [T_kubeadmInit \<lparr>ki_Kubernetes = k, ki_ControlPlaneEndpoint = endpoint, ki_IsHA = isHA\<rparr>])"

definition KubeadmJoin_Execute :: "KubeadmJoinConfig \<Rightarrow> error + script" where
  "KubeadmJoin_Execute c = Inr [T_kubeadmJoin c]"

definition KubeadmPrereq_Execute :: "Environment \<Rightarrow> error + script" where
  "KubeadmPrereq_Execute env = (case wrap_error ''failed to create kubernetes config'' (NewKubernetes env) of
       Inl e \<Rightarrow> Inl e | Inr k \<Rightarrow> Inr [T_kubeadmPrereq k])"

section \<open>The kubeadm configuration file\<close>

record KubeadmConfig =
  kc_Template :: string
  kc_CriSocket :: string
  kc_ClusterName :: string
  kc_KubernetesVersion :: string
  kc_ControlPlaneEndpoint :: string
  kc_PodSubnet :: string
  kc_FeatureGates :: string
  kc_RuntimeConfig :: string
  kc_IsUbuntu :: bool

text \<open>The template constant, by its name; a file of the user gives its text.\<close>

definition kubeadmTemplate :: string where
  "kubeadmTemplate = ''kubeadmTemplate''"

definition local_path :: "string \<Rightarrow> string \<Rightarrow> string" where
  "local_path cwd path = (if \<not> IsAbs path then Join cwd (TrimPrefix path ''./'') else path)"

definition NewKubeadmConfig :: "('s, string) io \<Rightarrow> (string \<Rightarrow> ('s, string) io) \<Rightarrow> Environment \<Rightarrow> ('s, KubeadmConfig) io" where
  "NewKubeadmConfig Getwd ReadFile env = (let k = sp_Kubernetes (env_Spec env) in
     case GetCRISocket (cr_Name (sp_ContainerRuntime (env_Spec env))) of
       Inl e \<Rightarrow> fail (''failed to get CRI socket: '' @ e)
     | Inr socket \<Rightarrow>
       (let c = \<lparr>kc_Template = kubeadmTemplate, kc_CriSocket = socket, kc_ClusterName = ''holodeck-cluster'',
              kc_KubernetesVersion = or_default (k_KubernetesVersion k) defaultKubernetesVersion,
              kc_ControlPlaneEndpoint = k_K8sEndpointHost k, kc_PodSubnet = ''192.168.0.0/16'',
              kc_FeatureGates = join_with (CHR '','') (k_K8sFeatureGates k),
              kc_RuntimeConfig = ''resource.k8s.io/v1beta1=true'',
              kc_IsUbuntu = isUbuntuOS (in_OS (sp_Instance (env_Spec env)))\<rparr> in
        if k_KubeAdmConfig k \<noteq> '''' then
          andthen (if \<not> IsAbs (k_KubeAdmConfig k) then wrap ''failed to get current working directory'' Getwd else ret '''') (\<lambda>cwd.
          andthen (wrap ''failed to read kubeadm config file'' (ReadFile (local_path cwd (k_KubeAdmConfig k)))) (\<lambda>data.
          ret (c\<lparr>kc_Template := data\<rparr>)))
        else ret c))"

definition ParseFeatureGates :: "KubeadmConfig \<Rightarrow> string gomap" where
  "ParseFeatureGates c =
     (if kc_FeatureGates c = '''' then []
      else foldl (\<lambda>m kv. case split_on (CHR ''='') kv of [k, v] \<Rightarrow> AList.update k v m | _ \<Rightarrow> m)
        [] (split_on (CHR '','') (kc_FeatureGates c)))"

end
