(* ===== verification/Provision_Steps.thy ===== *)
theory Provision_Steps
  imports Templates
begin

text \<open>
  \<open>pkg/gitref/resolver.go\<close>: the resolution of a git reference through GitHub's API, and the
  provisioning functions of \<open>pkg/provisioner/dependency.go\<close>, each of which appends the script of
  one component to the buffer. The HTTP client is a parameter that returns the status, the text
  of the body and what decoding it as JSON gives.
\<close>

section \<open>Git references\<close>

type_synonym 's http = "string \<Rightarrow> ('s, nat \<times> string \<times> (error + string)) io"

text \<open>The expression \<open>github\.com[:/]([^/]+)/([^/.]+)\<close> at the start of a text, then anywhere.\<close>

definition repo_at :: "string \<Rightarrow> (string \<times> string) option" where
  "repo_at s = (if \<not> prefix ''github.com'' s then None
     else case drop 10 s of
       [] \<Rightarrow> None
     | c # u \<Rightarrow>
         (let owner = takeWhile (\<lambda>d. d \<noteq> CHR ''/'') u;
              name = takeWhile (\<lambda>d. d \<noteq> CHR ''/'' \<and> d \<noteq> CHR ''.'') (drop (length owner + 1) u) in
          if (c = CHR '':'' \<or> c = CHR ''/'') \<and> owner \<noteq> '''' \<and> length owner < length u \<and> name \<noteq> ''''
          then Some (owner, name) else None))"

fun find_repo :: "string \<Rightarrow> (string \<times> string) option" where
  "find_repo [] = None"
| "find_repo (c # s) = (case repo_at (c # s) of Some r \<Rightarrow> Some r | None \<Rightarrow> find_repo s)"

definition ParseRepoURL :: "string \<Rightarrow> error + string \<times> string" where
  "ParseRepoURL repo = (case find_repo repo of
       None \<Rightarrow> Inl (''invalid GitHub repo URL: '' @ repo) | Some r \<Rightarrow> Inr r)"

definition NormalizeRef :: "string \<Rightarrow> string" where
  "NormalizeRef ref = TrimPrefix (TrimPrefix ref ''refs/tags/'') ''refs/heads/''"

text \<open>The white space of \<open>strings.Fields\<close>, on ASCII.\<close>

definition is_space :: "char \<Rightarrow> bool" where
  "is_space c \<longleftrightarrow> c \<in> set ('' '' @ [CHR 0x09, CHR 0x0A, CHR 0x0B, CHR 0x0C, CHR 0x0D])"

definition commit_url :: "string \<Rightarrow> string \<Rightarrow> string \<Rightarrow> string" where
  "commit_url owner name ref = ''https://api.github.com/repos/'' @ owner @ ''/'' @ name @ ''/commits/'' @ ref"

definition GitHub_Resolve :: "'s http \<Rightarrow> string \<Rightarrow> string \<Rightarrow> ('s, string \<times> string) io" where
  "GitHub_Resolve http repo ref = (case ParseRepoURL repo of
       Inl e \<Rightarrow> fail e
     | Inr (owner, name) \<Rightarrow>
       andthen (wrap ''failed to resolve ref'' (http (commit_url owner name (NormalizeRef ref)))) (\<lambda>(status, body, sha).
       if status \<noteq> 200
       then fail (''ref not found: '' @ ref @ '' (status '' @ decimal status @ '': ''
         @ or_default (TrimSpace (take 1024 body)) ''no additional details'' @ '')'')
       else case sha of
         Inl e \<Rightarrow> fail (''failed to decode response: '' @ e)
       | Inr full \<Rightarrow>
           if full = '''' then fail (''empty SHA in response for ref: '' @ ref)
           else ret (full, if length full > 8 then take 8 full else full)))"

section \<open>Provisioning functions\<close>

record 's step_env =
  se_http :: "'s http"
  se_fetcher :: "'s fetcher"

definition short_sha :: "'s step_env \<Rightarrow> string \<Rightarrow> string \<Rightarrow> ('s, string) io" where
  "short_sha se repo ref = andthen (GitHub_Resolve (se_http se) repo ref) (\<lambda>(_, sha). ret sha)"

text \<open>Construct, resolve the commit where the source asks for it, and execute.\<close>

definition with_commit :: "bool \<Rightarrow> ('s, string) io \<Rightarrow> (string \<Rightarrow> 't \<Rightarrow> 't) \<Rightarrow> 't \<Rightarrow> ('s, 't) io" where
  "with_commit b resolve set_commit t = (if b then andthen resolve (\<lambda>sha. ret (set_commit sha t)) else ret t)"

definition nvdriver :: "'s step_env \<Rightarrow> Environment \<Rightarrow> ('s, script) io" where
  "nvdriver se env = andthen (lift_script (NewNvDriver env)) (\<lambda>t.
     andthen (with_commit (nv_Source t = ''git'') (short_sha se (nv_GitRepo t) (nv_GitRef t))
       (\<lambda>sha. nv_GitCommit_update (\<lambda>_. sha)) t) (\<lambda>t.
     lift_script (NvDriver_Execute t)))"

definition docker :: "'s step_env \<Rightarrow> Environment \<Rightarrow> ('s, script) io" where
  "docker se env = andthen (lift_script (NewDocker env)) (\<lambda>t.
     andthen (with_commit (do_Source t = ''git'') (short_sha se (do_GitRepo t) (do_GitRef t))
       (\<lambda>sha. do_GitCommit_update (\<lambda>_. sha)) t) (\<lambda>t.
     lift_script (Docker_Execute t)))"

definition containerd :: "'s step_env \<Rightarrow> Environment \<Rightarrow> ('s, script) io" where
  "containerd se env = andthen (lift_script (NewContainerd env)) (\<lambda>t.
     andthen (with_commit (cd_Source t = ''git'') (short_sha se (cd_GitRepo t) (cd_GitRef t))
       (\<lambda>sha. cd_GitCommit_update (\<lambda>_. sha)) t) (\<lambda>t.
     lift_script (Containerd_Execute t)))"

definition criO :: "'s step_env \<Rightarrow> Environment \<Rightarrow> ('s, script) io" where
  "criO se env = andthen (lift_script (NewCriO env)) (\<lambda>t.
     andthen (with_commit (co_Source t = ''git'') (short_sha se (co_GitRepo t) (co_GitRef t))
       (\<lambda>sha. co_GitCommit_update (\<lambda>_. sha)) t) (\<lambda>t.
     lift_script (CriO_Execute t)))"

definition containerToolkit :: "'s step_env \<Rightarrow> Environment \<Rightarrow> ('s, script) io" where
  "containerToolkit se env = andthen (lift_script (NewContainerToolkit env)) (\<lambda>t.
     andthen (with_commit (tk_Source t = ''git'' \<or> tk_Source t = ''latest'')
       (short_sha se (tk_GitRepo t) (if tk_Source t = ''git'' then tk_GitRef t else tk_TrackBranch t))
       (\<lambda>sha. tk_GitCommit_update (\<lambda>_. sha)) t) (\<lambda>t.
     lift_script (ContainerToolkit_Execute t)))"

text \<open>The bodies of \<open>kubeadm\<close> and \<open>kind\<close> are the same; \<open>microk8s\<close> resolves nothing.\<close>

definition kubernetes_step_script :: "'s step_env \<Rightarrow> Environment \<Rightarrow> ('s, script) io" where
  "kubernetes_step_script se env = andthen (lift_script (NewKubernetes env)) (\<lambda>t.
     andthen (with_commit (kt_Source t = ''git'') (short_sha se (kt_GitRepo t) (kt_GitRef t))
       (\<lambda>sha. kt_GitCommit_update (\<lambda>_. sha)) t) (\<lambda>t.
     lift_script (Kubernetes_Execute t env)))"

definition kubeadm :: "'s step_env \<Rightarrow> Environment \<Rightarrow> ('s, script) io" where
  "kubeadm = kubernetes_step_script"

definition kind_step :: "'s step_env \<Rightarrow> Environment \<Rightarrow> ('s, script) io" where
  "kind_step = kubernetes_step_script"

definition microk8s :: "'s step_env \<Rightarrow> Environment \<Rightarrow> ('s, script) io" where
  "microk8s se env = andthen (lift_script (NewKubernetes env)) (\<lambda>t. lift_script (Kubernetes_Execute t env))"

text \<open>The step of a resolver; a custom template uses the resolver's own directory.\<close>

definition run_step :: "'s step_env \<Rightarrow> DependencyResolver \<Rightarrow> ProvisionFunc \<Rightarrow> Environment \<Rightarrow> ('s, script) io" where
  "run_step se d f env = (case f of
       F_kubeadm \<Rightarrow> kubeadm se env | F_kind \<Rightarrow> kind_step se env | F_microk8s \<Rightarrow> microk8s se env
     | F_containerd \<Rightarrow> containerd se env | F_criO \<Rightarrow> criO se env | F_docker \<Rightarrow> docker se env
     | F_nvdriver \<Rightarrow> nvdriver se env | F_containerToolkit \<Rightarrow> containerToolkit se env
     | F_kernel \<Rightarrow> ret (NewKernelTemplate env)
     | F_custom ct \<Rightarrow> andthen (executeCustomTemplate (se_fetcher se) d ct) (\<lambda>t. ret [Text t]))"

end
