(* ===== verification/Template_Props.thy ===== *)
theory Template_Props
  imports Provision_Steps
begin

text \<open>
  What reaches the scripts: which valid configurations can be rendered, which cannot, the feature
  gates of the kubeadm configuration, and the fields that get past the checks.
\<close>

section \<open>Rendering\<close>

lemma driver_renders:
  assumes "nd_Install (sp_NVIDIADriver (env_Spec env))" "NVIDIADriver_Validate (sp_NVIDIADriver (env_Spec env)) = None"
  shows "\<exists>t sc. NewNvDriver env = Inr t \<and> NvDriver_Execute t = Inr sc"
proof -
  let ?d = "sp_NVIDIADriver (env_Spec env)"
  consider (package) "or_default (nd_Source ?d) ''package'' = ''package''"
    | (runfile) r where "or_default (nd_Source ?d) ''package'' = ''runfile''" "nd_Runfile ?d = Some r"
    | (git) g where "or_default (nd_Source ?d) ''package'' = ''git''" "nd_Git ?d = Some g"
    using assms by (simp add: NVIDIADriver_Validate_def source_or_def or_default_def Let_def split: option.splits if_splits)
  then show ?thesis
    by cases (simp_all add: NewNvDriver_def NvDriver_Execute_def Let_def split: option.split)
qed

lemma toolkit_renders:
  assumes "ct_Install (sp_NVIDIAContainerToolkit (env_Spec env))"
    "NVIDIAContainerToolkit_Validate (sp_NVIDIAContainerToolkit (env_Spec env)) = None"
  shows "\<exists>t sc. NewContainerToolkit env = Inr t \<and> ContainerToolkit_Execute t = Inr sc"
proof -
  let ?c = "sp_NVIDIAContainerToolkit (env_Spec env)"
  consider (package) "or_default (ct_Source ?c) ''package'' = ''package''"
    | (git) g where "or_default (ct_Source ?c) ''package'' = ''git''" "ct_Git ?c = Some g"
    | (latest) "or_default (ct_Source ?c) ''package'' = ''latest''"
    using assms by (simp add: NVIDIAContainerToolkit_Validate_def source_or_def or_default_def Let_def split: option.splits if_splits)
  then show ?thesis
    by cases (simp_all add: NewContainerToolkit_def ContainerToolkit_Execute_def Let_def split: option.split)
qed

lemma containerd_renders:
  assumes "cr_Install (sp_ContainerRuntime (env_Spec env))" "ContainerRuntime_Validate (sp_ContainerRuntime (env_Spec env)) = None"
  shows "\<exists>t sc. NewContainerd env = Inr t \<and> Containerd_Execute t = Inr sc"
proof -
  let ?c = "sp_ContainerRuntime (env_Spec env)"
  consider (package) "or_default (cr_Source ?c) ''package'' = ''package''"
    | (git) g where "or_default (cr_Source ?c) ''package'' = ''git''" "cr_Git ?c = Some g"
    | (latest) "or_default (cr_Source ?c) ''package'' = ''latest''"
    using assms by (simp add: ContainerRuntime_Validate_def source_or_def or_default_def Let_def split: option.splits if_splits)
  then show ?thesis
    by cases (simp_all add: NewContainerd_def Containerd_Execute_def Let_def split: option.split)
qed

lemma kubernetes_renders:
  assumes "cr_Name (sp_ContainerRuntime (env_Spec env)) = ContainerRuntimeContainerd"
    "k_KubernetesInstaller (sp_Kubernetes (env_Spec env)) \<in> {'''', ''kubeadm'', ''kind'', ''microk8s''}"
  shows "\<exists>t sc. NewKubernetes env = Inr t \<and> Kubernetes_Execute t env = Inr sc"
proof -
  have "\<exists>t. NewKubernetes env = Inr t"
    using assms(1) by (simp add: NewKubernetes_def GetCRISocket_def Let_def)
  moreover have "\<exists>sc. Kubernetes_Execute t env = Inr sc" for t
    using assms(2) unfolding insert_iff empty_iff
    by (elim disjE) (simp_all add: Kubernetes_Execute_def or_default_def Let_def)
  ultimately show ?thesis by blast
qed


definition plain_spec :: EnvironmentSpec where
  "plain_spec = zero_EnvironmentSpec\<lparr>
     sp_NVIDIADriver := zero_NVIDIADriver\<lparr>nd_Install := True\<rparr>,
     sp_NVIDIAContainerToolkit := zero_NVIDIAContainerToolkit\<lparr>ct_Install := True\<rparr>,
     sp_ContainerRuntime := zero_ContainerRuntime\<lparr>cr_Install := True, cr_Name := ''containerd''\<rparr>\<rparr>"


text \<open>
  a Docker or CRI-O runtime with the source \<open>latest\<close> is accepted by \<open>ContainerRuntime.Validate\<close>
  and by the dry run, and cannot be rendered.
\<close>

theorem latest_runtime_is_not_rendered:
  assumes "cr_Source (sp_ContainerRuntime (env_Spec env)) = RuntimeSourceLatest"
  shows "ContainerRuntime_Validate (sp_ContainerRuntime (env_Spec env)) = None
    \<and> docker se env s = (Inl ''unknown docker source: latest'', s)
    \<and> criO se env s = (Inl ''unknown crio source: latest'', s)"
  using assms
  by (simp add: ContainerRuntime_Validate_def source_or_def docker_def criO_def NewDocker_def NewCriO_def
      Docker_Execute_def CriO_Execute_def with_commit_def lift_script_def or_default_def Let_def io_defs)

definition latest_env :: Environment where
  "latest_env = zero_Environment\<lparr>env_Spec := zero_EnvironmentSpec\<lparr>sp_ContainerRuntime :=
     zero_ContainerRuntime\<lparr>cr_Install := True, cr_Name := ''docker'', cr_Source := ''latest''\<rparr>\<rparr>\<rparr>"

theorem latest_runtime_is_not_rendered_witness:
  "Provisioner_Dryrun latest_env = None \<and> docker se latest_env s = (Inl ''unknown docker source: latest'', s)"
proof -
  have "Provisioner_Dryrun latest_env = None" by code_simp
  moreover have src: "cr_Source (sp_ContainerRuntime (env_Spec latest_env)) = RuntimeSourceLatest" by code_simp
  ultimately show ?thesis using latest_runtime_is_not_rendered [OF src, of se s] by simp
qed

text \<open>
  For a runtime without a name the resolver installs containerd, but every Kubernetes step then
  fails, because the socket of the runtime is looked up by the empty name.
\<close>

theorem unnamed_runtime_breaks_kubernetes:
  assumes "cr_Name (sp_ContainerRuntime (env_Spec env)) = ''''"
  shows "runtime_step (env_Spec env) = F_containerd
    \<and> kubernetes_step_script se env s = (Inl ''failed to get CRI socket: unsupported container runtime: '', s)
    \<and> microk8s se env s = (Inl ''failed to get CRI socket: unsupported container runtime: '', s)"
  using assms
  by (simp add: runtime_step_def kubernetes_step_script_def microk8s_def NewKubernetes_def GetCRISocket_def
      lift_script_def Let_def io_defs)

definition unnamed_env :: Environment where
  "unnamed_env = zero_Environment\<lparr>env_Spec := zero_EnvironmentSpec\<lparr>
     sp_ContainerRuntime := zero_ContainerRuntime\<lparr>cr_Install := True\<rparr>,
     sp_Kubernetes := zero_Kubernetes\<lparr>k_Install := True, k_KubernetesInstaller := ''kubeadm''\<rparr>\<rparr>\<rparr>"

theorem unnamed_runtime_breaks_kubernetes_witness:
  "Provisioner_Dryrun unnamed_env = None \<and> (\<forall>se s. kubernetes_step_script se unnamed_env s =
     (Inl ''failed to get CRI socket: unsupported container runtime: '', s))"
proof -
  have "Provisioner_Dryrun unnamed_env = None" by code_simp
  moreover have name: "cr_Name (sp_ContainerRuntime (env_Spec unnamed_env)) = ''''" by code_simp
  ultimately show ?thesis by (simp add: unnamed_runtime_breaks_kubernetes [OF name])
qed

definition release_env :: "string \<Rightarrow> Environment" where
  "release_env v = zero_Environment\<lparr>env_Spec := zero_EnvironmentSpec\<lparr>
     sp_ContainerRuntime := zero_ContainerRuntime\<lparr>cr_Name := ''containerd''\<rparr>,
     sp_Kubernetes := zero_Kubernetes\<lparr>k_Install := True, k_Release := Some \<lparr>kr_Version = v\<rparr>\<rparr>\<rparr>\<rparr>"

text \<open>
  a release version that is given in the newer field \<open>release.version\<close> selects the binaries, and
  the kubeadm configuration file still names the default version.
\<close>

theorem kubeadm_config_ignores_release_version:
  "\<exists>k c. NewKubernetes (release_env (''v'' @ v)) = Inr k \<and> kt_Version k = ''v'' @ v
     \<and> NewKubeadmConfig Getwd ReadFile (release_env (''v'' @ v)) s = (Inr c, s)
     \<and> kc_KubernetesVersion c = defaultKubernetesVersion"
  by (simp add: release_env_def NewKubernetes_def NewKubeadmConfig_def kubernetes_source_def release_version_def
      GetCRISocket_def zero_EnvironmentSpec_def zero_Kubernetes_def or_default_def Let_def ret_def)

section \<open>Feature gates\<close>

lemma split_on_join_with:
  "xs \<noteq> [] \<Longrightarrow> \<forall>x \<in> set xs. d \<notin> set x \<Longrightarrow> split_on d (join_with d xs) = xs"
  by (induction d xs rule: join_with.induct) (auto simp: split_on_none split_on_append)

lemma update_new: "k \<notin> keys m \<Longrightarrow> AList.update k v m = m @ [(k, v)]"
  by (induction m) auto

abbreviation gate :: "string \<times> string \<Rightarrow> string" where
  "gate kv \<equiv> fst kv @ ''='' @ snd kv"

definition gate_part :: "string \<Rightarrow> bool" where
  "gate_part s \<longleftrightarrow> CHR '','' \<notin> set s \<and> CHR ''='' \<notin> set s"

lemma parse_gates:
  assumes "\<forall>kv \<in> set kvs. gate_part (fst kv) \<and> gate_part (snd kv)" "distinct (map fst (m @ kvs))"
  shows "foldl (\<lambda>m kv. case split_on (CHR ''='') kv of [k, v] \<Rightarrow> AList.update k v m | _ \<Rightarrow> m) m (map gate kvs) = m @ kvs"
  using assms
proof (induction kvs arbitrary: m)
  case (Cons kv kvs)
  then have "split_on (CHR ''='') (gate kv) = [fst kv, snd kv]" "fst kv \<notin> keys m"
    by (auto simp: gate_part_def split_on_append split_on_none)
  then show ?case
    using Cons.IH [of "m @ [kv]"] Cons.prems by (simp add: update_new)
qed simp

lemma parse_gates_all:
  assumes "\<forall>kv \<in> set kvs. gate_part (fst kv) \<and> gate_part (snd kv)" "distinct (map fst kvs)"
    and "kc_FeatureGates c = join_with (CHR '','') (map gate kvs)"
  shows "ParseFeatureGates c = kvs"
proof (cases "kvs = []")
  case True
  then show ?thesis using assms(3) by (simp add: ParseFeatureGates_def)
next
  case False
  then have "join_with (CHR '','') (map gate kvs) \<noteq> ''''"
    by (cases kvs; cases "tl kvs") auto
  moreover have "split_on (CHR '','') (join_with (CHR '','') (map gate kvs)) = map gate kvs"
    using False assms(1) by (intro split_on_join_with) (auto simp: gate_part_def)
  ultimately show ?thesis
    using parse_gates [of kvs "[]"] assms by (simp add: ParseFeatureGates_def)
qed

text \<open>
  Feature gates with different names go into the kubeadm configuration as they are: the list of
  gates, joined to one text for the configuration, is read back as the map of its names and values.
\<close>

theorem feature_gates_roundtrip:
  assumes "\<forall>kv \<in> set kvs. gate_part (fst kv) \<and> gate_part (snd kv)" and "distinct (map fst kvs)"
    and "k_K8sFeatureGates (sp_Kubernetes (env_Spec env)) = map gate kvs"
    and "NewKubeadmConfig Getwd ReadFile env s = (Inr c, s')"
  shows "ParseFeatureGates c = kvs"
proof -
  have "kc_FeatureGates c = join_with (CHR '','') (map gate kvs)"
    using assms(3,4) by (auto simp: NewKubeadmConfig_def Let_def andthen_Inr split: sum.splits if_splits)
  with assms(1,2) show ?thesis by (rule parse_gates_all)
qed

theorem feature_gates_roundtrip_witness:
  "\<exists>c. ParseFeatureGates c = [(''A'', ''true''), (''B'', ''false'')]"
proof -
  let ?env = "zero_Environment\<lparr>env_Spec := zero_EnvironmentSpec\<lparr>
     sp_ContainerRuntime := zero_ContainerRuntime\<lparr>cr_Name := ''containerd''\<rparr>,
     sp_Kubernetes := zero_Kubernetes\<lparr>k_K8sFeatureGates := [''A=true'', ''B=false'']\<rparr>\<rparr>\<rparr>"
  let ?kvs = "[(''A'', ''true''), (''B'', ''false'')]"
  obtain c where c: "NewKubeadmConfig (ret '''') (\<lambda>_. ret '''') ?env () = (Inr c, ())"
    by (simp add: NewKubeadmConfig_def GetCRISocket_def zero_EnvironmentSpec_def zero_Kubernetes_def Let_def ret_def)
  have "ParseFeatureGates c = ?kvs"
    by (rule feature_gates_roundtrip [OF _ _ _ c]) (simp_all add: gate_part_def)
  then show ?thesis by blast
qed

section \<open>Fields that are not checked\<close>

definition driver_env :: "string \<Rightarrow> Environment" where
  "driver_env v = zero_Environment\<lparr>env_Spec := zero_EnvironmentSpec\<lparr>sp_NVIDIADriver :=
     zero_NVIDIADriver\<lparr>nd_Install := True, nd_Package := Some \<lparr>dp_Branch = '''', dp_Version = v\<rparr>\<rparr>\<rparr>\<rparr>"

text \<open>
  A driver version in the newer field \<open>package.version\<close> is not checked at all: whatever it is, the
  template inputs are accepted and the driver's script is rendered with it.
\<close>

theorem driver_package_version_unchecked:
  "ValidateTemplateInputs (driver_env v) = None
   \<and> (\<exists>t. nvdriver se (driver_env v) s = (Inr [T_nvdriver ''nvDriverPackageTemplate'' t], s) \<and> nv_Version t = v)"
proof
  have "ValidateTemplateInputs (driver_env v) = ValidateTemplateInputs zero_Environment"
    by (simp add: ValidateTemplateInputs_def version_inputs_def url_inputs_def ref_inputs_def path_inputs_def
        driver_env_def zero_Environment_def zero_EnvironmentSpec_def zero_NVIDIADriver_def Let_def)
  then show "ValidateTemplateInputs (driver_env v) = None" by code_simp
  show "\<exists>t. nvdriver se (driver_env v) s = (Inr [T_nvdriver ''nvDriverPackageTemplate'' t], s) \<and> nv_Version t = v"
    by (simp add: driver_env_def nvdriver_def NewNvDriver_def NvDriver_Execute_def with_commit_def lift_script_def
        zero_NVIDIADriver_def or_default_def Let_def io_defs)
qed

end
