(* ===== verification/Ssh.thy ===== *)
theory Ssh
  imports Go_Path Api_Validation
begin

text \<open>
  \<open>pkg/sshutil\<close> and \<open>pkg/provisioner/transport.go\<close>: the dialer with its retries, the direct, the
  bastion and the SSM transport, and the check of host keys. TCP, the SSH handshake of
  golang.org/x/crypto/ssh, the known_hosts format, processes, the file system and the clock are
  parameters (the record \<open>net\<close>): a connection is an \<open>'n\<close>, an SSH client a \<open>'c\<close>, a process a
  number. Durations are nanoseconds in 64 bits. Deadlines of connections and the keepalive goroutine
  are not modelled, and of the check of host keys neither the locks nor errors of the file system.
\<close>

section \<open>Host and port\<close>

text \<open>\<open>net.SplitHostPort\<close> and \<open>net.JoinHostPort\<close>.\<close>

definition last_colon :: "string \<Rightarrow> (string \<times> string) option" where
  "last_colon s = (case dropWhile (\<lambda>c. c \<noteq> CHR '':'') (rev s) of [] \<Rightarrow> None
     | _ # h \<Rightarrow> Some (rev h, rev (takeWhile (\<lambda>c. c \<noteq> CHR '':'') (rev s))))"

definition SplitHostPort :: "string \<Rightarrow> (string \<times> string) option" where
  "SplitHostPort s = (case last_colon s of None \<Rightarrow> None
     | Some (h, p) \<Rightarrow>
         if prefix ''['' s then
           (let host = takeWhile (\<lambda>c. c \<noteq> CHR '']'') (tl s) in
            if h = ''['' @ host @ '']'' \<and> CHR ''['' \<notin> set host \<and> CHR ''['' \<notin> set p \<and> CHR '']'' \<notin> set p
            then Some (host, p) else None)
         else if CHR '':'' \<in> set h \<or> CHR ''['' \<in> set s \<or> CHR '']'' \<in> set s then None else Some (h, p))"

definition JoinHostPort :: "string \<Rightarrow> string \<Rightarrow> string" where
  "JoinHostPort host port =
     (if CHR '':'' \<in> set host then ''['' @ host @ '']:'' @ port else host @ '':'' @ port)"

definition hostPort :: "string \<Rightarrow> string" where
  "hostPort target = (case SplitHostPort target of Some _ \<Rightarrow> target | None \<Rightarrow> JoinHostPort target ''22'')"

section \<open>The dialer\<close>

record RetryPolicy =
  rp_MaxAttempts :: int64
  rp_Delay :: int64
  rp_Exponential :: bool
  rp_BaseDelay :: int64
  rp_MaxDelay :: int64

record TimeoutConfig =
  tc_Handshake :: int64
  tc_Keepalive :: int64

record AuthConfig =
  ac_User :: string
  ac_KeyPath :: string
  ac_UseAgent :: bool
  ac_AgentSocket :: string

record Dialer =
  dl_Auth :: AuthConfig
  dl_Retry :: RetryPolicy
  dl_Timeouts :: TimeoutConfig
  dl_HostKey :: string

abbreviation "HostKeyPolicyAcceptNew \<equiv> ''accept-new''"
abbreviation "HostKeyPolicyStrict \<equiv> ''strict''"
abbreviation "HostKeyPolicyOff \<equiv> ''off''"

abbreviation second :: int64 where
  "second \<equiv> 1000000000"

datatype auth_method = PublicKeys string | AgentKeys string

text \<open>The callback that checks host keys: none, or the known hosts under a policy.\<close>

datatype host_key_callback = InsecureIgnoreHostKey | KnownHosts string

record ClientConfig =
  cc_User :: string
  cc_Auth :: "auth_method list"
  cc_HostKeyCallback :: host_key_callback
  cc_Timeout :: int64

record ('s, 'n, 'c) net =
  nt_DialTCP :: "string \<Rightarrow> int64 \<Rightarrow> ('s, 'n) io"
  nt_CloseConn :: "'n \<Rightarrow> ('s, unit) io"
  nt_NewClient :: "'n \<Rightarrow> string \<Rightarrow> ClientConfig \<Rightarrow> int64 \<Rightarrow> ('s, 'c) io"
  nt_DialVia :: "'c \<Rightarrow> string \<Rightarrow> ('s, 'n) io"
  nt_CloseClient :: "'c \<Rightarrow> ('s, unit) io"
  nt_FreePort :: "('s, nat) io"
  nt_Start :: "string list \<Rightarrow> ('s, nat) io"
  nt_Stderr :: "nat \<Rightarrow> ('s, string) io"
  nt_Kill :: "nat \<Rightarrow> ('s, unit) io"
  nt_Reap :: "nat \<Rightarrow> ('s, unit) io"
  nt_Sleep :: "int64 \<Rightarrow> ('s, unit) io"
  nt_ReadFile :: "string \<Rightarrow> ('s, string) io"
  nt_ParsePrivateKey :: "string \<Rightarrow> error + string"
  nt_UserHomeDir :: "('s, string) io"
  nt_DialUnix :: "string \<Rightarrow> ('s, unit) io"
  nt_Getenv :: "string \<Rightarrow> string"
  nt_Err :: "'s \<Rightarrow> error option"
  nt_wait :: "int64 \<Rightarrow> ('s, unit) io"

definition expandPath :: "('s, 'n, 'c) net \<Rightarrow> string \<Rightarrow> ('s, string) io" where
  "expandPath nt p = (if \<not> prefix ''~'' p then ret p
     else andthen (wrap ''expanding key path'' (nt_UserHomeDir nt)) (\<lambda>home.
       if p = ''~'' then ret home else ret (Join home (drop 2 p))))"

definition authMethods :: "('s, 'n, 'c) net \<Rightarrow> AuthConfig \<Rightarrow> ('s, auth_method list) io" where
  "authMethods nt a =
     andthen (if ac_KeyPath a \<noteq> '''' then
         andthen (expandPath nt (ac_KeyPath a)) (\<lambda>path.
         andthen (wrap ''failed to read key file'' (nt_ReadFile nt path)) (\<lambda>key.
         case nt_ParsePrivateKey nt key of
           Inl e \<Rightarrow> fail (''failed to parse private key: '' @ e) | Inr signer \<Rightarrow> ret [PublicKeys signer]))
       else ret []) (\<lambda>keys.
     andthen (if ac_UseAgent a then
         (let sock = (if ac_AgentSocket a = '''' then nt_Getenv nt ''SSH_AUTH_SOCK'' else ac_AgentSocket a) in
          if sock = '''' then fail ''ssh-agent requested but SSH_AUTH_SOCK is unset and AgentSocket is empty''
          else andthen (wrap (''connect ssh-agent '' @ sock) (nt_DialUnix nt sock)) (\<lambda>_. ret [AgentKeys sock]))
       else ret []) (\<lambda>agents.
     if keys @ agents = [] then fail ''no authentication material: set Auth.KeyPath or Auth.UseAgent''
     else ret (keys @ agents)))"

definition hostKeyCallback :: "Dialer \<Rightarrow> host_key_callback" where
  "hostKeyCallback d = (if dl_HostKey d = HostKeyPolicyOff then InsecureIgnoreHostKey
     else KnownHosts (if dl_HostKey d = '''' then HostKeyPolicyAcceptNew else dl_HostKey d))"

definition retryDelay :: "Dialer \<Rightarrow> nat \<Rightarrow> int64" where
  "retryDelay d i = (let r = dl_Retry d in
     if \<not> rp_Exponential r then (if 0 <s rp_Delay r then rp_Delay r else second)
     else (let base = (if rp_BaseDelay r <=s 0 then second else rp_BaseDelay r);
               delay = base * push_bit i 1 in
           if 0 <s rp_MaxDelay r \<and> rp_MaxDelay r <s delay then rp_MaxDelay r else delay))"

definition keepaliveInterval :: "Dialer \<Rightarrow> int64" where
  "keepaliveInterval d = (if 0 <s tc_Keepalive (dl_Timeouts d) then tc_Keepalive (dl_Timeouts d) else 30 * second)"

definition handshake_timeout :: "Dialer \<Rightarrow> int64" where
  "handshake_timeout d = (if tc_Handshake (dl_Timeouts d) <=s 0 then 15 * second else tc_Handshake (dl_Timeouts d))"

definition max_attempts :: "Dialer \<Rightarrow> nat" where
  "max_attempts d = (let n = sint (rp_MaxAttempts (dl_Retry d)) in if n \<le> 0 then 20 else nat n)"

section \<open>Transports\<close>

text \<open>A transport; that of a bastion holds the client of its first hop once it has one, that of the
  session manager the process of its tunnel. A command that could not be started has no process.\<close>

record SSMTransport =
  sm_InstanceID :: string
  sm_Region :: string
  sm_Profile :: string
  sm_cmd :: "nat option"

datatype 'c transport =
    DirectTransport string int64
  | BastionTransport string string Dialer "'c option"
  | SSM SSMTransport

definition NewDirectTransport :: "string \<Rightarrow> 'c transport" where
  "NewDirectTransport host = DirectTransport (hostPort host) 0"

definition NewDirectTransportTimeout :: "string \<Rightarrow> int64 \<Rightarrow> 'c transport" where
  "NewDirectTransportTimeout host timeout =
     (if 0 <s timeout then DirectTransport (hostPort host) timeout else NewDirectTransport host)"

definition DialTimeout :: "int64 \<Rightarrow> int64" where
  "DialTimeout timeout = (if timeout <=s 0 then 10 * second else timeout)"

definition Target :: "'c transport \<Rightarrow> string" where
  "Target t = (case t of
       DirectTransport host _ \<Rightarrow> (case SplitHostPort host of Some (h, _) \<Rightarrow> h | None \<Rightarrow> host)
     | BastionTransport _ target _ _ \<Rightarrow> target
     | SSM t \<Rightarrow> sm_InstanceID t)"

definition direct_dial :: "('s, 'n, 'c) net \<Rightarrow> string \<Rightarrow> int64 \<Rightarrow> ('s, 'n) io" where
  "direct_dial nt host timeout = wrap (''direct transport dial '' @ host) (nt_DialTCP nt host (DialTimeout timeout))"

definition dial_once :: "('s, 'n, 'c) net \<Rightarrow> ('s, 'n) io \<Rightarrow> string \<Rightarrow> ClientConfig \<Rightarrow> int64 \<Rightarrow> ('s, 'c) io" where
  "dial_once nt dial addr cfg handshake = andthen dial (\<lambda>conn.
     catch (nt_NewClient nt conn addr cfg handshake) (\<lambda>e.
       andthen (attempt (nt_CloseConn nt conn)) (\<lambda>_. fail e)))"

text \<open>The loop with \<open>n\<close> attempts left, the next one being number \<open>i\<close>; \<open>err\<close> is the last error.\<close>

fun dial_loop :: "nat \<Rightarrow> nat \<Rightarrow> ('s, 'n, 'c) net \<Rightarrow> Dialer \<Rightarrow> string \<Rightarrow> error \<Rightarrow> ('s, 'c) io \<Rightarrow> ('s, 'c) io" where
  "dial_loop 0 i nt d target err once =
     fail (''failed to connect to '' @ target @ '' after '' @ decimal (max_attempts d) @ '' attempts: '' @ err)"
| "dial_loop (Suc n) i nt d target err once =
     andthen (gets (nt_Err nt)) (\<lambda>e. case e of Some cerr \<Rightarrow> fail cerr | None \<Rightarrow>
       catch once (\<lambda>derr.
         if n = 0 then dial_loop n (i + 1) nt d target derr once
         else andthen (nt_wait nt (retryDelay d i)) (\<lambda>_. dial_loop n (i + 1) nt d target derr once)))"

definition client_config :: "Dialer \<Rightarrow> auth_method list \<Rightarrow> ClientConfig" where
  "client_config d auth = \<lparr>cc_User = ac_User (dl_Auth d), cc_Auth = auth,
     cc_HostKeyCallback = hostKeyCallback d, cc_Timeout = handshake_timeout d\<rparr>"

text \<open>\<open>Dial\<close> over a way to make one connection.\<close>

definition dial_with :: "('s, 'n, 'c) net \<Rightarrow> Dialer \<Rightarrow> string \<Rightarrow> ('s, 'n) io \<Rightarrow> ('s, 'c) io" where
  "dial_with nt d target dial = andthen (authMethods nt (dl_Auth d)) (\<lambda>auth.
     dial_loop (max_attempts d) 0 nt d target ''%!w(<nil>)''
       (dial_once nt dial (hostPort target) (client_config d auth) (handshake_timeout d)))"

text \<open>The parameters lifted to a state that carries the transport, which a dial may change.\<close>

definition on_fst :: "('s, 'a) io \<Rightarrow> ('s \<times> 't, 'a) io" where
  "on_fst m st = (case m (fst st) of (r, s') \<Rightarrow> (r, (s', snd st)))"

definition lift_net :: "('s, 'n, 'c) net \<Rightarrow> ('s \<times> 't, 'n, 'c) net" where
  "lift_net nt = \<lparr>nt_DialTCP = (\<lambda>h t. on_fst (nt_DialTCP nt h t)), nt_CloseConn = (\<lambda>n. on_fst (nt_CloseConn nt n)),
     nt_NewClient = (\<lambda>n a c h. on_fst (nt_NewClient nt n a c h)), nt_DialVia = (\<lambda>c a. on_fst (nt_DialVia nt c a)),
     nt_CloseClient = (\<lambda>c. on_fst (nt_CloseClient nt c)), nt_FreePort = on_fst (nt_FreePort nt),
     nt_Start = (\<lambda>args. on_fst (nt_Start nt args)), nt_Stderr = (\<lambda>i. on_fst (nt_Stderr nt i)),
     nt_Kill = (\<lambda>i. on_fst (nt_Kill nt i)), nt_Reap = (\<lambda>i. on_fst (nt_Reap nt i)),
     nt_Sleep = (\<lambda>t. on_fst (nt_Sleep nt t)), nt_ReadFile = (\<lambda>p. on_fst (nt_ReadFile nt p)),
     nt_ParsePrivateKey = nt_ParsePrivateKey nt, nt_UserHomeDir = on_fst (nt_UserHomeDir nt),
     nt_DialUnix = (\<lambda>p. on_fst (nt_DialUnix nt p)), nt_Getenv = nt_Getenv nt,
     nt_Err = (\<lambda>st. nt_Err nt (fst st)), nt_wait = (\<lambda>d. on_fst (nt_wait nt d))\<rparr>"

section \<open>The session manager's tunnel\<close>

text \<open>The attempts to reach a tunnel: each one that fails is followed by a sleep, the last one too.\<close>

fun retryDial_loop :: "nat \<Rightarrow> nat \<Rightarrow> ('s, 'n, 'c) net \<Rightarrow> string \<Rightarrow> nat \<Rightarrow> int64 \<Rightarrow> error \<Rightarrow> ('s, 'n) io" where
  "retryDial_loop 0 i nt addr maxAttempts baseDelay err =
     fail (''failed to connect to '' @ addr @ '' after '' @ decimal maxAttempts @ '' attempts: '' @ err)"
| "retryDial_loop (Suc n) i nt addr maxAttempts baseDelay err =
     catch (nt_DialTCP nt addr 500000000) (\<lambda>derr.
       andthen (nt_Sleep nt (baseDelay * push_bit i 1)) (\<lambda>_.
       retryDial_loop n (i + 1) nt addr maxAttempts baseDelay derr))"

definition retryDial :: "('s, 'n, 'c) net \<Rightarrow> string \<Rightarrow> nat \<Rightarrow> int64 \<Rightarrow> ('s, 'n) io" where
  "retryDial nt addr maxAttempts baseDelay = retryDial_loop maxAttempts 0 nt addr maxAttempts baseDelay ''%!w(<nil>)''"

definition SSM_Close :: "('s, 'n, 'c) net \<Rightarrow> ('s \<times> SSMTransport, unit) io" where
  "SSM_Close nt st = (case sm_cmd (snd st) of
       None \<Rightarrow> (Inr (), st)
     | Some i \<Rightarrow> (case andthen (wrap ''ssm transport: kill session'' (nt_Kill nt i))
             (\<lambda>_. andthen (attempt (nt_Reap nt i)) (\<lambda>_. ret ())) (fst st) of
           (r, s') \<Rightarrow> (r, (s', (snd st)\<lparr>sm_cmd := None\<rparr>))))"

definition ssm_args :: "SSMTransport \<Rightarrow> nat \<Rightarrow> string list" where
  "ssm_args t port = [''ssm'', ''start-session'', ''--target'', sm_InstanceID t,
       ''--document-name'', ''AWS-StartPortForwardingSession'', ''--parameters'',
       ''{\"portNumber\":[\"22\"],\"localPortNumber\":[\"'' @ decimal port @ ''\"]}'']
     @ (if sm_Region t \<noteq> '''' then [''--region'', sm_Region t] else [])
     @ (if sm_Profile t \<noteq> '''' then [''--profile'', sm_Profile t] else [])"

definition set_cmd :: "nat \<Rightarrow> ('s \<times> SSMTransport, unit) io" where
  "set_cmd i = modify (map_prod id (sm_cmd_update (\<lambda>_. Some i)))"

definition SSM_DialContext :: "('s, 'n, 'c) net \<Rightarrow> ('s \<times> SSMTransport, 'n) io" where
  "SSM_DialContext nt =
     andthen (attempt (SSM_Close nt)) (\<lambda>_.
     andthen (wrap ''ssm transport: find free port'' (on_fst (nt_FreePort nt))) (\<lambda>port.
     andthen (gets snd) (\<lambda>t.
     andthen (wrap (''ssm transport: start session for '' @ sm_InstanceID t @ '' (stderr: )'')
       (on_fst (nt_Start nt (ssm_args t port)))) (\<lambda>i.
     andthen (set_cmd i) (\<lambda>_.
     catch (on_fst (retryDial nt (''127.0.0.1:'' @ decimal port) 5 100000000)) (\<lambda>e.
       andthen (on_fst (nt_Stderr nt i)) (\<lambda>stderr.
       andthen (attempt (SSM_Close nt)) (\<lambda>_.
       fail (''ssm transport: dial tunnel for '' @ sm_InstanceID t
         @ (if stderr \<noteq> '''' then '' (stderr: '' @ stderr @ '')'' else '''') @ '': '' @ e)))))))))"

section \<open>Dialing\<close>

text \<open>The first hop of a bastion is dialed directly; it is kept for later connections.\<close>

definition hop1_client :: "('s, 'n, 'c) net \<Rightarrow> string \<Rightarrow> Dialer \<Rightarrow> 'c option \<Rightarrow> ('s, 'c) io" where
  "hop1_client nt bastion d hop1 = (case hop1 of
       Some c \<Rightarrow> ret c
     | None \<Rightarrow> wrap (''bastion hop-1 dial '' @ bastion) (dial_with nt d bastion (direct_dial nt (hostPort bastion) 0)))"

definition DialContext :: "('s, 'n, 'c) net \<Rightarrow> ('s \<times> 'c transport, 'n) io" where
  "DialContext nt st = (case st of (s, t) \<Rightarrow> (case t of
       DirectTransport host timeout \<Rightarrow> (case direct_dial nt host timeout s of (r, s') \<Rightarrow> (r, (s', t)))
     | BastionTransport b target d hop1 \<Rightarrow> (case hop1_client nt b d hop1 s of
           (Inl e, s') \<Rightarrow> (Inl e, (s', t))
         | (Inr c, s') \<Rightarrow> (case wrap (''bastion hop-2 dial '' @ target @ '' via '' @ b)
               (nt_DialVia nt c (hostPort target)) s' of
             (r, s'') \<Rightarrow> (r, (s'', BastionTransport b target d (Some c)))))
     | SSM ssm \<Rightarrow> (case SSM_DialContext nt (s, ssm) of (r, (s', ssm')) \<Rightarrow> (r, (s', SSM ssm')))))"

text \<open>Closing forgets the client or the process whether or not that fails.\<close>

definition transport_Close :: "('s, 'n, 'c) net \<Rightarrow> ('s \<times> 'c transport, unit) io" where
  "transport_Close nt st = (case st of (s, t) \<Rightarrow> (case t of
       DirectTransport _ _ \<Rightarrow> (Inr (), (s, t))
     | BastionTransport b target d hop1 \<Rightarrow> (case hop1 of
           None \<Rightarrow> (Inr (), (s, t))
         | Some c \<Rightarrow> (case nt_CloseClient nt c s of (r, s') \<Rightarrow> (r, (s', BastionTransport b target d None))))
     | SSM ssm \<Rightarrow> (case SSM_Close nt (s, ssm) of (r, (s', ssm')) \<Rightarrow> (r, (s', SSM ssm')))))"

definition Dial :: "('s, 'n, 'c) net \<Rightarrow> Dialer \<Rightarrow> string \<Rightarrow> ('s \<times> 'c transport, 'c) io" where
  "Dial nt d target = dial_with (lift_net nt) d target (DialContext nt)"

section \<open>Known hosts\<close>

datatype known_host = Known | Mismatch string | Unknown string | KnownHostsError string

record knownhosts =
  kh_New :: "string \<Rightarrow> error option"
  kh_check :: "string \<Rightarrow> string \<Rightarrow> string \<Rightarrow> known_host"
  kh_Line :: "string \<Rightarrow> string \<Rightarrow> string"

text \<open>\<open>verifyOrRecord\<close> on the content of the file: the result, and the content afterwards. The file
  exists, since the caller has just opened it with \<open>O_CREATE\<close>.\<close>

definition verifyOrRecord :: "knownhosts \<Rightarrow> string \<Rightarrow> string \<Rightarrow> string \<Rightarrow> (string, unit) io" where
  "verifyOrRecord kh policy hostname key content = (case kh_New kh content of
       Some e \<Rightarrow> (Inl (''load known_hosts: '' @ e), content)
     | None \<Rightarrow> (case kh_check kh content hostname key of
           Known \<Rightarrow> (Inr (), content)
         | Mismatch e \<Rightarrow> (Inl (''host key mismatch for '' @ hostname @ '' (possible MITM): '' @ e), content)
         | Unknown e \<Rightarrow>
             if policy = HostKeyPolicyStrict
             then (Inl (''unknown host '' @ hostname @ '' rejected by strict host-key policy: '' @ e), content)
             else (Inr (), content @ kh_Line kh hostname key @ [CHR 0x0A])
         | KnownHostsError e \<Rightarrow> (Inl e, content)))"

definition HostKeyCallback :: "knownhosts \<Rightarrow> string \<Rightarrow> string \<Rightarrow> string \<Rightarrow> (string, unit) io" where
  "HostKeyCallback kh policy hostname key =
     (if policy = HostKeyPolicyOff then ret () else verifyOrRecord kh policy hostname key)"

section \<open>What the dialer does\<close>

lemma last_colon_join: "CHR '':'' \<notin> set p \<Longrightarrow> last_colon (h @ CHR '':'' # p) = Some (h, p)"
proof -
  assume "CHR '':'' \<notin> set p"
  then have "dropWhile (\<lambda>c. c \<noteq> CHR '':'') (rev p @ CHR '':'' # rev h) = CHR '':'' # rev h"
    "takeWhile (\<lambda>c. c \<noteq> CHR '':'') (rev p @ CHR '':'' # rev h) = rev p"
    by (auto simp: dropWhile_append takeWhile_append)
  then show ?thesis by (simp add: last_colon_def)
qed

text \<open>
  A host and a port, joined to an address, are split again into the same two parts, with IPv6
  addresses in brackets; so an address that has its port is dialed as it is, and \<open>:22\<close> is added to
  a host exactly once.
\<close>

theorem host_port_roundtrip:
  assumes "set host \<inter> set ''[]'' = {}" and "set port \<inter> set '':[]'' = {}"
  shows "SplitHostPort (JoinHostPort host port) = Some (host, port)
    \<and> hostPort (JoinHostPort host port) = JoinHostPort host port"
proof -
  have p: "CHR '':'' \<notin> set port" using assms(2) by auto
  have "SplitHostPort (JoinHostPort host port) = Some (host, port)"
  proof (cases "CHR '':'' \<in> set host")
    case True
    have "takeWhile (\<lambda>c. c \<noteq> CHR '']'') (host @ '']:'' @ port) = host"
      using assms(1) by (auto simp: takeWhile_append2 takeWhile_append)
    moreover have "last_colon (''['' @ host @ '']:'' @ port) = Some (''['' @ host @ '']'', port)"
      using last_colon_join [OF p, of "''['' @ host @ '']''"] by simp
    ultimately show ?thesis
      using True assms by (auto simp: JoinHostPort_def SplitHostPort_def)
  next
    case False
    have "last_colon (host @ '':'' @ port) = Some (host, port)"
      using last_colon_join [OF p, of host] by simp
    moreover have "\<not> prefix ''['' (host @ '':'' @ port)"
      using assms(1) by (cases host) auto
    ultimately show ?thesis
      using False assms by (auto simp: JoinHostPort_def SplitHostPort_def)
  qed
  then show ?thesis by (simp add: hostPort_def)
qed

theorem host_port_roundtrip_witness:
  "SplitHostPort (JoinHostPort ''2001:db8::1'' ''22'') = Some (''2001:db8::1'', ''22'')"
  by (rule host_port_roundtrip [THEN conjunct1]) simp_all

text \<open>The state before the attempt \<open>i\<close>, when the earlier ones failed and nothing was cancelled.\<close>

fun dial_before :: "('s, 'n, 'c) net \<Rightarrow> Dialer \<Rightarrow> ('s, 'c) io \<Rightarrow> 's \<Rightarrow> nat \<Rightarrow> 's" where
  "dial_before nt d once s 0 = s"
| "dial_before nt d once s (Suc i) = snd (nt_wait nt (retryDelay d i) (snd (once (dial_before nt d once s i))))"

definition never_cancelled :: "('s, 'n, 'c) net \<Rightarrow> bool" where
  "never_cancelled nt \<longleftrightarrow> (\<forall>s. nt_Err nt s = None) \<and> (\<forall>n s. fst (nt_wait nt n s) = Inr ())"

abbreviation connects :: "('s, 'n, 'c) net \<Rightarrow> Dialer \<Rightarrow> ('s, 'c) io \<Rightarrow> 's \<Rightarrow> nat \<Rightarrow> bool" where
  "connects nt d once s i \<equiv> \<not> isl (fst (once (dial_before nt d once s i)))"

lemma dial_loop_finds:
  assumes "never_cancelled nt"
  shows "case find (connects nt d once s) [i..<i + n] of
      Some j \<Rightarrow> dial_loop n i nt d target e once (dial_before nt d once s i) = once (dial_before nt d once s j)
    | None \<Rightarrow> isl (fst (dial_loop n i nt d target e once (dial_before nt d once s i)))"
proof (induction n arbitrary: i e)
  case 0
  show ?case by (simp add: fail_def)
next
  case (Suc n)
  let ?s = "dial_before nt d once s i"
  have no: "nt_Err nt x = None" for x using assms by (simp add: never_cancelled_def)
  obtain r s1 where run: "once ?s = (r, s1)" by (cases "once ?s") auto
  obtain s2 where wait: "nt_wait nt (retryDelay d i) s1 = (Inr (), s2)"
    using assms by (cases "nt_wait nt (retryDelay d i) s1") (metis never_cancelled_def fst_conv)
  have next_s: "dial_before nt d once s (i + 1) = s2" using run wait by simp
  have upt: "[i..<i + Suc n] = i # [i + 1..<i + 1 + n]" by (simp add: upt_conv_Cons)
  show ?case
  proof (cases r)
    case (Inr c)
    then show ?thesis unfolding upt using run no by (simp add: andthen_def gets_def catch_def)
  next
    case (Inl err)
    have step: "dial_loop (Suc n) i nt d target e once ?s =
        dial_loop n (i + 1) nt d target err once (if n = 0 then s1 else s2)"
      using run Inl no wait by (simp add: andthen_def gets_def catch_def del: dial_loop.simps(1))
    show ?thesis
    proof (cases "n = 0")
      case True
      then show ?thesis unfolding upt step using run Inl by (simp add: fail_def)
    next
      case False
      then show ?thesis
        using run Inl Suc.IH [of "i + 1" err] unfolding upt step next_s by simp
    qed
  qed
qed

text \<open>
  C21: a dial that is never cancelled makes at most \<open>max_attempts\<close> attempts, with \<open>retryDelay\<close> between
  two of them: it returns what the first attempt that connects returns, in the state that this attempt
  left, and makes no attempt after it; when none connects it fails.
\<close>

theorem Dial_retries:
  assumes "never_cancelled nt" and "authMethods nt (dl_Auth d) s0 = (Inr auth, s)"
    and once: "once = dial_once nt dial (hostPort target) (client_config d auth) (handshake_timeout d)"
  shows "case find (connects nt d once s) [0..<max_attempts d] of
      Some j \<Rightarrow> dial_with nt d target dial s0 = once (dial_before nt d once s j)
    | None \<Rightarrow> isl (fst (dial_with nt d target dial s0))"
proof -
  have "dial_with nt d target dial s0 = dial_loop (max_attempts d) 0 nt d target ''%!w(<nil>)'' once s"
    using assms(2) by (simp add: dial_with_def andthen_def once)
  with dial_loop_finds [OF assms(1), where d = d and once = once and s = s and i = 0] show ?thesis
    by (simp only: dial_before.simps(1) add_0)
qed

text \<open>A network whose state is the number of attempts so far; only the third one connects.\<close>

definition flaky_net :: "(nat, nat, nat) net" where
  "flaky_net = \<lparr>nt_DialTCP = (\<lambda>_ _ n. (if n < 2 then Inl ''connection refused'' else Inr n, n + 1)),
     nt_CloseConn = (\<lambda>_. ret ()), nt_NewClient = (\<lambda>n _ _ _. ret n), nt_DialVia = (\<lambda>c _. ret c),
     nt_CloseClient = (\<lambda>_. ret ()), nt_FreePort = ret 7, nt_Start = (\<lambda>_. ret 1),
     nt_Stderr = (\<lambda>_. ret ''''), nt_Kill = (\<lambda>_. ret ()), nt_Reap = (\<lambda>_. ret ()), nt_Sleep = (\<lambda>_. ret ()),
     nt_ReadFile = (\<lambda>_. ret ''KEY''), nt_ParsePrivateKey = Inr, nt_UserHomeDir = ret ''/root'',
     nt_DialUnix = (\<lambda>_. ret ()), nt_Getenv = (\<lambda>_. ''''), nt_Err = (\<lambda>_. None), nt_wait = (\<lambda>_. ret ())\<rparr>"

definition legacy_dialer :: Dialer where
  "legacy_dialer = \<lparr>dl_Auth = \<lparr>ac_User = ''ubuntu'', ac_KeyPath = ''/key.pem'', ac_UseAgent = False, ac_AgentSocket = ''''\<rparr>,
     dl_Retry = \<lparr>rp_MaxAttempts = 20, rp_Delay = second, rp_Exponential = False, rp_BaseDelay = 0, rp_MaxDelay = 0\<rparr>,
     dl_Timeouts = \<lparr>tc_Handshake = 15 * second, tc_Keepalive = 30 * second\<rparr>, dl_HostKey = ''''\<rparr>"

theorem Dial_retries_witness:
  "dial_with flaky_net legacy_dialer ''10.0.0.1'' (direct_dial flaky_net ''10.0.0.1:22'' 0) 0 = (Inr 2, 3)"
proof -
  have auth: "authMethods flaky_net (dl_Auth legacy_dialer) 0 = (Inr [PublicKeys ''KEY''], 0)" by code_simp
  have never: "never_cancelled flaky_net" by (simp add: never_cancelled_def flaky_net_def ret_def)
  show ?thesis
    using Dial_retries [OF never auth refl, where dial = "direct_dial flaky_net ''10.0.0.1:22'' 0" and target = "''10.0.0.1''"]
    by code_simp
qed


text \<open>A file of lines of a host, a space and its key.\<close>

definition plain_hosts :: knownhosts where
  "plain_hosts = \<lparr>kh_New = (\<lambda>_. None),
     kh_check = (\<lambda>content h k. if contains content (h @ '' '' @ k @ [CHR 0x0A]) then Known
        else if contains content (h @ '' '') then Mismatch ''key mismatch'' else Unknown ''key is unknown''),
     kh_Line = (\<lambda>h k. h @ '' '' @ k)\<rparr>"


end
