(* ===== verification/Provisioner.thy ===== *)
theory Provisioner
  imports Provision_Steps Ssh Provenance
begin

text \<open>
  \<open>pkg/provisioner/provisioner.go\<close>: connecting to a node, healing a lost connection, and running the
  script of every step of the resolver on it.

  Transports are shared: a node keeps its own through several provisioners, and dialing and closing
  change it. So the state holds the store of transports, and a provisioner the address of its own.
  SSH sessions, SFTP and the local file system are parameters (the record \<open>prov_env\<close>); a local
  file is opened and read in one call. The goroutine that copies the output of a session is one call
  after its end.
\<close>

section \<open>The provisioner\<close>

record ('s, 'n, 'c) prov_env =
  px_net :: "('s, 'n, 'c) net"
  px_steps :: "'s step_env"
  px_NewSession :: "'c \<Rightarrow> ('s, nat) io"
  px_CloseSession :: "nat \<Rightarrow> ('s, unit) io"
  px_Start :: "nat \<Rightarrow> script \<Rightarrow> ('s, unit) io"
  px_Wait :: "nat \<Rightarrow> ('s, unit) io"
  px_CopyOutput :: "nat \<Rightarrow> ('s, unit) io"
  px_CombinedOutput :: "nat \<Rightarrow> script \<Rightarrow> ('s, string) io"
  px_Run :: "nat \<Rightarrow> string \<Rightarrow> ('s, unit) io"
  px_StdinPipe :: "nat \<Rightarrow> ('s, unit) io"
  px_WriteStdin :: "nat \<Rightarrow> string \<Rightarrow> ('s, unit) io"
  px_CloseStdin :: "nat \<Rightarrow> ('s, unit) io"
  px_NewSFTP :: "'c \<Rightarrow> ('s, nat) io"
  px_CloseSFTP :: "nat \<Rightarrow> ('s, unit) io"
  px_CreateRemote :: "nat \<Rightarrow> string \<Rightarrow> ('s, nat) io"
  px_WriteRemote :: "nat \<Rightarrow> string \<Rightarrow> ('s, unit) io"
  px_CloseRemote :: "nat \<Rightarrow> ('s, unit) io"
  px_Getwd :: "('s, string) io"
  px_MkdirAll :: "string \<Rightarrow> ('s, unit) io"
  px_WriteFile :: "string \<Rightarrow> string \<Rightarrow> ('s, unit) io"
  px_Parse :: "string \<Rightarrow> error + (KubeadmConfig \<Rightarrow> string gomap \<Rightarrow> error + string)"

record 'c Provisioner =
  pn_Client :: "'c option"
  pn_HostUrl :: string
  pn_UserName :: string
  pn_KeyPath :: string
  pn_tpl :: script
  pn_transport :: "nat option"
  pn_dialer :: "Dialer option"
  pn_sshConfig :: "SSHConfig option"

text \<open>The world with the store of transports, and with the provisioner that a method works on.\<close>

type_synonym ('s, 'c) heap = "'s \<times> 'c transport list"
type_synonym ('s, 'c, 'a) node_method = "('s, 'c) heap \<times> 'c Provisioner \<Rightarrow> (error + 'a) \<times> ('s, 'c) heap \<times> 'c Provisioner"

definition world :: "('s, 'a) io \<Rightarrow> ('s, 'c, 'a) node_method" where
  "world m = on_fst (on_fst m)"

definition set_self :: "('c Provisioner \<Rightarrow> 'c Provisioner) \<Rightarrow> ('s, 'c, unit) node_method" where
  "set_self f = modify (map_prod id f)"

text \<open>A deferred call, whose own error is dropped.\<close>

definition deferring :: "('s, unit) io \<Rightarrow> ('s, 'a) io \<Rightarrow> ('s, 'a) io" where
  "deferring cleanup m s = (case m s of (r, s') \<Rightarrow> (r, snd (cleanup s')))"

definition nil_dereference :: error where
  "nil_dereference = ''runtime error: invalid memory address or nil pointer dereference''"

section \<open>Settings\<close>

definition ssh_error_text :: "ssh_error \<Rightarrow> error" where
  "ssh_error_text e = (case e of
       BadKnownHostsPolicy p \<Rightarrow> ''invalid knownHostsPolicy '' @ quoted p @ '' (want accept-new|strict|off)''
     | NegativeRetries n \<Rightarrow> ''maxRetries must be >= 0, got '' @ decimal_int n
     | BastionHostMissing \<Rightarrow> ''bastion.host is required when bastion is set''
     | SSHConfigInClusterMode \<Rightarrow>
         ''auth.sshConfig is not yet supported in cluster mode (see NVIDIA/holodeck#851); remove the sshConfig block or use single-node mode'')"

definition host_key_policy :: "SSHConfig \<Rightarrow> string" where
  "host_key_policy cfg = or_default (sc_KnownHostsPolicy cfg) HostKeyPolicyAcceptNew"

definition plain_dialer :: "string \<Rightarrow> string \<Rightarrow> string \<Rightarrow> Dialer" where
  "plain_dialer user keyPath policy = \<lparr>dl_Auth = \<lparr>ac_User = user, ac_KeyPath = keyPath, ac_UseAgent = False, ac_AgentSocket = ''''\<rparr>,
     dl_Retry = \<lparr>rp_MaxAttempts = 0, rp_Delay = 0, rp_Exponential = False, rp_BaseDelay = 0, rp_MaxDelay = 0\<rparr>,
     dl_Timeouts = \<lparr>tc_Handshake = 0, tc_Keepalive = 0\<rparr>, dl_HostKey = policy\<rparr>"

definition dialerFromSSHConfig :: "string \<Rightarrow> string \<Rightarrow> SSHConfig option \<Rightarrow> Dialer" where
  "dialerFromSSHConfig keyPath userName cfg =
     (let d = plain_dialer userName keyPath HostKeyPolicyAcceptNew in
      case cfg of None \<Rightarrow> d
      | Some c \<Rightarrow> d\<lparr>dl_HostKey := host_key_policy c,
          dl_Auth := (dl_Auth d)\<lparr>ac_UseAgent := sc_UseAgent c, ac_AgentSocket := sc_AgentSocket c\<rparr>,
          dl_Retry := (if 0 <s sc_MaxRetries c then (dl_Retry d)\<lparr>rp_MaxAttempts := sc_MaxRetries c\<rparr> else dl_Retry d),
          dl_Timeouts := \<lparr>tc_Handshake = sc_HandshakeTimeout c, tc_Keepalive = sc_KeepaliveInterval c\<rparr>\<rparr>)"

definition transportFromSSHConfig :: "string \<Rightarrow> string \<Rightarrow> string \<Rightarrow> SSHConfig option \<Rightarrow> 'c transport" where
  "transportFromSSHConfig hostUrl keyPath userName cfg = (case cfg of
       None \<Rightarrow> NewDirectTransport hostUrl
     | Some c \<Rightarrow> (case sc_Bastion c of
         None \<Rightarrow> (if 0 <s sc_ConnectTimeout c then NewDirectTransportTimeout hostUrl (sc_ConnectTimeout c)
                  else NewDirectTransport hostUrl)
       | Some b \<Rightarrow> BastionTransport (bc_Host b) hostUrl
           (plain_dialer (or_default (bc_Username b) userName) (or_default (bc_PrivateKey b) keyPath) (host_key_policy c)) None))"

section \<open>Connections\<close>

definition with_transport :: "nat \<Rightarrow> ('s \<times> 'c transport, 'a) io \<Rightarrow> (('s, 'c) heap, 'a) io" where
  "with_transport a m st = (case m (fst st, snd st ! a) of (r, (s', t)) \<Rightarrow> (r, (s', (snd st)[a := t])))"

text \<open>Without a transport the dialer uses a direct one of its own.\<close>

definition dial_host :: "('s, 'n, 'c) prov_env \<Rightarrow> ('s, 'c, 'c) node_method" where
  "dial_host x = andthen (gets snd) (\<lambda>p. case pn_dialer p of
       None \<Rightarrow> fail nil_dereference
     | Some d \<Rightarrow> (case pn_transport p of
           Some a \<Rightarrow> on_fst (with_transport a (Dial (px_net x) d (pn_HostUrl p)))
         | None \<Rightarrow> world (dial_with (px_net x) d (pn_HostUrl p) (direct_dial (px_net x) (hostPort (pn_HostUrl p)) 0))))"

definition redial :: "('s, 'n, 'c) prov_env \<Rightarrow> ('s, 'c, unit) node_method" where
  "redial x = andthen (gets snd) (\<lambda>p.
     andthen (wrap (''failed to connect to '' @ pn_HostUrl p) (dial_host x)) (\<lambda>c.
     set_self (pn_Client_update (\<lambda>_. Some c))))"

text \<open>Whether a session can be opened on a client.\<close>

definition alive :: "('s, 'n, 'c) prov_env \<Rightarrow> 'c \<Rightarrow> ('s, bool) io" where
  "alive x c = andthen (attempt (px_NewSession x c)) (\<lambda>r. case r of
       Inl _ \<Rightarrow> ret False
     | Inr i \<Rightarrow> andthen (attempt (px_CloseSession x i)) (\<lambda>_. ret True))"

definition ensureClient :: "('s, 'n, 'c) prov_env \<Rightarrow> ('s, 'c, unit) node_method" where
  "ensureClient x = andthen (gets snd) (\<lambda>p. case pn_Client p of
       None \<Rightarrow> redial x
     | Some c \<Rightarrow> andthen (world (alive x c)) (\<lambda>b.
         if b then ret ()
         else andthen (attempt (world (nt_CloseClient (px_net x) c))) (\<lambda>_.
           andthen (set_self (pn_Client_update (\<lambda>_. None))) (\<lambda>_. redial x))))"

text \<open>\<open>Close\<close> reports the first of the two errors and forgets both resources in any case.\<close>

definition Provisioner_Close :: "('s, 'n, 'c) prov_env \<Rightarrow> ('s, 'c, unit) node_method" where
  "Provisioner_Close x = andthen (gets snd) (\<lambda>p.
     andthen (attempt (case pn_Client p of None \<Rightarrow> ret () | Some c \<Rightarrow> world (nt_CloseClient (px_net x) c))) (\<lambda>r1.
     andthen (attempt (case pn_transport p of None \<Rightarrow> ret ()
        | Some a \<Rightarrow> on_fst (with_transport a (transport_Close (px_net x))))) (\<lambda>r2.
     andthen (set_self (\<lambda>p. p\<lparr>pn_Client := None, pn_transport := None\<rparr>)) (\<lambda>_.
     case r1 of Inl e \<Rightarrow> fail e | Inr _ \<Rightarrow> (case r2 of Inl e \<Rightarrow> fail e | Inr _ \<Rightarrow> ret ())))))"

datatype Option = WithTransport nat | WithSSHConfig "SSHConfig option"

definition apply_option :: "'c Provisioner \<Rightarrow> Option \<Rightarrow> 'c Provisioner" where
  "apply_option p opt = (case opt of
       WithTransport a \<Rightarrow> p\<lparr>pn_transport := Some a\<rparr> | WithSSHConfig c \<Rightarrow> p\<lparr>pn_sshConfig := c\<rparr>)"

definition unconnected :: "string \<Rightarrow> string \<Rightarrow> string \<Rightarrow> 'c Provisioner" where
  "unconnected keyPath userName hostUrl = \<lparr>pn_Client = None, pn_HostUrl = hostUrl, pn_UserName = userName,
     pn_KeyPath = keyPath, pn_tpl = [], pn_transport = None, pn_dialer = None, pn_sshConfig = None\<rparr>"

text \<open>The default transport is a new one in the store.\<close>

definition default_transport :: "('s, 'c, unit) node_method" where
  "default_transport st = (case st of ((s, ts), p) \<Rightarrow>
     if pn_transport p = None
     then (Inr (), ((s, ts @ [transportFromSSHConfig (pn_HostUrl p) (pn_KeyPath p) (pn_UserName p) (pn_sshConfig p)]),
       p\<lparr>pn_transport := Some (length ts)\<rparr>))
     else (Inr (), st))"

definition default_dialer :: "('s, 'c, unit) node_method" where
  "default_dialer = set_self (\<lambda>p. if pn_dialer p = None
     then p\<lparr>pn_dialer := Some (dialerFromSSHConfig (pn_KeyPath p) (pn_UserName p) (pn_sshConfig p))\<rparr> else p)"

definition close_transport :: "('s, 'n, 'c) prov_env \<Rightarrow> ('s, 'c, unit) node_method" where
  "close_transport x = andthen (gets snd) (\<lambda>p. case pn_transport p of
       None \<Rightarrow> ret () | Some a \<Rightarrow> on_fst (with_transport a (transport_Close (px_net x))))"

definition connect :: "('s, 'n, 'c) prov_env \<Rightarrow> ('s, 'c, unit) node_method" where
  "connect x =
     andthen default_transport (\<lambda>_.
     andthen default_dialer (\<lambda>_.
     catch (ensureClient x) (\<lambda>e.
       andthen (attempt (close_transport x)) (\<lambda>_.
       andthen (gets snd) (\<lambda>p. fail (''failed to connect to '' @ pn_HostUrl p @ '': '' @ e))))))"

definition Provisioner_New :: "('s, 'n, 'c) prov_env \<Rightarrow> string \<Rightarrow> string \<Rightarrow> string \<Rightarrow> Option list
    \<Rightarrow> (('s, 'c) heap, 'c Provisioner) io" where
  "Provisioner_New x keyPath userName hostUrl opts h =
     (let p = foldl apply_option (unconnected keyPath userName hostUrl) opts in
      case SSHConfig_Validate (pn_sshConfig p) of
        Some e \<Rightarrow> (Inl (''invalid sshConfig: '' @ ssh_error_text e), h)
      | None \<Rightarrow> (case connect x (h, p) of (r, (h', p')) \<Rightarrow> (map_sum id (\<lambda>_. p') r, h')))"

section \<open>Scripts on a node\<close>

definition script_header :: script where
  "script_header = [Shebang, CommonFunctions]"

definition addScriptHeader :: "script \<Rightarrow> script" where
  "addScriptHeader tpl = tpl @ script_header"

definition client_of :: "('s, 'c, 'c) node_method" where
  "client_of = andthen (gets snd) (\<lambda>p. case pn_Client p of None \<Rightarrow> fail nil_dereference | Some c \<Rightarrow> ret c)"

definition new_session :: "('s, 'n, 'c) prov_env \<Rightarrow> ('s, 'c, nat) node_method" where
  "new_session x = andthen client_of (\<lambda>c. wrap ''failed to create session'' (world (px_NewSession x c)))"

definition in_session :: "('s, 'n, 'c) prov_env \<Rightarrow> (nat \<Rightarrow> ('s, 'c, 'a) node_method) \<Rightarrow> ('s, 'c, 'a) node_method" where
  "in_session x f = andthen (new_session x) (\<lambda>i. deferring (world (px_CloseSession x i)) (f i))"

definition run_script :: "('s, 'n, 'c) prov_env \<Rightarrow> nat \<Rightarrow> script \<Rightarrow> ('s, unit) io" where
  "run_script x i sc =
     andthen (wrap ''failed to start session'' (px_Start x i sc)) (\<lambda>_.
     andthen (wrap ''failed to wait for session'' (px_Wait x i)) (\<lambda>_.
     wrap ''failed to copy from reader'' (px_CopyOutput x i)))"

definition provision :: "('s, 'n, 'c) prov_env \<Rightarrow> ('s, 'c, unit) node_method" where
  "provision x =
     andthen (ensureClient x) (\<lambda>_.
     in_session x (\<lambda>i. andthen (gets snd) (\<lambda>p. world (run_script x i (pn_tpl p)))))"

text \<open>\<open>resetConnection\<close>, and the first part of \<open>waitForNodeReboot\<close>.\<close>

definition resetConnection :: "('s, 'n, 'c) prov_env \<Rightarrow> ('s, 'c, unit) node_method" where
  "resetConnection x = andthen (gets snd) (\<lambda>p. case pn_Client p of
       None \<Rightarrow> ret ()
     | Some c \<Rightarrow>
         andthen (world (alive x c)) (\<lambda>b.
         andthen (if b then wrap ''failed to close ssh client'' (world (nt_CloseClient (px_net x) c)) else ret ()) (\<lambda>_.
         set_self (pn_Client_update (\<lambda>_. None)))))"

text \<open>The loop with \<open>n\<close> attempts left.\<close>

fun reboot_loop :: "nat \<Rightarrow> ('s, 'n, 'c) prov_env \<Rightarrow> ('s, 'c, unit) node_method" where
  "reboot_loop 0 x = ret ()"
| "reboot_loop (Suc n) x =
     andthen (world (nt_Sleep (px_net x) (30 * second))) (\<lambda>_.
     catch (ensureClient x) (\<lambda>e.
       if n = 0 then fail ''node did not come back online after 10 attempts'' else reboot_loop n x))"

definition waitForNodeReboot :: "('s, 'n, 'c) prov_env \<Rightarrow> ('s, 'c, unit) node_method" where
  "waitForNodeReboot x = andthen (resetConnection x) (\<lambda>_. reboot_loop 10 x)"

section \<open>Configuration files\<close>

definition remoteKindConfig :: string where
  "remoteKindConfig = ''/etc/kubernetes/kind.yaml''"

definition run_command :: "('s, 'n, 'c) prov_env \<Rightarrow> string \<Rightarrow> string \<Rightarrow> ('s, 'c, unit) node_method" where
  "run_command x text command = in_session x (\<lambda>i. wrap text (world (px_Run x i command)))"

definition createKindConfig :: "('s, 'n, 'c) prov_env \<Rightarrow> Environment \<Rightarrow> ('s, 'c, unit) node_method" where
  "createKindConfig x env = (let path = k_KindConfig (sp_Kubernetes (env_Spec env)) in
     andthen (run_command x ''failed to create remote directory /etc/kubernetes'' ''sudo mkdir -p /etc/kubernetes'') (\<lambda>_.
     in_session x (\<lambda>i. world (
       andthen (wrap (''failed to open remote file '' @ remoteKindConfig) (px_StdinPipe x i)) (\<lambda>_.
       andthen (wrap ''failed to start session'' (px_Start x i [Text (''cat > '' @ remoteKindConfig)])) (\<lambda>_.
       andthen (if \<not> IsAbs path then wrap ''failed to get current working directory'' (px_Getwd x) else ret '''') (\<lambda>cwd.
       andthen (wrap (''failed to open local file '' @ local_path cwd path) (nt_ReadFile (px_net x) (local_path cwd path))) (\<lambda>data.
       andthen (wrap (''failed to copy local file '' @ local_path cwd path @ '' to remote file '' @ remoteKindConfig)
         (px_WriteStdin x i data)) (\<lambda>_.
       andthen (attempt (px_CloseStdin x i)) (\<lambda>_.
       wrap ''failed to wait for command to complete'' (px_Wait x i)))))))))))"

definition kubeadmConfigLocalPath :: "(string \<Rightarrow> string) \<Rightarrow> string \<Rightarrow> string" where
  "kubeadmConfigLocalPath getenv envName =
     Join (Join (Join (getenv ''HOME'') ''.cache'') ''holodeck'') (''kubeadm-config-'' @ envName @ ''.yaml'')"

text \<open>\<open>filepath.Dir\<close>.\<close>

definition Dir :: "string \<Rightarrow> string" where
  "Dir p = Clean (rev (dropWhile (\<lambda>c. c \<noteq> CHR ''/'') (rev p)))"

text \<open>\<open>px_Parse\<close> is \<open>text/template\<close>: the template that a text parses to is the function that runs it.\<close>

definition GenerateKubeadmConfig :: "('s, 'n, 'c) prov_env \<Rightarrow> KubeadmConfig \<Rightarrow> error + string" where
  "GenerateKubeadmConfig x c = (case wrap_error ''failed to parse template'' (px_Parse x (kc_Template c)) of
       Inl e \<Rightarrow> Inl e
     | Inr tmpl \<Rightarrow> wrap_error ''failed to execute template'' (tmpl c (ParseFeatureGates c)))"

definition copyFileToRemoteSFTP :: "('s, 'n, 'c) prov_env \<Rightarrow> string \<Rightarrow> string \<Rightarrow> ('s, 'c, unit) node_method" where
  "copyFileToRemoteSFTP x localPath remotePath =
     andthen client_of (\<lambda>c. world (
     andthen (wrap ''failed to start SFTP session'' (px_NewSFTP x c)) (\<lambda>i.
     deferring (px_CloseSFTP x i) (
     andthen (wrap ''failed to open local file'' (nt_ReadFile (px_net x) localPath)) (\<lambda>data.
     andthen (wrap ''failed to create remote file'' (px_CreateRemote x i remotePath)) (\<lambda>f.
     deferring (px_CloseRemote x f) (wrap ''failed to copy file content'' (px_WriteRemote x f data))))))))"

definition createKubeAdmConfig :: "('s, 'n, 'c) prov_env \<Rightarrow> Environment \<Rightarrow> ('s, 'c, unit) node_method" where
  "createKubeAdmConfig x env =
     (let localPath = kubeadmConfigLocalPath (nt_Getenv (px_net x)) (env_Name env) in
      andthen (wrap ''failed to create local cache directory'' (world (px_MkdirAll x (Dir localPath)))) (\<lambda>_.
      andthen (wrap ''failed to create kubeadm config''
        (world (NewKubeadmConfig (px_Getwd x) (nt_ReadFile (px_net x)) env))) (\<lambda>c.
      andthen (wrap ''failed to generate kubeadm config'' (lift_script (GenerateKubeadmConfig x c))) (\<lambda>content.
      andthen (wrap ''failed to write kubeadm config to local file'' (world (px_WriteFile x localPath content))) (\<lambda>_.
      andthen (wrap ''failed to copy kubeadm config to remote host''
        (copyFileToRemoteSFTP x localPath ''/tmp/kubeadm-config.yaml'')) (\<lambda>_.
      andthen (run_command x ''failed to create directory on remote host'' ''sudo mkdir -p /etc/kubernetes'') (\<lambda>_.
      run_command x ''failed to move kubeadm config to final destination''
        ''sudo mv /tmp/kubeadm-config.yaml /etc/kubernetes/kubeadm-config.yaml'')))))))"

section \<open>Run\<close>

definition set_endpoint :: "string \<Rightarrow> Environment \<Rightarrow> Environment" where
  "set_endpoint host env = env\<lparr>env_Spec := (env_Spec env)\<lparr>sp_Kubernetes :=
     (sp_Kubernetes (env_Spec env))\<lparr>k_K8sEndpointHost := host\<rparr>\<rparr>\<rparr>"

definition kubeadm_files :: "('s, 'n, 'c) prov_env \<Rightarrow> Environment \<Rightarrow> ('s, 'c, unit) node_method" where
  "kubeadm_files x env =
     andthen (wrap ''failed to create kubernetes template'' (lift_script (NewKubernetes env))) (\<lambda>k.
     if \<not> kt_UseLegacyInit k then wrap ''failed to create kubeadm config file'' (createKubeAdmConfig x env) else ret ())"

text \<open>One round of the loop: the script of a step, and a fresh connection after it.\<close>

definition run_dependency :: "('s, 'n, 'c) prov_env \<Rightarrow> DependencyResolver \<Rightarrow> Environment \<Rightarrow> ProvisionFunc \<Rightarrow> ('s, 'c, unit) node_method" where
  "run_dependency x d env f =
     andthen (set_self (pn_tpl_update addScriptHeader)) (\<lambda>_.
     andthen (wrap ''failed to execute template'' (world (run_step (px_steps x) d f env))) (\<lambda>sc.
     andthen (set_self (pn_tpl_update (\<lambda>tpl. tpl @ sc))) (\<lambda>_.
     andthen (wrap ''failed to provision'' (provision x)) (\<lambda>_.
     andthen (if kn_Version (sp_Kernel (env_Spec env)) \<noteq> '''' then waitForNodeReboot x
        else wrap ''failed to reset connection'' (resetConnection x)) (\<lambda>_.
     set_self (pn_tpl_update (\<lambda>_. [])))))))"

text \<open>The resolver works on the variable that holds the environment, so that it sees the endpoint,
  and the steps see the Docker version that it may set.\<close>

definition Provisioner_Run :: "('s, 'n, 'c) prov_env \<Rightarrow> Environment \<Rightarrow> ('s, 'c, ComponentsStatus option) node_method" where
  "Provisioner_Run x env0 = (case ValidateTemplateInputs env0 of
       Some e \<Rightarrow> fail (''template input validation failed: '' @ e)
     | None \<Rightarrow>
       andthen (gets snd) (\<lambda>p.
       let installer = k_KubernetesInstaller (sp_Kubernetes (env_Spec env0));
           env1 = (if installer = ''kubeadm'' then set_endpoint (pn_HostUrl p) env0 else env0) in
       andthen (if installer = ''kubeadm'' then kubeadm_files x env1 else ret ()) (\<lambda>_.
       andthen (if installer = ''kind'' \<and> k_KindConfig (sp_Kubernetes (env_Spec env1)) \<noteq> ''''
          then wrap ''failed to create kind config file'' (createKindConfig x env1) else ret ()) (\<lambda>_.
       case Resolve (NewDependencies env1) of (steps, d) \<Rightarrow>
       andthen (for_each (run_dependency x d (dr_env d)) steps) (\<lambda>_.
       ret (BuildComponentsStatus (dr_env d)))))))"

end
