(* ===== verification/Cluster_Provisioner.thy ===== *)
theory Cluster_Provisioner
  imports Provisioner
begin

text \<open>
  \<open>pkg/provisioner/cluster.go\<close>: the provisioning of a cluster (base dependencies on all nodes, kubeadm
  init on the first control-plane node, joins, labels) and the check of its health.

  The goroutines of an \<open>errgroup\<close> run one after the other, in an order that a parameter picks. A
  transport is an address in the store that the nodes share. The environment is never nil here.
\<close>

section \<open>State\<close>

record ClusterProvisioner =
  kp_KeyPath :: string
  kp_UserName :: string
  kp_Environment :: Environment
  kp_JoinToken :: string
  kp_CertificateKey :: string
  kp_ControlPlaneEndpoint :: string
  kp_CACertHash :: string
  kp_err :: "error option"

record NodeInfo =
  np_Name :: string
  np_PublicIP :: string
  np_PrivateIP :: string
  np_Role :: string
  np_SSHUsername :: string
  np_InstanceID :: string
  np_Transport :: "nat option"

type_synonym ('s, 'c, 'a) cluster_method =
  "('s, 'c) heap \<times> ClusterProvisioner \<Rightarrow> (error + 'a) \<times> ('s, 'c) heap \<times> ClusterProvisioner"

definition NewClusterProvisioner :: "string \<Rightarrow> string \<Rightarrow> Environment \<Rightarrow> ClusterProvisioner" where
  "NewClusterProvisioner keyPath userName env = \<lparr>kp_KeyPath = keyPath, kp_UserName = userName, kp_Environment = env,
     kp_JoinToken = '''', kp_CertificateKey = '''', kp_ControlPlaneEndpoint = '''', kp_CACertHash = '''',
     kp_err = map_option ssh_error_text (ValidateSSHConfigMode (env_Spec env))\<rparr>"

definition getUsernameForNode :: "ClusterProvisioner \<Rightarrow> NodeInfo \<Rightarrow> string" where
  "getUsernameForNode cp node = or_default (np_SSHUsername node) (kp_UserName cp)"

definition transportOptsForNode :: "NodeInfo \<Rightarrow> Option list" where
  "transportOptsForNode node = (case np_Transport node of Some a \<Rightarrow> [WithTransport a] | None \<Rightarrow> [])"

definition hostForNode :: "NodeInfo \<Rightarrow> string" where
  "hostForNode node = (if np_Transport node \<noteq> None then np_PrivateIP node else np_PublicIP node)"

definition cluster_isHAEnabled :: "ClusterProvisioner \<Rightarrow> bool" where
  "cluster_isHAEnabled cp = (case sp_Cluster (env_Spec (kp_Environment cp)) of
       None \<Rightarrow> False
     | Some c \<Rightarrow> (case cl_HighAvailability c of None \<Rightarrow> False | Some h \<Rightarrow> ha_Enabled h))"

definition determineControlPlaneEndpoint :: "ClusterProvisioner \<Rightarrow> NodeInfo \<Rightarrow> string" where
  "determineControlPlaneEndpoint cp firstCP = (case st_Cluster (env_Status (kp_Environment cp)) of
       Some c \<Rightarrow> or_default (cs_LoadBalancerDNS c) (np_PrivateIP firstCP)
     | None \<Rightarrow> np_PrivateIP firstCP)"

definition with_role :: "string \<Rightarrow> string gomap \<Rightarrow> string gomap" where
  "with_role role custom = foldl (\<lambda>m (k, v). AList.update k v m) [(''nvidia.com/holodeck.role'', role)] custom"

definition getControlPlaneLabels :: "ClusterProvisioner \<Rightarrow> string gomap" where
  "getControlPlaneLabels cp = with_role ''control-plane''
     (case sp_Cluster (env_Spec (kp_Environment cp)) of None \<Rightarrow> [] | Some c \<Rightarrow> cp_Labels (cl_ControlPlane c))"

definition getWorkerLabels :: "ClusterProvisioner \<Rightarrow> string gomap" where
  "getWorkerLabels cp = with_role ''worker''
     (case sp_Cluster (env_Spec (kp_Environment cp)) of None \<Rightarrow> []
      | Some c \<Rightarrow> (case cl_Workers c of None \<Rightarrow> [] | Some w \<Rightarrow> wp_Labels w))"

definition isControlPlaneDedicated :: "ClusterProvisioner \<Rightarrow> bool" where
  "isControlPlaneDedicated cp = (case sp_Cluster (env_Spec (kp_Environment cp)) of
       None \<Rightarrow> False | Some c \<Rightarrow> cp_Dedicated (cl_ControlPlane c))"

section \<open>Connecting to nodes\<close>

definition new_for_node :: "('s, 'n, 'c) prov_env \<Rightarrow> ClusterProvisioner \<Rightarrow> NodeInfo \<Rightarrow> (('s, 'c) heap, 'c Provisioner) io" where
  "new_for_node x cp node = wrap (''failed to connect to '' @ np_Name node)
     (Provisioner_New x (kp_KeyPath cp) (getUsernameForNode cp node) (hostForNode node) (transportOptsForNode node))"

text \<open>A method on a provisioner that the caller goes on with, whether or not the method failed.\<close>

definition on_node :: "('s, 'c, 'a) node_method \<Rightarrow> 'c Provisioner \<Rightarrow> (('s, 'c) heap, (error + 'a) \<times> 'c Provisioner) io" where
  "on_node m p h = (case m (h, p) of (r, (h', p')) \<Rightarrow> (Inr (r, p'), h'))"

definition raise_error :: "string \<Rightarrow> error + 'a \<Rightarrow> ('s, 'a) io" where
  "raise_error t r = (case r of Inl e \<Rightarrow> fail (t @ '': '' @ e) | Inr v \<Rightarrow> ret v)"

definition close_client :: "('s, 'n, 'c) prov_env \<Rightarrow> 'c Provisioner \<Rightarrow> (('s, 'c) heap, unit) io" where
  "close_client x p = (case pn_Client p of
       None \<Rightarrow> ret ()
     | Some c \<Rightarrow> andthen (attempt (on_fst (nt_CloseClient (px_net x) c))) (\<lambda>_. ret ()))"

definition close_own_transport :: "('s, 'n, 'c) prov_env \<Rightarrow> 'c Provisioner \<Rightarrow> (('s, 'c) heap, unit) io" where
  "close_own_transport x p = (case pn_transport p of
       None \<Rightarrow> ret ()
     | Some a \<Rightarrow> andthen (attempt (with_transport a (transport_Close (px_net x)))) (\<lambda>_. ret ()))"

text \<open>A session on the client of a provisioner, closed in the end.\<close>

definition open_session :: "('s, 'n, 'c) prov_env \<Rightarrow> 'c Provisioner \<Rightarrow> (('s, 'c) heap, nat) io" where
  "open_session x p = (case pn_Client p of None \<Rightarrow> fail nil_dereference | Some c \<Rightarrow> on_fst (px_NewSession x c))"

definition closing_session :: "('s, 'n, 'c) prov_env \<Rightarrow> nat \<Rightarrow> ('s, 'a) io \<Rightarrow> (('s, 'c) heap, 'a) io" where
  "closing_session x i m = on_fst (deferring (px_CloseSession x i) m)"

definition session_on :: "('s, 'n, 'c) prov_env \<Rightarrow> 'c Provisioner \<Rightarrow> (nat \<Rightarrow> ('s, 'a) io) \<Rightarrow> (('s, 'c) heap, 'a) io" where
  "session_on x p f = andthen (wrap ''failed to create session'' (open_session x p)) (\<lambda>i. closing_session x i (f i))"

text \<open>\<open>errgroup\<close>: every goroutine runs to its end, and the first error is the result.\<close>

fun errgroup :: "('s, unit) io list \<Rightarrow> ('s, unit) io" where
  "errgroup [] = ret ()"
| "errgroup (m # ms) = andthen (attempt m) (\<lambda>r. case r of
       Inr _ \<Rightarrow> errgroup ms
     | Inl e \<Rightarrow> andthen (attempt (errgroup ms)) (\<lambda>_. fail e))"

section \<open>Base dependencies\<close>

definition without_kubernetes :: "Environment \<Rightarrow> Environment" where
  "without_kubernetes env = env\<lparr>env_Spec := (env_Spec env)\<lparr>sp_Kubernetes :=
     (sp_Kubernetes (env_Spec env))\<lparr>k_Install := False\<rparr>\<rparr>\<rparr>"

definition provision_base :: "('s, 'n, 'c) prov_env \<Rightarrow> ClusterProvisioner \<Rightarrow> NodeInfo \<Rightarrow> (('s, 'c) heap, unit) io" where
  "provision_base x cp node =
     andthen (new_for_node x cp node) (\<lambda>p.
     andthen (on_node (Provisioner_Run x (without_kubernetes (kp_Environment cp))) p) (\<lambda>(r, p').
     andthen (close_client x p') (\<lambda>_.
     andthen (raise_error (''failed to provision base on '' @ np_Name node) r) (\<lambda>_. ret ()))))"

definition installK8sPrereqs :: "('s, 'n, 'c) prov_env \<Rightarrow> ClusterProvisioner \<Rightarrow> NodeInfo \<Rightarrow> (('s, 'c) heap, unit) io" where
  "installK8sPrereqs x cp node =
     andthen (new_for_node x cp node) (\<lambda>p.
     deferring (andthen (close_client x p) (\<lambda>_. close_own_transport x p)) (
     andthen (raise_error ''failed to generate K8s prereq script'' (KubeadmPrereq_Execute (kp_Environment cp))) (\<lambda>sc.
     session_on x p (\<lambda>i.
       andthen (wrap ''failed to start script'' (px_Start x i (addScriptHeader [] @ sc))) (\<lambda>_.
       wrap ''failed to run K8s prereq script'' (px_Wait x i))))))"

definition provisionBaseOnAllNodes :: "('s, 'n, 'c) prov_env \<Rightarrow> (NodeInfo list \<Rightarrow> NodeInfo list)
    \<Rightarrow> (NodeInfo list \<Rightarrow> NodeInfo list) \<Rightarrow> ClusterProvisioner \<Rightarrow> NodeInfo list \<Rightarrow> (('s, 'c) heap, unit) io" where
  "provisionBaseOnAllNodes x order1 order2 cp nodes =
     andthen (errgroup (map (provision_base x cp) (order1 nodes))) (\<lambda>_.
     errgroup (map (installK8sPrereqs x cp) (order2 nodes)))"

section \<open>Init and join\<close>

text \<open>A new provisioner for a node whose first client is closed in the end.\<close>

definition with_node :: "('s, 'n, 'c) prov_env \<Rightarrow> NodeInfo \<Rightarrow> ('c Provisioner \<Rightarrow> ('s, 'c, 'a) cluster_method) \<Rightarrow> ('s, 'c, 'a) cluster_method" where
  "with_node x node f =
     andthen (gets snd) (\<lambda>cp.
     andthen (on_fst (new_for_node x cp node)) (\<lambda>p.
     deferring (on_fst (close_client x p)) (f p)))"

definition set_cluster :: "(ClusterProvisioner \<Rightarrow> ClusterProvisioner) \<Rightarrow> ('s, 'c, unit) cluster_method" where
  "set_cluster f = modify (map_prod id f)"

text \<open>Run a script through \<open>provision\<close>; the provisioner may have a new client afterwards.\<close>

definition provision_script :: "('s, 'n, 'c) prov_env \<Rightarrow> string \<Rightarrow> 'c Provisioner \<Rightarrow> script \<Rightarrow> ('s, 'c, 'c Provisioner) cluster_method" where
  "provision_script x text p sc =
     andthen (on_fst (on_node (provision x) (p\<lparr>pn_tpl := addScriptHeader [] @ sc\<rparr>))) (\<lambda>(r, p').
     andthen (raise_error text r) (\<lambda>_. ret p'))"

abbreviation dquote :: char where
  "dquote \<equiv> CHR 0x22"

definition join_script :: "bool \<Rightarrow> string" where
  "join_script isHA =
     ''set -e'' @ nl
     @ ''TOKEN=$(sudo kubeadm token create --ttl 2h)'' @ nl
     @ ''HASH=$(openssl x509 -pubkey -in /etc/kubernetes/pki/ca.crt | openssl rsa -pubin -outform der 2>/dev/null | openssl dgst -sha256 -hex | sed ''
     @ [quote] @ ''s/^.* //'' @ [quote] @ '')'' @ nl
     @ ''CERTKEY='' @ [dquote, dquote] @ nl
     @ ''if [ '' @ [dquote] @ (if isHA then ''true'' else ''false'') @ [dquote] @ '' = '' @ [dquote] @ ''true'' @ [dquote] @ '' ]; then'' @ nl
     @ ''  CERTKEY=$(sudo kubeadm init phase upload-certs --upload-certs 2>/dev/null | tail -1)'' @ nl
     @ ''fi'' @ nl
     @ ''printf '' @ [quote] @ ''%s'' @ [backslash] @ ''n%s'' @ [backslash] @ ''n%s'' @ [quote]
     @ '' '' @ [dquote] @ ''$TOKEN'' @ [dquote] @ '' '' @ [dquote] @ ''$HASH'' @ [dquote] @ '' '' @ [dquote] @ ''$CERTKEY'' @ [dquote] @ nl"

text \<open>The token, the digest of the certificate and the certificate key in the output, if there is one.\<close>

definition parse_join_info :: "string \<Rightarrow> error + string \<times> string \<times> string option" where
  "parse_join_info out = (case split_on (CHR 0x0A) (TrimSpace out) of
       token # hash # rest \<Rightarrow> Inr (TrimSpace token, ''sha256:'' @ TrimSpace hash,
         (case rest of [] \<Rightarrow> None | key # _ \<Rightarrow> if TrimSpace key \<noteq> '''' then Some (TrimSpace key) else None))
     | _ \<Rightarrow> Inl (''unexpected join credentials output: '' @ out))"

definition extractJoinInfo :: "('s, 'n, 'c) prov_env \<Rightarrow> 'c Provisioner \<Rightarrow> ('s, 'c, unit) cluster_method" where
  "extractJoinInfo x p =
     andthen (gets snd) (\<lambda>cp.
     andthen (on_fst (session_on x p (\<lambda>i. wrap ''failed to extract join credentials''
       (px_CombinedOutput x i [Text (join_script (cluster_isHAEnabled cp))])))) (\<lambda>out.
     case parse_join_info out of
       Inl e \<Rightarrow> fail e
     | Inr (token, hash, key) \<Rightarrow> set_cluster (\<lambda>cp. cp\<lparr>kp_JoinToken := token, kp_CACertHash := hash,
         kp_CertificateKey := (case key of Some k \<Rightarrow> k | None \<Rightarrow> kp_CertificateKey cp)\<rparr>)))"

definition initFirstControlPlane :: "('s, 'n, 'c) prov_env \<Rightarrow> NodeInfo \<Rightarrow> ('s, 'c, unit) cluster_method" where
  "initFirstControlPlane x node = with_node x node (\<lambda>p.
     andthen (set_cluster (\<lambda>cp. cp\<lparr>kp_Environment := set_endpoint (kp_ControlPlaneEndpoint cp) (kp_Environment cp)\<rparr>)) (\<lambda>_.
     andthen (gets snd) (\<lambda>cp.
     andthen (raise_error ''failed to generate kubeadm init script''
       (KubeadmInit_Execute (kp_Environment cp) (kp_ControlPlaneEndpoint cp) (cluster_isHAEnabled cp))) (\<lambda>sc.
     andthen (provision_script x ''failed to run kubeadm init'' p sc) (\<lambda>p'.
     wrap ''failed to extract join info'' (extractJoinInfo x p'))))))"

definition join_config :: "bool \<Rightarrow> ClusterProvisioner \<Rightarrow> KubeadmJoinConfig" where
  "join_config isControlPlane cp = \<lparr>kj_ControlPlaneEndpoint = kp_ControlPlaneEndpoint cp, kj_Token = kp_JoinToken cp,
     kj_CACertHash = kp_CACertHash cp, kj_CertificateKey = (if isControlPlane then kp_CertificateKey cp else ''''),
     kj_IsControlPlane = isControlPlane\<rparr>"

definition join_node :: "bool \<Rightarrow> ('s, 'n, 'c) prov_env \<Rightarrow> NodeInfo \<Rightarrow> ('s, 'c, unit) cluster_method" where
  "join_node isControlPlane x node = with_node x node (\<lambda>p.
     andthen (gets snd) (\<lambda>cp.
     andthen (raise_error ''failed to generate kubeadm join script'' (KubeadmJoin_Execute (join_config isControlPlane cp))) (\<lambda>sc.
     andthen (provision_script x ''failed to run kubeadm join'' p sc) (\<lambda>_. ret ()))))"

definition joinControlPlane :: "('s, 'n, 'c) prov_env \<Rightarrow> NodeInfo \<Rightarrow> ('s, 'c, unit) cluster_method" where
  "joinControlPlane = join_node True"

definition joinWorker :: "('s, 'n, 'c) prov_env \<Rightarrow> NodeInfo \<Rightarrow> ('s, 'c, unit) cluster_method" where
  "joinWorker = join_node False"

section \<open>Labels and taints\<close>

definition label_lines :: "string \<Rightarrow> string gomap \<Rightarrow> string" where
  "label_lines var labels = concat (map (\<lambda>(k, v).
     ''  sudo -E kubectl label node '' @ [dquote] @ ''$'' @ var @ [dquote] @ '' '' @ k @ ''='' @ v @ '' --overwrite'' @ nl) labels)"

definition find_node_lines :: "string \<Rightarrow> string \<Rightarrow> string" where
  "find_node_lines var ip =
     var @ ''=$(sudo -E kubectl get nodes -o wide --no-headers | grep -w '' @ [quote] @ ip @ [quote]
     @ '' | awk '' @ [quote] @ ''{print $1}'' @ [quote] @ '')'' @ nl
     @ ''if [ -n '' @ [dquote] @ ''$'' @ var @ [dquote] @ '' ]; then'' @ nl"

definition control_plane_lines :: "string gomap \<Rightarrow> bool \<Rightarrow> NodeInfo \<Rightarrow> string" where
  "control_plane_lines labels dedicated node =
     ''echo '' @ [quote] @ ''Configuring control-plane node with IP '' @ np_PrivateIP node @ ''...'' @ [quote] @ nl
     @ find_node_lines ''CP_NODE'' (np_PrivateIP node)
     @ label_lines ''CP_NODE'' labels
     @ (if dedicated then ''  echo '' @ [quote] @ ''Control-plane is dedicated, keeping NoSchedule taint'' @ [quote] @ nl
        else ''  sudo -E kubectl taint nodes '' @ [dquote] @ ''$CP_NODE'' @ [dquote]
          @ '' node-role.kubernetes.io/control-plane:NoSchedule- 2>/dev/null || true'' @ nl
          @ ''  echo '' @ [quote] @ ''Removed NoSchedule taint from control-plane'' @ [quote] @ nl)
     @ ''fi'' @ nl @ nl"

definition worker_lines :: "string gomap \<Rightarrow> NodeInfo \<Rightarrow> string" where
  "worker_lines labels node =
     ''echo '' @ [quote] @ ''Configuring worker node with IP '' @ np_PrivateIP node @ ''...'' @ [quote] @ nl
     @ find_node_lines ''WORKER_NODE'' (np_PrivateIP node)
     @ ''  sudo -E kubectl label node '' @ [dquote] @ ''$WORKER_NODE'' @ [dquote] @ '' node-role.kubernetes.io/worker= --overwrite'' @ nl
     @ label_lines ''WORKER_NODE'' labels
     @ ''fi'' @ nl @ nl"

definition wait_lines :: "nat \<Rightarrow> string" where
  "wait_lines n =
     ''#!/bin/bash'' @ nl @ ''set -e'' @ nl @ ''export KUBECONFIG=/etc/kubernetes/admin.conf'' @ nl @ nl
     @ ''echo '' @ [quote] @ ''Waiting for all '' @ decimal n @ '' nodes to register...'' @ [quote] @ nl
     @ ''for i in {1..60}; do'' @ nl
     @ ''  NODE_COUNT=$(sudo -E kubectl get nodes --no-headers 2>/dev/null | wc -l)'' @ nl
     @ ''  if [ '' @ [dquote] @ ''$NODE_COUNT'' @ [dquote] @ '' -ge '' @ decimal n @ '' ]; then break; fi'' @ nl
     @ ''  sleep 5'' @ nl @ ''done'' @ nl @ nl
     @ ''echo '' @ [quote] @ ''Applying holodeck managed label to all nodes...'' @ [quote] @ nl
     @ ''sudo -E kubectl label nodes --all nvidia.com/holodeck.managed=true --overwrite'' @ nl @ nl"

definition configure_script :: "ClusterProvisioner \<Rightarrow> NodeInfo list \<Rightarrow> string" where
  "configure_script cp nodes =
     wait_lines (length nodes)
     @ concat (map (control_plane_lines (getControlPlaneLabels cp) (isControlPlaneDedicated cp))
         (filter (\<lambda>n. np_Role n = ''control-plane'') nodes))
     @ concat (map (worker_lines (getWorkerLabels cp)) (filter (\<lambda>n. np_Role n = ''worker'') nodes))
     @ ''echo '' @ [quote] @ ''Waiting for all nodes to be Ready...'' @ [quote] @ nl
     @ ''sudo -E kubectl wait --for=condition=ready nodes --all --timeout=300s'' @ nl
     @ ''echo '' @ [quote] @ ''All nodes configured successfully'' @ [quote] @ nl
     @ ''sudo -E kubectl get nodes -o wide'' @ nl"

definition bad_address :: "NodeInfo list \<Rightarrow> error option" where
  "bad_address nodes = map_option (\<lambda>n. ''invalid private IP for node '' @ np_Name n @ '': '' @ quoted (np_PrivateIP n))
     (find (\<lambda>n. ParseIP (np_PrivateIP n) = None) nodes)"

definition configureNodes :: "('s, 'n, 'c) prov_env \<Rightarrow> NodeInfo \<Rightarrow> NodeInfo list \<Rightarrow> ('s, 'c, unit) cluster_method" where
  "configureNodes x firstCP nodes = with_node x firstCP (\<lambda>p.
     case bad_address nodes of
       Some e \<Rightarrow> fail e
     | None \<Rightarrow> andthen (gets snd) (\<lambda>cp.
         andthen (on_fst (session_on x p (\<lambda>i. wrap ''failed to configure nodes''
           (px_CombinedOutput x i [Text (configure_script cp nodes)])))) (\<lambda>_. ret ())))"

section \<open>The whole cluster\<close>

definition join_all :: "('s, 'n, 'c) prov_env \<Rightarrow> NodeInfo list \<Rightarrow> NodeInfo list \<Rightarrow> ('s, 'c, unit) cluster_method" where
  "join_all x others workers =
     andthen (for_each (\<lambda>n. wrap (''failed to join control-plane '' @ np_Name n) (joinControlPlane x n)) others) (\<lambda>_.
     for_each (\<lambda>n. wrap (''failed to join worker '' @ np_Name n) (joinWorker x n)) workers)"

definition ProvisionCluster :: "('s, 'n, 'c) prov_env \<Rightarrow> (NodeInfo list \<Rightarrow> NodeInfo list) \<Rightarrow> (NodeInfo list \<Rightarrow> NodeInfo list)
    \<Rightarrow> NodeInfo list \<Rightarrow> ('s, 'c, unit) cluster_method" where
  "ProvisionCluster x order1 order2 nodes =
     andthen (gets snd) (\<lambda>cp. case kp_err cp of
       Some e \<Rightarrow> fail e
     | None \<Rightarrow>
       if nodes = [] then fail ''no nodes to provision''
       else (case filter (\<lambda>n. np_Role n = ''control-plane'') nodes of
         [] \<Rightarrow> fail ''at least one control-plane node is required''
       | first # others \<Rightarrow>
         andthen (set_cluster (\<lambda>cp. cp\<lparr>kp_ControlPlaneEndpoint := determineControlPlaneEndpoint cp first\<rparr>)) (\<lambda>_.
         andthen (gets snd) (\<lambda>cp.
         andthen (wrap ''failed to provision base dependencies'' (on_fst (provisionBaseOnAllNodes x order1 order2 cp nodes))) (\<lambda>_.
         andthen (wrap ''failed to initialize first control-plane'' (initFirstControlPlane x first)) (\<lambda>_.
         andthen (join_all x others (filter (\<lambda>n. np_Role n \<noteq> ''control-plane'') nodes)) (\<lambda>_.
         wrap ''failed to configure nodes'' (configureNodes x first nodes))))))))"

section \<open>Health\<close>

record NodeHealth =
  nh_Name :: string
  nh_Role :: string
  nh_Ready :: bool
  nh_Status :: string
  nh_Version :: string
  nh_InternalIP :: string

record ClusterHealth =
  hl_Healthy :: bool
  hl_TotalNodes :: nat
  hl_ReadyNodes :: nat
  hl_ControlPlanes :: nat
  hl_Workers :: nat
  hl_APIServerStatus :: string
  hl_Nodes :: "NodeHealth list"
  hl_Message :: string

definition zero_ClusterHealth :: ClusterHealth where
  "zero_ClusterHealth = \<lparr>hl_Healthy = False, hl_TotalNodes = 0, hl_ReadyNodes = 0, hl_ControlPlanes = 0,
     hl_Workers = 0, hl_APIServerStatus = '''', hl_Nodes = [], hl_Message = ''''\<rparr>"

text \<open>\<open>strings.Fields\<close> on ASCII.\<close>

fun fields_from :: "string \<Rightarrow> string \<Rightarrow> string list" where
  "fields_from w [] = (if w = '''' then [] else [w])"
| "fields_from w (c # s) =
     (if is_space c then (if w = '''' then fields_from '''' s else w # fields_from '''' s)
      else fields_from (w @ [c]) s)"

definition Fields :: "string \<Rightarrow> string list" where
  "Fields s = fields_from '''' s"

text \<open>A line of the node list with at least six columns.\<close>

definition node_health :: "string \<Rightarrow> NodeHealth option" where
  "node_health line = (case Fields line of
       name # status # roles # _ # version # ip # _ \<Rightarrow> Some \<lparr>nh_Name = name,
         nh_Role = (if contains roles ''control-plane'' then ''control-plane'' else ''worker''),
         nh_Ready = (status = ''Ready''), nh_Status = status, nh_Version = version, nh_InternalIP = ip\<rparr>
     | _ \<Rightarrow> None)"

definition add_node :: "ClusterHealth \<Rightarrow> string \<Rightarrow> ClusterHealth" where
  "add_node h line = (case node_health line of
       None \<Rightarrow> h
     | Some n \<Rightarrow> h\<lparr>hl_ControlPlanes := hl_ControlPlanes h + (if nh_Role n = ''control-plane'' then 1 else 0),
         hl_Workers := hl_Workers h + (if nh_Role n = ''control-plane'' then 0 else 1),
         hl_Nodes := hl_Nodes h @ [n], hl_TotalNodes := hl_TotalNodes h + 1,
         hl_ReadyNodes := hl_ReadyNodes h + (if nh_Ready n then 1 else 0)\<rparr>)"

definition judge :: "ClusterHealth \<Rightarrow> ClusterHealth" where
  "judge h =
     (let healthy = (hl_ReadyNodes h = hl_TotalNodes h \<and> hl_TotalNodes h > 0 \<and> hl_APIServerStatus h = ''Running'');
          counts = decimal (hl_ReadyNodes h) @ ''/'' @ decimal (hl_TotalNodes h) @ '' nodes ready'' in
      h\<lparr>hl_Healthy := healthy,
        hl_Message := (if healthy then ''Cluster healthy: '' @ counts
          else if hl_TotalNodes h = 0 then ''No nodes found in cluster'' else ''Cluster degraded: '' @ counts)\<rparr>)"

text \<open>The health that the two outputs show; the empty lines have no columns.\<close>

definition health_of :: "string \<Rightarrow> string \<Rightarrow> ClusterHealth" where
  "health_of apiOut nodeOut = judge (foldl add_node
     (zero_ClusterHealth\<lparr>hl_APIServerStatus := (if contains apiOut ''is running'' then ''Running'' else ''Unknown'')\<rparr>)
     (split_on (CHR 0x0A) (TrimSpace nodeOut)))"

definition status_nodes :: "ClusterProvisioner \<Rightarrow> NodeStatus list" where
  "status_nodes cp = (case st_Cluster (env_Status (kp_Environment cp)) of None \<Rightarrow> [] | Some c \<Rightarrow> cs_Nodes c)"

definition health_username :: "ClusterProvisioner \<Rightarrow> string \<Rightarrow> string" where
  "health_username cp host = (case find (\<lambda>n. (ns_PublicIP n = host \<or> ns_PrivateIP n = host) \<and> ns_SSHUsername n \<noteq> '''')
       (status_nodes cp) of Some n \<Rightarrow> ns_SSHUsername n | None \<Rightarrow> kp_UserName cp)"

text \<open>The node that is built for the transport options has no transport, so there are no options.\<close>

definition health_options :: "ClusterProvisioner \<Rightarrow> string \<Rightarrow> Option list" where
  "health_options cp host = (case find (\<lambda>n. ns_PublicIP n = host \<or> ns_PrivateIP n = host) (status_nodes cp) of
       None \<Rightarrow> []
     | Some n \<Rightarrow> transportOptsForNode \<lparr>np_Name = '''', np_PublicIP = ns_PublicIP n, np_PrivateIP = ns_PrivateIP n,
         np_Role = '''', np_SSHUsername = '''', np_InstanceID = ns_InstanceID n, np_Transport = None\<rparr>)"

text \<open>One command in a session of its own: the error of the session, or the outcome of the command.\<close>

definition one_command :: "('s, 'n, 'c) prov_env \<Rightarrow> 'c Provisioner \<Rightarrow> string \<Rightarrow> (('s, 'c) heap, error + string) io" where
  "one_command x p command = andthen (open_session x p) (\<lambda>i.
     closing_session x i (attempt (px_CombinedOutput x i [Text command])))"

definition check_health :: "('s, 'n, 'c) prov_env \<Rightarrow> 'c Provisioner \<Rightarrow> (('s, 'c) heap, ClusterHealth) io" where
  "check_health x p =
     andthen (attempt (one_command x p
       ''sudo kubectl --kubeconfig=/etc/kubernetes/admin.conf cluster-info 2>&1 | head -1'')) (\<lambda>r1.
     case r1 of
       Inl e \<Rightarrow> ret (zero_ClusterHealth\<lparr>hl_Message := ''Failed to create session: '' @ e\<rparr>)
     | Inr (Inl _) \<Rightarrow> ret (zero_ClusterHealth\<lparr>hl_APIServerStatus := ''Unreachable'',
         hl_Message := ''Kubernetes API server is not responding''\<rparr>)
     | Inr (Inr apiOut) \<Rightarrow>
       andthen (attempt (one_command x p
         ''sudo kubectl --kubeconfig=/etc/kubernetes/admin.conf get nodes -o wide --no-headers 2>/dev/null'')) (\<lambda>r2.
       let h = zero_ClusterHealth\<lparr>hl_APIServerStatus := (if contains apiOut ''is running'' then ''Running'' else ''Unknown'')\<rparr> in
       case r2 of
         Inl e \<Rightarrow> ret (h\<lparr>hl_Message := ''Failed to create session: '' @ e\<rparr>)
       | Inr (Inl _) \<Rightarrow> ret (h\<lparr>hl_Message := ''Failed to get node status''\<rparr>)
       | Inr (Inr nodeOut) \<Rightarrow> ret (health_of apiOut nodeOut)))"

definition GetClusterHealth :: "('s, 'n, 'c) prov_env \<Rightarrow> ClusterProvisioner \<Rightarrow> string \<Rightarrow> (('s, 'c) heap, ClusterHealth) io" where
  "GetClusterHealth x cp host = (case kp_err cp of
       Some e \<Rightarrow> fail e
     | None \<Rightarrow>
       andthen (attempt (Provisioner_New x (kp_KeyPath cp) (health_username cp host) host (health_options cp host))) (\<lambda>r.
       case r of
         Inl e \<Rightarrow> ret (zero_ClusterHealth\<lparr>hl_Message := ''Failed to connect to control-plane: '' @ e\<rparr>)
       | Inr p \<Rightarrow> deferring (andthen (close_client x p) (\<lambda>_. close_own_transport x p)) (check_health x p)))"

definition GetClusterHealthFromEnv :: "('s, 'n, 'c) prov_env \<Rightarrow> Environment \<Rightarrow> (('s, 'c) heap, ClusterHealth) io" where
  "GetClusterHealthFromEnv x env = (case (sp_Cluster (env_Spec env), st_Cluster (env_Status env)) of
       (Some _, Some status) \<Rightarrow>
         (let host = (case find (\<lambda>n. ns_Role n = ''control-plane'') (cs_Nodes status) of
                None \<Rightarrow> '''' | Some n \<Rightarrow> or_default (ns_PublicIP n) (ns_PrivateIP n)) in
          if host = '''' then fail ''no control-plane node found''
          else GetClusterHealth x (NewClusterProvisioner (au_PrivateKey (sp_Auth (env_Spec env)))
            (au_Username (sp_Auth (env_Spec env))) env) host)
     | _ \<Rightarrow> fail ''not a multinode cluster'')"

end
