(* ===== verification/Quiet_Calls.thy ===== *)
theory Quiet_Calls
  imports Provisioner
begin

text \<open>
  What the calls of a provisioner leave alone: if an observation of the world (say, the scripts
  started so far) is kept by the parameters, it is kept by dialing, by the transports and by every
  method that starts no script.
\<close>

section \<open>Parameters that keep an observation\<close>

definition net_keeps :: "('s \<Rightarrow> 'o) \<Rightarrow> ('s, 'n, 'c) net \<Rightarrow> bool" where
  "net_keeps g nt \<longleftrightarrow>
     (\<forall>a t. pres (keeps g) (nt_DialTCP nt a t)) \<and> (\<forall>n. pres (keeps g) (nt_CloseConn nt n))
   \<and> (\<forall>n a c h. pres (keeps g) (nt_NewClient nt n a c h)) \<and> (\<forall>c a. pres (keeps g) (nt_DialVia nt c a))
   \<and> (\<forall>c. pres (keeps g) (nt_CloseClient nt c)) \<and> pres (keeps g) (nt_FreePort nt)
   \<and> (\<forall>a. pres (keeps g) (nt_Start nt a)) \<and> (\<forall>i. pres (keeps g) (nt_Stderr nt i))
   \<and> (\<forall>i. pres (keeps g) (nt_Kill nt i)) \<and> (\<forall>i. pres (keeps g) (nt_Reap nt i))
   \<and> (\<forall>t. pres (keeps g) (nt_Sleep nt t)) \<and> (\<forall>p. pres (keeps g) (nt_ReadFile nt p))
   \<and> pres (keeps g) (nt_UserHomeDir nt) \<and> (\<forall>p. pres (keeps g) (nt_DialUnix nt p))
   \<and> (\<forall>t. pres (keeps g) (nt_wait nt t))"

lemma net_keepsD:
  assumes "net_keeps g nt"
  shows "pres (keeps g) (nt_DialTCP nt a t)" "pres (keeps g) (nt_CloseConn nt n)"
    "pres (keeps g) (nt_NewClient nt n a c h)" "pres (keeps g) (nt_DialVia nt k a)"
    "pres (keeps g) (nt_CloseClient nt k)" "pres (keeps g) (nt_FreePort nt)"
    "pres (keeps g) (nt_Start nt l)" "pres (keeps g) (nt_Stderr nt i)" "pres (keeps g) (nt_Kill nt i)"
    "pres (keeps g) (nt_Reap nt i)" "pres (keeps g) (nt_Sleep nt t)" "pres (keeps g) (nt_ReadFile nt a)"
    "pres (keeps g) (nt_UserHomeDir nt)" "pres (keeps g) (nt_DialUnix nt a)" "pres (keeps g) (nt_wait nt t)"
  using assms unfolding net_keeps_def by simp_all

lemma keepsD: "pres (keeps g) m \<Longrightarrow> m s = (r, s') \<Longrightarrow> g s' = g s"
  by (auto dest: presD simp: keeps_def)

lemma pres_deferring: "pres (keeps g) c \<Longrightarrow> pres (keeps g) m \<Longrightarrow> pres (keeps g) (deferring c m)"
  by (simp add: pres_def keeps_def deferring_def case_prod_beta)

lemma pres_on_fst: "pres (keeps g) m \<Longrightarrow> pres (keeps (\<lambda>st. g (fst st))) (on_fst m)"
  by (auto simp: pres_def keeps_def on_fst_def split: prod.splits) (metis snd_conv)

lemma net_keeps_lift: "net_keeps g nt \<Longrightarrow> net_keeps (\<lambda>st. g (fst st)) (lift_net nt)"
  by (simp add: net_keeps_def lift_net_def pres_on_fst)

section \<open>Dialing\<close>

lemma pres_expandPath: "net_keeps g nt \<Longrightarrow> pres (keeps g) (expandPath nt p)"
  unfolding expandPath_def by (intro kept.pres_rules net_keepsD)

lemma pres_authMethods: "net_keeps g nt \<Longrightarrow> pres (keeps g) (authMethods nt a)"
  unfolding authMethods_def Let_def
  by (intro kept.pres_rules pres_expandPath pres_case_sum net_keepsD)

lemma pres_dial_loop:
  assumes "net_keeps g nt" and "pres (keeps g) once"
  shows "pres (keeps g) (dial_loop n i nt d target e once)"
proof (induction n arbitrary: i e)
  case 0
  show ?case by (simp add: kept.pres_fail)
next
  case (Suc n)
  then show ?case
    unfolding dial_loop.simps by (intro kept.pres_rules pres_case_option net_keepsD assms)
qed

lemma pres_dial_with:
  assumes "net_keeps g nt" and "pres (keeps g) dial"
  shows "pres (keeps g) (dial_with nt d target dial)"
  unfolding dial_with_def dial_once_def
  by (intro kept.pres_rules pres_authMethods pres_dial_loop net_keepsD assms)

lemma pres_direct_dial: "net_keeps g nt \<Longrightarrow> pres (keeps g) (direct_dial nt h t)"
  unfolding direct_dial_def by (intro kept.pres_rules net_keepsD)

lemma pres_retryDial:
  assumes "net_keeps g nt"
  shows "pres (keeps g) (retryDial nt a m b)"
proof -
  have "pres (keeps g) (retryDial_loop n i nt a m b e)" for n i e
    by (induction n arbitrary: i e)
      (auto intro!: kept.pres_rules net_keepsD assms simp: kept.pres_fail)
  then show ?thesis by (simp add: retryDial_def)
qed

lemma pres_SSM_Close: "net_keeps g nt \<Longrightarrow> pres (keeps (\<lambda>st. g (fst st))) (SSM_Close nt)"
proof (rule presI)
  fix st :: "'a \<times> SSMTransport"
  assume nt: "net_keeps g nt"
  show "keeps (\<lambda>st. g (fst st)) st (snd (SSM_Close nt st))"
  proof (cases "sm_cmd (snd st)")
    case (Some i)
    have "pres (keeps g) (andthen (wrap ''ssm transport: kill session'' (nt_Kill nt i))
        (\<lambda>_. andthen (attempt (nt_Reap nt i)) (\<lambda>_. ret ())))"
      by (intro kept.pres_rules net_keepsD nt)
    with Some show ?thesis
      by (auto simp: SSM_Close_def keeps_def pres_def split: prod.splits) (metis snd_conv)
  qed (simp add: SSM_Close_def keeps_def)
qed

lemma pres_set_cmd: "pres (keeps (\<lambda>st. g (fst st))) (set_cmd i)"
  by (rule presI) (simp add: set_cmd_def modify_def keeps_def)

lemma pres_SSM_DialContext: "net_keeps g nt \<Longrightarrow> pres (keeps (\<lambda>st. g (fst st))) (SSM_DialContext nt)"
  unfolding SSM_DialContext_def
  by (intro kept.pres_rules pres_SSM_Close pres_set_cmd pres_on_fst pres_retryDial net_keepsD)

lemma pres_hop1: "net_keeps g nt \<Longrightarrow> pres (keeps g) (hop1_client nt b d h)"
  unfolding hop1_client_def
  by (intro kept.pres_rules pres_case_option pres_dial_with pres_direct_dial)

lemma pres_DialContext:
  fixes nt :: "('a, 'c, 'd) net"
  assumes "net_keeps g nt"
  shows "pres (keeps (\<lambda>st. g (fst st))) (DialContext nt)"
proof (rule presI)
  fix st :: "'a \<times> 'd transport"
  obtain s t where st: "st = (s, t)" by (cases st)
  show "keeps (\<lambda>st. g (fst st)) st (snd (DialContext nt st))"
  proof (cases t)
    case (DirectTransport h w)
    then show ?thesis
      using pres_direct_dial [OF assms, of h w] unfolding st
      by (auto simp: DialContext_def keeps_def pres_def split: prod.splits) (metis snd_conv)
  next
    case (BastionTransport b target d h)
    have via: "pres (keeps g) (wrap e (nt_DialVia nt c a))" for e c a
      by (intro kept.pres_rules net_keepsD assms)
    obtain r1 s1 where hop: "hop1_client nt b d h s = (r1, s1)" by (cases "hop1_client nt b d h s")
    have g1: "g s1 = g s" by (rule keepsD [OF pres_hop1 [OF assms] hop])
    show ?thesis
    proof (cases r1)
      case (Inl e)
      then show ?thesis using BastionTransport hop g1 by (simp add: DialContext_def keeps_def st)
    next
      case (Inr c)
      obtain r2 s2 where two: "wrap (''bastion hop-2 dial '' @ target @ '' via '' @ b) (nt_DialVia nt c (hostPort target)) s1 = (r2, s2)"
        by (rule prod.exhaust)
      then show ?thesis
        using BastionTransport hop g1 Inr keepsD [OF via two] by (simp add: DialContext_def keeps_def st)
    qed
  next
    case (SSM w)
    then show ?thesis
      using pres_SSM_DialContext [OF assms] unfolding st
      by (auto simp: DialContext_def keeps_def pres_def split: prod.splits) (metis fst_conv snd_conv)
  qed
qed

lemma pres_transport_Close:
  fixes nt :: "('a, 'c, 'd) net"
  assumes "net_keeps g nt"
  shows "pres (keeps (\<lambda>st. g (fst st))) (transport_Close nt)"
proof (rule presI)
  fix st :: "'a \<times> 'd transport"
  obtain s t where st: "st = (s, t)" by (cases st)
  show "keeps (\<lambda>st. g (fst st)) st (snd (transport_Close nt st))"
    using pres_SSM_Close [OF assms] net_keepsD(5) [OF assms] unfolding st
    by (cases t) (auto simp: transport_Close_def keeps_def pres_def split: prod.splits option.splits;
        metis fst_conv snd_conv)+
qed

lemma pres_Dial: "net_keeps g nt \<Longrightarrow> pres (keeps (\<lambda>st. g (fst st))) (Dial nt d target)"
  unfolding Dial_def by (intro pres_dial_with net_keeps_lift pres_DialContext)

end
