(* ===== verification/Provisioner_Frame.thy ===== *)
theory Provisioner_Frame
  imports Quiet_Calls
begin

text \<open>
  What the methods of a provisioner leave alone: its settings, the transports of others and, when a
  construction fails, no open transport.
\<close>

section \<open>Settings and transports\<close>

text \<open>Everything but the client, the buffer, the world and the provisioner's own transport.\<close>

definition frame :: "('s, 'c) heap \<times> 'c Provisioner \<Rightarrow> 'c Provisioner \<times> nat \<times> (nat \<Rightarrow> 'c transport option)" where
  "frame st = (case st of ((s, ts), p) \<Rightarrow> (p\<lparr>pn_Client := None, pn_tpl := []\<rparr>, length ts,
     \<lambda>b. if pn_transport p = Some b then None else Some (ts ! b)))"

abbreviation framed :: "('s, 'c, 'a) node_method \<Rightarrow> bool" where
  "framed m \<equiv> pres (keeps frame) m"

lemma framed_world: "framed (world m)"
  by (auto simp: pres_def keeps_def world_def on_fst_def frame_def split: prod.splits)

lemma framed_set_self: "(\<And>p. (f p)\<lparr>pn_Client := None, pn_tpl := []\<rparr> = p\<lparr>pn_Client := None, pn_tpl := []\<rparr>) \<Longrightarrow>
    (\<And>p. pn_transport (f p) = pn_transport p) \<Longrightarrow> framed (set_self f)"
  by (auto simp: pres_def keeps_def set_self_def modify_def frame_def)

lemma framed_own_transport:
  "framed (andthen (gets snd) (\<lambda>p. case pn_transport p of Some a \<Rightarrow> on_fst (with_transport a (f p)) | None \<Rightarrow> world (h p)))"
  by (auto simp: pres_def keeps_def andthen_def gets_def on_fst_def with_transport_def world_def frame_def
      split: option.splits prod.splits)

lemma framed_dial_host: "framed (dial_host x)"
  by (auto simp: pres_def keeps_def dial_host_def andthen_def gets_def fail_def on_fst_def with_transport_def world_def
      frame_def split: option.splits prod.splits)

lemmas framed_rules = kept.pres_rules pres_case_option pres_case_sum pres_case_prod framed_world pres_deferring

lemma framed_client: "framed (set_self (pn_Client_update f))" "framed (set_self (pn_tpl_update g))"
  by (rule framed_set_self; simp)+

lemma framed_ensureClient: "framed (ensureClient x)"
  unfolding ensureClient_def redial_def by (intro framed_rules framed_dial_host framed_client)

lemma framed_resetConnection: "framed (resetConnection x)"
  unfolding resetConnection_def by (intro framed_rules framed_client)

lemma framed_waitForNodeReboot: "framed (waitForNodeReboot x)"
proof -
  have "framed (reboot_loop n x)" for n
    by (induction n) (auto intro!: framed_rules framed_ensureClient)
  then show ?thesis unfolding waitForNodeReboot_def by (intro framed_rules framed_resetConnection)
qed

lemma framed_in_session: "(\<And>i. framed (f i)) \<Longrightarrow> framed (in_session x f)"
  unfolding in_session_def new_session_def client_of_def by (intro framed_rules)

lemma framed_lift_script: "framed (lift_script r)"
  unfolding lift_script_def by (intro framed_rules)

lemma framed_run_dependency: "framed (run_dependency x d env f)"
  unfolding run_dependency_def provision_def
  by (intro framed_rules framed_client framed_ensureClient framed_in_session framed_waitForNodeReboot framed_resetConnection)

lemma framed_files: "framed (kubeadm_files x env)" "framed (createKindConfig x env)"
  unfolding kubeadm_files_def createKubeAdmConfig_def copyFileToRemoteSFTP_def run_command_def client_of_def
    createKindConfig_def Let_def
  by (intro framed_rules framed_in_session framed_lift_script)+

text \<open>
  C28: a run, successful or not, changes neither the host, the credentials, the dialer, the SSH
  settings and the transport that a provisioner has, nor the transport of any other node: it changes
  only its client, its buffer and the state of its own transport.
\<close>

theorem Run_frame: "frame (snd (Provisioner_Run x env st)) = frame st"
proof -
  have "framed (Provisioner_Run x env)"
    unfolding Provisioner_Run_def Let_def
    by (intro framed_rules framed_files framed_run_dependency)
  then show ?thesis unfolding pres_def keeps_def by (rule spec)
qed

section \<open>Construction\<close>

text \<open>A transport that holds neither a client nor a process.\<close>

definition idle :: "'c transport \<Rightarrow> bool" where
  "idle t = (case t of DirectTransport _ _ \<Rightarrow> True | BastionTransport _ _ _ h \<Rightarrow> h = None | SSM w \<Rightarrow> sm_cmd w = None)"

lemma transport_Close_idle: "idle (snd (snd (transport_Close nt st)))"
  by (cases st; cases "snd st") (auto simp: transport_Close_def idle_def SSM_Close_def split: prod.splits option.splits)

text \<open>The address of the transport that a construction uses.\<close>

definition own_transport :: "'c Provisioner \<Rightarrow> 'c transport list \<Rightarrow> nat" where
  "own_transport p ts = (case pn_transport p of Some a \<Rightarrow> a | None \<Rightarrow> length ts)"

definition with_defaults :: "('s, 'c) heap \<times> 'c Provisioner \<Rightarrow> ('s, 'c) heap \<times> 'c Provisioner" where
  "with_defaults st = snd (default_dialer (snd (default_transport st)))"

lemma connect_fails:
  assumes "connect x st = (Inl e, st')"
  shows "\<exists>e' st1. ensureClient x (with_defaults st) = (Inl e', st1) \<and> st' = snd (close_transport x st1)"
  using assms
  by (auto simp: connect_def with_defaults_def default_transport_def default_dialer_def set_self_def io_defs
      split: prod.splits sum.splits if_splits)

lemma framed_close_transport: "framed (close_transport x)"
  unfolding close_transport_def
  by (auto simp: pres_def keeps_def andthen_def gets_def ret_def on_fst_def with_transport_def frame_def
      split: option.splits prod.splits)

lemma close_transport_idle:
  "pn_transport (snd st) = Some a \<Longrightarrow> a < length (snd (fst st)) \<Longrightarrow>
    idle (snd (fst (snd (close_transport x st))) ! a)"
  using transport_Close_idle [of "px_net x" "(fst (fst st), snd (fst st) ! a)"]
  by (auto simp: close_transport_def andthen_def gets_def on_fst_def with_transport_def split: prod.splits)

lemma with_defaults_own:
  assumes "\<forall>a. pn_transport p = Some a \<longrightarrow> a < length ts"
  shows "\<exists>ts1 p1. with_defaults ((s, ts), p) = ((s, ts1), p1) \<and> pn_transport p1 = Some (own_transport p ts)
    \<and> own_transport p ts < length ts1 \<and> (\<forall>b < length ts. ts1 ! b = ts ! b) \<and> length ts \<le> length ts1"
  using assms
  by (auto simp: with_defaults_def default_transport_def default_dialer_def set_self_def modify_def own_transport_def
      nth_append split: option.splits)

lemma frame_eq: "frame ((s', ts'), p') = frame ((s, ts), p) \<Longrightarrow>
    length ts' = length ts \<and> pn_transport p' = pn_transport p
    \<and> (\<forall>b. pn_transport p \<noteq> Some b \<longrightarrow> ts' ! b = ts ! b)"
  by (cases p; cases p') (auto simp: frame_def fun_eq_iff split: if_splits)

text \<open>
  A provisioner that cannot be constructed leaves nothing open. With invalid SSH settings nothing
  is dialed at all; after a dial that fails, the transport, its default or the one it was given, holds
  neither a client nor a process, and the other transports are as they were.
\<close>

theorem New_failure_closes:
  assumes "Provisioner_New x keyPath userName host opts (s, ts) = (Inl e, (s', ts'))"
    and "p = foldl apply_option (unconnected keyPath userName host) opts"
    and "\<forall>a. pn_transport p = Some a \<longrightarrow> a < length ts"
  shows "if SSHConfig_Validate (pn_sshConfig p) \<noteq> None then s' = s \<and> ts' = ts
    else idle (ts' ! own_transport p ts) \<and> (\<forall>b < length ts. b \<noteq> own_transport p ts \<longrightarrow> ts' ! b = ts ! b)"
proof (cases "SSHConfig_Validate (pn_sshConfig p)")
  case (Some err)
  then show ?thesis using assms(1,2) by (simp add: Provisioner_New_def Let_def)
next
  case None
  obtain p' e0 where "connect x ((s, ts), p) = (Inl e0, ((s', ts'), p'))"
    using assms(1,2) None by (auto simp: Provisioner_New_def Let_def map_sum_def split: prod.splits sum.splits)
  then obtain e' st1 where run: "ensureClient x (with_defaults ((s, ts), p)) = (Inl e', st1)"
    and st': "((s', ts'), p') = snd (close_transport x st1)"
    using connect_fails by blast
  obtain ts1 p1 where d: "with_defaults ((s, ts), p) = ((s, ts1), p1)" "pn_transport p1 = Some (own_transport p ts)"
    "own_transport p ts < length ts1" "\<forall>b < length ts. ts1 ! b = ts ! b" "length ts \<le> length ts1"
    using with_defaults_own [OF assms(3), of s] by (elim exE conjE)
  obtain s2 ts2 p2 where st1: "st1 = ((s2, ts2), p2)" by (cases st1) auto
  have f1: "frame ((s2, ts2), p2) = frame ((s, ts1), p1)"
    using keepsD [OF framed_ensureClient run] d(1) st1 by simp
  have "frame (snd (close_transport x st1)) = frame st1"
    using framed_close_transport [of x] unfolding pres_def keeps_def by (rule spec)
  then have f2: "frame ((s', ts'), p') = frame ((s2, ts2), p2)" using st' st1 by simp
  have "pn_transport (snd st1) = Some (own_transport p ts)" "own_transport p ts < length (snd (fst st1))"
    using frame_eq [OF f1] d(2,3) st1 by simp_all
  then have "idle (snd (fst (snd (close_transport x st1))) ! own_transport p ts)" by (rule close_transport_idle)
  then have "idle (ts' ! own_transport p ts)" unfolding st' [symmetric] by simp
  moreover have "ts' ! b = ts ! b" if "b < length ts" "b \<noteq> own_transport p ts" for b
    using frame_eq [OF f1] frame_eq [OF f2] d(2,4) that by simp
  ultimately show ?thesis using None by simp
qed

text \<open>A node that takes every call, with a given way to be dialed, to sleep and to start a script.\<close>

definition sample_node :: "('s, nat) io \<Rightarrow> ('s, unit) io \<Rightarrow> (script \<Rightarrow> ('s, unit) io) \<Rightarrow> ('s, nat, nat) prov_env" where
  "sample_node dial nap start = \<lparr>
     px_net = \<lparr>nt_DialTCP = (\<lambda>_ _. dial), nt_CloseConn = (\<lambda>_. ret ()), nt_NewClient = (\<lambda>n _ _ _. ret n),
       nt_DialVia = (\<lambda>c _. ret c), nt_CloseClient = (\<lambda>_. ret ()), nt_FreePort = ret 7, nt_Start = (\<lambda>_. ret 1),
       nt_Stderr = (\<lambda>_. ret ''''), nt_Kill = (\<lambda>_. ret ()), nt_Reap = (\<lambda>_. ret ()), nt_Sleep = (\<lambda>_. nap),
       nt_ReadFile = (\<lambda>_. ret ''KEY''), nt_ParsePrivateKey = Inr, nt_UserHomeDir = ret ''/root'',
       nt_DialUnix = (\<lambda>_. ret ()), nt_Getenv = (\<lambda>_. ''''), nt_Err = (\<lambda>_. None), nt_wait = (\<lambda>_. ret ())\<rparr>,
     px_steps = \<lparr>se_http = (\<lambda>_. fail ''offline''),
       se_fetcher = \<lparr>ft_ReadFile = (\<lambda>_. fail ''no file''), ft_Get = (\<lambda>_ _. fail ''offline''), ft_sha256Hex = id\<rparr>\<rparr>,
     px_NewSession = (\<lambda>_. ret 1), px_CloseSession = (\<lambda>_. ret ()), px_Start = (\<lambda>_. start),
     px_Wait = (\<lambda>_. ret ()), px_CopyOutput = (\<lambda>_. ret ()), px_CombinedOutput = (\<lambda>_ _. ret (''token'' @ nl @ ''hash'')),
     px_Run = (\<lambda>_ _. ret ()), px_StdinPipe = (\<lambda>_. ret ()), px_WriteStdin = (\<lambda>_ _. ret ()),
     px_CloseStdin = (\<lambda>_. ret ()), px_NewSFTP = (\<lambda>_. ret 1), px_CloseSFTP = (\<lambda>_. ret ()),
     px_CreateRemote = (\<lambda>_ _. ret 1), px_WriteRemote = (\<lambda>_ _. ret ()), px_CloseRemote = (\<lambda>_. ret ()),
     px_Getwd = ret ''/'', px_MkdirAll = (\<lambda>_. ret ()), px_WriteFile = (\<lambda>_ _. ret ()),
     px_Parse = (\<lambda>t. Inr (\<lambda>_ _. Inr t))\<rparr>"

definition tunnel :: "nat transport" where
  "tunnel = SSM \<lparr>sm_InstanceID = ''i-1'', sm_Region = ''us-west-2'', sm_Profile = '''', sm_cmd = Some 9\<rparr>"

definition refused_new :: "(error + nat Provisioner) \<times> (unit, nat) heap" where
  "refused_new = Provisioner_New (sample_node (fail ''connection refused'') (ret ()) (\<lambda>_. ret ()))
     ''/key'' ''ubuntu'' ''10.0.0.1'' [WithTransport 0] ((), [tunnel])"

theorem New_failure_closes_witness: "isl (fst refused_new) \<and> idle (snd (snd refused_new) ! 0)"
proof -
  have err: "isl (fst refused_new)" by code_simp
  then obtain e where "fst refused_new = Inl e" by (auto simp: isl_def)
  then have run: "refused_new = (Inl e, (fst (snd refused_new), snd (snd refused_new)))" by (metis prod.collapse)
  let ?p = "foldl apply_option (unconnected ''/key'' ''ubuntu'' ''10.0.0.1'') [WithTransport 0] :: nat Provisioner"
  have p: "pn_transport ?p = Some 0" "SSHConfig_Validate (pn_sshConfig ?p) = None" by code_simp+
  have own: "own_transport ?p [tunnel] = 0" using p(1) by (simp only: own_transport_def option.case)
  have "idle (snd (snd refused_new) ! own_transport ?p [tunnel])"
    using New_failure_closes [OF run [unfolded refused_new_def] refl, folded refused_new_def] p by simp
  with err show ?thesis unfolding own by simp
qed

text \<open>
  The SSH settings are honoured on both hops. Without any, a dial makes 20 attempts, a second
  apart, with a handshake of at most 15 seconds, a keepalive every 30 and \<open>accept-new\<close> for host keys;
  with some, the policy for host keys is the one they name, for the node and for the bastion, and
  verification is off only if they say so.
\<close>

theorem ssh_settings_honoured:
  "max_attempts (dialerFromSSHConfig k u None) = 20 \<and> retryDelay (dialerFromSSHConfig k u None) i = second
   \<and> handshake_timeout (dialerFromSSHConfig k u None) = 15 * second
   \<and> keepaliveInterval (dialerFromSSHConfig k u None) = 30 * second
   \<and> hostKeyCallback (dialerFromSSHConfig k u None) = KnownHosts HostKeyPolicyAcceptNew
   \<and> hostKeyCallback (dialerFromSSHConfig k u (Some c)) =
       (if sc_KnownHostsPolicy c = HostKeyPolicyOff then InsecureIgnoreHostKey else KnownHosts (host_key_policy c))
   \<and> (case transportFromSSHConfig host k u (Some c) of
        BastionTransport b target d _ \<Rightarrow> target = host \<and> hostKeyCallback d = hostKeyCallback (dialerFromSSHConfig k u (Some c))
      | _ \<Rightarrow> sc_Bastion c = None)"
  by (auto simp: dialerFromSSHConfig_def plain_dialer_def max_attempts_def retryDelay_def handshake_timeout_def
      keepaliveInterval_def hostKeyCallback_def host_key_policy_def or_default_def transportFromSSHConfig_def
      NewDirectTransport_def NewDirectTransportTimeout_def Let_def split: option.splits)

end
