(* ===== verification/Provisioner_Props.thy ===== *)
theory Provisioner_Props
  imports Provisioner_Frame
begin

text \<open>
  What a provisioner does to a node: the scripts that a successful run starts, the wait for a reboot,
  and what a construction that fails leaves behind.
\<close>

section \<open>The scripts that are started\<close>

text \<open>\<open>g\<close> is an observation that only the start of a script changes.\<close>

definition steps_keep :: "('s \<Rightarrow> 'o) \<Rightarrow> 's step_env \<Rightarrow> bool" where
  "steps_keep g se \<longleftrightarrow> (\<forall>u. pres (keeps g) (se_http se u))
   \<and> (\<forall>p. pres (keeps g) (ft_ReadFile (se_fetcher se) p)) \<and> (\<forall>u t. pres (keeps g) (ft_Get (se_fetcher se) u t))"

definition prov_keeps :: "('s \<Rightarrow> 'o) \<Rightarrow> ('s, 'n, 'c) prov_env \<Rightarrow> bool" where
  "prov_keeps g x \<longleftrightarrow> net_keeps g (px_net x) \<and> steps_keep g (px_steps x)
   \<and> (\<forall>c. pres (keeps g) (px_NewSession x c)) \<and> (\<forall>i. pres (keeps g) (px_CloseSession x i))
   \<and> (\<forall>i. pres (keeps g) (px_Wait x i)) \<and> (\<forall>i. pres (keeps g) (px_CopyOutput x i))
   \<and> (\<forall>i cmd. pres (keeps g) (px_Run x i cmd)) \<and> (\<forall>i. pres (keeps g) (px_StdinPipe x i))
   \<and> (\<forall>i t. pres (keeps g) (px_WriteStdin x i t)) \<and> (\<forall>i. pres (keeps g) (px_CloseStdin x i))
   \<and> (\<forall>c. pres (keeps g) (px_NewSFTP x c)) \<and> (\<forall>i. pres (keeps g) (px_CloseSFTP x i))
   \<and> (\<forall>i p. pres (keeps g) (px_CreateRemote x i p)) \<and> (\<forall>i t. pres (keeps g) (px_WriteRemote x i t))
   \<and> (\<forall>i. pres (keeps g) (px_CloseRemote x i)) \<and> pres (keeps g) (px_Getwd x)
   \<and> (\<forall>p. pres (keeps g) (px_MkdirAll x p)) \<and> (\<forall>p t. pres (keeps g) (px_WriteFile x p t))
   \<and> (\<forall>i sc. pres (keeps g) (px_CombinedOutput x i sc))"

text \<open>\<open>log\<close> lists the scripts that were started, in their order.\<close>

definition logs_starts :: "('s, 'n, 'c) prov_env \<Rightarrow> ('s \<Rightarrow> script list) \<Rightarrow> bool" where
  "logs_starts x log \<longleftrightarrow> prov_keeps log x
   \<and> (\<forall>i sc s s'. px_Start x i sc s = (Inr (), s') \<longrightarrow> log s' = log s @ [sc])"

text \<open>A method that starts no script and leaves the buffer alone.\<close>

abbreviation seen :: "('s \<Rightarrow> 'o) \<Rightarrow> ('s, 'c) heap \<times> 'c Provisioner \<Rightarrow> 'o \<times> script" where
  "seen g st \<equiv> (g (fst (fst st)), pn_tpl (snd st))"

abbreviation quiet :: "('s \<Rightarrow> 'o) \<Rightarrow> ('s, 'c, 'a) node_method \<Rightarrow> bool" where
  "quiet g m \<equiv> pres (keeps (seen g)) m"

lemma quiet_on_fst: "pres (keeps (\<lambda>h. g (fst h))) m \<Longrightarrow> quiet g (on_fst m)"
  by (auto simp: pres_def keeps_def on_fst_def split: prod.splits) (metis fst_conv snd_conv)

lemma quiet_world: "pres (keeps g) m \<Longrightarrow> quiet g (world m)"
  unfolding world_def by (rule quiet_on_fst [OF pres_on_fst])

lemma quiet_set_self: "(\<And>p. pn_tpl (f p) = pn_tpl p) \<Longrightarrow> quiet g (set_self f)"
  by (simp add: pres_def keeps_def set_self_def modify_def)

lemma quiet_with_transport: "pres (keeps (\<lambda>st. g (fst st))) m \<Longrightarrow> quiet g (on_fst (with_transport a m))"
  by (rule quiet_on_fst) (auto simp: pres_def keeps_def with_transport_def split: prod.splits; metis fst_conv snd_conv)

lemmas quiet_rules = kept.pres_rules pres_case_option pres_case_sum quiet_world quiet_set_self
  quiet_with_transport pres_deferring

lemma prov_keepsD:
  assumes "prov_keeps g x"
  shows "net_keeps g (px_net x)" "steps_keep g (px_steps x)"
    "pres (keeps g) (px_NewSession x c)" "pres (keeps g) (px_CloseSession x i)"
    "pres (keeps g) (px_Wait x i)" "pres (keeps g) (px_CopyOutput x i)" "pres (keeps g) (px_Run x i t)"
    "pres (keeps g) (px_StdinPipe x i)" "pres (keeps g) (px_WriteStdin x i t)" "pres (keeps g) (px_CloseStdin x i)"
    "pres (keeps g) (px_NewSFTP x c)" "pres (keeps g) (px_CloseSFTP x i)" "pres (keeps g) (px_CreateRemote x i t)"
    "pres (keeps g) (px_WriteRemote x i t)" "pres (keeps g) (px_CloseRemote x i)" "pres (keeps g) (px_Getwd x)"
    "pres (keeps g) (px_MkdirAll x t)" "pres (keeps g) (px_WriteFile x t u)" "pres (keeps g) (px_CombinedOutput x i sc)"
  using assms unfolding prov_keeps_def by simp_all

lemmas px_keeps = prov_keepsD(3-) net_keepsD [OF prov_keepsD(1)]

lemma quiet_dial_host: "prov_keeps g x \<Longrightarrow> quiet g (dial_host x)"
  unfolding dial_host_def
  by (intro quiet_rules pres_Dial pres_dial_with pres_direct_dial prov_keepsD(1))

lemma quiet_alive: "prov_keeps g x \<Longrightarrow> pres (keeps g) (alive x c)"
  unfolding alive_def by (intro kept.pres_rules pres_case_sum px_keeps)

lemma quiet_redial: "prov_keeps g x \<Longrightarrow> quiet g (redial x)"
  unfolding redial_def by (intro quiet_rules quiet_dial_host) simp_all

lemma quiet_ensureClient: "prov_keeps g x \<Longrightarrow> quiet g (ensureClient x)"
  unfolding ensureClient_def by (intro quiet_rules quiet_redial quiet_alive px_keeps) simp_all

lemma quiet_resetConnection: "prov_keeps g x \<Longrightarrow> quiet g (resetConnection x)"
  unfolding resetConnection_def by (intro quiet_rules quiet_alive px_keeps) simp_all

lemma quiet_waitForNodeReboot:
  assumes "prov_keeps g x"
  shows "quiet g (waitForNodeReboot x)"
proof -
  have "quiet g (reboot_loop n x)" for n
    by (induction n) (auto intro!: quiet_rules quiet_ensureClient px_keeps assms)
  then show ?thesis
    unfolding waitForNodeReboot_def by (intro quiet_rules quiet_resetConnection assms)
qed

lemma quiet_client_of: "quiet g client_of"
  unfolding client_of_def by (intro quiet_rules)

lemma quiet_new_session: "prov_keeps g x \<Longrightarrow> quiet g (new_session x)"
  unfolding new_session_def by (intro quiet_rules quiet_client_of px_keeps)

lemma quiet_in_session: "prov_keeps g x \<Longrightarrow> (\<And>i. quiet g (f i)) \<Longrightarrow> quiet g (in_session x f)"
  unfolding in_session_def by (intro quiet_rules quiet_new_session px_keeps)

lemma quiet_run_command: "prov_keeps g x \<Longrightarrow> quiet g (run_command x t c)"
  unfolding run_command_def by (intro quiet_in_session quiet_rules px_keeps)

lemma quiet_lift_script: "pres (keeps g) (lift_script r)"
  unfolding lift_script_def by (intro kept.pres_rules pres_case_sum)

lemma quiet_createKubeAdmConfig: "prov_keeps g x \<Longrightarrow> quiet g (createKubeAdmConfig x env)"
  unfolding createKubeAdmConfig_def copyFileToRemoteSFTP_def NewKubeadmConfig_def Let_def
  by (intro quiet_rules quiet_client_of quiet_run_command quiet_lift_script px_keeps)

lemma quiet_kubeadm_files: "prov_keeps g x \<Longrightarrow> quiet g (kubeadm_files x env)"
  unfolding kubeadm_files_def by (intro quiet_rules quiet_createKubeAdmConfig quiet_lift_script)

lemma pres_run_step:
  assumes "steps_keep g se"
  shows "pres (keeps g) (run_step se d f env)"
proof -
  note k = assms [unfolded steps_keep_def]
  have http: "pres (keeps g) (short_sha se repo ref)" for repo ref
    unfolding short_sha_def GitHub_Resolve_def
    by (intro kept.pres_rules pres_case_sum pres_case_prod) (simp_all add: k)
  have custom: "pres (keeps g) (executeCustomTemplate (se_fetcher se) d ct)" for ct
    unfolding executeCustomTemplate_def LoadCustomTemplate_def load_content_def fetchURL_def Let_def
    by (intro kept.pres_rules quiet_lift_script pres_case_sum pres_case_prod) (simp_all add: k)
  show ?thesis
    unfolding run_step_def kubeadm_def kind_step_def microk8s_def kubernetes_step_script_def containerd_def
      criO_def docker_def nvdriver_def containerToolkit_def with_commit_def
    by (cases f) (auto intro!: kept.pres_rules quiet_lift_script http custom)
qed

lemma post_quiet: "pres (keeps h) m \<Longrightarrow> post (\<lambda>st. h st = v) m (\<lambda>_ st. h st = v)"
  by (auto simp: post_def dest: keepsD)

lemma post_deferring: "post P m Q \<Longrightarrow> (\<And>v st. Q v st \<Longrightarrow> Q v (snd (c st))) \<Longrightarrow> post P (deferring c m) Q"
  by (auto simp: post_def deferring_def split: prod.splits)

lemma post_world:
  "post (\<lambda>s. log s = L) m (\<lambda>_ s. log s = L') \<Longrightarrow>
   post (\<lambda>st. seen log st = (L, T)) (world m) (\<lambda>_ st. seen log st = (L', T))"
  by (auto simp: post_def world_def on_fst_def split: prod.splits)

lemma post_gets_self: "(\<And>p. pn_tpl p = T \<Longrightarrow> post (\<lambda>st. seen log st = (L, T)) (f p) Q) \<Longrightarrow>
    post (\<lambda>st. seen log st = (L, T)) (andthen (gets snd) f) Q"
  by (auto simp: post_def andthen_def gets_def)

lemma post_Start:
  "logs_starts x log \<Longrightarrow> post (\<lambda>s. log s = L) (px_Start x i sc) (\<lambda>_ s. log s = L @ [sc])"
  by (simp add: post_def logs_starts_def)

lemma post_in_session:
  assumes "logs_starts x log" and "\<And>i. post (\<lambda>st. seen log st = v) (f i) (\<lambda>_ st. seen log st = w)"
  shows "post (\<lambda>st. seen log st = v) (in_session x f) (\<lambda>_ st. seen log st = w)"
proof -
  have keep: "prov_keeps log x" using assms(1) by (simp add: logs_starts_def)
  have close: "seen log (snd (world (px_CloseSession x i) st)) = seen log st" for i st
    using quiet_world [OF px_keeps(2) [OF keep], of i] unfolding pres_def keeps_def by (rule spec)
  show ?thesis
    unfolding in_session_def
    by (intro post_andthen [OF post_quiet [OF quiet_new_session [OF keep]]] post_deferring assms(2)) (rule trans [OF close])
qed

lemma post_provision:
  assumes "logs_starts x log"
  shows "post (\<lambda>st. seen log st = (L, T)) (provision x) (\<lambda>_ st. seen log st = (L @ [T], T))"
proof -
  have keep: "prov_keeps log x" using assms by (simp add: logs_starts_def)
  have run: "post (\<lambda>s. log s = L) (run_script x i t) (\<lambda>_ s. log s = L @ [t])" for i t
    unfolding run_script_def
    by (intro post_andthen [OF post_wrap [OF post_Start [OF assms]]]
        post_andthen [OF post_wrap [OF post_quiet [OF px_keeps(3) [OF keep]]]]
        post_wrap post_quiet px_keeps(4) keep)
  show ?thesis
    unfolding provision_def
    by (intro post_andthen [OF post_quiet [OF quiet_ensureClient [OF keep]]] post_in_session [OF assms]
        post_gets_self) (hypsubst, rule post_world [OF run])
qed

lemma post_createKindConfig:
  assumes "logs_starts x log"
  shows "post (\<lambda>st. seen log st = (L, T)) (createKindConfig x env)
    (\<lambda>_ st. seen log st = (L @ [[Text (''cat > '' @ remoteKindConfig)]], T))"
proof -
  have keep: "prov_keeps log x" using assms by (simp add: logs_starts_def)
  note q = post_wrap [OF post_quiet] post_quiet px_keeps [OF keep] kept.pres_rules
  show ?thesis
    unfolding createKindConfig_def Let_def
    apply (rule post_andthen [OF post_quiet [OF quiet_run_command [OF keep]]])
    apply (rule post_in_session [OF assms])
    apply (rule post_world)
    apply (rule post_andthen [OF post_wrap [OF post_quiet [OF px_keeps(6) [OF keep]]]])
    apply (rule post_andthen [OF post_wrap [OF post_Start [OF assms]]])
    apply (rule post_quiet)
    apply (intro kept.pres_rules px_keeps keep)
    done
qed

text \<open>The script of a step, as some run of the step renders it.\<close>

definition renders :: "('s, 'n, 'c) prov_env \<Rightarrow> DependencyResolver \<Rightarrow> Environment \<Rightarrow> ProvisionFunc \<Rightarrow> script \<Rightarrow> bool" where
  "renders x d env f sc \<longleftrightarrow> (\<exists>s s'. run_step (px_steps x) d f env s = (Inr sc, s'))"

lemma post_run_dependency:
  assumes "logs_starts x log"
  shows "post (\<lambda>st. seen log st = (L, [])) (run_dependency x d env f)
    (\<lambda>_ st. \<exists>sc. renders x d env f sc \<and> seen log st = (L @ [script_header @ sc], []))"
proof -
  have keep: "prov_keeps log x" using assms by (simp add: logs_starts_def)
  have step: "post (\<lambda>st. seen log st = (L, script_header)) (wrap e (world (run_step (px_steps x) d f env)))
      (\<lambda>sc st. renders x d env f sc \<and> seen log st = (L, script_header))" for e
    using pres_run_step [OF prov_keepsD(2) [OF keep], of d f env]
    by (auto simp: post_def renders_def world_def on_fst_def split: prod.splits dest: keepsD)
  have tail: "post (\<lambda>st. seen log st = (L, script_header @ sc))
      (andthen (wrap ''failed to provision'' (provision x)) (\<lambda>_.
       andthen (if b then waitForNodeReboot x else wrap ''failed to reset connection'' (resetConnection x)) (\<lambda>_.
       set_self (pn_tpl_update (\<lambda>_. [])))))
      (\<lambda>_ st. seen log st = (L @ [script_header @ sc], []))" for sc b
    by (intro post_andthen [OF post_wrap [OF post_provision [OF assms]]]
        post_andthen [OF post_quiet [where v = "(L @ [script_header @ sc], script_header @ sc)"]]
        kept.pres_rules quiet_waitForNodeReboot quiet_resetConnection keep)
      (auto simp: post_def set_self_def modify_def)
  show ?thesis
    unfolding run_dependency_def
    apply (rule post_andthen [where Q = "\<lambda>_ st. seen log st = (L, script_header)"])
     apply (simp add: post_def set_self_def modify_def addScriptHeader_def)
    apply (rule post_andthen [OF step])
    subgoal for u sc
      apply (rule post_andthen [where Q = "\<lambda>_ st. renders x d env f sc \<and> seen log st = (L, script_header @ sc)"])
       apply (auto simp: post_def set_self_def modify_def) [1]
      using tail [of sc "kn_Version (sp_Kernel (env_Spec env)) \<noteq> ''''"] unfolding post_def by blast
    done
qed

lemma post_run_dependencies:
  assumes "logs_starts x log"
  shows "post (\<lambda>st. seen log st = (L, [])) (for_each (run_dependency x d env) fs)
    (\<lambda>_ st. \<exists>scs. list_all2 (renders x d env) fs scs
       \<and> seen log st = (L @ map (\<lambda>sc. script_header @ sc) scs, []))"
proof (induction fs arbitrary: L)
  case Nil
  show ?case by (simp add: post_ret)
next
  case (Cons f fs)
  have rest: "post (\<lambda>st. \<exists>sc. renders x d env f sc \<and> seen log st = (L @ [script_header @ sc], []))
      (for_each (run_dependency x d env) fs)
      (\<lambda>_ st. \<exists>scs. list_all2 (renders x d env) (f # fs) scs
         \<and> seen log st = (L @ map (\<lambda>sc. script_header @ sc) scs, []))"
  proof (rule postI, elim exE conjE)
    fix st v st' sc
    assume run: "for_each (run_dependency x d env) fs st = (Inr v, st')"
      and sc: "renders x d env f sc" "seen log st = (L @ [script_header @ sc], [])"
    obtain scs where "list_all2 (renders x d env) fs scs"
      "seen log st' = ((L @ [script_header @ sc]) @ map (\<lambda>sc. script_header @ sc) scs, [])"
      using postD [OF Cons.IH run sc(2)] by blast
    with sc(1) show "\<exists>scs. list_all2 (renders x d env) (f # fs) scs
        \<and> seen log st' = (L @ map (\<lambda>sc. script_header @ sc) scs, [])"
      by (intro exI [of _ "sc # scs"]) simp
  qed
  show ?case
    unfolding for_each.simps by (rule post_andthen [OF post_run_dependency [OF assms] rest])
qed

text \<open>The environment as the resolver gets it, and the script that writes the kind configuration.\<close>

definition run_environment :: "string \<Rightarrow> Environment \<Rightarrow> Environment" where
  "run_environment host env =
     (if k_KubernetesInstaller (sp_Kubernetes (env_Spec env)) = ''kubeadm'' then set_endpoint host env else env)"

definition kind_scripts :: "Environment \<Rightarrow> script list" where
  "kind_scripts env = (let k = sp_Kubernetes (env_Spec env) in
     if k_KubernetesInstaller k = ''kind'' \<and> k_KindConfig k \<noteq> ''''
     then [[Text (''cat > '' @ remoteKindConfig)]] else [])"

lemma Run_scripts:
  assumes "logs_starts x log" and "pn_tpl p = []"
    and "Provisioner_Run x env ((s, ts), p) = (Inr cs, ((s', ts'), p'))"
    and "Resolve (NewDependencies (run_environment (pn_HostUrl p) env)) = (steps, d)"
  shows "\<exists>scs. list_all2 (renders x d (dr_env d)) steps scs
    \<and> log s' = log s @ kind_scripts env @ map (\<lambda>sc. script_header @ sc) scs
    \<and> cs = BuildComponentsStatus (dr_env d)"
proof -
  have keep: "prov_keeps log x" using assms(1) by (simp add: logs_starts_def)
  let ?i = "k_KubernetesInstaller (sp_Kubernetes (env_Spec env))"
  let ?env = "run_environment (pn_HostUrl p) env"
  let ?kind = "if ?i = ''kind'' \<and> k_KindConfig (sp_Kubernetes (env_Spec ?env)) \<noteq> ''''
     then wrap ''failed to create kind config file'' (createKindConfig x ?env) else ret ()"
  let ?kubeadm = "if ?i = ''kubeadm'' then kubeadm_files x ?env else ret ()"
  have kind: "post (\<lambda>st. seen log st = (log s, [])) ?kind (\<lambda>_ st. seen log st = (log s @ kind_scripts env, []))"
    using post_wrap [OF post_createKindConfig [OF assms(1), of "log s" "[]"]]
    by (auto simp: run_environment_def kind_scripts_def set_endpoint_def Let_def intro!: post_ret)
  have "quiet log ?kubeadm"
    by (intro kept.pres_rules quiet_kubeadm_files keep)
  then have body: "post (\<lambda>st. seen log st = (log s, [])) (andthen ?kubeadm (\<lambda>_. andthen ?kind (\<lambda>_.
      for_each (run_dependency x d (dr_env d)) steps)))
      (\<lambda>_ st. \<exists>scs. list_all2 (renders x d (dr_env d)) steps scs
         \<and> seen log st = ((log s @ kind_scripts env) @ map (\<lambda>sc. script_header @ sc) scs, []))"
    by (intro post_andthen [OF post_quiet] post_andthen [OF kind] post_run_dependencies [OF assms(1)])
  obtain u where run: "andthen ?kubeadm (\<lambda>_. andthen ?kind (\<lambda>_. for_each (run_dependency x d (dr_env d)) steps)) ((s, ts), p)
      = (Inr u, ((s', ts'), p'))" and cs: "cs = BuildComponentsStatus (dr_env d)"
    using assms(3,4) unfolding Provisioner_Run_def run_environment_def
    by (auto simp: Let_def andthen_Inr gets_def split: option.splits)
  have "seen log ((s, ts), p) = (log s, [])" using assms(2) by simp
  from postD [OF body run this] cs show ?thesis by auto
qed


text \<open>A node whose state is the list of scripts started on it.\<close>

definition open_node :: "(script list, nat, nat) prov_env" where
  "open_node = sample_node (ret 1) (ret ()) (\<lambda>sc l. (Inr (), l @ [sc]))"

lemma open_node_logs: "logs_starts open_node (\<lambda>l. l)"
  by (simp add: logs_starts_def prov_keeps_def net_keeps_def steps_keep_def open_node_def sample_node_def
      pres_def keeps_def ret_def fail_def)

definition docker_env :: Environment where
  "docker_env = zero_Environment\<lparr>env_Spec := zero_EnvironmentSpec\<lparr>sp_ContainerRuntime :=
     zero_ContainerRuntime\<lparr>cr_Install := True, cr_Name := ''docker''\<rparr>\<rparr>\<rparr>"

definition connected :: "'c \<Rightarrow> 'c Provisioner" where
  "connected c = (unconnected ''/key'' ''ubuntu'' ''10.0.0.1'')\<lparr>pn_Client := Some c,
     pn_dialer := Some (dialerFromSSHConfig ''/key'' ''ubuntu'' None), pn_transport := Some 0\<rparr>"

definition docker_run :: "(error + ComponentsStatus option) \<times> (script list, nat) heap \<times> nat Provisioner" where
  "docker_run = Provisioner_Run open_node docker_env (([], [NewDirectTransport ''10.0.0.1'']), connected 1)"


section \<open>Reboots\<close>

text \<open>The state in which the attempt number \<open>i\<close> is made, when the earlier ones failed.\<close>

fun at_attempt :: "('s, 'n, 'c) prov_env \<Rightarrow> ('s, 'c) heap \<times> 'c Provisioner \<Rightarrow> nat \<Rightarrow> ('s, 'c) heap \<times> 'c Provisioner" where
  "at_attempt x st 0 = snd (world (nt_Sleep (px_net x) (30 * second)) st)"
| "at_attempt x st (Suc i) = at_attempt x (snd (ensureClient x (snd (world (nt_Sleep (px_net x) (30 * second)) st)))) i"

abbreviation back_online :: "('s, 'n, 'c) prov_env \<Rightarrow> ('s, 'c) heap \<times> 'c Provisioner \<Rightarrow> nat \<Rightarrow> bool" where
  "back_online x st i \<equiv> \<not> isl (fst (ensureClient x (at_attempt x st i)))"

lemma find_map_Suc: "find P (map Suc xs) = map_option Suc (find (\<lambda>i. P (Suc i)) xs)"
  by (induction xs) simp_all

lemma reboot_loop_finds:
  assumes "\<And>d s. fst (nt_Sleep (px_net x) d s) = Inr ()"
  shows "n > 0 \<Longrightarrow> reboot_loop n x st = (case find (back_online x st) [0..<n] of
      Some i \<Rightarrow> ensureClient x (at_attempt x st i)
    | None \<Rightarrow> (Inl ''node did not come back online after 10 attempts'', snd (ensureClient x (at_attempt x st (n - 1)))))"
proof (induction n arbitrary: st)
  case (Suc n)
  obtain s0 where sleep: "world (nt_Sleep (px_net x) (30 * second)) st = (Inr (), s0)"
    using assms by (auto simp: world_def on_fst_def prod_eq_iff split: prod.splits)
  obtain r s1 where run: "ensureClient x s0 = (r, s1)" by (cases "ensureClient x s0")
  have upt: "[0..<Suc n] = 0 # map Suc [0..<n]" by (simp add: map_Suc_upt upt_conv_Cons)
  show ?case
  proof (cases r)
    case (Inr u)
    then show ?thesis unfolding upt using sleep run by (simp add: andthen_def catch_def)
  next
    case (Inl e)
    have step: "reboot_loop (Suc n) x st =
        (if n = 0 then (Inl ''node did not come back online after 10 attempts'', s1) else reboot_loop n x s1)"
      using sleep run Inl by (simp add: andthen_def catch_def fail_def)
    have at: "at_attempt x st 0 = s0" "\<And>i. at_attempt x st (Suc i) = at_attempt x s1 i" using sleep run by simp_all
    have "isl (fst (ensureClient x s0))" using run Inl by simp
    then have find: "find (back_online x st) [0..<Suc n] = map_option Suc (find (back_online x s1) [0..<n])"
      unfolding upt by (simp add: at find_map_Suc del: at_attempt.simps)
    show ?thesis
    proof (cases "n = 0")
      case True
      then show ?thesis unfolding find step using run by (simp add: at del: at_attempt.simps)
    next
      case False
      then have "at_attempt x st n = at_attempt x s1 (n - 1)" using at(2) [of "n - 1"] by simp
      with False show ?thesis
        unfolding find step using Suc.IH [of s1] by (auto simp: at simp del: at_attempt.simps split: option.split)
    qed
  qed
qed simp

text \<open>
  C30: after a kernel change the node is tried at most ten times, with 30 seconds of sleep before each
  attempt: the wait ends with the first attempt that gets through, and in the state it left; without
  one it fails.
\<close>

theorem waitForNodeReboot_bounded:
  assumes "\<And>d s. fst (nt_Sleep (px_net x) d s) = Inr ()" and "resetConnection x st = (Inr (), st0)"
  shows "waitForNodeReboot x st = (case find (back_online x st0) [0..<10] of
      Some i \<Rightarrow> ensureClient x (at_attempt x st0 i)
    | None \<Rightarrow> (Inl ''node did not come back online after 10 attempts'', snd (ensureClient x (at_attempt x st0 9))))"
proof -
  have "waitForNodeReboot x st = reboot_loop 10 x st0"
    using assms(2) by (simp add: waitForNodeReboot_def andthen_def)
  moreover have "(10 :: nat) - 1 = 9" by simp
  ultimately show ?thesis using reboot_loop_finds [OF assms(1), of 10 st0] by (simp only: zero_less_numeral simp_thms)
qed

text \<open>A node that is back after three sleeps; its state counts them.\<close>

definition booting_node :: "(nat, nat, nat) prov_env" where
  "booting_node = sample_node (\<lambda>n. (if n < 3 then Inl ''connection refused'' else Inr n, n)) (\<lambda>n. (Inr (), n + 1)) (\<lambda>_. ret ())"

theorem waitForNodeReboot_bounded_witness:
  "fst (fst (snd (waitForNodeReboot booting_node ((0, [NewDirectTransport ''10.0.0.1'']), connected 1)))) = 3"
proof -
  let ?st = "((0, [NewDirectTransport ''10.0.0.1'']), connected 1)"
  have sleep: "\<And>d s. fst (nt_Sleep (px_net booting_node) d s) = Inr ()"
    by (simp add: booting_node_def sample_node_def)
  have reset: "resetConnection booting_node ?st = (Inr (), snd (resetConnection booting_node ?st))"
    by (rule prod_eqI) (code_simp, simp)
  have "find (back_online booting_node (snd (resetConnection booting_node ?st))) [0..<10] = Some 2" by code_simp
  then have "waitForNodeReboot booting_node ?st =
      ensureClient booting_node (at_attempt booting_node (snd (resetConnection booting_node ?st)) 2)"
    unfolding waitForNodeReboot_bounded [OF sleep reset] by (simp only: option.case)
  then show ?thesis by (simp only:) code_simp
qed

end
