(* ===== verification/Cluster_Props.thy ===== *)
theory Cluster_Props
  imports Cluster_Provisioner Provisioner_Props
begin

text \<open>
  The order in which the nodes of a cluster are worked on, what the joins carry, the health check and
  the join credentials.
\<close>

section \<open>Scripts on the nodes of a cluster\<close>

text \<open>An observation of the world, seen through the heap and through a cluster provisioner.\<close>

lemma post_on_fst: "post P m Q \<Longrightarrow> post (\<lambda>st. P (fst st) \<and> snd st = c) (on_fst m) (\<lambda>v st. Q v (fst st) \<and> snd st = c)"
  by (auto simp: post_def on_fst_def split: prod.splits)

lemma post_heap: "post (\<lambda>s. g s = L) m (\<lambda>v s. Q v (g s)) \<Longrightarrow>
    post (\<lambda>h. g (fst h) = L) (on_fst m) (\<lambda>v h. Q v (g (fst h)))"
  by (auto simp: post_def on_fst_def split: prod.splits)

lemma quiet_connect: "prov_keeps g x \<Longrightarrow> quiet g (connect x)"
proof -
  assume keep: "prov_keeps g x"
  have "quiet g default_transport"
    by (auto simp: pres_def keeps_def default_transport_def split: prod.splits)
  moreover have "quiet g default_dialer"
    unfolding default_dialer_def by (rule quiet_set_self) simp
  moreover have "quiet g (close_transport x)"
    unfolding close_transport_def by (intro quiet_rules pres_transport_Close prov_keepsD(1) keep)
  ultimately show "quiet g (connect x)"
    unfolding connect_def by (intro quiet_rules quiet_ensureClient keep)
qed

lemma unconnected_tpl: "pn_tpl (foldl apply_option (unconnected k u h :: 'c Provisioner) opts) = []"
proof -
  have "pn_tpl (foldl apply_option p opts) = pn_tpl p" for p :: "'c Provisioner"
    by (induction opts arbitrary: p) (auto simp: apply_option_def split: Option.splits)
  then show ?thesis by (simp add: unconnected_def)
qed

lemma post_new_for_node:
  assumes "prov_keeps g x"
  shows "post (\<lambda>h. g (fst h) = L) (new_for_node x cp node) (\<lambda>p h. g (fst h) = L \<and> pn_tpl p = [])"
  unfolding new_for_node_def
proof (rule post_wrap, rule postI)
  fix h p h'
  let ?p = "foldl apply_option (unconnected (kp_KeyPath cp) (getUsernameForNode cp node) (hostForNode node))
    (transportOptsForNode node)"
  assume g: "g (fst h) = L" and run: "Provisioner_New x (kp_KeyPath cp) (getUsernameForNode cp node) (hostForNode node)
    (transportOptsForNode node) h = (Inr p, h')"
  then obtain u where "connect x (h, ?p) = (Inr u, (h', p))"
    by (auto simp: Provisioner_New_def Let_def map_sum_def split: option.splits prod.splits sum.splits)
  from keepsD [OF quiet_connect [OF assms] this] g show "g (fst h') = L \<and> pn_tpl p = []"
    by (simp add: unconnected_tpl)
qed

lemma keeps_close:
  assumes "prov_keeps g x"
  shows "pres (keeps (\<lambda>h. g (fst h))) (close_client x p)" "pres (keeps (\<lambda>h. g (fst h))) (close_own_transport x p)"
proof -
  have "pres (keeps (\<lambda>h. g (fst h))) (with_transport a (transport_Close (px_net x)))" for a
    using pres_transport_Close [OF prov_keepsD(1) [OF assms]]
    by (auto simp: pres_def keeps_def with_transport_def split: prod.splits) (metis fst_conv snd_conv)
  then show "pres (keeps (\<lambda>h. g (fst h))) (close_client x p)" "pres (keeps (\<lambda>h. g (fst h))) (close_own_transport x p)"
    unfolding close_client_def close_own_transport_def
    by (intro kept.pres_rules pres_case_option pres_on_fst px_keeps assms; assumption?)+
qed

lemma keeps_open_session: "prov_keeps g x \<Longrightarrow> pres (keeps (\<lambda>h. g (fst h))) (open_session x p)"
  unfolding open_session_def by (intro kept.pres_rules pres_case_option pres_on_fst px_keeps)

lemma post_session_on:
  assumes "prov_keeps g x" and "\<And>i. post (\<lambda>s. g s = L) (f i) (\<lambda>_ s. g s = L')"
  shows "post (\<lambda>h. g (fst h) = L) (session_on x p f) (\<lambda>_ h. g (fst h) = L')"
proof -
  have close: "g (snd (px_CloseSession x i s)) = g s" for i s
    using px_keeps(2) [OF assms(1), of i] unfolding pres_def keeps_def by (rule spec)
  have "post (\<lambda>h. g (fst h) = L) (closing_session x i (f i)) (\<lambda>_ h. g (fst h) = L')" for i
    unfolding closing_session_def
    by (rule post_heap [where Q = "\<lambda>_ l. l = L'"], rule post_deferring [OF assms(2)]) (simp add: close)
  then show ?thesis
    unfolding session_on_def
    by (rule post_andthen [OF post_wrap [OF post_quiet [OF keeps_open_session [OF assms(1)]]]])
qed

section \<open>All goroutines of a group\<close>

lemma errgroup_Inr: "errgroup (m # ms) s = (Inr u, s') \<Longrightarrow>
    \<exists>s1. m s = (Inr (), s1) \<and> errgroup ms s1 = (Inr u, s')"
  by (cases "m s") (auto simp: andthen_def attempt_def fail_def split: sum.splits prod.splits)

text \<open>Each goroutine extends the observed list by a list of its own kind.\<close>

lemma post_errgroup:
  assumes "\<And>m L. m \<in> set ms \<Longrightarrow> post (\<lambda>s. g s = L) m (\<lambda>_ s. \<exists>l. K l \<and> g s = L @ l)"
  shows "post (\<lambda>s. g s = L) (errgroup ms) (\<lambda>_ s. \<exists>ls. length ls = length ms \<and> list_all K ls \<and> g s = L @ concat ls)"
  using assms
proof (induction ms arbitrary: L)
  case Nil
  show ?case by (auto simp: post_def)
next
  case (Cons m ms)
  show ?case
  proof (rule postI)
    fix s v s'
    assume g: "g s = L" and run: "errgroup (m # ms) s = (Inr v, s')"
    obtain s1 where one: "m s = (Inr (), s1)" and rest: "errgroup ms s1 = (Inr v, s')"
      using errgroup_Inr [OF run] by blast
    have "post (\<lambda>s. g s = L) m (\<lambda>_ s. \<exists>l. K l \<and> g s = L @ l)" by (rule Cons.prems) simp
    from postD [OF this one] g obtain l where l: "K l" "g s1 = L @ l" by blast
    have "post (\<lambda>s. g s = L @ l) (errgroup ms)
        (\<lambda>_ s. \<exists>ls. length ls = length ms \<and> list_all K ls \<and> g s = (L @ l) @ concat ls)"
      by (rule Cons.IH) (use Cons.prems in auto)
    from postD [OF this rest l(2)] obtain ls where "length ls = length ms" "list_all K ls" "g s' = (L @ l) @ concat ls"
      by blast
    with l(1) show "\<exists>ls. length ls = length (m # ms) \<and> list_all K ls \<and> g s' = L @ concat ls"
      by (intro exI [of _ "l # ls"]) simp
  qed
qed

section \<open>What each phase starts\<close>

lemma post_on_node:
  assumes "post P m Q"
  shows "post (\<lambda>h. P (h, p)) (on_node m p) (\<lambda>(r, p') h. \<forall>v. r = Inr v \<longrightarrow> Q v (h, p'))"
  using assms by (auto simp: post_def on_node_def split: prod.splits)

lemma post_raise_error:
  "(\<And>v. r = Inr v \<Longrightarrow> post P (k v) Q) \<Longrightarrow> post P (andthen (raise_error t r) k) Q"
  by (cases r) (auto simp: raise_error_def post_def andthen_def fail_def ret_def)

lemma post_Run_extends:
  assumes "logs_starts x log"
  shows "post (\<lambda>st. seen log st = (L, [])) (Provisioner_Run x env) (\<lambda>_ st. \<exists>l. log (fst (fst st)) = L @ l)"
proof (rule postI)
  fix st v st'
  assume seen: "seen log st = (L, [])" and run: "Provisioner_Run x env st = (Inr v, st')"
  obtain s ts p s' ts' p' where st: "st = ((s, ts), p)" "st' = ((s', ts'), p')" by (metis prod.collapse)
  obtain steps d where "Resolve (NewDependencies (run_environment (pn_HostUrl p) env)) = (steps, d)"
    by (cases "Resolve (NewDependencies (run_environment (pn_HostUrl p) env))")
  from Run_scripts [OF assms _ run [unfolded st] this] seen show "\<exists>l. log (fst (fst st')) = L @ l"
    unfolding st by auto
qed

text \<open>\<open>log\<close> seen through a heap.\<close>

abbreviation on_heap :: "('s \<Rightarrow> 'o) \<Rightarrow> ('s, 'c) heap \<Rightarrow> 'o" where
  "on_heap g h \<equiv> g (fst h)"

lemma post_provision_base:
  assumes "logs_starts x log"
  shows "post (\<lambda>h. on_heap log h = L) (provision_base x cp node) (\<lambda>_ h. \<exists>l. on_heap log h = L @ l)"
proof -
  have keep: "prov_keeps log x" using assms by (simp add: logs_starts_def)
  have close: "on_heap log h' = on_heap log h" if "close_client x p h = (r, h')" for p h r h'
    by (rule keepsD [OF keeps_close(1) [OF keep] that])
  have node: "post (\<lambda>h. on_heap log h = L \<and> pn_tpl p = []) (on_node (Provisioner_Run x env) p)
      (\<lambda>(r, p') h. \<forall>v. r = Inr v \<longrightarrow> (\<exists>l. on_heap log h = L @ l))" for p env
    using post_on_node [OF post_Run_extends [OF assms, of L env], of p] by (auto simp: post_def)
  have closed: "post (\<lambda>h. \<forall>v. r = Inr v \<longrightarrow> (\<exists>l. on_heap log h = L @ l)) (close_client x p)
      (\<lambda>_ h. \<forall>v. r = Inr v \<longrightarrow> (\<exists>l. on_heap log h = L @ l))" for r :: "error + ComponentsStatus option" and p
    by (rule postI) (simp add: close)
  show ?thesis
    unfolding provision_base_def
    apply (rule post_andthen [OF post_new_for_node [OF keep]])
    apply (rule post_andthen [OF node])
    apply (simp only: split_beta)
    apply (rule post_andthen [OF closed])
    apply (rule post_raise_error)
    apply (auto intro: post_ret)
    done
qed

text \<open>The script that installs the Kubernetes binaries.\<close>

definition prereq_script :: "ClusterProvisioner \<Rightarrow> script \<Rightarrow> bool" where
  "prereq_script cp sc \<longleftrightarrow> (\<exists>body. KubeadmPrereq_Execute (kp_Environment cp) = Inr body \<and> sc = script_header @ body)"

lemma post_installK8sPrereqs:
  assumes "logs_starts x log"
  shows "post (\<lambda>h. on_heap log h = L) (installK8sPrereqs x cp node)
    (\<lambda>_ h. \<exists>l. (\<exists>sc. prereq_script cp sc \<and> l = [sc]) \<and> on_heap log h = L @ l)"
proof -
  have keep: "prov_keeps log x" using assms by (simp add: logs_starts_def)
  have "pres (keeps (on_heap log)) (andthen (close_client x p) (\<lambda>_. close_own_transport x p))" for p
    by (intro kept.pres_rules keeps_close keep)
  then have close: "on_heap log (snd (andthen (close_client x p) (\<lambda>_. close_own_transport x p) h)) = on_heap log h" for p h
    unfolding pres_def keeps_def by blast
  have start: "post (\<lambda>s. log s = L) (andthen (wrap e (px_Start x i sc)) (\<lambda>_. wrap e' (px_Wait x i))) (\<lambda>_ s. log s = L @ [sc])"
    for e e' i sc
    by (rule post_andthen [OF post_wrap [OF post_Start [OF assms]] post_wrap [OF post_quiet [OF px_keeps(3) [OF keep]]]])
  show ?thesis
    unfolding installK8sPrereqs_def
    apply (rule post_andthen [OF post_weaken [OF post_new_for_node [OF keep], where Q' = "\<lambda>_ h. on_heap log h = L"]], simp)
    apply (rule post_deferring)
     apply (rule post_raise_error)
     apply (rule post_weaken [OF post_session_on [OF keep start]])
     apply (auto simp: prereq_script_def addScriptHeader_def close)
    done
qed

lemma post_base_on_all:
  assumes "logs_starts x log" and "length (order2 nodes) = length nodes"
  shows "post (\<lambda>h. on_heap log h = L) (provisionBaseOnAllNodes x order1 order2 cp nodes)
    (\<lambda>_ h. \<exists>base pre. length pre = length nodes \<and> list_all (prereq_script cp) pre
       \<and> on_heap log h = L @ base @ pre)"
proof -
  have first: "post (\<lambda>h. on_heap log h = L) (errgroup (map (provision_base x cp) (order1 nodes)))
      (\<lambda>_ h. \<exists>base. on_heap log h = L @ base)"
    by (rule post_weaken [OF post_errgroup [where K = "\<lambda>_. True"]])
      (use post_provision_base [OF assms(1)] in \<open>auto\<close>)
  have singles: "\<exists>pre. length pre = length ls \<and> list_all (prereq_script cp) pre \<and> concat ls = pre"
    if "list_all (\<lambda>l. \<exists>sc. prereq_script cp sc \<and> l = [sc]) ls" for ls
    using that by (induction ls) auto
  have second: "post (\<lambda>h. on_heap log h = M) (errgroup (map (installK8sPrereqs x cp) (order2 nodes)))
      (\<lambda>_ h. \<exists>pre. length pre = length nodes \<and> list_all (prereq_script cp) pre \<and> on_heap log h = M @ pre)" for M
    by (rule post_weaken [OF post_errgroup [where K = "\<lambda>l. \<exists>sc. prereq_script cp sc \<and> l = [sc]"]])
      (use post_installK8sPrereqs [OF assms(1)] singles assms(2) in \<open>auto\<close>)
  show ?thesis
    unfolding provisionBaseOnAllNodes_def
  proof (rule post_andthen [OF first])
    show "post (\<lambda>h. \<exists>base. on_heap log h = L @ base) (errgroup (map (installK8sPrereqs x cp) (order2 nodes)))
      (\<lambda>_ h. \<exists>base pre. length pre = length nodes \<and> list_all (prereq_script cp) pre \<and> on_heap log h = L @ base @ pre)"
    proof (rule postI, elim exE)
      fix h v h' base
      assume "errgroup (map (installK8sPrereqs x cp) (order2 nodes)) h = (Inr v, h')" "on_heap log h = L @ base"
      from postD [OF second this] show "\<exists>base pre. length pre = length nodes \<and> list_all (prereq_script cp) pre
          \<and> on_heap log h' = L @ base @ pre" by auto
    qed
  qed
qed

text \<open>\<open>log\<close> and the cluster provisioner in a state of a cluster method.\<close>

abbreviation at_cluster :: "('s \<Rightarrow> 'o) \<Rightarrow> 'o \<Rightarrow> ClusterProvisioner \<Rightarrow> ('s, 'c) heap \<times> ClusterProvisioner \<Rightarrow> bool" where
  "at_cluster g L cp st \<equiv> g (fst (fst st)) = L \<and> snd st = cp"

lemma post_get_cluster: "post (at_cluster g L cp) (f cp) Q \<Longrightarrow> post (at_cluster g L cp) (andthen (gets snd) f) Q"
  by (auto simp: post_def andthen_def gets_def)

lemma post_set_cluster: "post (at_cluster g L cp) (set_cluster f) (\<lambda>_. at_cluster g L (f cp))"
  by (auto simp: post_def set_cluster_def modify_def)

lemma post_with_node:
  fixes x :: "('s, 'n, 'c) prov_env"
  assumes "prov_keeps g x" and "\<And>p. pn_tpl p = [] \<Longrightarrow> post (at_cluster g L cp) (f p) (\<lambda>_ st. Q (g (fst (fst st))) (snd st))"
  shows "post (at_cluster g L cp) (with_node x node f) (\<lambda>_ st. Q (g (fst (fst st))) (snd st))"
proof -
  have closed: "g (fst h') = g (fst h)" if "close_client x p h = (r, h')" for p h r h'
    by (rule keepsD [OF keeps_close(1) [OF assms(1)] that])
  have close: "g (fst (fst (snd (on_fst (close_client x p) st)))) = g (fst (fst st))
      \<and> snd (snd (on_fst (close_client x p) st)) = snd st" for p and st :: "('s, 'c) heap \<times> ClusterProvisioner"
    by (cases "close_client x p (fst st)") (auto simp: on_fst_def dest: closed)
  have new: "post (at_cluster g L cp) (on_fst (new_for_node x cp node)) (\<lambda>p st. at_cluster g L cp st \<and> pn_tpl p = [])"
    by (rule post_weaken [OF post_on_fst [OF post_new_for_node [OF assms(1)]]]) simp
  show ?thesis
    unfolding with_node_def
  proof (rule post_get_cluster, rule post_andthen [OF new])
    fix p
    show "post (\<lambda>st. at_cluster g L cp st \<and> pn_tpl p = []) (deferring (on_fst (close_client x p)) (f p))
      (\<lambda>_ st. Q (g (fst (fst st))) (snd st))"
    proof (rule post_deferring)
      show "post (\<lambda>st. at_cluster g L cp st \<and> pn_tpl p = []) (f p) (\<lambda>_ st. Q (g (fst (fst st))) (snd st))"
        using assms(2) [of p] unfolding post_def by blast
    qed (simp add: close)
  qed
qed

lemma post_provision_script:
  assumes "logs_starts x log"
  shows "post (at_cluster log L cp) (provision_script x e p sc) (\<lambda>_. at_cluster log (L @ [script_header @ sc]) cp)"
proof -
  have "post (\<lambda>h. on_heap log h = L) (on_node (provision x) (p\<lparr>pn_tpl := addScriptHeader [] @ sc\<rparr>))
      (\<lambda>(r, p') h. \<forall>v. r = Inr v \<longrightarrow> on_heap log h = L @ [script_header @ sc])"
    using post_on_node [OF post_provision [OF assms, of L "script_header @ sc"], of "p\<lparr>pn_tpl := addScriptHeader [] @ sc\<rparr>"]
    by (auto simp: post_def addScriptHeader_def)
  from post_on_fst [OF this, of cp] show ?thesis
    unfolding provision_script_def
    by (rule post_andthen) (auto intro!: post_raise_error post_ret)
qed

lemma post_cluster_session:
  assumes "prov_keeps g x" and "\<And>i. pres (keeps g) (f i)"
  shows "post (at_cluster g L cp) (on_fst (session_on x p f)) (\<lambda>_. at_cluster g L cp)"
  by (rule post_on_fst [OF post_session_on [OF assms(1) post_quiet [OF assms(2)]]])

lemma post_join_node:
  assumes "logs_starts x log"
  shows "post (at_cluster log L cp) (join_node b x node)
    (\<lambda>_. at_cluster log (L @ [script_header @ [T_kubeadmJoin (join_config b cp)]]) cp)"
proof -
  have keep: "prov_keeps log x" using assms by (simp add: logs_starts_def)
  show ?thesis
    unfolding join_node_def
    apply (rule post_with_node [OF keep, where Q = "\<lambda>l c. l = L @ [script_header @ [T_kubeadmJoin (join_config b cp)]] \<and> c = cp"])
    apply (rule post_get_cluster)
    apply (rule post_raise_error)
    apply (simp only: KubeadmJoin_Execute_def sum.inject)
    apply (hypsubst)
    apply (rule post_andthen [OF post_provision_script [OF assms]])
    apply (auto intro: post_ret)
    done
qed

text \<open>The credentials that the first control-plane node gives out.\<close>

definition with_credentials :: "ClusterProvisioner \<Rightarrow> ClusterProvisioner \<Rightarrow> bool" where
  "with_credentials cp cp' \<longleftrightarrow> (\<exists>token hash key. cp' = cp\<lparr>kp_JoinToken := token, kp_CACertHash := hash, kp_CertificateKey := key\<rparr>)"

lemma post_extractJoinInfo:
  assumes "prov_keeps g x"
  shows "post (at_cluster g L cp) (extractJoinInfo x p) (\<lambda>_ st. \<exists>cp'. with_credentials cp cp' \<and> at_cluster g L cp' st)"
  unfolding extractJoinInfo_def
proof (rule post_get_cluster, rule post_andthen [OF post_cluster_session [OF assms]])
  show "pres (keeps g) (wrap e (px_CombinedOutput x i sc))" for e i sc
    by (intro kept.pres_rules px_keeps assms)
  show "post (at_cluster g L cp) (case parse_join_info out of Inl e \<Rightarrow> fail e
      | Inr (token, hash, key) \<Rightarrow> set_cluster (\<lambda>cp. cp\<lparr>kp_JoinToken := token, kp_CACertHash := hash,
          kp_CertificateKey := (case key of Some k \<Rightarrow> k | None \<Rightarrow> kp_CertificateKey cp)\<rparr>))
      (\<lambda>_ st. \<exists>cp'. with_credentials cp cp' \<and> at_cluster g L cp' st)" for out
    by (cases "parse_join_info out")
      (auto simp: post_fail split_beta with_credentials_def intro: post_weaken [OF post_set_cluster])
qed

lemma wrap_error_Inr: "wrap_error t r = Inr v \<longleftrightarrow> r = Inr v"
  by (cases r) (simp_all add: wrap_error_def)

lemma post_initFirstControlPlane:
  assumes "logs_starts x log"
    and env: "env = set_endpoint (kp_ControlPlaneEndpoint cp) (kp_Environment cp)"
  shows "post (at_cluster log L cp) (initFirstControlPlane x node)
    (\<lambda>_ st. \<exists>k cp'. NewKubernetes env = Inr k \<and> with_credentials (cp\<lparr>kp_Environment := env\<rparr>) cp'
       \<and> at_cluster log (L @ [script_header @ [T_kubeadmInit \<lparr>ki_Kubernetes = k,
           ki_ControlPlaneEndpoint = kp_ControlPlaneEndpoint cp, ki_IsHA = cluster_isHAEnabled (cp\<lparr>kp_Environment := env\<rparr>)\<rparr>]]) cp' st)"
proof -
  have keep: "prov_keeps log x" using assms by (simp add: logs_starts_def)
  let ?cp = "cp\<lparr>kp_Environment := env\<rparr>"
  let ?init = "\<lambda>k. [T_kubeadmInit \<lparr>ki_Kubernetes = k, ki_ControlPlaneEndpoint = kp_ControlPlaneEndpoint cp,
    ki_IsHA = cluster_isHAEnabled ?cp\<rparr>]"
  have body: "post (at_cluster log L ?cp)
      (andthen (provision_script x e p sc) (\<lambda>p'. wrap e' (extractJoinInfo x p')))
      (\<lambda>_ st. \<exists>cp'. with_credentials ?cp cp' \<and> at_cluster log (L @ [script_header @ sc]) cp' st)" for e e' p sc
    by (rule post_andthen [OF post_provision_script [OF assms(1)] post_wrap [OF post_extractJoinInfo [OF keep]]])
  show ?thesis
    unfolding initFirstControlPlane_def
    apply (rule post_with_node [OF keep, where Q = "\<lambda>l c. \<exists>k cp'. NewKubernetes env = Inr k \<and> with_credentials ?cp cp'
       \<and> l = L @ [script_header @ ?init k] \<and> c = cp'"])
    apply (rule post_andthen [OF post_set_cluster])
    apply (rule post_get_cluster)
    apply (rule post_raise_error)
    apply (simp only: env [symmetric])
    apply (rule post_weaken [OF body])
    apply (auto simp: KubeadmInit_Execute_def wrap_error_Inr split: sum.splits)
    done
qed

lemma post_join_each:
  assumes "logs_starts x log"
  shows "post (at_cluster log L cp) (for_each (\<lambda>n. wrap (e n) (join_node b x n)) ns)
    (\<lambda>_. at_cluster log (L @ replicate (length ns) (script_header @ [T_kubeadmJoin (join_config b cp)])) cp)"
proof (induction ns arbitrary: L)
  case Nil
  show ?case by (simp add: post_ret)
next
  case (Cons n ns)
  have "post (at_cluster log L cp) (for_each (\<lambda>n. wrap (e n) (join_node b x n)) (n # ns))
    (\<lambda>_. at_cluster log ((L @ [script_header @ [T_kubeadmJoin (join_config b cp)]])
       @ replicate (length ns) (script_header @ [T_kubeadmJoin (join_config b cp)])) cp)"
    unfolding for_each.simps by (rule post_andthen [OF post_wrap [OF post_join_node [OF assms]] Cons.IH])
  then show ?case by simp
qed

lemma post_configureNodes:
  assumes "prov_keeps g x"
  shows "post (at_cluster g L cp) (configureNodes x first nodes) (\<lambda>_. at_cluster g L cp)"
  unfolding configureNodes_def
proof (rule post_with_node [OF assms, where Q = "\<lambda>l c. l = L \<and> c = cp"])
  have out: "pres (keeps g) (wrap e (px_CombinedOutput x i sc))" for e i sc
    by (intro kept.pres_rules px_keeps assms)
  show "post (at_cluster g L cp) (case bad_address nodes of Some e \<Rightarrow> fail e
     | None \<Rightarrow> andthen (gets snd) (\<lambda>cp. andthen (on_fst (session_on x p (\<lambda>i. wrap ''failed to configure nodes''
           (px_CombinedOutput x i [Text (configure_script cp nodes)])))) (\<lambda>_. ret ())))
     (\<lambda>_ st. g (fst (fst st)) = L \<and> snd st = cp)" for p
    by (cases "bad_address nodes")
      (auto simp: post_fail intro!: post_get_cluster post_andthen [OF post_cluster_session [OF assms out]] post_ret)
qed

section \<open>The order of a provisioning\<close>

text \<open>The control-plane nodes, the first of which is initialised, and the others.\<close>

abbreviation control_planes :: "NodeInfo list \<Rightarrow> NodeInfo list" where
  "control_planes nodes \<equiv> filter (\<lambda>n. np_Role n = ''control-plane'') nodes"

lemma post_joins:
  assumes L: "logs_starts x log"
  shows "post (at_cluster log M c) (andthen (join_all x others workers) (\<lambda>_. wrap e (configureNodes x first nodes)))
      (\<lambda>_. at_cluster log (M @ replicate (length others) (script_header @ [T_kubeadmJoin (join_config True c)])
        @ replicate (length workers) (script_header @ [T_kubeadmJoin (join_config False c)])) c)"
proof -
  have "prov_keeps log x" using L by (simp add: logs_starts_def)
  then show ?thesis
    unfolding join_all_def joinControlPlane_def joinWorker_def append_assoc [symmetric]
    by (intro post_andthen [OF post_andthen [OF post_join_each [OF L] post_join_each [OF L]]] post_wrap post_configureNodes)
qed


definition sample_nodes :: "NodeInfo list" where
  "sample_nodes = [
     \<lparr>np_Name = ''worker-0'', np_PublicIP = ''54.0.0.2'', np_PrivateIP = ''10.0.0.2'', np_Role = ''worker'',
      np_SSHUsername = '''', np_InstanceID = ''i-2'', np_Transport = None\<rparr>,
     \<lparr>np_Name = ''cp-0'', np_PublicIP = ''54.0.0.1'', np_PrivateIP = ''10.0.0.1'', np_Role = ''control-plane'',
      np_SSHUsername = ''ec2-user'', np_InstanceID = ''i-1'', np_Transport = None\<rparr>]"

definition sample_provisioner :: ClusterProvisioner where
  "sample_provisioner = NewClusterProvisioner ''/key'' ''ubuntu'' (zero_Environment\<lparr>env_Spec := zero_EnvironmentSpec\<lparr>
     sp_ContainerRuntime := zero_ContainerRuntime\<lparr>cr_Install := True, cr_Name := ''containerd''\<rparr>,
     sp_Kubernetes := zero_Kubernetes\<lparr>k_Install := True\<rparr>\<rparr>\<rparr>)"

definition cluster_run :: "(error + unit) \<times> (script list, nat) heap \<times> ClusterProvisioner" where
  "cluster_run = ProvisionCluster open_node rev (\<lambda>ns. ns) sample_nodes (([], []), sample_provisioner)"


section \<open>Health\<close>

lemma foldl_add_node:
  "(let h' = foldl add_node h ls; ns = List.map_filter node_health ls in
    hl_Nodes h' = hl_Nodes h @ ns \<and> hl_TotalNodes h' = hl_TotalNodes h + length ns
    \<and> hl_ReadyNodes h' = hl_ReadyNodes h + length (filter nh_Ready ns)
    \<and> hl_ControlPlanes h' + hl_Workers h' = hl_ControlPlanes h + hl_Workers h + length ns
    \<and> hl_APIServerStatus h' = hl_APIServerStatus h)"
  unfolding Let_def
  by (induction ls arbitrary: h) (auto simp: List.map_filter_simps add_node_def split: option.splits)

lemma all_pass: "length (filter P xs) = length xs \<longleftrightarrow> (\<forall>x \<in> set xs. P x)"
proof (induction xs)
  case (Cons a xs)
  show ?case using Cons length_filter_le [of P xs] by (cases "P a") (simp_all add: le_imp_less_Suc less_imp_neq)
qed simp

lemma node_health_ready: "node_health l = Some n \<Longrightarrow> nh_Ready n \<longleftrightarrow> nh_Status n = ''Ready''"
  by (auto simp: node_health_def split: list.splits)

lemma health_of_healthy:
  "hl_Healthy (health_of apiOut nodeOut) \<longleftrightarrow> contains apiOut ''is running''
     \<and> hl_Nodes (health_of apiOut nodeOut) \<noteq> [] \<and> (\<forall>n \<in> set (hl_Nodes (health_of apiOut nodeOut)). nh_Status n = ''Ready'')"
proof -
  let ?ls = "split_on (CHR 0x0A) (TrimSpace nodeOut)"
  let ?h0 = "zero_ClusterHealth\<lparr>hl_APIServerStatus := (if contains apiOut ''is running'' then ''Running'' else ''Unknown'')\<rparr>"
  let ?ns = "List.map_filter node_health ?ls"
  note f = foldl_add_node [of ?h0 ?ls, unfolded Let_def]
  have ready: "nh_Ready n \<longleftrightarrow> nh_Status n = ''Ready''" if "n \<in> set ?ns" for n
    using that node_health_ready by (auto simp: List.map_filter_def)
  have "length (filter nh_Ready ?ns) = length ?ns \<longleftrightarrow> (\<forall>n \<in> set ?ns. nh_Status n = ''Ready'')"
    unfolding all_pass using ready by simp
  then show ?thesis
    using f by (auto simp: health_of_def judge_def Let_def zero_ClusterHealth_def)
qed

lemma healthy_facts:
  assumes "hl_Healthy (health_of api out)"
  shows "contains api ''is running''
    \<and> hl_Nodes (health_of api out) = List.map_filter node_health (split_on (CHR 0x0A) (TrimSpace out))
    \<and> hl_Nodes (health_of api out) \<noteq> []
    \<and> list_all (\<lambda>n. nh_Status n = ''Ready'') (hl_Nodes (health_of api out))
    \<and> hl_TotalNodes (health_of api out) = length (hl_Nodes (health_of api out))
    \<and> hl_ReadyNodes (health_of api out) = hl_TotalNodes (health_of api out)
    \<and> hl_ControlPlanes (health_of api out) + hl_Workers (health_of api out) = hl_TotalNodes (health_of api out)"
  using assms health_of_healthy [of api out]
    foldl_add_node [of "zero_ClusterHealth\<lparr>hl_APIServerStatus := (if contains api ''is running'' then ''Running'' else ''Unknown'')\<rparr>"
      "split_on (CHR 0x0A) (TrimSpace out)"]
  by (simp add: health_of_def judge_def Let_def zero_ClusterHealth_def list_all_iff)

definition answered :: "('s, 'n, 'c) prov_env \<Rightarrow> string \<Rightarrow> string \<Rightarrow> bool" where
  "answered x command out \<longleftrightarrow> (\<exists>i s s'. px_CombinedOutput x i [Text command] s = (Inr out, s'))"

lemma one_command_answered: "one_command x p command st = (Inr (Inr out), st') \<Longrightarrow> answered x command out"
  by (auto simp: one_command_def andthen_Inr closing_session_def on_fst_def deferring_def attempt_def answered_def
      split: prod.splits)

definition health_seen :: "('s, 'n, 'c) prov_env \<Rightarrow> ClusterHealth \<Rightarrow> bool" where
  "health_seen x h \<longleftrightarrow> (\<exists>api out.
     answered x ''sudo kubectl --kubeconfig=/etc/kubernetes/admin.conf cluster-info 2>&1 | head -1'' api
     \<and> answered x ''sudo kubectl --kubeconfig=/etc/kubernetes/admin.conf get nodes -o wide --no-headers 2>/dev/null'' out
     \<and> h = health_of api out)"

lemma check_health_seen: "\<exists>h. fst (check_health x p s) = Inr h \<and> (hl_Healthy h \<longrightarrow> health_seen x h)"
proof -
  obtain r1 s1 where 1: "one_command x p ''sudo kubectl --kubeconfig=/etc/kubernetes/admin.conf cluster-info 2>&1 | head -1'' s = (r1, s1)"
    by (rule prod.exhaust)
  obtain r2 s2 where 2: "one_command x p ''sudo kubectl --kubeconfig=/etc/kubernetes/admin.conf get nodes -o wide --no-headers 2>/dev/null'' s1 = (r2, s2)"
    by (rule prod.exhaust)
  note run = check_health_def andthen_def attempt_def Let_def ret_def 1 2 zero_ClusterHealth_def
  consider "\<exists>e. r1 = Inl e" | "\<exists>e. r1 = Inr (Inl e)" | "\<exists>a e. r1 = Inr (Inr a) \<and> (r2 = Inl e \<or> r2 = Inr (Inl e))"
    | a b where "r1 = Inr (Inr a)" "r2 = Inr (Inr b)"
    by (metis sum.exhaust)
  then show ?thesis
  proof cases
    case (4 a b)
    have "health_seen x (health_of a b)"
      unfolding health_seen_def using one_command_answered 1 2 4 by blast
    then show ?thesis by (simp add: run 4)
  qed (auto simp: run)
qed


definition answering_node :: "(script list, nat, nat) prov_env" where
  "answering_node = open_node\<lparr>px_CombinedOutput := (\<lambda>_ sc. ret
     (if sc = [Text ''sudo kubectl --kubeconfig=/etc/kubernetes/admin.conf cluster-info 2>&1 | head -1'']
      then ''Kubernetes control plane is running at https://10.0.0.1:6443'' @ nl
      else ''cp-0 Ready control-plane 5m v1.33.3 10.0.0.1 <none>'' @ nl @ ''worker-0   Ready <none> 4m v1.33.3 10.0.0.2'' @ nl))\<rparr>"


end
