(* ===== verification/Instances.thy ===== *)
theory Instances
  imports Teardown Template_Checks Go_Path
begin

text \<open>
  \<open>internal/instances/instances.go\<close>: the instances that the cache directory knows, one YAML file per
  instance, with their status and their deletion.

  The directory, the times of the files, the random numbers and the configuration of the SDK are
  parameters. A nil map of labels is the empty map.
\<close>

section \<open>State\<close>

record ClusterInfo =
  ci_Region :: string
  ci_ControlPlaneCount :: "32 word"
  ci_WorkerCount :: "32 word"
  ci_TotalNodes :: "32 word"
  ci_ReadyNodes :: "32 word"
  ci_ControlPlaneEndpoint :: string
  ci_HAEnabled :: bool

record Managed_Instance =
  mi_ID :: string
  mi_Name :: string
  mi_Provider :: string
  mi_CreatedAt :: nat
  mi_Status :: string
  mi_CacheFile :: string
  mi_Provisioned :: bool
  mi_IsCluster :: bool
  mi_ClusterInfo :: "ClusterInfo option"

record Manager =
  mg_cachePath :: string

text \<open>\<open>ie_LoadConfig\<close> makes the clients of a region, \<open>ie_ReadDir\<close> lists the names in a directory.\<close>

record ('s, 'f) instance_env =
  ie_platform :: "('s, 'f) platform"
  ie_sleep :: "nat \<Rightarrow> 's \<Rightarrow> 's"
  ie_LoadConfig :: "string \<Rightarrow> ('s, 's ec2_client \<times> 's ssm_client \<times> 's elbv2_client) io"
  ie_ReadDir :: "string \<Rightarrow> ('s, string list) io"
  ie_ModTime :: "string \<Rightarrow> ('s, nat) io"
  ie_Remove :: "string \<Rightarrow> ('s, unit) io"
  ie_RandRead :: "nat \<Rightarrow> ('s, 8 word list) io"

definition NewManager :: "('s, 'f) instance_env \<Rightarrow> string \<Rightarrow> Manager" where
  "NewManager x cachePath = \<lparr>mg_cachePath = (if cachePath = ''''
     then Join (Join (pl_Getenv (ie_platform x) ''HOME'') ''.cache'') ''holodeck'' else cachePath)\<rparr>"

section \<open>Identifiers and files\<close>

definition hex_digit_char :: "8 word \<Rightarrow> char" where
  "hex_digit_char b = ''0123456789abcdef'' ! unat b"

text \<open>\<open>hex.EncodeToString\<close>.\<close>

definition EncodeToString :: "8 word list \<Rightarrow> string" where
  "EncodeToString bs = concat (map (\<lambda>b. [hex_digit_char (b div 16), hex_digit_char (b mod 16)]) bs)"

definition GenerateInstanceID :: "('s, 'f) instance_env \<Rightarrow> ('s, string) io" where
  "GenerateInstanceID x =
     andthen (wrap ''failed to generate instance ID'' (ie_RandRead x 4)) (\<lambda>b. ret (EncodeToString b))"

definition lower_hex :: "string \<Rightarrow> bool" where
  "lower_hex s \<longleftrightarrow> set s \<subseteq> set ''0123456789abcdef''"

definition instanceIDPattern :: "string \<Rightarrow> bool" where
  "instanceIDPattern s \<longleftrightarrow> length s = 8 \<and> lower_hex s"

definition uuidPattern :: "string \<Rightarrow> bool" where
  "uuidPattern s \<longleftrightarrow> map length (split_on (CHR ''-'') s) = [8, 4, 4, 4, 12] \<and> list_all lower_hex (split_on (CHR ''-'') s)"

definition GetInstanceCacheFile :: "Manager \<Rightarrow> string \<Rightarrow> error + string" where
  "GetInstanceCacheFile m instanceID =
     (if \<not> instanceIDPattern instanceID \<and> \<not> uuidPattern instanceID
      then Inl (''invalid instance ID format: '' @ quoted instanceID)
      else Inr (Join (mg_cachePath m) (instanceID @ ''.yaml'')))"

section \<open>The provider of an instance\<close>

definition aws_New :: "('s, 'f) instance_env \<Rightarrow> Environment \<Rightarrow> string \<Rightarrow> ('s, ('s, 'f) Provider) io" where
  "aws_New x env cacheFile =
     andthen (ie_LoadConfig x (provider_region (pl_Getenv (ie_platform x)) env)) (\<lambda>(ec2, ssm, elbv2).
     ret (New (ie_platform x) (ie_sleep x) ec2 ssm elbv2 env cacheFile))"

definition on_provider :: "Environment \<Rightarrow> ('s pstate, 'a) io \<Rightarrow> ('s, 'a) io" where
  "on_provider env m s =
     (case m \<lparr>ps_Environment = env, ps_cache = zero_ClusterCache zero_AWS, ps_world = s\<rparr> of
        (r, ps) \<Rightarrow> (r, ps_world ps))"

text \<open>The text of a condition that is true; the first one in the list counts.\<close>

definition condition_text :: "Condition \<Rightarrow> string option" where
  "condition_text c =
     (if cd_Status c \<noteq> ''True'' then None
      else if cd_Type c = ConditionTerminated then Some ''terminated''
      else if cd_Type c = ConditionDegraded then
        Some (if cd_Reason c \<noteq> '''' then ''degraded ('' @ cd_Reason c @ '')'' else ''degraded'')
      else if cd_Type c = ConditionProgressing then Some ''progressing''
      else if cd_Type c = ConditionAvailable then Some ''running''
      else None)"

definition status_text :: "Condition list \<Rightarrow> string" where
  "status_text cs = (case List.map_filter condition_text cs of [] \<Rightarrow> ''unknown'' | t # _ \<Rightarrow> t)"

definition getProviderStatus :: "('s, 'f) instance_env \<Rightarrow> Environment \<Rightarrow> string \<Rightarrow> ('s, string) io" where
  "getProviderStatus x env cacheFile =
     (if sp_Provider (env_Spec env) = ProviderAWS then
        catch (andthen (aws_New x env cacheFile) (\<lambda>p.
               andthen (on_provider env (Status p)) (\<lambda>cs. ret (status_text cs))))
          (\<lambda>_. ret ''unknown'')
      else ret ''unknown'')"

section \<open>Reading instances\<close>

definition InstanceLabelKey :: string where
  "InstanceLabelKey = ''holodeck-instance-id''"

definition InstanceProvisionedLabelKey :: string where
  "InstanceProvisionedLabelKey = ''holodeck-instance-provisioned''"

definition label_of :: "Environment \<Rightarrow> string \<Rightarrow> string" where
  "label_of env k = (case map_of (env_Labels env) k of None \<Rightarrow> '''' | Some v \<Rightarrow> v)"

definition cluster_info :: "Environment \<Rightarrow> ClusterInfo option" where
  "cluster_info env = (case sp_Cluster (env_Spec env) of
       None \<Rightarrow> None
     | Some c \<Rightarrow> (let i = \<lparr>ci_Region = cl_Region c, ci_ControlPlaneCount = cp_Count (cl_ControlPlane c),
           ci_WorkerCount = (case cl_Workers c of None \<Rightarrow> 0 | Some w \<Rightarrow> wp_Count w),
           ci_TotalNodes = 0, ci_ReadyNodes = 0, ci_ControlPlaneEndpoint = '''',
           ci_HAEnabled = (case cl_HighAvailability c of None \<Rightarrow> False | Some h \<Rightarrow> ha_Enabled h)\<rparr> in
         Some (case st_Cluster (env_Status env) of
           None \<Rightarrow> i
         | Some s \<Rightarrow> i\<lparr>ci_TotalNodes := cs_TotalNodes s, ci_ReadyNodes := cs_ReadyNodes s,
             ci_ControlPlaneEndpoint := cs_ControlPlaneEndpoint s\<rparr>)))"

definition instance_of :: "string \<Rightarrow> Environment \<Rightarrow> nat \<Rightarrow> string \<Rightarrow> string \<Rightarrow> Managed_Instance" where
  "instance_of i env created status cacheFile =
     \<lparr>mi_ID = i, mi_Name = env_Name env, mi_Provider = sp_Provider (env_Spec env), mi_CreatedAt = created,
      mi_Status = status, mi_CacheFile = cacheFile,
      mi_Provisioned = (label_of env InstanceProvisionedLabelKey = ''true''),
      mi_IsCluster = (sp_Cluster (env_Spec env) \<noteq> None), mi_ClusterInfo = cluster_info env\<rparr>"

text \<open>The labels of a listed file: an old file without an identifier is named by its UUID.\<close>

definition listed_labels :: "string \<Rightarrow> Environment \<Rightarrow> Environment option" where
  "listed_labels instanceID env =
     (if label_of env InstanceLabelKey \<noteq> '''' then Some env
      else if length instanceID = 36 then Some (env\<lparr>env_Labels := [(InstanceLabelKey, instanceID)]\<rparr>)
      else None)"

text \<open>One file of the directory; a file that cannot be read, or has no identifier, is passed over.\<close>

definition list_file :: "('s, 'f) instance_env \<Rightarrow> Manager \<Rightarrow> string \<Rightarrow> ('s, Managed_Instance option) io" where
  "list_file x m name =
     (if \<not> suffix ''.yaml'' name then ret None
      else let instanceID = take (length name - 5) name; cacheFile = Join (mg_cachePath m) name in
        andthen (attempt (UnmarshalFromFile (ie_platform x) cacheFile)) (\<lambda>r. case r of
          Inl _ \<Rightarrow> ret None
        | Inr env \<Rightarrow>
            andthen (getProviderStatus x env cacheFile) (\<lambda>status.
            andthen (attempt (ie_ModTime x cacheFile)) (\<lambda>t. case t of
              Inl _ \<Rightarrow> ret None
            | Inr created \<Rightarrow> ret (map_option (\<lambda>env. instance_of (label_of env InstanceLabelKey) env created status cacheFile)
                (listed_labels instanceID env))))))"

fun list_files :: "('s, 'f) instance_env \<Rightarrow> Manager \<Rightarrow> string list \<Rightarrow> ('s, Managed_Instance list) io" where
  "list_files x m [] = ret []"
| "list_files x m (name # names) =
     andthen (list_file x m name) (\<lambda>i.
     andthen (list_files x m names) (\<lambda>is. ret (case i of None \<Rightarrow> is | Some j \<Rightarrow> j # is)))"

definition ListInstances :: "('s, 'f) instance_env \<Rightarrow> Manager \<Rightarrow> ('s, Managed_Instance list) io" where
  "ListInstances x m =
     andthen (wrap ''failed to read cache directory'' (ie_ReadDir x (mg_cachePath m))) (list_files x m)"

text \<open>The file, the time and the status of one instance.\<close>

definition load_instance :: "('s, 'f) instance_env \<Rightarrow> Manager \<Rightarrow> string \<Rightarrow> ('s, Environment \<times> nat \<times> string \<times> string) io" where
  "load_instance x m instanceID =
     andthen (wrap ''invalid instance ID'' (lift_result (GetInstanceCacheFile m instanceID))) (\<lambda>cacheFile.
     andthen (wrap ''failed to read cache file'' (UnmarshalFromFile (ie_platform x) cacheFile)) (\<lambda>env.
     andthen (wrap ''failed to get file info'' (ie_ModTime x cacheFile)) (\<lambda>created.
     andthen (getProviderStatus x env cacheFile) (\<lambda>status.
     ret (env, created, status, cacheFile)))))"

definition GetInstance :: "('s, 'f) instance_env \<Rightarrow> Manager \<Rightarrow> string \<Rightarrow> ('s, Managed_Instance) io" where
  "GetInstance x m instanceID = andthen (load_instance x m instanceID) (\<lambda>(env, created, status, cacheFile).
     ret (instance_of instanceID env created status cacheFile))"

definition GetInstanceByFilename :: "('s, 'f) instance_env \<Rightarrow> Manager \<Rightarrow> string \<Rightarrow> ('s, Managed_Instance) io" where
  "GetInstanceByFilename x m filename = andthen (load_instance x m filename) (\<lambda>(env, created, status, cacheFile).
     ret ((instance_of filename env created status cacheFile)
       \<lparr>mi_Provisioned := False, mi_IsCluster := False, mi_ClusterInfo := None\<rparr>))"

section \<open>Deleting an instance\<close>

definition DeleteInstance :: "('s, 'f) instance_env \<Rightarrow> Manager \<Rightarrow> string \<Rightarrow> ('s, unit) io" where
  "DeleteInstance x m instanceID =
     andthen (wrap ''invalid instance ID'' (lift_result (GetInstanceCacheFile m instanceID))) (\<lambda>cacheFile.
     andthen (wrap ''failed to read cache file'' (UnmarshalFromFile (ie_platform x) cacheFile)) (\<lambda>env.
     andthen (if sp_Provider (env_Spec env) = ProviderAWS then
         andthen (wrap ''failed to create AWS provider'' (aws_New x env cacheFile)) (\<lambda>p.
         wrap ''failed to delete AWS resources'' (on_provider env (Delete p)))
       else ret ()) (\<lambda>_.
     wrap ''failed to remove cache file'' (ie_Remove x cacheFile))))"

end
