(* ===== verification/Remote_Access.thy ===== *)
theory Remote_Access
  imports Provisioner
begin

text \<open>
  \<open>pkg/utils/kubeconfig.go\<close> with \<open>kubeconfig_chown_unix.go\<close>, and \<open>cmd/cli/common/host.go\<close>: downloading
  the kubeconfig of a node, rewriting its server address, and finding the host of an environment.

  The YAML codec for the kubeconfig and the local files are parameters; the contexts and users of a
  kubeconfig, which the code keeps as they are, have a type \<open>'v\<close> of their own.
\<close>

section \<open>The kubeconfig\<close>

record kubeConfigCluster =
  kk_Server :: string
  kk_CertificateAuthorityData :: string

record kubeConfigClusterEntry =
  ke_Name :: string
  ke_Cluster :: kubeConfigCluster

record 'v kubeConfig =
  kf_APIVersion :: string
  kf_Kind :: string
  kf_Clusters :: "kubeConfigClusterEntry list"
  kf_Contexts :: "'v list"
  kf_CurrentContext :: string
  kf_Users :: "'v list"

text \<open>The owner of a file is \<open>None\<close> where the system does not tell it.\<close>

record ('s, 'v) file_env =
  fx_Unmarshal :: "string \<Rightarrow> error + 'v kubeConfig"
  fx_Marshal :: "'v kubeConfig \<Rightarrow> error + string"
  fx_ReadFile :: "string \<Rightarrow> ('s, string) io"
  fx_WriteFile :: "string \<Rightarrow> string \<Rightarrow> ('s, unit) io"
  fx_Stat :: "string \<Rightarrow> ('s, (nat \<times> nat) option) io"
  fx_Getuid :: nat
  fx_Chown :: "string \<Rightarrow> nat \<Rightarrow> nat \<Rightarrow> ('s, unit) io"
  fx_StdoutPipe :: "nat \<Rightarrow> ('s, unit) io"
  fx_OpenFile :: "string \<Rightarrow> ('s, unit) io"
  fx_CopyStdout :: "nat \<Rightarrow> string \<Rightarrow> ('s, unit) io"

definition with_server :: "string \<Rightarrow> 'v kubeConfig \<Rightarrow> 'v kubeConfig" where
  "with_server url c = c\<lparr>kf_Clusters := map (\<lambda>e. e\<lparr>ke_Cluster := (ke_Cluster e)\<lparr>kk_Server := url\<rparr>\<rparr>) (kf_Clusters c)\<rparr>"

definition RewriteKubeConfigServer :: "('s, 'v) file_env \<Rightarrow> string \<Rightarrow> string \<Rightarrow> ('s, unit) io" where
  "RewriteKubeConfigServer f path serverURL =
     (if serverURL = '''' then ret ()
      else andthen (wrap ''reading kubeconfig'' (fx_ReadFile f path)) (\<lambda>data.
        andthen (wrap ''parsing kubeconfig'' (\<lambda>s. (fx_Unmarshal f data, s))) (\<lambda>cfg.
        andthen (wrap ''marshaling kubeconfig'' (\<lambda>s. (fx_Marshal f (with_server serverURL cfg), s))) (\<lambda>out.
        wrap ''writing kubeconfig'' (fx_WriteFile f path out)))))"

definition chownToWorkspaceOwner :: "('s, 'v) file_env \<Rightarrow> string \<Rightarrow> ('s, unit) io" where
  "chownToWorkspaceOwner f path =
     andthen (wrap (''stat parent directory '' @ quoted (Dir path)) (fx_Stat f (Dir path))) (\<lambda>info. case info of
       None \<Rightarrow> ret ()
     | Some (uid, gid) \<Rightarrow>
         if uid = fx_Getuid f then ret ()
         else wrap (''chown '' @ quoted path @ '' to '' @ decimal uid @ '':'' @ decimal gid) (fx_Chown f path uid gid))"

text \<open>\<open>ErrRewriteFailed\<close> and \<open>ErrChownFailed\<close> by their texts.\<close>

definition ApplyRemoteAccess :: "('s, 'v) file_env \<Rightarrow> Environment \<Rightarrow> string \<Rightarrow> string \<Rightarrow> ('s, unit) io" where
  "ApplyRemoteAccess f cfg hostUrl path =
     (if \<not> k_RemoteAccess (sp_Kubernetes (env_Spec cfg)) then ret ()
      else if hostUrl = '''' then fail ''ApplyRemoteAccess: hostUrl is empty''
      else andthen (wrap ''kubeconfig server URL rewrite failed''
             (RewriteKubeConfigServer f path (''https://'' @ hostUrl @ '':6443''))) (\<lambda>_.
           wrap ''kubeconfig chown failed'' (chownToWorkspaceOwner f path)))"

section \<open>Downloading\<close>

text \<open>The client is closed in the end, the transport is not.\<close>

definition GetKubeConfig :: "('s, 'n, 'c) prov_env \<Rightarrow> ('s, 'v) file_env \<Rightarrow> Environment \<Rightarrow> string \<Rightarrow> string
    \<Rightarrow> (('s, 'c) heap, unit) io" where
  "GetKubeConfig x f cfg hostUrl dest =
     andthen (Provisioner_New x (au_PrivateKey (sp_Auth (env_Spec cfg))) (au_Username (sp_Auth (env_Spec cfg))) hostUrl
       [WithSSHConfig (au_SSHConfig (sp_Auth (env_Spec cfg)))]) (\<lambda>p.
     case pn_Client p of
       None \<Rightarrow> fail nil_dereference
     | Some c \<Rightarrow> on_fst (deferring (nt_CloseClient (px_net x) c) (
         andthen (wrap ''error creating session'' (px_NewSession x c)) (\<lambda>i.
         deferring (px_CloseSession x i) (
         andthen (wrap ''error creating remote file pipe'' (fx_StdoutPipe f i)) (\<lambda>_.
         andthen (wrap ''error starting remote command'' (px_Start x i [Text ''/usr/bin/cat  ${HOME}/.kube/config''])) (\<lambda>_.
         andthen (wrap ''error creating local file'' (fx_OpenFile f dest)) (\<lambda>_.
         andthen (wrap ''error copying remote file to local'' (fx_CopyStdout f i dest)) (\<lambda>_.
         wrap ''error waiting for remote command'' (px_Wait x i))))))))))"

section \<open>The host of an environment\<close>

definition GetHostURL :: "Environment \<Rightarrow> string \<Rightarrow> bool \<Rightarrow> error + string" where
  "GetHostURL env nodeName preferControlPlane =
     (case (sp_Cluster (env_Spec env), map_option cs_Nodes (st_Cluster (env_Status env))) of
       (Some _, Some (first # nodes)) \<Rightarrow>
         if nodeName \<noteq> '''' then
           (case find (\<lambda>n. ns_Name n = nodeName) (first # nodes) of
              Some n \<Rightarrow> Inr (ns_PublicIP n) | None \<Rightarrow> Inl (''node '' @ quoted nodeName @ '' not found in cluster''))
         else (case (if preferControlPlane then find (\<lambda>n. ns_Role n = ''control-plane'') (first # nodes) else None) of
              Some n \<Rightarrow> Inr (ns_PublicIP n) | None \<Rightarrow> Inr (ns_PublicIP first))
     | _ \<Rightarrow>
         if sp_Provider (env_Spec env) = ProviderAWS then
           (case find (\<lambda>p. pr_Name p = ''public-dns-name'') (st_Properties (env_Status env)) of
              Some p \<Rightarrow> Inr (pr_Value p) | None \<Rightarrow> Inl ''unable to determine host URL'')
         else if sp_Provider (env_Spec env) = ProviderSSH then Inr (in_HostUrl (sp_Instance (env_Spec env)))
         else Inl ''unable to determine host URL'')"

definition cli_dialer :: "string \<Rightarrow> string \<Rightarrow> Dialer" where
  "cli_dialer keyPath userName = (plain_dialer userName keyPath HostKeyPolicyAcceptNew)
     \<lparr>dl_Retry := \<lparr>rp_MaxAttempts = 3, rp_Delay = 2 * second, rp_Exponential = False, rp_BaseDelay = 0, rp_MaxDelay = 0\<rparr>,
      dl_Timeouts := \<lparr>tc_Handshake = 30 * second, tc_Keepalive = 0\<rparr>\<rparr>"

definition ConnectSSH :: "('s, 'n, 'c) net \<Rightarrow> string \<Rightarrow> string \<Rightarrow> string \<Rightarrow> ('s, 'c) io" where
  "ConnectSSH nt keyPath userName hostUrl =
     dial_with nt (cli_dialer keyPath userName) hostUrl (direct_dial nt (hostPort hostUrl) 0)"

end
