(* ===== verification/Create_Command.thy ===== *)
theory Create_Command
  imports Instances Create Cluster_Provisioner Remote_Access
begin

text \<open>
  \<open>cmd/cli/create/create.go\<close>: the \<open>create\<close> command, from the checks of the environment over its creation
  and provisioning to the kubeconfig, and what it does when the provisioning fails.

  The flags are the fields of \<open>options\<close>; the messages on success are left out. The provider gets a copy
  of the environment, so what the creation sets there is seen only through the cache file.
\<close>

section \<open>State\<close>

record options =
  op_provision :: bool
  op_nonInteractive :: bool
  op_cachePath :: string
  op_cacheFile :: string
  op_envFile :: string
  op_kubeconfig :: string
  op_cfg :: Environment
  op_cache :: Environment

record ('s, 'f, 'n, 'c, 'v) cli_env =
  cl_instances :: "('s, 'f) instance_env"
  cl_prov :: "('s, 'n, 'c) prov_env"
  cl_files :: "('s, 'v) file_env"
  cl_ReadLine :: "('s, string) io"
  cl_order1 :: "NodeInfo list \<Rightarrow> NodeInfo list"
  cl_order2 :: "NodeInfo list \<Rightarrow> NodeInfo list"

abbreviation cl_platform :: "('s, 'f, 'n, 'c, 'v) cli_env \<Rightarrow> ('s, 'f) platform" where
  "cl_platform x \<equiv> ie_platform (cl_instances x)"

section \<open>Before the command\<close>

definition isNonInteractive :: "('s, 'f, 'n, 'c, 'v) cli_env \<Rightarrow> options \<Rightarrow> bool" where
  "isNonInteractive x opts \<longleftrightarrow> op_nonInteractive opts \<or> pl_Getenv (cl_platform x) ''CI'' = ''true''
     \<or> pl_Getenv (cl_platform x) ''HOLODECK_NONINTERACTIVE'' = ''true''"

definition dedicatedCPThreshold :: "32 word" where
  "dedicatedCPThreshold = 5"

definition shouldPromptForDedicatedCP :: "('s, 'f, 'n, 'c, 'v) cli_env \<Rightarrow> options \<Rightarrow> bool" where
  "shouldPromptForDedicatedCP x opts \<longleftrightarrow> \<not> isNonInteractive x opts \<and> (case sp_Cluster (env_Spec (op_cfg opts)) of
       None \<Rightarrow> False
     | Some c \<Rightarrow> \<not> cp_Dedicated (cl_ControlPlane c)
         \<and> dedicatedCPThreshold \<le>s cp_Count (cl_ControlPlane c) + (case cl_Workers c of None \<Rightarrow> 0 | Some w \<Rightarrow> wp_Count w))"

definition says_yes :: "string \<Rightarrow> bool" where
  "says_yes response = (TrimSpace (ToLower response) \<in> {''y'', ''yes''})"

definition promptDedicatedCP :: "('s, 'f, 'n, 'c, 'v) cli_env \<Rightarrow> ('s, bool) io" where
  "promptDedicatedCP x = catch (andthen (cl_ReadLine x) (\<lambda>r. ret (says_yes r))) (\<lambda>_. ret False)"

definition with_dedicated :: "Environment \<Rightarrow> Environment" where
  "with_dedicated env = env\<lparr>env_Spec := (env_Spec env)\<lparr>sp_Cluster := map_option
     (\<lambda>c. c\<lparr>cl_ControlPlane := (cl_ControlPlane c)\<lparr>cp_Dedicated := True\<rparr>\<rparr>) (sp_Cluster (env_Spec env))\<rparr>\<rparr>"

text \<open>The hook that runs before the command; a runtime that is not named stays so, because
  \<open>ContainerRuntimeNone\<close> is the empty name.\<close>

definition before_hook :: "('s, 'f, 'n, 'c, 'v) cli_env \<Rightarrow> options \<Rightarrow> ('s, options) io" where
  "before_hook x opts =
     andthen (wrap ''error reading config file'' (UnmarshalFromFile (cl_platform x) (op_envFile opts))) (\<lambda>cfg.
     case SSHConfig_Validate (au_SSHConfig (sp_Auth (env_Spec cfg))) of
       Some e \<Rightarrow> fail (''invalid sshConfig in '' @ op_envFile opts @ '': '' @ ssh_error_text e)
     | None \<Rightarrow> (case ValidateSSHConfigMode (env_Spec cfg) of
         Some e \<Rightarrow> fail (ssh_error_text e)
       | None \<Rightarrow>
           andthen (if shouldPromptForDedicatedCP x (opts\<lparr>op_cfg := cfg\<rparr>) then promptDedicatedCP x else ret False) (\<lambda>yes.
           ret (opts\<lparr>op_cfg := (if yes then with_dedicated cfg else cfg)\<rparr>))))"

section \<open>Provisioning\<close>

text \<open>The nodes of a cluster; a node in a private subnet gets an SSM transport of its own.\<close>

definition behind_ssm :: "NodeStatus \<Rightarrow> bool" where
  "behind_ssm n \<longleftrightarrow> ns_PublicIP n = '''' \<and> ns_InstanceID n \<noteq> ''''"

fun buildClusterNodeInfoList :: "NodeStatus list \<Rightarrow> string \<Rightarrow> (('s, 'c) heap, NodeInfo list) io" where
  "buildClusterNodeInfoList [] region = ret []"
| "buildClusterNodeInfoList (n # ns) region =
     andthen (gets (\<lambda>(s, ts). length ts)) (\<lambda>a.
     andthen (if behind_ssm n then modify (\<lambda>(s, ts). (s, ts @ [SSM \<lparr>sm_InstanceID = ns_InstanceID n,
         sm_Region = region, sm_Profile = '''', sm_cmd = None\<rparr>])) else ret ()) (\<lambda>_.
     andthen (buildClusterNodeInfoList ns region) (\<lambda>infos.
     ret (\<lparr>np_Name = ns_Name n, np_PublicIP = ns_PublicIP n, np_PrivateIP = ns_PrivateIP n, np_Role = ns_Role n,
       np_SSHUsername = ns_SSHUsername n, np_InstanceID = ns_InstanceID n,
       np_Transport = (if behind_ssm n then Some a else None)\<rparr> # infos))))"

definition save_cache :: "('s, 'f, 'n, 'c, 'v) cli_env \<Rightarrow> options \<Rightarrow> Environment \<Rightarrow> ('s, unit) io" where
  "save_cache x opts cfg =
     andthen (wrap ''failed to marshal environment'' (lift_result (pl_Marshal (cl_platform x) cfg))) (\<lambda>data.
     wrap ''failed to update cache file with provisioning status''
       (pl_WriteFile (cl_platform x) (op_cacheFile opts) data mode_0600))"

text \<open>A failed provisioning is a degraded environment in the cache file.\<close>

definition save_failure :: "('s, 'f, 'n, 'c, 'v) cli_env \<Rightarrow> options \<Rightarrow> Environment \<Rightarrow> string \<Rightarrow> error \<Rightarrow> ('s, unit) io" where
  "save_failure x opts cfg what e =
     andthen (gets (pl_Now (cl_platform x))) (\<lambda>t.
     andthen (save_cache x opts (cfg\<lparr>env_Status := (env_Status cfg)\<lparr>st_Conditions :=
       [\<lparr>cd_Type = ConditionDegraded, cd_Status = ''True'', cd_Reason = ''ProvisioningFailed'',
         cd_Message = ''Failed to '' @ what @ '': '' @ e, cd_LastTransitionTime = t\<rparr>]\<rparr>\<rparr>)) (\<lambda>_.
     ret ()))"

definition set_label :: "string \<Rightarrow> string \<Rightarrow> Environment \<Rightarrow> Environment" where
  "set_label k v env = env\<lparr>env_Labels := AList.update k v (env_Labels env)\<rparr>"

definition public_dns_name :: "Environment \<Rightarrow> string" where
  "public_dns_name env = (case find (\<lambda>p. pr_Name p = ''public-dns-name'') (st_Properties (env_Status env)) of
     None \<Rightarrow> '''' | Some p \<Rightarrow> pr_Value p)"

definition fetch_kubeconfig :: "('s, 'f, 'n, 'c, 'v) cli_env \<Rightarrow> options \<Rightarrow> string \<Rightarrow> (('s, 'c) heap, unit) io" where
  "fetch_kubeconfig x opts hostUrl =
     andthen (wrap ''failed to get kubeconfig'' (GetKubeConfig (cl_prov x) (cl_files x) (op_cache opts) hostUrl (op_kubeconfig opts))) (\<lambda>_.
     wrap ''applying kubeconfig remote-access settings''
       (on_fst (ApplyRemoteAccess (cl_files x) (op_cache opts) hostUrl (op_kubeconfig opts))))"

definition wants_kubeconfig :: "options \<Rightarrow> bool" where
  "wants_kubeconfig opts \<longleftrightarrow> k_Install (sp_Kubernetes (env_Spec (op_cfg opts)))
     \<and> (k_KubeConfig (sp_Kubernetes (env_Spec (op_cfg opts))) \<noteq> '''' \<or> op_kubeconfig opts \<noteq> '''')"

definition single_host :: "options \<Rightarrow> string" where
  "single_host opts =
     (if sp_Provider (env_Spec (op_cfg opts)) = ProviderAWS then public_dns_name (op_cache opts)
      else if sp_Provider (env_Spec (op_cfg opts)) = ProviderSSH then in_HostUrl (sp_Instance (env_Spec (op_cfg opts)))
      else '''')"

definition runSingleNodeProvision :: "('s, 'f, 'n, 'c, 'v) cli_env \<Rightarrow> options \<Rightarrow> (('s, 'c) heap, unit) io" where
  "runSingleNodeProvision x opts = (let cfg = op_cfg opts; au = sp_Auth (env_Spec cfg) in
     andthen (Provisioner_New (cl_prov x) (au_PrivateKey au) (au_Username au) (single_host opts) [WithSSHConfig (au_SSHConfig au)]) (\<lambda>p.
     deferring (close_client (cl_prov x) p) (
     andthen (on_node (Provisioner_Run (cl_prov x) cfg) p) (\<lambda>(r, p'). case r of
       Inl e \<Rightarrow> andthen (on_fst (save_failure x opts cfg ''provision environment'' e)) (\<lambda>_.
         fail (''failed to run provisioner: '' @ e))
     | Inr built \<Rightarrow>
         andthen (on_fst (save_cache x opts (set_label InstanceProvisionedLabelKey ''true''
           (cfg\<lparr>env_Status := (env_Status cfg)\<lparr>st_Components := built\<rparr>\<rparr>)))) (\<lambda>_.
         if \<not> wants_kubeconfig opts then ret ()
         else if k_KubernetesInstaller (sp_Kubernetes (env_Spec cfg)) \<in> {''microk8s'', ''kind''} then ret ()
         else fetch_kubeconfig x opts (public_dns_name (op_cache opts)))))))"

definition on_cluster :: "('s, 'c, 'a) cluster_method \<Rightarrow> ClusterProvisioner \<Rightarrow> (('s, 'c) heap, (error + 'a) \<times> ClusterProvisioner) io" where
  "on_cluster m cp h = (case m (h, cp) of (r, (h', cp')) \<Rightarrow> (Inr (r, cp'), h'))"

text \<open>The cluster provisioner works on the environment of the options.\<close>

definition runMultinodeProvision :: "('s, 'f, 'n, 'c, 'v) cli_env \<Rightarrow> options \<Rightarrow> (('s, 'c) heap, unit) io" where
  "runMultinodeProvision x opts = (let cfg = op_cfg opts; au = sp_Auth (env_Spec cfg) in
     andthen (buildClusterNodeInfoList
       (case st_Cluster (env_Status (op_cache opts)) of None \<Rightarrow> [] | Some c \<Rightarrow> cs_Nodes c)
       (case sp_Cluster (env_Spec cfg) of None \<Rightarrow> '''' | Some c \<Rightarrow> cl_Region c)) (\<lambda>nodes.
     if nodes = [] then fail ''no nodes found in cluster status''
     else andthen (on_cluster (ProvisionCluster (cl_prov x) (cl_order1 x) (cl_order2 x) nodes)
         (NewClusterProvisioner (au_PrivateKey au) (au_Username au) cfg)) (\<lambda>(r, cp). let cfg = kp_Environment cp in
       case r of
         Inl e \<Rightarrow> andthen (on_fst (save_failure x opts cfg ''provision multinode cluster'' e)) (\<lambda>_.
           fail (''failed to provision multinode cluster: '' @ e))
       | Inr _ \<Rightarrow>
           andthen (on_fst (save_cache x opts (set_label InstanceProvisionedLabelKey ''true'' cfg))) (\<lambda>_.
           if \<not> wants_kubeconfig opts then ret ()
           else (case find (\<lambda>n. np_Role n = ''control-plane'') nodes of
             None \<Rightarrow> ret ()
           | Some n \<Rightarrow> if np_PublicIP n = '''' then ret () else fetch_kubeconfig x opts (np_PublicIP n))))))"

definition runProvision :: "('s, 'f, 'n, 'c, 'v) cli_env \<Rightarrow> options \<Rightarrow> (('s, 'c) heap, unit) io" where
  "runProvision x opts0 =
     (let opts = opts0\<lparr>op_cfg := (op_cfg opts0)\<lparr>env_Status := env_Status (op_cache opts0)\<rparr>\<rparr> in
      if sp_Cluster (env_Spec (op_cfg opts)) \<noteq> None \<and> st_Cluster (env_Status (op_cache opts)) \<noteq> None
      then runMultinodeProvision x opts else runSingleNodeProvision x opts)"

section \<open>The command\<close>

text \<open>Whatever happens, the provisioning has failed; only the text tells whether the instance is gone.\<close>

definition handleProvisionFailure :: "('s, 'f, 'n, 'c, 'v) cli_env \<Rightarrow> string \<Rightarrow> string \<Rightarrow> error \<Rightarrow> ('s, unit) io" where
  "handleProvisionFailure x instanceID cacheFile e =
     (let kept = fail (''provisioning failed: '' @ e) in
      if pl_Getenv (cl_platform x) ''CI'' = ''true'' \<or> pl_Getenv (cl_platform x) ''HOLODECK_NONINTERACTIVE'' = ''true'' then kept
      else andthen (attempt (cl_ReadLine x)) (\<lambda>r. case r of
          Inl _ \<Rightarrow> kept
        | Inr response \<Rightarrow>
            if says_yes response then
              andthen (attempt (DeleteInstance (cl_instances x) (NewManager (cl_instances x) (Dir cacheFile)) instanceID)) (\<lambda>d.
              case d of Inl _ \<Rightarrow> kept | Inr _ \<Rightarrow> fail (''provisioning failed and instance was deleted: '' @ e))
            else kept))"

definition with_username :: "string \<Rightarrow> Environment \<Rightarrow> Environment" where
  "with_username u env = (let sp = env_Spec env; au = sp_Auth sp in
     if au_Username au = '''' then env\<lparr>env_Spec := sp\<lparr>sp_Auth := au\<lparr>au_Username := u\<rparr>\<rparr>\<rparr> else env)"

text \<open>The environment with its labels and its default user.\<close>

definition labelled :: "('s, 'f, 'n, 'c, 'v) cli_env \<Rightarrow> string \<Rightarrow> Environment \<Rightarrow> Environment" where
  "labelled x instanceID cfg =
     (let cfg = set_label InstanceProvisionedLabelKey ''false'' (set_label InstanceLabelKey instanceID cfg) in
      if sp_Provider (env_Spec cfg) = ProviderAWS then with_username ''ubuntu'' cfg
      else if sp_Provider (env_Spec cfg) = ProviderSSH then with_username (pl_Getenv (cl_platform x) ''USER'') cfg
      else cfg)"

definition create_resources :: "('s, 'f, 'n, 'c, 'v) cli_env \<Rightarrow> Environment \<Rightarrow> string \<Rightarrow> ('s, unit) io" where
  "create_resources x cfg cacheFile =
     (if sp_Provider (env_Spec cfg) = ProviderAWS
      then andthen (aws_New (cl_instances x) cfg cacheFile) (\<lambda>p. on_provider cfg (Create p))
      else ret ())"

definition run_create :: "('s, 'f, 'n, 'c, 'v) cli_env \<Rightarrow> options \<Rightarrow> (('s, 'c) heap, unit) io" where
  "run_create x opts = (let m = NewManager (cl_instances x) (op_cachePath opts) in
     andthen (wrap ''failed to generate instance ID'' (on_fst (GenerateInstanceID (cl_instances x)))) (\<lambda>instanceID.
     andthen (wrap ''invalid instance ID'' (lift_result (GetInstanceCacheFile m instanceID))) (\<lambda>cacheFile.
     let cfg = labelled x instanceID (op_cfg opts) in
     andthen (on_fst (create_resources x cfg cacheFile)) (\<lambda>_.
     andthen (wrap ''failed to read cache file'' (on_fst (UnmarshalFromFile (cl_platform x) cacheFile))) (\<lambda>cache.
     if op_provision opts then
       catch (runProvision x (opts\<lparr>op_cfg := cfg, op_cacheFile := cacheFile, op_cache := cache\<rparr>))
         (\<lambda>e. on_fst (handleProvisionFailure x instanceID cacheFile e))
     else ret ())))))"

end
