(* ===== verification/Action.thy ===== *)
theory Action
  imports Create_Command Cleaner
begin

text \<open>
  \<open>cmd/action\<close>: the GitHub action. \<open>ci.go\<close> decides between creating and deleting the environment of a
  workflow, \<open>entrypoint.go\<close> creates and provisions it, \<open>cleanup.go\<close> deletes it, \<open>vpc_cleanup.go\<close> cleans up
  VPCs, and \<open>main.go\<close> picks the mode.

  The process environment is the function \<open>pl_Getenv\<close>; \<open>readInputs\<close> maps inputs to variables, which only
  the SDK and the reading of the key see. \<open>os.Exit(1)\<close> is the error \<open>exit_1\<close>, which nothing catches and
  which is the text of no other error.
\<close>

section \<open>Files and variables\<close>

datatype file_state = Present | Absent | Unreadable

record ('s, 'f, 'n, 'c, 'v) action_env =
  ac_cli :: "('s, 'f, 'n, 'c, 'v) cli_env"
  ac_Stat :: "string \<Rightarrow> 's \<Rightarrow> file_state"
  ac_Mkdir :: "string \<Rightarrow> ('s, unit) io"
  ac_Rename :: "string \<Rightarrow> string \<Rightarrow> ('s, unit) io"
  ac_Cleaner :: "string \<Rightarrow> ('s, 's Cleaner) io"

definition exit_1 :: error where
  "exit_1 = ''exit status 1''"

definition cachedir :: string where
  "cachedir = ''/github/workspace/.cache''"

definition ci_cacheFile :: string where
  "ci_cacheFile = ''/github/workspace/.cache/holodeck.yaml''"

definition ci_kubeconfig :: string where
  "ci_kubeconfig = ''/github/workspace/kubeconfig''"

definition sshKeyFile :: string where
  "sshKeyFile = ''/github/workspace/.cache/key''"

definition holodeckSSHKeyFile :: string where
  "holodeckSSHKeyFile = ''/github/workspace/holodeck_ssh_key''"

abbreviation ac_Getenv :: "('s, 'f, 'n, 'c, 'v) action_env \<Rightarrow> string \<Rightarrow> string" where
  "ac_Getenv x \<equiv> pl_Getenv (cl_platform (ac_cli x))"

definition input_variables :: "string gomap" where
  "input_variables = [(''AWS_SSH_KEY'', ''INPUT_AWS_SSH_KEY''), (''AWS_ACCESS_KEY_ID'', ''INPUT_AWS_ACCESS_KEY_ID''),
     (''AWS_SECRET_ACCESS_KEY'', ''INPUT_AWS_SECRET_ACCESS_KEY''), (''VSPHERE_SSH_KEY'', ''INPUT_VSPHERE_SSH_KEY''),
     (''HOLODECK_VCENTER_USERNAME'', ''INPUT_VSPHERE_USERNAME''), (''HOLODECK_VCENTER_PASSWORD'', ''INPUT_VSPHERE_PASSWORD'')]"

text \<open>The variables after the inputs have been read.\<close>

definition readInputs :: "(string \<Rightarrow> string) \<Rightarrow> string \<Rightarrow> string" where
  "readInputs getenv k = (case map_of input_variables k of
       None \<Rightarrow> getenv k
     | Some i \<Rightarrow> if getenv i \<noteq> '''' then getenv i else getenv k)"

definition config_file :: "('s, 'f, 'n, 'c, 'v) action_env \<Rightarrow> ('s, string) io" where
  "config_file x = (if ac_Getenv x ''INPUT_HOLODECK_CONFIG'' = '''' then fail exit_1
     else ret (''/github/workspace/'' @ ac_Getenv x ''INPUT_HOLODECK_CONFIG''))"

definition read_config :: "('s, 'f, 'n, 'c, 'v) action_env \<Rightarrow> ('s, string \<times> Environment) io" where
  "read_config x =
     andthen (config_file x) (\<lambda>configFile.
     andthen (wrap ''error reading config file'' (UnmarshalFromFile (cl_platform (ac_cli x)) configFile)) (\<lambda>cfg.
     ret (configFile, cfg)))"

section \<open>Names and providers\<close>

definition charset :: string where
  "charset = ''abcdefghijklmnopqrstuvwxyz0123456789''"

definition generateUID :: "('s, 'f, 'n, 'c, 'v) action_env \<Rightarrow> ('s, string) io" where
  "generateUID x = catch (andthen (ie_RandRead (cl_instances (ac_cli x)) 8)
     (\<lambda>b. ret (map (\<lambda>c. charset ! (unat c mod length charset)) b))) (\<lambda>_. fail exit_1)"

definition setCfgName :: "('s, 'f, 'n, 'c, 'v) action_env \<Rightarrow> Environment \<Rightarrow> ('s, Environment) io" where
  "setCfgName x cfg = andthen (generateUID x) (\<lambda>uid.
     ret (cfg\<lparr>env_Name := ''ci'' @ ac_Getenv x ''GITHUB_RUN_ATTEMPT'' @ ''-'' @ take 8 (ac_Getenv x ''GITHUB_SHA'') @ ''-'' @ uid\<rparr>))"

definition newAwsProvider :: "('s, 'f, 'n, 'c, 'v) action_env \<Rightarrow> Environment \<Rightarrow> ('s, ('s, 'f) Provider \<times> Environment) io" where
  "newAwsProvider x cfg =
     andthen (gets (ac_Stat x cachedir)) (\<lambda>st.
     andthen (if st = Absent then ac_Mkdir x cachedir else ret ()) (\<lambda>_.
     andthen (setCfgName x cfg) (\<lambda>cfg.
     andthen (aws_New (cl_instances (ac_cli x)) cfg ci_cacheFile) (\<lambda>p. ret (p, cfg)))))"

definition newProvider :: "('s, 'f, 'n, 'c, 'v) action_env \<Rightarrow> Environment \<Rightarrow> ('s, ('s, 'f) Provider \<times> Environment) io" where
  "newProvider x cfg = (if sp_Provider (env_Spec cfg) = ProviderAWS then newAwsProvider x cfg
     else fail (''provider '' @ sp_Provider (env_Spec cfg) @ '' not supported''))"

text \<open>A failure that is not the end of the process is wrapped.\<close>

definition new_provider :: "('s, 'f, 'n, 'c, 'v) action_env \<Rightarrow> Environment \<Rightarrow> ('s, ('s, 'f) Provider \<times> Environment) io" where
  "new_provider x cfg = catch (newProvider x cfg)
     (\<lambda>e. fail (if e = exit_1 then e else ''failed to create provider: '' @ e))"

definition getSSHKeyFile :: "('s, 'f, 'n, 'c, 'v) action_env \<Rightarrow> string \<Rightarrow> ('s, unit) io" where
  "getSSHKeyFile x envKey =
     andthen (gets (ac_Stat x holodeckSSHKeyFile)) (\<lambda>st.
     if st = Absent then (let key = readInputs (ac_Getenv x) envKey in
       if key = '''' then fail ''ssh key not provided'' else px_WriteFile (cl_prov (ac_cli x)) sshKeyFile key)
     else ac_Rename x holodeckSSHKeyFile sshKeyFile)"

section \<open>Creating\<close>

definition with_key :: "Environment \<Rightarrow> Environment" where
  "with_key env = env\<lparr>env_Spec := (env_Spec env)\<lparr>sp_Auth := (sp_Auth (env_Spec env))\<lparr>au_PrivateKey := sshKeyFile,
     au_Username := ''ubuntu''\<rparr>\<rparr>\<rparr>"

definition provision_node :: "('s, 'f, 'n, 'c, 'v) action_env \<Rightarrow> Environment \<Rightarrow> string \<Rightarrow> (('s, 'c) heap, unit) io" where
  "provision_node x cfg hostUrl = (let au = sp_Auth (env_Spec cfg); pv = cl_prov (ac_cli x) in
     andthen (Provisioner_New pv sshKeyFile (au_Username au) hostUrl [WithSSHConfig (au_SSHConfig au)]) (\<lambda>p.
     deferring (close_client pv p) (
     andthen (on_node (Provisioner_Run pv cfg) p) (\<lambda>(r, p').
     andthen (raise_error ''failed to run provisioner'' r) (\<lambda>_.
     if \<not> k_Install (sp_Kubernetes (env_Spec cfg)) then ret ()
     else andthen (wrap ''failed to get kubeconfig'' (GetKubeConfig pv (cl_files (ac_cli x)) cfg hostUrl ci_kubeconfig)) (\<lambda>_.
       wrap ''applying kubeconfig remote-access settings''
         (on_fst (ApplyRemoteAccess (cl_files (ac_cli x)) cfg hostUrl ci_kubeconfig))))))))"

definition entrypoint :: "('s, 'f, 'n, 'c, 'v) action_env \<Rightarrow> (('s, 'c) heap, unit) io" where
  "entrypoint x =
     andthen (on_fst (read_config x)) (\<lambda>(configFile, cfg).
     case SSHConfig_Validate (au_SSHConfig (sp_Auth (env_Spec cfg))) of
       Some e \<Rightarrow> fail (''invalid sshConfig in '' @ configFile @ '': '' @ ssh_error_text e)
     | None \<Rightarrow> (case ValidateSSHConfigMode (env_Spec cfg) of
         Some e \<Rightarrow> fail (ssh_error_text e)
       | None \<Rightarrow>
           andthen (on_fst (setCfgName x cfg)) (\<lambda>cfg.
           andthen (on_fst (new_provider x cfg)) (\<lambda>(p, cfg).
           andthen (on_fst (on_provider cfg (Create p))) (\<lambda>_.
           andthen (wrap ''failed to read cache file''
             (on_fst (UnmarshalFromFile (cl_platform (ac_cli x)) ci_cacheFile))) (\<lambda>cache.
           andthen (on_fst (getSSHKeyFile x ''AWS_SSH_KEY'')) (\<lambda>_.
           provision_node x (with_key cfg) (public_dns_name cache))))))))"

section \<open>Deleting\<close>

text \<open>The removal of a file that may be missing; an error is only logged.\<close>

definition remove_if_present :: "('s, 'f, 'n, 'c, 'v) action_env \<Rightarrow> string \<Rightarrow> ('s, unit) io" where
  "remove_if_present x path = andthen (gets (ac_Stat x path)) (\<lambda>st.
     if st = Present then log_error (ie_Remove (cl_instances (ac_cli x)) path) else ret ())"

definition cleanup_provider :: "('s, 'f, 'n, 'c, 'v) action_env \<Rightarrow> ('s, ('s, 'f) Provider \<times> Environment) io" where
  "cleanup_provider x =
     andthen (read_config x) (\<lambda>(configFile, cfg).
     andthen (setCfgName x cfg) (\<lambda>cfg.
     andthen (gets (ac_Stat x ci_cacheFile)) (\<lambda>st.
     if st \<noteq> Present then fail exit_1 else new_provider x cfg)))"

definition ci_cleanup :: "('s, 'f, 'n, 'c, 'v) action_env \<Rightarrow> ('s, unit) io" where
  "ci_cleanup x =
     andthen (cleanup_provider x) (\<lambda>(p, cfg).
     andthen (catch (on_provider cfg (Delete p)) (\<lambda>_. fail exit_1)) (\<lambda>_.
     andthen (remove_if_present x ci_kubeconfig) (\<lambda>_.
     remove_if_present x sshKeyFile)))"

definition isTerminated :: "('s, 'f, 'n, 'c, 'v) action_env \<Rightarrow> ('s, bool) io" where
  "isTerminated x =
     andthen (read_config x) (\<lambda>(configFile, cfg).
     andthen (new_provider x cfg) (\<lambda>(p, cfg).
     andthen (wrap ''failed to get status'' (on_provider cfg (Status p))) (\<lambda>status.
     ret (case find (\<lambda>c. cd_Type c = ConditionTerminated) status of
       None \<Rightarrow> False | Some c \<Rightarrow> cd_Status c = ''True''))))"

section \<open>The action\<close>

text \<open>A failed creation is cleaned up; its error, or that of the cleanup, is the result.\<close>

definition ci_Run :: "('s, 'f, 'n, 'c, 'v) action_env \<Rightarrow> (('s, 'c) heap, unit) io" where
  "ci_Run x =
     andthen (gets (\<lambda>h. ac_Stat x cachedir (fst h))) (\<lambda>st.
     if st = Absent then
       catch (entrypoint x) (\<lambda>e. if e = exit_1 then fail e
         else andthen (on_fst (ci_cleanup x)) (\<lambda>_. fail e))
     else andthen (on_fst (attempt (isTerminated x))) (\<lambda>r.
       if r = Inr True then ret ()
       else if r = Inl exit_1 then fail exit_1
       else on_fst (ci_cleanup x)))"

fun vpc_loop :: "bool \<Rightarrow> 's Cleaner \<Rightarrow> string list \<Rightarrow> nat \<times> nat \<Rightarrow> ('s, nat \<times> nat) io" where
  "vpc_loop force c [] n = ret n"
| "vpc_loop force c (v # vs) (good, bad) =
     andthen (attempt (if force then DeleteVPCResources c v else CleanupVPC c v)) (\<lambda>r.
     vpc_loop force c vs (case r of Inl _ \<Rightarrow> (good, bad + 1) | Inr _ \<Rightarrow> (good + 1, bad)))"

definition action_region :: "(string \<Rightarrow> string) \<Rightarrow> error + string" where
  "action_region getenv =
     (let region = or_default (getenv ''INPUT_AWS_REGION'') (or_default (getenv ''AWS_REGION'') (getenv ''AWS_DEFAULT_REGION'')) in
      if region = '''' then Inl ''AWS region must be specified via INPUT_AWS_REGION or AWS_REGION environment variable''
      else Inr region)"

definition RunCleanup :: "('s, 'f, 'n, 'c, 'v) action_env \<Rightarrow> ('s, unit) io" where
  "RunCleanup x = (let getenv = readInputs (ac_Getenv x); vpcs = Fields (getenv ''INPUT_VPC_IDS'') in
     if getenv ''INPUT_VPC_IDS'' = '''' then fail ''INPUT_VPC_IDS is required for cleanup action''
     else if vpcs = [] then ret ()
     else case action_region getenv of
       Inl e \<Rightarrow> fail e
     | Inr region \<Rightarrow>
         andthen (wrap ''failed to create cleaner'' (ac_Cleaner x region)) (\<lambda>c.
         andthen (vpc_loop (getenv ''INPUT_FORCE_CLEANUP'' = ''true'') c vpcs (0, 0)) (\<lambda>(good, bad).
         if bad > 0 then fail (''cleanup completed with errors: '' @ decimal good @ '' succeeded, '' @ decimal bad @ '' failed'')
         else ret ())))"

definition action_main :: "('s, 'f, 'n, 'c, 'v) action_env \<Rightarrow> (('s, 'c) heap, unit) io" where
  "action_main x =
     (if ac_Getenv x ''GITHUB_ACTION'' = '''' then fail exit_1
      else let action = or_default (ac_Getenv x ''INPUT_ACTION'') ''create'' in
        catch (if action = ''create'' then ci_Run x
               else if action = ''cleanup'' then on_fst (RunCleanup x)
               else fail (''unknown action: '' @ action @ ''. Valid actions: create, cleanup''))
          (\<lambda>_. fail exit_1))"

end
