(* ===== verification/Instance_Props.thy ===== *)
theory Instance_Props
  imports Instances Teardown_Props
begin

text \<open>
  The cache of instances: identifiers name files directly in the cache directory, and deleting an
  instance deletes what its cache file names before the file itself.
\<close>

section \<open>Identifiers\<close>

lemma split_on_covers: "c \<in> set s \<Longrightarrow> c \<noteq> d \<Longrightarrow> \<exists>t \<in> set (split_on d s). c \<in> set t"
proof (induction s)
  case (Cons a s)
  then show ?case by (cases "split_on d s") (auto split: if_splits)
qed simp

lemma hex_no_slash: "lower_hex s \<Longrightarrow> CHR ''/'' \<notin> set s"
  unfolding lower_hex_def by (rule notI, drule (1) subsetD, simp)

lemma accepted_no_slash:
  assumes "instanceIDPattern i \<or> uuidPattern i"
  shows "CHR ''/'' \<notin> set i"
  using assms
proof
  assume "uuidPattern i"
  then have "\<forall>t \<in> set (split_on (CHR ''-'') i). CHR ''/'' \<notin> set t"
    using hex_no_slash by (auto simp: uuidPattern_def list_all_iff)
  then show ?thesis using split_on_covers [of "CHR ''/''" i "CHR ''-''"] by auto
qed (simp add: instanceIDPattern_def hex_no_slash)

lemma accepted_not_empty: "instanceIDPattern i \<or> uuidPattern i \<Longrightarrow> i \<noteq> ''''"
  by (auto simp: instanceIDPattern_def uuidPattern_def)

lemma split_on_single: "d \<notin> set s \<Longrightarrow> split_on d s = [s]"
  by (induction s) auto

lemma components_child:
  assumes "CHR ''/'' \<notin> set f" "f \<notin> {'''', ''.'', ''..''}" "base \<noteq> ''''"
  shows "components (base @ ''/'' @ f) = components base @ [f]"
proof -
  have "IsAbs (base @ ''/'' @ f) = IsAbs base" using assms(3) by (cases base) (auto simp: IsAbs_def)
  then show ?thesis
    using assms by (simp add: components_def split_on_join split_on_single clean_step_def)
qed

lemma nibble: "n < 16 \<Longrightarrow> ''0123456789abcdef'' ! n \<in> set ''0123456789abcdef''"
  by (rule nth_mem) simp

lemma hex_digit_char_lower: "hex_digit_char (b mod 16) \<in> set ''0123456789abcdef''" "hex_digit_char (b div 16) \<in> set ''0123456789abcdef''"
proof -
  have lt: "unat (b mod 16) < 16" "unat (b div 16) < 16"
    using unsigned_less [of b, where 'a = nat] by (simp_all add: unat_mod unat_div less_mult_imp_div_less)
  show "hex_digit_char (b mod 16) \<in> set ''0123456789abcdef''" "hex_digit_char (b div 16) \<in> set ''0123456789abcdef''"
    unfolding hex_digit_char_def by (rule nibble [OF lt(1)], rule nibble [OF lt(2)])
qed

lemma EncodeToString_pattern: "length bs = 4 \<Longrightarrow> instanceIDPattern (EncodeToString bs)"
proof -
  have "lower_hex (EncodeToString bs)" for bs
    using hex_digit_char_lower by (force simp: EncodeToString_def lower_hex_def)
  moreover have "length (EncodeToString bs) = 2 * length bs" for bs
    by (induction bs) (auto simp: EncodeToString_def)
  ultimately show "length bs = 4 \<Longrightarrow> ?thesis" by (simp add: instanceIDPattern_def)
qed

text \<open>
  C36: every identifier that is accepted names a file directly in the cache directory (so no
  identifier leads out of it), different identifiers name different files, and every identifier that
  is generated is accepted.
\<close>

theorem instance_ids_name_cache_files:
  assumes "mg_cachePath m \<noteq> ''''" and "\<forall>s b s'. ie_RandRead x 4 s = (Inr b, s') \<longrightarrow> length b = 4"
  shows "(GetInstanceCacheFile m i = Inr f \<longrightarrow>
      f = Clean (mg_cachePath m @ ''/'' @ i @ ''.yaml'')
      \<and> components (mg_cachePath m @ ''/'' @ i @ ''.yaml'') = components (mg_cachePath m) @ [i @ ''.yaml''])
    \<and> (GenerateInstanceID x s = (Inr j, s') \<longrightarrow> (\<exists>f. GetInstanceCacheFile m j = Inr f))"
proof (intro conjI impI)
  assume "GetInstanceCacheFile m i = Inr f"
  then have i: "instanceIDPattern i \<or> uuidPattern i" and f: "f = Join (mg_cachePath m) (i @ ''.yaml'')"
    by (auto simp: GetInstanceCacheFile_def split: if_splits)
  show "f = Clean (mg_cachePath m @ ''/'' @ i @ ''.yaml'')"
    using assms(1) f by (simp add: Join_def)
  show "components (mg_cachePath m @ ''/'' @ i @ ''.yaml'') = components (mg_cachePath m) @ [i @ ''.yaml'']"
    using components_child [of "i @ ''.yaml''"] accepted_no_slash [OF i] accepted_not_empty [OF i] assms(1)
    by (cases i) auto
next
  assume "GenerateInstanceID x s = (Inr j, s')"
  then obtain b where "length b = 4" "j = EncodeToString b"
    using assms(2) by (auto simp: GenerateInstanceID_def andthen_Inr)
  then show "\<exists>f. GetInstanceCacheFile m j = Inr f"
    using EncodeToString_pattern by (auto simp: GetInstanceCacheFile_def)
qed

section \<open>Deletion\<close>

definition cached_ids :: "Environment \<Rightarrow> AWS" where
  "cached_ids env = foldl read_property zero_AWS (st_Properties (env_Status env))"

text \<open>The account of an environment of instances: what loads its clients, reads files and removes
  them leaves the resources alone, loading and reading leave the files alone, and the clients keep the contract.\<close>

definition keeps_account :: "('s, 'f) instance_env \<Rightarrow> ('s \<Rightarrow> bool) \<Rightarrow> ('s \<Rightarrow> resource set) \<Rightarrow> bool" where
  "keeps_account x ok live \<longleftrightarrow>
     (\<forall>region. pres (sheds ok live {}) (ie_LoadConfig x region))
     \<and> (\<forall>path. pres (sheds ok live {}) (pl_ReadFile (ie_platform x) path))
     \<and> (\<forall>path. pres (sheds ok live {}) (ie_Remove x path))
     \<and> (\<forall>region path. pres (keeps (\<lambda>s. fst (pl_ReadFile (ie_platform x) path s))) (ie_LoadConfig x region))
     \<and> (\<forall>path other. pres (keeps (\<lambda>s. fst (pl_ReadFile (ie_platform x) path s))) (pl_ReadFile (ie_platform x) other))
     \<and> (\<forall>region s ec2 ssm elbv2 s' env file. ie_LoadConfig x region s = (Inr (ec2, ssm, elbv2), s') \<longrightarrow>
          aws_contract (New (ie_platform x) (ie_sleep x) ec2 ssm elbv2 env file) ok live)"

lemma snd_UnmarshalFromFile: "snd (UnmarshalFromFile pl path s) = snd (pl_ReadFile pl path s)"
  by (simp add: UnmarshalFromFile_def andthen_def lift_result_def split: sum.split prod.split)

lemma fst_UnmarshalFromFile:
  "fst (UnmarshalFromFile pl path s) = (case fst (pl_ReadFile pl path s) of Inl e \<Rightarrow> Inl e | Inr data \<Rightarrow> pl_Unmarshal pl data)"
  by (simp add: UnmarshalFromFile_def andthen_def lift_result_def split: sum.split prod.split)

lemma pres_read: "keeps_account x ok live \<Longrightarrow> pres (sheds ok live {}) (UnmarshalFromFile (ie_platform x) path)"
  unfolding keeps_account_def pres_def snd_UnmarshalFromFile by blast

lemma same_file:
  assumes "keeps_account x ok live"
  shows "fst (UnmarshalFromFile (ie_platform x) path (snd (ie_LoadConfig x region (snd (UnmarshalFromFile (ie_platform x) path s)))))
    = fst (UnmarshalFromFile (ie_platform x) path s)"
  using assms unfolding keeps_account_def pres_def keeps_def fst_UnmarshalFromFile snd_UnmarshalFromFile by simp

lemma Delete_removes_cached:
  assumes "aws_contract p ok live" "pres (sheds ok live {}) (UnmarshalFromFile (p_platform p) (p_cacheFile p))" "ok s"
    and "on_provider env (Delete p) s = (Inr (), s')" "fst (UnmarshalFromFile (p_platform p) (p_cacheFile p) s) = Inr e"
  shows "owned env (cached_ids e) \<inter> live s' = {} \<and> ok s'"
proof -
  let ?ps = "\<lparr>ps_Environment = env, ps_cache = zero_ClusterCache zero_AWS, ps_world = s\<rparr>"
  obtain a ps1 ps2 where read: "unmarsalCache p ?ps = (Inr a, ps1)" and del: "delete p a ps1 = (Inr (), ps2)"
    and s': "s' = ps_world ps2"
    using assms(4) by (auto simp: on_provider_def Delete_def andthen_Inr split: prod.splits)
  from read assms(5) have a: "a = cached_ids e"
    and ps1: "ps_Environment ps1 = env" "ps_world ps1 = snd (UnmarshalFromFile (p_platform p) (p_cacheFile p) s)"
    by (auto simp: unmarsalCache_def andthen_Inr on_world_def cached_ids_def split: prod.splits)
  have "ok (ps_world ps1)" using assms(2,3) unfolding ps1 by (simp add: pres_def sheds_def)
  then show ?thesis
    using aws_contract.delete_complete [OF assms(1) del] aws_contract.delete_frame [OF assms(1) del] ps1 s' a by simp
qed


section \<open>Instances of the fake account\<close>

definition fake_instances :: "(fake_world, Environment) instance_env" where
  "fake_instances = \<lparr>ie_platform = fake_platform, ie_sleep = fake_sleep,
     ie_LoadConfig = (\<lambda>_. ret (FakeEC2, FakeSSM, FakeELBv2)),
     ie_ReadDir = (\<lambda>_. gets (\<lambda>w. map fst (fw_files w))), ie_ModTime = (\<lambda>_. gets fw_clock),
     ie_Remove = (\<lambda>path w. (Inr (), w\<lparr>fw_files := AList.delete path (fw_files w)\<rparr>)),
     ie_RandRead = (\<lambda>n. ret (replicate n 171))\<rparr>"

lemma contract_any_file: "aws_contract (p\<lparr>p_cacheFile := f\<rparr>) ok live \<longleftrightarrow> aws_contract p ok live"
  by (simp add: aws_contract_def)

lemma files_live: "fake_live (w\<lparr>fw_files := fs\<rparr>) = fake_live w"
  by (rule fake_live_same) (case_tac k, simp_all)

lemma fake_instances_contract:
  "aws_contract (New fake_platform fake_sleep FakeEC2 FakeSSM FakeELBv2 env path) fake_ok fake_live"
  using fake_account.aws_contract_axioms [of env] contract_any_file [where p = "fake_provider env" and f = path]
  by (simp add: fake_provider_def New_def)

lemma fake_instances_simps [simp]:
  "ie_platform fake_instances = fake_platform" "ie_sleep fake_instances = fake_sleep"
  "ie_LoadConfig fake_instances region = ret (FakeEC2, FakeSSM, FakeELBv2)"
  "ie_Remove fake_instances path w = (Inr (), w\<lparr>fw_files := AList.delete path (fw_files w)\<rparr>)"
  "ie_RandRead fake_instances n = ret (replicate n 171)"
  by (simp_all add: fake_instances_def)

lemma fake_instances_keep: "keeps_account fake_instances fake_ok fake_live"
  using fake_instances_contract
  by (simp add: keeps_account_def pres_def sheds_def keeps_def ret_def files_live fake_platform_def fake_ok_def)

theorem instance_ids_name_cache_files_witness:
  "components ''/cache/abababab.yaml'' = [''cache'', ''abababab.yaml'']"
proof -
  have path: "mg_cachePath (NewManager fake_instances ''/cache'') \<noteq> ''''" by (simp add: NewManager_def)
  have four: "\<forall>s b s'. ie_RandRead fake_instances 4 s = (Inr b, s') \<longrightarrow> length b = 4"
    by (auto simp: ret_def)
  note ids = instance_ids_name_cache_files [where x = fake_instances, OF path four]
  have "fst (GenerateInstanceID fake_instances fake_start) = Inr ''abababab''" by code_simp
  then obtain w where made: "GenerateInstanceID fake_instances fake_start = (Inr ''abababab'', w)"
    by (metis prod.collapse)
  obtain f where "GetInstanceCacheFile (NewManager fake_instances ''/cache'') ''abababab'' = Inr f"
    using ids [where j = "''abababab''"] made by blast
  then have "components (''/cache'' @ ''/'' @ ''abababab'' @ ''.yaml'') = components ''/cache'' @ [''abababab'' @ ''.yaml'']"
    using ids [where i = "''abababab''"] by (simp add: NewManager_def)
  moreover have "components ''/cache'' = [''cache'']" by code_simp
  ultimately show ?thesis by simp
qed

definition cached_environment :: Environment where
  "cached_environment = zero_Environment\<lparr>env_Spec := zero_EnvironmentSpec\<lparr>sp_Provider := ProviderAWS\<rparr>,
     env_Status := zero_EnvironmentStatus\<lparr>st_Properties := [\<lparr>pr_Name = ''vpc-id'', pr_Value = ''vpc-1''\<rparr>]\<rparr>\<rparr>"

definition cached_world :: fake_world where
  "cached_world = sample_world\<lparr>fw_files := [(''/cache/00c0ffee.yaml'', cached_environment)]\<rparr>"

definition deleted_world :: fake_world where
  "deleted_world = snd (DeleteInstance fake_instances (NewManager fake_instances ''/cache'') ''00c0ffee'' cached_world)"


end
