(* ===== verification/Create_Command_Props.thy ===== *)
theory Create_Command_Props
  imports Create_Command Provisioner_Props Instance_Props
begin

text \<open>
  What the \<open>create\<close> command leaves in the cache file, and why it cannot create an SSH environment.
\<close>

section \<open>SSH environments\<close>

text \<open>
  The command fails for every environment of the SSH provider whose fresh cache file does not exist
  yet: nothing writes that file, and the command reads it back. Nothing is provisioned, and no
  connection is made.
\<close>

theorem ssh_environment_is_not_created:
  assumes "sp_Provider (env_Spec (op_cfg opts)) = ProviderSSH"
    and "\<forall>i s' path. GenerateInstanceID (cl_instances x) s = (Inr i, s') \<longrightarrow>
      GetInstanceCacheFile (NewManager (cl_instances x) (op_cachePath opts)) i = Inr path \<longrightarrow>
      isl (fst (UnmarshalFromFile (cl_platform x) path s'))"
  shows "isl (fst (run_create x opts (s, ts))) \<and> snd (snd (run_create x opts (s, ts))) = ts"
proof (cases "GenerateInstanceID (cl_instances x) s")
  case (Pair r s1)
  show ?thesis
  proof (cases r)
    case (Inl e)
    then show ?thesis using Pair
      by (simp add: run_create_def Let_def andthen_def wrap_def catch_def on_fst_def fail_def)
  next
    case (Inr i)
    have ssh: "sp_Provider (env_Spec (labelled x i (op_cfg opts))) = ProviderSSH"
      using assms(1) by (simp add: labelled_def Let_def set_label_def with_username_def)
    show ?thesis
    proof (cases "GetInstanceCacheFile (NewManager (cl_instances x) (op_cachePath opts)) i")
      case (Inl e)
      then show ?thesis using Pair Inr
        by (simp add: run_create_def Let_def andthen_def wrap_def catch_def on_fst_def fail_def lift_result_def)
    next
      case path: (Inr path)
      obtain e s2 where "UnmarshalFromFile (cl_platform x) path s1 = (Inl e, s2)"
        using assms(2) Pair Inr path by (metis isl_def prod.collapse)
      then show ?thesis using Pair Inr path ssh
        by (simp add: run_create_def Let_def andthen_def wrap_def catch_def on_fst_def fail_def lift_result_def
            create_resources_def ret_def)
    qed
  qed
qed

section \<open>The outcome in the cache file\<close>

text \<open>The environment was written to the cache file.\<close>

definition recorded :: "('s, 'f, 'n, 'c, 'v) cli_env \<Rightarrow> options \<Rightarrow> Environment \<Rightarrow> bool" where
  "recorded x opts cfg \<longleftrightarrow> (\<exists>data s s'. pl_Marshal (cl_platform x) cfg = Inr data
     \<and> pl_WriteFile (cl_platform x) (op_cacheFile opts) data mode_0600 s = (Inr (), s'))"

lemma save_cache_recorded: "save_cache x opts cfg s = (Inr (), s') \<Longrightarrow> recorded x opts cfg"
  by (auto simp: save_cache_def andthen_Inr lift_result_def recorded_def)

definition provisioned :: "Environment \<Rightarrow> bool" where
  "provisioned env \<longleftrightarrow> label_of env InstanceProvisionedLabelKey = ''true''"

lemma set_label_provisioned [simp]: "provisioned (set_label InstanceProvisionedLabelKey ''true'' env)"
  by (simp add: provisioned_def label_of_def set_label_def update_conv')

lemma set_label_same [simp]: "env_Status (set_label k v env) = env_Status env" "env_Name (set_label k v env) = env_Name env"
  by (simp_all add: set_label_def)

text \<open>A cluster that is provisioned keeps the name, the labels and the status of its environment.\<close>

abbreviation outer :: "('s, 'c) heap \<times> ClusterProvisioner \<Rightarrow> string \<times> string gomap \<times> EnvironmentStatus" where
  "outer st \<equiv> let env = kp_Environment (snd st) in (env_Name env, env_Labels env, env_Status env)"

lemma outer_on_fst: "pres (keeps outer) (on_fst m)"
  by (auto simp: pres_def keeps_def on_fst_def split: prod.splits)

lemma outer_set_cluster: "(\<And>cp. outer (h, f cp) = outer (h, cp)) \<Longrightarrow> pres (keeps outer) (set_cluster f)"
  by (auto simp: pres_def keeps_def set_cluster_def modify_def)

lemma outer_raise: "pres (keeps outer) (raise_error t r)"
  unfolding raise_error_def by (intro kept.pres_rules pres_case_sum)

lemmas outer_rules = kept.pres_rules pres_cases outer_on_fst outer_raise pres_deferring

lemma outer_with_node: "(\<And>p. pres (keeps outer) (f p)) \<Longrightarrow> pres (keeps outer) (with_node x node f)"
  unfolding with_node_def by (intro outer_rules)

lemma outer_script: "pres (keeps outer) (provision_script x t p sc)"
  unfolding provision_script_def by (intro outer_rules)

lemma outer_initFirst: "pres (keeps outer) (initFirstControlPlane x node)"
  unfolding initFirstControlPlane_def extractJoinInfo_def
  by (intro outer_with_node outer_rules outer_script outer_set_cluster) (simp_all add: set_endpoint_def Let_def)

lemma outer_ProvisionCluster: "pres (keeps outer) (ProvisionCluster x order1 order2 nodes)"
  unfolding ProvisionCluster_def join_all_def joinControlPlane_def joinWorker_def join_node_def configureNodes_def
  by (intro outer_rules outer_with_node outer_script outer_initFirst outer_set_cluster) (simp_all add: Let_def)

lemma deferring_Inr: "deferring c m s = (Inr v, s') \<longleftrightarrow> (\<exists>s1. m s = (Inr v, s1) \<and> s' = snd (c s1))"
  by (auto simp: deferring_def split: prod.splits)

lemma on_fst_Inr: "on_fst m st = (Inr v, st') \<longleftrightarrow> m (fst st) = (Inr v, fst st') \<and> snd st' = snd st"
  by (cases st') (auto simp: on_fst_def split: prod.splits)

lemma on_node_Inr: "on_node m p h = (Inr (r, p'), h') \<longleftrightarrow> m (h, p) = (r, (h', p'))"
  by (auto simp: on_node_def split: prod.splits)

lemma on_cluster_Inr: "on_cluster m cp h = (Inr (r, cp'), h') \<longleftrightarrow> m (h, cp) = (r, (h', cp'))"
  by (auto simp: on_cluster_def split: prod.splits)

lemma case_saved: "(case r of Inl e \<Rightarrow> andthen (m e) (\<lambda>_. fail (t e)) | Inr v \<Rightarrow> k v) s = (Inr w, s')
    \<longleftrightarrow> (\<exists>v. r = Inr v \<and> k v s = (Inr w, s'))"
  by (cases r) (auto simp: andthen_Inr)

lemma single_node_saves:
  assumes "runSingleNodeProvision x opts h = (Inr (), h')"
  shows "\<exists>built u u'. save_cache x opts (set_label InstanceProvisionedLabelKey ''true''
    ((op_cfg opts)\<lparr>env_Status := (env_Status (op_cfg opts))\<lparr>st_Components := built\<rparr>\<rparr>)) u = (Inr (), u')"
  using assms by (auto simp: runSingleNodeProvision_def Let_def andthen_Inr deferring_Inr on_fst_Inr case_saved)

lemma cluster_saves:
  assumes "runMultinodeProvision x opts h = (Inr (), h')"
  shows "\<exists>nodes h1 r cp h2 u u'. ProvisionCluster (cl_prov x) (cl_order1 x) (cl_order2 x) nodes
      (h1, NewClusterProvisioner (au_PrivateKey (sp_Auth (env_Spec (op_cfg opts)))) (au_Username (sp_Auth (env_Spec (op_cfg opts)))) (op_cfg opts))
      = (r, (h2, cp))
    \<and> save_cache x opts (set_label InstanceProvisionedLabelKey ''true'' (kp_Environment cp)) u = (Inr (), u')"
  using assms
  by (auto simp: runMultinodeProvision_def Let_def andthen_Inr on_cluster_Inr on_fst_Inr case_saved split: if_splits) blast+

text \<open>
  C33: a provisioning that succeeds, of a single node as of a cluster, has written an environment to the
  cache file that is marked as provisioned and that keeps the name of the environment and the
  resources, conditions and nodes which the creation had saved, so that the instance can still be deleted.
\<close>

theorem provisioned_environment_is_recorded:
  assumes "runProvision x opts h = (Inr (), h')"
  shows "\<exists>cfg. recorded x opts cfg \<and> provisioned cfg \<and> env_Name cfg = env_Name (op_cfg opts)
    \<and> st_Properties (env_Status cfg) = st_Properties (env_Status (op_cache opts))
    \<and> st_Conditions (env_Status cfg) = st_Conditions (env_Status (op_cache opts))
    \<and> st_Cluster (env_Status cfg) = st_Cluster (env_Status (op_cache opts))"
proof -
  let ?cfg = "(op_cfg opts)\<lparr>env_Status := env_Status (op_cache opts)\<rparr>"
  let ?opts = "opts\<lparr>op_cfg := ?cfg\<rparr>"
  have same: "recorded x ?opts = recorded x opts" by (simp add: recorded_def fun_eq_iff)
  consider "runMultinodeProvision x ?opts h = (Inr (), h')" | "runSingleNodeProvision x ?opts h = (Inr (), h')"
    using assms by (auto simp: runProvision_def Let_def split: if_splits)
  then show ?thesis
  proof cases
    case 1
    from cluster_saves [OF this] obtain nodes h1 r cp h2 u u' where
      run: "ProvisionCluster (cl_prov x) (cl_order1 x) (cl_order2 x) nodes
        (h1, NewClusterProvisioner (au_PrivateKey (sp_Auth (env_Spec ?cfg))) (au_Username (sp_Auth (env_Spec ?cfg))) ?cfg) = (r, (h2, cp))"
      and saved: "save_cache x ?opts (set_label InstanceProvisionedLabelKey ''true'' (kp_Environment cp)) u = (Inr (), u')"
      by auto
    have "env_Status (kp_Environment cp) = env_Status ?cfg \<and> env_Name (kp_Environment cp) = env_Name ?cfg"
      using presD [OF outer_ProvisionCluster run] by (simp add: keeps_def Let_def NewClusterProvisioner_def)
    then show ?thesis
      using save_cache_recorded [OF saved] unfolding same
      by (intro exI [of _ "set_label InstanceProvisionedLabelKey ''true'' (kp_Environment cp)"]) simp
  next
    case 2
    from single_node_saves [OF this] obtain built u u' where saved: "save_cache x ?opts (set_label InstanceProvisionedLabelKey ''true''
        (?cfg\<lparr>env_Status := (env_Status ?cfg)\<lparr>st_Components := built\<rparr>\<rparr>)) u = (Inr (), u')"
      by auto
    then show ?thesis
      using save_cache_recorded [OF saved] unfolding same
      by (intro exI [of _ "set_label InstanceProvisionedLabelKey ''true'' (?cfg\<lparr>env_Status := (env_Status ?cfg)\<lparr>st_Components := built\<rparr>\<rparr>)"])
        simp
  qed
qed

section \<open>A sample command line\<close>

definition sample_files :: "(fake_world, unit) file_env" where
  "sample_files = \<lparr>fx_Unmarshal = (\<lambda>_. Inl ''bad YAML''), fx_Marshal = (\<lambda>_. Inr ''''), fx_ReadFile = (\<lambda>_. ret ''''),
     fx_WriteFile = (\<lambda>_ _. ret ()), fx_Stat = (\<lambda>_. ret None), fx_Getuid = 0, fx_Chown = (\<lambda>_ _ _. ret ()),
     fx_StdoutPipe = (\<lambda>_. ret ()), fx_OpenFile = (\<lambda>_. ret ()), fx_CopyStdout = (\<lambda>_ _. ret ())\<rparr>"

definition sample_cli :: "(fake_world, Environment, nat, nat, unit) cli_env" where
  "sample_cli = \<lparr>cl_instances = fake_instances, cl_prov = sample_node (ret 1) (ret ()) (\<lambda>_. ret ()), cl_files = sample_files,
     cl_ReadLine = ret ''yes'', cl_order1 = id, cl_order2 = id\<rparr>"

definition sample_options :: "string \<Rightarrow> options" where
  "sample_options provider = \<lparr>op_provision = True, op_nonInteractive = False, op_cachePath = ''/cache'', op_cacheFile = ''/cache/a.yaml'',
     op_envFile = ''env.yaml'', op_kubeconfig = '''',
     op_cfg = docker_env\<lparr>env_Spec := (env_Spec docker_env)\<lparr>sp_Provider := provider,
       sp_Auth := (sp_Auth (env_Spec docker_env))\<lparr>au_PrivateKey := ''/key''\<rparr>\<rparr>\<rparr>, op_cache = zero_Environment\<rparr>"

theorem ssh_environment_is_not_created_witness:
  "isl (fst (run_create sample_cli (sample_options ProviderSSH) (fake_start, [])))"
proof -
  have ssh: "sp_Provider (env_Spec (op_cfg (sample_options ProviderSSH))) = ProviderSSH"
    by (simp add: sample_options_def)
  have "snd (GenerateInstanceID (cl_instances sample_cli) fake_start) = fake_start"
    by (simp add: GenerateInstanceID_def sample_cli_def andthen_def wrap_def catch_def ret_def)
  then have "\<forall>i s' path. GenerateInstanceID (cl_instances sample_cli) fake_start = (Inr i, s') \<longrightarrow>
      GetInstanceCacheFile (NewManager (cl_instances sample_cli) (op_cachePath (sample_options ProviderSSH))) i = Inr path \<longrightarrow>
      isl (fst (UnmarshalFromFile (cl_platform sample_cli) path s'))"
    by (auto simp: fst_UnmarshalFromFile sample_cli_def fake_platform_def fake_start_def Store.extend_def fake_world.fields_def)
  from ssh_environment_is_not_created [OF ssh this] show ?thesis by blast
qed

theorem provisioned_environment_is_recorded_witness:
  "\<exists>cfg. recorded sample_cli (sample_options ProviderAWS) cfg \<and> provisioned cfg"
proof -
  let ?run = "runProvision sample_cli (sample_options ProviderAWS) (fake_start, [])"
  have "fst ?run = Inr ()" by code_simp
  then have "?run = (Inr (), snd ?run)" by (simp add: prod_eq_iff)
  from provisioned_environment_is_recorded [OF this] show ?thesis by blast
qed

end
