(* ===== verification/Action_Props.thy ===== *)
theory Action_Props
  imports Action Create_Command_Props Lifecycle
begin

text \<open>
  The GitHub action: a creation that fails is cleaned up, and what its cache file names is gone.
\<close>

context step_relation
begin

lemma pres_UnmarshalFromFile: "pres R (pl_ReadFile pl path) \<Longrightarrow> pres R (UnmarshalFromFile pl path)"
  unfolding pres_def snd_UnmarshalFromFile .

lemma pres_cleanup_provider:
  assumes "\<And>path. pres R (pl_ReadFile (cl_platform (ac_cli x)) path)" "pres R (ie_RandRead (cl_instances (ac_cli x)) 8)"
    and "pres R (ac_Mkdir x cachedir)" "\<And>region. pres R (ie_LoadConfig (cl_instances (ac_cli x)) region)"
  shows "pres R (cleanup_provider x)"
proof -
  have name: "pres R (setCfgName x cfg)" for cfg
    unfolding setCfgName_def generateUID_def by (intro pres_rules assms)
  have aws: "pres R (aws_New (cl_instances (ac_cli x)) cfg f)" for cfg f
    unfolding aws_New_def by (intro pres_rules pres_case_prod assms)
  have "pres R (new_provider x cfg)" for cfg
    unfolding new_provider_def newProvider_def newAwsProvider_def by (intro pres_rules name aws assms)
  then show ?thesis
    unfolding cleanup_provider_def read_config_def config_file_def
    by (intro pres_rules pres_case_prod name pres_UnmarshalFromFile assms)
qed

end

text \<open>The account of an action: what the action does beside its provider leaves the resources alone, and
  the cache file until the deletion is done.\<close>

definition keeps_action :: "('s, 'f, 'n, 'c, 'v) action_env \<Rightarrow> ('s \<Rightarrow> bool) \<Rightarrow> ('s \<Rightarrow> resource set) \<Rightarrow> bool" where
  "keeps_action x ok live \<longleftrightarrow> keeps_account (cl_instances (ac_cli x)) ok live
     \<and> pres (sheds ok live {}) (ie_RandRead (cl_instances (ac_cli x)) 8) \<and> pres (sheds ok live {}) (ac_Mkdir x cachedir)
     \<and> (\<forall>path. pres (keeps (\<lambda>s. fst (pl_ReadFile (cl_platform (ac_cli x)) path s))) (ie_RandRead (cl_instances (ac_cli x)) 8)
         \<and> pres (keeps (\<lambda>s. fst (pl_ReadFile (cl_platform (ac_cli x)) path s))) (ac_Mkdir x cachedir))"

lemma sheds_cleanup_provider: "keeps_action x ok live \<Longrightarrow> pres (sheds ok live {}) (cleanup_provider x)"
  by (rule step_relation.pres_cleanup_provider [OF sheds_step]) (simp_all add: keeps_action_def keeps_account_def)

lemma file_kept_cleanup_provider:
  assumes "keeps_action x ok live" "cleanup_provider x s = (r, s')"
  shows "fst (UnmarshalFromFile (cl_platform (ac_cli x)) path s') = fst (UnmarshalFromFile (cl_platform (ac_cli x)) path s)"
proof -
  have "pres (keeps (\<lambda>s. fst (pl_ReadFile (cl_platform (ac_cli x)) path s))) (cleanup_provider x)"
    using assms(1) by (intro kept.pres_cleanup_provider) (simp_all add: keeps_action_def keeps_account_def)
  from presD [OF this assms(2)] show ?thesis by (simp add: keeps_def fst_UnmarshalFromFile)
qed

lemma renamed: "setCfgName x conf s = (Inr cfg, s') \<Longrightarrow> env_Spec cfg = env_Spec conf \<and> env_Status cfg = env_Status conf"
  by (auto simp: setCfgName_def andthen_Inr)

lemma catch_fail_Inr: "catch m (\<lambda>e. fail (f e)) s = (Inr v, s') \<longleftrightarrow> m s = (Inr v, s')"
  by (auto simp: catch_def fail_def split: prod.splits sum.splits)

lemma cleanup_provider_Inr:
  assumes "keeps_action x ok live" "cleanup_provider x s = (Inr (p, cfg), s')"
  shows "aws_contract p ok live \<and> p_platform p = cl_platform (ac_cli x) \<and> p_cacheFile p = ci_cacheFile
    \<and> (\<exists>conf. fst (UnmarshalFromFile (cl_platform (ac_cli x)) (''/github/workspace/'' @ ac_Getenv x ''INPUT_HOLODECK_CONFIG'') s) = Inr conf
        \<and> env_Spec cfg = env_Spec conf \<and> env_Status cfg = env_Status conf)"
proof -
  obtain conf s1 cfg1 s2 where conf: "UnmarshalFromFile (cl_platform (ac_cli x)) (''/github/workspace/'' @ ac_Getenv x ''INPUT_HOLODECK_CONFIG'') s = (Inr conf, s1)"
    and cfg1: "setCfgName x conf s1 = (Inr cfg1, s2)" and p: "newProvider x cfg1 s2 = (Inr (p, cfg), s')"
    using assms(2)
    by (auto simp: cleanup_provider_def read_config_def config_file_def new_provider_def andthen_Inr catch_fail_Inr gets_def
        split: if_splits prod.splits)
  from p obtain s3 s4 where cfg: "setCfgName x cfg1 s3 = (Inr cfg, s4)"
    and aws: "aws_New (cl_instances (ac_cli x)) cfg ci_cacheFile s4 = (Inr p, s')"
    by (auto simp: newProvider_def newAwsProvider_def andthen_Inr split: if_splits)
  from aws obtain ec2 ssm elbv2 where load: "ie_LoadConfig (cl_instances (ac_cli x)) (provider_region (ac_Getenv x) cfg) s4 = (Inr (ec2, ssm, elbv2), s')"
    and new: "p = New (cl_platform (ac_cli x)) (ie_sleep (cl_instances (ac_cli x))) ec2 ssm elbv2 cfg ci_cacheFile"
    by (auto simp: aws_New_def andthen_Inr)
  have "aws_contract p ok live"
    using assms(1) load unfolding new keeps_action_def keeps_account_def by blast
  then have "aws_contract p ok live \<and> p_platform p = cl_platform (ac_cli x) \<and> p_cacheFile p = ci_cacheFile"
    unfolding new by (simp add: New_def)
  then show ?thesis using conf renamed [OF cfg1] renamed [OF cfg] by auto
qed

lemma sheds_removals: "keeps_action x ok live \<Longrightarrow>
    pres (sheds ok live {}) (andthen (remove_if_present x f) (\<lambda>_. remove_if_present x g))"
  unfolding remove_if_present_def log_error_def
  by (intro step_relation.pres_rules [OF sheds_step]) (simp_all add: keeps_action_def keeps_account_def)


section \<open>A failing action\<close>

definition action_platform :: "(fake_world, Environment) platform" where
  "action_platform = fake_platform\<lparr>pl_Getenv := (\<lambda>n. if n = ''INPUT_HOLODECK_CONFIG'' then ''env.yaml'' else '''')\<rparr>"

definition sample_action :: "(fake_world, Environment, nat, nat, unit) action_env" where
  "sample_action = \<lparr>ac_cli = sample_cli\<lparr>cl_instances := fake_instances\<lparr>ie_platform := action_platform\<rparr>\<rparr>,
     ac_Stat = (\<lambda>path w. if has_key (fw_files w) path then Present else Absent), ac_Mkdir = (\<lambda>_. ret ()),
     ac_Rename = (\<lambda>_ _. ret ()), ac_Cleaner = (\<lambda>_. fail ''no cleaner'')\<rparr>"

definition failing_world :: fake_world where
  "failing_world = (FailNext ''ModifyVpcAttribute'' ''boom'' fake_start)
     \<lparr>fw_files := [(''/github/workspace/env.yaml'', node_env\<lparr>env_Spec := (env_Spec node_env)\<lparr>sp_Provider := ProviderAWS\<rparr>\<rparr>)]\<rparr>"

lemma contract_any_getenv:
  "aws_contract (New (pl\<lparr>pl_Getenv := g\<rparr>) slp ec2 ssm elbv2 env f) ok live \<longleftrightarrow> aws_contract (New pl slp ec2 ssm elbv2 env f) ok live"
  by (simp add: aws_contract_def New_def)

lemma sample_action_keeps: "keeps_action sample_action fake_ok fake_live"
  using fake_instances_keep fake_instances_contract
  by (simp add: keeps_action_def keeps_account_def sample_action_def sample_cli_def action_platform_def contract_any_getenv
      pres_def sheds_def keeps_def ret_def)

lemma failed_run:
  "case entrypoint sample_action (failing_world, []) of
     (Inl e, (s1, ts1)) \<Rightarrow> e \<noteq> exit_1 \<and> list_all (\<lambda>(m, es). es = []) (fs_failures s1) \<and> map fst (fs_RouteTables s1) = []
       \<and> has_key (fs_Vpcs s1) ''vpc-fake0001''
       \<and> (case map_of (fw_files s1) ci_cacheFile of None \<Rightarrow> False | Some c \<Rightarrow> aw_Vpcid (cached_ids c) = ''vpc-fake0001'')
       \<and> fst (ci_cleanup sample_action s1) = Inr ()
   | _ \<Rightarrow> False"
  by code_simp


end
