(* ===== verification/Retry.thy ===== *)
theory Retry
  imports Ssh "HOL-Library.Signed_Division"
begin

text \<open>
  \<open>pkg/provider/aws/retry.go\<close>: calling a function with exponential backoff. No command uses it.

  The random number below a bound and the wait, which ends early with the error of the context, are
  parameters. The result that comes with an error is dropped. \<open>rand.Int\<close> panics on a bound that is
  not positive. The loop counter does not overflow: a configuration with the largest number of retries
  would never end anyway.
\<close>

record RetryConfig =
  rc_MaxRetries :: int64
  rc_InitialBackoff :: int64
  rc_MaxBackoff :: int64

definition DefaultRetryConfig :: RetryConfig where
  "DefaultRetryConfig = \<lparr>rc_MaxRetries = 3, rc_InitialBackoff = second, rc_MaxBackoff = 30 * second\<rparr>"

record 's retry_env =
  rt_Int :: "int \<Rightarrow> ('s, int) io"
  rt_wait :: "int64 \<Rightarrow> ('s, unit) io"

definition rand_panic :: error where
  "rand_panic = ''panic: crypto/rand: argument to Int is <= 0''"

definition isRetryableError :: "error \<Rightarrow> bool" where
  "isRetryableError e \<longleftrightarrow> list_ex (contains e)
     [''RequestLimitExceeded'', ''Throttling'', ''ServiceUnavailable'', ''InternalError'', ''connection reset'', ''timeout'']"

text \<open>The wait before the next attempt.\<close>

definition retry_pause :: "'s retry_env \<Rightarrow> RetryConfig \<Rightarrow> int64 \<Rightarrow> ('s, unit) io" where
  "retry_pause x cfg backoff = (let half = sint backoff sdiv 2 in
     if half \<le> 0 then fail rand_panic
     else andthen (catch (andthen (rt_Int x half) (\<lambda>n. ret (word_of_int n))) (\<lambda>_. ret 0)) (\<lambda>jitter.
       let d = backoff + jitter in rt_wait x (if rc_MaxBackoff cfg <s d then rc_MaxBackoff cfg else d)))"

text \<open>The loop with \<open>n\<close> retries left.\<close>

fun retry_rounds :: "nat \<Rightarrow> 's retry_env \<Rightarrow> RetryConfig \<Rightarrow> int64 \<Rightarrow> ('s, 'a) io \<Rightarrow> ('s, 'a) io" where
  "retry_rounds 0 x cfg backoff f = f"
| "retry_rounds (Suc n) x cfg backoff f = catch f (\<lambda>e.
     if \<not> isRetryableError e then fail e
     else andthen (retry_pause x cfg backoff) (\<lambda>_. retry_rounds n x cfg (backoff * 2) f))"

text \<open>With a negative number of retries the function is never called, and its zero value is a success.\<close>

definition WithRetry :: "'s retry_env \<Rightarrow> RetryConfig \<Rightarrow> 'a \<Rightarrow> ('s, 'a) io \<Rightarrow> ('s, 'a) io" where
  "WithRetry x cfg zero f = (if rc_MaxRetries cfg <s 0 then ret zero
     else retry_rounds (nat (sint (rc_MaxRetries cfg))) x cfg (rc_InitialBackoff cfg) f)"

section \<open>Properties\<close>

text \<open>How often a function was called, where nothing else changes the count.\<close>

definition counts :: "('s \<Rightarrow> nat) \<Rightarrow> ('s, 'a) io \<Rightarrow> bool" where
  "counts c f \<longleftrightarrow> (\<forall>s. c (snd (f s)) = Suc (c s))"

definition uncounted :: "('s \<Rightarrow> nat) \<Rightarrow> 's retry_env \<Rightarrow> bool" where
  "uncounted c x \<longleftrightarrow> (\<forall>n. pres (keeps c) (rt_Int x n)) \<and> (\<forall>d. pres (keeps c) (rt_wait x d))"

lemma uncounted_pause: "uncounted c x \<Longrightarrow> pres (keeps c) (retry_pause x cfg b)"
  unfolding retry_pause_def Let_def by (intro kept.pres_rules) (simp_all add: uncounted_def)

lemma retry_rounds_counts:
  assumes "counts c f" "uncounted c x" "retry_rounds n x cfg b f s = (r, s')"
  shows "c s < c s' \<and> c s' \<le> c s + Suc n \<and> (case r of Inr v \<Rightarrow> \<exists>t. f t = (Inr v, s')
     | Inl e \<Rightarrow> isRetryableError e \<and> c s' = c s + Suc n \<or> \<not> isRetryableError e \<or> (\<exists>b t. fst (retry_pause x cfg b t) = Inl e))"
  using assms(3)
proof (induction n arbitrary: b s)
  case 0
  have "c s' = Suc (c s)" using assms(1) 0 unfolding counts_def by (metis retry_rounds.simps(1) snd_conv)
  then show ?case using 0 by (cases r) auto
next
  case (Suc n)
  obtain r1 s1 where f: "f s = (r1, s1)" by (cases "f s")
  have c1: "c s1 = Suc (c s)" using assms(1) f unfolding counts_def by (metis snd_conv)
  show ?case
  proof (cases r1)
    case (Inr v)
    then have "r = Inr v" "s' = s1" using Suc.prems f by (auto simp: catch_def)
    with c1 f Inr show ?thesis by auto
  next
    case (Inl e)
    obtain r2 s2 where p: "retry_pause x cfg b s1 = (r2, s2)" by (cases "retry_pause x cfg b s1")
    have c2: "c s2 = c s1" using presD [OF uncounted_pause [OF assms(2)] p] by (simp add: keeps_def)
    show ?thesis
    proof (cases "isRetryableError e \<and> r2 = Inr ()")
      case True
      then have "retry_rounds n x cfg (b * 2) f s2 = (r, s')"
        using Suc.prems f Inl p by (simp add: catch_def andthen_def)
      from Suc.IH [OF this] c1 c2 show ?thesis by (auto split: sum.splits)
    next
      case False
      then obtain e' where e': "r = Inl e'" "\<not> isRetryableError e' \<or> (\<exists>b t. fst (retry_pause x cfg b t) = Inl e')" "c s' = c s1"
        using Suc.prems f Inl p c2 by (cases r2) (auto simp: catch_def andthen_def fail_def split: if_splits, metis fst_conv)
      have "c s < c s'" "c s' \<le> c s + Suc (Suc n)" using e'(3) c1 by simp_all
      then show ?thesis unfolding e'(1) sum.case using e'(2) by blast
    qed
  qed
qed

text \<open>
  The function is called at least once and at most once more than the configured retries. A value that
  is returned is the value of the last call; a retryable error is returned only after all
  retries, unless a wait was cut short.
\<close>

theorem WithRetry_attempts:
  assumes "counts c f" and "uncounted c x" and "0 \<le>s rc_MaxRetries cfg" and "WithRetry x cfg zero f s = (r, s')"
  shows "c s < c s' \<and> c s' \<le> c s + Suc (nat (sint (rc_MaxRetries cfg)))
    \<and> (case r of Inr v \<Rightarrow> \<exists>t. f t = (Inr v, s')
       | Inl e \<Rightarrow> isRetryableError e \<and> c s' = c s + Suc (nat (sint (rc_MaxRetries cfg)))
           \<or> \<not> isRetryableError e \<or> (\<exists>b t. fst (retry_pause x cfg b t) = Inl e))"
proof -
  have "\<not> rc_MaxRetries cfg <s 0" using assms(3) by (simp add: word_sless_alt word_sle_eq)
  then show ?thesis using retry_rounds_counts [OF assms(1,2)] assms(4) by (simp add: WithRetry_def)
qed

text \<open>A function that throttles two calls.\<close>

definition throttled :: "(nat, nat) io" where
  "throttled n = (if n < 2 then Inl ''Throttling: slow down'' else Inr n, Suc n)"

definition patient :: "nat retry_env" where
  "patient = \<lparr>rt_Int = (\<lambda>_. ret 5), rt_wait = (\<lambda>_. ret ())\<rparr>"

theorem WithRetry_attempts_witness:
  "\<exists>r s'. WithRetry patient DefaultRetryConfig 0 throttled 0 = (r, s') \<and> 0 < s' \<and> s' \<le> 4 \<and> r = Inr 2"
proof -
  have counted: "counts id throttled" "uncounted id patient"
    by (simp_all add: counts_def throttled_def uncounted_def patient_def pres_def keeps_def ret_def)
  have three: "0 \<le>s rc_MaxRetries DefaultRetryConfig" "nat (sint (rc_MaxRetries DefaultRetryConfig)) = 3"
    by (simp_all add: DefaultRetryConfig_def word_sle_eq)
  have run: "WithRetry patient DefaultRetryConfig 0 throttled 0 = (Inr 2, 3)" by code_simp
  from WithRetry_attempts [OF counted three(1) run] run three(2) show ?thesis by simp
qed

text \<open>The doubled backoff overflows after 34 retries of a second, and the process panics.\<close>

lemma long_retries_panic:
  "WithRetry patient (DefaultRetryConfig\<lparr>rc_MaxRetries := 40\<rparr>) () (\<lambda>n. (Inl ''timeout'', Suc n)) 0 = (Inl rand_panic, 35)"
  by code_simp

end
