(* ===== verification/Update_Command.thy ===== *)
theory Update_Command
  imports Create_Command Image_Lookup
begin

text \<open>
  \<open>cmd/cli/update/update.go\<close> and \<open>cmd/cli/delete/delete.go\<close>: changing the configuration of a cached
  instance, with the labels, the tags of its resources and the provisioning that follow from it, and
  deleting a list of instances.

  The flags of a command line are a record; \<open>uf_IsSet\<close> holds the names of the flags that were given.
  Messages are left out. A nil map of labels is the empty map.
\<close>

section \<open>Deleting instances\<close>

fun delete_each :: "('s, 'f) instance_env \<Rightarrow> Manager \<Rightarrow> string list \<Rightarrow> ('s, unit) io" where
  "delete_each x m [] = ret ()"
| "delete_each x m (instanceID # ids) =
     andthen (wrap (''failed to get instance '' @ instanceID) (GetInstance x m instanceID)) (\<lambda>_.
     andthen (wrap (''failed to delete instance '' @ instanceID) (DeleteInstance x m instanceID)) (\<lambda>_.
     delete_each x m ids))"

definition run_delete :: "('s, 'f) instance_env \<Rightarrow> string \<Rightarrow> string list \<Rightarrow> ('s, unit) io" where
  "run_delete x cachePath ids = (if ids = [] then fail ''at least one instance ID is required''
     else delete_each x (NewManager x cachePath) ids)"

section \<open>The flags of an update\<close>

record update_flags =
  uf_cachePath :: string
  uf_addDriver :: bool
  uf_driverVersion :: string
  uf_driverBranch :: string
  uf_addRuntime :: bool
  uf_runtimeName :: string
  uf_runtimeVer :: string
  uf_addToolkit :: bool
  uf_toolkitVer :: string
  uf_enableCDI :: bool
  uf_addKubernetes :: bool
  uf_k8sInstaller :: string
  uf_k8sVersion :: string
  uf_labels :: "string list"
  uf_reprovision :: bool
  uf_IsSet :: "string list"

text \<open>The values of a command line without flags.\<close>

definition no_update_flags :: update_flags where
  "no_update_flags = \<lparr>uf_cachePath = '''', uf_addDriver = False, uf_driverVersion = '''', uf_driverBranch = '''',
     uf_addRuntime = False, uf_runtimeName = ''containerd'', uf_runtimeVer = '''', uf_addToolkit = False,
     uf_toolkitVer = '''', uf_enableCDI = False, uf_addKubernetes = False, uf_k8sInstaller = ''kubeadm'',
     uf_k8sVersion = '''', uf_labels = [], uf_reprovision = False, uf_IsSet = []\<rparr>"

definition is_set :: "update_flags \<Rightarrow> string \<Rightarrow> bool" where
  "is_set fl name \<longleftrightarrow> name \<in> set (uf_IsSet fl)"

section \<open>Changing the environment\<close>

text \<open>The environment with the two local variables \<open>needsProvision\<close> and \<open>configChanged\<close>.\<close>

record pending =
  up_env :: Environment
  up_needsProvision :: bool
  up_configChanged :: bool

definition change :: "bool \<Rightarrow> (EnvironmentSpec \<Rightarrow> EnvironmentSpec) \<Rightarrow> pending \<Rightarrow> pending" where
  "change b f u = (if b then u\<lparr>up_env := (up_env u)\<lparr>env_Spec := f (env_Spec (up_env u))\<rparr>, up_configChanged := True\<rparr> else u)"

definition install :: "bool \<Rightarrow> (EnvironmentSpec \<Rightarrow> EnvironmentSpec) \<Rightarrow> pending \<Rightarrow> pending" where
  "install b f u = (if b then (change True f u)\<lparr>up_needsProvision := True\<rparr> else u)"

abbreviation up_spec :: "pending \<Rightarrow> EnvironmentSpec" where
  "up_spec u \<equiv> env_Spec (up_env u)"

definition apply_driver :: "update_flags \<Rightarrow> pending \<Rightarrow> pending" where
  "apply_driver fl u = (if \<not> uf_addDriver fl then u else
     change (uf_driverBranch fl \<noteq> '''') (sp_NVIDIADriver_update (nd_Branch_update (\<lambda>_. uf_driverBranch fl)))
    (change (uf_driverVersion fl \<noteq> '''') (sp_NVIDIADriver_update (nd_Version_update (\<lambda>_. uf_driverVersion fl)))
    (install (\<not> nd_Install (sp_NVIDIADriver (up_spec u))) (sp_NVIDIADriver_update (nd_Install_update (\<lambda>_. True))) u)))"

definition apply_runtime :: "update_flags \<Rightarrow> pending \<Rightarrow> pending" where
  "apply_runtime fl u = (if \<not> uf_addRuntime fl then u else
     change (is_set fl ''runtime-version'') (sp_ContainerRuntime_update (cr_Version_update (\<lambda>_. uf_runtimeVer fl)))
    (change (is_set fl ''runtime-name'') (sp_ContainerRuntime_update (cr_Name_update (\<lambda>_. uf_runtimeName fl)))
    (install (\<not> cr_Install (sp_ContainerRuntime (up_spec u))) (sp_ContainerRuntime_update (cr_Install_update (\<lambda>_. True))) u)))"

definition apply_toolkit :: "update_flags \<Rightarrow> pending \<Rightarrow> pending" where
  "apply_toolkit fl u = (if \<not> uf_addToolkit fl then u else
     install (uf_enableCDI fl) (sp_NVIDIAContainerToolkit_update (ct_EnableCDI_update (\<lambda>_. True)))
    (change (uf_toolkitVer fl \<noteq> '''') (sp_NVIDIAContainerToolkit_update (ct_Version_update (\<lambda>_. uf_toolkitVer fl)))
    (install (\<not> ct_Install (sp_NVIDIAContainerToolkit (up_spec u)))
      (sp_NVIDIAContainerToolkit_update (ct_Install_update (\<lambda>_. True))) u)))"

definition with_k8s_version :: "string \<Rightarrow> Kubernetes \<Rightarrow> Kubernetes" where
  "with_k8s_version v k = k\<lparr>k_KubernetesVersion := v,
     k_Release := Some ((case k_Release k of None \<Rightarrow> zero_K8sReleaseSpec | Some r \<Rightarrow> r)\<lparr>kr_Version := v\<rparr>)\<rparr>"

definition apply_kubernetes :: "update_flags \<Rightarrow> pending \<Rightarrow> pending" where
  "apply_kubernetes fl u = (if \<not> uf_addKubernetes fl then u else
     change (is_set fl ''k8s-version'') (sp_Kubernetes_update (with_k8s_version (uf_k8sVersion fl)))
    (change (is_set fl ''k8s-installer'') (sp_Kubernetes_update (k_KubernetesInstaller_update (\<lambda>_. uf_k8sInstaller fl)))
    (install (\<not> k_Install (sp_Kubernetes (up_spec u))) (sp_Kubernetes_update (k_Install_update (\<lambda>_. True))) u)))"

definition apply_components :: "update_flags \<Rightarrow> pending \<Rightarrow> pending" where
  "apply_components fl u = apply_kubernetes fl (apply_toolkit fl (apply_runtime fl (apply_driver fl u)))"

section \<open>Labels and tags\<close>

text \<open>\<open>strings.SplitN(label, "=", 2)\<close> when it has two parts.\<close>

definition split_label :: "string \<Rightarrow> (string \<times> string) option" where
  "split_label l = (case dropWhile (\<lambda>c. c \<noteq> CHR ''='') l of
       [] \<Rightarrow> None | _ # v \<Rightarrow> Some (takeWhile (\<lambda>c. c \<noteq> CHR ''='') l, v))"

fun apply_labels :: "string list \<Rightarrow> pending \<Rightarrow> error + pending" where
  "apply_labels [] u = Inr u"
| "apply_labels (l # ls) u = (case split_label l of
       None \<Rightarrow> Inl (''invalid label format: '' @ l @ '' (expected key=value)'')
     | Some (k, v) \<Rightarrow> apply_labels ls (u\<lparr>up_env := set_label k v (up_env u), up_configChanged := True\<rparr>))"

definition label_tags :: "string list \<Rightarrow> string gomap" where
  "label_tags ls = fold (\<lambda>(k, v). AList.update k v) (List.map_filter split_label ls) []"

definition tagged_instance :: "Environment \<Rightarrow> string" where
  "tagged_instance env = (case find (\<lambda>p. pr_Name p = ''InstanceId'') (st_Properties (env_Status env)) of
     None \<Rightarrow> '''' | Some p \<Rightarrow> pr_Value p)"

definition updateAWSTags :: "('s, 'f) instance_env \<Rightarrow> Environment \<Rightarrow> string list \<Rightarrow> ('s, unit) io" where
  "updateAWSTags x env labels =
     andthen (aws_New x env '''') (\<lambda>client.
     if tagged_instance env = '''' then fail ''instance ID not found in status''
     else on_provider env (UpdateResourcesTags client (label_tags labels) [tagged_instance env]))"

definition update_labels :: "('s, 'f) instance_env \<Rightarrow> update_flags \<Rightarrow> pending \<Rightarrow> ('s, pending) io" where
  "update_labels x fl u =
     (if uf_labels fl = [] then ret u
      else andthen (lift_result (apply_labels (uf_labels fl) u)) (\<lambda>u.
        andthen (if sp_Provider (up_spec u) = ProviderAWS then attempt (updateAWSTags x (up_env u) (uf_labels fl)) else ret (Inr ()))
          (\<lambda>_. ret u)))"

section \<open>Provisioning again\<close>

text \<open>The nodes as the status has them; neither their instance nor a transport is set.\<close>

definition update_node :: "NodeStatus \<Rightarrow> NodeInfo" where
  "update_node n = \<lparr>np_Name = ns_Name n, np_PublicIP = ns_PublicIP n, np_PrivateIP = ns_PrivateIP n, np_Role = ns_Role n,
     np_SSHUsername = ns_SSHUsername n, np_InstanceID = '''', np_Transport = None\<rparr>"

definition cached_nodes :: "Environment \<Rightarrow> NodeStatus list" where
  "cached_nodes env = (case st_Cluster (env_Status env) of None \<Rightarrow> [] | Some c \<Rightarrow> cs_Nodes c)"

definition update_cluster :: "('s, 'f, 'n, 'c, 'v) cli_env \<Rightarrow> Environment \<Rightarrow> (('s, 'c) heap, Environment) io" where
  "update_cluster x env = (let nodes = map update_node (cached_nodes env); au = sp_Auth (env_Spec env) in
     if nodes = [] then fail ''no nodes found in cluster status''
     else andthen (on_cluster (ProvisionCluster (cl_prov x) (cl_order1 x) (cl_order2 x) nodes)
         (NewClusterProvisioner (au_PrivateKey au) (au_Username au) env)) (\<lambda>(r, cp).
       andthen (lift_result r) (\<lambda>_. ret (kp_Environment cp))))"

definition update_single :: "('s, 'f, 'n, 'c, 'v) cli_env \<Rightarrow> Environment \<Rightarrow> (('s, 'c) heap, Environment) io" where
  "update_single x env = (let au = sp_Auth (env_Spec env) in
     andthen (wrap ''failed to determine host URL'' (lift_result (GetHostURL env '''' False))) (\<lambda>hostUrl.
     andthen (wrap ''failed to create provisioner''
       (Provisioner_New (cl_prov x) (au_PrivateKey au) (au_Username au) hostUrl [WithSSHConfig (au_SSHConfig au)])) (\<lambda>p.
     deferring (close_client (cl_prov x) p) (
     andthen (on_node (Provisioner_Run (cl_prov x) env) p) (\<lambda>(r, p').
     andthen (lift_result r) (\<lambda>built. ret (env\<lparr>env_Status := (env_Status env)\<lparr>st_Components := built\<rparr>\<rparr>)))))))"

definition update_provision :: "('s, 'f, 'n, 'c, 'v) cli_env \<Rightarrow> Environment \<Rightarrow> (('s, 'c) heap, Environment) io" where
  "update_provision x env =
     (if sp_Cluster (env_Spec env) \<noteq> None \<and> cached_nodes env \<noteq> [] then update_cluster x env else update_single x env)"

section \<open>The command\<close>

definition write_env :: "('s, 'f, 'n, 'c, 'v) cli_env \<Rightarrow> string \<Rightarrow> Environment \<Rightarrow> ('s, unit) io" where
  "write_env x cacheFile env =
     andthen (wrap ''failed to marshal environment'' (lift_result (pl_Marshal (cl_platform x) env))) (\<lambda>data.
     wrap ''failed to update cache file'' (pl_WriteFile (cl_platform x) cacheFile data mode_0600))"

definition save_update :: "('s, 'f, 'n, 'c, 'v) cli_env \<Rightarrow> string \<Rightarrow> pending \<Rightarrow> (('s, 'c) heap, unit) io" where
  "save_update x cacheFile u =
     (if up_needsProvision u then
        andthen (on_fst (write_env x cacheFile (up_env u))) (\<lambda>_.
        andthen (wrap ''provisioning failed'' (update_provision x (up_env u))) (\<lambda>env.
        on_fst (write_env x cacheFile (set_label InstanceProvisionedLabelKey ''true'' env))))
      else if up_configChanged u then on_fst (write_env x cacheFile (up_env u))
      else ret ())"

definition pending_of :: "update_flags \<Rightarrow> Environment \<Rightarrow> pending" where
  "pending_of fl env = apply_components fl \<lparr>up_env = env, up_needsProvision = uf_reprovision fl, up_configChanged = False\<rparr>"

definition run_update :: "('s, 'f, 'n, 'c, 'v) cli_env \<Rightarrow> update_flags \<Rightarrow> string list \<Rightarrow> (('s, 'c) heap, unit) io" where
  "run_update x fl args = (case args of
       [instanceID] \<Rightarrow>
         andthen (wrap ''failed to get instance'' (on_fst (GetInstance (cl_instances x)
           (NewManager (cl_instances x) (uf_cachePath fl)) instanceID))) (\<lambda>i.
         andthen (wrap ''failed to read environment'' (on_fst (UnmarshalFromFile (cl_platform x) (mi_CacheFile i)))) (\<lambda>env.
         andthen (on_fst (update_labels (cl_instances x) fl (pending_of fl env))) (\<lambda>u.
         save_update x (mi_CacheFile i) u)))
     | _ \<Rightarrow> fail ''instance ID is required'')"

end
