(* ===== verification/Update_Props.thy ===== *)
theory Update_Props
  imports Update_Command Create_Command_Props
begin

text \<open>
  What an update does to an instance: it can be repeated, it keeps what the instance is known by, and the
  labels it is given do not reach the resources.
\<close>

section \<open>Repeating an update\<close>

lemma change_simps [simp]:
  "up_env (change b f u) = (if b then (up_env u)\<lparr>env_Spec := f (up_spec u)\<rparr> else up_env u)"
  "up_needsProvision (change b f u) = up_needsProvision u"
  "up_configChanged (change b f u) = (b \<or> up_configChanged u)"
  by (simp_all add: change_def)

lemma install_simps [simp]:
  "up_env (install b f u) = (if b then (up_env u)\<lparr>env_Spec := f (up_spec u)\<rparr> else up_env u)"
  "up_needsProvision (install b f u) = (b \<or> up_needsProvision u)"
  "up_configChanged (install b f u) = (b \<or> up_configChanged u)"
  by (simp_all add: install_def)

text \<open>What the flags of one component make of the specification, and when they ask for a provisioning.\<close>

definition driver_spec :: "update_flags \<Rightarrow> NVIDIADriver \<Rightarrow> NVIDIADriver" where
  "driver_spec fl d = (if \<not> uf_addDriver fl then d else d\<lparr>nd_Install := True,
     nd_Version := or_default (uf_driverVersion fl) (nd_Version d), nd_Branch := or_default (uf_driverBranch fl) (nd_Branch d)\<rparr>)"

definition runtime_spec :: "update_flags \<Rightarrow> ContainerRuntime \<Rightarrow> ContainerRuntime" where
  "runtime_spec fl r = (if \<not> uf_addRuntime fl then r else r\<lparr>cr_Install := True,
     cr_Name := (if is_set fl ''runtime-name'' then uf_runtimeName fl else cr_Name r),
     cr_Version := (if is_set fl ''runtime-version'' then uf_runtimeVer fl else cr_Version r)\<rparr>)"

definition toolkit_spec :: "update_flags \<Rightarrow> NVIDIAContainerToolkit \<Rightarrow> NVIDIAContainerToolkit" where
  "toolkit_spec fl t = (if \<not> uf_addToolkit fl then t else t\<lparr>ct_Install := True,
     ct_Version := or_default (uf_toolkitVer fl) (ct_Version t), ct_EnableCDI := (uf_enableCDI fl \<or> ct_EnableCDI t)\<rparr>)"

definition kubernetes_spec :: "update_flags \<Rightarrow> Kubernetes \<Rightarrow> Kubernetes" where
  "kubernetes_spec fl k = (if \<not> uf_addKubernetes fl then k else
     (if is_set fl ''k8s-version'' then with_k8s_version (uf_k8sVersion fl) else id)
       (k\<lparr>k_Install := True, k_KubernetesInstaller := (if is_set fl ''k8s-installer'' then uf_k8sInstaller fl else k_KubernetesInstaller k)\<rparr>))"

lemmas spec_equality = Environment.equality EnvironmentSpec.equality NVIDIADriver.equality ContainerRuntime.equality
  NVIDIAContainerToolkit.equality Kubernetes.equality

lemma apply_driver_env: "up_env (apply_driver fl u) = (up_env u)\<lparr>env_Spec := sp_NVIDIADriver_update (driver_spec fl) (up_spec u)\<rparr>"
  by (auto simp: apply_driver_def driver_spec_def or_default_def intro!: spec_equality)

lemma apply_runtime_env: "up_env (apply_runtime fl u) = (up_env u)\<lparr>env_Spec := sp_ContainerRuntime_update (runtime_spec fl) (up_spec u)\<rparr>"
  by (auto simp: apply_runtime_def runtime_spec_def intro!: spec_equality)

lemma apply_toolkit_env: "up_env (apply_toolkit fl u) = (up_env u)\<lparr>env_Spec := sp_NVIDIAContainerToolkit_update (toolkit_spec fl) (up_spec u)\<rparr>"
  by (auto simp: apply_toolkit_def toolkit_spec_def or_default_def intro!: spec_equality)

lemma apply_kubernetes_env: "up_env (apply_kubernetes fl u) = (up_env u)\<lparr>env_Spec := sp_Kubernetes_update (kubernetes_spec fl) (up_spec u)\<rparr>"
  by (auto simp: apply_kubernetes_def kubernetes_spec_def with_k8s_version_def intro!: spec_equality)

definition updated_spec :: "update_flags \<Rightarrow> EnvironmentSpec \<Rightarrow> EnvironmentSpec" where
  "updated_spec fl = sp_Kubernetes_update (kubernetes_spec fl) \<circ> sp_NVIDIAContainerToolkit_update (toolkit_spec fl)
     \<circ> sp_ContainerRuntime_update (runtime_spec fl) \<circ> sp_NVIDIADriver_update (driver_spec fl)"

lemma pending_env: "up_env (pending_of fl env) = env\<lparr>env_Spec := updated_spec fl (env_Spec env)\<rparr>"
  by (simp add: pending_of_def apply_components_def apply_driver_env apply_runtime_env apply_toolkit_env
      apply_kubernetes_env updated_spec_def)

lemma pending_needs: "up_needsProvision (pending_of fl env) \<longleftrightarrow> (let sp = env_Spec env in uf_reprovision fl
    \<or> uf_addDriver fl \<and> \<not> nd_Install (sp_NVIDIADriver sp) \<or> uf_addRuntime fl \<and> \<not> cr_Install (sp_ContainerRuntime sp)
    \<or> uf_addToolkit fl \<and> (uf_enableCDI fl \<or> \<not> ct_Install (sp_NVIDIAContainerToolkit sp))
    \<or> uf_addKubernetes fl \<and> \<not> k_Install (sp_Kubernetes sp))"
  unfolding pending_of_def apply_components_def
  by (auto simp: apply_driver_def apply_runtime_def apply_toolkit_def apply_kubernetes_def Let_def)

lemma component_spec_idem [simp]:
  "driver_spec fl (driver_spec fl d) = driver_spec fl d"
  "runtime_spec fl (runtime_spec fl r) = runtime_spec fl r"
  "toolkit_spec fl (toolkit_spec fl t) = toolkit_spec fl t"
  "kubernetes_spec fl (kubernetes_spec fl k) = kubernetes_spec fl k"
  by (simp_all add: driver_spec_def runtime_spec_def toolkit_spec_def kubernetes_spec_def with_k8s_version_def or_default_def)

lemma component_spec_install [simp]:
  "uf_addDriver fl \<Longrightarrow> nd_Install (driver_spec fl d)" "uf_addRuntime fl \<Longrightarrow> cr_Install (runtime_spec fl r)"
  "uf_addToolkit fl \<Longrightarrow> ct_Install (toolkit_spec fl t)" "uf_addKubernetes fl \<Longrightarrow> k_Install (kubernetes_spec fl k)"
  by (simp_all add: driver_spec_def runtime_spec_def toolkit_spec_def kubernetes_spec_def with_k8s_version_def)

text \<open>
  Applying the flags of an update a second time changes nothing in the environment, and it asks for
  no provisioning, unless the flags say so each time: \<open>--reprovision\<close>, or \<open>--add-toolkit\<close> with \<open>--enable-cdi\<close>.
\<close>

theorem update_is_idempotent:
  "up_env (pending_of fl (up_env (pending_of fl env))) = up_env (pending_of fl env)
   \<and> up_needsProvision (pending_of fl (up_env (pending_of fl env)))
       = (uf_reprovision fl \<or> uf_addToolkit fl \<and> uf_enableCDI fl)"
proof
  show "up_env (pending_of fl (up_env (pending_of fl env))) = up_env (pending_of fl env)"
    by (simp add: pending_env updated_spec_def)
  show "up_needsProvision (pending_of fl (up_env (pending_of fl env))) = (uf_reprovision fl \<or> uf_addToolkit fl \<and> uf_enableCDI fl)"
    by (auto simp: pending_needs pending_env updated_spec_def Let_def)
qed

section \<open>Labels and tags\<close>

lemma tagged_cached: "st_Properties (env_Status env) = cache_properties a \<Longrightarrow> tagged_instance env = ''''"
  by (simp add: tagged_instance_def cache_properties_def)

text \<open>
  The labels of an update never become tags of the AWS resources. The code looks for a property
  named \<open>InstanceId\<close>, and the provider writes \<open>instance-id\<close>: for every environment with the properties of
  the provider the tagging fails after the clients were made, and it makes no request.
\<close>

theorem update_labels_tag_nothing:
  assumes "st_Properties (env_Status env) = cache_properties a"
  shows "isl (fst (updateAWSTags x env labels s))
    \<and> snd (updateAWSTags x env labels s) = snd (ie_LoadConfig x (provider_region (pl_Getenv (ie_platform x)) env) s)"
  by (simp add: updateAWSTags_def aws_New_def tagged_cached [OF assms] andthen_def fail_def ret_def split: prod.split sum.split)

theorem update_labels_tag_nothing_witness:
  "isl (fst (updateAWSTags fake_instances
     (zero_Environment\<lparr>env_Status := zero_EnvironmentStatus\<lparr>st_Properties := cache_properties (zero_AWS\<lparr>aw_Instanceid := ''i-1''\<rparr>)\<rparr>\<rparr>)
     [''team=gpu''] fake_start))"
  using update_labels_tag_nothing [where x = fake_instances and a = "zero_AWS\<lparr>aw_Instanceid := ''i-1''\<rparr>"] by simp

section \<open>What an update writes\<close>

definition written :: "('s, 'f, 'n, 'c, 'v) cli_env \<Rightarrow> string \<Rightarrow> Environment \<Rightarrow> 's \<Rightarrow> bool" where
  "written x path env s' \<longleftrightarrow> (\<exists>data s. pl_Marshal (cl_platform x) env = Inr data
     \<and> pl_WriteFile (cl_platform x) path data mode_0600 s = (Inr (), s'))"

text \<open>The name and all of the status but the components.\<close>

definition same_instance :: "Environment \<Rightarrow> Environment \<Rightarrow> bool" where
  "same_instance e e' \<longleftrightarrow> env_Name e' = env_Name e \<and> st_Properties (env_Status e') = st_Properties (env_Status e)
     \<and> st_Conditions (env_Status e') = st_Conditions (env_Status e) \<and> st_Cluster (env_Status e') = st_Cluster (env_Status e)"

lemma same_instance_simps [simp]: "same_instance e (set_label k v e') = same_instance e e'"
  "same_instance e (e'\<lparr>env_Spec := sp\<rparr>) = same_instance e e'" "same_instance e e"
  "same_instance e (e'\<lparr>env_Status := (env_Status e')\<lparr>st_Components := c\<rparr>\<rparr>) = same_instance e e'"
  by (simp_all add: same_instance_def)

lemma write_env_written: "write_env x path env s = (Inr (), s') \<Longrightarrow> written x path env s'"
  by (auto simp: write_env_def andthen_Inr lift_result_def written_def)

lemma apply_labels_same:
  "apply_labels ls u = Inr u' \<Longrightarrow> same_instance (up_env u) (up_env u') \<and> up_needsProvision u' = up_needsProvision u"
  by (induction ls u rule: apply_labels.induct) (auto simp: same_instance_def split: option.splits prod.splits)

lemma update_labels_result:
  assumes "update_labels x fl u s = (Inr u', s')"
  shows "apply_labels (uf_labels fl) u = Inr u'"
  using assms by (auto simp: update_labels_def andthen_Inr lift_result_def split: if_splits)

lemma update_provision_same:
  assumes "update_provision x env h = (Inr env', h')"
  shows "same_instance env env'"
proof (cases "sp_Cluster (env_Spec env) \<noteq> None \<and> cached_nodes env \<noteq> []")
  case True
  let ?cp = "NewClusterProvisioner (au_PrivateKey (sp_Auth (env_Spec env))) (au_Username (sp_Auth (env_Spec env))) env"
  from True assms obtain r cp h1 where run: "ProvisionCluster (cl_prov x) (cl_order1 x) (cl_order2 x) (map update_node (cached_nodes env)) (h, ?cp) = (r, (h1, cp))"
    and env': "env' = kp_Environment cp"
    by (auto simp: update_provision_def update_cluster_def Let_def andthen_Inr on_cluster_Inr lift_result_def split: if_splits)
  show ?thesis
    using presD [OF outer_ProvisionCluster run] env' by (simp add: keeps_def Let_def NewClusterProvisioner_def same_instance_def)
next
  case False
  then show ?thesis
    using assms by (auto simp: update_provision_def update_single_def Let_def andthen_Inr deferring_Inr lift_result_def split: if_splits)
qed

lemma GetInstance_file: "GetInstance x m i s = (Inr j, s') \<Longrightarrow> GetInstanceCacheFile m i = Inr (mi_CacheFile j)"
  by (auto simp: GetInstance_def load_instance_def andthen_Inr lift_result_def instance_of_def)

lemma save_update_written:
  assumes "save_update x path u h = (Inr (), h')" and "up_needsProvision u \<or> up_configChanged u"
  shows "\<exists>cfg. written x path cfg (fst h') \<and> same_instance (up_env u) cfg \<and> (up_needsProvision u \<longrightarrow> provisioned cfg)"
proof (cases "up_needsProvision u")
  case True
  with assms(1) obtain h1 env h2 where "update_provision x (up_env u) h1 = (Inr env, h2)"
    and "write_env x path (set_label InstanceProvisionedLabelKey ''true'' env) (fst h2) = (Inr (), fst h')"
    by (auto simp: save_update_def andthen_Inr on_fst_Inr)
  then show ?thesis
    by (intro exI [of _ "set_label InstanceProvisionedLabelKey ''true'' env"])
      (auto dest: update_provision_same write_env_written)
next
  case False
  with assms show ?thesis
    by (intro exI [of _ "up_env u"]) (auto simp: save_update_def on_fst_Inr dest: write_env_written)
qed

text \<open>
  C37: an update that succeeds takes one instance. When it changes the configuration or provisions, the
  last thing it does is to write the cache file of that instance, with an environment that has the
  name, the resources, the conditions and the nodes of the one it had read, and after a provisioning
  is marked as provisioned: whatever it changes, the instance can still be found and deleted.
\<close>

theorem update_keeps_instance:
  assumes "run_update x fl args h = (Inr (), h')"
  shows "\<exists>i path j env s s' u. args = [i]
    \<and> GetInstanceCacheFile (NewManager (cl_instances x) (uf_cachePath fl)) i = Inr path
    \<and> GetInstance (cl_instances x) (NewManager (cl_instances x) (uf_cachePath fl)) i (fst h) = (Inr j, s)
    \<and> UnmarshalFromFile (cl_platform x) path s = (Inr env, s') \<and> apply_labels (uf_labels fl) (pending_of fl env) = Inr u
    \<and> (up_needsProvision u \<or> up_configChanged u \<longrightarrow>
        (\<exists>cfg. written x path cfg (fst h') \<and> same_instance env cfg \<and> (up_needsProvision u \<longrightarrow> provisioned cfg)))"
proof -
  from assms obtain i where args: "args = [i]"
    by (auto simp: run_update_def split: list.splits)
  with assms obtain j env u s2 s3 s4 where get: "GetInstance (cl_instances x) (NewManager (cl_instances x) (uf_cachePath fl)) i (fst h) = (Inr j, s2)"
    and env: "UnmarshalFromFile (cl_platform x) (mi_CacheFile j) s2 = (Inr env, s3)"
    and u: "update_labels (cl_instances x) fl (pending_of fl env) s3 = (Inr u, s4)"
    and save: "save_update x (mi_CacheFile j) u (s4, snd h) = (Inr (), h')"
    by (auto simp: run_update_def andthen_Inr on_fst_Inr)
  note labels = update_labels_result [OF u]
  have "same_instance env (up_env u)"
    using apply_labels_same [OF labels] by (simp add: pending_env same_instance_def)
  then have "up_needsProvision u \<or> up_configChanged u \<longrightarrow>
      (\<exists>cfg. written x (mi_CacheFile j) cfg (fst h') \<and> same_instance env cfg \<and> (up_needsProvision u \<longrightarrow> provisioned cfg))"
    using save save_update_written by (fastforce simp: same_instance_def)
  then show ?thesis using args GetInstance_file [OF get] get env labels by blast
qed

definition updated_world :: fake_world where
  "updated_world = sample_world\<lparr>fw_files := [(''/cache/00c0ffee.yaml'', zero_Environment\<lparr>env_Name := ''box'',
     env_Spec := (env_Spec docker_env)\<lparr>sp_Provider := ProviderSSH, sp_NVIDIADriver := zero_NVIDIADriver,
       sp_Auth := zero_Auth\<lparr>au_PrivateKey := ''/key''\<rparr>\<rparr>\<rparr>)]\<rparr>"

definition driver_flags :: update_flags where
  "driver_flags = no_update_flags\<lparr>uf_cachePath := ''/cache'', uf_addDriver := True, uf_driverVersion := ''560.35.03''\<rparr>"

theorem update_keeps_instance_witness:
  "\<exists>cfg s'. written sample_cli ''/cache/00c0ffee.yaml'' cfg s' \<and> env_Name cfg = ''box'' \<and> provisioned cfg"
proof -
  let ?h = "(updated_world, []) :: (fake_world, nat) heap"
  let ?run = "run_update sample_cli driver_flags [''00c0ffee''] ?h"
  have "fst ?run = Inr ()" by code_simp
  then have run: "?run = (Inr (), snd ?run)" by (simp add: prod_eq_iff)
  have path: "GetInstanceCacheFile (NewManager (cl_instances sample_cli) (uf_cachePath driver_flags)) ''00c0ffee'' = Inr ''/cache/00c0ffee.yaml''"
    by code_simp
  have env: "case GetInstance (cl_instances sample_cli) (NewManager (cl_instances sample_cli) (uf_cachePath driver_flags)) ''00c0ffee'' updated_world of
      (Inl _, _) \<Rightarrow> False
    | (Inr _, s) \<Rightarrow> (case UnmarshalFromFile (cl_platform sample_cli) ''/cache/00c0ffee.yaml'' s of
        (Inl _, _) \<Rightarrow> False | (Inr e, _) \<Rightarrow> env_Name e = ''box'' \<and> up_needsProvision (pending_of driver_flags e))"
    by code_simp
  have "uf_labels driver_flags = []" by (simp add: driver_flags_def no_update_flags_def)
  with update_keeps_instance [OF run] path env show ?thesis
    by (fastforce simp: same_instance_def)
qed

end
