(* ===== verification/Remote_Commands.thy ===== *)
theory Remote_Commands
  imports Update_Command
begin

text \<open>
  The commands that reach into an instance: \<open>cmd/cli/ssh/ssh.go\<close>, \<open>cmd/cli/scp/scp.go\<close> and
  \<open>cmd/cli/get/get.go\<close>.

  The SFTP client, local files and the \<open>ssh\<close> program are parameters. What \<open>get\<close> prints is its value.
  A walk over a directory is the list of what it visits, each a path with an error or whether it is a directory.
\<close>

section \<open>Parameters\<close>

record ('s, 'c) copy_env =
  lc_Stat :: "string \<Rightarrow> ('s, bool) io"
  lc_Open :: "string \<Rightarrow> ('s, unit) io"
  lc_MkdirAll :: "string \<Rightarrow> ('s, unit) io"
  lc_Create :: "string \<Rightarrow> ('s, unit) io"
  lc_Close :: "string \<Rightarrow> ('s, unit) io"
  lc_Walk :: "string \<Rightarrow> ('s, (string \<times> (error + bool)) list) io"
  lc_HomeDir :: "('s, string) io"
  sf_NewClient :: "'c \<Rightarrow> ('s, unit) io"
  sf_CloseClient :: "('s, unit) io"
  sf_Stat :: "string \<Rightarrow> ('s, bool) io"
  sf_Open :: "string \<Rightarrow> ('s, unit) io"
  sf_MkdirAll :: "string \<Rightarrow> ('s, unit) io"
  sf_Create :: "string \<Rightarrow> ('s, unit) io"
  sf_Close :: "string \<Rightarrow> ('s, unit) io"
  sf_Walk :: "string \<Rightarrow> ('s, (string \<times> (error + bool)) list) io"
  cp_Upload :: "string \<Rightarrow> string \<Rightarrow> ('s, nat) io"
  cp_Download :: "string \<Rightarrow> string \<Rightarrow> ('s, nat) io"
  sh_CacheDir :: string
  sh_Exec :: "string list \<Rightarrow> ('s, unit) io"

section \<open>Reaching an instance\<close>

definition load_environment :: "('s, 'f) instance_env \<Rightarrow> string \<Rightarrow> string \<Rightarrow> ('s, Managed_Instance \<times> Environment) io" where
  "load_environment x cachePath instanceID =
     andthen (wrap ''failed to get instance'' (GetInstance x (NewManager x cachePath) instanceID)) (\<lambda>i.
     andthen (wrap ''failed to read environment'' (UnmarshalFromFile (ie_platform x) (mi_CacheFile i))) (\<lambda>env.
     ret (i, env)))"

definition login_user :: "Environment \<Rightarrow> string" where
  "login_user env = or_default (au_Username (sp_Auth (env_Spec env))) ''ubuntu''"

text \<open>The environment and the host that \<open>ssh\<close> and \<open>scp\<close> connect to.\<close>

definition remote_host :: "('s, 'f) instance_env \<Rightarrow> string \<Rightarrow> string \<Rightarrow> string \<Rightarrow> ('s, Environment \<times> string) io" where
  "remote_host x cachePath node instanceID =
     andthen (load_environment x cachePath instanceID) (\<lambda>(i, env).
     andthen (wrap ''failed to get host URL'' (lift_result (GetHostURL env node True))) (\<lambda>hostUrl. ret (env, hostUrl)))"

section \<open>The ssh command\<close>

definition known_hosts_file :: "string \<Rightarrow> string" where
  "known_hosts_file cacheBase = Join cacheBase (Join ''holodeck'' ''known_hosts'')"

definition interactive_args :: "string \<Rightarrow> string \<Rightarrow> string \<Rightarrow> string \<Rightarrow> string list" where
  "interactive_args cacheBase keyPath userName hostUrl =
     [''-i'', keyPath, ''-o'', ''StrictHostKeyChecking=accept-new'', ''-o'', ''UserKnownHostsFile='' @ known_hosts_file cacheBase,
      ''-o'', ''LogLevel=ERROR'', userName @ ''@'' @ hostUrl]"

definition runCommand :: "('s, 'n, 'c) prov_env \<Rightarrow> 'c \<Rightarrow> string list \<Rightarrow> ('s, unit) io" where
  "runCommand pv client cmd =
     andthen (wrap ''failed to create session'' (px_NewSession pv client)) (\<lambda>i.
     deferring (px_CloseSession pv i) (px_Run pv i (sep_by '' '' cmd)))"

definition run_ssh :: "('s, 'f) instance_env \<Rightarrow> ('s, 'n, 'c) prov_env \<Rightarrow> ('s, 'c) copy_env \<Rightarrow> string \<Rightarrow> string \<Rightarrow> string list
    \<Rightarrow> ('s, unit) io" where
  "run_ssh x pv cp cachePath node args = (case args of
       [] \<Rightarrow> fail ''instance ID is required''
     | instanceID # remoteCmd \<Rightarrow>
         andthen (remote_host x cachePath node instanceID) (\<lambda>(env, hostUrl).
         let keyPath = au_PrivateKey (sp_Auth (env_Spec env)) in
         if remoteCmd = [] then sh_Exec cp (interactive_args (sh_CacheDir cp) keyPath (login_user env) hostUrl)
         else andthen (wrap ''failed to connect'' (ConnectSSH (px_net pv) keyPath (login_user env) hostUrl)) (\<lambda>client.
           deferring (nt_CloseClient (px_net pv) client) (runCommand pv client remoteCmd))))"

section \<open>Paths of the scp command\<close>

record pathSpec =
  pt_instanceID :: string
  pt_path :: string
  pt_isRemote :: bool

definition parsePath :: "string \<Rightarrow> pathSpec" where
  "parsePath path =
     (let before = takeWhile (\<lambda>c. c \<noteq> CHR '':'') path; loc = \<lparr>pt_instanceID = '''', pt_path = path, pt_isRemote = False\<rparr> in
      case dropWhile (\<lambda>c. c \<noteq> CHR '':'') path of
        [] \<Rightarrow> loc
      | _ # after \<Rightarrow>
          if before = '''' then loc
          else if length before = 1 \<and> 2 < length path \<and> path ! 2 = CHR 0x5C then loc
          else \<lparr>pt_instanceID = before, pt_path = after, pt_isRemote = True\<rparr>)"

text \<open>\<open>filepath.Rel\<close>.\<close>

fun strip_common :: "string list \<Rightarrow> string list \<Rightarrow> string list \<times> string list" where
  "strip_common (x # xs) (y # ys) = (if x = y then strip_common xs ys else (x # xs, y # ys))"
| "strip_common xs ys = (xs, ys)"

definition Rel :: "string \<Rightarrow> string \<Rightarrow> error + string" where
  "Rel base target =
     (let err = Inl (''Rel: can't make '' @ target @ '' relative to '' @ base) in
      if Clean target = Clean base then Inr ''.''
      else if IsAbs base \<noteq> IsAbs target then err
      else (case strip_common (components base) (components target) of (xs, ys) \<Rightarrow>
        if xs \<noteq> [] \<and> hd xs = ''..'' then err
        else Inr (join_with (CHR ''/'') (replicate (length xs) ''..'' @ ys))))"

section \<open>Copying\<close>

definition copyFileToRemote :: "('s, 'c) copy_env \<Rightarrow> string \<Rightarrow> string \<Rightarrow> ('s, unit) io" where
  "copyFileToRemote cp localPath remotePath =
     andthen (wrap ''failed to open local file'' (lc_Open cp localPath)) (\<lambda>_.
     deferring (lc_Close cp localPath) (
     andthen (attempt (sf_MkdirAll cp (Dir remotePath))) (\<lambda>_.
     andthen (wrap ''failed to create remote file'' (sf_Create cp remotePath)) (\<lambda>_.
     deferring (sf_Close cp remotePath) (
     andthen (wrap ''failed to copy file'' (cp_Upload cp localPath remotePath)) (\<lambda>_. ret ()))))))"

definition upload_entry :: "('s, 'c) copy_env \<Rightarrow> string \<Rightarrow> string \<Rightarrow> string \<times> (error + bool) \<Rightarrow> ('s, unit) io" where
  "upload_entry cp localPath remotePath = (\<lambda>(walkPath, info). case info of
       Inl e \<Rightarrow> fail e
     | Inr isDir \<Rightarrow>
         andthen (lift_result (Rel localPath walkPath)) (\<lambda>relPath.
         if isDir then sf_MkdirAll cp (Join remotePath relPath)
         else copyFileToRemote cp walkPath (Join remotePath relPath)))"

definition copyDirToRemote :: "('s, 'c) copy_env \<Rightarrow> string \<Rightarrow> string \<Rightarrow> ('s, unit) io" where
  "copyDirToRemote cp localPath remotePath =
     andthen (lc_Walk cp localPath) (for_each (upload_entry cp localPath remotePath))"

definition copyToRemote :: "('s, 'c) copy_env \<Rightarrow> bool \<Rightarrow> string \<Rightarrow> string \<Rightarrow> ('s, unit) io" where
  "copyToRemote cp recursive localPath remotePath =
     andthen (wrap ''failed to stat local path'' (lc_Stat cp localPath)) (\<lambda>isDir.
     if isDir then
       if \<not> recursive then fail (localPath @ '' is a directory, use -r for recursive copy'')
       else copyDirToRemote cp localPath remotePath
     else copyFileToRemote cp localPath remotePath)"

definition copyFileFromRemote :: "('s, 'c) copy_env \<Rightarrow> string \<Rightarrow> string \<Rightarrow> ('s, unit) io" where
  "copyFileFromRemote cp remotePath localPath =
     andthen (wrap ''failed to open remote file'' (sf_Open cp remotePath)) (\<lambda>_.
     deferring (sf_Close cp remotePath) (
     andthen (wrap ''failed to create local directory'' (lc_MkdirAll cp (Dir localPath))) (\<lambda>_.
     andthen (wrap ''failed to create local file'' (lc_Create cp localPath)) (\<lambda>_.
     deferring (lc_Close cp localPath) (
     andthen (wrap ''failed to copy file'' (cp_Download cp remotePath localPath)) (\<lambda>_. ret ()))))))"

definition remote_relative :: "string \<Rightarrow> string \<Rightarrow> string" where
  "remote_relative remotePath path = TrimPrefix (TrimPrefix path remotePath) ''/''"

text \<open>An entry that cannot be read is passed over.\<close>

definition download_entry :: "('s, 'c) copy_env \<Rightarrow> string \<Rightarrow> string \<Rightarrow> string \<times> (error + bool) \<Rightarrow> ('s, unit) io" where
  "download_entry cp remotePath localPath = (\<lambda>(path, info). case info of
       Inl _ \<Rightarrow> ret ()
     | Inr isDir \<Rightarrow> let localTarget = Join localPath (remote_relative remotePath path) in
         if isDir then lc_MkdirAll cp localTarget else copyFileFromRemote cp path localTarget)"

definition copyDirFromRemote :: "('s, 'c) copy_env \<Rightarrow> string \<Rightarrow> string \<Rightarrow> ('s, unit) io" where
  "copyDirFromRemote cp remotePath localPath =
     andthen (sf_Walk cp remotePath) (for_each (download_entry cp remotePath localPath))"

definition copyFromRemote :: "('s, 'c) copy_env \<Rightarrow> bool \<Rightarrow> string \<Rightarrow> string \<Rightarrow> ('s, unit) io" where
  "copyFromRemote cp recursive remotePath localPath =
     andthen (wrap ''failed to stat remote path'' (sf_Stat cp remotePath)) (\<lambda>isDir.
     if isDir then
       if \<not> recursive then fail (remotePath @ '' is a directory, use -r for recursive copy'')
       else copyDirFromRemote cp remotePath localPath
     else copyFileFromRemote cp remotePath localPath)"

definition run_scp :: "('s, 'f) instance_env \<Rightarrow> ('s, 'n, 'c) prov_env \<Rightarrow> ('s, 'c) copy_env \<Rightarrow> string \<Rightarrow> string \<Rightarrow> bool
    \<Rightarrow> string list \<Rightarrow> ('s, unit) io" where
  "run_scp x pv cp cachePath node recursive args = (case args of
       [src, dst] \<Rightarrow> (let s = parsePath src; d = parsePath dst in
         if pt_isRemote s = pt_isRemote d then
           fail (if pt_isRemote s then ''cannot copy between two remote locations''
             else ''one of source or destination must be a remote path (instance-id:path)'')
         else
           andthen (remote_host x cachePath node (if pt_isRemote s then pt_instanceID s else pt_instanceID d)) (\<lambda>(env, hostUrl).
           andthen (wrap ''failed to connect'' (ConnectSSH (px_net pv) (au_PrivateKey (sp_Auth (env_Spec env))) (login_user env) hostUrl)) (\<lambda>c.
           deferring (nt_CloseClient (px_net pv) c) (
           andthen (wrap ''failed to create SFTP client'' (sf_NewClient cp c)) (\<lambda>_.
           deferring (sf_CloseClient cp) (
           if pt_isRemote s then copyFromRemote cp recursive (pt_path s) (pt_path d)
           else copyToRemote cp recursive (pt_path s) (pt_path d)))))))
     | _ \<Rightarrow> fail ''source and destination are required'')"

section \<open>The get command\<close>

definition kubeconfig_path :: "('s, 'c) copy_env \<Rightarrow> string \<Rightarrow> string \<Rightarrow> ('s, string) io" where
  "kubeconfig_path cp output instanceID =
     (if output \<noteq> '''' then ret output
      else andthen (wrap ''failed to get home directory'' (lc_HomeDir cp)) (\<lambda>homeDir.
        andthen (wrap ''failed to create .kube directory'' (lc_MkdirAll cp (Join homeDir ''.kube''))) (\<lambda>_.
        ret (Join (Join homeDir ''.kube'') (''config-'' @ instanceID)))))"

definition runKubeconfig :: "('s, 'f, 'n, 'c, 'v) cli_env \<Rightarrow> ('s, 'c) copy_env \<Rightarrow> string \<Rightarrow> string \<Rightarrow> string \<Rightarrow> string
    \<Rightarrow> (('s, 'c) heap, unit) io" where
  "runKubeconfig x cp cachePath node output instanceID =
     andthen (on_fst (load_environment (cl_instances x) cachePath instanceID)) (\<lambda>(i, env).
     if \<not> k_Install (sp_Kubernetes (env_Spec env)) then fail (''instance '' @ instanceID @ '' does not have Kubernetes installed'')
     else
       andthen (wrap ''failed to get host URL'' (lift_result (GetHostURL env node True))) (\<lambda>hostUrl.
       andthen (on_fst (kubeconfig_path cp output instanceID)) (\<lambda>path.
       andthen (wrap ''failed to download kubeconfig'' (GetKubeConfig (cl_prov x) (cl_files x) env hostUrl path)) (\<lambda>_.
       wrap ''applying kubeconfig remote-access settings'' (on_fst (ApplyRemoteAccess (cl_files x) env hostUrl path))))))"

definition line :: "string \<Rightarrow> string" where
  "line s = s @ [CHR 0x0A]"

definition ssh_config_entry :: "string \<Rightarrow> string \<Rightarrow> string \<Rightarrow> string \<Rightarrow> string" where
  "ssh_config_entry name hostName userName keyPath =
     line (''Host '' @ name) @ line (''    HostName '' @ hostName) @ line (''    User '' @ userName)
     @ line (''    IdentityFile '' @ keyPath) @ line ''    StrictHostKeyChecking no''
     @ line ''    UserKnownHostsFile /dev/null'' @ line ''''"

definition generateClusterSSHConfig :: "string \<Rightarrow> string \<Rightarrow> NodeStatus list \<Rightarrow> string \<Rightarrow> string \<Rightarrow> string" where
  "generateClusterSSHConfig node instanceID nodes userName keyPath =
     line (''# Holodeck cluster: '' @ instanceID)
     @ concat (map (\<lambda>n. ssh_config_entry (''holodeck-'' @ instanceID @ ''-'' @ ns_Name n) (ns_PublicIP n) userName keyPath)
         (filter (\<lambda>n. node = '''' \<or> ns_Name n = node) nodes))"

definition runSSHConfig :: "('s, 'f) instance_env \<Rightarrow> string \<Rightarrow> string \<Rightarrow> string \<Rightarrow> ('s, string) io" where
  "runSSHConfig x cachePath node instanceID =
     andthen (load_environment x cachePath instanceID) (\<lambda>(i, env).
     let keyPath = au_PrivateKey (sp_Auth (env_Spec env)) in
     if sp_Cluster (env_Spec env) \<noteq> None \<and> cached_nodes env \<noteq> []
     then ret (generateClusterSSHConfig node instanceID (cached_nodes env) (login_user env) keyPath)
     else andthen (wrap ''failed to get host URL'' (lift_result (GetHostURL env node False))) (\<lambda>hostUrl.
       ret (line (''# Holodeck instance: '' @ instanceID)
         @ ssh_config_entry (''holodeck-'' @ instanceID) hostUrl (login_user env) keyPath)))"

text \<open>Each subcommand takes one argument.\<close>

definition one_argument :: "(string \<Rightarrow> ('s, 'a) io) \<Rightarrow> string list \<Rightarrow> ('s, 'a) io" where
  "one_argument f args = (case args of [i] \<Rightarrow> f i | _ \<Rightarrow> fail ''instance ID is required'')"

end
