(* ===== verification/Report_Output.thy ===== *)
theory Report_Output
  imports Remote_Commands
begin

text \<open>
  Reports on instances: \<open>pkg/output/output.go\<close>, \<open>cmd/cli/list/list.go\<close> and \<open>cmd/cli/status/status.go\<close>.

  A report is what a command prints. The encoders of JSON and YAML, the alignment of columns
  (\<open>text/tabwriter\<close>, by its padding) and the rendering of times are parameters.
\<close>

section \<open>What is reported\<close>

record List_Cluster =
  lk_Region :: string
  lk_ControlPlaneCount :: int32
  lk_WorkerCount :: int32
  lk_TotalNodes :: int32
  lk_ReadyNodes :: int32
  lk_ControlPlaneEndpoint :: string
  lk_HAEnabled :: bool

record InstanceOutput =
  io_ID :: string
  io_Name :: string
  io_Provider :: string
  io_Type :: string
  io_Nodes :: string
  io_Status :: string
  io_Provisioned :: bool
  io_Age :: string
  io_CreatedAt :: nat
  io_Cluster :: "List_Cluster option"

record HAOutput =
  hao_Enabled :: bool
  hao_EtcdTopology :: string

record NodeStatusOutput =
  no_Name :: string
  no_Role :: string
  no_InstanceID :: string
  no_PublicIP :: string
  no_PrivateIP :: string
  no_Phase :: string

record ClusterStatusOutput =
  so_Region :: string
  so_ControlPlaneCount :: int32
  so_ControlPlaneType :: string
  so_ControlPlaneMode :: string
  so_WorkerCount :: int32
  so_WorkerType :: string
  so_HighAvailability :: "HAOutput option"
  so_Phase :: string
  so_TotalNodes :: int32
  so_ReadyNodes :: int32
  so_ControlPlaneEndpoint :: string
  so_LoadBalancerDNS :: string
  so_Nodes :: "NodeStatusOutput list"

record LiveNodeStatusOutput =
  ln_Name :: string
  ln_Role :: string
  ln_Ready :: bool
  ln_Status :: string
  ln_Version :: string

record LiveHealthOutput =
  lh_Healthy :: bool
  lh_APIServerStatus :: string
  lh_TotalNodes :: nat
  lh_ReadyNodes :: nat
  lh_ControlPlanes :: nat
  lh_Workers :: nat
  lh_Message :: string
  lh_Nodes :: "LiveNodeStatusOutput list"

record StatusOutput =
  to_InstanceID :: string
  to_Name :: string
  to_Provider :: string
  to_Status :: string
  to_CreatedAt :: nat
  to_Age :: string
  to_CacheFile :: string
  to_Cluster :: "ClusterStatusOutput option"
  to_LiveHealth :: "LiveHealthOutput option"

record 'd printers =
  pf_JSON :: "'d \<Rightarrow> error + string"
  pf_YAML :: "'d \<Rightarrow> error + string"
  pf_Tab :: "nat \<Rightarrow> string \<Rightarrow> string"
  pf_Time :: "nat \<Rightarrow> string"
  pf_Age :: "nat \<Rightarrow> nat \<Rightarrow> string"

section \<open>Formats\<close>

datatype format = FormatTable | FormatJSON | FormatYAML

definition ValidFormats :: "string list" where
  "ValidFormats = [''table'', ''json'', ''yaml'']"

definition IsValidFormat :: "string \<Rightarrow> bool" where
  "IsValidFormat f \<longleftrightarrow> f = ''table'' \<or> f = ''json'' \<or> f = ''yaml''"

definition NewFormatter :: "string \<Rightarrow> error + format" where
  "NewFormatter f0 = (let f = or_default f0 ''table'' in
     if \<not> IsValidFormat f then Inl (''invalid output format '' @ quoted f @ '', must be one of: '' @ show_list ValidFormats)
     else Inr (if f = ''table'' then FormatTable else if f = ''json'' then FormatJSON else FormatYAML))"

text \<open>The commands replace the error of \<open>NewFormatter\<close> by one of their own.\<close>

definition formatter_of :: "string \<Rightarrow> ('s, format) io" where
  "formatter_of f = catch (lift_result (NewFormatter f))
     (\<lambda>_. fail (''invalid output format '' @ quoted f @ '', must be one of: '' @ sep_by '', '' ValidFormats))"

text \<open>A table is its header and its rows, the cells separated by tabs.\<close>

definition tabbed :: "string list \<Rightarrow> string" where
  "tabbed cells = line (sep_by [CHR 0x09] cells)"

definition PrintTable :: "'d printers \<Rightarrow> string list \<Rightarrow> string list list \<Rightarrow> string" where
  "PrintTable pf headers rows = pf_Tab pf 3 (concat (map tabbed (headers # rows)))"

text \<open>Data without a table is printed as JSON where a table is asked for.\<close>

definition Print :: "'d printers \<Rightarrow> ('d \<Rightarrow> (string list \<times> string list list) option) \<Rightarrow> format \<Rightarrow> 'd \<Rightarrow> error + string" where
  "Print pf table f d = (case f of
       FormatJSON \<Rightarrow> pf_JSON pf d
     | FormatYAML \<Rightarrow> pf_YAML pf d
     | FormatTable \<Rightarrow> (case table d of None \<Rightarrow> pf_JSON pf d | Some (headers, rows) \<Rightarrow> Inr (PrintTable pf headers rows)))"

section \<open>The list command\<close>

definition show_bool :: "bool \<Rightarrow> string" where
  "show_bool b = (if b then ''true'' else ''false'')"

definition show_int32 :: "int32 \<Rightarrow> string" where
  "show_int32 w = decimal_int (sint w)"

definition Headers :: "string list" where
  "Headers = [''INSTANCE ID'', ''NAME'', ''PROVIDER'', ''TYPE'', ''NODES'', ''STATUS'', ''PROVISIONED'', ''AGE'']"

definition Rows :: "InstanceOutput list \<Rightarrow> string list list" where
  "Rows is = map (\<lambda>i. [io_ID i, io_Name i, io_Provider i, io_Type i, io_Nodes i, io_Status i,
     show_bool (io_Provisioned i), io_Age i]) is"

definition list_cluster :: "Managed_Instance \<Rightarrow> ClusterInfo option" where
  "list_cluster i = (if mi_IsCluster i then mi_ClusterInfo i else None)"

definition instance_output :: "string \<Rightarrow> Managed_Instance \<Rightarrow> InstanceOutput" where
  "instance_output age i =
     \<lparr>io_ID = mi_ID i, io_Name = mi_Name i, io_Provider = mi_Provider i,
      io_Type = (case list_cluster i of None \<Rightarrow> ''single'' | Some c \<Rightarrow> if ci_HAEnabled c then ''cluster-ha'' else ''cluster''),
      io_Nodes = (case list_cluster i of None \<Rightarrow> ''1''
        | Some c \<Rightarrow> show_int32 (ci_ReadyNodes c) @ ''/'' @ show_int32 (ci_TotalNodes c)),
      io_Status = mi_Status i, io_Provisioned = mi_Provisioned i, io_Age = age, io_CreatedAt = mi_CreatedAt i,
      io_Cluster = map_option (\<lambda>c. \<lparr>lk_Region = ci_Region c, lk_ControlPlaneCount = ci_ControlPlaneCount c,
        lk_WorkerCount = ci_WorkerCount c, lk_TotalNodes = ci_TotalNodes c, lk_ReadyNodes = ci_ReadyNodes c,
        lk_ControlPlaneEndpoint = ci_ControlPlaneEndpoint c, lk_HAEnabled = ci_HAEnabled c\<rparr>) (list_cluster i)\<rparr>"

definition run_list :: "('s, 'f) instance_env \<Rightarrow> InstanceOutput list printers \<Rightarrow> string \<Rightarrow> bool \<Rightarrow> string \<Rightarrow> ('s, string) io" where
  "run_list x pf cachePath idsOnly outputFormat =
     andthen (wrap ''failed to list instances'' (ListInstances x (NewManager x cachePath))) (\<lambda>found.
     let listed = filter (\<lambda>i. mi_ID i \<noteq> '''') found in
     if found = [] then ret ''''
     else if idsOnly then ret (concat (map (\<lambda>i. line (mi_ID i)) listed))
     else
       andthen (gets (pl_Now (ie_platform x))) (\<lambda>now.
       andthen (formatter_of outputFormat) (\<lambda>f.
       lift_result (Print pf (\<lambda>is. Some (Headers, Rows is)) f
         (map (\<lambda>i. instance_output (pf_Age pf now (mi_CreatedAt i)) i) listed)))))"

section \<open>The status command\<close>

definition cluster_status_output :: "ClusterSpec \<Rightarrow> ClusterStatus option \<Rightarrow> ClusterStatusOutput" where
  "cluster_status_output c s =
     \<lparr>so_Region = cl_Region c, so_ControlPlaneCount = cp_Count (cl_ControlPlane c),
      so_ControlPlaneType = cp_InstanceType (cl_ControlPlane c),
      so_ControlPlaneMode = (if cp_Dedicated (cl_ControlPlane c) then ''Dedicated (NoSchedule)'' else ''Shared (workloads allowed)''),
      so_WorkerCount = (case cl_Workers c of None \<Rightarrow> 0 | Some w \<Rightarrow> wp_Count w),
      so_WorkerType = (case cl_Workers c of None \<Rightarrow> '''' | Some w \<Rightarrow> wp_InstanceType w),
      so_HighAvailability = (case cl_HighAvailability c of None \<Rightarrow> None
        | Some h \<Rightarrow> if ha_Enabled h then Some \<lparr>hao_Enabled = True, hao_EtcdTopology = ha_EtcdTopology h\<rparr> else None),
      so_Phase = (case s of None \<Rightarrow> '''' | Some t \<Rightarrow> cs_Phase t),
      so_TotalNodes = (case s of None \<Rightarrow> 0 | Some t \<Rightarrow> cs_TotalNodes t),
      so_ReadyNodes = (case s of None \<Rightarrow> 0 | Some t \<Rightarrow> cs_ReadyNodes t),
      so_ControlPlaneEndpoint = (case s of None \<Rightarrow> '''' | Some t \<Rightarrow> cs_ControlPlaneEndpoint t),
      so_LoadBalancerDNS = (case s of None \<Rightarrow> '''' | Some t \<Rightarrow> cs_LoadBalancerDNS t),
      so_Nodes = (case s of None \<Rightarrow> [] | Some t \<Rightarrow> map (\<lambda>n. \<lparr>no_Name = ns_Name n, no_Role = ns_Role n,
        no_InstanceID = ns_InstanceID n, no_PublicIP = ns_PublicIP n, no_PrivateIP = ns_PrivateIP n, no_Phase = ns_Phase n\<rparr>) (cs_Nodes t))\<rparr>"

definition live_health_output :: "ClusterHealth \<Rightarrow> LiveHealthOutput" where
  "live_health_output h =
     \<lparr>lh_Healthy = hl_Healthy h, lh_APIServerStatus = hl_APIServerStatus h, lh_TotalNodes = hl_TotalNodes h,
      lh_ReadyNodes = hl_ReadyNodes h, lh_ControlPlanes = hl_ControlPlanes h, lh_Workers = hl_Workers h, lh_Message = hl_Message h,
      lh_Nodes = map (\<lambda>n. \<lparr>ln_Name = nh_Name n, ln_Role = nh_Role n, ln_Ready = nh_Ready n, ln_Status = nh_Status n,
        ln_Version = nh_Version n\<rparr>) (hl_Nodes h)\<rparr>"

definition cluster_lines :: "ClusterStatusOutput \<Rightarrow> string" where
  "cluster_lines c =
     line '''' @ line ''--- Cluster Configuration ---'' @ line (''Region: '' @ so_Region c)
     @ line (''Control Plane Count: '' @ show_int32 (so_ControlPlaneCount c))
     @ line (''Control Plane Type: '' @ so_ControlPlaneType c) @ line (''Control Plane Mode: '' @ so_ControlPlaneMode c)
     @ (if 0 <s so_WorkerCount c then line (''Worker Count: '' @ show_int32 (so_WorkerCount c)) @ line (''Worker Type: '' @ so_WorkerType c) else '''')
     @ (case so_HighAvailability c of None \<Rightarrow> '''' | Some h \<Rightarrow>
         if hao_Enabled h then line ''High Availability: Enabled'' @ line (''Etcd Topology: '' @ hao_EtcdTopology h) else '''')
     @ (if so_Phase c = '''' then '''' else
         line '''' @ line ''--- Cluster Status (cached) ---'' @ line (''Phase: '' @ so_Phase c)
         @ line (''Total Nodes: '' @ show_int32 (so_TotalNodes c)) @ line (''Ready Nodes: '' @ show_int32 (so_ReadyNodes c))
         @ (if so_ControlPlaneEndpoint c = '''' then '''' else line (''Control Plane Endpoint: '' @ so_ControlPlaneEndpoint c))
         @ (if so_LoadBalancerDNS c = '''' then '''' else line (''Load Balancer DNS: '' @ so_LoadBalancerDNS c))
         @ (if so_Nodes c = [] then '''' else line '''' @ line ''Nodes:''
             @ concat (map (\<lambda>n. line (''  - '' @ no_Name n @ '' ('' @ no_Role n @ '')'') @ line (''    Instance ID: '' @ no_InstanceID n)
                 @ line (''    Public IP: '' @ no_PublicIP n) @ line (''    Private IP: '' @ no_PrivateIP n)
                 @ line (''    Phase: '' @ no_Phase n)) (so_Nodes c))))"

text \<open>The signs \<open>U+2713\<close> and \<open>U+2717\<close>.\<close>

definition ready_icon :: "bool \<Rightarrow> string" where
  "ready_icon b = (if b then [CHR 0xE2, CHR 0x9C, CHR 0x93] else [CHR 0xE2, CHR 0x9C, CHR 0x97])"

definition live_lines :: "LiveHealthOutput \<Rightarrow> string" where
  "live_lines h =
     line '''' @ line ''--- Live Cluster Health ---'' @ line (''Status: '' @ (if lh_Healthy h then ''Healthy'' else ''Degraded''))
     @ line (''API Server: '' @ lh_APIServerStatus h) @ line (''Total Nodes: '' @ decimal (lh_TotalNodes h))
     @ line (''Ready Nodes: '' @ decimal (lh_ReadyNodes h)) @ line (''Control Planes: '' @ decimal (lh_ControlPlanes h))
     @ line (''Workers: '' @ decimal (lh_Workers h)) @ line (''Message: '' @ lh_Message h)
     @ (if lh_Nodes h = [] then '''' else line '''' @ line ''Live Node Status:''
         @ concat (map (\<lambda>n. line (''  '' @ ready_icon (ln_Ready n) @ '' '' @ ln_Name n @ '' ('' @ ln_Role n @ '') - '' @ ln_Status n
             @ '' ['' @ ln_Version n @ '']'')) (lh_Nodes h)))"

definition status_table :: "StatusOutput printers \<Rightarrow> StatusOutput \<Rightarrow> string" where
  "status_table pf s =
     line (''Instance ID: '' @ to_InstanceID s) @ line (''Name: '' @ to_Name s) @ line (''Provider: '' @ to_Provider s)
     @ line (''Status: '' @ to_Status s) @ line (''Created: '' @ pf_Time pf (to_CreatedAt s) @ '' ('' @ to_Age s @ '' ago)'')
     @ line (''Cache File: '' @ to_CacheFile s)
     @ (case to_Cluster s of None \<Rightarrow> '''' | Some c \<Rightarrow>
         cluster_lines c @ (case to_LiveHealth s of None \<Rightarrow> '''' | Some h \<Rightarrow> live_lines h))"

definition status_instance :: "('s, 'f) instance_env \<Rightarrow> string \<Rightarrow> string \<Rightarrow> ('s, Managed_Instance) io" where
  "status_instance x cachePath instanceID = (let m = NewManager x cachePath in
     catch (GetInstance x m instanceID) (\<lambda>_. if instanceID = '''' then fail ''invalid instance ID''
       else wrap ''failed to get instance'' (GetInstanceByFilename x m instanceID)))"

text \<open>An environment that cannot be read, and a health that cannot be found out, are left out.\<close>

definition status_output :: "('s, 'f, 'n, 'c, 'v) cli_env \<Rightarrow> string \<Rightarrow> bool \<Rightarrow> Managed_Instance \<Rightarrow> (('s, 'c) heap, StatusOutput) io" where
  "status_output x age live i =
     (let out = \<lparr>to_InstanceID = mi_ID i, to_Name = mi_Name i, to_Provider = mi_Provider i, to_Status = mi_Status i,
        to_CreatedAt = mi_CreatedAt i, to_Age = age, to_CacheFile = mi_CacheFile i, to_Cluster = None, to_LiveHealth = None\<rparr> in
      andthen (on_fst (attempt (UnmarshalFromFile (cl_platform x) (mi_CacheFile i)))) (\<lambda>r. case r of
        Inl _ \<Rightarrow> ret out
      | Inr env \<Rightarrow> (case sp_Cluster (env_Spec env) of
          None \<Rightarrow> ret out
        | Some c \<Rightarrow> (let out = out\<lparr>to_Cluster := Some (cluster_status_output c (st_Cluster (env_Status env)))\<rparr> in
            if \<not> live then ret out
            else andthen (attempt (GetClusterHealthFromEnv (cl_prov x) env)) (\<lambda>h. case h of
                Inl _ \<Rightarrow> ret out
              | Inr health \<Rightarrow> ret (out\<lparr>to_LiveHealth := Some (live_health_output health)\<rparr>))))))"

definition run_status :: "('s, 'f, 'n, 'c, 'v) cli_env \<Rightarrow> StatusOutput printers \<Rightarrow> string \<Rightarrow> bool \<Rightarrow> string \<Rightarrow> string
    \<Rightarrow> (('s, 'c) heap, string) io" where
  "run_status x pf cachePath live outputFormat instanceID =
     andthen (on_fst (status_instance (cl_instances x) cachePath instanceID)) (\<lambda>i.
     andthen (on_fst (gets (pl_Now (cl_platform x)))) (\<lambda>now.
     andthen (status_output x (pf_Age pf now (mi_CreatedAt i)) live i) (\<lambda>out.
     andthen (formatter_of outputFormat) (\<lambda>f.
     if f = FormatTable then ret (status_table pf out)
     else lift_result (Print pf (\<lambda>_. None) f out)))))"

end
