(* ===== verification/Describe_Command.thy ===== *)
theory Describe_Command
  imports Report_Output
begin

text \<open>
  \<open>cmd/cli/describe/describe.go\<close>: the full description of an instance, from its configuration, its
  status and the provenance of its components, and how it is printed.
\<close>

section \<open>The description\<close>

record Describe_Instance =
  di_ID :: string
  di_Name :: string
  di_CreatedAt :: nat
  di_Age :: string
  di_CacheFile :: string
  di_Provisioned :: bool

record ProviderInfo =
  dv_Type :: string
  dv_Region :: string
  dv_Username :: string
  dv_KeyName :: string

record ControlPlaneInfo =
  dcp_Count :: int32
  dcp_InstanceType :: string
  dcp_Dedicated :: bool

record WorkersInfo =
  dw_Count :: int32
  dw_InstanceType :: string

record HAInfo =
  dh_Enabled :: bool
  dh_EtcdTopology :: string
  dh_LoadBalancerType :: string

record Describe_Node =
  dn_Name :: string
  dn_Role :: string
  dn_InstanceID :: string
  dn_PublicIP :: string
  dn_PrivateIP :: string
  dn_Phase :: string

record Describe_Cluster =
  dk_Region :: string
  dk_ControlPlane :: ControlPlaneInfo
  dk_Workers :: "WorkersInfo option"
  dk_HighAvailability :: "HAInfo option"
  dk_Phase :: string
  dk_TotalNodes :: int32
  dk_ReadyNodes :: int32
  dk_Endpoint :: string
  dk_LoadBalancerDNS :: string
  dk_Nodes :: "Describe_Node list"

record NVIDIADriverInfo =
  dd_Install :: bool
  dd_Source :: string
  dd_Branch :: string
  dd_Version :: string
  dd_Repo :: string
  dd_Ref :: string
  dd_Commit :: string

record ContainerRuntimeInfo =
  dr_Install :: bool
  dr_Name :: string
  dr_Source :: string
  dr_Version :: string
  dr_Repo :: string
  dr_Ref :: string
  dr_Commit :: string
  dr_Branch :: string

record ContainerToolkitInfo =
  dt_Install :: bool
  dt_Source :: string
  dt_Version :: string
  dt_EnableCDI :: bool
  dt_Repo :: string
  dt_Ref :: string
  dt_Commit :: string
  dt_Branch :: string

record KubernetesInfo =
  du_Install :: bool
  du_Installer :: string
  du_Version :: string
  du_Source :: string
  du_Repo :: string
  du_Ref :: string
  du_Commit :: string
  du_Branch :: string

text \<open>The kernel is reported by its version only.\<close>

record ComponentsInfo =
  dc_Kernel :: "string option"
  dc_NVIDIADriver :: "NVIDIADriverInfo option"
  dc_ContainerRuntime :: "ContainerRuntimeInfo option"
  dc_ContainerToolkit :: "ContainerToolkitInfo option"
  dc_Kubernetes :: "KubernetesInfo option"

record ConditionInfo =
  dcd_Type :: string
  dcd_Status :: string
  dcd_Reason :: string
  dcd_Message :: string

record StatusInfo =
  ds_State :: string
  ds_Conditions :: "ConditionInfo list"

record AWSResourcesInfo =
  da_InstanceID :: string
  da_InstanceType :: string
  da_PublicDNS :: string
  da_PublicIP :: string
  da_PrivateIP :: string
  da_VpcID :: string
  da_SubnetID :: string
  da_SecurityGroup :: string
  da_AMI :: string

record DescribeOutput =
  do_Instance :: Describe_Instance
  do_Provider :: ProviderInfo
  do_Cluster :: "Describe_Cluster option"
  do_Components :: ComponentsInfo
  do_Status :: StatusInfo
  do_AWSResources :: "AWSResourcesInfo option"

section \<open>Building it\<close>

definition describe_cluster :: "ClusterSpec \<Rightarrow> ClusterStatus option \<Rightarrow> Describe_Cluster" where
  "describe_cluster c s =
     \<lparr>dk_Region = cl_Region c,
      dk_ControlPlane = \<lparr>dcp_Count = cp_Count (cl_ControlPlane c), dcp_InstanceType = cp_InstanceType (cl_ControlPlane c),
        dcp_Dedicated = cp_Dedicated (cl_ControlPlane c)\<rparr>,
      dk_Workers = map_option (\<lambda>w. \<lparr>dw_Count = wp_Count w, dw_InstanceType = wp_InstanceType w\<rparr>) (cl_Workers c),
      dk_HighAvailability = (case cl_HighAvailability c of None \<Rightarrow> None
        | Some h \<Rightarrow> if ha_Enabled h then Some \<lparr>dh_Enabled = True, dh_EtcdTopology = ha_EtcdTopology h,
            dh_LoadBalancerType = ha_LoadBalancerType h\<rparr> else None),
      dk_Phase = (case s of None \<Rightarrow> '''' | Some t \<Rightarrow> cs_Phase t),
      dk_TotalNodes = (case s of None \<Rightarrow> 0 | Some t \<Rightarrow> cs_TotalNodes t),
      dk_ReadyNodes = (case s of None \<Rightarrow> 0 | Some t \<Rightarrow> cs_ReadyNodes t),
      dk_Endpoint = (case s of None \<Rightarrow> '''' | Some t \<Rightarrow> cs_ControlPlaneEndpoint t),
      dk_LoadBalancerDNS = (case s of None \<Rightarrow> '''' | Some t \<Rightarrow> cs_LoadBalancerDNS t),
      dk_Nodes = (case s of None \<Rightarrow> [] | Some t \<Rightarrow> map (\<lambda>n. \<lparr>dn_Name = ns_Name n, dn_Role = ns_Role n,
        dn_InstanceID = ns_InstanceID n, dn_PublicIP = ns_PublicIP n, dn_PrivateIP = ns_PrivateIP n, dn_Phase = ns_Phase n\<rparr>) (cs_Nodes t))\<rparr>"

definition describe_driver :: "NVIDIADriver \<Rightarrow> ComponentProvenance option \<Rightarrow> NVIDIADriverInfo" where
  "describe_driver d pr = (case pr of
       None \<Rightarrow> \<lparr>dd_Install = True, dd_Source = ''package'', dd_Branch = nd_Branch d, dd_Version = nd_Version d,
         dd_Repo = '''', dd_Ref = '''', dd_Commit = ''''\<rparr>
     | Some p \<Rightarrow> \<lparr>dd_Install = True, dd_Source = pv_Source p, dd_Branch = or_default (pv_Branch p) (nd_Branch d),
         dd_Version = or_default (pv_Version p) (nd_Version d), dd_Repo = pv_Repo p, dd_Ref = pv_Ref p, dd_Commit = pv_Commit p\<rparr>)"

definition describe_runtime :: "ContainerRuntime \<Rightarrow> ComponentProvenance option \<Rightarrow> ContainerRuntimeInfo" where
  "describe_runtime r pr = (let p = (case pr of None \<Rightarrow> zero_ComponentProvenance\<lparr>pv_Source := ''package''\<rparr> | Some p \<Rightarrow> p) in
     \<lparr>dr_Install = True, dr_Name = cr_Name r, dr_Source = pv_Source p, dr_Version = cr_Version r,
      dr_Repo = pv_Repo p, dr_Ref = pv_Ref p, dr_Commit = pv_Commit p, dr_Branch = pv_Branch p\<rparr>)"

text \<open>The source of the toolkit and of Kubernetes is the one of the specification.\<close>

definition describe_toolkit :: "NVIDIAContainerToolkit \<Rightarrow> ComponentProvenance option \<Rightarrow> ContainerToolkitInfo" where
  "describe_toolkit t pr = (let p = (case pr of None \<Rightarrow> zero_ComponentProvenance | Some p \<Rightarrow> p) in
     \<lparr>dt_Install = True, dt_Source = or_default (ct_Source t) ''package'', dt_Version = ct_Version t, dt_EnableCDI = ct_EnableCDI t,
      dt_Repo = pv_Repo p, dt_Ref = pv_Ref p, dt_Commit = pv_Commit p, dt_Branch = pv_Branch p\<rparr>)"

definition describe_kubernetes :: "Kubernetes \<Rightarrow> ComponentProvenance option \<Rightarrow> KubernetesInfo" where
  "describe_kubernetes k pr = (let p = (case pr of None \<Rightarrow> zero_ComponentProvenance | Some p \<Rightarrow> p) in
     \<lparr>du_Install = True, du_Installer = k_KubernetesInstaller k,
      du_Version = (case k_Release k of None \<Rightarrow> k_KubernetesVersion k | Some r \<Rightarrow> kr_Version r),
      du_Source = or_default (k_Source k) ''release'',
      du_Repo = pv_Repo p, du_Ref = pv_Ref p, du_Commit = pv_Commit p, du_Branch = pv_Branch p\<rparr>)"

definition describe_components :: "Environment \<Rightarrow> ComponentsInfo" where
  "describe_components env = (let sp = env_Spec env;
       part = (\<lambda>f. case st_Components (env_Status env) of None \<Rightarrow> None | Some c \<Rightarrow> f c) in
     \<lparr>dc_Kernel = (if kn_Version (sp_Kernel sp) \<noteq> '''' then Some (kn_Version (sp_Kernel sp)) else None),
      dc_NVIDIADriver = (if nd_Install (sp_NVIDIADriver sp) then Some (describe_driver (sp_NVIDIADriver sp) (part co_Driver)) else None),
      dc_ContainerRuntime = (if cr_Install (sp_ContainerRuntime sp)
        then Some (describe_runtime (sp_ContainerRuntime sp) (part co_Runtime)) else None),
      dc_ContainerToolkit = (if ct_Install (sp_NVIDIAContainerToolkit sp)
        then Some (describe_toolkit (sp_NVIDIAContainerToolkit sp) (part co_Toolkit)) else None),
      dc_Kubernetes = (if k_Install (sp_Kubernetes sp) then Some (describe_kubernetes (sp_Kubernetes sp) (part co_Kubernetes)) else None)\<rparr>)"

definition describe_property :: "AWSResourcesInfo \<Rightarrow> Properties \<Rightarrow> AWSResourcesInfo" where
  "describe_property a p = (let n = pr_Name p; v = pr_Value p in
     if n = ''InstanceId'' then a\<lparr>da_InstanceID := v\<rparr>
     else if n = ''PublicDnsName'' then a\<lparr>da_PublicDNS := v\<rparr>
     else if n = ''PublicIpAddress'' then a\<lparr>da_PublicIP := v\<rparr>
     else if n = ''PrivateIpAddress'' then a\<lparr>da_PrivateIP := v\<rparr>
     else if n = ''VpcId'' then a\<lparr>da_VpcID := v\<rparr>
     else if n = ''SubnetId'' then a\<lparr>da_SubnetID := v\<rparr>
     else if n = ''SecurityGroupId'' then a\<lparr>da_SecurityGroup := v\<rparr>
     else a)"

definition describe_resources :: "Environment \<Rightarrow> AWSResourcesInfo option" where
  "describe_resources env = (let sp = env_Spec env in
     if sp_Provider sp = ProviderAWS \<and> sp_Cluster sp = None then
       Some (foldl describe_property
         \<lparr>da_InstanceID = '''', da_InstanceType = in_Type (sp_Instance sp), da_PublicDNS = '''', da_PublicIP = '''', da_PrivateIP = '''',
          da_VpcID = '''', da_SubnetID = '''', da_SecurityGroup = '''',
          da_AMI = (case img_ImageId (in_Image (sp_Instance sp)) of None \<Rightarrow> '''' | Some i \<Rightarrow> i)\<rparr>
         (st_Properties (env_Status env)))
     else None)"

definition buildDescribeOutput :: "Managed_Instance \<Rightarrow> Environment \<Rightarrow> string \<Rightarrow> DescribeOutput" where
  "buildDescribeOutput i env age = (let sp = env_Spec env in
     \<lparr>do_Instance = \<lparr>di_ID = mi_ID i, di_Name = env_Name env, di_CreatedAt = mi_CreatedAt i, di_Age = age,
        di_CacheFile = mi_CacheFile i, di_Provisioned = mi_Provisioned i\<rparr>,
      do_Provider = \<lparr>dv_Type = sp_Provider sp,
        dv_Region = (case sp_Cluster sp of Some c \<Rightarrow> cl_Region c | None \<Rightarrow> in_Region (sp_Instance sp)),
        dv_Username = au_Username (sp_Auth sp), dv_KeyName = au_KeyName (sp_Auth sp)\<rparr>,
      do_Cluster = map_option (\<lambda>c. describe_cluster c (st_Cluster (env_Status env))) (sp_Cluster sp),
      do_Components = describe_components env,
      do_Status = \<lparr>ds_State = mi_Status i, ds_Conditions = map (\<lambda>c. \<lparr>dcd_Type = cd_Type c, dcd_Status = cd_Status c,
        dcd_Reason = cd_Reason c, dcd_Message = cd_Message c\<rparr>) (st_Conditions (env_Status env))\<rparr>,
      do_AWSResources = describe_resources env\<rparr>)"

section \<open>Printing it\<close>

definition formatSourceDetail :: "string \<Rightarrow> string \<Rightarrow> string \<Rightarrow> string \<Rightarrow> string" where
  "formatSourceDetail source ref commit branch =
     (if source = '''' \<or> source = ''package'' \<or> source = ''release'' then ''''
      else let at = or_default commit (or_default ref branch) in
        '' ('' @ source @ (if at = '''' then '''' else '', '' @ at) @ '')'')"

definition instance_lines :: "DescribeOutput printers \<Rightarrow> DescribeOutput \<Rightarrow> string" where
  "instance_lines pf d = (let i = do_Instance d; v = do_Provider d in
     line ''=== Instance Information ==='' @ line (''ID:           '' @ di_ID i) @ line (''Name:         '' @ di_Name i)
     @ line (''Created:      '' @ pf_Time pf (di_CreatedAt i) @ '' ('' @ di_Age i @ '' ago)'')
     @ line (''Provisioned:  '' @ show_bool (di_Provisioned i)) @ line (''Cache File:   '' @ di_CacheFile i)
     @ line '''' @ line ''=== Provider ==='' @ line (''Type:     '' @ dv_Type v)
     @ (if dv_Region v = '''' then '''' else line (''Region:   '' @ dv_Region v))
     @ line (''Username: '' @ dv_Username v) @ line (''Key Name: '' @ dv_KeyName v))"

definition describe_cluster_lines :: "Describe_Cluster \<Rightarrow> string" where
  "describe_cluster_lines c =
     line '''' @ line ''=== Cluster Configuration ==='' @ line (''Region:               '' @ dk_Region c)
     @ line (''Control Plane Count:  '' @ show_int32 (dcp_Count (dk_ControlPlane c)))
     @ line (''Control Plane Type:   '' @ dcp_InstanceType (dk_ControlPlane c))
     @ line (''Control Plane Mode:   '' @ (if dcp_Dedicated (dk_ControlPlane c) then ''Dedicated (NoSchedule)'' else ''Shared''))
     @ (case dk_Workers c of None \<Rightarrow> '''' | Some w \<Rightarrow> line (''Worker Count:         '' @ show_int32 (dw_Count w))
         @ line (''Worker Type:          '' @ dw_InstanceType w))
     @ (case dk_HighAvailability c of None \<Rightarrow> '''' | Some h \<Rightarrow> if dh_Enabled h then line ''High Availability:    Enabled''
         @ line (''Etcd Topology:        '' @ dh_EtcdTopology h) else '''')
     @ (if dk_Phase c = '''' then '''' else
         line '''' @ line ''=== Cluster Status ==='' @ line (''Phase:       '' @ dk_Phase c)
         @ line (''Total Nodes: '' @ show_int32 (dk_TotalNodes c)) @ line (''Ready Nodes: '' @ show_int32 (dk_ReadyNodes c))
         @ (if dk_Endpoint c = '''' then '''' else line (''Endpoint:    '' @ dk_Endpoint c))
         @ (if dk_LoadBalancerDNS c = '''' then '''' else line (''LB DNS:      '' @ dk_LoadBalancerDNS c)))
     @ (if dk_Nodes c = [] then '''' else line '''' @ line ''=== Nodes ===''
         @ concat (map (\<lambda>n. line (''  '' @ dn_Name n @ '' ('' @ dn_Role n @ '')'') @ line (''    Instance ID: '' @ dn_InstanceID n)
             @ line (''    Public IP:   '' @ dn_PublicIP n) @ line (''    Private IP:  '' @ dn_PrivateIP n)
             @ line (''    Phase:       '' @ dn_Phase n)) (dk_Nodes c)))"

definition driver_line :: "NVIDIADriverInfo \<Rightarrow> string" where
  "driver_line d = line (''NVIDIA Driver:       '' @ or_default (dd_Version d) (or_default (dd_Branch d) ''latest'')
     @ formatSourceDetail (dd_Source d) (dd_Ref d) (dd_Commit d) (dd_Branch d))"

definition runtime_line :: "ContainerRuntimeInfo \<Rightarrow> string" where
  "runtime_line r = line (''Container Runtime:   '' @ dr_Name r @ '' '' @ or_default (dr_Version r) ''latest''
     @ formatSourceDetail (dr_Source r) (dr_Ref r) (dr_Commit r) (dr_Branch r))"

definition toolkit_line :: "ContainerToolkitInfo \<Rightarrow> string" where
  "toolkit_line t = (let detail = formatSourceDetail (dt_Source t) (dt_Ref t) (dt_Commit t) (dt_Branch t) in
     line (''Container Toolkit:   '' @ or_default (dt_Version t) (or_default (dt_Ref t) ''latest'')
       @ (if \<not> dt_EnableCDI t then detail
          else if detail \<noteq> '''' then butlast detail @ '', CDI)''
          else '' ('' @ dt_Source t @ '', CDI)'')))"

definition kubernetes_line :: "KubernetesInfo \<Rightarrow> string" where
  "kubernetes_line k = (let detail = formatSourceDetail (du_Source k) (du_Ref k) (du_Commit k) (du_Branch k) in
     line (''Kubernetes:          '' @ or_default (du_Version k) ''latest''
       @ (if detail = '''' then '' ('' @ du_Installer k @ '')'' else '' ('' @ du_Installer k @ '', '' @ drop 2 detail)))"

definition component_lines :: "ComponentsInfo \<Rightarrow> string" where
  "component_lines c =
     line '''' @ line ''=== Components ===''
     @ (case dc_Kernel c of None \<Rightarrow> '''' | Some v \<Rightarrow> line (''Kernel:              '' @ v))
     @ (case dc_NVIDIADriver c of None \<Rightarrow> '''' | Some d \<Rightarrow> driver_line d)
     @ (case dc_ContainerRuntime c of None \<Rightarrow> '''' | Some r \<Rightarrow> runtime_line r)
     @ (case dc_ContainerToolkit c of None \<Rightarrow> '''' | Some t \<Rightarrow> toolkit_line t)
     @ (case dc_Kubernetes c of None \<Rightarrow> '''' | Some k \<Rightarrow> kubernetes_line k)"

definition resource_lines :: "AWSResourcesInfo \<Rightarrow> string" where
  "resource_lines a = line '''' @ line ''=== AWS Resources ===''
     @ concat (map (\<lambda>(t, v). if v = '''' then '''' else line (t @ v))
         [(''Instance ID:     '', da_InstanceID a), (''Instance Type:   '', da_InstanceType a), (''AMI:             '', da_AMI a),
          (''Public DNS:      '', da_PublicDNS a), (''Public IP:       '', da_PublicIP a), (''Private IP:      '', da_PrivateIP a),
          (''VPC ID:          '', da_VpcID a), (''Subnet ID:       '', da_SubnetID a), (''Security Group:  '', da_SecurityGroup a)])"

definition state_lines :: "StatusInfo \<Rightarrow> string" where
  "state_lines s = line '''' @ line ''=== Status ==='' @ line (''State: '' @ ds_State s)
     @ (if ds_Conditions s = [] then '''' else line ''Conditions:''
         @ concat (map (\<lambda>c. line (''  - '' @ dcd_Type c @ '': '' @ dcd_Status c)
             @ (if dcd_Reason c = '''' then '''' else line (''    Reason: '' @ dcd_Reason c))
             @ (if dcd_Message c = '''' then '''' else line (''    Message: '' @ dcd_Message c))) (ds_Conditions s)))"

definition describe_table :: "DescribeOutput printers \<Rightarrow> DescribeOutput \<Rightarrow> string" where
  "describe_table pf d = instance_lines pf d
     @ (case do_Cluster d of None \<Rightarrow> '''' | Some c \<Rightarrow> describe_cluster_lines c)
     @ component_lines (do_Components d)
     @ (case do_AWSResources d of None \<Rightarrow> '''' | Some a \<Rightarrow> resource_lines a)
     @ state_lines (do_Status d)"

definition run_describe :: "('s, 'f) instance_env \<Rightarrow> DescribeOutput printers \<Rightarrow> string \<Rightarrow> string \<Rightarrow> string \<Rightarrow> ('s, string) io" where
  "run_describe x pf cachePath outputFormat instanceID =
     andthen (load_environment x cachePath instanceID) (\<lambda>(i, env).
     andthen (gets (pl_Now (ie_platform x))) (\<lambda>now.
     let d = buildDescribeOutput i env (pf_Age pf now (mi_CreatedAt i)) in
     andthen (formatter_of outputFormat) (\<lambda>f.
     if f = FormatTable then ret (describe_table pf d) else lift_result (Print pf (\<lambda>_. None) f d))))"

end
