(* ===== verification/Remote_Props.thy ===== *)
theory Remote_Props
  imports Describe_Command Instance_Props
begin

text \<open>
  The paths of \<open>scp\<close>: which ones name an instance, where the files of a directory go, and what happens
  to a destination that is a directory. And what \<open>describe\<close> says of the resources.
\<close>

section \<open>Naming an instance\<close>

lemma accepted_chars:
  assumes "instanceIDPattern i \<or> uuidPattern i"
  shows "CHR '':'' \<notin> set i" "8 \<le> length i"
proof -
  have hex: "CHR '':'' \<notin> set s" if "lower_hex s" for s
  proof
    assume "CHR '':'' \<in> set s"
    then have "CHR '':'' \<in> set ''0123456789abcdef''" using that unfolding lower_hex_def by blast
    then show False by simp
  qed
  show "CHR '':'' \<notin> set i"
    using assms
  proof
    assume "uuidPattern i"
    then have "\<forall>t \<in> set (split_on (CHR ''-'') i). CHR '':'' \<notin> set t"
      using hex by (auto simp: uuidPattern_def list_all_iff)
    then show ?thesis using split_on_covers [of "CHR '':''" i "CHR ''-''"] by auto
  qed (simp add: instanceIDPattern_def hex)
  have len: "length (hd (split_on d s)) \<le> length s" for d :: char and s
    by (induction s) (auto split: list.split)
  show "8 \<le> length i"
    using assms
  proof
    assume "uuidPattern i"
    then have "length (hd (split_on (CHR ''-'') i)) = 8" by (cases "split_on (CHR ''-'') i") (auto simp: uuidPattern_def)
    then show ?thesis using len [of "CHR ''-''" i] by simp
  qed (simp add: instanceIDPattern_def)
qed

lemma take_until: "c \<notin> set a \<Longrightarrow> takeWhile (\<lambda>d. d \<noteq> c) (a @ c # b) = a" "c \<notin> set a \<Longrightarrow> dropWhile (\<lambda>d. d \<noteq> c) (a @ c # b) = c # b"
  "c \<notin> set a \<Longrightarrow> dropWhile (\<lambda>d. d \<noteq> c) a = []"
  by (induction a) auto

text \<open>
  Every identifier that the cache accepts, followed by a colon and any path, is read as that path on
  that instance, and a path without a colon is a local one.
\<close>

theorem scp_path_roundtrip:
  assumes "GetInstanceCacheFile m i = Inr file"
  shows "parsePath (i @ '':'' @ p) = \<lparr>pt_instanceID = i, pt_path = p, pt_isRemote = True\<rparr>
    \<and> (CHR '':'' \<notin> set q \<longrightarrow> parsePath q = \<lparr>pt_instanceID = '''', pt_path = q, pt_isRemote = False\<rparr>)"
proof -
  have ok: "instanceIDPattern i \<or> uuidPattern i" using assms by (auto simp: GetInstanceCacheFile_def split: if_splits)
  note chars = accepted_chars [OF ok]
  have "i \<noteq> ''''" "length i \<noteq> 1" using chars(2) by auto
  then show ?thesis
    using take_until(1,2) [OF chars(1), of p] by (auto simp: parsePath_def Let_def take_until(3))
qed

theorem scp_path_roundtrip_witness:
  "parsePath ''00c0ffee:/var/log/syslog'' = \<lparr>pt_instanceID = ''00c0ffee'', pt_path = ''/var/log/syslog'', pt_isRemote = True\<rparr>"
proof -
  have "GetInstanceCacheFile \<lparr>mg_cachePath = ''/cache''\<rparr> ''00c0ffee'' = Inr ''/cache/00c0ffee.yaml''" by code_simp
  from scp_path_roundtrip [OF this, of "''/var/log/syslog''"] show ?thesis by simp
qed

section \<open>Copying a directory\<close>

definition plain_name :: "string \<Rightarrow> bool" where
  "plain_name d \<longleftrightarrow> d \<notin> {'''', ''.'', ''..''} \<and> CHR ''/'' \<notin> set d"

lemma split_on_names: "ds \<noteq> [] \<Longrightarrow> list_all plain_name ds \<Longrightarrow> split_on (CHR ''/'') (join_with (CHR ''/'') ds) = ds"
proof (induction ds rule: induct_list012)
  case (3 x y ys)
  then show ?case by (simp add: split_on_join split_on_single plain_name_def)
qed (simp_all add: split_on_single plain_name_def)

lemma clean_names: "list_all plain_name ds \<Longrightarrow> foldl (clean_step b) st ds = rev ds @ st"
  by (induction ds arbitrary: st) (simp_all add: clean_step_def plain_name_def)

lemma components_below:
  assumes "base \<noteq> ''''" "ds \<noteq> []" "list_all plain_name ds"
  shows "components (base @ ''/'' @ join_with (CHR ''/'') ds) = components base @ ds"
    "IsAbs (base @ ''/'' @ join_with (CHR ''/'') ds) = IsAbs base"
proof -
  show abs: "IsAbs (base @ ''/'' @ join_with (CHR ''/'') ds) = IsAbs base" using assms(1) by (cases base) (auto simp: IsAbs_def)
  show "components (base @ ''/'' @ join_with (CHR ''/'') ds) = components base @ ds"
    using assms abs split_on_join [of "CHR ''/''" base] by (simp add: components_def split_on_names clean_names)
qed

lemma strip_common_append [simp]: "strip_common xs (xs @ ys) = ([], ys)"
  by (induction xs) (cases ys; simp)+

lemma join_with_longer: "ds \<noteq> [] \<Longrightarrow> list_all plain_name ds \<Longrightarrow> length (join_with c cs) < length (join_with c (cs @ ds))"
proof (induction cs rule: induct_list012)
  case 1
  then show ?case by (cases ds; cases "tl ds") (auto simp: plain_name_def)
next
  case (2 x)
  then show ?case by (cases ds) auto
next
  case (3 x y zs)
  then show ?case by simp
qed

lemma join_names_dot:
  assumes "ds \<noteq> []" "list_all plain_name ds" "join_with (CHR ''/'') cs = []"
  shows "join_with (CHR ''/'') (cs @ ds) \<noteq> ''.''"
  using assms by (cases ds; cases "tl ds"; cases cs; cases "tl cs") (auto simp: plain_name_def append_eq_Cons_conv)

lemma Clean_below:
  assumes "base \<noteq> ''''" "ds \<noteq> []" "list_all plain_name ds"
  shows "Clean (base @ ''/'' @ join_with (CHR ''/'') ds) \<noteq> Clean base"
proof -
  let ?j = "join_with (CHR ''/'')"
  define t where "t = base @ ''/'' @ ?j ds"
  have t: "components t = components base @ ds" "IsAbs t = IsAbs base"
    unfolding t_def by (rule components_below [OF assms])+
  have longer: "length (?j (components base)) < length (?j (components base @ ds))"
    using join_with_longer [OF assms(2,3)] .
  have "Clean t \<noteq> Clean base"
    using longer join_names_dot [OF assms(2,3), of "components base"]
    by (auto simp: Clean_def Let_def t dest: arg_cong [where f = length])
  then show ?thesis by (simp add: t_def)
qed

lemma Rel_below:
  assumes "base \<noteq> ''''" "ds \<noteq> []" "list_all plain_name ds"
  shows "Rel base (base @ ''/'' @ join_with (CHR ''/'') ds) = Inr (join_with (CHR ''/'') ds)"
  using Clean_below [OF assms] components_below [OF assms] by (simp add: Rel_def Let_def)

definition below :: "string \<Rightarrow> string list \<Rightarrow> string" where
  "below base ds = base @ ''/'' @ join_with (CHR ''/'') ds"

text \<open>
  Copying a directory keeps its shape. The file that the walk finds at the names \<open>ds\<close> below the source
  is copied to the same names below the destination, in both directions.
\<close>

theorem directory_copy_keeps_shape:
  assumes "ds \<noteq> []" and "list_all plain_name ds" and "local \<noteq> ''''" and "remote \<noteq> ''''"
  shows "upload_entry cp local remote (below local ds, Inr False) = copyFileToRemote cp (below local ds) (Clean (below remote ds))
    \<and> download_entry cp remote local (below remote ds, Inr False) = copyFileFromRemote cp (below remote ds) (Clean (below local ds))
    \<and> components (below remote ds) = components remote @ ds \<and> components (below local ds) = components local @ ds"
proof -
  let ?names = "join_with (CHR ''/'') ds"
  have joined: "Join local ?names = Clean (below local ds)" "Join remote ?names = Clean (below remote ds)"
    using assms(3,4) by (simp_all add: Join_def below_def)
  have "upload_entry cp local remote (below local ds, Inr False) = copyFileToRemote cp (below local ds) (Clean (below remote ds))"
    using Rel_below [OF assms(3,1,2)] joined by (simp add: upload_entry_def below_def andthen_def lift_result_def fun_eq_iff)
  moreover have "remote_relative remote (below remote ds) = ?names"
    by (simp add: remote_relative_def TrimPrefix_def below_def)
  then have "download_entry cp remote local (below remote ds, Inr False) = copyFileFromRemote cp (below remote ds) (Clean (below local ds))"
    using joined by (simp add: download_entry_def Let_def)
  ultimately show ?thesis
    using components_below [OF assms(3,1,2)] components_below [OF assms(4,1,2)] by (simp add: below_def)
qed

definition no_copy :: "(nat, nat) copy_env" where
  "no_copy = \<lparr>lc_Stat = (\<lambda>_. ret False), lc_Open = (\<lambda>_. ret ()), lc_MkdirAll = (\<lambda>_. ret ()), lc_Create = (\<lambda>_. ret ()),
     lc_Close = (\<lambda>_. ret ()), lc_Walk = (\<lambda>_. ret []), lc_HomeDir = ret ''/root'', sf_NewClient = (\<lambda>_. ret ()), sf_CloseClient = ret (),
     sf_Stat = (\<lambda>_. ret False), sf_Open = (\<lambda>_. ret ()), sf_MkdirAll = (\<lambda>_. ret ()),
     sf_Create = (\<lambda>p. if suffix ''/'' p then fail ''is a directory'' else ret ()), sf_Close = (\<lambda>_. ret ()), sf_Walk = (\<lambda>_. ret []),
     cp_Upload = (\<lambda>_ _. ret 0), cp_Download = (\<lambda>_ _. ret 0), sh_CacheDir = '''', sh_Exec = (\<lambda>_. ret ())\<rparr>"

theorem directory_copy_keeps_shape_witness:
  "upload_entry no_copy ''conf'' ''/etc/app'' (''conf/a/b'', Inr False) = copyFileToRemote no_copy ''conf/a/b'' ''/etc/app/a/b''"
proof -
  have names: "list_all plain_name [''a'', ''b'']" by (simp add: plain_name_def)
  have paths: "below ''conf'' [''a'', ''b''] = ''conf/a/b''" "Clean (below ''/etc/app'' [''a'', ''b'']) = ''/etc/app/a/b''" by code_simp+
  have "upload_entry no_copy ''conf'' ''/etc/app'' (below ''conf'' [''a'', ''b''], Inr False)
      = copyFileToRemote no_copy (below ''conf'' [''a'', ''b'']) (Clean (below ''/etc/app'' [''a'', ''b'']))"
    using directory_copy_keeps_shape [OF _ names, of "''conf''" "''/etc/app''"] by blast
  then show ?thesis unfolding paths .
qed

text \<open>A source that is not in the shortest form loses this: the walk gives the paths below it in shortest
  form, so their common part is not cut off.\<close>

lemma unclean_source_is_nested: "remote_relative ''./conf'' ''conf/a'' = ''conf/a''"
  by code_simp

section \<open>Copying a file\<close>

text \<open>A destination that ends in a slash is a directory, and opening one for writing fails: so the copies
  of a file to \<open>/home/ubuntu/\<close> and to \<open>./logs/\<close> in the description of the command fail.\<close>

theorem copy_into_directory_fails:
  assumes "\<And>p s. suffix ''/'' p \<Longrightarrow> isl (fst (sf_Create cp p s))" and "\<And>p s. suffix ''/'' p \<Longrightarrow> isl (fst (lc_Create cp p s))"
  shows "isl (fst (copyFileToRemote cp path (dir @ ''/'') s)) \<and> isl (fst (copyFileFromRemote cp path (dir @ ''/'') s))"
proof -
  have "\<And>s. \<exists>e t. sf_Create cp (dir @ ''/'') s = (Inl e, t)" "\<And>s. \<exists>e t. lc_Create cp (dir @ ''/'') s = (Inl e, t)"
    using assms [of "dir @ ''/''"] by (metis isl_def prod.collapse suffixI)+
  then have created: "\<And>s t v. sf_Create cp (dir @ ''/'') s \<noteq> (Inr v, t)" "\<And>s t v. lc_Create cp (dir @ ''/'') s \<noteq> (Inr v, t)"
    by (metis Inl_Inr_False prod.inject)+
  have "isl (fst m) \<longleftrightarrow> (\<forall>v t. m \<noteq> (Inr v, t))" for m :: "(error + unit) \<times> 'a"
    by (cases m; cases "fst m") auto
  then show ?thesis
    using created by (auto simp: copyFileToRemote_def copyFileFromRemote_def andthen_Inr deferring_def split: prod.splits)
qed

section \<open>Describing resources\<close>

text \<open>
  The description of an instance names none of its resources. It looks for the properties by names
  which the provider does not use, so for every environment with the provider's properties the
  identifiers and addresses stay empty, in all formats.
\<close>

theorem description_lacks_resources:
  assumes "st_Properties (env_Status env) = cache_properties a"
  shows "do_AWSResources (buildDescribeOutput i env age) =
     (if sp_Provider (env_Spec env) = ProviderAWS \<and> sp_Cluster (env_Spec env) = None then
        Some \<lparr>da_InstanceID = '''', da_InstanceType = in_Type (sp_Instance (env_Spec env)), da_PublicDNS = '''', da_PublicIP = '''',
          da_PrivateIP = '''', da_VpcID = '''', da_SubnetID = '''', da_SecurityGroup = '''',
          da_AMI = (case img_ImageId (in_Image (sp_Instance (env_Spec env))) of None \<Rightarrow> '''' | Some m \<Rightarrow> m)\<rparr>
      else None)"
  using assms by (simp add: buildDescribeOutput_def describe_resources_def cache_properties_def describe_property_def Let_def)

definition described_environment :: Environment where
  "described_environment = zero_Environment\<lparr>env_Spec := zero_EnvironmentSpec\<lparr>sp_Provider := ProviderAWS\<rparr>,
     env_Status := zero_EnvironmentStatus\<lparr>st_Properties := cache_properties (zero_AWS\<lparr>aw_Vpcid := ''vpc-1''\<rparr>)\<rparr>\<rparr>"

theorem description_lacks_resources_witness:
  "map_option da_VpcID (do_AWSResources (buildDescribeOutput (instance_of ''00c0ffee'' described_environment 0 ''running'' ''/cache/00c0ffee.yaml'')
     described_environment ''1h'')) = Some ''''"
proof -
  have "st_Properties (env_Status described_environment) = cache_properties (zero_AWS\<lparr>aw_Vpcid := ''vpc-1''\<rparr>)"
    by (simp add: described_environment_def)
  from description_lacks_resources [OF this] show ?thesis by (simp add: described_environment_def zero_EnvironmentSpec_def)
qed

theorem copy_into_directory_fails_witness:
  "isl (fst (copyFileToRemote (no_copy\<lparr>lc_Create := sf_Create no_copy\<rparr>) ''file.txt'' ''/home/ubuntu/'' 0))"
proof -
  have "isl (fst (sf_Create (no_copy\<lparr>lc_Create := sf_Create no_copy\<rparr>) p s))" "isl (fst (lc_Create (no_copy\<lparr>lc_Create := sf_Create no_copy\<rparr>) p s))"
    if "suffix ''/'' p" for p s using that by (simp_all add: no_copy_def fail_def)
  from copy_into_directory_fails [OF this, of "''file.txt''" "''/home/ubuntu''" 0] show ?thesis by simp
qed

end
