(* ===== verification/Skill.thy ===== *)
theory Skill
  imports Go_Path Template_Checks
begin

text \<open>
  \<open>pkg/skill\<close> and \<open>cmd/cli/skill\<close>: the catalog of agent skills, how a skill is rendered for each agent,
  and how it is installed into a file of its own or into a section of a file the agents share.

  The embedded files, the YAML decoder, the file system, the terminal and the encoders are parameters.
\<close>

section \<open>Parameters and finding text\<close>

text \<open>\<open>sk_Stat\<close> says whether a file exists, \<open>sk_ReadFile\<close> gives \<open>None\<close> for a file that does not, and
  \<open>sk_ReadLine\<close> gives \<open>None\<close> at the end of the input. An entry of the walk over the embedded files is
  its path with an error, or whether it is a directory and what reading it gives.\<close>

record 's skill_env =
  sk_Unmarshal :: "string \<Rightarrow> error + string \<times> string"
  sk_walk :: "(string \<times> (error + bool \<times> (error + string))) list"
  sk_HomeDir :: "error + string"
  sk_Stat :: "string \<Rightarrow> ('s, bool) io"
  sk_ReadFile :: "string \<Rightarrow> ('s, string option) io"
  sk_MkdirAll :: "string \<Rightarrow> ('s, unit) io"
  sk_CreateTemp :: "string \<Rightarrow> string \<Rightarrow> ('s, string) io"
  sk_Write :: "string \<Rightarrow> string \<Rightarrow> ('s, unit) io"
  sk_Close :: "string \<Rightarrow> ('s, unit) io"
  sk_Remove :: "string \<Rightarrow> ('s, unit) io"
  sk_Rename :: "string \<Rightarrow> string \<Rightarrow> ('s, unit) io"
  sk_IsTTY :: bool
  sk_ReadLine :: "('s, string option) io"
  sk_Print :: "string \<Rightarrow> ('s, unit) io"

text \<open>\<open>bytes.Index\<close>: what stands before and after the first occurrence of a text.\<close>

fun cut_at :: "string \<Rightarrow> string \<Rightarrow> (string \<times> string) option" where
  "cut_at t [] = (if t = [] then Some ([], []) else None)"
| "cut_at t (c # s) = (if prefix t (c # s) then Some ([], drop (length t) (c # s))
     else map_option (\<lambda>(a, b). (c # a, b)) (cut_at t s))"

definition newline :: char where
  "newline = CHR 0x0A"

definition lf :: string where
  "lf = [newline]"

section \<open>Skills\<close>

record Skill =
  sl_Name :: string
  sl_Description :: string
  sl_Body :: string

definition name_char :: "char \<Rightarrow> bool" where
  "name_char c \<longleftrightarrow> c \<in> set ''abcdefghijklmnopqrstuvwxyz0123456789''"

text \<open>The regular expression \<open>^[a-z0-9][a-z0-9-]{0,63}$\<close>.\<close>

definition skillNameRE :: "string \<Rightarrow> bool" where
  "skillNameRE s = (case s of [] \<Rightarrow> False
     | c # r \<Rightarrow> name_char c \<and> length r \<le> 63 \<and> list_all (\<lambda>d. name_char d \<or> d = CHR ''-'') r)"

definition parseSkill :: "(string \<Rightarrow> error + string \<times> string) \<Rightarrow> string \<Rightarrow> string \<Rightarrow> error + Skill" where
  "parseSkill unmarshal fileName raw = (let err = (\<lambda>t. Inl (fileName @ '': '' @ t)) in
     if \<not> prefix (''---'' @ lf) raw then err ''frontmatter delimiter (---) not found at start of file''
     else (case cut_at (lf @ ''---'' @ lf) (drop 4 raw) of
       None \<Rightarrow> err ''closing frontmatter delimiter (---) not found''
     | Some (fmBytes, rest) \<Rightarrow> (let body = TrimSpace rest in case unmarshal fmBytes of
         Inl e \<Rightarrow> err (''parsing frontmatter: '' @ e)
       | Inr (name, description) \<Rightarrow>
           if name = '''' then err ''name is required in frontmatter''
           else if \<not> skillNameRE name then err (''invalid skill name '' @ quoted name @ '': must match ^[a-z0-9][a-z0-9-]{0,63}$'')
           else if description = '''' then err ''description is required in frontmatter''
           else if body = '''' then err ''body is empty''
           else Inr \<lparr>sl_Name = name, sl_Description = description, sl_Body = body\<rparr>)))"

text \<open>\<open>path.Dir\<close> and \<open>path.Base\<close>.\<close>

definition path_Dir :: "string \<Rightarrow> string" where
  "path_Dir p = Clean (rev (dropWhile (\<lambda>c. c \<noteq> CHR ''/'') (rev p)))"

definition path_Base :: "string \<Rightarrow> string" where
  "path_Base p = (if p = '''' then ''.'' else
     (let q = dropWhile (\<lambda>c. c = CHR ''/'') (rev p) in
      if q = [] then ''/'' else rev (takeWhile (\<lambda>c. c \<noteq> CHR ''/'') q)))"

fun walk_skills :: "'s skill_env \<Rightarrow> (string \<times> (error + bool \<times> (error + string))) list \<Rightarrow> error + Skill list" where
  "walk_skills x [] = Inr []"
| "walk_skills x ((p, Inl e) # es) = Inl e"
| "walk_skills x ((p, Inr (isDir, content)) # es) =
     (if isDir \<or> \<not> suffix ''/SKILL.md'' p then walk_skills x es
      else case content of
        Inl e \<Rightarrow> Inl (''reading '' @ p @ '': '' @ e)
      | Inr raw \<Rightarrow> (case parseSkill (sk_Unmarshal x) (path_Base (path_Dir p)) raw of
          Inl e \<Rightarrow> Inl e
        | Inr s \<Rightarrow> (case walk_skills x es of Inl e \<Rightarrow> Inl e | Inr ss \<Rightarrow> Inr (s # ss))))"

text \<open>The names are compared byte by byte; skills of the same name stay in their order.\<close>

definition Catalog :: "'s skill_env \<Rightarrow> error + Skill list" where
  "Catalog x = map_sum id (sort_key sl_Name) (walk_skills x (sk_walk x))"

section \<open>Renderers\<close>

datatype agent = Claude | Cursor | Codex | Gemini

definition AgentName :: "agent \<Rightarrow> string" where
  "AgentName a = (case a of Claude \<Rightarrow> ''claude'' | Cursor \<Rightarrow> ''cursor'' | Codex \<Rightarrow> ''codex'' | Gemini \<Rightarrow> ''gemini'')"

definition SingleFile :: "agent \<Rightarrow> bool" where
  "SingleFile a \<longleftrightarrow> a = Codex \<or> a = Gemini"

definition begin_mark :: "string \<Rightarrow> string" where
  "begin_mark name = ''<!-- BEGIN holodeck-skill:'' @ name @ '' -->''"

definition end_mark :: "string \<Rightarrow> string" where
  "end_mark name = ''<!-- END holodeck-skill:'' @ name @ '' -->''"

definition renderSection :: "Skill \<Rightarrow> string" where
  "renderSection s = begin_mark (sl_Name s) @ lf @ ''## '' @ sl_Name s @ lf @ lf @ sl_Description s @ lf @ lf
     @ sl_Body s @ lf @ end_mark (sl_Name s) @ lf"

definition ends_in_newline :: "string \<Rightarrow> string" where
  "ends_in_newline s = (if last s = newline then s else s @ lf)"

definition claude_Render :: "Skill \<Rightarrow> string" where
  "claude_Render s = ends_in_newline (''---'' @ lf @ ''name: '' @ sl_Name s @ lf @ ''description: '' @ sl_Description s @ lf
     @ ''---'' @ lf @ lf @ sl_Body s)"

definition cursor_Render :: "Skill \<Rightarrow> string" where
  "cursor_Render s = ends_in_newline (''---'' @ lf @ ''description: '' @ sl_Description s @ lf
     @ ''globs: [\"**/*\"]'' @ lf @ ''alwaysApply: false'' @ lf @ ''---'' @ lf @ lf @ sl_Body s)"

definition Render :: "agent \<Rightarrow> Skill \<Rightarrow> string" where
  "Render a s = (case a of Claude \<Rightarrow> claude_Render s | Cursor \<Rightarrow> cursor_Render s
     | Codex \<Rightarrow> renderSection s | Gemini \<Rightarrow> renderSection s)"

text \<open>The path of a skill in the project, and the one below the home directory.\<close>

definition project_path :: "agent \<Rightarrow> Skill \<Rightarrow> string" where
  "project_path a s = (case a of
       Claude \<Rightarrow> Join ''.claude'' (''skills/'' @ sl_Name s @ ''/SKILL.md'')
     | Cursor \<Rightarrow> Join ''.cursor'' (''rules/'' @ sl_Name s @ ''.mdc'')
     | Codex \<Rightarrow> ''AGENTS.md''
     | Gemini \<Rightarrow> ''GEMINI.md'')"

definition home_path :: "agent \<Rightarrow> Skill \<Rightarrow> string" where
  "home_path a s = (case a of Codex \<Rightarrow> ''.codex/AGENTS.md'' | Gemini \<Rightarrow> ''.gemini/GEMINI.md'' | _ \<Rightarrow> project_path a s)"

definition InstallPath :: "'s skill_env \<Rightarrow> agent \<Rightarrow> Skill \<Rightarrow> bool \<Rightarrow> error + string" where
  "InstallPath x a s global = (if \<not> global then Inr (project_path a s) else (case sk_HomeDir x of
       Inl e \<Rightarrow> Inl (''resolving user home dir: '' @ e) | Inr home \<Rightarrow> Inr (Join home (home_path a s))))"

section \<open>Installing\<close>

definition appended :: "string \<Rightarrow> string \<Rightarrow> string" where
  "appended existing sec = existing @ (if existing \<noteq> [] \<and> last existing \<noteq> newline then lf else [])
     @ (if existing \<noteq> [] then lf else []) @ sec"

definition spliceSection :: "string \<Rightarrow> string \<Rightarrow> string \<Rightarrow> string" where
  "spliceSection existing sec name = (case cut_at (begin_mark name) existing of
       None \<Rightarrow> appended existing sec
     | Some (pre, _) \<Rightarrow> (case cut_at (end_mark name) (drop (length pre) existing) of
         None \<Rightarrow> appended existing sec
       | Some (_, rest) \<Rightarrow> pre @ sec @ (case rest of c # r \<Rightarrow> if c = newline then r else rest | [] \<Rightarrow> [])))"

text \<open>The deferred removal of the temporary file, its error dropped.\<close>

definition removing :: "'s skill_env \<Rightarrow> string \<Rightarrow> ('s, unit) io \<Rightarrow> ('s, unit) io" where
  "removing x tmp m = catch m (\<lambda>e. andthen (attempt (sk_Remove x tmp)) (\<lambda>_. fail e))"

text \<open>The temporary file is written, closed and moved.\<close>

definition through_temp :: "'s skill_env \<Rightarrow> string \<Rightarrow> string \<Rightarrow> string \<Rightarrow> ('s, unit) io" where
  "through_temp x dest content tmp =
     andthen (catch (sk_Write x tmp content) (\<lambda>e. andthen (attempt (sk_Close x tmp)) (\<lambda>_.
         fail (''writing tempfile '' @ tmp @ '': '' @ e)))) (\<lambda>_.
     andthen (wrap (''closing tempfile '' @ tmp) (sk_Close x tmp)) (\<lambda>_.
     wrap (''renaming '' @ tmp @ '' -> '' @ dest) (sk_Rename x tmp dest)))"

definition writeFileAtomic :: "'s skill_env \<Rightarrow> string \<Rightarrow> string \<Rightarrow> ('s, unit) io" where
  "writeFileAtomic x dest content =
     andthen (wrap (''creating '' @ path_Dir dest) (sk_MkdirAll x (path_Dir dest))) (\<lambda>_.
     andthen (wrap ''opening tempfile'' (sk_CreateTemp x (path_Dir dest) (path_Base dest @ ''.tmp.*''))) (\<lambda>tmp.
     removing x tmp (through_temp x dest content tmp)))"

definition installSingleFile :: "'s skill_env \<Rightarrow> string \<Rightarrow> string \<Rightarrow> string \<Rightarrow> ('s, unit) io" where
  "installSingleFile x dest sec skillName =
     andthen (wrap (''reading '' @ dest) (sk_ReadFile x dest)) (\<lambda>raw.
     writeFileAtomic x dest (spliceSection (case raw of None \<Rightarrow> [] | Some r \<Rightarrow> r) sec skillName))"

definition destinationExists :: "'s skill_env \<Rightarrow> string \<Rightarrow> ('s, bool) io" where
  "destinationExists x dest = wrap (''inspecting '' @ dest) (sk_Stat x dest)"

definition confirmOverwrite :: "'s skill_env \<Rightarrow> string \<Rightarrow> ('s, bool) io" where
  "confirmOverwrite x dest =
     andthen (sk_Print x (''overwrite '' @ dest @ ''? [y/N] '')) (\<lambda>_.
     andthen (wrap ''reading overwrite confirmation'' (sk_ReadLine x)) (\<lambda>r. case r of
       None \<Rightarrow> ret False
     | Some l \<Rightarrow> ret (TrimSpace (ToLower l) \<in> {''y'', ''yes''})))"

text \<open>Whether a file of its own may be written.\<close>

definition may_overwrite :: "'s skill_env \<Rightarrow> bool \<Rightarrow> string \<Rightarrow> ('s, unit) io" where
  "may_overwrite x force dest =
     andthen (destinationExists x dest) (\<lambda>exists.
     if exists \<and> \<not> force then
       if \<not> sk_IsTTY x then fail (dest @ '' exists; pass --force to overwrite'')
       else andthen (confirmOverwrite x dest) (\<lambda>ok. if \<not> ok then fail (''aborted; '' @ dest @ '' left unchanged'') else ret ())
     else ret ())"

record InstallOptions =
  il_Global :: bool
  il_Force :: bool
  il_DryRun :: bool

definition Install :: "'s skill_env \<Rightarrow> agent \<Rightarrow> Skill \<Rightarrow> InstallOptions \<Rightarrow> ('s, string) io" where
  "Install x a s opts = (case InstallPath x a s (il_Global opts) of
       Inl e \<Rightarrow> fail e
     | Inr dest \<Rightarrow>
         andthen (if il_DryRun opts then sk_Print x (''would write '' @ dest @ '' ('' @ decimal (length (Render a s)) @ '' bytes)'' @ lf)
           else if SingleFile a then installSingleFile x dest (Render a s) (sl_Name s)
           else andthen (may_overwrite x (il_Force opts) dest) (\<lambda>_. writeFileAtomic x dest (Render a s))) (\<lambda>_. ret dest))"

section \<open>The commands\<close>

record add_flags =
  af_claude :: bool
  af_cursor :: bool
  af_codex :: bool
  af_gemini :: bool
  af_allAgents :: bool
  af_all :: bool
  af_global :: bool
  af_force :: bool
  af_stdout :: bool
  af_dryRun :: bool

definition selectedRenderers :: "add_flags \<Rightarrow> agent list" where
  "selectedRenderers f = (let w = (\<lambda>b a. if b \<or> af_allAgents f then [a] else []) in
     w (af_claude f) Claude @ w (af_cursor f) Cursor @ w (af_codex f) Codex @ w (af_gemini f) Gemini)"

definition catalogNames :: "Skill list \<Rightarrow> string list" where
  "catalogNames catalog = map sl_Name catalog"

definition selectedSkills :: "add_flags \<Rightarrow> string list \<Rightarrow> Skill list \<Rightarrow> error + Skill list" where
  "selectedSkills f args catalog = (let name = (case args of [] \<Rightarrow> '''' | n # _ \<Rightarrow> n); names = sep_by '', '' (catalogNames catalog) in
     if af_all f \<and> name \<noteq> '''' then Inl ''--all is mutually exclusive with a skill name''
     else if \<not> af_all f \<and> name = '''' then Inl (''skill name required (or pass --all); available: '' @ names)
     else if af_all f then Inr catalog
     else (case find (\<lambda>s. sl_Name s = name) catalog of
         Some s \<Rightarrow> Inr [s] | None \<Rightarrow> Inl (''skill '' @ quoted name @ '' not found; available: '' @ names)))"

definition add_one :: "'s skill_env \<Rightarrow> add_flags \<Rightarrow> Skill \<Rightarrow> agent \<Rightarrow> ('s, unit) io" where
  "add_one x f s a = (if af_stdout f then sk_Print x (Render a s)
     else andthen (Install x a s \<lparr>il_Global = af_global f, il_Force = af_force f, il_DryRun = af_dryRun f\<rparr>) (\<lambda>path.
       if af_dryRun f then ret ()
       else sk_Print x (''installed '' @ sl_Name s @ '' for '' @ AgentName a @ '' -> '' @ path @ lf)))"

definition runAdd :: "'s skill_env \<Rightarrow> add_flags \<Rightarrow> string list \<Rightarrow> ('s, unit) io" where
  "runAdd x f args = (let rs = selectedRenderers f in
     if rs = [] then fail ''must specify at least one of --claude/--cursor/--codex/--gemini/--all-agents''
     else case Catalog x of
       Inl e \<Rightarrow> fail (''loading catalog: '' @ e)
     | Inr catalog \<Rightarrow> (case selectedSkills f args catalog of
         Inl e \<Rightarrow> fail e
       | Inr skills \<Rightarrow>
           if af_stdout f \<and> (length skills \<noteq> 1 \<or> length rs \<noteq> 1) then
             fail (''--stdout requires exactly one skill and one agent (got '' @ decimal (length skills) @ '' skills, ''
               @ decimal (length rs) @ '' agents)'')
           else for_each (\<lambda>s. for_each (add_one x f s) rs) skills))"

end
