(* ===== verification/Check_Commands.thy ===== *)
theory Check_Commands
  imports Report_Output Skill
begin

text \<open>
  The commands that only look: \<open>cmd/cli/dryrun/dryrun.go\<close>, the checks of an environment file before
  anything is created, \<open>cmd/cli/os/os.go\<close>, the supported operating systems and their images, and
  \<open>cmd/cli/skill/list.go\<close>, the catalog of skills.
\<close>

section \<open>The dryrun command\<close>

definition dryrunDialer :: "string \<Rightarrow> string \<Rightarrow> Dialer" where
  "dryrunDialer keyPath userName = (plain_dialer userName keyPath HostKeyPolicyAcceptNew)
     \<lparr>dl_Retry := \<lparr>rp_MaxAttempts = 20, rp_Delay = 1 * second, rp_Exponential = False, rp_BaseDelay = 0, rp_MaxDelay = 0\<rparr>,
      dl_Timeouts := \<lparr>tc_Handshake = 15 * second, tc_Keepalive = 0\<rparr>\<rparr>"

definition connectOrDie :: "('s, 'n, 'c) net \<Rightarrow> string \<Rightarrow> string \<Rightarrow> string \<Rightarrow> ('s, unit) io" where
  "connectOrDie nt keyPath userName hostUrl =
     andthen (dial_with nt (dryrunDialer keyPath userName) hostUrl (direct_dial nt (hostPort hostUrl) 0)) (\<lambda>client.
     andthen (attempt (nt_CloseClient nt client)) (\<lambda>_. ret ()))"

definition dryrun_before :: "('s, 'f) platform \<Rightarrow> string \<Rightarrow> ('s, Environment) io" where
  "dryrun_before pl envFile =
     andthen (wrap (''failed to read config file '' @ envFile) (UnmarshalFromFile pl envFile)) (\<lambda>cfg.
     case SSHConfig_Validate (au_SSHConfig (sp_Auth (env_Spec cfg))) of
       Some e \<Rightarrow> fail (''invalid sshConfig in '' @ envFile @ '': '' @ ssh_error_text e)
     | None \<Rightarrow> (case ValidateSSHConfigMode (env_Spec cfg) of
         Some e \<Rightarrow> fail (ssh_error_text e)
       | None \<Rightarrow> ret cfg))"

definition validateAWS :: "('s, 'f) instance_env \<Rightarrow> Environment \<Rightarrow> string \<Rightarrow> ('s, unit) io" where
  "validateAWS x cfg envFile = andthen (aws_New x cfg envFile) (\<lambda>client. on_provider cfg (DryRun client))"

definition check_provider :: "('s, 'f) instance_env \<Rightarrow> ('s, 'n, 'c) net \<Rightarrow> string \<Rightarrow> Environment \<Rightarrow> ('s, Environment) io" where
  "check_provider x nt envFile cfg =
     (if sp_Provider (env_Spec cfg) = ProviderAWS then andthen (validateAWS x cfg envFile) (\<lambda>_. ret cfg)
      else if sp_Provider (env_Spec cfg) = ProviderSSH then
        (let cfg = with_username (pl_Getenv (ie_platform x) ''USER'') cfg; au = sp_Auth (env_Spec cfg) in
         andthen (connectOrDie nt (au_PrivateKey au) (au_Username au) (in_HostUrl (sp_Instance (env_Spec cfg)))) (\<lambda>_. ret cfg))
      else fail (''unknown provider '' @ sp_Provider (env_Spec cfg)))"

definition run_dryrun :: "('s, 'f) instance_env \<Rightarrow> ('s, 'n, 'c) net \<Rightarrow> string \<Rightarrow> ('s, unit) io" where
  "run_dryrun x nt envFile =
     andthen (dryrun_before (ie_platform x) envFile) (\<lambda>cfg.
     andthen (check_provider x nt envFile cfg) (\<lambda>cfg.
     case Provisioner_Dryrun cfg of Some e \<Rightarrow> fail e | None \<Rightarrow> ret ()))"

section \<open>The os commands\<close>

definition os_notes :: "OSImage \<Rightarrow> string" where
  "os_notes i = (if os_PackageManager i \<noteq> ''apt''
     then [CHR 0xE2, CHR 0x9A, CHR 0xA0] @ '' partial support (containerd only)'' else '''')"

definition os_list :: "'d printers \<Rightarrow> string" where
  "os_list pf = pf_Tab pf 2 (concat (map tabbed
     ([''ID'', ''FAMILY'', ''SSH USER'', ''PACKAGE MGR'', ''ARCHITECTURES'', ''NOTES'']
      # map (\<lambda>i. [os_ID i, os_Family i, os_SSHUsername i, os_PackageManager i, sep_by '', '' (os_Architectures i), os_notes i])
          registry_All)))"

definition os_required :: error where
  "os_required = ''OS identifier required (run 'holodeck os list' for options)''"

definition os_describe :: "string list \<Rightarrow> error + string" where
  "os_describe args = (case args of
       [] \<Rightarrow> Inl os_required
     | osID # _ \<Rightarrow> (case registry_Get osID of
         None \<Rightarrow> Inl (''unknown OS: '' @ osID @ '' (run 'holodeck os list' for available options)'')
       | Some i \<Rightarrow> Inr (line (''ID:              '' @ os_ID i) @ line (''Name:            '' @ os_Name i)
           @ line (''Family:          '' @ os_Family i) @ line (''SSH Username:    '' @ os_SSHUsername i)
           @ line (''Package Manager: '' @ os_PackageManager i)
           @ line (''Min Root Volume: '' @ show_int32 (os_MinRootVolumeGB i) @ '' GB'')
           @ line (''Architectures:   '' @ sep_by '', '' (os_Architectures i)) @ line (''AWS Owner ID:    '' @ os_OwnerID i)
           @ (if os_SSMPath i = '''' then '''' else line (''SSM Path:        '' @ os_SSMPath i)))))"

text \<open>The defaults of the flags: no region, which is required, and the architecture \<open>x86_64\<close>.\<close>

definition runAMI :: "('s, 'f) instance_env \<Rightarrow> string \<Rightarrow> string \<Rightarrow> string list \<Rightarrow> ('s, string) io" where
  "runAMI x region arch args = (case args of
       [] \<Rightarrow> fail os_required
     | osID # _ \<Rightarrow>
         andthen (wrap ''failed to load AWS config'' (ie_LoadConfig x region)) (\<lambda>(ec2, ssm, elbv2).
         andthen (Resolver_Resolve (NewResolver ec2 (Some ssm) region) osID arch) (\<lambda>resolved.
         ret (line (rs_ImageID resolved)))))"

section \<open>The skill list command\<close>

record SkillListItem =
  si_Name :: string
  si_Description :: string

definition skill_rows :: "Skill list \<Rightarrow> SkillListItem list" where
  "skill_rows skills = map (\<lambda>s. \<lparr>si_Name = sl_Name s, si_Description = sl_Description s\<rparr>) skills"

definition skill_list :: "'s skill_env \<Rightarrow> SkillListItem list printers \<Rightarrow> string \<Rightarrow> error + string" where
  "skill_list x pf outputFormat = (case Catalog x of
       Inl e \<Rightarrow> Inl (''loading catalog: '' @ e)
     | Inr skills \<Rightarrow> (let rows = skill_rows skills in
         if outputFormat = '''' \<or> outputFormat = ''table'' then
           Inr (pf_Tab pf 2 (concat (map tabbed ([''NAME'', ''DESCRIPTION''] # map (\<lambda>r. [si_Name r, si_Description r]) rows))))
         else if outputFormat = ''json'' then pf_JSON pf rows
         else if outputFormat = ''yaml'' then map_sum (\<lambda>e. ''marshalling yaml: '' @ e) id (pf_YAML pf rows)
         else Inl (''invalid output format '' @ quoted outputFormat @ '': must be table, json, or yaml'')))"

end
