(* ===== verification/Skill_Props.thy ===== *)
theory Skill_Props
  imports Skill
begin

text \<open>
  Installing a skill into a shared file keeps the rest of that file and can be repeated, except after a
  section that was cut off; and an installation that fails leaves every file as it was.
\<close>

section \<open>Finding text\<close>

lemma contains_Nil [simp]: "contains [] t \<longleftrightarrow> t = []"
  by (simp add: contains.simps [of "[]"])

lemma contains_Cons: "contains (c # s) t \<longleftrightarrow> prefix t (c # s) \<or> contains s t"
  by (simp add: contains.simps [of "c # s"])

lemma cut_at_Some: "cut_at t s = Some (a, b) \<Longrightarrow> s = a @ t @ b"
  by (induction t s arbitrary: a b rule: cut_at.induct) (auto split: if_splits simp: prefix_def)

lemma cut_at_first: "cut_at t s = Some (a, b) \<Longrightarrow> t \<noteq> [] \<Longrightarrow> \<not> contains a t"
proof (induction t s arbitrary: a b rule: cut_at.induct)
  case (2 t c s)
  show ?case
  proof (cases "prefix t (c # s)")
    case True
    with 2 show ?thesis by auto
  next
    case False
    with 2 obtain a' where a: "a = c # a'" "cut_at t s = Some (a', b)" by auto
    then have "\<not> contains a' t" using 2 False by blast
    moreover have "\<not> prefix t (c # a')"
      using False cut_at_Some [OF a(2)] by (metis append_Cons prefix_append)
    ultimately show ?thesis unfolding a by (simp add: contains_Cons)
  qed
qed (auto split: if_splits)

lemma cut_at_None: "cut_at t s = None \<longleftrightarrow> \<not> contains s t"
  by (induction t s rule: cut_at.induct) (auto simp: contains_Cons)

lemma prefix_beyond: "prefix t (u @ z # v) \<Longrightarrow> prefix t u \<or> prefix (u @ [z]) t"
  by (auto simp: prefix_append prefix_Cons)

text \<open>A mark begins with a character that it has only once, so two marks never overlap.\<close>

lemma cut_at_mark:
  assumes "x \<notin> set t" "\<not> contains a (x # t)"
  shows "cut_at (x # t) (a @ (x # t) @ b) = Some (a, b)"
  using assms(2)
proof (induction a)
  case (Cons c a)
  have "\<not> prefix (x # t) (c # a @ (x # t) @ b)"
  proof
    assume "prefix (x # t) (c # a @ (x # t) @ b)"
    then consider "prefix (x # t) (c # a)" | "prefix (a @ [x]) t"
      using prefix_beyond [of "x # t" "c # a" x "t @ b"] by auto
    then show False
      using Cons.prems assms(1) by cases (auto simp: contains_Cons prefix_def)
  qed
  moreover have "\<not> contains a (x # t)"
    using Cons.prems by (simp add: contains_Cons)
  ultimately show ?case using Cons.IH by simp
qed simp

lemma contains_newline:
  assumes "t \<noteq> []" "newline \<notin> set t"
  shows "contains (u @ newline # v) t \<longleftrightarrow> contains u t \<or> contains v t"
proof (induction u)
  case Nil
  from assms show ?case by (cases t) (auto simp: contains_Cons)
next
  case (Cons c u)
  have "\<not> prefix ((c # u) @ [newline]) t"
    using assms(2) set_mono_prefix [of "(c # u) @ [newline]" t] by auto
  then have "prefix t (c # u @ newline # v) \<longleftrightarrow> prefix t (c # u)"
    using prefix_beyond [of t "c # u" newline v] prefix_prefix [of t "c # u" "newline # v"] by auto
  then show ?case using Cons.IH by (simp add: contains_Cons)
qed

section \<open>Marks and sections\<close>

text \<open>The characters of a name are those of the pattern for names; the marks hold no other newline or \<open><\<close>.\<close>

lemma skill_name_chars:
  assumes "skillNameRE n"
  shows "CHR ''<'' \<notin> set n" "newline \<notin> set n"
proof -
  have "set n \<subseteq> insert (CHR ''-'') (Collect name_char)"
    using assms by (auto simp: skillNameRE_def list_all_iff split: list.splits)
  moreover have "\<not> name_char (CHR ''<'')" "\<not> name_char newline" by (simp_all add: name_char_def newline_def)
  ultimately show "CHR ''<'' \<notin> set n" "newline \<notin> set n" by (auto simp: newline_def)
qed

lemma mark_shape:
  assumes "skillNameRE n"
  shows "\<exists>t. begin_mark n = CHR ''<'' # t \<and> CHR ''<'' \<notin> set t \<and> newline \<notin> set t"
    "\<exists>t. end_mark n = CHR ''<'' # t \<and> CHR ''<'' \<notin> set t \<and> newline \<notin> set t"
    "newline \<notin> set (begin_mark n)" "newline \<notin> set (end_mark n)" "begin_mark n \<noteq> []" "end_mark n \<noteq> []"
  using skill_name_chars [OF assms] by (auto simp: begin_mark_def end_mark_def newline_def)

lemma cut_at_begin: "skillNameRE n \<Longrightarrow> \<not> contains a (begin_mark n) \<Longrightarrow> cut_at (begin_mark n) (a @ begin_mark n @ b) = Some (a, b)"
  using mark_shape(1) cut_at_mark by metis

lemma cut_at_end: "skillNameRE n \<Longrightarrow> \<not> contains a (end_mark n) \<Longrightarrow> cut_at (end_mark n) (a @ end_mark n @ b) = Some (a, b)"
  using mark_shape(2) cut_at_mark by metis

lemma no_end_in_begin:
  assumes "skillNameRE n"
  shows "\<not> contains (begin_mark n) (end_mark n)"
proof -
  have "\<not> contains s (end_mark n)" if "CHR ''<'' \<notin> set s" for s
    using that by (auto simp: contains_iff end_mark_def)
  moreover have "CHR ''<'' \<notin> set (tl (begin_mark n))" using mark_shape(1) [OF assms] by auto
  moreover have "\<not> prefix (end_mark n) (begin_mark n)" by (simp add: begin_mark_def end_mark_def)
  ultimately show ?thesis by (metis begin_mark_def contains_Cons append_Cons list.sel(3))
qed

text \<open>A section is its two marks with a text between them.\<close>

definition section_text :: "Skill \<Rightarrow> string" where
  "section_text s = lf @ ''## '' @ sl_Name s @ lf @ lf @ sl_Description s @ lf @ lf @ sl_Body s @ lf"

lemma renderSection_parts: "renderSection s = begin_mark (sl_Name s) @ section_text s @ end_mark (sl_Name s) @ lf"
  by (simp add: renderSection_def section_text_def)

definition unmarked :: "Skill \<Rightarrow> bool" where
  "unmarked s \<longleftrightarrow> skillNameRE (sl_Name s) \<and> \<not> contains (sl_Description s) (end_mark (sl_Name s))
     \<and> \<not> contains (sl_Body s) (end_mark (sl_Name s))"

lemma no_end_before:
  assumes "unmarked s" "\<not> contains a (end_mark (sl_Name s))"
  shows "\<not> contains (a @ section_text s) (end_mark (sl_Name s))"
proof -
  let ?e = "end_mark (sl_Name s)"
  have name: "skillNameRE (sl_Name s)" using assms(1) by (simp add: unmarked_def)
  note line = contains_newline [OF mark_shape(6) [OF name] mark_shape(4) [OF name]]
  have "\<not> contains (''## '' @ sl_Name s) ?e"
    using skill_name_chars [OF name] by (auto simp: contains_iff end_mark_def append_eq_Cons_conv)
  moreover have "\<not> contains [] ?e" using mark_shape(6) [OF name] by simp
  ultimately show ?thesis
    using assms line [of a] line [of "''## '' @ sl_Name s"] line [of "[]"] line [of "sl_Description s"] line [of "sl_Body s" "[]"]
    by (simp add: section_text_def lf_def unmarked_def)
qed

section \<open>Splicing a section\<close>

lemma drop_mark: "drop (length a) (a @ b @ c) = b @ c"
  by simp

text \<open>What is spliced when the section is there, when it is not, and when it was cut off.\<close>

lemma splice_replaces:
  assumes "unmarked s" "\<not> contains pre (begin_mark (sl_Name s))" "\<not> contains (begin_mark (sl_Name s) @ mid) (end_mark (sl_Name s))"
  shows "spliceSection (pre @ begin_mark (sl_Name s) @ mid @ end_mark (sl_Name s) @ rest) sec (sl_Name s)
    = pre @ sec @ (case rest of c # r \<Rightarrow> if c = newline then r else rest | [] \<Rightarrow> [])"
proof -
  have name: "skillNameRE (sl_Name s)" using assms(1) by (simp add: unmarked_def)
  show ?thesis
    using cut_at_begin [OF name assms(2), of "mid @ end_mark (sl_Name s) @ rest"] cut_at_end [OF name assms(3), of rest]
    by (simp add: spliceSection_def)
qed

lemma splice_section:
  assumes "unmarked s" "\<not> contains pre (begin_mark (sl_Name s))"
  shows "spliceSection (pre @ renderSection s @ rest) (renderSection s) (sl_Name s) = pre @ renderSection s @ rest"
proof -
  have "\<not> contains (begin_mark (sl_Name s) @ section_text s) (end_mark (sl_Name s))"
    using no_end_before [OF assms(1)] no_end_in_begin assms(1) by (simp add: unmarked_def)
  from splice_replaces [OF assms this, of "lf @ rest" "renderSection s"] show ?thesis
    by (simp add: renderSection_parts lf_def)
qed

definition separator :: "string \<Rightarrow> string" where
  "separator existing = (if existing \<noteq> [] \<and> last existing \<noteq> newline then lf else []) @ (if existing \<noteq> [] then lf else [])"

lemma appended_separator: "appended existing sec = existing @ separator existing @ sec"
  by (simp add: appended_def separator_def)

lemma contains_separator:
  assumes "t \<noteq> []" "newline \<notin> set t"
  shows "contains (existing @ separator existing @ v) t \<longleftrightarrow> contains existing t \<or> contains v t"
  using assms contains_newline [OF assms, of "[]" v] contains_newline [OF assms, of existing v]
    contains_newline [OF assms, of existing "newline # v"]
  by (auto simp: separator_def lf_def)

text \<open>A file whose section of this skill is complete, if it has one.\<close>

definition complete_section :: "string \<Rightarrow> string \<Rightarrow> bool" where
  "complete_section existing name = (case cut_at (begin_mark name) existing of
     None \<Rightarrow> True | Some (pre, _) \<Rightarrow> contains (drop (length pre) existing) (end_mark name))"


text \<open>
  A section that was cut off, a begin mark without an end mark, costs the rest of the file. The first
  installation appends the new section in order not to replace anything, and so completes the old
  one; the next installation of the same skill then drops all the text that followed the begin mark.
\<close>

theorem dangling_section_loses_text:
  assumes "unmarked s" and "\<not> contains pre (begin_mark (sl_Name s))"
    and "\<not> contains (begin_mark (sl_Name s) @ user) (end_mark (sl_Name s))"
  shows "spliceSection (pre @ begin_mark (sl_Name s) @ user) (renderSection s) (sl_Name s)
      = pre @ begin_mark (sl_Name s) @ user @ separator (pre @ begin_mark (sl_Name s) @ user) @ renderSection s
    \<and> spliceSection (spliceSection (pre @ begin_mark (sl_Name s) @ user) (renderSection s) (sl_Name s)) (renderSection s) (sl_Name s)
      = pre @ renderSection s"
proof -
  define existing where "existing = pre @ begin_mark (sl_Name s) @ user"
  let ?sec = "renderSection s"
  let ?n = "sl_Name s" and ?b = "begin_mark (sl_Name s)" and ?e = "end_mark (sl_Name s)"
  have name: "skillNameRE ?n" using assms(1) by (simp add: unmarked_def)
  note ends = mark_shape(6) [OF name] mark_shape(4) [OF name]
  have "cut_at ?b existing = Some (pre, user)" "cut_at ?e (?b @ user) = None"
    using cut_at_begin [OF name assms(2), of user] assms(3) by (simp_all add: existing_def cut_at_None)
  then have once: "spliceSection existing ?sec ?n = existing @ separator existing @ ?sec"
    by (simp add: spliceSection_def existing_def appended_separator)
  have sep: "separator (?b @ user) = separator existing"
    using mark_shape(5) [OF name] by (simp add: separator_def existing_def)
  have "\<not> contains ((?b @ user) @ separator (?b @ user) @ ?b) ?e"
    using contains_separator [OF ends, of "?b @ user" ?b] assms(3) no_end_in_begin [OF name] by simp
  then have "\<not> contains (?b @ user @ separator existing @ ?b) ?e" unfolding sep by simp
  from no_end_before [OF assms(1) this]
  have "\<not> contains (?b @ user @ separator existing @ ?b @ section_text s) ?e" by simp
  from splice_replaces [OF assms(1,2) this, of lf ?sec]
  have "spliceSection (spliceSection existing ?sec ?n) ?sec ?n = pre @ ?sec"
    unfolding once by (simp add: existing_def renderSection_parts lf_def)
  with once show ?thesis by (simp add: existing_def)
qed

definition demo_skill :: Skill where
  "demo_skill = \<lparr>sl_Name = ''demo'', sl_Description = ''A demo'', sl_Body = ''Do it.''\<rparr>"

lemma demo_unmarked: "unmarked demo_skill"
  by code_simp


theorem dangling_section_loses_text_witness:
  "spliceSection (spliceSection (begin_mark ''demo'' @ ''Mine'') (renderSection demo_skill) ''demo'') (renderSection demo_skill) ''demo''
    = renderSection demo_skill"
proof -
  have "\<not> contains ([] :: string) (begin_mark (sl_Name demo_skill))"
    "\<not> contains (begin_mark (sl_Name demo_skill) @ ''Mine'') (end_mark (sl_Name demo_skill))" by code_simp+
  moreover have "sl_Name demo_skill = ''demo''" by (simp add: demo_skill_def)
  ultimately show ?thesis
    using dangling_section_loses_text [OF demo_unmarked, of "[]" "''Mine''", THEN conjunct2] by (simp only: append_Nil simp_thms)
qed

section \<open>Installations that fail\<close>

text \<open>What the code relies on: \<open>content\<close> is what a path holds; only writing, removing and renaming change
  it, a temporary file is new, and a failed call of one of these leaves the other files alone.\<close>

definition file_laws :: "'s skill_env \<Rightarrow> ('s \<Rightarrow> string \<Rightarrow> string option) \<Rightarrow> bool" where
  "file_laws x content \<longleftrightarrow>
     (\<forall>p. pres (keeps content) (sk_Stat x p)) \<and> (\<forall>p. pres (keeps content) (sk_MkdirAll x p))
     \<and> (\<forall>p. pres (keeps content) (sk_Close x p)) \<and> pres (keeps content) (sk_ReadLine x) \<and> (\<forall>t. pres (keeps content) (sk_Print x t))
     \<and> (\<forall>p s r s'. sk_ReadFile x p s = (r, s') \<longrightarrow> content s' = content s \<and> (\<forall>v. r = Inr v \<longrightarrow> v = content s p))
     \<and> (\<forall>d pat s r s'. sk_CreateTemp x d pat s = (r, s') \<longrightarrow>
          (case r of Inl _ \<Rightarrow> content s' = content s | Inr t \<Rightarrow> content s t = None \<and> content s' = (content s)(t \<mapsto> [])))
     \<and> (\<forall>t c s r s'. sk_Write x t c s = (r, s') \<longrightarrow>
          (\<forall>p. p \<noteq> t \<longrightarrow> content s' p = content s p) \<and> (\<forall>u. r = Inr u \<longrightarrow> content s t = Some [] \<longrightarrow> content s' t = Some c))
     \<and> (\<forall>t s r s'. sk_Remove x t s = (r, s') \<longrightarrow> (\<forall>p. p \<noteq> t \<longrightarrow> content s' p = content s p))
     \<and> (\<forall>t d s r s'. sk_Rename x t d s = (r, s') \<longrightarrow>
          (case r of Inl _ \<Rightarrow> content s' = content s | Inr _ \<Rightarrow> content s' = (content s)(t := None, d := content s t)))"

text \<open>The files that are there stay as they are, apart from those in a set.\<close>

definition files_kept :: "string set \<Rightarrow> (string \<Rightarrow> string option) \<Rightarrow> (string \<Rightarrow> string option) \<Rightarrow> bool" where
  "files_kept except f g \<longleftrightarrow> (\<forall>p. p \<notin> except \<longrightarrow> f p \<noteq> None \<longrightarrow> g p = f p)"

lemma files_kept_refl [simp]: "files_kept e f f"
  by (simp add: files_kept_def)

text \<open>The laws one by one.\<close>

lemma content_kept: "pres (keeps f) m \<Longrightarrow> m s = (r, s') \<Longrightarrow> f s' = f s"
  unfolding pres_def keeps_def by (metis snd_conv)

lemma quiet_laws:
  assumes "file_laws x content"
  shows "sk_Stat x p s = (rb, s') \<Longrightarrow> content s' = content s" "sk_MkdirAll x p s = (ru, s') \<Longrightarrow> content s' = content s"
    "sk_Close x p s = (ru, s') \<Longrightarrow> content s' = content s" "sk_ReadLine x s = (ro, s') \<Longrightarrow> content s' = content s"
    "sk_Print x p s = (ru, s') \<Longrightarrow> content s' = content s" "sk_ReadFile x p s = (ro, s') \<Longrightarrow> content s' = content s"
proof -
  have "pres (keeps content) (sk_Stat x p)" "pres (keeps content) (sk_MkdirAll x p)" "pres (keeps content) (sk_Close x p)"
    "pres (keeps content) (sk_ReadLine x)" "pres (keeps content) (sk_Print x p)"
    using assms by (simp_all add: file_laws_def)
  note content_kept [OF this(1)] content_kept [OF this(2)] content_kept [OF this(3)] content_kept [OF this(4)] content_kept [OF this(5)]
  then show "sk_Stat x p s = (rb, s') \<Longrightarrow> content s' = content s" "sk_MkdirAll x p s = (ru, s') \<Longrightarrow> content s' = content s"
    "sk_Close x p s = (ru, s') \<Longrightarrow> content s' = content s" "sk_ReadLine x s = (ro, s') \<Longrightarrow> content s' = content s"
    "sk_Print x p s = (ru, s') \<Longrightarrow> content s' = content s" by blast+
  show "sk_ReadFile x p s = (ro, s') \<Longrightarrow> content s' = content s" using assms by (simp add: file_laws_def)
qed

lemma change_laws:
  assumes "file_laws x content"
  shows "sk_CreateTemp x d pat s = (Inr t, s') \<Longrightarrow> content s t = None \<and> content s' = (content s)(t \<mapsto> [])"
    "sk_CreateTemp x d pat s = (Inl e, s') \<Longrightarrow> content s' = content s"
    "sk_Write x t c s = (r, s') \<Longrightarrow> \<forall>p. p \<noteq> t \<longrightarrow> content s' p = content s p"
    "sk_Write x t c s = (Inr u, s') \<Longrightarrow> content s t = Some [] \<Longrightarrow> content s' t = Some c"
    "sk_Remove x t s = (r, s') \<Longrightarrow> \<forall>p. p \<noteq> t \<longrightarrow> content s' p = content s p"
    "sk_Rename x t d s = (Inl e, s') \<Longrightarrow> content s' = content s"
    "sk_Rename x t d s = (Inr u, s') \<Longrightarrow> content s' = (content s)(t := None, d := content s t)"
  using assms unfolding file_laws_def by (elim conjE; fastforce)+

lemma through_temp_files:
  assumes laws: "file_laws x content" and temp: "content s t = Some []" and run: "through_temp x dest c t s = (r, s')"
  shows "case r of Inl _ \<Rightarrow> (\<forall>p. p \<noteq> t \<longrightarrow> content s' p = content s p)
    | Inr _ \<Rightarrow> content s' dest = Some c \<and> (\<forall>p. p \<noteq> t \<longrightarrow> p \<noteq> dest \<longrightarrow> content s' p = content s p)"
proof -
  obtain rw s1 where w: "sk_Write x t c s = (rw, s1)" by (cases "sk_Write x t c s")
  note others = change_laws(3) [OF laws w]
  obtain rc s2 where cl: "sk_Close x t s1 = (rc, s2)" by (cases "sk_Close x t s1")
  note same = quiet_laws(3) [OF laws cl]
  obtain rr s3 where mv: "sk_Rename x t dest s2 = (rr, s3)" by (cases "sk_Rename x t dest s2")
  show ?thesis
  proof (cases rw)
    case (Inl e)
    then have "isl r" "s' = s2"
      using run w cl by (auto simp: through_temp_def andthen_def catch_def attempt_def fail_def)
    then show ?thesis using others same by (cases r) simp_all
  next
    case (Inr u)
    then have written: "content s1 t = Some c" using change_laws(4) [OF laws _ temp] w by simp
    show ?thesis
    proof (cases rc)
      case Inl
      then have "isl r" "s' = s2"
        using run w \<open>rw = Inr u\<close> cl by (auto simp: through_temp_def andthen_def catch_def wrap_def fail_def)
      then show ?thesis using others same by (cases r) simp_all
    next
      case (Inr v)
      then have r: "isl r = isl rr" "s' = s3"
        using run w \<open>rw = Inr u\<close> cl mv
        by (auto simp: through_temp_def andthen_def catch_def wrap_def fail_def split: sum.splits)
      show ?thesis
      proof (cases rr)
        case (Inl e)
        then show ?thesis using change_laws(6) [OF laws, of t dest s2 e s3] mv r same others by (cases r) simp_all
      next
        case (Inr z)
        then show ?thesis using change_laws(7) [OF laws, of t dest s2 z s3] mv r same others written by (cases r) simp_all
      qed
    qed
  qed
qed

lemma writeFileAtomic_files:
  assumes laws: "file_laws x content" and run: "writeFileAtomic x dest c s = (r, s')"
  shows "case r of Inl _ \<Rightarrow> files_kept {} (content s) (content s')
    | Inr _ \<Rightarrow> content s' dest = Some c \<and> files_kept {dest} (content s) (content s')"
proof -
  obtain rm s1 where mk: "sk_MkdirAll x (path_Dir dest) s = (rm, s1)" by (cases "sk_MkdirAll x (path_Dir dest) s")
  note s1 = quiet_laws(2) [OF laws mk]
  obtain rt s2 where temp: "sk_CreateTemp x (path_Dir dest) (path_Base dest @ ''.tmp.*'') s1 = (rt, s2)"
    by (cases "sk_CreateTemp x (path_Dir dest) (path_Base dest @ ''.tmp.*'') s1")
  show ?thesis
  proof (cases "isl rm \<or> isl rt")
    case True
    then have "isl r" "content s' = content s"
      using run mk temp s1 change_laws(2) [OF laws, of "path_Dir dest" "path_Base dest @ ''.tmp.*''" s1 _ s2]
      by (cases rm; cases rt; auto simp: writeFileAtomic_def andthen_def wrap_def catch_def fail_def)+
    then show ?thesis by (cases r) simp_all
  next
    case False
    then obtain u t where ok: "rm = Inr u" "rt = Inr t" by (metis isl_def sum.exhaust)
    have r: "removing x t (through_temp x dest c t) s2 = (r, s')"
      using run mk temp ok by (simp add: writeFileAtomic_def andthen_def wrap_def catch_def)
    obtain rb s3 where body: "through_temp x dest c t s2 = (rb, s3)" by (cases "through_temp x dest c t s2")
    have new: "content s t = None" "content s2 = (content s)(t \<mapsto> [])"
      using change_laws(1) [OF laws] temp ok s1 by metis+
    then have "content s2 t = Some []" by simp
    note steps = through_temp_files [OF laws this body]
    show ?thesis
    proof (cases rb)
      case (Inl e)
      obtain rr s4 where rm: "sk_Remove x t s3 = (rr, s4)" by (cases "sk_Remove x t s3")
      then have "r = Inl e" "s' = s4"
        using r body Inl by (auto simp: removing_def catch_def andthen_def attempt_def fail_def)
      then show ?thesis using steps Inl new change_laws(5) [OF laws rm] by (simp add: files_kept_def) (metis option.distinct(1))
    next
      case (Inr v)
      then have "r = Inr v" "s' = s3" using r body by (auto simp: removing_def catch_def)
      then show ?thesis using steps Inr new by (simp add: files_kept_def) (metis option.distinct(1))
    qed
  qed
qed

lemma may_overwrite_quiet:
  assumes laws: "file_laws x content" and run: "may_overwrite x force dest s = (r, s')"
  shows "content s' = content s"
proof -
  obtain re s1 where st: "sk_Stat x dest s = (re, s1)" by (cases "sk_Stat x dest s")
  obtain rp s2 where pr: "sk_Print x (''overwrite '' @ dest @ ''? [y/N] '') s1 = (rp, s2)"
    by (cases "sk_Print x (''overwrite '' @ dest @ ''? [y/N] '') s1")
  obtain rl s3 where rd: "sk_ReadLine x s2 = (rl, s3)" by (cases "sk_ReadLine x s2")
  note same = quiet_laws(1) [OF laws st] quiet_laws(5) [OF laws pr] quiet_laws(4) [OF laws rd]
  have "s' \<in> {s1, s2, s3}"
    using run st pr rd
    by (auto simp: may_overwrite_def destinationExists_def confirmOverwrite_def andthen_def wrap_def catch_def fail_def ret_def
        split: sum.splits if_splits option.splits)
  then show ?thesis using same by auto
qed

text \<open>The two ways of writing a skill: into a section of a shared file, or as a file of its own.\<close>

lemma installSingleFile_files:
  assumes laws: "file_laws x content" and run: "installSingleFile x dest t n s = (r, s')"
  shows "case r of Inl _ \<Rightarrow> files_kept {} (content s) (content s')
    | Inr _ \<Rightarrow> files_kept {dest} (content s) (content s')
        \<and> content s' dest = Some (spliceSection (case content s dest of None \<Rightarrow> [] | Some t \<Rightarrow> t) t n)"
proof -
  obtain rr s1 where rd: "sk_ReadFile x dest s = (rr, s1)" by (cases "sk_ReadFile x dest s")
  note same = quiet_laws(6) [OF laws rd]
  show ?thesis
  proof (cases rr)
    case (Inl e)
    then have "isl r" "s' = s1"
      using run rd by (auto simp: installSingleFile_def andthen_def wrap_def catch_def fail_def)
    then show ?thesis using same by (cases r) simp_all
  next
    case raw: (Inr raw)
    then have was: "raw = content s dest" using laws rd by (simp add: file_laws_def)
    then have "writeFileAtomic x dest (spliceSection (case raw of None \<Rightarrow> [] | Some t \<Rightarrow> t) t n) s1 = (r, s')"
      using run rd raw by (auto simp: installSingleFile_def andthen_def wrap_def catch_def)
    then show ?thesis using writeFileAtomic_files [OF laws] same was by (cases r) fastforce+
  qed
qed

lemma install_own_file_files:
  assumes laws: "file_laws x content" and run: "andthen (may_overwrite x force dest) (\<lambda>_. writeFileAtomic x dest t) s = (r, s')"
  shows "case r of Inl _ \<Rightarrow> files_kept {} (content s) (content s')
    | Inr _ \<Rightarrow> files_kept {dest} (content s) (content s') \<and> content s' dest = Some t"
proof -
  obtain rm s1 where mo: "may_overwrite x force dest s = (rm, s1)" by (cases "may_overwrite x force dest s")
  note same = may_overwrite_quiet [OF laws mo]
  show ?thesis
  proof (cases rm)
    case (Inl e)
    then have "isl r" "s' = s1" using run mo by (auto simp: andthen_def)
    then show ?thesis using same by (cases r) simp_all
  next
    case (Inr u)
    then have "writeFileAtomic x dest t s1 = (r, s')" using run mo by (simp add: andthen_def)
    then show ?thesis using writeFileAtomic_files [OF laws] same by (cases r) fastforce+
  qed
qed

text \<open>
  C39: an installation that fails, at whatever step, leaves every file that was there as it was. One that
  succeeds changes at most the file it reports, a dry run not even that, and what that file then holds
  is the rendered skill, or the old text with the section of the skill spliced in.
\<close>

theorem failed_install_keeps_files:
  assumes "file_laws x content" and "Install x a sk opts s = (r, s')"
  shows "case r of Inl _ \<Rightarrow> files_kept {} (content s) (content s')
    | Inr dest \<Rightarrow> files_kept {dest} (content s) (content s')
        \<and> content s' dest = (if il_DryRun opts then content s dest
            else if SingleFile a then Some (spliceSection (case content s dest of None \<Rightarrow> [] | Some t \<Rightarrow> t) (Render a sk) (sl_Name sk))
            else Some (Render a sk))"
proof (cases "InstallPath x a sk (il_Global opts)")
  case (Inl e)
  then have "r = Inl e" "s' = s" using assms(2) by (simp_all add: Install_def fail_def)
  then show ?thesis by simp
next
  case (Inr dest)
  let ?m = "if il_DryRun opts then sk_Print x (''would write '' @ dest @ '' ('' @ decimal (length (Render a sk)) @ '' bytes)'' @ lf)
    else if SingleFile a then installSingleFile x dest (Render a sk) (sl_Name sk)
    else andthen (may_overwrite x (il_Force opts) dest) (\<lambda>_. writeFileAtomic x dest (Render a sk))"
  obtain rm s1 where m: "?m s = (rm, s1)" by (cases "?m s")
  have r: "r = map_sum id (\<lambda>_. dest) rm" "s' = s1"
    using assms(2) Inr m by (auto simp: Install_def andthen_def ret_def split: sum.splits)
  consider (dry) "il_DryRun opts" | (single) "\<not> il_DryRun opts" "SingleFile a" | (own) "\<not> il_DryRun opts" "\<not> SingleFile a" by blast
  then show ?thesis
  proof cases
    case dry
    with m obtain t where "sk_Print x t s = (rm, s1)" by auto
    with dry quiet_laws(5) [OF assms(1)] show ?thesis unfolding r by (cases rm) auto
  next
    case single
    with m have "installSingleFile x dest (Render a sk) (sl_Name sk) s = (rm, s1)" by simp
    from installSingleFile_files [OF assms(1) this] single show ?thesis unfolding r by (cases rm) simp_all
  next
    case own
    with m have "andthen (may_overwrite x (il_Force opts) dest) (\<lambda>_. writeFileAtomic x dest (Render a sk)) s = (rm, s1)" by simp
    from install_own_file_files [OF assms(1) this] own show ?thesis unfolding r by (cases rm) simp_all
  qed
qed

text \<open>A disk on which renaming fails: a map from paths to texts.\<close>

definition stuck_disk :: "(string \<Rightarrow> string option) skill_env" where
  "stuck_disk = \<lparr>sk_Unmarshal = (\<lambda>_. Inl ''''), sk_walk = [], sk_HomeDir = Inr ''/root'',
     sk_Stat = (\<lambda>p f. (Inr (f p \<noteq> None), f)), sk_ReadFile = (\<lambda>p f. (Inr (f p), f)), sk_MkdirAll = (\<lambda>_. ret ()),
     sk_CreateTemp = (\<lambda>d pat f. if f (d @ ''/'' @ pat) = None then (Inr (d @ ''/'' @ pat), f(d @ ''/'' @ pat \<mapsto> [])) else (Inl ''exists'', f)),
     sk_Write = (\<lambda>t c f. (Inr (), f(t \<mapsto> c))), sk_Close = (\<lambda>_. ret ()), sk_Remove = (\<lambda>t f. (Inr (), f(t := None))),
     sk_Rename = (\<lambda>_ _. fail ''disk full''), sk_IsTTY = False, sk_ReadLine = ret None, sk_Print = (\<lambda>_. ret ())\<rparr>"

lemma stuck_disk_laws: "file_laws stuck_disk (\<lambda>f. f)"
  by (auto simp: file_laws_def stuck_disk_def pres_def keeps_def ret_def fail_def split: if_splits)

theorem failed_install_keeps_files_witness:
  "snd (Install stuck_disk Codex demo_skill \<lparr>il_Global = False, il_Force = False, il_DryRun = False\<rparr> [''AGENTS.md'' \<mapsto> ''Mine'']) ''AGENTS.md''
    = Some ''Mine''"
proof -
  let ?run = "Install stuck_disk Codex demo_skill \<lparr>il_Global = False, il_Force = False, il_DryRun = False\<rparr> [''AGENTS.md'' \<mapsto> ''Mine'']"
  have "isl (fst ?run)" by code_simp
  then obtain e where "?run = (Inl e, snd ?run)" by (metis isl_def prod.collapse)
  from failed_install_keeps_files [OF stuck_disk_laws this] show ?thesis by (simp add: files_kept_def)
qed

end
