(* ===== verification/Logger.thy ===== *)
theory Logger
  imports Prelude
begin

text \<open>
  \<open>internal/logger/logger.go\<close> and the choice of the verbosity in \<open>cmd/cli/main.go\<close>: the messages, and the
  loading animations, each of which is a goroutine that \<open>Exit\<close> stops and waits for.

  The animations are a step relation on the shared state. A step is what happens under the lock or
  between two points where the scheduler may switch: \<open>Load\<close> and \<open>Spawn\<close> are the two halves of
  \<open>Loading\<close>, before and after the \<open>go\<close> statement, \<open>Cancel\<close> and \<open>Clear\<close> those of the function it returns,
  \<open>Stop\<close> and \<open>Quit\<close> those of \<open>Exit\<close>, before and after \<open>Wg.Wait\<close>. Text is in UTF-8.
\<close>

section \<open>Messages\<close>

datatype Verbosity = VerbosityQuiet | VerbosityNormal | VerbosityVerbose | VerbosityDebug

definition level :: "Verbosity \<Rightarrow> nat" where
  "level v = (case v of VerbosityQuiet \<Rightarrow> 0 | VerbosityNormal \<Rightarrow> 1 | VerbosityVerbose \<Rightarrow> 2 | VerbosityDebug \<Rightarrow> 3)"

text \<open>The flags of the command line; the first that is given counts.\<close>

definition flag_verbosity :: "bool \<Rightarrow> bool \<Rightarrow> bool \<Rightarrow> Verbosity" where
  "flag_verbosity debug verbose quiet =
     (if debug then VerbosityDebug else if verbose then VerbosityVerbose else if quiet then VerbosityQuiet else VerbosityNormal)"

definition esc :: string where "esc = [CHR 0x1B, CHR ''['']"
definition reset :: string where "reset = esc @ ''0m''"
definition green :: string where "green = esc @ ''32m''"
definition yellowText :: string where "yellowText = esc @ ''33m''"
definition redText :: string where "redText = esc @ ''31m''"
definition checkmark :: string where "checkmark = [CHR 0xE2, CHR 0x9C, CHR 0x94]"
definition redXEmoji :: string where "redXEmoji = [CHR 0xE2, CHR 0x9D, CHR 0x8C]"
definition warningSign :: string where "warningSign = [CHR 0xE2, CHR 0x9A, CHR 0xA0]"
definition loadingEmoji :: string where "loadingEmoji = [CHR 0xF0, CHR 0x9F, CHR 0x8C, CHR 0x80]"

definition printMessage :: "string \<Rightarrow> string \<Rightarrow> string \<Rightarrow> string" where
  "printMessage color emoji message = color @ emoji @ reset @ [CHR 0x09] @ message @ [CHR 0x0A]"

definition with_newline :: "string \<Rightarrow> string" where
  "with_newline format = (if format = [] \<or> last format \<noteq> CHR 0x0A then format @ [CHR 0x0A] else format)"

text \<open>\<open>fmt.Sprintf\<close> with the arguments of a call is the function \<open>sprintf\<close>.\<close>

definition Info :: "Verbosity \<Rightarrow> (string \<Rightarrow> string) \<Rightarrow> string \<Rightarrow> string" where
  "Info v sprintf format = (if level v < level VerbosityNormal then '''' else sprintf (with_newline format))"

definition Check :: "Verbosity \<Rightarrow> (string \<Rightarrow> string) \<Rightarrow> string \<Rightarrow> string" where
  "Check v sprintf format = (if level v < level VerbosityNormal then '''' else printMessage green checkmark (sprintf format))"

definition Warning :: "(string \<Rightarrow> string) \<Rightarrow> string \<Rightarrow> string" where
  "Warning sprintf format = printMessage yellowText warningSign (sprintf format)"

definition Error :: "error \<Rightarrow> string" where
  "Error e = printMessage redText redXEmoji e"

definition Debug :: "Verbosity \<Rightarrow> (string \<Rightarrow> string) \<Rightarrow> string \<Rightarrow> string" where
  "Debug v sprintf format = (if level v < level VerbosityVerbose then '''' else sprintf (''[DEBUG] '' @ with_newline format))"

definition Trace :: "Verbosity \<Rightarrow> (string \<Rightarrow> string) \<Rightarrow> string \<Rightarrow> string" where
  "Trace v sprintf format = (if level v < level VerbosityDebug then '''' else sprintf (''[TRACE] '' @ with_newline format))"

section \<open>The state of the animations\<close>

text \<open>The number in \<open>Running\<close> is the local \<open>i\<close> of the goroutine.\<close>

datatype loading_phase = Pending | Running nat | Finished

text \<open>\<open>ld_cause\<close> is \<open>None\<close> until the context is cancelled, and then whether the cause is \<open>ErrLoadingFailed\<close>.\<close>

record loading =
  ld_message :: string
  ld_phase :: loading_phase
  ld_cause :: "bool option"

text \<open>The loading with the number \<open>i\<close> has the slot \<open>i\<close> in \<open>activeCancels\<close>: a slot is never reused.\<close>

record log_state =
  lg_loads :: "loading list"
  lg_active :: "nat option list"
  lg_exited :: bool
  lg_Wg :: int
  lg_stdout :: string
  lg_quit :: bool

definition NewLogger :: log_state where
  "NewLogger = \<lparr>lg_loads = [], lg_active = [], lg_exited = False, lg_Wg = 0, lg_stdout = '''', lg_quit = False\<rparr>"

datatype log_step = Load string | Spawn nat | Tick nat | Cancel nat bool | Clear nat | Finish nat | Stop | Quit

definition set_load :: "nat \<Rightarrow> (loading \<Rightarrow> loading) \<Rightarrow> log_state \<Rightarrow> log_state" where
  "set_load i f s = s\<lparr>lg_loads := (lg_loads s)[i := f (lg_loads s ! i)]\<rparr>"

definition print :: "string \<Rightarrow> log_state \<Rightarrow> log_state" where
  "print t s = s\<lparr>lg_stdout := lg_stdout s @ t\<rparr>"

section \<open>The steps\<close>

definition isInteractiveTerminal :: "bool \<Rightarrow> string \<Rightarrow> bool \<Rightarrow> bool" where
  "isInteractiveTerminal terminal CI isCI \<longleftrightarrow> terminal \<and> \<not> (CI = ''true'' \<or> isCI)"

definition spinners :: "string list" where
  "spinners = [''|'', ''/'', ''-'', [CHR 0x5C]]"

definition chomped :: "string \<Rightarrow> string" where
  "chomped m = (if m \<noteq> [] \<and> last m = CHR 0x0A then butlast m else m)"

definition load :: "string \<Rightarrow> log_state \<Rightarrow> log_state" where
  "load m s = (if lg_exited s then s else
     s\<lparr>lg_Wg := lg_Wg s + 1, lg_active := lg_active s @ [Some (length (lg_loads s))],
       lg_loads := lg_loads s @ [\<lparr>ld_message = m, ld_phase = Pending, ld_cause = None\<rparr>]\<rparr>)"

definition spawn :: "bool \<Rightarrow> nat \<Rightarrow> log_state \<Rightarrow> log_state" where
  "spawn interactive i s = (let m = ld_message (lg_loads s ! i) in
     set_load i (\<lambda>l. l\<lparr>ld_phase := Running 0\<rparr>) (if interactive then s else print (printMessage yellowText loadingEmoji m) s))"

definition tick :: "nat \<Rightarrow> nat \<Rightarrow> log_state \<Rightarrow> log_state" where
  "tick i k s = set_load i (\<lambda>l. l\<lparr>ld_phase := Running (if length spinners - 1 \<le> k + 1 then 0 else k + 1)\<rparr>)
     (print ([CHR 0x0D] @ spinners ! (k + 1) @ [CHR 0x09] @ chomped (ld_message (lg_loads s ! i))) s)"

definition outcome :: "loading \<Rightarrow> string" where
  "outcome l = [CHR 0x0D] @ esc @ ''2K'' @ (if ld_cause l = Some True then printMessage redText redXEmoji (chomped (ld_message l))
     else printMessage green checkmark (chomped (ld_message l)))"

definition finish :: "bool \<Rightarrow> nat \<Rightarrow> log_state \<Rightarrow> log_state" where
  "finish interactive i s = (set_load i (\<lambda>l. l\<lparr>ld_phase := Finished\<rparr>)
     (if interactive then print (outcome (lg_loads s ! i)) s else s))\<lparr>lg_Wg := lg_Wg s - 1\<rparr>"

text \<open>Only the first cause of a cancellation counts.\<close>

definition cancel_load :: "bool \<Rightarrow> loading \<Rightarrow> loading" where
  "cancel_load failed l = (if ld_cause l = None then l\<lparr>ld_cause := Some failed\<rparr> else l)"

definition stop :: "log_state \<Rightarrow> log_state" where
  "stop s = s\<lparr>lg_exited := True, lg_active := [],
     lg_loads := map (\<lambda>(i, l). if Some i \<in> set (lg_active s) then cancel_load False l else l)
       (zip [0..<length (lg_loads s)] (lg_loads s))\<rparr>"

definition is_running :: "loading_phase \<Rightarrow> bool" where
  "is_running p \<longleftrightarrow> (case p of Running _ \<Rightarrow> True | _ \<Rightarrow> False)"

text \<open>When a step can happen. The returned function cancels before it clears its slot, and the
  spinner turns on an interactive terminal only.\<close>

definition enabled :: "bool \<Rightarrow> log_step \<Rightarrow> log_state \<Rightarrow> bool" where
  "enabled interactive e s = (\<not> lg_quit s \<and> (let n = length (lg_loads s) in case e of
       Load m \<Rightarrow> True
     | Spawn i \<Rightarrow> i < n \<and> ld_phase (lg_loads s ! i) = Pending
     | Tick i \<Rightarrow> interactive \<and> i < n \<and> is_running (ld_phase (lg_loads s ! i))
     | Cancel i failed \<Rightarrow> i < n
     | Clear i \<Rightarrow> i < n \<and> ld_cause (lg_loads s ! i) \<noteq> None
     | Finish i \<Rightarrow> i < n \<and> is_running (ld_phase (lg_loads s ! i)) \<and> ld_cause (lg_loads s ! i) \<noteq> None
     | Stop \<Rightarrow> True
     | Quit \<Rightarrow> lg_exited s \<and> lg_Wg s = 0))"

definition effect :: "bool \<Rightarrow> log_step \<Rightarrow> log_state \<Rightarrow> log_state" where
  "effect interactive e s = (case e of
       Load m \<Rightarrow> load m s
     | Spawn i \<Rightarrow> spawn interactive i s
     | Tick i \<Rightarrow> (case ld_phase (lg_loads s ! i) of Running k \<Rightarrow> tick i k s | _ \<Rightarrow> s)
     | Cancel i failed \<Rightarrow> set_load i (cancel_load failed) s
     | Clear i \<Rightarrow> if i < length (lg_active s) then s\<lparr>lg_active := (lg_active s)[i := None]\<rparr> else s
     | Finish i \<Rightarrow> finish interactive i s
     | Stop \<Rightarrow> stop s
     | Quit \<Rightarrow> s\<lparr>lg_quit := True\<rparr>)"

inductive reachable :: "bool \<Rightarrow> log_state \<Rightarrow> bool" for interactive where
  start: "reachable interactive NewLogger"
| step: "reachable interactive s \<Longrightarrow> enabled interactive e s \<Longrightarrow> reachable interactive (effect interactive e s)"

fun run_log :: "bool \<Rightarrow> log_step list \<Rightarrow> log_state \<Rightarrow> log_state option" where
  "run_log interactive [] s = Some s"
| "run_log interactive (e # es) s = (if enabled interactive e s then run_log interactive es (effect interactive e s) else None)"

end
