(* ===== verification/Logger_Props.thy ===== *)
theory Logger_Props
  imports Logger
begin

text \<open>
  The loading animations: an invariant of all their interleavings, from which it follows that the
  spinner stays in its array, and that \<open>Exit\<close> neither waits forever nor leaves an animation behind.
\<close>

section \<open>The invariant\<close>

definition unfinished :: "loading list \<Rightarrow> int" where
  "unfinished ls = int (length (filter (\<lambda>l. ld_phase l \<noteq> Finished) ls))"

text \<open>A loading that is not cancelled has its function in its slot, so \<open>Exit\<close> finds it, and the wait
  group counts the loadings that are not finished.\<close>

definition log_inv :: "log_state \<Rightarrow> bool" where
  "log_inv s \<longleftrightarrow>
     length (lg_active s) = (if lg_exited s then 0 else length (lg_loads s))
     \<and> (\<forall>i < length (lg_loads s). ld_cause (lg_loads s ! i) = None \<longrightarrow> \<not> lg_exited s \<and> lg_active s ! i = Some i)
     \<and> lg_Wg s = unfinished (lg_loads s)
     \<and> (\<forall>i < length (lg_loads s). \<forall>k. ld_phase (lg_loads s ! i) = Running k \<longrightarrow> k < 3)
     \<and> (lg_quit s \<longrightarrow> lg_exited s \<and> lg_Wg s = 0)"

lemma unfinished_simps: "unfinished [] = 0"
  "unfinished (l # ls) = unfinished ls + (if ld_phase l \<noteq> Finished then 1 else 0)"
  "unfinished (ls @ ls') = unfinished ls + unfinished ls'"
  by (simp_all add: unfinished_def)

lemma unfinished_update: "i < length ls \<Longrightarrow> unfinished (ls[i := l]) =
    unfinished ls - (if ld_phase (ls ! i) \<noteq> Finished then 1 else 0) + (if ld_phase l \<noteq> Finished then 1 else 0)"
proof (induction ls arbitrary: i)
  case (Cons a ls)
  then show ?case by (cases i) (simp_all add: unfinished_simps)
qed simp

lemma cancel_load_simps [simp]: "ld_phase (cancel_load b l) = ld_phase l" "ld_cause (cancel_load b l) \<noteq> None"
  "ld_cause l \<noteq> None \<Longrightarrow> cancel_load b l = l"
  by (simp_all add: cancel_load_def)

lemma set_load_simps [simp]:
  "lg_loads (set_load i f s) = (lg_loads s)[i := f (lg_loads s ! i)]" "lg_active (set_load i f s) = lg_active s"
  "lg_exited (set_load i f s) = lg_exited s" "lg_Wg (set_load i f s) = lg_Wg s" "lg_quit (set_load i f s) = lg_quit s"
  "lg_loads (print t s) = lg_loads s" "lg_active (print t s) = lg_active s" "lg_exited (print t s) = lg_exited s"
  "lg_Wg (print t s) = lg_Wg s" "lg_quit (print t s) = lg_quit s"
  by (simp_all add: set_load_def print_def)

lemma stop_loads:
  "length (lg_loads (stop s)) = length (lg_loads s)"
  "i < length (lg_loads s) \<Longrightarrow> lg_loads (stop s) ! i = (if Some i \<in> set (lg_active s) then cancel_load False (lg_loads s ! i) else lg_loads s ! i)"
  by (simp_all add: stop_def)

lemma stop_unfinished: "unfinished (lg_loads (stop s)) = unfinished (lg_loads s)"
proof -
  have "map ld_phase (lg_loads (stop s)) = map ld_phase (lg_loads s)"
    by (rule nth_equalityI) (simp_all add: stop_loads)
  then have "filter (\<lambda>p. p \<noteq> Finished) (map ld_phase (lg_loads (stop s))) = filter (\<lambda>p. p \<noteq> Finished) (map ld_phase (lg_loads s))"
    by simp
  from arg_cong [OF this, of length] show ?thesis by (simp add: unfinished_def filter_map o_def)
qed

lemma stop_cancels:
  assumes "log_inv s" "i < length (lg_loads s)"
  shows "ld_cause (lg_loads (stop s) ! i) \<noteq> None"
proof (cases "ld_cause (lg_loads s ! i) = None")
  case True
  with assms have "lg_active s ! i = Some i" "i < length (lg_active s)" by (auto simp: log_inv_def)
  then have "Some i \<in> set (lg_active s)" by (metis nth_mem)
  then show ?thesis using assms(2) by (simp add: stop_loads)
qed (use assms(2) in \<open>simp add: stop_loads\<close>)

lemma inv_stop: "log_inv s \<Longrightarrow> \<not> lg_quit s \<Longrightarrow> log_inv (stop s)"
  using stop_cancels [of s] stop_unfinished [of s]
  by (auto simp: log_inv_def stop_loads split: if_splits) (simp_all add: stop_def)

lemma inv_load: "log_inv s \<Longrightarrow> \<not> lg_quit s \<Longrightarrow> log_inv (load m s)"
  by (auto simp: log_inv_def load_def unfinished_simps nth_append less_Suc_eq)

lemma inv_phase:
  assumes "log_inv s" "\<not> lg_quit s" "i < length (lg_loads s)" "ld_phase (lg_loads s ! i) \<noteq> Finished" "k < 3"
  shows "log_inv (set_load i (\<lambda>l. l\<lparr>ld_phase := Running k\<rparr>) s)"
  using assms by (auto simp: log_inv_def unfinished_update nth_list_update)

lemma inv_print [simp]: "log_inv (print t s) = log_inv s"
  by (simp add: log_inv_def)

lemma inv_finish:
  assumes "log_inv s" "\<not> lg_quit s" "i < length (lg_loads s)" "is_running (ld_phase (lg_loads s ! i))" "ld_cause (lg_loads s ! i) \<noteq> None"
  shows "log_inv (finish interactive i s)"
proof -
  have "ld_phase (lg_loads s ! i) \<noteq> Finished" using assms(4) by (auto simp: is_running_def)
  then show ?thesis
    using assms by (auto simp: log_inv_def finish_def unfinished_update nth_list_update)
qed

lemma inv_cancel: "log_inv s \<Longrightarrow> \<not> lg_quit s \<Longrightarrow> i < length (lg_loads s) \<Longrightarrow> log_inv (set_load i (cancel_load b) s)"
  by (auto simp: log_inv_def unfinished_update nth_list_update)

lemma inv_clear:
  assumes "log_inv s" "\<not> lg_quit s" "ld_cause (lg_loads s ! i) \<noteq> None"
  shows "log_inv (s\<lparr>lg_active := (lg_active s)[i := None]\<rparr>)"
  using assms by (auto simp: log_inv_def) (metis nth_list_update_neq option.distinct(1))

lemma inv_step:
  assumes inv: "log_inv s" and en: "enabled interactive e s"
  shows "log_inv (effect interactive e s)"
proof -
  have live: "\<not> lg_quit s" using en by (simp add: enabled_def)
  show ?thesis
  proof (cases e)
    case (Tick i)
    with en obtain k where k: "ld_phase (lg_loads s ! i) = Running k" "i < length (lg_loads s)"
      by (auto simp: enabled_def is_running_def split: loading_phase.splits)
    then show ?thesis
      using inv_phase [of "print _ s" i] inv live Tick by (simp add: effect_def tick_def spinners_def)
  next
    case (Spawn i)
    with en show ?thesis
      using inv_phase [of s i 0] inv_phase [of "print _ s" i 0] inv live by (simp add: enabled_def effect_def spawn_def Let_def)
  next
    case Quit
    with inv en show ?thesis by (simp add: log_inv_def enabled_def effect_def)
  qed (use inv en live in \<open>auto simp: effect_def enabled_def inv_load inv_cancel inv_clear inv_finish inv_stop\<close>)
qed

lemma reachable_inv: "reachable interactive s \<Longrightarrow> log_inv s"
proof (induction rule: reachable.induct)
  case start
  show ?case by (simp add: log_inv_def NewLogger_def unfinished_def)
next
  case (step s e)
  then show ?case by (simp add: inv_step)
qed

section \<open>The end of the program\<close>

text \<open>The steps a loading has left after it was cancelled.\<close>

definition steps_left :: "loading \<Rightarrow> nat" where
  "steps_left l = (case ld_phase l of Pending \<Rightarrow> 2 | Running _ \<Rightarrow> 1 | Finished \<Rightarrow> 0)"

lemma sum_steps_update: "i < length ls \<Longrightarrow> steps_left l < steps_left (ls ! i) \<Longrightarrow>
    sum_list (map steps_left (ls[i := l])) < sum_list (map steps_left ls)"
proof (induction ls arbitrary: i)
  case (Cons a ls)
  then show ?case by (cases i) auto
qed simp

lemma effect_exited:
  assumes "lg_exited s" "i < length (lg_loads s)" "e = Spawn i \<or> e = Finish i" "enabled interactive e s"
  shows "lg_exited (effect interactive e s) \<and> \<not> lg_quit (effect interactive e s)
    \<and> sum_list (map steps_left (lg_loads (effect interactive e s))) < sum_list (map steps_left (lg_loads s))"
  using assms sum_steps_update [of i "lg_loads s"]
  by (auto simp: enabled_def effect_def spawn_def finish_def Let_def steps_left_def is_running_def split: loading_phase.splits if_splits)

lemma exited_progress:
  assumes "log_inv s" "lg_exited s" "\<not> lg_quit s" "lg_Wg s \<noteq> 0"
  shows "\<exists>i < length (lg_loads s). enabled interactive (Spawn i) s \<or> enabled interactive (Finish i) s"
proof -
  from assms have "filter (\<lambda>l. ld_phase l \<noteq> Finished) (lg_loads s) \<noteq> []" by (auto simp: log_inv_def unfinished_def)
  then obtain l where "l \<in> set (lg_loads s)" "ld_phase l \<noteq> Finished" by (auto simp: filter_empty_conv)
  then obtain i where i: "i < length (lg_loads s)" "ld_phase (lg_loads s ! i) \<noteq> Finished" by (metis in_set_conv_nth)
  moreover have "ld_cause (lg_loads s ! i) \<noteq> None" using assms i by (auto simp: log_inv_def)
  ultimately show ?thesis
    using assms(3) by (intro exI [of _ i]) (auto simp: enabled_def is_running_def split: loading_phase.splits)
qed

lemma exited_quits:
  "log_inv s \<Longrightarrow> lg_exited s \<Longrightarrow> \<not> lg_quit s \<Longrightarrow>
    \<exists>es t. run_log interactive es s = Some t \<and> lg_quit t \<and> length es \<le> sum_list (map steps_left (lg_loads s)) + 1
      \<and> (\<forall>e \<in> set es. e = Quit \<or> (\<exists>i. e = Spawn i \<or> e = Finish i))"
proof (induction "sum_list (map steps_left (lg_loads s))" arbitrary: s rule: less_induct)
  case less
  show ?case
  proof (cases "lg_Wg s = 0")
    case True
    with less.prems have "run_log interactive [Quit] s = Some (s\<lparr>lg_quit := True\<rparr>)" by (simp add: enabled_def effect_def)
    then show ?thesis by (intro exI [of _ "[Quit]"] exI [of _ "s\<lparr>lg_quit := True\<rparr>"]) simp
  next
    case False
    from exited_progress [OF less.prems False] obtain i e where e: "i < length (lg_loads s)" "e = Spawn i \<or> e = Finish i" "enabled interactive e s"
      by blast
    let ?s = "effect interactive e s"
    note after = effect_exited [OF less.prems(2) e]
    obtain es t where es: "run_log interactive es ?s = Some t" "lg_quit t" "length es \<le> sum_list (map steps_left (lg_loads ?s)) + 1"
      "\<forall>e \<in> set es. e = Quit \<or> (\<exists>i. e = Spawn i \<or> e = Finish i)"
      using less.hyps [of ?s] after inv_step [OF less.prems(1) e(3)] by blast
    then show ?thesis using e after by (intro exI [of _ "e # es"] exI [of _ t]) auto
  qed
qed

lemma steps_left_bound: "sum_list (map steps_left ls) \<le> 2 * length (filter (\<lambda>l. ld_phase l \<noteq> Finished) ls)"
  by (induction ls) (auto simp: steps_left_def split: loading_phase.splits)

text \<open>
  C38: \<open>Exit\<close> cannot hang on a loading animation, whatever the interleaving of the loadings, their
  cancellations and \<open>Exit\<close> was: once it has stopped the animations, at most two steps of each goroutine
  that is left, none of them a cancellation by a caller, bring the wait group to zero and the program to
  its end; and when the program has ended, every animation has finished.
\<close>

theorem exit_ends_animations:
  assumes "reachable interactive s" and "lg_exited s"
  shows "(\<exists>es t. run_log interactive es s = Some t \<and> lg_quit t \<and> int (length es) \<le> 2 * lg_Wg s + 1
      \<and> (\<forall>e \<in> set es. e = Quit \<or> (\<exists>i. e = Spawn i \<or> e = Finish i)))
    \<and> (lg_quit s \<longrightarrow> (\<forall>l \<in> set (lg_loads s). ld_phase l = Finished))"
proof
  note inv = reachable_inv [OF assms(1)]
  have wg: "lg_Wg s = int (length (filter (\<lambda>l. ld_phase l \<noteq> Finished) (lg_loads s)))"
    using inv by (simp add: log_inv_def unfinished_def)
  show "\<exists>es t. run_log interactive es s = Some t \<and> lg_quit t \<and> int (length es) \<le> 2 * lg_Wg s + 1
      \<and> (\<forall>e \<in> set es. e = Quit \<or> (\<exists>i. e = Spawn i \<or> e = Finish i))"
  proof (cases "lg_quit s")
    case True
    then show ?thesis unfolding wg by (intro exI [of _ "[]"] exI [of _ s]) simp
  next
    case False
    from exited_quits [OF inv assms(2) False] obtain es t where "run_log interactive es s = Some t" "lg_quit t"
      "length es \<le> sum_list (map steps_left (lg_loads s)) + 1" "\<forall>e \<in> set es. e = Quit \<or> (\<exists>i. e = Spawn i \<or> e = Finish i)"
      by blast
    then show ?thesis unfolding wg using steps_left_bound [of "lg_loads s"] by (intro exI [of _ es] exI [of _ t]) auto
  qed
  show "lg_quit s \<longrightarrow> (\<forall>l \<in> set (lg_loads s). ld_phase l = Finished)"
    using inv by (auto simp: log_inv_def unfinished_def filter_empty_conv)
qed

lemma reachable_run: "run_log interactive es s = Some t \<Longrightarrow> reachable interactive s \<Longrightarrow> reachable interactive t"
  by (induction interactive es s rule: run_log.induct) (auto intro: reachable.step split: if_splits)

theorem exit_ends_animations_witness:
  "\<exists>(s :: log_state) es t. lg_exited s \<and> lg_Wg s = 2 \<and> run_log True es s = Some t \<and> lg_quit t \<and> length es \<le> 5"
proof -
  let ?es = "[Load ''a'', Spawn 0, Load ''b'', Tick 0, Stop]"
  have run: "case run_log True ?es NewLogger of None \<Rightarrow> False | Some s \<Rightarrow> lg_exited s \<and> lg_Wg s = 2" by code_simp
  then obtain s where s: "run_log True ?es NewLogger = Some s" "lg_exited s" "lg_Wg s = 2"
    by (cases "run_log True ?es NewLogger") simp_all
  from exit_ends_animations [OF reachable_run [OF s(1) reachable.start] s(2)]
  show ?thesis using s by auto
qed

text \<open>
  The index into the four pictures of the spinner is one of 1, 2 and 3 at each tick, so it never
  leaves the array, and the first picture is never shown.
\<close>

theorem spinner_stays_in_array:
  assumes "reachable interactive s" and "enabled interactive (Tick i) s"
  shows "\<exists>k. ld_phase (lg_loads s ! i) = Running k \<and> k + 1 < length spinners \<and> spinners ! (k + 1) \<noteq> ''|''"
proof -
  from assms(2) obtain k where "ld_phase (lg_loads s ! i) = Running k" "i < length (lg_loads s)"
    by (auto simp: enabled_def is_running_def split: loading_phase.splits)
  with reachable_inv [OF assms(1)] have "k < 3" by (simp add: log_inv_def)
  then have "k = 0 \<or> k = 1 \<or> k = 2" by auto
  then show ?thesis using \<open>ld_phase (lg_loads s ! i) = Running k\<close> by (auto simp: spinners_def)
qed

theorem spinner_stays_in_array_witness:
  "\<exists>(s :: log_state) k. ld_phase (lg_loads s ! 0) = Running k \<and> k + 1 < length spinners"
proof -
  let ?es = "[Load ''a'', Spawn 0, Tick 0, Tick 0, Tick 0]"
  have run: "case run_log True ?es NewLogger of None \<Rightarrow> False | Some s \<Rightarrow> enabled True (Tick 0) s" by code_simp
  then obtain s where s: "run_log True ?es NewLogger = Some s" "enabled True (Tick 0) s"
    by (cases "run_log True ?es NewLogger") simp_all
  from spinner_stays_in_array [OF reachable_run [OF s(1) reachable.start] s(2)] show ?thesis by auto
qed

end
