(* ===== verification/Shell.thy ===== *)
theory Shell
  imports Prelude
begin

text \<open>
  The bash that the scripts of \<open>pkg/provisioner/templates\<close> are written in, as far as they use it. A
  command is a function of the state of the shell and of whether it runs where errors are ignored (in
  a condition, on the left of \<open>&&\<close> and \<open>||\<close>, after \<open>!\<close>). With \<open>set -e\<close> in force a command that fails
  elsewhere ends the script; inside such a place not even a \<open>set -e\<close> of its own makes it do so.

  Programs are not modelled: a simple command, or a pipeline of programs, is a parameter given its text
  after expansion; it answers with an exit status and a new state of the node. The working directory and
  exported variables are part of that state. The trace of \<open>set -x\<close> and messages that are only printed are
  left out, except where they go somewhere: the output of the functions of the shell is kept, because
  it ends up in pipes.
\<close>

section \<open>Machines and commands\<close>

text \<open>The variables that sourcing \<open>/etc/os-release\<close> sets; one that is not set is empty.\<close>

record os_release =
  or_ID :: string
  or_ID_LIKE :: string
  or_VERSION_ID :: string
  or_VERSION_CODENAME :: string
  or_UBUNTU_CODENAME :: string

record 's machine =
  mc_Run :: "string \<Rightarrow> 's \<Rightarrow> nat \<times> 's"
  mc_Output :: "string \<Rightarrow> 's \<Rightarrow> (nat \<times> string) \<times> 's"
  mc_Feed :: "string \<Rightarrow> string \<Rightarrow> 's \<Rightarrow> nat \<times> 's"
  mc_Test :: "string \<Rightarrow> 's \<Rightarrow> bool"
  mc_Glob :: "string \<Rightarrow> 's \<Rightarrow> string list"
  mc_OsRelease :: "'s \<Rightarrow> os_release option"
  mc_LogFormat :: string

record 's shell =
  sh_node :: 's
  sh_errexit :: bool
  sh_stdout :: string
  sh_family :: string
  sh_manager :: string
  sh_fedora :: string
  sh_format :: string
  sh_trap :: string

datatype status = Done nat | Return nat | Exit nat

type_synonym 's sh = "bool \<Rightarrow> 's shell \<Rightarrow> status \<times> 's shell"

definition settle :: "nat \<Rightarrow> 's sh" where
  "settle k ignored s = (if k \<noteq> 0 \<and> \<not> ignored \<and> sh_errexit s then (Exit k, s) else (Done k, s))"

text \<open>A program, one that reads what the shell writes to it, and one whose output is assigned to a variable.\<close>

definition prog :: "'s machine \<Rightarrow> string \<Rightarrow> 's sh" where
  "prog x t ignored s = (case mc_Run x t (sh_node s) of (k, n) \<Rightarrow> settle k ignored (s\<lparr>sh_node := n\<rparr>))"

definition feed :: "'s machine \<Rightarrow> string \<Rightarrow> string \<Rightarrow> 's sh" where
  "feed x t input ignored s = (case mc_Feed x t input (sh_node s) of (k, n) \<Rightarrow> settle k ignored (s\<lparr>sh_node := n\<rparr>))"

definition grab :: "'s machine \<Rightarrow> string \<Rightarrow> (string \<Rightarrow> 's sh) \<Rightarrow> 's sh" where
  "grab x t m ignored s = (case mc_Output x t (sh_node s) of ((k, v), n) \<Rightarrow>
     (case settle k ignored (s\<lparr>sh_node := n\<rparr>) of (Done _, s') \<Rightarrow> m v ignored s' | r \<Rightarrow> r))"

text \<open>The same in an argument, and in a list \<open>v=$(...) || true\<close>: the status is not looked at.\<close>

definition grab_any :: "'s machine \<Rightarrow> string \<Rightarrow> (string \<Rightarrow> 's sh) \<Rightarrow> 's sh" where
  "grab_any x t m ignored s = (case mc_Output x t (sh_node s) of ((k, v), n) \<Rightarrow> m v ignored (s\<lparr>sh_node := n\<rparr>))"

definition is_file :: "'s machine \<Rightarrow> string \<Rightarrow> 's sh" where
  "is_file x p ignored s = settle (if mc_Test x (''-f '' @ p) (sh_node s) then 0 else 1) ignored s"

text \<open>Another test of a file, given as its text.\<close>

definition file_test :: "'s machine \<Rightarrow> string \<Rightarrow> 's sh" where
  "file_test x t ignored s = settle (if mc_Test x t (sh_node s) then 0 else 1) ignored s"

definition check :: "bool \<Rightarrow> 's sh" where
  "check b = settle (if b then 0 else 1)"

definition print_text :: "string \<Rightarrow> 's sh" where
  "print_text t ignored s = (Done 0, s\<lparr>sh_stdout := sh_stdout s @ t\<rparr>)"

text \<open>A builtin that changes what programs see, and cannot fail.\<close>

definition exported :: "'s machine \<Rightarrow> string \<Rightarrow> 's sh" where
  "exported x t ignored s = (Done 0, s\<lparr>sh_node := snd (mc_Run x t (sh_node s))\<rparr>)"

definition nop :: "'s sh" where
  "nop ignored s = (Done 0, s)"

definition assign :: "('s shell \<Rightarrow> 's shell) \<Rightarrow> 's sh" where
  "assign f ignored s = (Done 0, f s)"

definition leave :: "nat \<Rightarrow> 's sh" where
  "leave k ignored s = (Exit k, s)"

definition give_back :: "nat \<Rightarrow> 's sh" where
  "give_back k ignored s = (Return k, s)"

definition set_e :: "bool \<Rightarrow> 's sh" where
  "set_e b ignored s = (Done 0, s\<lparr>sh_errexit := b\<rparr>)"

definition trap_exit :: "string \<Rightarrow> 's sh" where
  "trap_exit t ignored s = (Done 0, s\<lparr>sh_trap := t\<rparr>)"

definition look :: "('s shell \<Rightarrow> 'a) \<Rightarrow> ('a \<Rightarrow> 's sh) \<Rightarrow> 's sh" where
  "look f m ignored s = m (f s) ignored s"

section \<open>Compound commands\<close>

definition bind :: "'s sh \<Rightarrow> (nat \<Rightarrow> 's sh) \<Rightarrow> 's sh" where
  "bind m f ignored s = (case m ignored s of (Done k, s') \<Rightarrow> f k ignored s' | r \<Rightarrow> r)"

fun block :: "'s sh list \<Rightarrow> 's sh" where
  "block [] = nop"
| "block [m] = m"
| "block (m # ms) = bind m (\<lambda>_. block ms)"

definition branch :: "'s sh \<Rightarrow> 's sh \<Rightarrow> 's sh \<Rightarrow> 's sh" where
  "branch c m n ignored s = (case c True s of (Done k, s') \<Rightarrow> if k = 0 then m ignored s' else n ignored s' | r \<Rightarrow> r)"

definition only_if :: "'s sh \<Rightarrow> 's sh \<Rightarrow> 's sh" where
  "only_if c m = branch c m nop"

definition both :: "'s sh \<Rightarrow> 's sh \<Rightarrow> 's sh" where
  "both m n ignored s = (case m True s of (Done k, s') \<Rightarrow> if k = 0 then n ignored s' else (Done k, s') | r \<Rightarrow> r)"

definition either :: "'s sh \<Rightarrow> 's sh \<Rightarrow> 's sh" where
  "either m n ignored s = (case m True s of (Done k, s') \<Rightarrow> if k = 0 then (Done 0, s') else n ignored s' | r \<Rightarrow> r)"

definition negated :: "'s sh \<Rightarrow> 's sh" where
  "negated m ignored s = (case m True s of (Done k, s') \<Rightarrow> (Done (if k = 0 then 1 else 0), s') | r \<Rightarrow> r)"

text \<open>A call of a function is a simple command with the status the function returns.\<close>

definition call :: "'s sh \<Rightarrow> 's sh" where
  "call m ignored s = (case m ignored s of (Exit k, s') \<Rightarrow> (Exit k, s')
     | (Done k, s') \<Rightarrow> settle k ignored s' | (Return k, s') \<Rightarrow> settle k ignored s')"

text \<open>
  A pipe from a function into a program: the function runs in a shell of its own, whose options and
  whose end stay there, and what it prints is read by the program, whose status counts.
\<close>

definition piped :: "'s machine \<Rightarrow> 's sh \<Rightarrow> string \<Rightarrow> 's sh" where
  "piped x m t ignored s = (case m ignored (s\<lparr>sh_stdout := '''', sh_trap := ''''\<rparr>) of (_, s') \<Rightarrow>
     feed x t (sh_stdout s') ignored (s\<lparr>sh_node := sh_node s'\<rparr>))"

text \<open>A whole script: the trap runs when the shell ends, and the status is that of the last command. A
  \<open>return\<close> outside a function is an error.\<close>

definition at_exit :: "'s machine \<Rightarrow> nat \<Rightarrow> 's shell \<Rightarrow> nat \<times> 's shell" where
  "at_exit x k s = (k, if sh_trap s = '''' then s else s\<lparr>sh_node := snd (mc_Run x (sh_trap s) (sh_node s))\<rparr>)"

definition run_bash :: "'s machine \<Rightarrow> 's sh \<Rightarrow> 's \<Rightarrow> nat \<times> 's shell" where
  "run_bash x m n = (case m False \<lparr>sh_node = n, sh_errexit = True, sh_stdout = '''', sh_family = '''', sh_manager = '''',
       sh_fedora = '''', sh_format = mc_LogFormat x, sh_trap = ''''\<rparr> of
     (Done k, s) \<Rightarrow> at_exit x k s | (Return k, s) \<Rightarrow> at_exit x 1 s | (Exit k, s) \<Rightarrow> at_exit x k s)"

section \<open>Phrases of the scripts\<close>

definition blank_release :: os_release where
  "blank_release = \<lparr>or_ID = '''', or_ID_LIKE = '''', or_VERSION_ID = '''', or_VERSION_CODENAME = '''', or_UBUNTU_CODENAME = ''''\<rparr>"

text \<open>\<open>. /etc/os-release\<close>\<close>

definition source_os :: "'s machine \<Rightarrow> (os_release \<Rightarrow> 's sh) \<Rightarrow> 's sh" where
  "source_os x m = look (\<lambda>s. mc_OsRelease x (sh_node s)) (\<lambda>r. case r of
     None \<Rightarrow> bind (settle 1) (\<lambda>_. m blank_release) | Some r \<Rightarrow> m r)"

text \<open>\<open>v=$(t || echo d)\<close>\<close>

definition grab_or :: "'s machine \<Rightarrow> string \<Rightarrow> string \<Rightarrow> (string \<Rightarrow> 's sh) \<Rightarrow> 's sh" where
  "grab_or x t d m ignored s = (case mc_Output x t (sh_node s) of ((k, v), n) \<Rightarrow>
     m (if k = 0 then v else if v = '''' then d else v @ [CHR 0x0A] @ d) ignored (s\<lparr>sh_node := n\<rparr>))"

text \<open>\<open>m || true\<close>\<close>

definition tolerated :: "'s sh \<Rightarrow> 's sh" where
  "tolerated m = either m nop"

text \<open>
  A wait of at most \<open>n\<close> seconds: the probe, then, as long as it fails, either the end of the script or a
  second of sleep. The counter is at least 1 when \<open>((timeout--))\<close> runs, which then succeeds.
\<close>

fun wait_ready :: "'s machine \<Rightarrow> 's sh \<Rightarrow> 's sh \<Rightarrow> nat \<Rightarrow> 's sh" where
  "wait_ready x probe give_up 0 = only_if (negated probe) give_up"
| "wait_ready x probe give_up (Suc n) = only_if (negated probe) (block [prog x ''sleep 1'', wait_ready x probe give_up n])"

end
