(* ===== verification/Node_Library.thy ===== *)
theory Node_Library
  imports Shell Templates
begin

text \<open>
  \<open>pkg/provisioner/templates/common.go\<close>: the functions that every script of the repository starts with,
  and the set-up of a script, in the order of the source.
\<close>

section \<open>The system of the node\<close>

definition detect_os_family :: "os_release option \<Rightarrow> string" where
  "detect_os_family r = (case r of None \<Rightarrow> ''unknown'' | Some r \<Rightarrow>
     if or_ID r \<in> {''ubuntu'', ''debian''} then ''debian''
     else if or_ID r \<in> {''amzn'', ''amazon''} then ''amazon''
     else if or_ID r \<in> {''rocky'', ''rhel'', ''centos'', ''fedora'', ''almalinux''} then ''rhel''
     else if contains (or_ID_LIKE r) ''debian'' \<or> contains (or_ID_LIKE r) ''ubuntu'' then ''debian''
     else if contains (or_ID_LIKE r) ''rhel'' \<or> contains (or_ID_LIKE r) ''fedora'' \<or> contains (or_ID_LIKE r) ''centos'' then ''rhel''
     else ''unknown'')"

definition get_amzn_fedora_version :: "os_release option \<Rightarrow> string" where
  "get_amzn_fedora_version r = (case r of None \<Rightarrow> '''' | Some r \<Rightarrow>
     if or_ID r \<noteq> ''amzn'' then ''''
     else if or_VERSION_ID r = ''2023'' then ''39''
     else if prefix ''2024'' (or_VERSION_ID r) then ''40''
     else if or_VERSION_ID r = ''2'' then ''35''
     else ''39'')"

definition sudo :: "'s machine \<Rightarrow> string \<Rightarrow> 's sh" where
  "sudo x t = prog x (''sudo '' @ t)"

text \<open>\<open>command -v c &>/dev/null\<close>, and a text written to a file with \<open>sudo tee\<close>.\<close>

definition has_command :: "'s machine \<Rightarrow> string \<Rightarrow> 's sh" where
  "has_command x c = prog x (''command -v '' @ c)"

definition tee :: "'s machine \<Rightarrow> string \<Rightarrow> string \<Rightarrow> 's sh" where
  "tee x path content = feed x (''sudo tee '' @ path) content"

definition line_of :: "string \<Rightarrow> string" where
  "line_of t = t @ [CHR 0x0A]"

definition package_manager :: "'s machine \<Rightarrow> 's sh" where
  "package_manager x = look sh_family (\<lambda>family.
     if family = ''debian'' then
       block [exported x ''export DEBIAN_FRONTEND=noninteractive'', assign (\<lambda>s. s\<lparr>sh_manager := ''apt''\<rparr>)]
     else if family = ''amazon'' \<or> family = ''rhel'' then
       block [assign (\<lambda>s. s\<lparr>sh_manager := ''dnf''\<rparr>),
         only_if (both (negated (has_command x ''dnf'')) (has_command x ''yum'')) (assign (\<lambda>s. s\<lparr>sh_manager := ''yum''\<rparr>)),
         only_if (negated (prog x ''sudo grep -qr '/usr/local/bin' /etc/sudoers /etc/sudoers.d'')) (block [
           tee x ''/etc/sudoers.d/holodeck-path''
             (line_of ''Defaults    secure_path = /sbin:/bin:/usr/sbin:/usr/bin:/usr/local/bin''),
           sudo x ''chmod 0440 /etc/sudoers.d/holodeck-path''])]
     else assign (\<lambda>s. s\<lparr>sh_manager := ''unknown''\<rparr>))"

definition HOLODECK_STATE_DIR :: string where
  "HOLODECK_STATE_DIR = ''/var/lib/holodeck/state''"

definition set_up :: "'s machine \<Rightarrow> 's sh" where
  "set_up x = block [
     exported x ''export HOLODECK_ENVIRONMENT=true'',
     look (\<lambda>s. mc_OsRelease x (sh_node s)) (\<lambda>r. assign (\<lambda>s. s\<lparr>sh_family := detect_os_family r,
       sh_fedora := get_amzn_fedora_version r\<rparr>)),
     package_manager x,
     only_if (has_command x ''cloud-init'') (either (prog x ''/usr/bin/cloud-init status --wait'') nop),
     look sh_manager (\<lambda>manager. if manager = ''apt''
       then tee x ''/etc/apt/apt.conf.d/99allow-unauthenticated'' (line_of ''APT::Get::AllowUnauthenticated 1;'') else nop),
     assign (\<lambda>s. s\<lparr>sh_format := or_default (sh_format s) ''text''\<rparr>),
     sudo x (''mkdir -p '' @ HOLODECK_STATE_DIR)]"

section \<open>Installed components\<close>

definition state_file :: "string \<Rightarrow> string" where
  "state_file component = HOLODECK_STATE_DIR @ ''/'' @ component @ ''.state''"

definition holodeck_is_installed :: "'s machine \<Rightarrow> string \<Rightarrow> string \<Rightarrow> 's sh" where
  "holodeck_is_installed x component version = call (block [
     only_if (negated (is_file x (state_file component))) (give_back 1),
     only_if (check (version \<noteq> ''''))
       (either (prog x (''grep -q \"^version='' @ version @ ''$\" '' @ state_file component)) (give_back 1)),
     either (prog x (''grep -q \"^status=installed$\" '' @ state_file component)) (give_back 1),
     give_back 0])"

definition state_text :: "string \<Rightarrow> string \<Rightarrow> string \<Rightarrow> string" where
  "state_text status version installed_at =
     line_of (''status='' @ status) @ line_of (''version='' @ version) @ line_of (''installed_at='' @ installed_at)"

definition holodeck_mark_installed :: "'s machine \<Rightarrow> string \<Rightarrow> string \<Rightarrow> 's sh" where
  "holodeck_mark_installed x component version = call (grab x ''date -Iseconds'' (\<lambda>installed_at.
     tee x (state_file component) (state_text ''installed'' version installed_at)))"

section \<open>Messages\<close>

definition json_escape :: "string \<Rightarrow> string" where
  "json_escape m = concat (map (\<lambda>c. if c = CHR 0x5C then [CHR 0x5C, CHR 0x5C] else if c = CHR 0x22 then [CHR 0x5C, CHR 0x22]
     else if c = CHR 0x09 then [CHR 0x5C, CHR ''t''] else [c]) m)"

definition log_line :: "string \<Rightarrow> string \<Rightarrow> string \<Rightarrow> string \<Rightarrow> string \<Rightarrow> string" where
  "log_line format timestamp level component message = (if format = ''json''
     then line_of (''{\"timestamp\":\"'' @ timestamp @ ''\",\"level\":\"'' @ level @ ''\",\"component\":\"'' @ component
       @ ''\",\"message\":\"'' @ json_escape message @ ''\"}'')
     else line_of (''['' @ timestamp @ ''] ['' @ level @ replicate (5 - length level) (CHR '' '') @ ''] ['' @ component @ ''] '' @ message))"

definition holodeck_log :: "'s machine \<Rightarrow> string \<Rightarrow> string \<Rightarrow> string \<Rightarrow> 's sh" where
  "holodeck_log x level component message = call (grab x ''date -Iseconds'' (\<lambda>timestamp.
     look sh_format (\<lambda>format. print_text (log_line format timestamp level component message))))"

definition holodeck_error :: "'s machine \<Rightarrow> nat \<Rightarrow> string \<Rightarrow> string \<Rightarrow> string \<Rightarrow> 's sh" where
  "holodeck_error x code component message remediation = block [
     holodeck_log x ''ERROR'' component message,
     only_if (check (remediation \<noteq> '''')) (holodeck_log x ''INFO'' component (''Remediation: '' @ remediation)),
     leave code]"

definition holodeck_progress :: "'s machine \<Rightarrow> string \<Rightarrow> nat \<Rightarrow> nat \<Rightarrow> string \<Rightarrow> 's sh" where
  "holodeck_progress x component current amount message = call (holodeck_log x ''INFO'' component
     (''['' @ decimal current @ ''/'' @ decimal amount @ ''] '' @ message))"

section \<open>Retries\<close>

definition next_delay :: "nat \<Rightarrow> nat" where
  "next_delay d = (if d < 60 then (if d * 2 > 60 then 60 else d * 2) else d)"

text \<open>\<open>set +e; cmd; rc=$?; set -e\<close>: the status of a command that may fail.\<close>

definition keep_status :: "'s sh \<Rightarrow> 's sh" where
  "keep_status cmd = bind (set_e False) (\<lambda>_. bind cmd (\<lambda>rc. bind (set_e True) (\<lambda>_ _ s. (Done rc, s))))"

text \<open>An attempt, with \<open>n\<close> more of them allowed.\<close>

fun attempt_rounds :: "'s machine \<Rightarrow> string \<Rightarrow> nat \<Rightarrow> 's sh \<Rightarrow> nat \<Rightarrow> nat \<Rightarrow> nat \<Rightarrow> 's sh" where
  "attempt_rounds x component max_attempts cmd 0 number delay =
     bind (keep_status cmd) (\<lambda>rc.
       if rc = 0 then give_back 0
       else block [holodeck_log x ''ERROR'' component (''Failed after '' @ decimal max_attempts @ '' attempts''), give_back rc])"
| "attempt_rounds x component max_attempts cmd (Suc n) number delay =
     bind (keep_status cmd) (\<lambda>rc.
       if rc = 0 then give_back 0
       else block [
         holodeck_log x ''WARN'' component (''Attempt '' @ decimal number @ ''/'' @ decimal max_attempts @ '' failed, retrying in ''
           @ decimal delay @ ''s''),
         prog x (''sleep '' @ decimal delay),
         attempt_rounds x component max_attempts cmd n (number + 1) (next_delay delay)])"

definition holodeck_retry :: "'s machine \<Rightarrow> nat \<Rightarrow> string \<Rightarrow> 's sh \<Rightarrow> 's sh" where
  "holodeck_retry x max_attempts component cmd = call (attempt_rounds x component max_attempts cmd (max_attempts - 1) 1 5)"

definition holodeck_require_command :: "'s machine \<Rightarrow> string \<Rightarrow> string \<Rightarrow> 's sh" where
  "holodeck_require_command x cmd component = call (only_if (negated (has_command x cmd))
     (holodeck_error x 4 component (''Required command not found: '' @ cmd) (''Ensure '' @ cmd @ '' is installed and in PATH'')))"

section \<open>Verification\<close>

definition or_return_1 :: "'s sh \<Rightarrow> 's sh" where
  "or_return_1 m = either m (give_back 1)"

definition holodeck_verify_driver :: "'s machine \<Rightarrow> 's sh" where
  "holodeck_verify_driver x = call (block [or_return_1 (prog x ''nvidia-smi''), give_back 0])"

definition holodeck_verify_containerd :: "'s machine \<Rightarrow> 's sh" where
  "holodeck_verify_containerd x = call (block [or_return_1 (prog x ''systemctl is-active --quiet containerd''),
     or_return_1 (prog x ''sudo ctr version''), give_back 0])"

definition holodeck_verify_docker :: "'s machine \<Rightarrow> 's sh" where
  "holodeck_verify_docker x = call (block [or_return_1 (prog x ''systemctl is-active --quiet docker''),
     or_return_1 (prog x ''sudo docker info''), give_back 0])"

definition holodeck_verify_crio :: "'s machine \<Rightarrow> 's sh" where
  "holodeck_verify_crio x = call (block [or_return_1 (prog x ''systemctl is-active --quiet crio''), give_back 0])"

definition holodeck_verify_toolkit :: "'s machine \<Rightarrow> 's sh" where
  "holodeck_verify_toolkit x = call (block [
     or_return_1 (has_command x ''nvidia-ctk''),
     or_return_1 (prog x ''nvidia-ctk --version''),
     only_if (negated (has_command x ''nvidia-container-runtime'')) (block [
       holodeck_log x ''WARN'' ''nvidia-container-toolkit''
         ''nvidia-container-runtime binary not found, creating symlink from nvidia-ctk'',
       grab x ''command -v nvidia-ctk'' (\<lambda>ctk_path. sudo x (''ln -sf '' @ ctk_path @ '' /usr/bin/nvidia-container-runtime''))]),
     give_back 0])"

definition holodeck_verify_kubernetes :: "'s machine \<Rightarrow> string \<Rightarrow> 's sh" where
  "holodeck_verify_kubernetes x arg = call (block [
     or_return_1 (prog x (''kubectl --kubeconfig='' @ or_default arg ''/etc/kubernetes/admin.conf'' @ '' get nodes'')), give_back 0])"

section \<open>Packages\<close>

definition unsupported_manager :: "'s machine \<Rightarrow> string \<Rightarrow> 's sh" where
  "unsupported_manager x manager = block [
     holodeck_log x ''ERROR'' ''pkg'' (''Unsupported package manager: '' @ manager), give_back 1]"

definition pkg_update :: "'s machine \<Rightarrow> 's sh" where
  "pkg_update x = call (look sh_manager (\<lambda>m.
     if m = ''apt'' then sudo x ''apt-get -o Acquire::Retries=3 update''
     else if m = ''dnf'' then sudo x ''dnf makecache --refresh''
     else if m = ''yum'' then sudo x ''yum makecache''
     else unsupported_manager x m))"

definition pkg_install :: "'s machine \<Rightarrow> string list \<Rightarrow> 's sh" where
  "pkg_install x packages = call (look sh_manager (\<lambda>m. let ps = sep_by '' '' packages in
     if m = ''apt'' then sudo x (''DEBIAN_FRONTEND=noninteractive apt-get install -y --no-install-recommends '' @ ps)
     else if m = ''dnf'' then sudo x (''dnf install -y --allowerasing '' @ ps)
     else if m = ''yum'' then sudo x (''yum install -y '' @ ps)
     else unsupported_manager x m))"

definition pkg_install_version :: "'s machine \<Rightarrow> string \<Rightarrow> string \<Rightarrow> 's sh" where
  "pkg_install_version x package version = call (look sh_manager (\<lambda>m.
     if m = ''apt'' then
       sudo x (''DEBIAN_FRONTEND=noninteractive apt-get install -y --no-install-recommends '' @ package @ ''='' @ version)
     else if m = ''dnf'' then sudo x (''dnf install -y --allowerasing '' @ package @ ''-'' @ version)
     else if m = ''yum'' then sudo x (''yum install -y '' @ package @ ''-'' @ version)
     else unsupported_manager x m))"

definition pkg_add_repo :: "'s machine \<Rightarrow> string \<Rightarrow> string \<Rightarrow> string \<Rightarrow> 's sh" where
  "pkg_add_repo x repo_name repo_url gpg_key = call (look sh_manager (\<lambda>m.
     let key = ''/etc/apt/keyrings/'' @ repo_name @ ''.gpg'';
         apt_list = ''/etc/apt/sources.list.d/'' @ repo_name @ ''.list'';
         yum_repo = ''/etc/yum.repos.d/'' @ repo_name @ ''.repo'' in
     if m = ''apt'' then block [
       only_if (both (check (gpg_key \<noteq> '''')) (negated (is_file x key))) (block [
         sudo x ''install -m 0755 -d /etc/apt/keyrings'',
         prog x (''curl -fsSL '' @ gpg_key @ '' | sudo gpg --dearmor -o '' @ key),
         sudo x (''chmod a+r '' @ key)]),
       only_if (negated (is_file x apt_list)) (tee x apt_list (line_of repo_url))]
     else if m = ''dnf'' \<or> m = ''yum'' then
       only_if (negated (is_file x yum_repo))
         (if prefix ''http'' repo_url then sudo x (''curl -fsSL -o '' @ yum_repo @ '' '' @ repo_url)
          else tee x yum_repo (line_of repo_url))
     else unsupported_manager x m))"

definition pkg_arch :: "'s machine \<Rightarrow> 's sh" where
  "pkg_arch x = call (look sh_manager (\<lambda>m. if m = ''apt'' then prog x ''dpkg --print-architecture'' else prog x ''uname -m''))"

text \<open>\<open>${v%%.*}\<close>: the text before the first dot.\<close>

definition before_dot :: "string \<Rightarrow> string" where
  "before_dot v = takeWhile (\<lambda>c. c \<noteq> CHR ''.'') v"

definition os_codename :: "string \<Rightarrow> os_release option \<Rightarrow> string" where
  "os_codename family r = (case r of None \<Rightarrow> ''unknown'' | Some r \<Rightarrow>
     if family = ''debian'' then or_default (or_VERSION_CODENAME r) (or_default (or_UBUNTU_CODENAME r) ''unknown'')
     else if family = ''amazon'' \<or> family = ''rhel'' then before_dot (or_VERSION_ID r)
     else ''unknown'')"

definition pkg_os_codename :: "'s machine \<Rightarrow> 's sh" where
  "pkg_os_codename x = call (look (\<lambda>s. os_codename (sh_family s) (mc_OsRelease x (sh_node s))) (\<lambda>t. print_text (line_of t)))"

section \<open>Functions kept for compatibility\<close>

text \<open>Rounds \<open>6 - n\<close> to 5; what goes to stderr is left out.\<close>

fun install_rounds :: "'s machine \<Rightarrow> string list \<Rightarrow> nat \<Rightarrow> 's sh" where
  "install_rounds x packages 0 = give_back 1"
| "install_rounds x packages (Suc n) = (let round = ''['' @ decimal (5 - n) @ ''/5] '' in block [
     print_text (line_of (round @ ''Updating package cache'')),
     only_if (pkg_update x) (block [
       print_text (line_of (round @ ''Installing: '' @ sep_by '' '' packages)),
       only_if (pkg_install x packages) (give_back 0)]),
     prog x ''sleep 5'',
     install_rounds x packages n])"

definition install_packages_with_retry :: "'s machine \<Rightarrow> string list \<Rightarrow> 's sh" where
  "install_packages_with_retry x packages = call (install_rounds x packages 5)"

text \<open>A loop without a bound when \<open>max_attempts\<close> is not positive: None is a call that never returns.\<close>

partial_function (option) with_retry_loop :: "'s machine \<Rightarrow> int \<Rightarrow> string \<Rightarrow> 's sh \<Rightarrow> int \<Rightarrow> bool \<Rightarrow> 's shell \<Rightarrow> (status \<times> 's shell) option" where
  "with_retry_loop x max_attempts delay cmd tries ignored s =
     (case keep_status cmd ignored s of
       (Done rc, s1) \<Rightarrow>
         if rc = 0 then Some (give_back 0 ignored s1)
         else if max_attempts \<le> 0 \<or> tries + 1 < max_attempts then
           (case prog x (''sleep '' @ delay) ignored s1 of
             (Done k, s2) \<Rightarrow> with_retry_loop x max_attempts delay cmd (tries + 1) ignored s2
           | (Return k, s2) \<Rightarrow> Some (Return k, s2)
           | (Exit k, s2) \<Rightarrow> Some (Exit k, s2))
         else Some (give_back 1 ignored s1)
     | (Return k, s1) \<Rightarrow> Some (Return k, s1)
     | (Exit k, s1) \<Rightarrow> Some (Exit k, s1))"

definition with_retry :: "'s machine \<Rightarrow> int \<Rightarrow> string \<Rightarrow> 's sh \<Rightarrow> bool \<Rightarrow> 's shell \<Rightarrow> (status \<times> 's shell) option" where
  "with_retry x max_attempts delay cmd ignored s =
     map_option (\<lambda>r. call (\<lambda>_ _. r) ignored s) (with_retry_loop x max_attempts delay cmd 0 ignored s)"

end
