(* ===== verification/Docker_Script.thy ===== *)
theory Docker_Script
  imports Node_Library
begin

text \<open>
  The shell text of \<open>pkg/provisioner/templates/docker.go\<close>: Docker from packages and from source. Progress
  and information messages are left out; quotes are removed from the text of commands, and variables
  of the session (\<open>USER\<close>, \<open>DOCKER_GO_VERSION\<close>) stay unexpanded in it.
\<close>

section \<open>Shared by the scripts\<close>

definition retry3 :: "'s machine \<Rightarrow> string \<Rightarrow> 's sh \<Rightarrow> 's sh" where
  "retry3 x component m = holodeck_retry x 3 component m"

definition install3 :: "'s machine \<Rightarrow> string \<Rightarrow> string list \<Rightarrow> 's sh" where
  "install3 x component packages = retry3 x component (install_packages_with_retry x packages)"

definition log_exit :: "'s machine \<Rightarrow> string \<Rightarrow> string \<Rightarrow> 's sh" where
  "log_exit x component message = block [holodeck_log x ''ERROR'' component message, leave 1]"

definition unsupported_family :: "'s machine \<Rightarrow> string \<Rightarrow> 's sh" where
  "unsupported_family x component = look sh_family (\<lambda>f. holodeck_error x 2 component (''Unsupported OS family: '' @ f)
     ''Supported: debian, amazon, rhel'')"

definition text_lines :: "string list \<Rightarrow> string" where
  "text_lines ls = concat (map line_of ls)"

definition go_arch :: "'s machine \<Rightarrow> string \<Rightarrow> string \<Rightarrow> (string \<Rightarrow> 's sh) \<Rightarrow> 's sh" where
  "go_arch x component message k = grab x ''uname -m'' (\<lambda>m.
     if m \<in> {''x86_64'', ''amd64''} then k ''amd64''
     else if m \<in> {''aarch64'', ''arm64''} then k ''arm64''
     else log_exit x component (message @ m))"

definition docker_apt_key :: "'s machine \<Rightarrow> 's sh" where
  "docker_apt_key x = only_if (negated (is_file x ''/etc/apt/keyrings/docker.gpg'')) (block [
     sudo x ''install -m 0755 -d /etc/apt/keyrings'',
     prog x ''curl -fsSL https://download.docker.com/linux/ubuntu/gpg | sudo gpg --dearmor -o /etc/apt/keyrings/docker.gpg'',
     sudo x ''chmod a+r /etc/apt/keyrings/docker.gpg''])"

text \<open>The continuation line of the source is inside the quotes and keeps its 14 spaces.\<close>

definition docker_apt_list :: "'s machine \<Rightarrow> string \<Rightarrow> string \<Rightarrow> 's sh" where
  "docker_apt_list x system codename = grab_any x ''dpkg --print-architecture'' (\<lambda>arch.
     tee x ''/etc/apt/sources.list.d/docker.list'' (line_of (''deb [arch='' @ arch
       @ '' signed-by=/etc/apt/keyrings/docker.gpg] https://download.docker.com/linux/'' @ system @ '' ''
       @ replicate 14 (CHR '' '') @ codename @ '' stable'')))"

definition docker_yum_repo :: "'s machine \<Rightarrow> string \<Rightarrow> os_release \<Rightarrow> 's sh" where
  "docker_yum_repo x component r = only_if (negated (is_file x ''/etc/yum.repos.d/docker-ce.repo'')) (block [
     sudo x (''curl -fsSL -o /etc/yum.repos.d/docker-ce.repo https://download.docker.com/linux/''
       @ (if or_ID r = ''fedora'' then ''fedora'' else ''centos'') @ ''/docker-ce.repo''),
     retry3 x component (pkg_update x)])"

section \<open>From packages\<close>

definition docker_version_ok :: "string \<Rightarrow> string \<Rightarrow> bool" where
  "docker_version_ok desired installed \<longleftrightarrow> desired = ''latest'' \<or> desired = '''' \<or> installed = desired
     \<or> prefix (desired @ ''.'') installed \<or> prefix (desired @ ''-'') installed"

definition docker_present :: "'s machine \<Rightarrow> Docker \<Rightarrow> (bool \<Rightarrow> 's sh) \<Rightarrow> 's sh" where
  "docker_present x d k = branch (prog x ''systemctl is-active --quiet docker'')
     (grab_any x ''sudo docker version --format {{.Server.Version}}'' (\<lambda>installed.
       if installed \<noteq> '''' \<and> docker_version_ok (do_Version d) installed
       then branch (holodeck_verify_docker x) (k True) (k False) else k False))
     (k False)"

definition docker_repository :: "'s machine \<Rightarrow> 's sh" where
  "docker_repository x = block [
     retry3 x ''docker'' (pkg_update x),
     install3 x ''docker'' [''ca-certificates'', ''curl'', ''gnupg''],
     source_os x (\<lambda>r. look sh_family (\<lambda>f.
       if f = ''debian'' then block [
         docker_apt_key x,
         only_if (negated (is_file x ''/etc/apt/sources.list.d/docker.list''))
           (docker_apt_list x ''ubuntu'' (or_VERSION_CODENAME r)),
         retry3 x ''docker'' (pkg_update x)]
       else if f = ''amazon'' then nop
       else if f = ''rhel'' then docker_yum_repo x ''docker'' r
       else unsupported_family x ''docker''))]"

definition docker_packages :: "'s machine \<Rightarrow> string \<Rightarrow> 's sh" where
  "docker_packages x v = look sh_family (\<lambda>f.
     if f = ''amazon'' then install3 x ''docker'' [''docker'']
     else if v = ''latest'' \<or> v = '''' then install3 x ''docker'' [''docker-ce'', ''docker-ce-cli'', ''containerd.io'']
     else if f = ''debian'' then install3 x ''docker'' [''docker-ce='' @ v, ''docker-ce-cli='' @ v, ''containerd.io'']
     else if f = ''rhel'' then install3 x ''docker'' [''docker-ce-'' @ v, ''docker-ce-cli-'' @ v, ''containerd.io'']
     else nop)"

definition docker_configure :: "'s machine \<Rightarrow> 's sh" where
  "docker_configure x = block [
     sudo x ''mkdir -p /etc/systemd/system/docker.service.d'',
     only_if (negated (is_file x ''/etc/docker/daemon.json'')) (block [
       sudo x ''mkdir -p /etc/docker'',
       tee x ''/etc/docker/daemon.json'' (text_lines [''{'', ''  \"exec-opts\": [\"native.cgroupdriver=systemd\"],'',
         ''  \"log-driver\": \"json-file\",'', ''  \"log-opts\": {'', ''    \"max-size\": \"100m\"'', ''  },'',
         ''  \"storage-driver\": \"overlay2\"'', ''}''])]),
     sudo x ''systemctl daemon-reload'',
     sudo x ''systemctl enable docker'',
     sudo x ''systemctl restart docker'']"

definition docker_wait :: "'s machine \<Rightarrow> 's sh" where
  "docker_wait x = block [
     wait_ready x (prog x ''sudo docker info'') (holodeck_error x 11 ''docker''
       ''Timeout waiting for Docker to become ready after restart''
       (''Check 'systemctl status docker' and 'journalctl -u docker'' @ [CHR 0x27])) 120,
     only_if (negated (prog x ''sudo docker run --rm hello-world'')) (block [
       holodeck_log x ''ERROR'' ''docker'' ''Docker cannot create containers (docker run hello-world failed)'',
       tolerated (prog x ''sudo docker run --rm hello-world''),
       tolerated (prog x ''sudo docker version''),
       tolerated (prog x ''sudo runc --version''),
       tolerated (prog x ''sudo journalctl -u docker --no-pager -n 20''),
       holodeck_error x 11 ''docker'' ''Docker installed but cannot create containers''
         ''Check runc/containerd.io compatibility with this OS and kernel version'']),
     tolerated (sudo x ''usermod -aG docker $USER'')]"

definition cri_dockerd_url :: "string \<Rightarrow> string" where
  "cri_dockerd_url arch = ''https://github.com/Mirantis/cri-dockerd/releases/download/v0.3.17/cri-dockerd-0.3.17.'' @ arch @ ''.tgz''"

definition cri_dockerd :: "'s machine \<Rightarrow> 's sh" where
  "cri_dockerd x = go_arch x ''docker'' ''Unsupported arch for cri-dockerd: '' (\<lambda>arch.
     only_if (negated (is_file x ''/usr/local/bin/cri-dockerd''))
       (piped x (retry3 x ''docker'' (prog x (''curl -L '' @ cri_dockerd_url arch)))
         ''sudo tar xzv -C /usr/local/bin --strip-components=1''))"

definition cri_service_text :: string where
  "cri_service_text = text_lines [
     ''[Unit]'', ''Description=CRI Interface for Docker Application Container Engine'', ''Documentation=https://docs.mirantis.com'',
     ''After=network-online.target firewalld.service docker.service'', ''Wants=network-online.target'',
     ''Requires=cri-docker.socket'', '''', ''[Service]'', ''Type=notify'',
     ''ExecStart=/usr/local/bin/cri-dockerd --container-runtime-endpoint fd://'', ''ExecReload=/bin/kill -s HUP $MAINPID'',
     ''TimeoutSec=0'', ''RestartSec=2'', ''Restart=always'', ''StartLimitBurst=3'', ''StartLimitInterval=60s'',
     ''LimitNOFILE=infinity'', ''LimitNPROC=infinity'', ''LimitCORE=infinity'', ''TasksMax=infinity'', ''Delegate=yes'',
     ''KillMode=process'', '''', ''[Install]'', ''WantedBy=multi-user.target'']"

definition cri_socket_text :: string where
  "cri_socket_text = text_lines [
     ''[Unit]'', ''Description=CRI Docker Socket for the API'', ''PartOf=cri-docker.service'', '''', ''[Socket]'',
     ''ListenStream=/run/cri-dockerd.sock'', ''SocketMode=0660'', ''SocketUser=root'', ''SocketGroup=docker'', '''',
     ''[Install]'', ''WantedBy=sockets.target'']"

definition cri_units :: "'s machine \<Rightarrow> 's sh" where
  "cri_units x = block [
     only_if (negated (is_file x ''/etc/systemd/system/cri-docker.service''))
       (tee x ''/etc/systemd/system/cri-docker.service'' cri_service_text),
     only_if (negated (is_file x ''/etc/systemd/system/cri-docker.socket''))
       (tee x ''/etc/systemd/system/cri-docker.socket'' cri_socket_text),
     sudo x ''systemctl daemon-reload'',
     sudo x ''systemctl enable cri-docker.service'',
     sudo x ''systemctl enable cri-docker.socket'',
     sudo x ''systemctl start cri-docker.service'']"

definition docker_finish :: "'s machine \<Rightarrow> 's sh" where
  "docker_finish x = block [
     only_if (negated (holodeck_verify_docker x)) (holodeck_error x 5 ''docker'' ''Docker installation verification failed''
       ''Run 'systemctl status docker' to diagnose''),
     grab x ''sudo docker version --format {{.Server.Version}}'' (\<lambda>v. holodeck_mark_installed x ''docker'' v)]"

definition dockerPackageScript :: "'s machine \<Rightarrow> Docker \<Rightarrow> 's sh" where
  "dockerPackageScript x d = docker_present x d (\<lambda>already. block [
     if already then nop
     else block [docker_repository x, docker_packages x (do_Version d), docker_configure x, docker_wait x],
     cri_dockerd x,
     cri_units x,
     docker_finish x])"

section \<open>From source\<close>

text \<open>Whether a component was built from the wanted commit before, and still works.\<close>

definition commit_present :: "'s machine \<Rightarrow> string \<Rightarrow> string \<Rightarrow> string \<Rightarrow> 's sh \<Rightarrow> (bool \<Rightarrow> 's sh) \<Rightarrow> 's sh" where
  "commit_present x command provenance commit verify k = branch (has_command x command)
     (branch (is_file x provenance)
       (branch (has_command x ''jq'')
         (grab x (''jq -r .commit // empty '' @ provenance) (\<lambda>installed.
           if installed = commit then branch verify (k True) (k False) else k False))
         (k False))
       (k False))
     (k False)"

definition go_toolchain :: "'s machine \<Rightarrow> string \<Rightarrow> string \<Rightarrow> (string \<Rightarrow> 's sh) \<Rightarrow> 's sh" where
  "go_toolchain x component version k = go_arch x component ''Unsupported arch: '' (\<lambda>arch. block [
     only_if (negated (has_command x ''/usr/local/go/bin/go''))
       (prog x (''curl -fsSL https://go.dev/dl/go'' @ version @ ''.linux-'' @ arch @ ''.tar.gz | sudo tar -C /usr/local -xzf -'')),
     exported x ''export PATH=/usr/local/go/bin:$PATH'',
     exported x ''export GOTOOLCHAIN=auto'',
     k arch])"

text \<open>A directory for the sources that is removed at the end, the clone, and the wanted reference.\<close>

definition in_work_dir :: "'s machine \<Rightarrow> (string \<Rightarrow> 's sh) \<Rightarrow> 's sh" where
  "in_work_dir x k = grab x ''mktemp -d'' (\<lambda>w. block [trap_exit (''rm -rf '' @ w), k w])"

definition clone_ref :: "'s machine \<Rightarrow> string \<Rightarrow> string \<Rightarrow> string \<Rightarrow> string \<Rightarrow> 's sh" where
  "clone_ref x component repo ref w = block [
     only_if (negated (prog x (''git clone --depth 1 '' @ repo @ '' '' @ w @ ''/src''))) (log_exit x component (''Failed to clone '' @ repo)),
     either (prog x (''cd '' @ w @ ''/src'')) (leave 1),
     only_if (negated (prog x (''git fetch --depth 1 origin '' @ ref))) (log_exit x component (''Failed to fetch ref '' @ ref)),
     prog x ''git checkout FETCH_HEAD'']"

text \<open>The JSON object that \<open>printf\<close> prints, with one line per field.\<close>

definition json_object :: "(string \<times> string) list \<Rightarrow> string" where
  "json_object fs = line_of ''{'' @ sep_by (line_of '','') (map (\<lambda>(k, v). ''  \"'' @ k @ ''\": \"'' @ v @ [CHR 0x22]) fs)
     @ [CHR 0x0A] @ line_of ''}''"

definition write_provenance :: "'s machine \<Rightarrow> string \<Rightarrow> (string \<times> string) list \<Rightarrow> 's sh" where
  "write_provenance x dir fs = block [
     sudo x (''mkdir -p '' @ dir),
     grab_any x ''date -Iseconds'' (\<lambda>t. tee x (dir @ ''/PROVENANCE.json'') (json_object (fs @ [(''installed_at'', t)])))]"

definition docker_build :: "'s machine \<Rightarrow> Docker \<Rightarrow> 's sh" where
  "docker_build x d = in_work_dir x (\<lambda>w. block [
     clone_ref x ''docker'' (do_GitRepo d) (do_GitRef d) w,
     either (prog x ''DOCKER_BUILDTAGS=seccomp hack/make.sh binary'') (log_exit x ''docker'' ''Build failed''),
     sudo x ''install -m 755 bundles/binary-daemon/dockerd /usr/local/bin/'',
     sudo x ''install -m 755 bundles/binary-daemon/docker-proxy /usr/local/bin/'',
     only_if (is_file x ''bundles/binary-client/docker'') (sudo x ''install -m 755 bundles/binary-client/docker /usr/local/bin/''),
     install3 x ''docker'' [''containerd.io''],
     sudo x ''mkdir -p /etc/docker'',
     only_if (negated (is_file x ''/etc/docker/daemon.json''))
       (tee x ''/etc/docker/daemon.json'' (text_lines [''{'', ''  \"exec-opts\": [\"native.cgroupdriver=systemd\"],'',
         ''  \"log-driver\": \"json-file\",'', ''  \"log-opts\": { \"max-size\": \"100m\" },'',
         ''  \"storage-driver\": \"overlay2\"'', ''}''])),
     only_if (negated (is_file x ''/etc/systemd/system/docker.service''))
       (tee x ''/etc/systemd/system/docker.service'' (text_lines [''[Unit]'', ''Description=Docker Application Container Engine'',
         ''After=network-online.target containerd.service'', ''[Service]'', ''ExecStart=/usr/local/bin/dockerd'',
         ''Type=notify'', ''Restart=always'', ''RestartSec=5'', ''[Install]'', ''WantedBy=multi-user.target''])),
     sudo x ''systemctl daemon-reload'',
     sudo x ''systemctl enable --now docker''])"

text \<open>What follows the guard; the architecture is empty when the guard was skipped.\<close>

definition docker_git_finish :: "'s machine \<Rightarrow> Docker \<Rightarrow> string \<Rightarrow> 's sh" where
  "docker_git_finish x d arch = block [
     only_if (negated (is_file x ''/usr/local/bin/cri-dockerd''))
       (prog x (''curl -L '' @ cri_dockerd_url arch @ '' | sudo tar xzv -C /usr/local/bin --strip-components=1'')),
     wait_ready x (prog x ''sudo docker info'') (holodeck_error x 11 ''docker'' ''Timeout waiting for Docker''
       (''Check 'systemctl status docker'' @ [CHR 0x27])) 120,
     only_if (negated (holodeck_verify_docker x)) (holodeck_error x 5 ''docker'' ''Docker verification failed after git build''
       (''Check build logs and 'systemctl status docker'' @ [CHR 0x27])),
     grab_or x ''sudo docker version --format {{.Server.Version}}'' (do_GitCommit d) (\<lambda>v. block [
       write_provenance x ''/etc/docker'' [(''source'', ''git''), (''repo'', do_GitRepo d), (''ref'', do_GitRef d),
         (''commit'', do_GitCommit d), (''version'', v)],
       holodeck_mark_installed x ''docker'' v])]"

definition dockerGitScript :: "'s machine \<Rightarrow> Docker \<Rightarrow> 's sh" where
  "dockerGitScript x d = commit_present x ''dockerd'' ''/etc/docker/PROVENANCE.json'' (do_GitCommit d) (holodeck_verify_docker x) (\<lambda>already.
     if already then docker_git_finish x d ''''
     else block [
       retry3 x ''docker'' (sudo x ''apt-get update''),
       install3 x ''docker'' [''build-essential'', ''ca-certificates'', ''curl'', ''git'', ''libseccomp-dev'', ''pkg-config''],
       go_toolchain x ''docker'' ''${DOCKER_GO_VERSION:-1.23.4}'' (\<lambda>arch. block [docker_build x d, docker_git_finish x d arch])])"

end
