(* ===== verification/Runtime_Scripts.thy ===== *)
theory Runtime_Scripts
  imports Docker_Script
begin

text \<open>
  The shell text of \<open>pkg/provisioner/templates/crio.go\<close> and \<open>containerd.go\<close>, with the conventions of
  \<open>Docker_Script\<close>.
\<close>

section \<open>CRI-O\<close>

definition version_ok :: "string \<Rightarrow> string \<Rightarrow> bool" where
  "version_ok desired installed \<longleftrightarrow> desired = '''' \<or> installed = desired \<or> prefix (desired @ ''.'') installed"

text \<open>A service that runs in an acceptable version and works is marked, and the script ends.\<close>

definition service_present :: "'s machine \<Rightarrow> string \<Rightarrow> string \<Rightarrow> string \<Rightarrow> 's sh \<Rightarrow> 's sh" where
  "service_present x component version_command desired verify = only_if (prog x (''systemctl is-active --quiet '' @ component))
     (grab_any x version_command (\<lambda>installed.
       if installed \<noteq> '''' \<and> version_ok desired installed
       then only_if verify (block [holodeck_mark_installed x component installed, leave 0]) else nop))"

text \<open>The version as \<open>vX.Y\<close>: \<open>${v#v}\<close> and \<open>cut -d. -f1,2\<close>.\<close>

definition crio_series :: "string \<Rightarrow> string" where
  "crio_series desired = (let v = or_default desired ''v1.33''; w = (if prefix ''v'' v then drop 1 v else v) in
     ''v'' @ sep_by ''.'' (take 2 (split_on (CHR ''.'') w)))"

definition crio_repo_url :: "string \<Rightarrow> string" where
  "crio_repo_url series = ''https://download.opensuse.org/repositories/isv:/cri-o:/stable:/'' @ series"

definition crio_repository :: "'s machine \<Rightarrow> string \<Rightarrow> 's sh" where
  "crio_repository x series = look sh_family (\<lambda>f.
     if f = ''debian'' then block [
       only_if (negated (is_file x ''/etc/apt/keyrings/cri-o-apt-keyring.gpg'')) (block [
         sudo x ''mkdir -p /etc/apt/keyrings'',
         piped x (retry3 x ''crio'' (prog x (''curl -fsSL '' @ crio_repo_url series @ ''/deb/Release.key'')))
           ''sudo gpg --dearmor -o /etc/apt/keyrings/cri-o-apt-keyring.gpg'']),
       only_if (negated (is_file x ''/etc/apt/sources.list.d/cri-o.list'')) (tee x ''/etc/apt/sources.list.d/cri-o.list''
         (line_of (''deb [signed-by=/etc/apt/keyrings/cri-o-apt-keyring.gpg] '' @ crio_repo_url series @ ''/deb/ /'')))]
     else if f = ''amazon'' \<or> f = ''rhel'' then
       only_if (negated (is_file x ''/etc/yum.repos.d/cri-o.repo''))
         (retry3 x ''crio'' (sudo x (''curl -fsSL -o /etc/yum.repos.d/cri-o.repo '' @ crio_repo_url series
           @ ''/rpm/isv:cri-o:stable:'' @ series @ ''.repo'')))
     else unsupported_family x ''crio'')"

definition crio_policy :: string where
  "crio_policy = text_lines [''{'', ''    \"default\": ['', ''        {'', ''            \"type\": \"insecureAcceptAnything\"'',
     ''        }'', ''    ],'', ''    \"transports\": {'', ''        \"docker-daemon\": {'',
     ''            \"\": [{\"type\":\"insecureAcceptAnything\"}]'', ''        }'', ''    }'', ''}'']"

definition crio_links :: "'s machine \<Rightarrow> 's sh" where
  "crio_links x = block (map (\<lambda>bin. let src = ''/usr/libexec/crio/'' @ bin; dst = ''/usr/bin/'' @ bin in
     only_if (both (file_test x (''-x '' @ src)) (negated (file_test x (''-e '' @ dst)))) (sudo x (''ln -s '' @ src @ '' '' @ dst)))
     [''runc'', ''crun'', ''conmon'', ''pinns''])"

definition crio_packages :: "'s machine \<Rightarrow> 's sh" where
  "crio_packages x = block [
     retry3 x ''crio'' (pkg_update x),
     look sh_family (\<lambda>f.
       if f = ''amazon'' then block [
         retry3 x ''crio'' (pkg_install x [''cri-o'']),
         only_if (negated (is_file x ''/etc/crio/policy.json''))
           (block [sudo x ''mkdir -p /etc/crio'', tee x ''/etc/crio/policy.json'' crio_policy]),
         only_if (negated (is_file x ''/etc/containers/registries.conf''))
           (block [sudo x ''mkdir -p /etc/containers'', tee x ''/etc/containers/registries.conf''
             (line_of ''unqualified-search-registries = [\"docker.io\"]'')]),
         crio_links x]
       else if f = ''rhel'' then retry3 x ''crio'' (pkg_install x [''cri-o'', ''crun'', ''containers-common''])
       else retry3 x ''crio'' (pkg_install x [''cri-o'']))]"

definition crio_start :: "'s machine \<Rightarrow> 's sh" where
  "crio_start x = block [
     sudo x ''systemctl daemon-reload'',
     sudo x ''systemctl enable crio.service'',
     only_if (negated (sudo x ''systemctl start crio.service'')) (block [
       holodeck_log x ''ERROR'' ''crio'' ''CRI-O failed to start, capturing diagnostics...'',
       tolerated (sudo x ''systemctl status crio.service --no-pager -l''),
       tolerated (sudo x ''journalctl -u crio --no-pager -n 50''),
       tolerated (prog x ''crio --version''),
       tolerated (prog x ''ls -la /usr/bin/runc /usr/bin/crun /usr/bin/conmon''),
       tolerated (prog x ''cat /etc/crio/crio.conf.d/*.conf''),
       tolerated (prog x ''cat /etc/containers/policy.json''),
       holodeck_error x 11 ''crio'' ''CRI-O service failed to start'' ''Check diagnostics above for details''])]"

definition crio_version :: string where
  "crio_version = ''crio --version | head -1 | awk {print $3}''"

definition crio_verified :: "'s machine \<Rightarrow> string \<Rightarrow> string \<Rightarrow> string \<Rightarrow> string \<Rightarrow> 's sh" where
  "crio_verified x timeout remedy failed remedy' = block [
     wait_ready x (prog x ''systemctl is-active --quiet crio'') (holodeck_error x 11 ''crio'' timeout remedy) 120,
     only_if (negated (holodeck_verify_crio x)) (holodeck_error x 5 ''crio'' failed remedy')]"

definition crioPackageScript :: "'s machine \<Rightarrow> CriO \<Rightarrow> 's sh" where
  "crioPackageScript x c = (let series = crio_series (co_Version c) in block [
     service_present x ''crio'' crio_version (co_Version c) (holodeck_verify_crio x),
     crio_repository x series,
     crio_packages x,
     crio_start x,
     crio_verified x ''Timeout waiting for CRI-O to become ready''
       (''Check 'systemctl status crio' and 'journalctl -u crio'' @ [CHR 0x27])
       ''CRI-O installation verification failed'' ''Run 'systemctl status crio' to diagnose'',
     grab_or x crio_version series (\<lambda>v. holodeck_mark_installed x ''crio'' v)])"

text \<open>A component that was built from the wanted commit and works ends the script without a mark.\<close>

definition commit_done :: "'s machine \<Rightarrow> string \<Rightarrow> string \<Rightarrow> string \<Rightarrow> 's sh \<Rightarrow> 's sh" where
  "commit_done x command provenance commit verify =
     commit_present x command provenance commit verify (\<lambda>already. if already then leave 0 else nop)"

text \<open>The plugins are downloaded into the current directory, the sources.\<close>

definition cni_plugins :: "'s machine \<Rightarrow> string \<Rightarrow> 's sh" where
  "cni_plugins x arch = only_if (negated (is_file x ''/opt/cni/bin/bridge'')) (
     let tar = ''cni-plugins-linux-'' @ arch @ ''-v1.6.2.tgz'' in block [
       prog x (''curl -fsSL -o '' @ tar @ '' https://github.com/containernetworking/plugins/releases/download/v1.6.2/'' @ tar),
       sudo x ''mkdir -p /opt/cni/bin'',
       sudo x (''tar Cxzvf /opt/cni/bin '' @ tar)])"

definition crio_build_packages :: "'s machine \<Rightarrow> 's sh" where
  "crio_build_packages x = look sh_family (\<lambda>f.
     if f = ''debian'' then block [retry3 x ''crio'' (pkg_update x),
       install3 x ''crio'' [''build-essential'', ''ca-certificates'', ''curl'', ''git'', ''libseccomp-dev'', ''libgpgme-dev'',
         ''pkg-config'', ''libglib2.0-dev'']]
     else if f = ''amazon'' \<or> f = ''rhel'' then block [retry3 x ''crio'' (pkg_update x),
       install3 x ''crio'' [''ca-certificates'', ''curl'', ''git'', ''libseccomp-devel'', ''gpgme-devel'', ''pkg-config'',
         ''glib2-devel'', ''gcc'', ''make'']]
     else unsupported_family x ''crio'')"

definition crioGitScript :: "'s machine \<Rightarrow> CriO \<Rightarrow> 's sh" where
  "crioGitScript x c = block [
     commit_done x ''crio'' ''/etc/crio/PROVENANCE.json'' (co_GitCommit c) (holodeck_verify_crio x),
     crio_build_packages x,
     go_toolchain x ''crio'' ''${CRIO_GO_VERSION:-1.23.4}'' (\<lambda>arch. in_work_dir x (\<lambda>w. block [
       clone_ref x ''crio'' (co_GitRepo c) (co_GitRef c) w,
       only_if (negated (prog x ''make'')) (log_exit x ''crio'' ''Build failed''),
       sudo x ''make install'',
       only_if (negated (has_command x ''conmon'')) (install3 x ''crio'' [''conmon'']),
       cni_plugins x arch,
       sudo x ''mkdir -p /etc/crio'',
       prog x ''sudo crio config --default | sudo tee /etc/crio/crio.conf'',
       sudo x ''systemctl daemon-reload'',
       sudo x ''systemctl enable --now crio'',
       crio_verified x ''Timeout waiting for CRI-O'' (''Check 'systemctl status crio'' @ [CHR 0x27])
         ''CRI-O verification failed after git build'' (''Check build logs and 'systemctl status crio'' @ [CHR 0x27]),
       grab_or x crio_version (co_GitCommit c) (\<lambda>v. block [
         write_provenance x ''/etc/crio'' [(''source'', ''git''), (''repo'', co_GitRepo c), (''ref'', co_GitRef c),
           (''commit'', co_GitCommit c), (''version'', v)],
         holodeck_mark_installed x ''crio'' v])]))]"

section \<open>containerd\<close>

definition containerd_version :: string where
  "containerd_version = ''containerd --version | awk {print $3}''"

definition bs :: string where
  "bs = [CHR 0x5C]"

text \<open>A version of its own is tried three times, then the newest one.\<close>

definition containerd_package :: "'s machine \<Rightarrow> string \<Rightarrow> string \<Rightarrow> 's sh" where
  "containerd_package x version glob =
     (if version \<noteq> '''' \<and> version \<noteq> ''latest'' then
        only_if (negated (retry3 x ''containerd'' (pkg_install_version x ''containerd.io'' (version @ glob))))
          (retry3 x ''containerd'' (pkg_install x [''containerd.io'']))
      else retry3 x ''containerd'' (pkg_install x [''containerd.io'']))"

definition containerd_install :: "'s machine \<Rightarrow> string \<Rightarrow> 's sh" where
  "containerd_install x version = block [
     retry3 x ''containerd'' (pkg_update x),
     install3 x ''containerd'' [''ca-certificates'', ''curl''],
     source_os x (\<lambda>r. look sh_family (\<lambda>f.
       if f = ''debian'' then block [
         docker_apt_key x,
         only_if (negated (is_file x ''/etc/apt/sources.list.d/docker.list'')) (block [
           docker_apt_list x (or_ID r) (or_VERSION_CODENAME r),
           retry3 x ''containerd'' (pkg_update x)]),
         containerd_package x version ''*'']
       else if f = ''amazon'' then retry3 x ''containerd'' (pkg_install x [''containerd''])
       else if f = ''rhel'' then block [docker_yum_repo x ''containerd'' r, containerd_package x version '''']
       else unsupported_family x ''containerd''))]"

text \<open>The edits of the configuration, as the arguments of \<open>sed -i\<close>.\<close>

definition sed_config :: "'s machine \<Rightarrow> string \<Rightarrow> 's sh" where
  "sed_config x t = sudo x (''sed -i '' @ t @ '' /etc/containerd/config.toml'')"

definition sed_cni :: string where
  "sed_cni = ''/'' @ bs @ ''[plugins.*cri.*'' @ bs @ ''.cni'' @ bs @ '']/,/^'' @ bs
     @ ''[/{s|conf_dir = .*|conf_dir = \"/etc/cni/net.d\"|; s|bin_dir = .*|bin_dir = \"/opt/cni/bin\"|}''"

definition default_config :: "'s machine \<Rightarrow> 's sh" where
  "default_config x = block [
     sudo x ''mkdir -p /etc/containerd'',
     prog x ''containerd config default | sudo tee /etc/containerd/config.toml'']"

definition has_image_verifier :: "'s machine \<Rightarrow> 's sh" where
  "has_image_verifier x = prog x ''grep -q io.containerd.image-verifier.v1.bindir /etc/containerd/config.toml''"

definition containerd_configure :: "'s machine \<Rightarrow> 's sh" where
  "containerd_configure x = block [
     default_config x,
     sed_config x (''s/SystemdCgroup '' @ bs @ ''= false/SystemdCgroup '' @ bs @ ''= true/g''),
     sed_config x ''s|sandbox_image = .*|sandbox_image = \"registry.k8s.io/pause:3.10\"|g'',
     sed_config x sed_cni,
     only_if (has_image_verifier x) (block [
       sudo x ''mkdir -p /etc/containerd/image-verifiers'',
       sed_config x (''/io.containerd.image-verifier.v1.bindir/,/max_verifiers/''
         @ ''{s|bin_dir = .*|bin_dir = \"/etc/containerd/image-verifiers\"|}'')]),
     sudo x ''systemctl restart containerd'',
     sudo x ''systemctl enable containerd'']"

definition containerd_verified :: "'s machine \<Rightarrow> string \<Rightarrow> string \<Rightarrow> string \<Rightarrow> string \<Rightarrow> 's sh" where
  "containerd_verified x timeout remedy failed remedy' = block [
     wait_ready x (prog x ''sudo ctr version'') (holodeck_error x 11 ''containerd'' timeout remedy) 120,
     only_if (negated (holodeck_verify_containerd x)) (holodeck_error x 5 ''containerd'' failed remedy')]"

definition containerdV1Script :: "'s machine \<Rightarrow> Containerd \<Rightarrow> 's sh" where
  "containerdV1Script x c = block [
     service_present x ''containerd'' containerd_version (cd_Version c) (holodeck_verify_containerd x),
     containerd_install x (cd_Version c),
     containerd_configure x,
     containerd_verified x ''Timeout waiting for containerd to become ready''
       (''Check 'systemctl status containerd' and 'journalctl -u containerd'' @ [CHR 0x27])
       ''Containerd installation verification failed'' ''Run 'systemctl status containerd' to diagnose'',
     grab x containerd_version (\<lambda>v. holodeck_mark_installed x ''containerd'' v)]"

section \<open>containerd from source\<close>

definition containerd_tools :: "'s machine \<Rightarrow> (string \<Rightarrow> 's sh) \<Rightarrow> 's sh" where
  "containerd_tools x k = block [
     retry3 x ''containerd'' (sudo x ''apt-get update''),
     install3 x ''containerd'' [''build-essential'', ''ca-certificates'', ''curl'', ''git'', ''libseccomp-dev'', ''pkg-config''],
     go_toolchain x ''containerd'' ''${CONTAINERD_GO_VERSION:-1.23.4}'' k]"

definition containerd_build :: "'s machine \<Rightarrow> string \<Rightarrow> 's sh" where
  "containerd_build x arch = block [
     only_if (negated (prog x ''make'')) (log_exit x ''containerd'' ''Build failed''),
     sudo x ''make install'',
     only_if (negated (is_file x ''/usr/local/sbin/runc'')) (block [
       prog x (''curl -fsSL -o runc.'' @ arch @ '' https://github.com/opencontainers/runc/releases/download/v1.2.3/runc.'' @ arch),
       sudo x (''install -m 755 runc.'' @ arch @ '' /usr/local/sbin/runc'')]),
     cni_plugins x arch,
     default_config x,
     sed_config x ''s/SystemdCgroup = false/SystemdCgroup = true/g'',
     sed_config x sed_cni,
     only_if (has_image_verifier x) (sed_config x (''s/disabled_plugins = '' @ bs @ ''['' @ bs
       @ '']/disabled_plugins = [\"io.containerd.image-verifier.v1.bindir\"]/'')),
     only_if (negated (is_file x ''/etc/systemd/system/containerd.service''))
       (tee x ''/etc/systemd/system/containerd.service'' (text_lines [''[Unit]'', ''Description=containerd container runtime'',
         ''After=network.target local-fs.target'', ''[Service]'', ''ExecStart=/usr/local/bin/containerd'', ''Type=notify'',
         ''Delegate=yes'', ''KillMode=process'', ''Restart=always'', ''RestartSec=5'', ''[Install]'', ''WantedBy=multi-user.target''])),
     sudo x ''systemctl daemon-reload'',
     sudo x ''systemctl enable --now containerd'']"

definition containerd_built :: "'s machine \<Rightarrow> string \<Rightarrow> (string \<times> string) list \<Rightarrow> 's sh" where
  "containerd_built x failed fs = block [
     containerd_verified x ''Timeout waiting for containerd'' (''Check 'systemctl status containerd'' @ [CHR 0x27])
       failed (''Check build logs and 'systemctl status containerd'' @ [CHR 0x27]),
     grab x containerd_version (\<lambda>v. block [
       write_provenance x ''/etc/containerd'' (fs @ [(''version'', v)]),
       holodeck_mark_installed x ''containerd'' v])]"

definition containerdGitScript :: "'s machine \<Rightarrow> Containerd \<Rightarrow> 's sh" where
  "containerdGitScript x c = block [
     commit_done x ''containerd'' ''/etc/containerd/PROVENANCE.json'' (cd_GitCommit c) (holodeck_verify_containerd x),
     containerd_tools x (\<lambda>arch. in_work_dir x (\<lambda>w. block [
       only_if (check (cd_GitRepo c = '''')) (log_exit x ''containerd'' ''GIT_REPO is empty''),
       clone_ref x ''containerd'' (cd_GitRepo c) (cd_GitRef c) w,
       containerd_build x arch,
       containerd_built x ''Containerd verification failed after git build''
         [(''source'', ''git''), (''repo'', cd_GitRepo c), (''ref'', cd_GitRef c), (''commit'', cd_GitCommit c)]]))]"

text \<open>The newest commit of a branch: the pipe has the status of \<open>cut\<close>, so a failed lookup shows up as
  an empty commit.\<close>

definition latest_commit :: "'s machine \<Rightarrow> string \<Rightarrow> string \<Rightarrow> string \<Rightarrow> string \<Rightarrow> string \<Rightarrow> (string \<Rightarrow> 's sh) \<Rightarrow> 's sh" where
  "latest_commit x component repo tracked failed missing k ignored s =
     (case mc_Output x (''git ls-remote '' @ repo @ '' refs/heads/'' @ tracked @ '' | cut -f1'') (sh_node s) of ((c, v), n) \<Rightarrow>
       (if c \<noteq> 0 then log_exit x component failed
        else if v = '''' then log_exit x component missing
        else k v) ignored (s\<lparr>sh_node := n\<rparr>))"

definition clone_branch :: "'s machine \<Rightarrow> string \<Rightarrow> string \<Rightarrow> string \<Rightarrow> string \<Rightarrow> 's sh" where
  "clone_branch x component repo tracked w = block [
     only_if (negated (prog x (''git clone --depth 1 --branch '' @ tracked @ '' '' @ repo @ '' '' @ w @ ''/src'')))
       (log_exit x component (''Failed to clone '' @ repo @ '' branch '' @ tracked)),
     either (prog x (''cd '' @ w @ ''/src'')) (leave 1)]"

definition containerdLatestScript :: "'s machine \<Rightarrow> Containerd \<Rightarrow> 's sh" where
  "containerdLatestScript x c = block [
     only_if (check (cd_GitRepo c = '''')) (log_exit x ''containerd'' ''GIT_REPO is empty''),
     latest_commit x ''containerd'' (cd_GitRepo c) (cd_TrackBranch c)
       (''Failed to resolve '' @ cd_TrackBranch c @ '' from '' @ cd_GitRepo c) (''No commit found for branch '' @ cd_TrackBranch c) (\<lambda>commit. let short = take 8 commit in block [
       commit_done x ''containerd'' ''/etc/containerd/PROVENANCE.json'' short (holodeck_verify_containerd x),
       containerd_tools x (\<lambda>arch. in_work_dir x (\<lambda>w. block [
         clone_branch x ''containerd'' (cd_GitRepo c) (cd_TrackBranch c) w,
         containerd_build x arch,
         containerd_built x ''Containerd verification failed''
           [(''source'', ''latest''), (''repo'', cd_GitRepo c), (''branch'', cd_TrackBranch c), (''commit'', short)]]))])]"

end
