(* ===== verification/Driver_Scripts.thy ===== *)
theory Driver_Scripts
  imports Runtime_Scripts
begin

text \<open>
  The shell text of \<open>pkg/provisioner/templates/kernel.go\<close> and \<open>nv-driver.go\<close>, with the conventions of
  \<open>Docker_Script\<close>.
\<close>

section \<open>The kernel\<close>

definition remove_old_kernel :: "'s machine \<Rightarrow> string \<Rightarrow> 's sh" where
  "remove_old_kernel x current = block [
     tolerated (sudo x (''rm -rf /boot/*'' @ current @ ''*'')),
     tolerated (sudo x (''rm -rf /lib/modules/*'' @ current @ ''*'')),
     tolerated (sudo x ''rm -rf /boot/*.old'')]"

definition kernel_debian :: "'s machine \<Rightarrow> string \<Rightarrow> string \<Rightarrow> 's sh" where
  "kernel_debian x current v = block [
     exported x ''export DEBIAN_FRONTEND=noninteractive'',
     exported x ''export EDITOR=/bin/true'',
     feed x ''sudo debconf-set-selections'' (line_of ''debconf debconf/frontend select Noninteractive''),
     only_if (negated (prog x (''apt-cache show linux-image-'' @ v))) (holodeck_error x 4 ''kernel''
       (''Kernel version '' @ v @ '' not found in repositories'') ''Check available kernels with: apt-cache search linux-image''),
     remove_old_kernel x current,
     retry3 x ''kernel'' (sudo x (''apt-get install --allow-downgrades -y linux-image-'' @ v @ '' linux-headers-'' @ v
       @ '' linux-modules-'' @ v)),
     tolerated (sudo x ''update-grub''),
     tolerated (sudo x (''update-initramfs -u -k '' @ v))]"

definition kernel_rhel :: "'s machine \<Rightarrow> string \<Rightarrow> string \<Rightarrow> 's sh" where
  "kernel_rhel x current v = block [
     only_if (negated (prog x (''dnf list available kernel-'' @ v))) (holodeck_error x 4 ''kernel''
       (''Kernel version '' @ v @ '' not found in repositories'') ''Check available kernels with: dnf list available kernel-*''),
     remove_old_kernel x current,
     retry3 x ''kernel'' (sudo x (''dnf install --allowerasing -y kernel-'' @ v @ '' kernel-devel-'' @ v)),
     tolerated (either (sudo x ''grub2-mkconfig -o /boot/grub2/grub.cfg'')
       (look (\<lambda>s. mc_OsRelease x (sh_node s)) (\<lambda>r. sudo x (''grub2-mkconfig -o /boot/efi/EFI/''
         @ (case r of None \<Rightarrow> '''' | Some r \<Rightarrow> or_ID r) @ ''/grub.cfg'')))),
     tolerated (sudo x (''dracut --force --kver '' @ v))]"

text \<open>The template is empty without a version. The reboot runs in the background.\<close>

definition kernelScript :: "'s machine \<Rightarrow> string \<Rightarrow> 's sh" where
  "kernelScript x v = (if v = '''' then nop else grab x ''uname -r'' (\<lambda>current. block [
     only_if (check (current = v)) (block [holodeck_mark_installed x ''kernel'' v, leave 0]),
     only_if (both (is_file x (state_file ''kernel'')) (prog x (''grep -q status=pending_reboot '' @ state_file ''kernel'')))
       (leave 0),
     retry3 x ''kernel'' (pkg_update x),
     look sh_family (\<lambda>f.
       if f = ''debian'' then kernel_debian x current v
       else if f = ''amazon'' \<or> f = ''rhel'' then kernel_rhel x current v
       else unsupported_family x ''kernel''),
     grab x ''date -Iseconds'' (\<lambda>installed_at. tee x (state_file ''kernel'') (state_text ''pending_reboot'' v installed_at)),
     exported x ''nohup sudo reboot &'']))"

section \<open>The driver: shared parts\<close>

definition lspci_gpu :: string where
  "lspci_gpu = ''lspci | grep -qi nvidia'' @ bs @ ''|3d controller''"

definition driver_query :: string where
  "driver_query = ''nvidia-smi --query-gpu=driver_version --format=csv,noheader | head -1''"

abbreviation "driver \<equiv> ''nvidia-driver''"

abbreviation "driver_provenance_file \<equiv> ''/etc/nvidia-driver/PROVENANCE.json''"

definition skip_without_gpu :: "'s machine \<Rightarrow> 's sh" where
  "skip_without_gpu x = only_if (negated (prog x lspci_gpu)) (leave 0)"

text \<open>\<open>cut -d- -f1-2\<close>, and \<open>grep -oP '^\d+\.\d+'\<close>, which fails without a match.\<close>

definition kernel_base :: "string \<Rightarrow> string" where
  "kernel_base k = sep_by ''-'' (take 2 (split_on (CHR ''-'') k))"

definition kernel_series :: "string \<Rightarrow> string option" where
  "kernel_series k = (let digits = takeWhile is_digit; a = digits k; r = drop (length a) k; b = digits (drop 1 r) in
     if a \<noteq> [] \<and> r \<noteq> [] \<and> hd r = CHR ''.'' \<and> b \<noteq> [] then Some (a @ ''.'' @ b) else None)"

definition headers_debian :: "'s machine \<Rightarrow> string \<Rightarrow> 's sh" where
  "headers_debian x k = branch (negated (prog x (''apt-cache show linux-headers-'' @ k)))
     (grab x (''apt-cache search linux-headers | grep -E linux-headers-'' @ kernel_base k @ '' | head -1 | awk {print $1}'') (\<lambda>found.
       if found \<noteq> '''' then install3 x driver [found]
       else holodeck_error x 4 driver (''No compatible kernel headers found for '' @ k)
         ''Update kernel or use a different AMI with available headers''))
     (install3 x driver [''linux-headers-'' @ k])"

definition headers_rhel :: "'s machine \<Rightarrow> os_release \<Rightarrow> string \<Rightarrow> 's sh" where
  "headers_rhel x r k = (let series = (case kernel_series k of None \<Rightarrow> '''' | Some v \<Rightarrow> v) in block [
     check (kernel_series k \<noteq> None),
     branch (prog x (''dnf list available kernel-devel-'' @ k))
       (install3 x driver [''kernel-devel-'' @ k, ''kernel-headers''])
       (branch (prog x (''dnf list available kernel'' @ series @ ''-devel-'' @ k))
         (install3 x driver [''kernel'' @ series @ ''-devel-'' @ k, ''kernel'' @ series @ ''-headers-'' @ k])
         (install3 x driver [''kernel-devel'', ''kernel-headers''])),
     only_if (check (or_ID r = ''amzn''))
       (branch (prog x (''dnf list available kernel'' @ series @ ''-modules-extra-'' @ k))
         (install3 x driver [''kernel'' @ series @ ''-modules-extra-'' @ k])
         (install3 x driver [''kernel-modules-extra'']))])"

definition gcc_12 :: "'s machine \<Rightarrow> 's sh" where
  "gcc_12 x = block [
     install3 x driver [''gcc-12'', ''g++-12''],
     sudo x ''update-alternatives --install /usr/bin/gcc gcc /usr/bin/gcc-12 12'',
     sudo x ''update-alternatives --install /usr/bin/g++ g++ /usr/bin/g++-12 12'']"

definition driver_dependencies :: "'s machine \<Rightarrow> string list \<Rightarrow> bool \<Rightarrow> string list \<Rightarrow> os_release \<Rightarrow> 's sh" where
  "driver_dependencies x debs gcc12 rpms r = grab x ''uname -r'' (\<lambda>k. look sh_family (\<lambda>f.
     if f = ''debian'' then block [retry3 x driver (pkg_update x), headers_debian x k, install3 x driver debs,
       if gcc12 then gcc_12 x else nop]
     else if f = ''amazon'' \<or> f = ''rhel'' then block [retry3 x driver (pkg_update x), headers_rhel x r k, install3 x driver rpms]
     else unsupported_family x driver))"

definition load_module :: "'s machine \<Rightarrow> 's sh" where
  "load_module x = block [
     only_if (negated (prog x ''lsmod | grep -q ^nvidia '')) (either (sudo x ''modprobe nvidia'')
       (holodeck_error x 10 driver ''Failed to load nvidia kernel module''
         ''Check dmesg for kernel module errors: dmesg | grep -i nvidia'')),
     tolerated (sudo x ''nvidia-persistenced --persistence-mode'')]"

definition driver_verified :: "'s machine \<Rightarrow> string \<Rightarrow> 's sh" where
  "driver_verified x message = only_if (negated (holodeck_verify_driver x))
     (holodeck_error x 5 driver message ''Run 'dmesg | grep -i nvidia' and 'nvidia-smi' to diagnose'')"

section \<open>The driver from packages\<close>

definition driver_present :: "'s machine \<Rightarrow> string \<Rightarrow> 's sh" where
  "driver_present x desired = only_if (has_command x ''nvidia-smi'') (grab_any x driver_query (\<lambda>installed.
     if installed \<noteq> '''' \<and> (desired = '''' \<or> installed = desired)
     then only_if (holodeck_verify_driver x) (block [holodeck_mark_installed x driver installed, leave 0]) else nop))"

text \<open>Inside \<open>[[ ]]\<close> a pattern is not expanded: the tests ask for files whose names hold a star.\<close>

definition cuda_repo_debian :: "'s machine \<Rightarrow> os_release \<Rightarrow> string \<Rightarrow> 's sh" where
  "cuda_repo_debian x r arch = only_if (either (negated (is_file x ''/etc/apt/sources.list.d/cuda*.list''))
       (negated (is_file x ''/usr/share/keyrings/cuda-archive-keyring.gpg'')))
     (let distribution = filter (\<lambda>c. c \<noteq> CHR ''.'') (or_ID r @ or_VERSION_ID r) in block [
       retry3 x driver (prog x (''wget -q https://developer.download.nvidia.com/compute/cuda/repos/'' @ distribution @ ''/''
         @ arch @ ''/cuda-keyring_1.1-1_all.deb'')),
       sudo x ''dpkg -i cuda-keyring_1.1-1_all.deb'',
       prog x ''rm -f cuda-keyring_1.1-1_all.deb'',
       retry3 x driver (pkg_update x)])"

definition cuda_distro :: "os_release \<Rightarrow> string" where
  "cuda_distro r = (if or_ID r = ''amzn'' then ''rhel9''
     else if or_ID r = ''fedora'' then ''fedora'' @ or_VERSION_ID r
     else ''rhel'' @ before_dot (or_VERSION_ID r))"

definition cuda_repo_rhel :: "'s machine \<Rightarrow> os_release \<Rightarrow> string \<Rightarrow> 's sh" where
  "cuda_repo_rhel x r arch = only_if (negated (is_file x ''/etc/yum.repos.d/cuda*.repo''))
     (let d = cuda_distro r in block [
       sudo x (''curl -fsSL -o /etc/yum.repos.d/cuda-'' @ d @ ''.repo https://developer.download.nvidia.com/compute/cuda/repos/''
         @ d @ ''/'' @ arch @ ''/cuda-'' @ d @ ''.repo''),
       only_if (check (or_ID r = ''amzn''))
         (sudo x (''sed -i /^'' @ bs @ ''[cuda/a module_hotfixes=1 /etc/yum.repos.d/cuda-'' @ d @ ''.repo'')),
       retry3 x driver (pkg_update x)])"

definition cuda_repository :: "'s machine \<Rightarrow> os_release \<Rightarrow> 's sh" where
  "cuda_repository x r = grab x ''uname -m'' (\<lambda>m. let arch = (if m = ''aarch64'' then ''sbsa'' else m) in look sh_family (\<lambda>f.
     if f = ''debian'' then cuda_repo_debian x r arch
     else if f = ''amazon'' \<or> f = ''rhel'' then cuda_repo_rhel x r arch
     else unsupported_family x driver))"

text \<open>The package of the driver and the one that pins its version.\<close>

definition driver_packages :: "string \<Rightarrow> string \<Rightarrow> NvDriver \<Rightarrow> string \<times> string" where
  "driver_packages family ident d =
     (if ident = ''amzn'' then (''nvidia-open'', '''')
      else if nv_Version d \<noteq> '''' then
        (if family = ''debian'' then (''cuda-drivers'', ''nvidia-driver-pinning-'' @ nv_Version d)
         else if family = ''amazon'' \<or> family = ''rhel'' then (''cuda-drivers-'' @ nv_Version d, '''')
         else (''cuda-drivers'', ''''))
      else if nv_Branch d \<noteq> '''' then
        (if family = ''debian'' then (''cuda-drivers'', ''nvidia-driver-pinning-'' @ nv_Branch d)
         else (''cuda-drivers-'' @ nv_Branch d, ''''))
      else (''cuda-drivers'', ''''))"

definition dkms_rebuild :: "'s machine \<Rightarrow> 's sh" where
  "dkms_rebuild x = only_if (has_command x ''dkms'')
     (grab x (''dkms status nvidia | head -1 | sed -n s|^nvidia[/,] *'' @ bs @ ''([0-9][0-9.]*'' @ bs @ '').*|'' @ bs @ ''1|p'') (\<lambda>v.
       let on_kernel = (\<lambda>t rest. grab_any x ''uname -r'' (\<lambda>k. prog x (t @ '' nvidia/'' @ v @ '' -k '' @ k @ rest))) in
       only_if (check (v \<noteq> '''')) (only_if (negated (on_kernel ''dkms status'' '' | grep -q installed'')) (block [
         tolerated (on_kernel ''sudo dkms build'' ''''),
         tolerated (on_kernel ''sudo dkms install'' '''')]))))"

definition driver_finish :: "'s machine \<Rightarrow> NvDriver \<Rightarrow> 's sh" where
  "driver_finish x d = block [
     driver_verified x ''Driver installation verification failed'',
     grab x driver_query (\<lambda>v. block [
       only_if (both (check (nv_Version d \<noteq> '''')) (check (v \<noteq> nv_Version d)))
         (holodeck_error x 11 driver (''Driver version mismatch: desired='' @ nv_Version d @ '' installed='' @ v)
           (''Verify that version '' @ nv_Version d
             @ '' is available in the configured CUDA repo, or pin to an available version'')),
       write_provenance x ''/etc/nvidia-driver'' [(''source'', ''package''), (''branch'', nv_Branch d), (''version'', v)],
       holodeck_mark_installed x driver v])]"

definition nvDriverPackageScript :: "'s machine \<Rightarrow> NvDriver \<Rightarrow> 's sh" where
  "nvDriverPackageScript x d = block [
     skip_without_gpu x,
     driver_present x (nv_Version d),
     source_os x (\<lambda>r. block [
       driver_dependencies x [''apt-utils'', ''build-essential'', ''ca-certificates'', ''curl'', ''kmod'', ''file'', ''libelf-dev'',
         ''libglvnd-dev'', ''pkg-config'', ''make''] True [''ca-certificates'', ''curl'', ''kmod'', ''file'',
         ''elfutils-libelf-devel'', ''mesa-libEGL-devel'', ''pkg-config'', ''make'', ''gcc'', ''gcc-c++''] r,
       cuda_repository x r,
       look sh_family (\<lambda>f. let (package, pinning) = driver_packages f (or_ID r) d in block [
         only_if (check (pinning \<noteq> '''')) (install3 x driver [pinning]),
         install3 x driver [package]])]),
     dkms_rebuild x,
     load_module x,
     driver_finish x d]"

section \<open>The driver from a runfile\<close>

text \<open>A driver that works ends the script, whichever runfile is wanted; only the mark differs.\<close>

definition runfile_present :: "'s machine \<Rightarrow> string \<Rightarrow> 's sh" where
  "runfile_present x url = only_if (has_command x ''nvidia-smi'') (grab_any x driver_query (\<lambda>installed.
     only_if (check (installed \<noteq> '''')) (only_if (holodeck_verify_driver x) (block [
       only_if (is_file x driver_provenance_file) (only_if (has_command x ''jq'')
         (grab x (''jq -r .url // empty '' @ driver_provenance_file) (\<lambda>u. only_if (check (u = url)) (leave 0)))),
       holodeck_mark_installed x driver installed,
       leave 0]))))"

definition runfile_checksum :: "'s machine \<Rightarrow> string \<Rightarrow> string \<Rightarrow> 's sh" where
  "runfile_checksum x checksum w = only_if (check (checksum \<noteq> ''''))
     (grab x (''sha256sum '' @ w @ ''/driver.run | cut -d -f1'') (\<lambda>actual. let expected = TrimPrefix checksum ''sha256:'' in
       only_if (check (actual \<noteq> expected)) (holodeck_error x 6 driver
         (''Checksum mismatch: expected='' @ expected @ '', actual='' @ actual) ''Verify the download URL and checksum'')))"

definition runfile_install :: "'s machine \<Rightarrow> string \<Rightarrow> 's sh" where
  "runfile_install x w = block [
     prog x (''chmod +x '' @ w @ ''/driver.run''),
     only_if (negated (sudo x (w @ ''/driver.run --silent --dkms''))) (holodeck_error x 7 driver ''Runfile installation failed''
       ''Check /var/log/nvidia-installer.log for details'')]"

definition nvDriverRunfileScript :: "'s machine \<Rightarrow> NvDriver \<Rightarrow> 's sh" where
  "nvDriverRunfileScript x d = (let url = nv_RunfileURL d in block [
     skip_without_gpu x,
     runfile_present x url,
     source_os x (driver_dependencies x [''build-essential'', ''ca-certificates'', ''curl'', ''kmod'', ''file'', ''libelf-dev'',
       ''libglvnd-dev'', ''pkg-config'', ''make'', ''dkms''] False [''ca-certificates'', ''curl'', ''kmod'', ''file'',
       ''elfutils-libelf-devel'', ''mesa-libEGL-devel'', ''pkg-config'', ''make'', ''dkms'', ''gcc'', ''gcc-c++'']),
     in_work_dir x (\<lambda>w. block [
       only_if (check (url = '''')) (log_exit x driver ''RUNFILE_URL is empty''),
       retry3 x driver (prog x (''wget -q -O '' @ w @ ''/driver.run '' @ url)),
       runfile_checksum x (nv_RunfileChecksum d) w,
       runfile_install x w]),
     load_module x,
     driver_verified x ''Driver installation verification failed after runfile install'',
     grab x driver_query (\<lambda>v. block [
       write_provenance x ''/etc/nvidia-driver'' [(''source'', ''runfile''), (''url'', url), (''checksum'', nv_RunfileChecksum d),
         (''version'', v)],
       holodeck_mark_installed x driver v])])"

section \<open>The driver from source\<close>

text \<open>Only repositories of GitHub are cloned.\<close>

definition github_only :: "'s machine \<Rightarrow> string \<Rightarrow> string \<Rightarrow> string \<Rightarrow> 's sh" where
  "github_only x component refusing repo = block [
     only_if (check (repo = '''')) (log_exit x component (''GIT_REPO is empty; refusing to '' @ refusing)),
     only_if (check (\<not> prefix ''https://github.com/'' repo \<and> \<not> prefix ''git@github.com:'' repo))
       (log_exit x component (''GIT_REPO must be a GitHub URL: '' @ repo))]"

definition enter_sources :: "'s machine \<Rightarrow> string \<Rightarrow> string \<Rightarrow> 's sh" where
  "enter_sources x component w = either (prog x (''cd '' @ w @ ''/src'')) (log_exit x component ''Failed to enter source directory'')"

definition checkout_ref :: "'s machine \<Rightarrow> string \<Rightarrow> string \<Rightarrow> string \<Rightarrow> string \<Rightarrow> 's sh" where
  "checkout_ref x component repo ref w = block [
     github_only x component ''clone'' repo,
     only_if (negated (prog x (''git clone --depth 1 '' @ repo @ '' '' @ w @ ''/src'')))
       (log_exit x component (''Failed to clone repository '' @ repo)),
     enter_sources x component w,
     only_if (negated (prog x (''git fetch --depth 1 origin '' @ ref))) (log_exit x component (''Failed to fetch git ref '' @ ref)),
     only_if (negated (prog x ''git checkout FETCH_HEAD'')) (log_exit x component ''Failed to checkout FETCH_HEAD'')]"

definition build_modules :: "'s machine \<Rightarrow> 's sh" where
  "build_modules x = block [
     only_if (negated (grab_any x ''nproc'' (\<lambda>n. prog x (''make modules -j'' @ n)))) (holodeck_error x 8 driver
       ''Failed to build kernel modules from source'' ''Check build output and ensure kernel headers are compatible''),
     only_if (negated (sudo x ''make modules_install'')) (holodeck_error x 9 driver
       ''Failed to install kernel modules'' ''Check dmesg and module installation logs''),
     sudo x ''depmod -a'']"

definition nvDriverGitScript :: "'s machine \<Rightarrow> NvDriver \<Rightarrow> 's sh" where
  "nvDriverGitScript x d = block [
     skip_without_gpu x,
     commit_done x ''nvidia-smi'' driver_provenance_file (nv_GitCommit d) (holodeck_verify_driver x),
     source_os x (driver_dependencies x [''build-essential'', ''ca-certificates'', ''curl'', ''kmod'', ''file'', ''git'',
       ''libelf-dev'', ''libglvnd-dev'', ''pkg-config'', ''make'', ''dkms''] True [''ca-certificates'', ''curl'', ''kmod'', ''file'',
       ''git'', ''elfutils-libelf-devel'', ''mesa-libEGL-devel'', ''pkg-config'', ''make'', ''dkms'', ''gcc'', ''gcc-c++'']),
     in_work_dir x (checkout_ref x driver (nv_GitRepo d) (nv_GitRef d)),
     build_modules x,
     load_module x,
     driver_verified x ''Driver installation verification failed after git build'',
     grab x driver_query (\<lambda>v. block [
       write_provenance x ''/etc/nvidia-driver'' [(''source'', ''git''), (''repo'', nv_GitRepo d), (''ref'', nv_GitRef d),
         (''commit'', nv_GitCommit d), (''version'', v)],
       holodeck_mark_installed x driver v])]"

end
