(* ===== verification/Toolkit_Scripts.thy ===== *)
theory Toolkit_Scripts
  imports Driver_Scripts
begin

text \<open>
  The shell text of \<open>pkg/provisioner/templates/container-toolkit.go\<close>, with the conventions of
  \<open>Docker_Script\<close>.
\<close>

abbreviation "toolkit \<equiv> ''nvidia-container-toolkit''"

definition ctk_version :: string where
  "ctk_version = ''nvidia-ctk --version | head -1''"

section \<open>From packages\<close>

text \<open>The wanted version is looked for in the text that \<open>--version\<close> prints.\<close>

definition toolkit_present :: "'s machine \<Rightarrow> string \<Rightarrow> 's sh" where
  "toolkit_present x version = only_if (has_command x ''nvidia-ctk'') (grab_any x ctk_version (\<lambda>installed.
     only_if (check (installed \<noteq> ''''))
       (only_if (either (check (version = '''')) (feed x (''grep -q '' @ version) (line_of installed)))
         (only_if (holodeck_verify_toolkit x) (block [holodeck_mark_installed x toolkit installed, leave 0])))))"

definition toolkit_repository :: "'s machine \<Rightarrow> string \<Rightarrow> 's sh" where
  "toolkit_repository x channel = look sh_family (\<lambda>f.
     if f = ''debian'' then block [
       only_if (negated (is_file x ''/usr/share/keyrings/nvidia-container-toolkit-keyring.gpg''))
         (piped x (retry3 x toolkit (prog x ''curl -fsSL https://nvidia.github.io/libnvidia-container/gpgkey''))
           ''sudo gpg --dearmor -o /usr/share/keyrings/nvidia-container-toolkit-keyring.gpg''),
       only_if (negated (is_file x ''/etc/apt/sources.list.d/nvidia-container-toolkit.list''))
         (prog x (''curl -s -L https://nvidia.github.io/libnvidia-container/'' @ channel @ ''/deb/nvidia-container-toolkit.list | ''
           @ ''sed s#deb https://#deb [signed-by=/usr/share/keyrings/nvidia-container-toolkit-keyring.gpg] https://#g | ''
           @ ''sudo tee /etc/apt/sources.list.d/nvidia-container-toolkit.list'')),
       retry3 x toolkit (pkg_update x)]
     else if f = ''amazon'' \<or> f = ''rhel'' then block [
       only_if (negated (is_file x ''/etc/yum.repos.d/nvidia-container-toolkit.repo'')) (block [
         sudo x (''curl -fsSL -o /etc/yum.repos.d/nvidia-container-toolkit.repo https://nvidia.github.io/libnvidia-container/''
           @ channel @ ''/rpm/nvidia-container-toolkit.repo''),
         sudo x ''sed -i s/^repo_gpgcheck=1/repo_gpgcheck=0/ /etc/yum.repos.d/nvidia-container-toolkit.repo'']),
       retry3 x toolkit (pkg_update x)]
     else unsupported_family x toolkit)"

definition toolkit_packages :: "'s machine \<Rightarrow> string \<Rightarrow> 's sh" where
  "toolkit_packages x version =
     (if version = '''' then install3 x toolkit [toolkit]
      else look sh_family (\<lambda>f.
        if f = ''debian'' then install3 x toolkit [toolkit @ ''='' @ version]
        else if f = ''amazon'' \<or> f = ''rhel'' then install3 x toolkit [toolkit @ ''-'' @ version]
        else nop))"

definition render_bool :: "bool \<Rightarrow> string" where
  "render_bool b = (if b then ''true'' else ''false'')"

definition configure_runtime :: "'s machine \<Rightarrow> ContainerToolkit \<Rightarrow> 's sh" where
  "configure_runtime x t = block [
     sudo x (''nvidia-ctk runtime configure --runtime='' @ tk_ContainerRuntime t @ '' --set-as-default --enable-cdi=''
       @ render_bool (tk_EnableCDI t)),
     only_if (check (tk_ContainerRuntime t = ''containerd''))
       (only_if (negated (sudo x ''grep -q bin_dir = \"/opt/cni/bin\" /etc/containerd/config.toml''))
         (sudo x (''sed -i /'' @ bs @ ''[plugins.\"io.containerd.grpc.v1.cri\".cni'' @ bs @ '']/,/'' @ bs
           @ ''[/{s|bin_dir = .*|bin_dir = \"/opt/cni/bin\"|g} /etc/containerd/config.toml''))),
     sudo x (''systemctl restart '' @ tk_ContainerRuntime t)]"

text \<open>The mark is set without a verification.\<close>

definition containerToolkitPackageScript :: "'s machine \<Rightarrow> ContainerToolkit \<Rightarrow> 's sh" where
  "containerToolkitPackageScript x t = block [
     skip_without_gpu x,
     toolkit_present x (tk_Version t),
     toolkit_repository x (tk_Channel t),
     toolkit_packages x (tk_Version t),
     configure_runtime x t,
     grab_or x ctk_version ''installed'' (\<lambda>v. block [
       write_provenance x ''/etc/nvidia-container-toolkit'' [(''source'', ''package''), (''channel'', tk_Channel t), (''version'', v)],
       holodeck_mark_installed x toolkit v])]"

section \<open>From an image or from source\<close>

definition install_artifacts :: "'s machine \<Rightarrow> string \<Rightarrow> string \<Rightarrow> string \<Rightarrow> 's sh" where
  "install_artifacts x w pattern install = look (\<lambda>s. mc_Glob x (w @ ''/artifacts/'' @ pattern) (sh_node s)) (\<lambda>ps.
     block (map (\<lambda>p. only_if (file_test x (''-e '' @ p)) (prog x (install @ '' '' @ p))) ps))"

definition from_image :: "'s machine \<Rightarrow> string \<Rightarrow> string \<Rightarrow> (string \<Rightarrow> 's sh) \<Rightarrow> 's sh" where
  "from_image x ghcr w k = look (\<lambda>s. mc_Test x ''-f /etc/debian_version'' (sh_node s)) (\<lambda>debian.
     grab x (''sudo docker create '' @ ghcr @ '' || sudo podman create '' @ ghcr) (\<lambda>container. block [
       only_if (check (container = '''')) (log_exit x toolkit (''Failed to create container from image '' @ ghcr)),
       only_if (both (negated (sudo x (''docker cp '' @ container @ '':/artifacts '' @ w @ ''/'')))
           (negated (sudo x (''podman cp '' @ container @ '':/artifacts '' @ w @ ''/''))))
         (log_exit x toolkit (''Failed to copy artifacts from container '' @ container)),
       tolerated (either (sudo x (''docker rm '' @ container)) (sudo x (''podman rm '' @ container))),
       if debian then install_artifacts x w ''*.deb'' ''sudo dpkg -i'' else install_artifacts x w ''*.rpm'' ''sudo rpm -Uvh'',
       grab_or x (''sudo docker inspect --format={{.RepoDigests}} '' @ ghcr @ '' | head -1'') ''unknown'' k]))"

definition ctk_go_arch :: "'s machine \<Rightarrow> (string \<Rightarrow> 's sh) \<Rightarrow> 's sh" where
  "ctk_go_arch x k = grab x ''uname -m'' (\<lambda>m.
     if m \<in> {''x86_64'', ''amd64''} then k ''amd64''
     else if m \<in> {''aarch64'', ''arm64''} then k ''arm64''
     else if m \<in> {''ppc64le'', ''s390x''} then k m
     else log_exit x toolkit (''Unsupported architecture: '' @ m))"

definition build_toolkit :: "'s machine \<Rightarrow> 's sh" where
  "build_toolkit x = block [
     install_packages_with_retry x [''make'', ''curl''],
     ctk_go_arch x (\<lambda>arch. only_if (negated (has_command x ''/usr/local/go/bin/go''))
       (prog x (''curl -fsSL https://go.dev/dl/go${NVIDIA_CTK_GO_VERSION:-1.23.4}.linux-'' @ arch
         @ ''.tar.gz | sudo tar -C /usr/local -xzf -''))),
     exported x ''export PATH=/usr/local/go/bin:$PATH'',
     exported x ''export GOTOOLCHAIN=auto'',
     only_if (negated (prog x ''make cmds'')) (log_exit x toolkit (''Failed to build command binaries with 'make cmds'' @ [CHR 0x27])),
     sudo x ''install -m 755 nvidia-ctk /usr/local/bin/'',
     sudo x ''install -m 755 nvidia-cdi-hook /usr/local/bin/'',
     block (map (\<lambda>bin. only_if (is_file x bin) (sudo x (''install -m 755 '' @ bin @ '' /usr/local/bin/'')))
       [''nvidia-container-runtime'', ''nvidia-container-runtime-hook''])]"

definition link_runtime :: "'s machine \<Rightarrow> 's sh" where
  "link_runtime x = block [
     only_if (negated (has_command x ''nvidia-container-runtime'')) (grab x ''command -v nvidia-ctk'' (\<lambda>p.
       grab_any x (''dirname '' @ p) (\<lambda>dir. sudo x (''ln -sf '' @ p @ '' '' @ dir @ ''/nvidia-container-runtime'')))),
     only_if (negated (is_file x ''/usr/bin/nvidia-container-runtime''))
       (grab x ''command -v nvidia-container-runtime || command -v nvidia-ctk''
         (\<lambda>p. sudo x (''ln -sf '' @ p @ '' /usr/bin/nvidia-container-runtime'')))]"

text \<open>A pre-built image if there is one, else the sources.\<close>

definition toolkit_from :: "'s machine \<Rightarrow> string \<Rightarrow> string \<Rightarrow> 's sh \<Rightarrow> (string \<Rightarrow> 's sh) \<Rightarrow> 's sh" where
  "toolkit_from x ghcr w sources k = branch (either (sudo x (''docker pull '' @ ghcr)) (sudo x (''podman pull '' @ ghcr)))
     (from_image x ghcr w k)
     (block [sources, build_toolkit x, k ''source-build''])"

definition toolkit_finish :: "'s machine \<Rightarrow> ContainerToolkit \<Rightarrow> string \<Rightarrow> (string \<times> string) list \<Rightarrow> string \<Rightarrow> string \<Rightarrow> 's sh" where
  "toolkit_finish x t message fs commit digest = block [
     link_runtime x,
     configure_runtime x t,
     only_if (negated (holodeck_verify_toolkit x)) (holodeck_error x 12 toolkit message
       (''Check build logs and '' @ tk_ContainerRuntime t @ '' configuration'')),
     grab_or x ctk_version commit (\<lambda>_. block [
       write_provenance x ''/etc/nvidia-container-toolkit'' (fs @ [(''commit'', commit), (''ghcr_digest'', digest)]),
       holodeck_mark_installed x toolkit commit])]"

definition ghcr_image :: "string \<Rightarrow> string" where
  "ghcr_image commit = ''ghcr.io/nvidia/container-toolkit:'' @ commit"

definition containerToolkitGitScript :: "'s machine \<Rightarrow> ContainerToolkit \<Rightarrow> 's sh" where
  "containerToolkitGitScript x t = (let commit = tk_GitCommit t in block [
     commit_done x ''nvidia-ctk'' ''/etc/nvidia-container-toolkit/PROVENANCE.json'' commit (holodeck_verify_toolkit x),
     in_work_dir x (\<lambda>w. toolkit_from x (ghcr_image commit) w (checkout_ref x toolkit (tk_GitRepo t) (tk_GitRef t) w)
       (toolkit_finish x t ''NVIDIA Container Toolkit verification failed after git install''
         [(''source'', ''git''), (''repo'', tk_GitRepo t), (''ref'', tk_GitRef t)] commit))])"

definition containerToolkitLatestScript :: "'s machine \<Rightarrow> ContainerToolkit \<Rightarrow> 's sh" where
  "containerToolkitLatestScript x t = (let repo = tk_GitRepo t; tracked = tk_TrackBranch t in block [
     github_only x toolkit ''continue'' repo,
     latest_commit x toolkit repo tracked (''Failed to resolve latest commit from '' @ repo @ '' branch '' @ tracked)
         (''No commit found for branch '' @ tracked @ '' in '' @ repo) (\<lambda>c. let commit = take 8 c in block [
       commit_done x ''nvidia-ctk'' ''/etc/nvidia-container-toolkit/PROVENANCE.json'' commit (holodeck_verify_toolkit x),
       in_work_dir x (\<lambda>w. toolkit_from x (ghcr_image commit) w
         (block [
           only_if (negated (prog x (''git clone --depth 1 --branch '' @ tracked @ '' '' @ repo @ '' '' @ w @ ''/src'')))
             (log_exit x toolkit (''Failed to clone '' @ repo @ '' branch '' @ tracked)),
           enter_sources x toolkit w])
         (toolkit_finish x t ''NVIDIA Container Toolkit verification failed''
           [(''source'', ''latest''), (''repo'', repo), (''branch'', tracked)] commit))])])"

end
