(* ===== verification/Kubeadm_Scripts.thy ===== *)
theory Kubeadm_Scripts
  imports Toolkit_Scripts
begin

text \<open>
  The shell text of \<open>pkg/provisioner/templates/kubeadm_cluster.go\<close> (the first node of a cluster, joining
  nodes, and the binaries alone) and the kubeadm template of \<open>kubernetes.go\<close>, with the conventions of
  \<open>Docker_Script\<close>; \<open>HOME\<close> and \<open>KUBECONFIG\<close> stay unexpanded in the text of commands.
\<close>

section \<open>Parts that the templates share\<close>

definition with_arch :: "'s machine \<Rightarrow> KubernetesTemplate \<Rightarrow> (string \<Rightarrow> 's sh) \<Rightarrow> 's sh" where
  "with_arch x k m = (if kt_Arch k \<noteq> '''' then m (kt_Arch k)
     else grab x ''dpkg --print-architecture || (uname -m | sed s/x86_64/amd64/;s/aarch64/arm64/)'' m)"

abbreviation "admin_conf \<equiv> ''/etc/kubernetes/admin.conf''"

definition kubectl :: "'s machine \<Rightarrow> string \<Rightarrow> 's sh" where
  "kubectl x t = prog x (''kubectl --kubeconfig $KUBECONFIG '' @ t)"

definition admin_nodes :: "'s machine \<Rightarrow> 's sh" where
  "admin_nodes x = prog x ''kubectl --kubeconfig=/etc/kubernetes/admin.conf get nodes''"

definition swap_off :: "'s machine \<Rightarrow> 's sh" where
  "swap_off x = block [
     sudo x ''swapoff -a'',
     sudo x (''sed -i / swap / s/^'' @ bs @ ''(.*'' @ bs @ '')$/#'' @ bs @ ''1/g /etc/fstab'')]"

definition zram_off :: "'s machine \<Rightarrow> 's sh" where
  "zram_off x = only_if (prog x ''systemctl list-unit-files systemd-zram-setup@.service'') (block [
     tolerated (sudo x ''systemctl stop dev-zram*.swap''),
     tolerated (sudo x ''systemctl mask systemd-zram-setup@.service'')])"

definition network_modules :: "'s machine \<Rightarrow> 's sh" where
  "network_modules x = block [
     only_if (negated (is_file x ''/etc/modules-load.d/k8s.conf''))
       (tee x ''/etc/modules-load.d/k8s.conf'' (text_lines [''overlay'', ''br_netfilter''])),
     sudo x ''modprobe overlay'',
     sudo x ''modprobe br_netfilter'',
     only_if (negated (is_file x ''/etc/sysctl.d/kubernetes.conf'')) (block [
       tee x ''/etc/sysctl.d/kubernetes.conf'' (text_lines [''net.bridge.bridge-nf-call-ip6tables = 1'',
         ''net.bridge.bridge-nf-call-iptables = 1'', ''net.ipv4.ip_forward = 1'']),
       sudo x ''sysctl --system''])]"

definition download_cni :: "'s machine \<Rightarrow> string \<Rightarrow> KubernetesTemplate \<Rightarrow> string \<Rightarrow> 's sh" where
  "download_cni x c k arch = piped x (retry3 x c (prog x
     (''curl -L https://github.com/containernetworking/plugins/releases/download/'' @ kt_CniPluginsVersion k
       @ ''/cni-plugins-linux-'' @ arch @ ''-'' @ kt_CniPluginsVersion k @ ''.tgz'')))
     ''sudo tar -C /opt/cni/bin -xz''"

definition cni_missing :: "'s machine \<Rightarrow> 's sh" where
  "cni_missing x = either (negated (is_file x ''/opt/cni/bin/bridge'')) (negated (is_file x ''/opt/cni/bin/loopback''))"

definition download_crictl :: "'s machine \<Rightarrow> string \<Rightarrow> KubernetesTemplate \<Rightarrow> string \<Rightarrow> 's sh" where
  "download_crictl x c k arch = only_if (negated (is_file x ''/usr/local/bin/crictl''))
     (piped x (retry3 x c (prog x (''curl -L https://github.com/kubernetes-sigs/cri-tools/releases/download/''
       @ kt_CrictlVersion k @ ''/crictl-'' @ kt_CrictlVersion k @ ''-linux-'' @ arch @ ''.tar.gz'')))
       ''sudo tar -C /usr/local/bin -xz'')"

definition download_binaries :: "'s machine \<Rightarrow> KubernetesTemplate \<Rightarrow> string \<Rightarrow> 's sh" where
  "download_binaries x k arch = block [
     prog x ''cd /usr/local/bin'',
     sudo x (''curl -L --remote-name-all https://dl.k8s.io/release/'' @ kt_Version k @ ''/bin/linux/'' @ arch
       @ ''/{kubeadm,kubelet,kubectl}''),
     sudo x ''chmod +x kubeadm kubelet kubectl'']"

definition binaries_missing :: "'s machine \<Rightarrow> 's sh" where
  "binaries_missing x = either (negated (is_file x ''/usr/local/bin/kubeadm'')) (either
     (negated (is_file x ''/usr/local/bin/kubelet'')) (negated (is_file x ''/usr/local/bin/kubectl'')))"

definition kubelet_unit :: "'s machine \<Rightarrow> KubernetesTemplate \<Rightarrow> string \<Rightarrow> string \<Rightarrow> 's sh" where
  "kubelet_unit x k source target = only_if (negated (is_file x target))
     (prog x (''curl -sSL https://raw.githubusercontent.com/kubernetes/release/'' @ kt_KubeletReleaseVersion k
       @ ''/cmd/krel/templates/latest/'' @ source @ '' | sed s:/usr/bin:/usr/local/bin:g | sudo tee '' @ target))"

definition kubelet_units :: "'s machine \<Rightarrow> KubernetesTemplate \<Rightarrow> 's sh" where
  "kubelet_units x k = block [
     kubelet_unit x k ''kubelet/kubelet.service'' ''/etc/systemd/system/kubelet.service'',
     sudo x ''mkdir -p /etc/systemd/system/kubelet.service.d'',
     kubelet_unit x k ''kubeadm/10-kubeadm.conf'' ''/etc/systemd/system/kubelet.service.d/10-kubeadm.conf'',
     sudo x ''systemctl daemon-reload'']"

text \<open>\<open>chown "$(id -u):$(id -g)" target\<close>\<close>

definition own :: "'s machine \<Rightarrow> string \<Rightarrow> 's sh" where
  "own x t = grab_any x ''id -u'' (\<lambda>u. grab_any x ''id -g'' (\<lambda>g. sudo x (''chown '' @ u @ '':'' @ g @ '' '' @ t)))"

definition user_kubeconfig :: "'s machine \<Rightarrow> 's sh" where
  "user_kubeconfig x = block [
     prog x ''mkdir -p $HOME/.kube'',
     sudo x ''cp -f /etc/kubernetes/admin.conf $HOME/.kube/config'',
     own x ''$HOME/.kube/config'']"

definition export_kubeconfig :: "'s machine \<Rightarrow> 's sh" where
  "export_kubeconfig x = exported x ''export KUBECONFIG=$HOME/.kube/config''"

definition node_ip :: string where
  "node_ip = ''hostname -I | awk {print $1}''"

section \<open>Calico\<close>

definition calico_url :: "KubernetesTemplate \<Rightarrow> string \<Rightarrow> string" where
  "calico_url k f = ''https://raw.githubusercontent.com/projectcalico/calico/'' @ kt_CalicoVersion k @ ''/manifests/'' @ f"

definition tigera_patch :: string where
  "tigera_patch = text_lines [''{'', ''    \"spec\": {\"template\": {\"spec\": {'', ''        \"hostNetwork\": true,'',
     ''        \"dnsPolicy\": \"ClusterFirstWithHostNet\"'', ''    }}}''] @ ''}''"

definition tigera_operator :: "'s machine \<Rightarrow> string \<Rightarrow> KubernetesTemplate \<Rightarrow> 's sh" where
  "tigera_operator x c k = block [
     only_if (negated (kubectl x ''get namespace tigera-operator'')) (retry3 x c (kubectl x (''create -f '' @ calico_url k ''tigera-operator.yaml''))),
     grab x node_ip (\<lambda>ip. block [
       retry3 x c (kubectl x (''patch deployment tigera-operator -n tigera-operator --type=strategic -p '' @ tigera_patch)),
       retry3 x c (kubectl x (''set env deployment/tigera-operator -n tigera-operator KUBERNETES_SERVICE_HOST='' @ ip
         @ '' KUBERNETES_SERVICE_PORT=6443''))]),
     holodeck_retry x 10 c (kubectl x ''rollout status deployment/tigera-operator -n tigera-operator --timeout=300s'')]"

definition wait_crd :: "'s machine \<Rightarrow> string \<Rightarrow> string \<Rightarrow> 's sh" where
  "wait_crd x c crd = holodeck_retry x 30 c (kubectl x (''wait --for=condition=established --timeout=10s crd/'' @ crd))"

definition installation_crd :: "'s machine \<Rightarrow> string \<Rightarrow> 's sh" where
  "installation_crd x c = only_if (negated (wait_crd x c ''installations.operator.tigera.io'')) (block [
     holodeck_log x ''ERROR'' c ''CRD wait failed - collecting diagnostics'',
     tolerated (kubectl x ''get pods -n tigera-operator -o wide''),
     tolerated (kubectl x ''describe pod -n tigera-operator | tail -40''),
     tolerated (kubectl x ''logs -n tigera-operator -l name=tigera-operator --tail=30''),
     tolerated (kubectl x ''get events -n tigera-operator --sort-by=.lastTimestamp | tail -20''),
     tolerated (kubectl x ''get crd | grep -i tigera''),
     holodeck_error x 6 c ''Tigera operator CRDs not registered after retries''
       ''The operator pod may be crashing. Check diagnostics above.''])"

text \<open>The dash of the message is a character outside ASCII.\<close>

definition other_crds :: "'s machine \<Rightarrow> string \<Rightarrow> 's sh" where
  "other_crds x c = block (map (\<lambda>crd. either (wait_crd x c crd) (holodeck_log x ''WARN'' c (''CRD '' @ crd @ '' not found ''
       @ [CHR 0xE2, CHR 0x80, CHR 0x94] @ '' may not exist in this Calico version'')))
     [''apiservers.operator.tigera.io'', ''goldmanes.operator.tigera.io'', ''whiskers.operator.tigera.io''])"

definition wait_pods :: "'s machine \<Rightarrow> nat \<Rightarrow> string \<Rightarrow> string \<Rightarrow> string \<Rightarrow> 's sh" where
  "wait_pods x n c app namespace = holodeck_retry x n c (kubectl x (''wait --for=condition=ready --timeout=300s pod -l k8s-app=''
     @ app @ '' -n '' @ namespace))"

definition calico_resources :: "'s machine \<Rightarrow> string \<Rightarrow> KubernetesTemplate \<Rightarrow> 's sh" where
  "calico_resources x c k = block [
     only_if (negated (kubectl x ''get installations.operator.tigera.io default -n tigera-operator''))
       (retry3 x c (kubectl x (''apply -f '' @ calico_url k ''custom-resources.yaml''))),
     wait_pods x 20 c ''calico-node'' ''calico-system'',
     wait_pods x 10 c ''calico-kube-controllers'' ''calico-system'']"

definition label_managed :: "'s machine \<Rightarrow> 's sh" where
  "label_managed x = tolerated (prog x ''kubectl label node --all nvidia.com/holodeck.managed=true --overwrite'')"

definition wait_nodes :: "'s machine \<Rightarrow> string \<Rightarrow> 's sh" where
  "wait_nodes x c = holodeck_retry x 10 c (kubectl x ''wait --for=condition=ready --timeout=300s nodes --all'')"

definition single_node_labels :: "'s machine \<Rightarrow> 's sh" where
  "single_node_labels x = block [
     tolerated (prog x ''kubectl taint nodes --all node-role.kubernetes.io/control-plane:NoSchedule-''),
     tolerated (prog x ''kubectl label node --all node-role.kubernetes.io/worker= --overwrite''),
     label_managed x]"

section \<open>The first node of a cluster\<close>

abbreviation "init_component \<equiv> ''kubernetes-kubeadm-init''"

abbreviation "join_component \<equiv> ''kubernetes-kubeadm-join''"

abbreviation "prereq_component \<equiv> ''kubernetes-prereq''"

abbreviation "kubeadm_component \<equiv> ''kubernetes-kubeadm''"

definition initialized :: "'s machine \<Rightarrow> KubernetesTemplate \<Rightarrow> 's sh" where
  "initialized x k = only_if (is_file x admin_conf)
     (only_if (admin_nodes x) (block [holodeck_mark_installed x init_component (kt_Version k), leave 0]))"

definition init_binaries :: "'s machine \<Rightarrow> KubernetesTemplate \<Rightarrow> string \<Rightarrow> 's sh" where
  "init_binaries x k arch = block [
     sudo x ''mkdir -p /opt/cni/bin'',
     only_if (cni_missing x) (block [download_cni x init_component k arch, sudo x ''chmod -R 755 /opt/cni/bin'']),
     sudo x ''mkdir -p /usr/local/bin'',
     download_crictl x init_component k arch,
     only_if (binaries_missing x) (download_binaries x k arch),
     kubelet_units x k,
     sudo x ''systemctl enable --now kubelet'']"

definition init_arguments :: "KubeadmInitData \<Rightarrow> string \<Rightarrow> string \<Rightarrow> string" where
  "init_arguments i ip endpoint = ''--kubernetes-version='' @ kt_Version (ki_Kubernetes i)
     @ '' --pod-network-cidr=192.168.0.0/16 --control-plane-endpoint='' @ endpoint @ '':6443''
     @ '' --apiserver-advertise-address='' @ ip
     @ '' --apiserver-cert-extra-sans='' @ ki_ControlPlaneEndpoint i @ '','' @ ip @ '','' @ endpoint
     @ '' --ignore-preflight-errors=all'' @ (if ki_IsHA i then '' --upload-certs'' else '''')"

text \<open>The endpoint of the cluster, which other nodes join with, is set only once the network works.\<close>

definition switch_endpoint :: "'s machine \<Rightarrow> KubeadmInitData \<Rightarrow> string \<Rightarrow> 's sh" where
  "switch_endpoint x i endpoint = only_if (both (check (ki_IsHA i)) (check (endpoint \<noteq> ki_ControlPlaneEndpoint i)))
     (let escaped = concat (map (\<lambda>c. if c = CHR ''.'' then [CHR 0x5C, c] else [c]) endpoint) in
      either (prog x (''sudo kubectl --kubeconfig=/etc/kubernetes/admin.conf -n kube-system get configmap kubeadm-config -o yaml | ''
          @ ''sed s|controlPlaneEndpoint: '' @ escaped @ '':6443|controlPlaneEndpoint: '' @ ki_ControlPlaneEndpoint i @ '':6443|g | ''
          @ ''sudo kubectl --kubeconfig=/etc/kubernetes/admin.conf apply -f -''))
        (holodeck_log x ''WARN'' init_component ''Could not update kubeadm-config, join may need manual endpoint''))"

definition kubeadm_init :: "'s machine \<Rightarrow> KubeadmInitData \<Rightarrow> 's sh" where
  "kubeadm_init x i = (let k = ki_Kubernetes i in grab x node_ip (\<lambda>ip.
     let endpoint = (if ki_ControlPlaneEndpoint i \<noteq> ip then ip else ki_ControlPlaneEndpoint i) in block [
       only_if (negated (is_file x admin_conf))
         (retry3 x init_component (sudo x (''kubeadm init '' @ init_arguments i ip endpoint))),
       user_kubeconfig x,
       export_kubeconfig x,
       holodeck_retry x 10 init_component (kubectl x (''--server=https://'' @ ip @ '':6443 version'')),
       tigera_operator x init_component k,
       installation_crd x init_component,
       other_crds x init_component,
       calico_resources x init_component k,
       switch_endpoint x i endpoint,
       label_managed x,
       wait_nodes x init_component,
       holodeck_mark_installed x init_component (kt_Version k)]))"

definition kubeadmInitScript :: "'s machine \<Rightarrow> KubeadmInitData \<Rightarrow> 's sh" where
  "kubeadmInitScript x i = with_arch x (ki_Kubernetes i) (\<lambda>arch. block [
     initialized x (ki_Kubernetes i),
     swap_off x,
     network_modules x,
     init_binaries x (ki_Kubernetes i) arch,
     kubeadm_init x i])"

section \<open>Joining nodes, and the binaries\<close>

definition join_arguments :: "KubeadmJoinConfig \<Rightarrow> string" where
  "join_arguments j = kj_ControlPlaneEndpoint j @ '':6443 --token '' @ kj_Token j @ '' --discovery-token-ca-cert-hash ''
     @ kj_CACertHash j @ '' --ignore-preflight-errors=all''
     @ (if kj_IsControlPlane j then '' --control-plane''
          @ (if kj_CertificateKey j \<noteq> '''' then '' --certificate-key '' @ kj_CertificateKey j else '''') else '''')"

definition kubeadmJoinScript :: "'s machine \<Rightarrow> KubeadmJoinConfig \<Rightarrow> 's sh" where
  "kubeadmJoinScript x j = block [
     only_if (is_file x ''/etc/kubernetes/kubelet.conf'') (block [holodeck_mark_installed x join_component ''joined'', leave 0]),
     swap_off x,
     network_modules x,
     retry3 x join_component (sudo x (''kubeadm join '' @ join_arguments j)),
     only_if (check (kj_IsControlPlane j)) (block [
       sudo x ''sed -i s|server: https://.*:6443|server: https://localhost:6443|g /etc/kubernetes/admin.conf'',
       user_kubeconfig x]),
     holodeck_mark_installed x join_component ''joined'']"

definition kubeadmPrereqScript :: "'s machine \<Rightarrow> KubernetesTemplate \<Rightarrow> 's sh" where
  "kubeadmPrereqScript x k = with_arch x k (\<lambda>arch. block [
     only_if (both (is_file x ''/usr/local/bin/kubeadm'') (is_file x ''/usr/local/bin/kubelet''))
       (block [holodeck_mark_installed x prereq_component (kt_Version k), leave 0]),
     sudo x ''mkdir -p /opt/cni/bin'',
     only_if (negated (is_file x ''/opt/cni/bin/bridge''))
       (block [download_cni x prereq_component k arch, sudo x ''chmod -R 755 /opt/cni/bin'']),
     sudo x ''mkdir -p /usr/local/bin'',
     download_crictl x prereq_component k arch,
     only_if (negated (is_file x ''/usr/local/bin/kubeadm'')) (download_binaries x k arch),
     kubelet_units x k,
     sudo x ''systemctl enable kubelet'',
     holodeck_mark_installed x prereq_component (kt_Version k)])"

section \<open>A single node with kubeadm\<close>

definition kubeadm_present :: "'s machine \<Rightarrow> KubernetesTemplate \<Rightarrow> 's sh" where
  "kubeadm_present x k = only_if (is_file x admin_conf) (only_if (admin_nodes x)
     (only_if (holodeck_verify_kubernetes x admin_conf)
       (only_if (prog x ''kubectl --kubeconfig=/etc/kubernetes/admin.conf wait --for=condition=ready --timeout=10s nodes --all'')
         (block [holodeck_mark_installed x kubeadm_component (kt_Version k), leave 0]))))"

definition kubeadm_system :: "'s machine \<Rightarrow> 's sh" where
  "kubeadm_system x = block [
     look sh_family (\<lambda>f. if f = ''amazon'' \<or> f = ''rhel''
       then install_packages_with_retry x [''conntrack-tools'', ''socat'', ''iptables''] else nop),
     swap_off x,
     zram_off x,
     network_modules x]"

definition kubeadm_cni :: "'s machine \<Rightarrow> string \<Rightarrow> KubernetesTemplate \<Rightarrow> string \<Rightarrow> 's sh" where
  "kubeadm_cni x c k arch = block [
     sudo x ''mkdir -p /opt/cni/bin'',
     only_if (cni_missing x) (block [
       download_cni x c k arch,
       sudo x ''rm -f /opt/cni/bin/LICENSE /opt/cni/bin/README.md /opt/cni/bin/README'',
       sudo x ''chmod -R 755 /opt/cni/bin''])]"

definition kubeadm_binaries :: "'s machine \<Rightarrow> KubernetesTemplate \<Rightarrow> string \<Rightarrow> 's sh" where
  "kubeadm_binaries x k arch = block [
     kubeadm_cni x kubeadm_component k arch,
     only_if (either (cni_missing x) (negated (is_file x ''/opt/cni/bin/portmap'')))
       (holodeck_error x 4 kubeadm_component ''CNI plugins installation failed'' ''Check network connectivity and try again''),
     sudo x ''mkdir -p /usr/local/bin'',
     download_crictl x kubeadm_component k arch,
     only_if (binaries_missing x) (download_binaries x k arch),
     kubelet_units x k,
     sudo x ''systemctl enable --now kubelet'']"

definition restart_cri :: "'s machine \<Rightarrow> KubernetesTemplate \<Rightarrow> 's sh" where
  "restart_cri x k = (if kt_CriSocket k = ''unix:///run/cri-dockerd.sock'' then block [
       tolerated (sudo x ''systemctl reset-failed cri-docker.service''),
       sudo x ''systemctl restart cri-docker.service'',
       prog x ''sleep 2'']
     else nop)"

definition cert_sans :: "KubernetesTemplate \<Rightarrow> string \<Rightarrow> string" where
  "cert_sans k ip = (let nl = bs @ [CHR 0x0A] in ''  certSANs:'' @ nl @ ''  - \"'' @ kt_K8sEndpointHost k @ [CHR 0x22] @ nl
     @ ''  - \"'' @ ip @ [CHR 0x22] @ nl @ ''  - \"localhost\"'')"

text \<open>One attempt, which runs with \<open>set -e\<close> off; its status is that of \<open>kubeadm init\<close>.\<close>

definition init_attempt :: "'s machine \<Rightarrow> KubernetesTemplate \<Rightarrow> 's sh" where
  "init_attempt x k = grab x node_ip (\<lambda>ip.
     if kt_UseLegacyInit k then
       sudo x (''kubeadm init --kubernetes-version='' @ kt_Version k @ '' --cri-socket '' @ kt_CriSocket k
         @ '' --pod-network-cidr=192.168.0.0/16 --control-plane-endpoint='' @ ip @ '':6443 --apiserver-advertise-address='' @ ip
         @ '' --apiserver-cert-extra-sans='' @ kt_K8sEndpointHost k @ '','' @ ip @ '',localhost --ignore-preflight-errors=all'')
     else (let config = ''/etc/kubernetes/kubeadm-config.yaml'' in block [
       sudo x (''sed -i s|controlPlaneEndpoint: \"'' @ kt_K8sEndpointHost k @ '':6443\"|controlPlaneEndpoint: \"'' @ ip @ '':6443\"| ''
         @ config),
       only_if (negated (prog x (''grep -q certSANs '' @ config)))
         (branch (prog x (''grep -q ^apiServer: '' @ config))
           (sudo x (''sed -i /^apiServer:/a'' @ bs @ [CHR 0x0A] @ cert_sans k ip @ '' '' @ config))
           (sudo x (''sed -i /^controlPlaneEndpoint:/a'' @ bs @ [CHR 0x0A] @ ''apiServer:'' @ bs @ [CHR 0x0A] @ cert_sans k ip
             @ '' '' @ config))),
       sudo x (''kubeadm init --config '' @ config @ '' --ignore-preflight-errors=all'')]))"

definition init_diagnosis :: "'s machine \<Rightarrow> KubernetesTemplate \<Rightarrow> 's sh" where
  "init_diagnosis x k = block [
     tolerated (sudo x ''journalctl -u kubelet --no-pager -n 30''),
     tolerated (sudo x (''crictl --runtime-endpoint '' @ kt_CriSocket k @ '' ps -a'')),
     tolerated (sudo x ''docker ps -a''),
     tolerated (prog x ''cat /var/lib/kubelet/kubeadm-flags.env'')]"

text \<open>An attempt with \<open>n\<close> more of them allowed; between two of them the node is reset.\<close>

fun init_rounds :: "'s machine \<Rightarrow> KubernetesTemplate \<Rightarrow> nat \<Rightarrow> 's sh" where
  "init_rounds x k 0 = bind (keep_status (init_attempt x k)) (\<lambda>rc. if rc = 0 then nop else block [
     init_diagnosis x k,
     holodeck_error x 13 kubeadm_component ''kubeadm init failed after 3 attempts'' ''Check diagnostics above for root cause''])"
| "init_rounds x k (Suc n) = bind (keep_status (init_attempt x k)) (\<lambda>rc. if rc = 0 then nop else block [
     init_diagnosis x k,
     tolerated (sudo x (''kubeadm reset -f --cri-socket '' @ kt_CriSocket k)),
     sudo x ''systemctl daemon-reload'',
     sudo x ''systemctl restart kubelet'',
     prog x ''sleep 10'',
     init_rounds x k n])"

definition initialize_node :: "'s machine \<Rightarrow> KubernetesTemplate \<Rightarrow> 's sh" where
  "initialize_node x k = only_if (negated (is_file x admin_conf)) (block [
     retry3 x kubeadm_component (sudo x (''kubeadm config images pull '' @ (if kt_UseLegacyInit k
       then ''--kubernetes-version='' @ kt_Version k @ '' --cri-socket '' @ kt_CriSocket k
       else ''--config /etc/kubernetes/kubeadm-config.yaml''))),
     init_rounds x k 2])"

definition finish_node :: "'s machine \<Rightarrow> KubernetesTemplate \<Rightarrow> 's sh" where
  "finish_node x k = block [
     single_node_labels x,
     wait_nodes x kubeadm_component,
     wait_pods x 20 kubeadm_component ''kube-dns'' ''kube-system'',
     only_if (negated (holodeck_verify_kubernetes x ''$KUBECONFIG'')) (holodeck_error x 13 kubeadm_component
       ''Kubernetes cluster verification failed'' ''Run 'kubectl get nodes' and 'kubectl get pods -A' to diagnose''),
     holodeck_mark_installed x kubeadm_component (kt_Version k)]"

definition kubeadmScript :: "'s machine \<Rightarrow> KubernetesTemplate \<Rightarrow> 's sh" where
  "kubeadmScript x k = with_arch x k (\<lambda>arch. block [
     kubeadm_present x k,
     kubeadm_system x,
     kubeadm_binaries x k arch,
     restart_cri x k,
     initialize_node x k,
     user_kubeconfig x,
     export_kubeconfig x,
     holodeck_retry x 10 kubeadm_component (kubectl x ''version''),
     tigera_operator x kubeadm_component k,
     installation_crd x kubeadm_component,
     other_crds x kubeadm_component,
     calico_resources x kubeadm_component k,
     finish_node x k])"

end
