(* ===== verification/Kubernetes_Scripts.thy ===== *)
theory Kubernetes_Scripts
  imports Kubeadm_Scripts
begin

text \<open>
  The other templates of \<open>pkg/provisioner/templates/kubernetes.go\<close>: KIND, MicroK8s, and Kubernetes built
  from a reference or a branch, with the conventions of \<open>Docker_Script\<close> and \<open>Kubeadm_Scripts\<close>.
\<close>

section \<open>KIND\<close>

abbreviation "kind_component \<equiv> ''kubernetes-kind''"

definition kind_exists :: "'s machine \<Rightarrow> 's sh" where
  "kind_exists x = prog x ''kind get clusters | grep -q ^holodeck$''"

definition kind_nodes :: "'s machine \<Rightarrow> 's sh" where
  "kind_nodes x = prog x ''kubectl --kubeconfig $HOME/.kube/config get nodes''"

definition kind_delete :: "'s machine \<Rightarrow> 's sh" where
  "kind_delete x = tolerated (prog x ''kind delete cluster --name holodeck'')"

definition kind_arch :: "'s machine \<Rightarrow> (string \<Rightarrow> 's sh) \<Rightarrow> 's sh" where
  "kind_arch x k = grab_any x ''uname -m'' (\<lambda>m. if m = ''x86_64'' then k ''amd64''
     else grab_any x ''uname -m'' (\<lambda>m. if m = ''aarch64'' then k ''arm64'' else k ''''))"

definition kind_binary :: "'s machine \<Rightarrow> string \<Rightarrow> string \<Rightarrow> 's sh" where
  "kind_binary x c arch = block [
     retry3 x c (prog x (''curl -Lo ./kind https://kind.sigs.k8s.io/dl/v0.20.0/kind-linux-'' @ arch)),
     prog x ''chmod +x ./kind'',
     sudo x ''install ./kind /usr/local/bin/kind'',
     prog x ''rm -f ./kind'']"

definition kind_missing :: "'s machine \<Rightarrow> 's sh" where
  "kind_missing x = negated (is_file x ''/usr/local/bin/kind'')"

definition kind_gpu :: "'s machine \<Rightarrow> 's sh" where
  "kind_gpu x = only_if (has_command x ''nvidia-ctk'') (block [
     sudo x ''nvidia-ctk runtime configure --set-as-default'',
     sudo x ''systemctl restart docker'',
     sudo x ''nvidia-ctk config --set accept-nvidia-visible-devices-as-volume-mounts --in-place''])"

definition kind_create :: "'s machine \<Rightarrow> string \<Rightarrow> string \<Rightarrow> KubernetesTemplate \<Rightarrow> 's sh" where
  "kind_create x c img k = retry3 x c (prog x (''kind create cluster --name holodeck''
     @ (if img = '''' then '''' else '' --image '' @ img)
     @ (if kt_KindConfig k = '''' then '''' else '' --config /etc/kubernetes/kind.yaml'')
     @ '' --kubeconfig=$HOME/.kube/config''))"

definition kube_directory :: "'s machine \<Rightarrow> 's sh" where
  "kube_directory x = block [
     prog x ''mkdir -p $HOME/.kube'',
     grab_any x ''id -u'' (\<lambda>u. grab_any x ''id -g'' (\<lambda>g. sudo x (''chown -R '' @ u @ '':'' @ g @ '' $HOME/.kube/'')))]"

definition kind_present :: "'s machine \<Rightarrow> 's sh" where
  "kind_present x = only_if (kind_exists x) (block [
     export_kubeconfig x,
     branch (kubectl x ''get nodes'') (block [holodeck_mark_installed x kind_component ''kind'', leave 0]) (kind_delete x)])"

definition kind_kubectl :: "'s machine \<Rightarrow> 's sh" where
  "kind_kubectl x = block [
     sudo x ''mkdir -p /usr/local/bin'',
     grab x ''uname -m'' (\<lambda>m. let arch = (if m = ''x86_64'' then ''amd64'' else if m = ''aarch64'' then ''arm64'' else m) in
       only_if (negated (is_file x ''/usr/local/bin/kubectl''))
         (grab x ''curl -L -s https://dl.k8s.io/release/stable.txt'' (\<lambda>v. block [
           prog x ''cd /usr/local/bin'',
           sudo x (''curl -L --remote-name-all https://dl.k8s.io/release/'' @ v @ ''/bin/linux/'' @ arch @ ''/kubectl''),
           sudo x ''chmod +x kubectl'',
           prog x ''cd $HOME''])))]"

definition kindScript :: "'s machine \<Rightarrow> KubernetesTemplate \<Rightarrow> 's sh" where
  "kindScript x k = block [
     kind_present x,
     only_if (kind_missing x) (kind_arch x (kind_binary x kind_component)),
     kind_kubectl x,
     kind_gpu x,
     kube_directory x,
     exported x ''export KUBECONFIG=$HOME/.kube/config:/var/run/kubernetes/admin.kubeconfig'',
     kind_create x kind_component '''' k,
     only_if (negated (kind_nodes x)) (holodeck_error x 13 kind_component ''KIND cluster creation verification failed''
       ''Run 'kind get clusters' and 'kubectl get nodes' to diagnose''),
     holodeck_mark_installed x kind_component ''kind'']"

section \<open>MicroK8s\<close>

abbreviation "microk8s_component \<equiv> ''kubernetes-microk8s''"

definition microk8s_version :: "KubernetesTemplate \<Rightarrow> string" where
  "microk8s_version k = TrimPrefix (kt_Version k) ''v''"

definition microk8sScript :: "'s machine \<Rightarrow> KubernetesTemplate \<Rightarrow> 's sh" where
  "microk8sScript x k = block [
     only_if (prog x ''snap list microk8s'') (only_if (sudo x ''microk8s status --wait-ready'')
       (block [holodeck_mark_installed x microk8s_component (microk8s_version k), leave 0])),
     look sh_family (\<lambda>f. only_if (check (f \<noteq> ''debian'')) (holodeck_error x 2 microk8s_component
       ''MicroK8s requires Ubuntu/Debian (snap package manager)'' ''Use kubeadm or kind installer for RPM-based distributions'')),
     retry3 x microk8s_component (pkg_update x),
     retry3 x microk8s_component (sudo x (''snap install microk8s --classic --channel='' @ microk8s_version k)),
     retry3 x microk8s_component (sudo x ''microk8s enable gpu dashboard dns registry''),
     tolerated (sudo x ''usermod -a -G microk8s ubuntu''),
     prog x ''mkdir -p ~/.kube'',
     sudo x ''chown -f -R ubuntu ~/.kube'',
     prog x ''sudo microk8s config > ~/.kube/config'',
     sudo x ''chown -f -R ubuntu ~/.kube'',
     tolerated (sudo x ''snap alias microk8s.kubectl kubectl''),
     sudo x ''microk8s status --wait-ready'',
     only_if (negated (sudo x ''microk8s kubectl get nodes'')) (holodeck_error x 13 microk8s_component
       ''MicroK8s installation verification failed''
       ''Run 'sudo microk8s status' and 'sudo microk8s kubectl get nodes' to diagnose''),
     holodeck_mark_installed x microk8s_component (microk8s_version k)]"

section \<open>Sources of Kubernetes\<close>

definition github_source :: "'s machine \<Rightarrow> string \<Rightarrow> string \<Rightarrow> string \<Rightarrow> 's sh" where
  "github_source x c remedy repo = block [
     only_if (check (repo = '''')) (holodeck_error x 1 c ''GIT_REPO is empty'' remedy),
     only_if (check (\<not> prefix ''https://github.com/'' repo \<and> \<not> prefix ''git@github.com:'' repo))
       (holodeck_error x 1 c (''GIT_REPO must be a GitHub URL: '' @ repo) '''')]"

text \<open>The function \<open>cleanup_workdir\<close> runs at the end of the script.\<close>

definition in_go_work_dir :: "'s machine \<Rightarrow> (string \<Rightarrow> 's sh) \<Rightarrow> 's sh" where
  "in_go_work_dir x k = grab x ''mktemp -d'' (\<lambda>w. block [
     trap_exit (''if [[ -d '' @ w @ '' ]]; then chmod -R u+w '' @ w @ '' || true; rm -rf '' @ w @ '' || true; fi''), k w])"

definition clone_kubernetes :: "'s machine \<Rightarrow> string \<Rightarrow> string \<Rightarrow> string \<Rightarrow> string \<Rightarrow> 's sh" where
  "clone_kubernetes x c options remedy w = block [
     only_if (negated (prog x (''git clone --depth 1 '' @ options @ '' '' @ w @ ''/kubernetes'')))
       (holodeck_error x 2 c ''Failed to clone repository'' remedy),
     either (prog x (''cd '' @ w @ ''/kubernetes'')) (leave 1)]"

definition checkout_kubernetes :: "'s machine \<Rightarrow> string \<Rightarrow> string \<Rightarrow> string \<Rightarrow> 's sh" where
  "checkout_kubernetes x c ref remedy = block [
     only_if (negated (prog x (''git fetch --depth 1 origin '' @ ref))) (holodeck_error x 2 c (''Failed to fetch ref '' @ ref) remedy),
     prog x ''git checkout FETCH_HEAD'']"

text \<open>The lookup's own failure is hidden by the pipe; the commit is then empty.\<close>

definition branch_commit :: "'s machine \<Rightarrow> string \<Rightarrow> KubernetesTemplate \<Rightarrow> string \<Rightarrow> (string \<Rightarrow> 's sh) \<Rightarrow> 's sh" where
  "branch_commit x c k remedy m =
     grab x (''git ls-remote '' @ kt_GitRepo k @ '' refs/heads/'' @ kt_TrackBranch k @ '' | cut -f1'') (\<lambda>commit. block [
       only_if (check (commit = '''')) (holodeck_error x 2 c (''Failed to resolve branch '' @ kt_TrackBranch k) remedy),
       m (take 8 commit)])"

definition same_commit :: "'s machine \<Rightarrow> string \<Rightarrow> 's sh \<Rightarrow> 's sh" where
  "same_commit x commit m = only_if (is_file x ''/etc/kubernetes/PROVENANCE.json'') (only_if (has_command x ''jq'')
     (grab x ''jq -r .commit // empty /etc/kubernetes/PROVENANCE.json'' (\<lambda>installed. only_if (check (installed = commit)) m)))"

definition git_version :: "'s machine \<Rightarrow> string \<Rightarrow> (string \<Rightarrow> 's sh) \<Rightarrow> 's sh" where
  "git_version x commit m = grab_or x ''git describe --tags --always --dirty'' commit m"

section \<open>KIND from source\<close>

definition kind_rebuild :: "'s machine \<Rightarrow> string \<Rightarrow> 's sh" where
  "kind_rebuild x commit = block [
     same_commit x commit (only_if (kind_exists x) (block [export_kubeconfig x, only_if (kubectl x ''get nodes'') (leave 0)])),
     only_if (kind_exists x) (kind_delete x)]"

definition kind_tools :: "'s machine \<Rightarrow> string \<Rightarrow> 's sh" where
  "kind_tools x c = kind_arch x (\<lambda>arch. block [
     only_if (kind_missing x) (kind_binary x c arch),
     only_if (negated (is_file x ''/usr/local/bin/kubectl''))
       (grab x ''curl -L -s https://dl.k8s.io/release/stable.txt'' (\<lambda>v. block [
         retry3 x c (prog x (''curl -Lo ./kubectl https://dl.k8s.io/release/'' @ v @ ''/bin/linux/'' @ arch @ ''/kubectl'')),
         prog x ''chmod +x ./kubectl'',
         sudo x ''install ./kubectl /usr/local/bin/kubectl'',
         prog x ''rm -f ./kubectl''])),
     only_if (negated (prog x ''docker buildx version'')) (kind_arch x (\<lambda>arch. block [
       prog x ''mkdir -p ~/.docker/cli-plugins'',
       retry3 x c (prog x (''curl -Lo ~/.docker/cli-plugins/docker-buildx ''
         @ ''https://github.com/docker/buildx/releases/download/v0.12.1/buildx-v0.12.1.linux-'' @ arch)),
       prog x ''chmod +x ~/.docker/cli-plugins/docker-buildx'']))])"

definition kind_image :: "string \<Rightarrow> string" where
  "kind_image commit = ''holodeck/k8s-node:'' @ commit"

definition kind_from_source :: "'s machine \<Rightarrow> string \<Rightarrow> KubernetesTemplate \<Rightarrow> string \<Rightarrow> string \<Rightarrow> string \<Rightarrow> (string \<times> string) list \<Rightarrow> 's sh" where
  "kind_from_source x c k commit remedy w fs = git_version x commit (\<lambda>v. block [
     only_if (negated (prog x (''kind build node-image '' @ w @ ''/kubernetes --image '' @ kind_image commit)))
       (holodeck_error x 4 c ''Failed to build KIND node image'' remedy),
     kind_gpu x,
     kube_directory x,
     export_kubeconfig x,
     kind_create x c (kind_image commit) k,
     only_if (negated (kind_nodes x)) (holodeck_error x 13 c ''KIND cluster verification failed'' ''''),
     write_provenance x ''/etc/kubernetes'' (fs @ [(''commit'', commit), (''version'', v), (''installer'', ''kind''),
       (''node_image'', kind_image commit)]),
     holodeck_mark_installed x c commit])"

definition kindGitScript :: "'s machine \<Rightarrow> KubernetesTemplate \<Rightarrow> 's sh" where
  "kindGitScript x k = (let c = ''kubernetes-kind-git''; repo = kt_GitRepo k in block [
     kind_rebuild x (kt_GitCommit k),
     kind_tools x c,
     in_go_work_dir x (\<lambda>w. block [
       github_source x c '''' repo,
       clone_kubernetes x c repo ''Check network and repo URL'' w,
       tolerated (prog x ''git fetch --depth 1 --tags origin''),
       checkout_kubernetes x c (kt_GitRef k) ''Verify ref exists'',
       kind_from_source x c k (kt_GitCommit k) ''Check build logs above'' w
         [(''source'', ''git''), (''repo'', repo), (''ref'', kt_GitRef k)]])])"

definition kindLatestScript :: "'s machine \<Rightarrow> KubernetesTemplate \<Rightarrow> 's sh" where
  "kindLatestScript x k = (let c = ''kubernetes-kind-latest''; repo = kt_GitRepo k in block [
     github_source x c '''' repo,
     branch_commit x c k '''' (\<lambda>commit. block [
       kind_rebuild x commit,
       kind_tools x c,
       in_go_work_dir x (\<lambda>w. block [
         clone_kubernetes x c (''--branch '' @ kt_TrackBranch k @ '' '' @ repo) ''Check network and branch name'' w,
         tolerated (prog x ''git fetch --depth 1 --tags origin''),
         kind_from_source x c k commit '''' w [(''source'', ''latest''), (''repo'', repo), (''branch'', kt_TrackBranch k)]])])])"

section \<open>kubeadm from source\<close>

text \<open>A number in \<open>[[ -lt ]]\<close>; a text that is no number counts as 0.\<close>

definition arith :: "string \<Rightarrow> nat" where
  "arith v = (if list_all is_digit v then number_of v else 0)"

definition disk_space :: "'s machine \<Rightarrow> string \<Rightarrow> string \<Rightarrow> 's sh" where
  "disk_space x c remedy = grab x ''df -BG /tmp | tail -1 | awk {print $4} | sed s/G//'' (\<lambda>free.
     only_if (check (arith free < 10)) (holodeck_error x 1 c (''Insufficient disk space: '' @ free @ ''GB available, need 10GB+'') remedy))"

definition build_prerequisites :: "'s machine \<Rightarrow> string \<Rightarrow> 's sh" where
  "build_prerequisites x c = look sh_family (\<lambda>f.
     if f = ''debian'' then install_packages_with_retry x [''make'', ''rsync'', ''gcc'', ''g++'', ''libc6-dev'', ''jq'']
     else if f = ''amazon'' \<or> f = ''rhel'' then
       install_packages_with_retry x [''make'', ''rsync'', ''gcc'', ''gcc-c++'', ''glibc-devel'', ''jq'']
     else unsupported_family x c)"

definition require_tools :: "'s machine \<Rightarrow> string \<Rightarrow> 's sh" where
  "require_tools x c = block (map (\<lambda>t. only_if (negated (has_command x t))
     (holodeck_error x 2 c (''Required tool not found: '' @ t) ''Install build-essential'')) [''make'', ''rsync'', ''gcc''])"

definition install_go :: "'s machine \<Rightarrow> string \<Rightarrow> string \<Rightarrow> string \<Rightarrow> 's sh" where
  "install_go x c version arch = block [
     retry3 x c (prog x (''curl -fsSL https://go.dev/dl/go'' @ version @ ''.linux-'' @ arch @ ''.tar.gz -o /tmp/go.tar.gz'')),
     sudo x ''tar -C /usr/local -xzf /tmp/go.tar.gz'',
     prog x ''rm -f /tmp/go.tar.gz'']"

definition go_of_sources :: "'s machine \<Rightarrow> string \<Rightarrow> string \<Rightarrow> 's sh" where
  "go_of_sources x c w = grab x ''grep ^go  go.mod | awk {print $2}'' (\<lambda>v. let version = or_default v ''1.23.4'' in
     grab x ''uname -m'' (\<lambda>m.
       let arch = (if m \<in> {''x86_64'', ''amd64''} then ''amd64'' else if m \<in> {''aarch64'', ''arm64''} then ''arm64'' else '''') in block [
         only_if (check (arch = '''')) (holodeck_error x 3 c (''Unsupported architecture: '' @ m) ''''),
         branch (negated (has_command x ''/usr/local/go/bin/go''))
           (install_go x c version arch)
           (grab x ''/usr/local/go/bin/go version | awk {print $3} | sed s/go//'' (\<lambda>installed.
             only_if (check (\<not> prefix version installed)) (block [sudo x ''rm -rf /usr/local/go'', install_go x c version arch]))),
         exported x ''export GOROOT=/usr/local/go'',
         exported x (''export GOPATH='' @ w @ ''/gopath''),
         exported x (''export GOCACHE='' @ w @ ''/gocache''),
         exported x ''export GOTOOLCHAIN=local'',
         exported x ''export PATH=$GOROOT/bin:$GOPATH/bin:$PATH'']))"

text \<open>The status of a pipe is that of \<open>tee\<close>: a build that fails is noticed by its missing files only.\<close>

definition build_kubernetes :: "'s machine \<Rightarrow> string \<Rightarrow> string \<Rightarrow> string \<Rightarrow> string \<Rightarrow> string \<Rightarrow> 's sh" where
  "build_kubernetes x c heading failed incomplete w = block [
     only_if (negated (prog x (''make WHAT=cmd/kubeadm cmd/kubelet cmd/kubectl | tee '' @ w @ ''/build.log''))) (block [
       holodeck_log x ''ERROR'' c heading,
       prog x (''tail -100 '' @ w @ ''/build.log''),
       holodeck_error x 4 c ''Kubernetes build failed'' failed]),
     block (map (\<lambda>b. only_if (negated (is_file x (''_output/bin/'' @ b)))
       (holodeck_error x 4 c (''Build incomplete: '' @ b @ '' not found'') incomplete)) [''kubeadm'', ''kubelet'', ''kubectl''])]"

definition install_kubernetes :: "'s machine \<Rightarrow> 's sh" where
  "install_kubernetes x = block (sudo x ''mkdir -p /usr/local/bin'' #
     map (\<lambda>b. sudo x (''install -m 755 _output/bin/'' @ b @ '' /usr/local/bin/'')) [''kubeadm'', ''kubelet'', ''kubectl''])"

definition show_versions :: "'s machine \<Rightarrow> 's sh" where
  "show_versions x = block (map (\<lambda>b. only_if (either (negated (prog x (''/usr/local/bin/'' @ b @ '' version --client'')))
     (negated (prog x (''/usr/local/bin/'' @ b @ '' --version'')))) nop) [''kubeadm'', ''kubelet'', ''kubectl''])"

definition init_from_source :: "'s machine \<Rightarrow> string \<Rightarrow> KubernetesTemplate \<Rightarrow> string \<Rightarrow> string \<Rightarrow> 's sh" where
  "init_from_source x c k heading remedy = only_if (negated (is_file x admin_conf)) (block [
     tolerated (sudo x ''systemctl start kubelet''),
     only_if (negated (sudo x (''kubeadm init --pod-network-cidr=192.168.0.0/16 --control-plane-endpoint=''
         @ kt_K8sEndpointHost k @ '':6443 --ignore-preflight-errors=all | tee /tmp/kubeadm-init.log''))) (block [
       holodeck_log x ''ERROR'' c heading,
       prog x ''cat /tmp/kubeadm-init.log'',
       holodeck_error x 5 c ''kubeadm init failed'' remedy])])"

definition source_network :: "'s machine \<Rightarrow> string \<Rightarrow> KubernetesTemplate \<Rightarrow> 's sh" where
  "source_network x c k = block [
     user_kubeconfig x,
     export_kubeconfig x,
     holodeck_retry x 10 c (kubectl x ''get --raw /healthz''),
     tigera_operator x c k,
     wait_crd x c ''installations.operator.tigera.io'',
     other_crds x c,
     calico_resources x c k,
     single_node_labels x,
     wait_nodes x c,
     wait_pods x 20 c ''kube-dns'' ''kube-system'']"

definition source_finish :: "'s machine \<Rightarrow> string \<Rightarrow> string \<Rightarrow> string \<Rightarrow> (string \<times> string) list \<Rightarrow> 's sh" where
  "source_finish x c commit v fs = block [
     write_provenance x ''/etc/kubernetes'' (fs @ [(''commit'', commit), (''version'', v), (''installer'', ''kubeadm'')]),
     holodeck_mark_installed x c commit]"

definition already_built :: "'s machine \<Rightarrow> string \<Rightarrow> 's sh" where
  "already_built x commit = same_commit x commit (only_if (is_file x admin_conf) (only_if (admin_nodes x) (leave 0)))"

definition kubeadmGitScript :: "'s machine \<Rightarrow> KubernetesTemplate \<Rightarrow> 's sh" where
  "kubeadmGitScript x k = (let c = ''kubernetes-kubeadm-git''; repo = kt_GitRepo k; commit = kt_GitCommit k in with_arch x k (\<lambda>arch. block [
     already_built x commit,
     disk_space x c ''Free up disk space or use a larger instance'',
     grab x ''free -m | awk /^Mem:/{print $7}'' (\<lambda>_. nop),
     kubeadm_system x,
     build_prerequisites x c,
     require_tools x c,
     kubeadm_cni x c k arch,
     in_go_work_dir x (\<lambda>w. block [
       github_source x c ''Check environment configuration'' repo,
       clone_kubernetes x c repo ''Check network and repo URL'' w,
       checkout_kubernetes x c (kt_GitRef k) ''Verify ref exists in repo'',
       go_of_sources x c w,
       only_if (negated (prog x ''go version'')) (holodeck_error x 3 c ''Go installation failed'' ''Check Go installation''),
       build_kubernetes x c ''Build failed. Last 100 lines of build log:'' ''Check build prerequisites and disk space'' ''Check build log'' w,
       git_version x commit (\<lambda>v. block [
         install_kubernetes x,
         show_versions x,
         download_crictl x c k arch,
         kubelet_units x k,
         sudo x ''systemctl enable kubelet'',
         init_from_source x c k ''kubeadm init failed. Output:'' ''Check kubelet logs: journalctl -xeu kubelet'',
         source_network x c k,
         source_finish x c commit v [(''source'', ''git''), (''repo'', repo), (''ref'', kt_GitRef k)]])])]))"

definition latest_system :: "'s machine \<Rightarrow> 's sh" where
  "latest_system x = block [
     look sh_family (\<lambda>f. if f = ''amazon'' \<or> f = ''rhel''
       then install_packages_with_retry x [''conntrack-tools'', ''socat'', ''iptables''] else nop),
     swap_off x,
     network_modules x]"

definition kubeadmLatestScript :: "'s machine \<Rightarrow> KubernetesTemplate \<Rightarrow> 's sh" where
  "kubeadmLatestScript x k = (let c = ''kubernetes-kubeadm-latest''; repo = kt_GitRepo k; tracked = kt_TrackBranch k in with_arch x k (\<lambda>arch. block [
     github_source x c '''' repo,
     branch_commit x c k (''Verify branch exists in '' @ repo) (\<lambda>commit. block [
       already_built x commit,
       disk_space x c '''',
       latest_system x,
       build_prerequisites x c,
       kubeadm_cni x c k arch,
       in_go_work_dir x (\<lambda>w. block [
         clone_kubernetes x c (''--branch '' @ tracked @ '' '' @ repo) ''Check network and branch name'' w,
         go_of_sources x c w,
         build_kubernetes x c ''Build failed. Last 100 lines:'' ''Check build log'' '''' w,
         git_version x commit (\<lambda>v. block [
           install_kubernetes x,
           download_crictl x c k arch,
           kubelet_units x k,
           sudo x ''systemctl enable kubelet'',
           init_from_source x c k ''kubeadm init failed:'' ''Check kubelet: journalctl -xeu kubelet'',
           source_network x c k,
           source_finish x c commit v [(''source'', ''latest''), (''repo'', repo), (''branch'', tracked)]])])])]))"

section \<open>The script of a step\<close>

text \<open>
  What a script does on a node: the pieces that \<open>Templates\<close> puts together, in order, in one shell. The
  shebang line sets \<open>-e\<close>, which every shell of the model starts with. The script of a custom template is
  a parameter, as its text is not under the control of the program.
\<close>

definition docker_piece :: "'s machine \<Rightarrow> string \<Rightarrow> Docker \<Rightarrow> 's sh" where
  "docker_piece x t d = (if t = ''dockerGitTemplate'' then dockerGitScript x d else dockerPackageScript x d)"

definition containerd_piece :: "'s machine \<Rightarrow> string \<Rightarrow> Containerd \<Rightarrow> 's sh" where
  "containerd_piece x t c = (if t = ''containerdGitTemplate'' then containerdGitScript x c
     else if t = ''containerdLatestTemplate'' then containerdLatestScript x c else containerdV1Script x c)"

definition crio_piece :: "'s machine \<Rightarrow> string \<Rightarrow> CriO \<Rightarrow> 's sh" where
  "crio_piece x t c = (if t = ''crioGitTemplate'' then crioGitScript x c else crioPackageScript x c)"

definition driver_piece :: "'s machine \<Rightarrow> string \<Rightarrow> NvDriver \<Rightarrow> 's sh" where
  "driver_piece x t d = (if t = ''nvDriverRunfileTemplate'' then nvDriverRunfileScript x d
     else if t = ''nvDriverGitTemplate'' then nvDriverGitScript x d else nvDriverPackageScript x d)"

definition toolkit_piece :: "'s machine \<Rightarrow> string \<Rightarrow> ContainerToolkit \<Rightarrow> 's sh" where
  "toolkit_piece x t c = (if t = ''containerToolkitGitTemplate'' then containerToolkitGitScript x c
     else if t = ''containerToolkitLatestTemplate'' then containerToolkitLatestScript x c else containerToolkitPackageScript x c)"

definition kubernetes_piece :: "'s machine \<Rightarrow> string \<Rightarrow> KubernetesTemplate \<Rightarrow> 's sh" where
  "kubernetes_piece x t k =
     (if t = ''kubeadmGitTemplate'' then kubeadmGitScript x k
      else if t = ''kubeadmLatestTemplate'' then kubeadmLatestScript x k
      else if t = ''kindGitTemplate'' then kindGitScript x k
      else if t = ''kindLatestTemplate'' then kindLatestScript x k
      else if t = ''KindTemplate'' then kindScript x k
      else if t = ''microk8sTemplate'' then microk8sScript x k
      else kubeadmScript x k)"

definition piece_script :: "'s machine \<Rightarrow> (string \<Rightarrow> 's sh) \<Rightarrow> piece \<Rightarrow> 's sh" where
  "piece_script x custom p = (case p of
       Shebang \<Rightarrow> nop
     | CommonFunctions \<Rightarrow> set_up x
     | T_nvdriver t d \<Rightarrow> driver_piece x t d
     | T_docker t d \<Rightarrow> docker_piece x t d
     | T_containerd t c \<Rightarrow> containerd_piece x t c
     | T_crio t c \<Rightarrow> crio_piece x t c
     | T_toolkit t c \<Rightarrow> toolkit_piece x t c
     | T_kubernetes t k \<Rightarrow> kubernetes_piece x t k
     | T_kernel s \<Rightarrow> kernelScript x (kn_Version (sp_Kernel s))
     | T_kubeadmInit i \<Rightarrow> kubeadmInitScript x i
     | T_kubeadmJoin j \<Rightarrow> kubeadmJoinScript x j
     | T_kubeadmPrereq k \<Rightarrow> kubeadmPrereqScript x k
     | Text t \<Rightarrow> custom t)"

definition run_on_node :: "'s machine \<Rightarrow> (string \<Rightarrow> 's sh) \<Rightarrow> script \<Rightarrow> 's \<Rightarrow> nat \<times> 's shell" where
  "run_on_node x custom ps = run_bash x (block (map (piece_script x custom) ps))"

end
