(* ===== verification/Shell_Rules.thy ===== *)
theory Shell_Rules
  imports Kubernetes_Scripts
begin

text \<open>
  Rules about what a script leaves on a node. An observation \<open>W\<close> of the node that no program undoes (say,
  that a probe has been run) is kept by everything, so it is enough to see that it holds where a script
  ends with status 0: after a successful probe, or because an early end comes after one.
\<close>

named_theorems shell_keeps
named_theorems shell_safe

definition lasting :: "'s machine \<Rightarrow> ('s \<Rightarrow> bool) \<Rightarrow> bool" where
  "lasting x W \<longleftrightarrow> (\<forall>t n. W n \<longrightarrow> W (snd (mc_Run x t n))) \<and> (\<forall>t i n. W n \<longrightarrow> W (snd (mc_Feed x t i n)))
     \<and> (\<forall>t n. W n \<longrightarrow> W (snd (mc_Output x t n)))"

definition lasts :: "('s \<Rightarrow> bool) \<Rightarrow> 's sh \<Rightarrow> bool" where
  "lasts W m \<longleftrightarrow> (\<forall>i s. W (sh_node s) \<longrightarrow> W (sh_node (snd (m i s))))"

definition safe :: "('s \<Rightarrow> bool) \<Rightarrow> 's sh \<Rightarrow> bool" where
  "safe W m \<longleftrightarrow> (\<forall>i s s'. m i s = (Exit 0, s') \<longrightarrow> W (sh_node s'))"

definition proves :: "('s \<Rightarrow> bool) \<Rightarrow> 's sh \<Rightarrow> bool" where
  "proves W m \<longleftrightarrow> (\<forall>i s s'. m i s = (Done 0, s') \<longrightarrow> W (sh_node s'))"

definition stops :: "'s sh \<Rightarrow> bool" where
  "stops m \<longleftrightarrow> (\<forall>i s k s'. m i s \<noteq> (Done k, s'))"

lemmas shell_defs = prog_def feed_def grab_def grab_any_def grab_or_def is_file_def file_test_def check_def print_text_def
  exported_def nop_def assign_def leave_def give_back_def set_e_def trap_exit_def look_def bind_def branch_def only_if_def
  both_def either_def negated_def tolerated_def call_def settle_def

section \<open>What is kept\<close>

lemma lastsI: "(\<And>i s. W (sh_node s) \<Longrightarrow> W (sh_node (snd (m i s)))) \<Longrightarrow> lasts W m"
  by (simp add: lasts_def)

lemma lastsD: "lasts W m \<Longrightarrow> m i s = (r, s') \<Longrightarrow> W (sh_node s) \<Longrightarrow> W (sh_node s')"
  unfolding lasts_def by (metis snd_conv)

lemma sh_node_settle [simp]: "sh_node (snd (settle k i s)) = sh_node s"
  by (simp add: settle_def)

lemma keeps_programs [shell_keeps]:
  assumes "lasting x W"
  shows "lasts W (prog x t)" "lasts W (feed x t input)" "lasts W (exported x t)" "lasts W (sudo x t)" "lasts W (has_command x t)"
    "lasts W (tee x p c)"
  using assms by (auto simp: lasting_def lasts_def prog_def feed_def exported_def sudo_def has_command_def tee_def
      split: prod.splits) (metis snd_conv)+

lemma keeps_simple [shell_keeps]:
  "lasts W (is_file x p)" "lasts W (file_test x t)" "lasts W (check b)" "lasts W (print_text t)" "lasts W nop"
  "lasts W (leave k)" "lasts W (give_back k)" "lasts W (set_e b)" "lasts W (trap_exit t)" "lasts W (settle k)"
  by (simp_all add: lasts_def is_file_def file_test_def check_def print_text_def nop_def leave_def give_back_def set_e_def
      trap_exit_def)

lemma keeps_bind [shell_keeps]: "lasts W m \<Longrightarrow> (\<And>k. lasts W (f k)) \<Longrightarrow> lasts W (bind m f)"
  unfolding bind_def by (rule lastsI) (auto simp: lasts_def split: prod.splits status.splits, (metis snd_conv)+)

lemma keeps_block [shell_keeps]: "list_all (lasts W) ms \<Longrightarrow> lasts W (block ms)"
  by (induction ms rule: block.induct) (auto intro: keeps_bind keeps_simple)

lemma keeps_lists [shell_keeps]:
  "list_all (lasts W) []"
  "lasts W m \<Longrightarrow> list_all (lasts W) ms \<Longrightarrow> list_all (lasts W) (m # ms)"
  "(\<And>y. lasts W (g y)) \<Longrightarrow> list_all (lasts W) (map g ys)"
  by (simp_all add: list_all_iff)

lemma keeps_branch [shell_keeps]: "lasts W c \<Longrightarrow> lasts W m \<Longrightarrow> lasts W n \<Longrightarrow> lasts W (branch c m n)"
  unfolding branch_def by (rule lastsI) (auto simp: lasts_def split: prod.splits status.splits, (metis snd_conv)+)

lemma keeps_only_if [shell_keeps]: "lasts W c \<Longrightarrow> lasts W m \<Longrightarrow> lasts W (only_if c m)"
  unfolding only_if_def by (intro shell_keeps)

lemma keeps_lazy [shell_keeps]:
  "lasts W m \<Longrightarrow> lasts W n \<Longrightarrow> lasts W (both m n)"
  "lasts W m \<Longrightarrow> lasts W n \<Longrightarrow> lasts W (either m n)"
  "lasts W m \<Longrightarrow> lasts W (negated m)"
  "lasts W m \<Longrightarrow> lasts W (tolerated m)"
  unfolding both_def either_def negated_def tolerated_def nop_def
  by (rule lastsI, auto simp: lasts_def split: prod.splits status.splits, (metis snd_conv)+)+

lemma keeps_call [shell_keeps]: "lasts W m \<Longrightarrow> lasts W (call m)"
  unfolding call_def settle_def by (rule lastsI) (auto simp: lasts_def split: prod.splits status.splits, (metis snd_conv)+)

lemma keeps_look [shell_keeps]: "(\<And>v. lasts W (m v)) \<Longrightarrow> lasts W (look f m)"
  by (simp add: lasts_def look_def)

lemma keeps_if [shell_keeps]: "lasts W m \<Longrightarrow> lasts W n \<Longrightarrow> lasts W (if b then m else n)"
  by simp

lemma keeps_grab [shell_keeps]:
  assumes "lasting x W" and "\<And>v. lasts W (m v)"
  shows "lasts W (grab x t m)" "lasts W (grab_any x t m)" "lasts W (grab_or x t d m)"
proof -
  have out: "W n \<Longrightarrow> mc_Output x t n = (r, n') \<Longrightarrow> W n'" for n r n'
    using assms(1) unfolding lasting_def by (metis snd_conv)
  have go_on: "W (sh_node s) \<Longrightarrow> W (sh_node (snd (m v i s)))" for v i s
    using assms(2) by (simp add: lasts_def)
  show "lasts W (grab x t m)" "lasts W (grab_any x t m)" "lasts W (grab_or x t d m)"
    unfolding grab_def grab_any_def grab_or_def settle_def
    by (rule lastsI, auto split: prod.splits status.splits dest: out intro!: go_on)+
qed

lemma keeps_marks [shell_keeps]:
  assumes "lasting x W"
  shows "lasts W (holodeck_mark_installed x c v)" "lasts W (write_provenance x d fs)"
  unfolding holodeck_mark_installed_def write_provenance_def by (intro shell_keeps assms)+

lemma keeps_error [shell_keeps]: "lasting x W \<Longrightarrow> lasts W (holodeck_error x k c t r)"
  unfolding holodeck_error_def holodeck_log_def by (intro shell_keeps)

section \<open>Where a script can end with status 0\<close>

lemma safeI: "(\<And>i s s'. m i s = (Exit 0, s') \<Longrightarrow> W (sh_node s')) \<Longrightarrow> safe W m"
  by (simp add: safe_def)

lemma safe_settle [shell_safe]: "safe W (settle k)"
  by (simp add: safe_def settle_def)

lemma safe_programs [shell_safe]:
  "safe W (prog x t)" "safe W (feed x t input)" "safe W (exported x t)" "safe W (sudo x t)" "safe W (has_command x t)"
  "safe W (tee x p c)" "safe W (is_file x p)" "safe W (file_test x t)" "safe W (check b)" "safe W (print_text t)" "safe W nop"
  "safe W (give_back k)" "safe W (set_e b)" "safe W (trap_exit t)" "safe W (assign f)" "safe W (piped x m t)"
  by (auto simp: safe_def sudo_def has_command_def tee_def piped_def assign_def shell_defs split: prod.splits if_splits)

lemma safe_leave [shell_safe]: "k \<noteq> 0 \<Longrightarrow> safe W (leave k)"
  by (simp add: safe_def leave_def)

lemma safe_bind [shell_safe]: "safe W m \<Longrightarrow> (\<And>k. safe W (f k)) \<Longrightarrow> safe W (bind m f)"
  unfolding bind_def by (rule safeI) (auto simp: safe_def split: prod.splits status.splits)

lemma safe_block [shell_safe]: "list_all (safe W) ms \<Longrightarrow> safe W (block ms)"
  by (induction ms rule: block.induct) (auto intro: safe_bind safe_programs)

lemma safe_lists [shell_safe]:
  "list_all (safe W) []"
  "safe W m \<Longrightarrow> list_all (safe W) ms \<Longrightarrow> list_all (safe W) (m # ms)"
  "(\<And>y. safe W (g y)) \<Longrightarrow> list_all (safe W) (map g ys)"
  by (simp_all add: list_all_iff)

lemma safe_branch [shell_safe]: "safe W c \<Longrightarrow> safe W m \<Longrightarrow> safe W n \<Longrightarrow> safe W (branch c m n)"
  unfolding branch_def by (rule safeI) (auto simp: safe_def split: prod.splits status.splits if_splits)

lemma safe_only_if [shell_safe]: "safe W c \<Longrightarrow> safe W m \<Longrightarrow> safe W (only_if c m)"
  unfolding only_if_def by (intro shell_safe)

lemma safe_lazy [shell_safe]:
  "safe W m \<Longrightarrow> safe W n \<Longrightarrow> safe W (both m n)"
  "safe W m \<Longrightarrow> safe W n \<Longrightarrow> safe W (either m n)"
  "safe W m \<Longrightarrow> safe W (negated m)"
  "safe W m \<Longrightarrow> safe W (tolerated m)"
  unfolding both_def either_def negated_def tolerated_def nop_def
  by (rule safeI, auto simp: safe_def split: prod.splits status.splits if_splits)+

lemma safe_call [shell_safe]: "safe W m \<Longrightarrow> safe W (call m)"
  unfolding call_def settle_def by (rule safeI) (auto simp: safe_def split: prod.splits status.splits if_splits)

lemma safe_look [shell_safe]: "(\<And>v. safe W (m v)) \<Longrightarrow> safe W (look f m)"
  by (simp add: safe_def look_def)

lemma safe_if [shell_safe]: "safe W m \<Longrightarrow> safe W n \<Longrightarrow> safe W (if b then m else n)"
  by simp

lemma safe_grab [shell_safe]:
  assumes "\<And>v. safe W (m v)"
  shows "safe W (grab x t m)" "safe W (grab_any x t m)" "safe W (grab_or x t d m)"
  using assms unfolding grab_def grab_any_def grab_or_def settle_def
  by (auto simp: safe_def split: prod.splits status.splits if_splits)

lemma safe_source_os [shell_safe]: "(\<And>r. safe W (m r)) \<Longrightarrow> safe W (source_os x m)"
  unfolding source_os_def by (intro shell_safe) (auto intro: shell_safe split: option.split)

lemma safe_wait_ready [shell_safe]: "safe W probe \<Longrightarrow> safe W g \<Longrightarrow> safe W (wait_ready x probe g n)"
  by (induction n) (auto intro!: shell_safe)

section \<open>The functions of the library\<close>

lemma safe_library [shell_safe]:
  "safe W (holodeck_mark_installed x c v)" "safe W (holodeck_log x l c t)"
  "safe W (pkg_update x)" "safe W (pkg_install x ps)" "safe W (pkg_install_version x p v)"
  unfolding holodeck_mark_installed_def holodeck_log_def pkg_update_def pkg_install_def pkg_install_version_def
    unsupported_manager_def Let_def
  by (intro shell_safe)+

lemma safe_error [shell_safe]: "k \<noteq> 0 \<Longrightarrow> safe W (holodeck_error x k c t r)"
  unfolding holodeck_error_def by (intro shell_safe)

lemma safe_keep_status: "safe W m \<Longrightarrow> safe W (keep_status m)"
  unfolding keep_status_def by (intro shell_safe) (simp_all add: safe_def)

lemma safe_attempt_rounds: "safe W m \<Longrightarrow> safe W (attempt_rounds x c most m n i d)"
  by (induction n arbitrary: i d) (auto intro!: shell_safe safe_keep_status)

lemma safe_retry [shell_safe]: "safe W m \<Longrightarrow> safe W (holodeck_retry x n c m)" "safe W m \<Longrightarrow> safe W (retry3 x c m)"
  unfolding retry3_def holodeck_retry_def by (intro shell_safe safe_attempt_rounds, assumption)+

lemma safe_install_rounds: "safe W (install_rounds x ps n)"
  by (induction n) (auto simp: Let_def intro!: shell_safe)

lemma safe_install [shell_safe]: "safe W (install_packages_with_retry x ps)" "safe W (install3 x c ps)"
  unfolding install3_def install_packages_with_retry_def by (intro shell_safe safe_install_rounds)+

lemma safe_verify [shell_safe]:
  "safe W (holodeck_verify_driver x)" "safe W (holodeck_verify_containerd x)" "safe W (holodeck_verify_docker x)"
  "safe W (holodeck_verify_crio x)" "safe W (holodeck_verify_toolkit x)" "safe W (holodeck_verify_kubernetes x a)"
  unfolding holodeck_verify_driver_def holodeck_verify_containerd_def holodeck_verify_docker_def holodeck_verify_crio_def
    holodeck_verify_toolkit_def holodeck_verify_kubernetes_def or_return_1_def
  by (intro shell_safe)+

lemma safe_phrases [shell_safe]:
  "safe W (log_exit x c t)" "safe W (unsupported_family x c)" "safe W (write_provenance x d fs)"
  unfolding log_exit_def unsupported_family_def write_provenance_def by (intro shell_safe; simp)+

lemma safe_continuations [shell_safe]:
  assumes "\<And>v. safe W (k v)"
  shows "safe W (go_arch x c t k)" "safe W (go_toolchain x c v k)" "safe W (in_work_dir x k)"
  using assms unfolding go_toolchain_def go_arch_def in_work_dir_def by (intro shell_safe; simp)+

section \<open>What a script that ends well has seen\<close>

named_theorems shell_proves

definition settles :: "('s \<Rightarrow> bool) \<Rightarrow> 's sh \<Rightarrow> bool" where
  "settles W m \<longleftrightarrow> (\<forall>i s k s'. m i s = (Done k, s') \<longrightarrow> W (sh_node s'))"

lemma stops_exits:
  "stops (leave k)" "stops (holodeck_error x k c t r)"
  by (auto simp: stops_def holodeck_error_def leave_def bind_def split: prod.splits status.splits)

lemma stops_block: "stops (block ms) \<Longrightarrow> stops (block (m # ms))"
  by (cases ms) (auto simp: stops_def nop_def bind_def split: prod.splits status.splits)

lemma settles_guard: "proves W v \<Longrightarrow> stops m \<Longrightarrow> settles W (only_if (negated v) m)"
  by (auto simp: settles_def proves_def stops_def only_if_def branch_def negated_def nop_def split: prod.splits status.splits if_splits)

lemma proves_tail [shell_proves]: "settles W m \<Longrightarrow> list_all (lasts W) ms \<Longrightarrow> proves W (block (m # ms))"
proof -
  assume m: "settles W m" and "list_all (lasts W) ms"
  from keeps_block [OF this(2)] m show ?thesis
    by (cases ms) (auto simp: proves_def settles_def bind_def lasts_def split: prod.splits status.splits, metis snd_conv)
qed

lemma proves_later [shell_proves]: "proves W (block (n # ms)) \<Longrightarrow> proves W (block (m # n # ms))"
  by (auto simp: proves_def bind_def split: prod.splits status.splits)

lemma proves_last [shell_proves]: "proves W m \<Longrightarrow> proves W (block [m])"
  by simp

lemma proves_branch [shell_proves]: "proves W m \<Longrightarrow> proves W n \<Longrightarrow> proves W (branch c m n)"
  by (auto simp: proves_def branch_def split: prod.splits status.splits if_splits)

lemma proves_look [shell_proves]: "(\<And>v. proves W (m v)) \<Longrightarrow> proves W (look f m)"
  by (simp add: proves_def look_def)

lemma proves_grab [shell_proves]:
  assumes "\<And>v. proves W (m v)"
  shows "proves W (grab x t m)" "proves W (grab_any x t m)" "proves W (grab_or x t d m)"
  using assms unfolding grab_def grab_any_def grab_or_def settle_def
  by (auto simp: proves_def split: prod.splits status.splits if_splits)

lemma proves_continuations [shell_proves]:
  assumes "\<And>v. proves W (k v)"
  shows "proves W (in_work_dir x k)" "proves W (in_go_work_dir x k)" "proves W (with_arch x kt k)"
  unfolding in_work_dir_def in_go_work_dir_def with_arch_def
  by (intro proves_grab proves_later proves_last assms, intro proves_grab proves_later proves_last assms,
      simp add: assms proves_grab)

lemma proves_go_toolchain [shell_proves]:
  assumes "\<And>v. proves W (k v)"
  shows "proves W (go_toolchain x c v k)" "proves W (go_arch x c t k)"
proof -
  have log: "proves W (log_exit x c t)" for c t
    by (auto simp: proves_def log_exit_def bind_def leave_def split: prod.splits status.splits)
  show "proves W (go_arch x c t k)" using assms log unfolding go_arch_def by (auto intro!: shell_proves)
  have "proves W (go_arch x c t (\<lambda>a. block [m1 a, m2, m3, k a]))" for t m1 m2 m3
    using log unfolding go_arch_def
    by (intro proves_grab) (auto simp del: block.simps intro!: proves_later proves_last assms)
  then show "proves W (go_toolchain x c v k)" unfolding go_toolchain_def .
qed

text \<open>An early end after a successful probe.\<close>

lemma safe_after: "proves W v \<Longrightarrow> safe W v \<Longrightarrow> lasts W m \<Longrightarrow> safe W n \<Longrightarrow> safe W (branch v m n)"
  unfolding branch_def by (rule safeI) (auto simp: safe_def proves_def lasts_def split: prod.splits status.splits if_splits,
      metis snd_conv)

lemma safe_only_after: "proves W v \<Longrightarrow> safe W v \<Longrightarrow> lasts W m \<Longrightarrow> safe W (only_if v m)"
  unfolding only_if_def by (intro safe_after safe_programs)

lemma safe_commit_done:
  assumes "proves W v" and "safe W v"
  shows "safe W (commit_done x cmd p c v)"
proof -
  have "safe W (branch v (leave 0) nop)" by (intro safe_after assms keeps_simple safe_programs)
  then show ?thesis
    by (auto simp: commit_done_def commit_present_def intro!: safe_branch [of W "has_command x cmd"] safe_branch [of W "is_file x p"]
        safe_branch [of W "has_command x ''jq''"] safe_grab safe_programs)
qed

lemma safe_service_present:
  assumes "lasting x W" and "proves W v" and "safe W v"
  shows "safe W (service_present x c t d v)"
  unfolding service_present_def
  by (intro safe_only_if safe_grab safe_programs safe_if safe_only_after assms shell_keeps)

lemma run_bash_success:
  assumes "lasting x W" and "safe W m" and "proves W m" and "run_bash x m n = (0, s)"
  shows "W (sh_node s)"
proof -
  have trap: "W (sh_node s') \<Longrightarrow> W (sh_node (snd (at_exit x k s')))" for s' k
    using assms(1) by (simp add: at_exit_def lasting_def)
  show ?thesis
    using assms(2-4) trap unfolding run_bash_def safe_def proves_def
    by (auto split: prod.splits status.splits simp: at_exit_def)
qed

end
