(* ===== verification/Script_Props.thy ===== *)
theory Script_Props
  imports Shell_Rules
begin

text \<open>
  Every template of a component, with the rules of \<open>Shell_Rules\<close>: where a script can end with status 0, and
  what it has seen when it reaches its end.
\<close>

section \<open>Nodes that record what runs on them\<close>

text \<open>The programs run so far with their status and, where the shell reads it, their output.\<close>

definition records :: "'s machine \<Rightarrow> ('s \<Rightarrow> (string \<times> nat \<times> string) list) \<Rightarrow> bool" where
  "records x log \<longleftrightarrow> (\<forall>t n. log (snd (mc_Run x t n)) = log n @ [(t, fst (mc_Run x t n), '''')])
     \<and> (\<forall>t i n. log (snd (mc_Feed x t i n)) = log n @ [(t, fst (mc_Feed x t i n), '''')])
     \<and> (\<forall>t n. log (snd (mc_Output x t n)) = log n @ [(t, fst (fst (mc_Output x t n)), snd (fst (mc_Output x t n)))])"

text \<open>Some programs succeeded one right after the other, all with status 0.\<close>

definition succeeded :: "string list \<Rightarrow> (string \<times> nat \<times> string) list \<Rightarrow> bool" where
  "succeeded ts l \<longleftrightarrow> sublist (map (\<lambda>t. (t, 0, '''')) ts) l"

lemma succeeded_append: "succeeded ts l \<Longrightarrow> succeeded ts (l @ l')"
  unfolding succeeded_def sublist_def by (metis append_assoc)

lemma succeeded_end: "succeeded [t] (l @ [(t, 0, '''')])" "succeeded [t, u] (l @ [(t, 0, ''''), (u, 0, '''')])"
  unfolding succeeded_def by (simp_all add: sublist_append_leftI)

lemma lasting_or: "lasting x V \<Longrightarrow> lasting x W \<Longrightarrow> lasting x (\<lambda>n. V n \<or> W n)"
  unfolding lasting_def by blast

lemma lasting_succeeded: "records x log \<Longrightarrow> lasting x (\<lambda>n. succeeded ts (log n))"
  by (auto simp: records_def lasting_def intro: succeeded_append)

lemma lasting_any: "records x log \<Longrightarrow> lasting x (\<lambda>n. \<exists>ts \<in> set es. succeeded ts (log n))"
  by (auto simp: records_def lasting_def intro: succeeded_append)

lemma proves_mono: "proves V m \<Longrightarrow> (\<And>n. V n \<Longrightarrow> W n) \<Longrightarrow> proves W m"
  by (auto simp: proves_def)

lemma recorded: "records x log \<Longrightarrow> mc_Run x t n = (k, n') \<Longrightarrow> log n' = log n @ [(t, k, '''')]"
  unfolding records_def by (metis fst_conv snd_conv)

lemma proves_prog: "records x log \<Longrightarrow> proves (\<lambda>n. succeeded [t] (log n)) (prog x t)"
  by (auto simp: proves_def prog_def settle_def succeeded_end recorded split: prod.splits if_splits)

lemma probes:
  assumes "records x log"
  shows "proves (\<lambda>n. succeeded [t] (log n)) (call (block [or_return_1 (prog x t), give_back 0]))"
    and "proves (\<lambda>n. succeeded [t, u] (log n)) (call (block [or_return_1 (prog x t), or_return_1 (prog x u), give_back 0]))"
  by (auto simp: proves_def or_return_1_def shell_defs succeeded_end recorded [OF assms] split: prod.splits if_splits status.splits)

section \<open>Components that are seen to work\<close>

text \<open>
  The probes, one list of which a script has run when it ends with status 0. Where the list is empty,
  nothing is said: the packaged toolkit, and Kubernetes from source or in a cluster, are not probed.
\<close>

definition evidence :: "piece \<Rightarrow> string list list" where
  "evidence p = (case p of
       T_nvdriver t d \<Rightarrow> [[''nvidia-smi'']]
     | T_docker t d \<Rightarrow> [[''systemctl is-active --quiet docker'', ''sudo docker info'']]
     | T_containerd t c \<Rightarrow> [[''systemctl is-active --quiet containerd'', ''sudo ctr version'']]
     | T_crio t c \<Rightarrow> [[''systemctl is-active --quiet crio'']]
     | T_toolkit t c \<Rightarrow> if t = ''containerToolkitGitTemplate'' \<or> t = ''containerToolkitLatestTemplate''
         then [[''command -v nvidia-ctk'', ''nvidia-ctk --version'']] else []
     | T_kubernetes t k \<Rightarrow>
         if t = ''KubeadmTemplate'' then [[''kubectl --kubeconfig=/etc/kubernetes/admin.conf get nodes''],
           [''kubectl --kubeconfig=$KUBECONFIG get nodes'']]
         else if t = ''KindTemplate'' \<or> t = ''kindGitTemplate'' \<or> t = ''kindLatestTemplate''
         then [[''kubectl --kubeconfig $KUBECONFIG get nodes''], [''kubectl --kubeconfig $HOME/.kube/config get nodes'']]
         else if t = ''microk8sTemplate'' then [[''sudo microk8s status --wait-ready''], [''sudo microk8s kubectl get nodes'']]
         else []
     | _ \<Rightarrow> [])"

text \<open>A node on which \<open>lspci\<close> has found no GPU gets no driver.\<close>

definition no_gpu :: "(string \<times> nat \<times> string) list \<Rightarrow> bool" where
  "no_gpu l \<longleftrightarrow> (\<exists>k. k \<noteq> 0 \<and> (lspci_gpu, k, '''') \<in> set l)"

subsection \<open>Container runtimes\<close>

lemma docker_scripts_safe: "safe W (dockerPackageScript x d)" "safe W (dockerGitScript x d)"
  unfolding dockerPackageScript_def docker_present_def docker_repository_def docker_apt_key_def docker_apt_list_def
    docker_yum_repo_def docker_packages_def docker_configure_def docker_wait_def cri_dockerd_def cri_units_def docker_finish_def
    dockerGitScript_def commit_present_def docker_build_def clone_ref_def docker_git_finish_def if_True if_False
  by (intro shell_safe; simp)+

lemma docker_scripts_prove:
  assumes L: "lasting x W" and V: "proves W (holodeck_verify_docker x)"
  shows "proves W (dockerPackageScript x d)" "proves W (dockerGitScript x d)"
proof -
  have "proves W (docker_finish x)"
    unfolding docker_finish_def by (intro proves_tail settles_guard V stops_exits shell_keeps L)
  then show "proves W (dockerPackageScript x d)"
    unfolding dockerPackageScript_def docker_present_def
    by (auto simp del: block.simps intro!: proves_branch proves_grab proves_later proves_last)
  have "proves W (docker_git_finish x d a)" for a
    unfolding docker_git_finish_def by (intro proves_later proves_tail settles_guard V stops_exits shell_keeps L)
  then show "proves W (dockerGitScript x d)"
    unfolding dockerGitScript_def commit_present_def
    by (auto simp del: block.simps intro!: proves_branch proves_grab proves_later proves_last proves_go_toolchain)
qed

lemmas crio_defs = crioPackageScript_def crio_repository_def crio_packages_def crio_links_def crio_start_def crio_verified_def
  crioGitScript_def crio_build_packages_def cni_plugins_def clone_ref_def Let_def

lemma crio_scripts_safe:
  assumes "lasting x W" and "proves W (holodeck_verify_crio x)"
  shows "safe W (crioPackageScript x c)" "safe W (crioGitScript x c)"
  unfolding crio_defs
  by (intro shell_safe safe_service_present safe_commit_done assms; simp)+

lemma crio_scripts_prove:
  assumes L: "lasting x W" and V: "proves W (holodeck_verify_crio x)"
  shows "proves W (crioPackageScript x c)" "proves W (crioGitScript x c)"
proof -
  have S: "settles W (crio_verified x t r f r')" for t r f r'
    unfolding crio_verified_def using settles_guard [OF V stops_exits(2)]
    by (auto simp: settles_def bind_def split: prod.splits status.splits)
  show "proves W (crioPackageScript x c)"
    unfolding crioPackageScript_def Let_def by (intro proves_later proves_tail S shell_keeps L)
  show "proves W (crioGitScript x c)"
    unfolding crioGitScript_def
    by (intro proves_later proves_last proves_go_toolchain proves_continuations proves_tail S shell_keeps L)
qed

lemmas containerd_defs = containerdV1Script_def containerd_install_def containerd_package_def containerd_configure_def
  default_config_def sed_config_def has_image_verifier_def containerd_verified_def containerdGitScript_def containerd_tools_def
  containerd_build_def containerd_built_def containerdLatestScript_def clone_branch_def clone_ref_def cni_plugins_def
  docker_apt_key_def docker_apt_list_def docker_yum_repo_def Let_def

lemma safe_latest_commit [shell_safe]: "(\<And>v. safe W (k v)) \<Longrightarrow> safe W (latest_commit x c r b e e' k)"
  using safe_phrases(1) by (auto simp: safe_def latest_commit_def split: prod.splits if_splits) blast+

lemma containerd_scripts_safe:
  assumes "lasting x W" and "proves W (holodeck_verify_containerd x)"
  shows "safe W (containerdV1Script x c)" "safe W (containerdGitScript x c)" "safe W (containerdLatestScript x c)"
  unfolding containerd_defs
  by (intro shell_safe safe_service_present safe_commit_done assms; simp)+

lemma proves_latest_commit [shell_proves]:
  assumes "\<And>v. proves W (k v)"
  shows "proves W (latest_commit x c r b e e' k)"
  using assms by (auto simp: proves_def latest_commit_def log_exit_def bind_def leave_def split: prod.splits status.splits if_splits)

lemma containerd_scripts_prove:
  assumes L: "lasting x W" and V: "proves W (holodeck_verify_containerd x)"
  shows "proves W (containerdV1Script x c)" "proves W (containerdGitScript x c)" "proves W (containerdLatestScript x c)"
proof -
  have S: "settles W (containerd_verified x t r f r')" for t r f r'
    unfolding containerd_verified_def using settles_guard [OF V stops_exits(2)]
    by (auto simp: settles_def bind_def split: prod.splits status.splits)
  have B: "proves W (containerd_built x f fs)" for f fs
    unfolding containerd_built_def by (intro proves_tail S shell_keeps L)
  show "proves W (containerdV1Script x c)"
    unfolding containerdV1Script_def by (intro proves_later proves_tail S shell_keeps L)
  show "proves W (containerdGitScript x c)" "proves W (containerdLatestScript x c)"
    unfolding containerdGitScript_def containerdLatestScript_def containerd_tools_def Let_def
    by (intro proves_later proves_last proves_latest_commit proves_go_toolchain proves_continuations B)+
qed

subsection \<open>The driver\<close>

lemma safe_case_prod [shell_safe]: "(\<And>a b. safe W (f a b)) \<Longrightarrow> safe W (case p of (a, b) \<Rightarrow> f a b)"
  by (simp split: prod.split)

lemma safe_driver_pieces [shell_safe]:
  "safe W (driver_dependencies x debs g rpms r)" "safe W (checkout_ref x c repo ref w)" "safe W (load_module x)"
  unfolding driver_dependencies_def headers_debian_def headers_rhel_def gcc_12_def checkout_ref_def github_only_def
    enter_sources_def load_module_def Let_def
  by (intro shell_safe; simp)+

lemma safe_skip_without_gpu: "proves W (negated (prog x lspci_gpu)) \<Longrightarrow> safe W (skip_without_gpu x)"
  unfolding skip_without_gpu_def by (intro safe_only_after shell_safe keeps_simple)

lemma safe_driver_present:
  assumes L: "lasting x W" and V: "proves W (holodeck_verify_driver x)"
  shows "safe W (driver_present x v)" "safe W (runfile_present x u)"
proof -
  have P: "safe W (only_if (holodeck_verify_driver x) (block [holodeck_mark_installed x driver t, leave 0]))" for t
    by (intro safe_only_after V safe_verify shell_keeps L)
  show "safe W (driver_present x v)"
    unfolding driver_present_def by (rule safe_only_if [OF safe_programs(5) safe_grab(2)]) (intro safe_if P safe_programs)
  have R: "safe W (only_if (holodeck_verify_driver x) (block [
      only_if (is_file x driver_provenance_file) (only_if (has_command x ''jq'')
        (grab x q (\<lambda>u'. only_if (check (u' = u)) (leave 0)))), holodeck_mark_installed x driver t, leave 0]))" for q t
    by (intro safe_only_after V safe_verify shell_keeps L)
  show "safe W (runfile_present x u)"
    unfolding runfile_present_def
    by (rule safe_only_if [OF safe_programs(5) safe_grab(2)]) (rule safe_only_if [OF safe_programs(9) R])
qed

lemma driver_scripts_safe:
  assumes "lasting x W" and "proves W (holodeck_verify_driver x)" and "proves W (negated (prog x lspci_gpu))"
  shows "safe W (nvDriverPackageScript x d)" "safe W (nvDriverRunfileScript x d)" "safe W (nvDriverGitScript x d)"
  unfolding nvDriverPackageScript_def nvDriverRunfileScript_def nvDriverGitScript_def cuda_repository_def cuda_repo_debian_def
    cuda_repo_rhel_def dkms_rebuild_def driver_finish_def driver_verified_def runfile_checksum_def runfile_install_def
    build_modules_def Let_def
  by (intro shell_safe safe_skip_without_gpu safe_driver_present safe_commit_done assms; simp)+

lemma driver_scripts_prove:
  assumes L: "lasting x W" and V: "proves W (holodeck_verify_driver x)"
  shows "proves W (nvDriverPackageScript x d)" "proves W (nvDriverRunfileScript x d)" "proves W (nvDriverGitScript x d)"
proof -
  have S: "settles W (driver_verified x t)" for t
    unfolding driver_verified_def by (intro settles_guard V stops_exits)
  have "proves W (driver_finish x d)"
    unfolding driver_finish_def by (intro proves_tail S shell_keeps L)
  then show "proves W (nvDriverPackageScript x d)"
    unfolding nvDriverPackageScript_def by (auto simp del: block.simps intro!: proves_later proves_last)
  have P: "proves W (block [driver_verified x t, grab x q (\<lambda>v. block [write_provenance x p (fs v),
      holodeck_mark_installed x c v])])" for t q p c fs
    by (intro proves_tail S shell_keeps L)
  show "proves W (nvDriverRunfileScript x d)" "proves W (nvDriverGitScript x d)"
    unfolding nvDriverRunfileScript_def nvDriverGitScript_def Let_def
    by (rule proves_later, rule proves_later, rule proves_later, rule proves_later, rule proves_later, rule P | rule proves_later)+
qed

subsection \<open>The container toolkit from source\<close>

lemma safe_toolkit_pieces [shell_safe]: "safe W (configure_runtime x t)" "safe W (link_runtime x)" "safe W (build_toolkit x)"
  unfolding configure_runtime_def link_runtime_def build_toolkit_def ctk_go_arch_def Let_def
  by (intro shell_safe; simp)+

lemma safe_install_artifacts [shell_safe]: "safe W (install_artifacts x w p i)"
  unfolding install_artifacts_def by (intro shell_safe)

lemma safe_toolkit_from [shell_safe]: "safe W m \<Longrightarrow> (\<And>v. safe W (k v)) \<Longrightarrow> safe W (toolkit_from x g w m k)"
  unfolding toolkit_from_def from_image_def by (intro shell_safe; simp)

lemma safe_toolkit_finish [shell_safe]: "safe W (toolkit_finish x t m fs c d)"
  unfolding toolkit_finish_def by (intro shell_safe; simp)

lemma toolkit_scripts_safe:
  assumes "lasting x W" and "proves W (holodeck_verify_toolkit x)"
  shows "safe W (containerToolkitGitScript x t)" "safe W (containerToolkitLatestScript x t)"
  unfolding containerToolkitGitScript_def containerToolkitLatestScript_def github_only_def enter_sources_def Let_def
  by (intro shell_safe safe_commit_done assms; simp)+

lemma proves_toolkit_from:
  assumes "\<And>v. proves W (k v)"
  shows "proves W (toolkit_from x g w m k)"
  unfolding toolkit_from_def from_image_def
  by (intro proves_branch proves_look proves_grab proves_later proves_last assms)

lemma toolkit_scripts_prove:
  assumes L: "lasting x W" and V: "proves W (holodeck_verify_toolkit x)"
  shows "proves W (containerToolkitGitScript x t)" "proves W (containerToolkitLatestScript x t)"
proof -
  have F: "proves W (toolkit_finish x t m fs c d)" for m fs c d
    unfolding toolkit_finish_def
    by (rule proves_later, rule proves_later, rule proves_tail [OF settles_guard [OF V stops_exits(2)]], intro shell_keeps L)
  show "proves W (containerToolkitGitScript x t)" "proves W (containerToolkitLatestScript x t)"
    unfolding containerToolkitGitScript_def containerToolkitLatestScript_def Let_def
    by (intro proves_later proves_last proves_latest_commit proves_continuations proves_toolkit_from F)+
qed

subsection \<open>Kubernetes\<close>

lemma safe_with_arch [shell_safe]: "(\<And>a. safe W (m a)) \<Longrightarrow> safe W (with_arch x k m)"
  unfolding with_arch_def by (intro shell_safe)

lemma safe_kubernetes_library [shell_safe]:
  "safe W (kubectl x t)" "safe W (swap_off x)" "safe W (zram_off x)" "safe W (network_modules x)" "safe W (kubelet_unit x k s t)"
  "safe W (user_kubeconfig x)" "safe W (export_kubeconfig x)" "safe W (label_managed x)" "safe W (cni_missing x)"
  "safe W (kind_nodes x)" "safe W (kind_exists x)" "safe W (kind_delete x)" "safe W (kind_missing x)"
  unfolding kubectl_def swap_off_def zram_off_def network_modules_def kubelet_unit_def user_kubeconfig_def own_def
    export_kubeconfig_def label_managed_def cni_missing_def kind_nodes_def kind_exists_def kind_delete_def kind_missing_def
  by (intro shell_safe)+

lemma safe_calico [shell_safe]: "safe W (tigera_operator x c k)" "safe W (installation_crd x c)" "safe W (other_crds x c)"
  "safe W (calico_resources x c k)"
  unfolding tigera_operator_def installation_crd_def other_crds_def calico_resources_def wait_crd_def wait_pods_def
  by (intro shell_safe; simp)+

lemma safe_init_rounds [shell_safe]: "safe W (init_rounds x k n)"
proof -
  have A: "safe W (init_attempt x k)"
    unfolding init_attempt_def Let_def by (intro shell_safe)
  show ?thesis
    by (induction n) (auto simp: init_diagnosis_def simp del: block.simps intro!: shell_safe safe_keep_status A)
qed

lemma safe_kubeadm_present:
  assumes L: "lasting x W" and V: "proves W (holodeck_verify_kubernetes x admin_conf)"
  shows "safe W (kubeadm_present x k)"
proof -
  have P: "safe W (only_if (holodeck_verify_kubernetes x admin_conf) (only_if (prog x t)
      (block [holodeck_mark_installed x kubeadm_component (kt_Version k), leave 0])))" for t
    by (intro safe_only_after V safe_verify shell_keeps L)
  show ?thesis
    unfolding kubeadm_present_def admin_nodes_def by (intro safe_only_if [OF safe_programs(7)] safe_only_if [OF safe_programs(1) P])
qed

lemma kubeadm_script_safe:
  assumes "lasting x W" and "proves W (holodeck_verify_kubernetes x admin_conf)"
  shows "safe W (kubeadmScript x k)"
  unfolding kubeadmScript_def kubeadm_system_def kubeadm_binaries_def kubeadm_cni_def download_cni_def download_crictl_def
    binaries_missing_def download_binaries_def kubelet_units_def restart_cri_def initialize_node_def finish_node_def
    single_node_labels_def wait_nodes_def wait_pods_def
  by (intro shell_safe safe_kubeadm_present assms; simp)

lemma kubeadm_script_proves:
  assumes L: "lasting x W" and V: "proves W (holodeck_verify_kubernetes x ''$KUBECONFIG'')"
  shows "proves W (kubeadmScript x k)"
proof -
  have "proves W (finish_node x k)"
    unfolding finish_node_def
    by (rule proves_later, rule proves_later, rule proves_later, rule proves_tail [OF settles_guard [OF V stops_exits(2)]],
        intro shell_keeps L)
  then show ?thesis
    unfolding kubeadmScript_def by (auto simp del: block.simps intro!: proves_continuations proves_later proves_last)
qed

lemma safe_kind_pieces [shell_safe]: "safe W (kind_binary x c a)" "safe W (kind_gpu x)" "safe W (kind_create x c i k)"
  "safe W (kube_directory x)" "(\<And>a. safe W (g a)) \<Longrightarrow> safe W (kind_arch x g)"
  unfolding kind_binary_def kind_gpu_def kind_create_def kube_directory_def kind_arch_def
  by (intro shell_safe)+

lemma safe_sources [shell_safe]: "safe W (github_source x c r repo)" "safe W (clone_kubernetes x c os r w)"
  "safe W (checkout_kubernetes x c ref r)" "(\<And>v. safe W (m v)) \<Longrightarrow> safe W (in_go_work_dir x m)"
  "(\<And>v. safe W (m v)) \<Longrightarrow> safe W (git_version x r m)" "(\<And>v. safe W (m v)) \<Longrightarrow> safe W (branch_commit x c k r m)"
  unfolding github_source_def clone_kubernetes_def checkout_kubernetes_def in_go_work_dir_def git_version_def branch_commit_def
  by (intro shell_safe; simp)+

lemma kind_scripts_safe:
  assumes L: "lasting x W" and V: "proves W (kubectl x ''get nodes'')"
  shows "safe W (kindScript x k)" "safe W (kindGitScript x k)" "safe W (kindLatestScript x k)"
proof -
  have E: "lasts W (export_kubeconfig x)"
    unfolding export_kubeconfig_def by (intro shell_keeps L)
  have P: "safe W (branch (kubectl x ''get nodes'') (block [holodeck_mark_installed x c v, leave 0]) (kind_delete x))" for c v
    by (intro safe_after V shell_safe shell_keeps L)
  have R: "safe W (only_if (kubectl x ''get nodes'') (leave 0))"
    by (intro safe_only_after V shell_safe shell_keeps L)
  show "safe W (kindScript x k)" "safe W (kindGitScript x k)" "safe W (kindLatestScript x k)"
    unfolding kindScript_def kind_present_def kind_kubectl_def kindGitScript_def kindLatestScript_def kind_rebuild_def
      same_commit_def kind_tools_def kind_from_source_def Let_def
    by (intro P R shell_safe; simp)+
qed

lemma proves_sources: "(\<And>v. proves W (m v)) \<Longrightarrow> proves W (branch_commit x c k r m)"
  "(\<And>v. proves W (m v)) \<Longrightarrow> proves W (git_version x r m)"
  unfolding branch_commit_def git_version_def by (intro proves_grab proves_later proves_last; simp)+

lemma kind_scripts_prove:
  assumes L: "lasting x W" and V: "proves W (kind_nodes x)"
  shows "proves W (kindScript x k)" "proves W (kindGitScript x k)" "proves W (kindLatestScript x k)"
proof -
  have T: "proves W (block (only_if (negated (kind_nodes x)) (holodeck_error x e c t r) # ms))" if "list_all (lasts W) ms" for e c t r ms
    by (rule proves_tail [OF settles_guard [OF V stops_exits(2)] that])
  show "proves W (kindScript x k)"
    unfolding kindScript_def by (rule T | rule proves_later)+ (intro shell_keeps L)
  have "proves W (kind_from_source x c k' v r w fs)" for c k' v r w fs
    unfolding kind_from_source_def by (rule proves_sources, (rule T | rule proves_later)+, intro shell_keeps L)
  then show "proves W (kindGitScript x k)" "proves W (kindLatestScript x k)"
    unfolding kindGitScript_def kindLatestScript_def Let_def
    by (intro proves_later proves_last proves_continuations proves_sources; assumption)+
qed

lemma microk8s_script_safe:
  assumes "lasting x W" and "proves W (sudo x ''microk8s status --wait-ready'')"
  shows "safe W (microk8sScript x k)"
proof -
  have P: "safe W (only_if (sudo x ''microk8s status --wait-ready'')
      (block [holodeck_mark_installed x microk8s_component (microk8s_version k), leave 0]))"
    by (intro safe_only_after shell_safe shell_keeps assms)
  show ?thesis
    unfolding microk8sScript_def by (intro P shell_safe; simp)
qed

lemma microk8s_script_proves:
  assumes L: "lasting x W" and V: "proves W (sudo x ''microk8s kubectl get nodes'')"
  shows "proves W (microk8sScript x k)"
proof -
  have T: "proves W (block (only_if (negated (sudo x ''microk8s kubectl get nodes'')) (holodeck_error x e c t r) # ms))"
    if "list_all (lasts W) ms" for e c t r ms
    by (rule proves_tail [OF settles_guard [OF V stops_exits(2)] that])
  show ?thesis
    unfolding microk8sScript_def by (rule T | rule proves_later)+ (intro shell_keeps L)
qed

end
