(* ===== verification/Node_Props.thy ===== *)
theory Node_Props
  imports Script_Props
begin

text \<open>What the scripts of the components achieve on a node, whatever the node does.\<close>

section \<open>Every script sees its component work\<close>

lemma sees_call: "(\<And>i s k s'. m i s = (Done k, s') \<or> m i s = (Return k, s') \<Longrightarrow> k = 0 \<Longrightarrow> W (sh_node s')) \<Longrightarrow> proves W (call m)"
  by (auto simp: proves_def call_def settle_def split: prod.splits status.splits if_splits)

lemma toolkit_probe:
  assumes "records x log"
  shows "proves (\<lambda>n. succeeded [''command -v nvidia-ctk'', ''nvidia-ctk --version''] (log n)) (holodeck_verify_toolkit x)"
proof -
  let ?W = "\<lambda>n. succeeded [''command -v nvidia-ctk'', ''nvidia-ctk --version''] (log n)"
  define R where "R = block [only_if (negated (has_command x ''nvidia-container-runtime'')) (block [
       holodeck_log x ''WARN'' ''nvidia-container-toolkit''
         ''nvidia-container-runtime binary not found, creating symlink from nvidia-ctk'',
       grab x ''command -v nvidia-ctk'' (\<lambda>ctk_path. sudo x (''ln -sf '' @ ctk_path @ '' /usr/bin/nvidia-container-runtime''))]),
     give_back 0]"
  have "lasts ?W R"
    unfolding R_def holodeck_log_def by (intro shell_keeps lasting_succeeded assms)
  then have R: "R i s = (r, s') \<Longrightarrow> ?W (sh_node s) \<Longrightarrow> ?W (sh_node s')" for i s r s'
    by (rule lastsD)
  have "holodeck_verify_toolkit x = call (bind (or_return_1 (prog x ''command -v nvidia-ctk''))
      (\<lambda>_. bind (or_return_1 (prog x ''nvidia-ctk --version'')) (\<lambda>_. R)))"
    by (simp add: holodeck_verify_toolkit_def R_def has_command_def)
  moreover have "?W (sh_node s')"
    if m: "bind (or_return_1 (prog x ''command -v nvidia-ctk'')) (\<lambda>_. bind (or_return_1 (prog x ''nvidia-ctk --version'')) (\<lambda>_. R)) i s
      = (r, s')" (is "?m i s = _") and r: "r = Done 0 \<or> r = Return 0" for i s r s'
  proof -
    obtain k n where A: "mc_Run x ''command -v nvidia-ctk'' (sh_node s) = (k, n)" by fastforce
    obtain k' n' where B: "mc_Run x ''nvidia-ctk --version'' n = (k', n')" by fastforce
    have "?m i s = (if k \<noteq> 0 then (Return 1, s\<lparr>sh_node := n\<rparr>) else if k' \<noteq> 0 then (Return 1, s\<lparr>sh_node := n'\<rparr>)
        else R i (s\<lparr>sh_node := n'\<rparr>))"
      by (simp add: or_return_1_def either_def prog_def settle_def bind_def give_back_def A B)
    with m r have "R i (s\<lparr>sh_node := n'\<rparr>) = (r, s')" and "k = 0" and "k' = 0" by (auto split: if_splits)
    moreover have "?W n'" if "k = 0" and "k' = 0"
      using recorded [OF assms A] recorded [OF assms B] that by (simp add: succeeded_end)
    ultimately show ?thesis by (simp add: R)
  qed
  ultimately show ?thesis by (auto intro!: sees_call)
qed

lemma no_gpu_probe: "records x log \<Longrightarrow> proves (\<lambda>n. no_gpu (log n)) (negated (prog x lspci_gpu))"
  by (auto simp: proves_def no_gpu_def negated_def prog_def settle_def recorded split: prod.splits status.splits if_splits)

lemma safe_set_up [shell_safe]: "safe W (set_up x)"
  unfolding set_up_def package_manager_def by (intro shell_safe)

lemma run_piece:
  assumes "lasting x W" and "safe W (piece_script x custom p)" and "proves W (piece_script x custom p)"
    and "run_on_node x custom [Shebang, CommonFunctions, p] n = (0, s)"
  shows "W (sh_node s)"
proof (rule run_bash_success)
  let ?m = "block (map (piece_script x custom) [Shebang, CommonFunctions, p])"
  show "run_bash x ?m n = (0, s)" using assms(4) by (simp add: run_on_node_def)
  show "safe W ?m"
    by (simp add: piece_script_def [of _ _ Shebang] piece_script_def [of _ _ CommonFunctions] del: block.simps)
      (intro safe_block safe_lists safe_programs safe_set_up assms(2))
  show "proves W ?m"
    by (simp del: block.simps) (intro proves_later proves_last assms(3))
qed (fact assms(1))

text \<open>The facts on the probes, stated for any of the lists of a piece.\<close>

definition seen :: "('s \<Rightarrow> (string \<times> nat \<times> string) list) \<Rightarrow> piece \<Rightarrow> 's \<Rightarrow> bool" where
  "seen log p n \<longleftrightarrow> (\<exists>ts\<in>set (evidence p). succeeded ts (log n)) \<or> ((\<exists>t d. p = T_nvdriver t d) \<and> no_gpu (log n))"

lemma seenI: "ts \<in> set (evidence p) \<Longrightarrow> proves (\<lambda>n. succeeded ts (log n)) m \<Longrightarrow> proves (seen log p) m"
  by (fastforce simp: proves_def seen_def)

lemma lasting_seen: "records x log \<Longrightarrow> lasting x (seen log p)"
  by (auto simp: lasting_def seen_def no_gpu_def records_def intro: succeeded_append)

lemma piece_seen:
  assumes R: "records x log" and E: "evidence p \<noteq> []"
  shows "safe (seen log p) (piece_script x custom p) \<and> proves (seen log p) (piece_script x custom p)"
proof -
  define W where "W = seen log p"
  have L: "lasting x W" unfolding W_def by (rule lasting_seen [OF R])
  have S: "proves (\<lambda>n. succeeded ts (log n)) m \<Longrightarrow> ts \<in> set (evidence p) \<Longrightarrow> proves W m" for ts m
    unfolding W_def by (rule seenI)
  note P = probes [OF R, THEN S]
  have "safe W (piece_script x custom p) \<and> proves W (piece_script x custom p)"
  proof (cases p)
    case (T_nvdriver t d)
    have V: "proves (W) (holodeck_verify_driver x)"
      unfolding holodeck_verify_driver_def by (rule P(1)) (simp add: T_nvdriver evidence_def)
    have G: "proves (W) (negated (prog x lspci_gpu))"
      by (rule proves_mono [OF no_gpu_probe [OF R]]) (simp add: W_def seen_def T_nvdriver)
    show ?thesis
      using driver_scripts_safe [OF L V G] driver_scripts_prove [OF L V] by (simp add: T_nvdriver piece_script_def driver_piece_def)
  next
    case (T_docker t d)
    have V: "proves (W) (holodeck_verify_docker x)"
      unfolding holodeck_verify_docker_def by (rule P(2)) (simp add: T_docker evidence_def)
    show ?thesis
      using docker_scripts_safe [of W x] docker_scripts_prove [OF L V] by (simp add: T_docker piece_script_def docker_piece_def)
  next
    case (T_containerd t c)
    have V: "proves (W) (holodeck_verify_containerd x)"
      unfolding holodeck_verify_containerd_def by (rule P(2)) (simp add: T_containerd evidence_def)
    show ?thesis
      using containerd_scripts_safe [OF L V] containerd_scripts_prove [OF L V]
      by (simp add: T_containerd piece_script_def containerd_piece_def)
  next
    case (T_crio t c)
    have V: "proves (W) (holodeck_verify_crio x)"
      unfolding holodeck_verify_crio_def by (rule P(1)) (simp add: T_crio evidence_def)
    show ?thesis
      using crio_scripts_safe [OF L V] crio_scripts_prove [OF L V] by (simp add: T_crio piece_script_def crio_piece_def)
  next
    case (T_toolkit t c)
    have V: "proves (W) (holodeck_verify_toolkit x)"
      using E by (intro S [OF toolkit_probe [OF R]]) (auto simp: T_toolkit evidence_def split: if_splits)
    show ?thesis
      using E toolkit_scripts_safe [OF L V] toolkit_scripts_prove [OF L V]
      by (auto simp: T_toolkit piece_script_def toolkit_piece_def evidence_def split: if_splits)
  next
    case (T_kubernetes t k)
    have V: "ts \<in> set (evidence p) \<Longrightarrow> ts = [u] \<Longrightarrow> proves (W) (prog x u)" for ts u
      using S [OF proves_prog [OF R]] by blast
    have A: "t = ''KubeadmTemplate'' \<Longrightarrow> proves (W) (holodeck_verify_kubernetes x admin_conf)"
      "t = ''KubeadmTemplate'' \<Longrightarrow> proves (W) (holodeck_verify_kubernetes x ''$KUBECONFIG'')"
      unfolding holodeck_verify_kubernetes_def
      by (rule P(1), simp add: T_kubernetes evidence_def or_default_def)+
    show ?thesis
      using E kubeadm_script_safe [OF L A(1)] kubeadm_script_proves [OF L A(2)]
        kind_scripts_safe [OF L] kind_scripts_prove [OF L] microk8s_script_safe [OF L] microk8s_script_proves [OF L] V
      by (auto simp: T_kubernetes piece_script_def kubernetes_piece_def evidence_def kubectl_def kind_nodes_def sudo_def
          split: if_splits)
  qed (use E in \<open>simp_all add: evidence_def\<close>)
  then show ?thesis by (simp add: W_def)
qed

section \<open>A node to try the scripts on\<close>

text \<open>Every program succeeds, and is recorded; the files that are asked for do not exist.\<close>

definition willing :: "(string \<times> nat \<times> string) list machine" where
  "willing = \<lparr>mc_Run = (\<lambda>t n. (0, n @ [(t, 0, '''')])), mc_Output = (\<lambda>t n. ((0, ''''), n @ [(t, 0, '''')])),
     mc_Feed = (\<lambda>t i n. (0, n @ [(t, 0, '''')])), mc_Test = (\<lambda>t n. False), mc_Glob = (\<lambda>t n. []),
     mc_OsRelease = (\<lambda>n. Some (blank_release\<lparr>or_ID := ''ubuntu''\<rparr>)), mc_LogFormat = ''text''\<rparr>"

lemma records_willing: "records willing id"
  by (simp add: records_def willing_def)

text \<open>
  C8: A script of a component that ends with status 0 has seen the component work: one of the probes of its
  component was run with success while the script succeeded, on whichever of its ways the script ended; a driver is
  left out only on a node where no GPU was found.
\<close>

theorem scripts_see_their_component:
  assumes "records x log" and "log n = []" and "evidence p \<noteq> []"
    and "run_on_node x custom [Shebang, CommonFunctions, p] n = (0, s)"
  shows "(\<exists>ts\<in>set (evidence p). succeeded ts (log (sh_node s))) \<or> ((\<exists>t d. p = T_nvdriver t d) \<and> no_gpu (log (sh_node s)))"
  using run_piece [OF lasting_seen [OF assms(1)] conjunct1 [OF piece_seen [OF assms(1,3)]]
      conjunct2 [OF piece_seen [OF assms(1,3)]] assms(4)] by (simp add: seen_def)

definition node_kubernetes :: KubernetesTemplate where
  "node_kubernetes = \<lparr>kt_Version = ''v1.33.3'', kt_Installer = ''microk8s'', kt_KubeletReleaseVersion = '''', kt_Arch = '''',
     kt_CniPluginsVersion = '''', kt_CalicoVersion = '''', kt_CrictlVersion = '''', kt_K8sEndpointHost = '''', kt_K8sFeatureGates = '''',
     kt_UseLegacyInit = False, kt_CriSocket = '''', kt_Source = ''release'', kt_GitRepo = '''', kt_GitRef = '''', kt_GitCommit = '''',
     kt_TrackBranch = '''', kt_KindConfig = ''''\<rparr>"

definition microk8s_run :: "nat \<times> (string \<times> nat \<times> string) list shell" where
  "microk8s_run = run_on_node willing (\<lambda>t. nop) [Shebang, CommonFunctions, T_kubernetes ''microk8sTemplate'' node_kubernetes] []"

lemma microk8s_run_succeeds: "fst microk8s_run = 0"
  by code_simp

lemma scripts_see_their_component_witness:
  "succeeded [''sudo microk8s status --wait-ready''] (sh_node (snd microk8s_run)) \<or>
   succeeded [''sudo microk8s kubectl get nodes''] (sh_node (snd microk8s_run))"
proof -
  let ?p = "T_kubernetes ''microk8sTemplate'' node_kubernetes"
  have "run_on_node willing (\<lambda>t. nop) [Shebang, CommonFunctions, ?p] [] = (0, snd microk8s_run)"
    using microk8s_run_succeeds by (simp add: microk8s_run_def prod_eq_iff)
  then show ?thesis
    using scripts_see_their_component [OF records_willing, of "[]" ?p "\<lambda>t. nop" "snd microk8s_run"]
    by (simp add: evidence_def)
qed

section \<open>Retries\<close>

text \<open>The programs of \<open>n + 1\<close> attempts, the first wait being \<open>d\<close> seconds.\<close>

fun attempts :: "string \<Rightarrow> nat \<Rightarrow> nat \<Rightarrow> string list" where
  "attempts t 0 d = [t]"
| "attempts t (Suc n) d = t # (''sleep '' @ decimal d) # attempts t n (next_delay d)"

definition since :: "('s \<Rightarrow> (string \<times> nat \<times> string) list) \<Rightarrow> 's \<Rightarrow> 's \<Rightarrow> string list \<Rightarrow> bool" where
  "since log n n' ts \<longleftrightarrow> (\<exists>es. log n' = log n @ es \<and> filter (\<lambda>t. t \<noteq> ''date -Iseconds'') (map fst es) = ts)"

lemma since_refl: "since log n n []"
  by (simp add: since_def)

lemma since_trans: "since log n n' ts \<Longrightarrow> since log n' n'' us \<Longrightarrow> since log n n'' (ts @ us)"
  unfolding since_def by (metis append_assoc filter_append map_append)

lemma since_prog:
  assumes "records x log" and "prog x t i s = (r, s')" and "t \<noteq> ''date -Iseconds''"
  shows "since log (sh_node s) (sh_node s') [t]"
  using assms(2,3) recorded [OF assms(1)] by (auto simp: prog_def settle_def since_def split: prod.splits if_splits)

lemma since_log:
  assumes "records x log" and "holodeck_log x l c m i s = (r, s')"
  shows "since log (sh_node s) (sh_node s') []"
proof -
  obtain k v n where o: "mc_Output x ''date -Iseconds'' (sh_node s) = ((k, v), n)" by (metis prod.exhaust)
  then have "log n = log (sh_node s) @ [(''date -Iseconds'', k, v)]"
    using assms(1) unfolding records_def by (metis fst_conv snd_conv)
  then show ?thesis
    using assms(2) by (auto simp: holodeck_log_def call_def grab_def look_def print_text_def settle_def o since_def
        split: prod.splits status.splits if_splits)
qed

lemma log_ends:
  assumes "holodeck_log x l c m i s = (r, s')"
  shows "(\<exists>k. r = Done k) \<or> (\<exists>k. r = Exit k)"
  using assms by (cases r) (auto simp: holodeck_log_def call_def settle_def split: prod.splits status.splits if_splits)

lemma keep_status_prog:
  assumes "mc_Run x t (sh_node s) = (k, n)"
  shows "keep_status (prog x t) i s = (Done k, s\<lparr>sh_node := n, sh_errexit := True\<rparr>)"
  using assms by (simp add: keep_status_def bind_def set_e_def prog_def settle_def)

lemma attempt_rounds_failed:
  assumes "mc_Run x t (sh_node s) = (k, n')" and "k \<noteq> 0"
  shows "\<exists>m. attempt_rounds x c most (prog x t) 0 a d i s
      = bind (holodeck_log x ''ERROR'' c m) (\<lambda>_. give_back k) i (s\<lparr>sh_node := n', sh_errexit := True\<rparr>)"
    and "\<exists>m. attempt_rounds x c most (prog x t) (Suc n) a d i s
      = bind (holodeck_log x ''WARN'' c m) (\<lambda>_. bind (prog x (''sleep '' @ decimal d))
          (\<lambda>_. attempt_rounds x c most (prog x t) n (a + 1) (next_delay d))) i (s\<lparr>sh_node := n', sh_errexit := True\<rparr>)"
  using assms(2) by (auto simp: bind_def [of "keep_status _"] keep_status_prog [OF assms(1)])

lemma attempt_rounds_runs:
  assumes R: "records x log" and t: "t \<noteq> ''date -Iseconds''"
  shows "attempt_rounds x c most (prog x t) n a d i s = (r, s') \<Longrightarrow> \<forall>k. r \<noteq> Exit k \<Longrightarrow>
    \<exists>m k. m \<le> n \<and> r = Return k \<and> since log (sh_node s) (sh_node s') (attempts t m d) \<and> (k \<noteq> 0 \<longrightarrow> m = n)"
proof (induction n arbitrary: a d s)
  case 0
  obtain k n' where k: "mc_Run x t (sh_node s) = (k, n')" by fastforce
  let ?s = "s\<lparr>sh_node := n', sh_errexit := True\<rparr>"
  have one: "since log (sh_node s) n' [t]"
    using since_prog [OF R, of t True s] t k by (simp add: prog_def settle_def)
  show ?case
  proof (cases "k = 0")
    case True
    with 0 k one show ?thesis by (auto simp: keep_status_prog [OF k] bind_def give_back_def)
  next
    case False
    obtain m where "attempt_rounds x c most (prog x t) 0 a d i s = bind (holodeck_log x ''ERROR'' c m) (\<lambda>_. give_back k) i ?s"
      using attempt_rounds_failed(1) [OF k False] by blast
    moreover obtain r1 s1 where l: "holodeck_log x ''ERROR'' c m i ?s = (r1, s1)" by fastforce
    ultimately have "r = Return k" and "s' = s1"
      using 0 log_ends [OF l] by (auto simp: bind_def give_back_def l split: status.splits)
    with False since_trans [OF one] since_log [OF R l] show ?thesis by auto
  qed
next
  case (Suc n)
  obtain k n' where k: "mc_Run x t (sh_node s) = (k, n')" by fastforce
  let ?s = "s\<lparr>sh_node := n', sh_errexit := True\<rparr>"
  let ?z = "''sleep '' @ decimal d"
  have one: "since log (sh_node s) n' [t]"
    using since_prog [OF R, of t True s] t k by (simp add: prog_def settle_def)
  show ?case
  proof (cases "k = 0")
    case True
    with Suc.prems have "r = Return 0" and "s' = ?s" by (auto simp: keep_status_prog [OF k] bind_def give_back_def)
    with one show ?thesis by (intro exI [of _ 0]) simp
  next
    case False
    obtain m where m: "attempt_rounds x c most (prog x t) (Suc n) a d i s = bind (holodeck_log x ''WARN'' c m)
        (\<lambda>_. bind (prog x ?z) (\<lambda>_. attempt_rounds x c most (prog x t) n (a + 1) (next_delay d))) i ?s"
      using attempt_rounds_failed(2) [OF k False] by blast
    obtain r1 s1 where l: "holodeck_log x ''WARN'' c m i ?s = (r1, s1)" by fastforce
    obtain r2 s2 where z: "prog x ?z i s1 = (r2, s2)" by fastforce
    have "(\<exists>k. r2 = Done k) \<or> (\<exists>k. r2 = Exit k)"
      using z by (auto simp: prog_def settle_def split: prod.splits if_splits)
    with Suc.prems log_ends [OF l] have go: "attempt_rounds x c most (prog x t) n (a + 1) (next_delay d) i s2 = (r, s')"
      unfolding m by (auto simp: bind_def l z simp del: append.simps split: status.splits)
    have "since log n' (sh_node s1) []" using since_log [OF R l] by simp
    moreover have "since log (sh_node s1) (sh_node s2) [?z]"
      by (rule since_prog [OF R z]) simp
    ultimately have "since log (sh_node s) (sh_node s2) [t, ?z]"
      using since_trans [OF one] since_trans by fastforce
    moreover obtain b k where b: "b \<le> n" "r = Return k" "since log (sh_node s2) (sh_node s') (attempts t b (next_delay d))"
        "k \<noteq> 0 \<longrightarrow> b = n"
      using Suc.IH [OF go Suc.prems(2)] by blast
    ultimately have "since log (sh_node s) (sh_node s') (attempts t (Suc b) d)"
      using since_trans by fastforce
    with b show ?thesis by (intro exI [of _ "Suc b"] exI [where x = k]) simp_all
  qed
qed

definition fresh_shell :: "'s machine \<Rightarrow> 's \<Rightarrow> 's shell" where
  "fresh_shell x n = \<lparr>sh_node = n, sh_errexit = True, sh_stdout = '''', sh_family = '''', sh_manager = '''', sh_fedora = '''',
     sh_format = mc_LogFormat x, sh_trap = ''''\<rparr>"

text \<open>A node without a network.\<close>

definition offline :: "(string \<times> nat \<times> string) list machine" where
  "offline = willing\<lparr>mc_Run := (\<lambda>t n. let k = (if prefix ''curl'' t then 6 else 0) in (k, n @ [(t, k, '''')]))\<rparr>"

lemma records_offline: "records offline id"
  by (simp add: records_def offline_def willing_def Let_def)



section \<open>What goes wrong\<close>

lemma log_prints:
  assumes "mc_Output x ''date -Iseconds'' (sh_node s) = ((0, v), n)"
  shows "holodeck_log x l c m i s = (Done 0, s\<lparr>sh_node := n, sh_stdout := sh_stdout s @ log_line (sh_format s) v l c m\<rparr>)"
  using assms by (simp add: holodeck_log_def call_def grab_def look_def print_text_def settle_def)

lemma log_line_prints: "log_line f v l c m \<noteq> ''''"
  by (simp add: log_line_def line_of_def)

definition writes_on :: "'s sh \<Rightarrow> bool" where
  "writes_on m \<longleftrightarrow> (\<forall>i s. prefix (sh_stdout s) (sh_stdout (snd (m i s))))"

lemma writes_on_bind: "writes_on m \<Longrightarrow> (\<And>k. writes_on (f k)) \<Longrightarrow> writes_on (bind m f)"
  unfolding writes_on_def bind_def
  by (auto split: prod.splits status.splits) (metis prefix_order.trans snd_conv)+

lemma writes_on_simple: "writes_on (prog x t)" "writes_on (give_back k)" "writes_on (keep_status (prog x t))" "writes_on (holodeck_log x l c m)"
  by (auto simp: writes_on_def holodeck_log_def keep_status_def print_text_def shell_defs split: prod.splits status.splits if_splits)

lemma writes_on_retry: "writes_on (attempt_rounds x c most (prog x t) n a d)"
  by (induction n arbitrary: a d) (auto intro!: writes_on_bind writes_on_simple)

lemma snd_call: "snd (call m i s) = snd (m i s)"
  by (auto simp: call_def settle_def split: prod.splits status.splits)

text \<open>
  Where a download that is retried is piped into another program, such as \<open>tar\<close> or \<open>gpg\<close>, the messages
  about failed attempts go into the pipe as well: as soon as the first attempt fails, the program reads text
  that was not downloaded.
\<close>

theorem retry_messages_reach_the_pipe:
  assumes "\<And>n. fst (fst (mc_Output x ''date -Iseconds'' n)) = 0"
  shows "\<exists>input n. (input = '''' \<longleftrightarrow> fst (mc_Run x t (sh_node s)) = 0)
    \<and> piped x (retry3 x c (prog x t)) u i s = feed x u input i (s\<lparr>sh_node := n\<rparr>)"
proof -
  let ?s = "s\<lparr>sh_stdout := '''', sh_trap := ''''\<rparr>" and ?m = "attempt_rounds x c 3 (prog x t) 2 1 5"
  obtain k n where k: "mc_Run x t (sh_node ?s) = (k, n)" by fastforce
  obtain r s' where r: "?m i ?s = (r, s')" by fastforce
  have "sh_stdout s' = '''' \<longleftrightarrow> k = 0"
  proof (cases "k = 0")
    case True
    with r show ?thesis
      by (auto simp: numeral_2_eq_2 bind_def keep_status_prog [OF k] give_back_def)
  next
    case False
    let ?g = "\<lambda>_. bind (prog x (''sleep '' @ decimal 5)) (\<lambda>_. attempt_rounds x c 3 (prog x t) 1 (1 + 1) (next_delay 5))"
    let ?n = "?s\<lparr>sh_node := n, sh_errexit := True\<rparr>"
    obtain l where l: "?m i ?s = bind (holodeck_log x ''WARN'' c l) ?g i ?n"
      using attempt_rounds_failed(2) [OF k False, of c 3 1 1 5 i] unfolding One_nat_def numeral_2_eq_2 by blast
    obtain v n' where o: "mc_Output x ''date -Iseconds'' (sh_node ?n) = ((0, v), n')"
      using assms [of "sh_node ?n"] by (metis prod.collapse)
    have "?m i ?s = ?g 0 i (?n\<lparr>sh_node := n', sh_stdout := sh_stdout ?n @ log_line (sh_format ?n) v ''WARN'' c l\<rparr>)"
      unfolding l bind_def [of "holodeck_log _ _ _ _"] log_prints [OF o] by simp
    then have s': "snd (?g 0 i (?n\<lparr>sh_node := n', sh_stdout := log_line (sh_format ?n) v ''WARN'' c l\<rparr>)) = s'"
      using r by simp
    have "writes_on (?g 0)" by (intro writes_on_bind writes_on_simple writes_on_retry)
    then have "prefix (sh_stdout z) (sh_stdout (snd (?g 0 i z)))" for z by (simp add: writes_on_def)
    from this [of "?n\<lparr>sh_node := n', sh_stdout := log_line (sh_format ?n) v ''WARN'' c l\<rparr>"]
    have "prefix (log_line (sh_format ?n) v ''WARN'' c l) (sh_stdout s')" unfolding s' by simp
    with False log_line_prints show ?thesis by fastforce
  qed
  moreover have "piped x (retry3 x c (prog x t)) u i s = feed x u (sh_stdout s') i (s\<lparr>sh_node := sh_node s'\<rparr>)"
    using snd_call [of ?m i ?s] r by (auto simp: piped_def retry3_def holodeck_retry_def split: prod.splits)
  ultimately show ?thesis using k by (intro exI [of _ "sh_stdout s'"] exI [of _ "sh_node s'"]) auto
qed

lemma retry_messages_reach_the_pipe_witness:
  "\<exists>input n. input \<noteq> '''' \<and> piped offline (retry3 offline ''cni'' (prog offline ''curl'')) ''tar -xz'' True (fresh_shell offline [])
     = feed offline ''tar -xz'' input True ((fresh_shell offline [])\<lparr>sh_node := n\<rparr>)"
  using retry_messages_reach_the_pipe [of offline "''curl''" "fresh_shell offline []" "''cni''" "''tar -xz''" True]
  by (simp add: offline_def willing_def Let_def)

section \<open>The version of the driver\<close>

lemma safe_grab_any_good:
  assumes "\<And>v. lasts W (m v)" and "\<And>v. \<not> good v \<Longrightarrow> safe W (m v)" and "\<And>k v n n'. mc_Output x t n = ((k, v), n') \<Longrightarrow> good v \<Longrightarrow> W n'"
  shows "safe W (grab_any x t m)"
proof (rule safeI)
  fix i s s'
  assume "grab_any x t m i s = (Exit 0, s')"
  moreover obtain k v n where o: "mc_Output x t (sh_node s) = ((k, v), n)" by (metis prod.collapse)
  ultimately have g: "m v i (s\<lparr>sh_node := n\<rparr>) = (Exit 0, s')" by (simp add: grab_any_def)
  show "W (sh_node s')"
  proof (cases "good v")
    case True
    then show ?thesis using lastsD [OF assms(1) g] assms(3) [OF o] by simp
  next
    case False
    then show ?thesis using assms(2) g by (auto simp: safe_def)
  qed
qed

lemma proves_grab_good:
  assumes "\<And>v. lasts W (m v)" and "\<And>v. \<not> good v \<Longrightarrow> proves W (m v)" and "\<And>k v n n'. mc_Output x t n = ((k, v), n') \<Longrightarrow> good v \<Longrightarrow> W n'"
  shows "proves W (grab x t m)"
  unfolding proves_def
proof (intro allI impI)
  fix i s s'
  assume "grab x t m i s = (Done 0, s')"
  moreover obtain k v n where o: "mc_Output x t (sh_node s) = ((k, v), n)" by (metis prod.collapse)
  ultimately have g: "m v i (s\<lparr>sh_node := n\<rparr>) = (Done 0, s')"
    by (auto simp: grab_def settle_def split: if_splits)
  show "W (sh_node s')"
  proof (cases "good v")
    case True
    then show ?thesis using lastsD [OF assms(1) g] assms(3) [OF o] by simp
  next
    case False
    then show ?thesis using assms(2) g by (auto simp: proves_def)
  qed
qed

definition pinned :: "('s \<Rightarrow> (string \<times> nat \<times> string) list) \<Rightarrow> string \<Rightarrow> 's \<Rightarrow> bool" where
  "pinned log v n \<longleftrightarrow> no_gpu (log n) \<or> (\<exists>k. (driver_query, k, v) \<in> set (log n))"

lemma lasting_pinned: "records x log \<Longrightarrow> lasting x (pinned log v)"
  by (auto simp: lasting_def pinned_def no_gpu_def records_def)

lemma reads_pinned: "records x log \<Longrightarrow> mc_Output x driver_query n = ((k, v), n') \<Longrightarrow> pinned log v n'"
  unfolding records_def pinned_def by (metis fst_conv in_set_conv_decomp snd_conv)

lemma package_pinned:
  assumes R: "records x log" and v: "nv_Version d \<noteq> ''''"
  shows "safe (pinned log (nv_Version d)) (nvDriverPackageScript x d)"
    and "proves (pinned log (nv_Version d)) (nvDriverPackageScript x d)"
proof -
  let ?W = "pinned log (nv_Version d)"
  note L = lasting_pinned [OF R, of "nv_Version d"]
  have G: "safe ?W (skip_without_gpu x)"
    by (rule safe_skip_without_gpu, rule proves_mono [OF no_gpu_probe [OF R]]) (simp add: pinned_def)
  have K: "lasts ?W (only_if (holodeck_verify_driver x) (block [holodeck_mark_installed x driver i, leave 0]))" for i
    unfolding holodeck_verify_driver_def or_return_1_def by (intro shell_keeps L)
  have D: "safe ?W (driver_present x (nv_Version d))"
    unfolding driver_present_def
    by (rule safe_only_if [OF safe_programs(5)], rule safe_grab_any_good [where good = "\<lambda>i. i = nv_Version d"])
      (use v K reads_pinned [OF R] in \<open>auto intro: keeps_if keeps_simple safe_programs\<close>)
  show "safe ?W (nvDriverPackageScript x d)"
    unfolding nvDriverPackageScript_def cuda_repository_def cuda_repo_debian_def cuda_repo_rhel_def dkms_rebuild_def
      driver_finish_def driver_verified_def Let_def
    by (intro G D shell_safe; simp)
  let ?m = "\<lambda>w. block [
       only_if (both (check (nv_Version d \<noteq> '''')) (check (w \<noteq> nv_Version d)))
         (holodeck_error x 11 driver (''Driver version mismatch: desired='' @ nv_Version d @ '' installed='' @ w)
           (''Verify that version '' @ nv_Version d
             @ '' is available in the configured CUDA repo, or pin to an available version'')),
       write_provenance x ''/etc/nvidia-driver'' [(''source'', ''package''), (''branch'', nv_Branch d), (''version'', w)],
       holodeck_mark_installed x driver w]"
  have "proves ?W (?m w)" if "w \<noteq> nv_Version d" for w
  proof (rule proves_tail)
    show "settles ?W (only_if (both (check (nv_Version d \<noteq> '''')) (check (w \<noteq> nv_Version d))) (holodeck_error x e c t r))" for e c t r
      using stops_exits(2) [of x e c t r] v that
      by (auto simp: settles_def stops_def only_if_def branch_def both_def check_def settle_def)
  qed (intro shell_keeps L)
  moreover have "lasts ?W (?m w)" for w
    by (intro shell_keeps L)
  ultimately have "proves ?W (grab x driver_query ?m)"
    using reads_pinned [OF R] by (intro proves_grab_good [where good = "\<lambda>w. w = nv_Version d"]) auto
  then have "proves ?W (driver_finish x d)"
    unfolding driver_finish_def by (intro proves_later proves_last)
  then show "proves ?W (nvDriverPackageScript x d)"
    unfolding nvDriverPackageScript_def by (auto simp del: block.simps intro!: proves_later proves_last)
qed

text \<open>
  C9: The packaged driver with a version that is asked for: a script that ends with status 0 has read exactly this
  version from \<open>nvidia-smi\<close>, unless no GPU was found. A driver of another version, installed before or by the
  repository, is an error.
\<close>

theorem driver_version_is_the_one_asked_for:
  assumes "records x log" and "log n = []" and "nv_Version d \<noteq> ''''"
    and "run_on_node x custom [Shebang, CommonFunctions, T_nvdriver ''nvDriverPackageTemplate'' d] n = (0, s)"
  shows "no_gpu (log (sh_node s)) \<or> (\<exists>k. (driver_query, k, nv_Version d) \<in> set (log (sh_node s)))"
  using run_piece [OF lasting_pinned [OF assms(1)] _ _ assms(4), of "nv_Version d"] package_pinned [OF assms(1,3)]
  by (simp add: piece_script_def driver_piece_def pinned_def)

text \<open>A node on which the driver 570.1 works.\<close>

definition with_driver :: "(string \<times> nat \<times> string) list machine" where
  "with_driver = willing\<lparr>mc_Output := (\<lambda>t n. let v = (if t = driver_query then ''570.1'' else '''') in ((0, v), n @ [(t, 0, v)]))\<rparr>"

lemma records_with_driver: "records with_driver id"
  by (simp add: records_def with_driver_def willing_def Let_def)

definition node_driver :: NvDriver where
  "node_driver = \<lparr>nv_Source = ''package'', nv_Branch = '''', nv_Version = ''570.1'', nv_RunfileURL = '''', nv_RunfileChecksum = '''',
     nv_GitRepo = '''', nv_GitRef = '''', nv_GitCommit = ''''\<rparr>"

definition driver_run :: "nat \<times> (string \<times> nat \<times> string) list shell" where
  "driver_run = run_on_node with_driver (\<lambda>t. nop) [Shebang, CommonFunctions, T_nvdriver ''nvDriverPackageTemplate'' node_driver] []"

lemma driver_run_succeeds: "fst driver_run = 0"
  by code_simp

lemma driver_version_is_the_one_asked_for_witness:
  "no_gpu (sh_node (snd driver_run)) \<or> (\<exists>k. (driver_query, k, ''570.1'') \<in> set (sh_node (snd driver_run)))"
proof -
  have "run_on_node with_driver (\<lambda>t. nop) [Shebang, CommonFunctions, T_nvdriver ''nvDriverPackageTemplate'' node_driver] [] = (0, snd driver_run)"
    using driver_run_succeeds by (simp add: driver_run_def prod_eq_iff)
  then show ?thesis
    using driver_version_is_the_one_asked_for [OF records_with_driver, of "[]" node_driver "\<lambda>t. nop" "snd driver_run"]
    by (simp add: node_driver_def)
qed

end
