(* ===== verification/Spec2Isabelle.thy ===== *)
theory Spec2Isabelle
  imports Api_Validation Dependency Provenance Ami Teardown_Waits Lifecycle Cleaner_Props Template_Props Cluster_Props Action_Props Retry
    Update_Props Remote_Props Check_Commands Skill_Props Logger_Props Node_Props
begin

text \<open>
  NVIDIA holodeck creates, provisions and deletes test environments with GPUs: it reads a description of an
  environment, makes the resources in AWS (or takes a machine that is there), and runs shell scripts on the
  nodes that install a kernel, the NVIDIA driver, a container runtime, the container toolkit and Kubernetes.
  This library models the Go sources, and the shell text that they carry, and proves what the parts promise
  to each other. Paths below are relative to the root of the repository.

  \<^bold>\<open>How the parts work together.\<close> The command line (\<open>cmd/cli\<close>) and the GitHub action (\<open>cmd/action\<close>) read an
  environment (\<open>api/holodeck/v1alpha1\<close>) and call the AWS provider (\<open>pkg/provider/aws\<close>), which notes every resource
  in the cache file of the instance (\<open>internal/instances\<close>, \<open>pkg/jyaml\<close>). The provisioner (\<open>pkg/provisioner\<close>) resolves
  the components to install into an ordered list of steps, renders one script per step from the templates
  (\<open>pkg/provisioner/templates\<close>) and runs it over SSH (\<open>pkg/sshutil\<close>). Deletion and cleanup work from the cache file
  or from what AWS reports of a VPC (\<open>pkg/cleanup\<close>). The repository tests all this on an in-memory account
  (\<open>internal/aws/awsfake\<close>), which is modelled too.

  \<^bold>\<open>Conventions.\<close> A Go struct is a record with prefixed fields, an interface is a record of operations, a
  pointer that may be nil an option, a map an association list in the order of insertion. A function with
  effects is a state transformer that returns \<open>Inl\<close> of an error or \<open>Inr\<close> of a result with the new state of the
  world (\<open>Prelude\<close>: \<open>andthen\<close>, \<open>catch\<close>, \<open>fail\<close>, \<open>ret\<close>). What is outside the repository, the AWS account, files,
  SSH, HTTP, clocks, the YAML codec, is a parameter in the world or in a record of functions. Goroutines that
  only wait for each other run one after the other in an order that is a parameter; animations of the logger,
  which do interleave, are an inductive step relation.

  \<^bold>\<open>The description of an environment.\<close> \<open>Api_Types\<close> (\<open>types.go\<close>), \<open>Api_Validation\<close> (\<open>validation.go\<close>), \<open>Dependency\<close>
  (\<open>pkg/provisioner/dependency.go\<close>: the resolver), \<open>Provenance\<close> (\<open>provenance.go\<close>). The properties: what validation
  accepts is exactly the well-formed clusters; labels are free of shell metacharacters; steps come in
  installation order.

  \<^bold>\<open>The AWS account.\<close> \<open>Aws_Sdk\<close> (the client interfaces), \<open>Fake_Store\<close>, \<open>Fake_EC2\<close>, \<open>Fake_ELB\<close>, \<open>Fake_World\<close>
  (\<open>internal/aws/awsfake\<close>), \<open>Ami\<close> (\<open>internal/ami\<close>). Two locales state what the provider relies on of any account:
  \<open>Contract\<close> with \<open>Contract_Delete\<close> for deletions, \<open>Build_Contract\<close> for creations as well, and \<open>Cleaner_Contract\<close> for
  the cleaner. \<open>Fake_Contract\<close>, \<open>Fake_Build\<close> and \<open>Fake_Cleaner\<close> interpret them on the fake account, which is also shown
  to refine an abstract account, a set of live resources.

  \<^bold>\<open>The AWS provider.\<close> \<open>Provider_State\<close> (\<open>aws.go\<close>, \<open>status.go\<close>), \<open>Nlb\<close> (\<open>nlb.go\<close>), \<open>Teardown\<close> (\<open>delete.go\<close>), \<open>Net_IP\<close>
  (\<open>pkg/utils/ip.go\<close>), \<open>Image_Lookup\<close> (\<open>image.go\<close>, \<open>dryrun.go\<close>, \<open>update.go\<close>), \<open>Create_Steps\<close>, \<open>Create\<close> (\<open>create.go\<close>), \<open>Cluster\<close>
  (\<open>cluster.go\<close>), \<open>Retry\<close> (\<open>retry.go\<close>). Their properties are in \<open>Status_Props\<close>, \<open>Teardown_Props\<close>, \<open>Teardown_Waits\<close>, \<open>Rollback\<close>,
  \<open>Success\<close>, \<open>Fake_Create\<close>, \<open>Fake_Delete\<close> and \<open>Lifecycle\<close>: every resource a creation makes is named in the cache, a
  failed creation leaves at most the resource of the failing step, a deletion removes exactly what the
  environment owns and undoes a creation, and on the fake account both succeed.

  \<^bold>\<open>The cleaner.\<close> \<open>Cleaner\<close> (\<open>pkg/cleanup\<close>, \<open>cmd/cli/cleanup\<close>) and \<open>Cleaner_Props\<close>: it stays inside the VPC, and spares
  it only when GitHub says that a job runs.

  \<^bold>\<open>Scripts.\<close> \<open>Template_Checks\<close> (\<open>validate.go\<close>, \<open>pkg/provisioner/dryrun.go\<close>), \<open>Go_Path\<close> (path/filepath), \<open>Custom_Templates\<close>
  (\<open>custom.go\<close>), \<open>Templates\<close> (the constructors and \<open>Execute\<close> methods), \<open>Provision_Steps\<close> (the step functions,
  \<open>pkg/gitref\<close>), \<open>Template_Props\<close>. A script is a list of pieces: a template with the data it is executed with.

  \<^bold>\<open>What the scripts do.\<close> \<open>Shell\<close> embeds the bash that the templates use: statuses, \<open>set -e\<close> with the places where it
  does not count, functions, exits, traps, pipes. Programs on the node are parameters that are given the text
  of the command. \<open>Node_Library\<close> is \<open>common.go\<close>; \<open>Docker_Script\<close>, \<open>Runtime_Scripts\<close> (\<open>crio.go\<close>, \<open>containerd.go\<close>),
  \<open>Driver_Scripts\<close> (\<open>kernel.go\<close>, \<open>nv-driver.go\<close>), \<open>Toolkit_Scripts\<close>, \<open>Kubeadm_Scripts\<close> and \<open>Kubernetes_Scripts\<close> are the
  templates, which \<open>run_on_node\<close> puts together. \<open>Shell_Rules\<close> has the rules for what a script has seen when it ends
  with status 0 (\<open>safe\<close> for early exits, \<open>proves\<close> for the end, \<open>lasts\<close> for what is kept), declared into collections,
  \<open>Script_Props\<close> applies them to every template, and \<open>Node_Props\<close> has the properties.

  \<^bold>\<open>Provisioning.\<close> \<open>Ssh\<close> (\<open>pkg/sshutil\<close>, \<open>pkg/provisioner/transport.go\<close>), \<open>Provisioner\<close> (\<open>provisioner.go\<close>),
  \<open>Cluster_Provisioner\<close> (\<open>cluster.go\<close>), with \<open>Quiet_Calls\<close>, \<open>Provisioner_Frame\<close>, \<open>Provisioner_Props\<close> and \<open>Cluster_Props\<close>: a
  run that succeeds has started every step in order; what it leaves alone; the order of the nodes of a
  cluster; when a cluster is healthy; host keys and retries of the dialer.

  \<^bold>\<open>Commands.\<close> \<open>Instances\<close>, \<open>Remote_Access\<close> (kubeconfig, hosts), \<open>Create_Command\<close>, \<open>Action\<close> (\<open>cmd/action\<close>), \<open>Update_Command\<close>
  (update, delete), \<open>Remote_Commands\<close> (ssh, scp, get), \<open>Report_Output\<close> (list, status, \<open>pkg/output\<close>), \<open>Describe_Command\<close>,
  \<open>Check_Commands\<close> (dryrun, os), \<open>Skill\<close> (\<open>pkg/skill\<close>), \<open>Logger\<close>, with their properties in the theories named \<open>Props\<close>.

  \<^bold>\<open>Bounds.\<close> Recursion with a counter follows a counter of the code: 10 attempts of \<open>retryWithBackoff\<close>, 36 polls
  for a NAT gateway, 3 attempts for a VPC, 20 dials (5 for SSM), 10 attempts for a rebooting node, 3 attempts of
  \<open>kubeadm init\<close>, the number given to \<open>holodeck_retry\<close>, 5 rounds of package installation, waits of 120 seconds. The wait
  for network interfaces polls until a time limit; it has fuel in the model and is shown to end within 32
  rounds when sleeping advances the clock. Listings of AWS are read up to \<open>pl_Pages\<close> pages, a parameter.
  \<open>with_retry\<close>, which may run forever, is a partial function.

  \<^bold>\<open>Not modelled.\<close> The programs that run on a node, AWS itself, and the SDK; flag declarations and help texts;
  messages that are only printed; contexts, except where a cancellation changes what is done; the mutex of the
  fake account; connection deadlines and the keepalive goroutine of SSH; the generated copies of
  \<open>zz_generated.deepcopy.go\<close>, as values need no copying; mocks and tests. A byte is a character.
\<close>

end
